(* ===== verification/Npk_Prelude.thy ===== *)
theory Npk_Prelude
  imports Main "HOL-Library.Word"
begin

text \<open>
  Shared vocabulary of the development: the machine-integer types of
  \<^verbatim>\<open>include/npk/types.h\<close>, the error numbers the kernel returns as negative integers, the
  page-size arithmetic every memory component performs, and the generic facts on words, lists
  and loops that the component theories reuse.  Facts about masks and wrap-around are collected
  in \<open>npk_word\<close>, definitional equations that proofs unfold together in \<open>npk_defs\<close>.
\<close>

unbundle bit_operations_syntax

named_theorems npk_word \<open>masks, alignment and wrap-around on machine words\<close>
named_theorems npk_defs \<open>definitional equations of small kernel helpers\<close>
named_theorems npk_frame \<open>what an operation leaves unchanged\<close>

type_synonym u8 = "8 word"
type_synonym u16 = "16 word"
type_synonym u32 = "32 word"
type_synonym u64 = "64 word"
type_synonym paddr = u64
type_synonym vaddr = u64

abbreviation (input) NPK_PAGE_SIZE :: u64 where "NPK_PAGE_SIZE \<equiv> 4096"
abbreviation (input) UINT64_MAX :: u64 where "UINT64_MAX \<equiv> 0xffffffffffffffff"
abbreviation (input) UINT32_MAX :: u32 where "UINT32_MAX \<equiv> 0xffffffff"
abbreviation (input) NPK_USER_MIN :: u64 where "NPK_USER_MIN \<equiv> 0x10000"
abbreviation (input) NPK_USER_MAX :: u64 where "NPK_USER_MAX \<equiv> 0x800000000000"

subsection \<open>Error numbers\<close>

text \<open>
  The kernel returns errors as negated Linux error numbers.  The model names them and keeps a
  failing call apart from a successful one by a sum: \<open>Inl\<close> an error, \<open>Inr\<close> the result.
\<close>

datatype errno =
  EPERM | ENOENT | ESRCH | EINTR | EIO | ENOEXEC | EBADF | ECHILD | EAGAIN | ENOMEM
  | EACCES | EFAULT | EEXIST | ENODEV | ENOTDIR | EISDIR | EINVAL | EMFILE | ENOTTY | EFBIG
  | ENOSPC | ESPIPE | EROFS | EPIPE | ERANGE | ENAMETOOLONG | ENOSYS | EOVERFLOW | ETIMEDOUT

fun errno_num :: "errno \<Rightarrow> int" where
  "errno_num EPERM = 1"
| "errno_num ENOENT = 2"
| "errno_num ESRCH = 3"
| "errno_num EINTR = 4"
| "errno_num EIO = 5"
| "errno_num ENOEXEC = 8"
| "errno_num EBADF = 9"
| "errno_num ECHILD = 10"
| "errno_num EAGAIN = 11"
| "errno_num ENOMEM = 12"
| "errno_num EACCES = 13"
| "errno_num EFAULT = 14"
| "errno_num EEXIST = 17"
| "errno_num ENODEV = 19"
| "errno_num ENOTDIR = 20"
| "errno_num EISDIR = 21"
| "errno_num EINVAL = 22"
| "errno_num EMFILE = 24"
| "errno_num ENOTTY = 25"
| "errno_num EFBIG = 27"
| "errno_num ENOSPC = 28"
| "errno_num ESPIPE = 29"
| "errno_num EROFS = 30"
| "errno_num EPIPE = 32"
| "errno_num ERANGE = 34"
| "errno_num ENAMETOOLONG = 36"
| "errno_num ENOSYS = 38"
| "errno_num EOVERFLOW = 75"
| "errno_num ETIMEDOUT = 110"

type_synonym 'a result = "errno + 'a"

subsection \<open>Masks and disjoint bit fields\<close>

lemma unat_and_mask:
  fixes x :: "'a::len word"
  shows "unat (x AND mask n) = unat x mod 2 ^ n"
proof -
  have "unat (x AND mask n) = unat (take_bit n x)" by (simp only: take_bit_eq_mask)
  also have "\<dots> = take_bit n (unat x)" by (simp only: unsigned_take_bit_eq)
  finally show ?thesis by (simp only: take_bit_eq_mod)
qed

lemma unat_or_disjoint:
  fixes a b :: "'a::len word"
  assumes "a AND b = 0"
  shows "unat (a OR b) = unat a + unat b"
proof -
  have "\<not> bit (unat a) n \<or> \<not> bit (unat b) n" for n
    using arg_cong [OF assms, of "\<lambda>w. bit w n"] by (auto simp: bit_simps)
  then show ?thesis unfolding unsigned_or_eq by (intro disjunctive_add [symmetric])
qed

lemma unat_and_not_mask:
  fixes x :: "'a::len word"
  shows "unat (x AND NOT (mask n)) = unat x div 2 ^ n * 2 ^ n"
proof -
  have "(x AND mask n) AND (x AND NOT (mask n)) = 0"
    by (rule bit_word_eqI) (auto simp: bit_simps)
  moreover have "(x AND mask n) OR (x AND NOT (mask n)) = x"
    by (rule bit_word_eqI) (auto simp: bit_simps)
  ultimately have "unat x = unat (x AND mask n) + unat (x AND NOT (mask n))"
    by (metis unat_or_disjoint)
  then show ?thesis
    by (simp add: unat_and_mask) (metis add_diff_cancel_left' minus_mod_eq_div_mult)
qed

lemma unat_and_4095 [npk_word]: "unat (x AND 4095) = unat x mod 4096" for x :: u64
  using unat_and_mask [of x 12] by (simp add: mask_eq_exp_minus_1)

text \<open>The simplifier normalises \<open>NOT 4095\<close> to \<open>- 4096\<close>, so the facts are stated in that form.\<close>

lemma unat_page_floor [npk_word]: "unat (x AND - 4096) = unat x div 4096 * 4096" for x :: u64
  using unat_and_not_mask [of x 12] by (simp add: mask_eq_exp_minus_1)

lemma unat_and_15 [npk_word]: "unat (x AND 15) = unat x mod 16" for x :: u64
  using unat_and_mask [of x 4] by (simp add: mask_eq_exp_minus_1)

lemma unat_floor_16 [npk_word]: "unat (x AND - 16) = unat x div 16 * 16" for x :: u64
  using unat_and_not_mask [of x 4] by (simp add: mask_eq_exp_minus_1)

lemma page_aligned_iff [npk_word]: "x AND 4095 = 0 \<longleftrightarrow> unat x mod 4096 = 0" for x :: u64
  by (metis unat_and_4095 unat_eq_zero)

lemma page_floor_aligned: "(x AND - 4096) AND 4095 = 0" for x :: u64
  by (simp add: npk_word)

lemma page_floor_le: "x AND - 4096 \<le> x" for x :: u64
  by (rule word_and_le2)

lemma page_floor_id: "x AND 4095 = 0 \<Longrightarrow> x AND - 4096 = x" for x :: u64
proof -
  assume "x AND 4095 = 0"
  then have "4096 dvd unat x" by (simp add: page_aligned_iff dvd_eq_mod_eq_0)
  then show ?thesis by (simp add: unat_page_floor word_unat_eq_iff)
qed

end
