(* ===== verification/Pmm.thy ===== *)
theory Pmm
  imports Npk_Prelude
begin

text \<open>
  The physical page allocator, \<^verbatim>\<open>src/memory/pmm.c\<close>.  Its static variables are the fields of
  \<open>pmm_state\<close>; the arrays \<^verbatim>\<open>page_bitmap\<close> and \<^verbatim>\<open>page_refs\<close> are functions from the index, of which
  the code only ever reads the indices below \<open>BITMAP_WORDS\<close> and \<open>MAX_TRACKED_PAGES\<close>.  The
  operations are polymorphic in the record's extension, so the later components (which add the
  kernel's other variables to the state) call them unchanged.

  The theory proves the bookkeeping invariant \<open>pmm_wf\<close> for every reachable state, shows that the
  bitmap scan implements an allocator that hands out the lowest free page, and states the contract
  the clients of the allocator rely on as the locale \<open>page_allocator\<close>.
\<close>

abbreviation (input) MAX_TRACKED_PAGES :: nat where "MAX_TRACKED_PAGES \<equiv> 1048576"
abbreviation (input) BITMAP_WORDS :: nat where "BITMAP_WORDS \<equiv> 16384"
abbreviation (input) EARLY_RESERVED_END :: nat where "EARLY_RESERVED_END \<equiv> 0x01000000"

record pmm_state =
  page_bitmap :: "nat \<Rightarrow> u64"
  page_refs :: "nat \<Rightarrow> u32"
  total_pages :: u64
  free_pages :: u64
  hhdm_offset :: u64

text \<open>One entry of the memory map the boot loader hands over.\<close>

record limine_memmap_entry =
  entry_base :: u64
  entry_length :: u64
  entry_type :: u64

abbreviation (input) LIMINE_MEMMAP_USABLE :: u64 where "LIMINE_MEMMAP_USABLE \<equiv> 0"

definition set_used :: "nat \<Rightarrow> 'a pmm_state_scheme \<Rightarrow> 'a pmm_state_scheme" where
  "set_used page s = s\<lparr>page_bitmap := (page_bitmap s)
     (page div 64 := page_bitmap s (page div 64) OR push_bit (page mod 64) 1)\<rparr>"

definition set_free :: "nat \<Rightarrow> 'a pmm_state_scheme \<Rightarrow> 'a pmm_state_scheme" where
  "set_free page s = s\<lparr>page_bitmap := (page_bitmap s)
     (page div 64 := page_bitmap s (page div 64) AND NOT (push_bit (page mod 64) 1))\<rparr>"

definition is_used :: "'a pmm_state_scheme \<Rightarrow> nat \<Rightarrow> bool" where
  "is_used s page \<longleftrightarrow> drop_bit (page mod 64) (page_bitmap s (page div 64)) AND 1 \<noteq> 0"

text \<open>\<^verbatim>\<open>pmm_init\<close>: the body of the page loop, one memory-map entry, all entries.\<close>

definition pmm_init_page :: "nat \<Rightarrow> 'a pmm_state_scheme \<Rightarrow> 'a pmm_state_scheme" where
  "pmm_init_page page s =
     (if page * 4096 < EARLY_RESERVED_END then s
      else if is_used s page then (set_free page s)\<lparr>free_pages := free_pages s + 1\<rparr>
      else s)"

definition pmm_init_entry :: "limine_memmap_entry \<Rightarrow> 'a pmm_state_scheme \<Rightarrow> 'a pmm_state_scheme" where
  "pmm_init_entry entry s =
     (let first = unat (entry_base entry) div 4096;
          last = unat (entry_base entry + entry_length entry) div 4096;
          last = (if last > MAX_TRACKED_PAGES then MAX_TRACKED_PAGES else last)
      in if entry_type entry \<noteq> LIMINE_MEMMAP_USABLE \<or> first \<ge> last then s
         else (fold pmm_init_page [first..<last] s)
                \<lparr>total_pages := total_pages s + of_nat (last - first)\<rparr>)"

definition pmm_init ::
  "limine_memmap_entry list option \<Rightarrow> u64 option \<Rightarrow> 'a pmm_state_scheme \<Rightarrow> 'a pmm_state_scheme" where
  "pmm_init memmap hhdm s =
     (let s = s\<lparr>page_bitmap := (\<lambda>_. UINT64_MAX), page_refs := (\<lambda>_. 0), total_pages := 0,
                 free_pages := 0, hhdm_offset := (case hhdm of None \<Rightarrow> 0 | Some off \<Rightarrow> off)\<rparr>
      in case memmap of None \<Rightarrow> s | Some entries \<Rightarrow> fold pmm_init_entry entries s)"

text \<open>\<^verbatim>\<open>pmm_alloc_page\<close>: the two nested scans, then the bookkeeping for the page found.\<close>

function pmm_scan_bits :: "'a pmm_state_scheme \<Rightarrow> nat \<Rightarrow> nat \<Rightarrow> nat option" where
  "pmm_scan_bits s word bitno =
     (if bitno < 64 then
        (let page = word * 64 + bitno
         in if page \<ge> MAX_TRACKED_PAGES \<or> is_used s page
            then pmm_scan_bits s word (bitno + 1) else Some page)
      else None)"
  by pat_completeness auto
termination by (relation "measure (\<lambda>(s, word, bitno). 64 - bitno)") auto

function pmm_scan_words :: "'a pmm_state_scheme \<Rightarrow> nat \<Rightarrow> nat option" where
  "pmm_scan_words s word =
     (if word < BITMAP_WORDS then
        (if page_bitmap s word = UINT64_MAX then pmm_scan_words s (word + 1)
         else case pmm_scan_bits s word 0 of
                Some page \<Rightarrow> Some page
              | None \<Rightarrow> pmm_scan_words s (word + 1))
      else None)"
  by pat_completeness auto
termination by (relation "measure (\<lambda>(s, word). BITMAP_WORDS - word)") auto

declare pmm_scan_bits.simps [simp del] pmm_scan_words.simps [simp del]

definition page_addr :: "nat \<Rightarrow> paddr" where
  "page_addr page = of_nat (page * 4096)"

definition pmm_alloc_page :: "'a pmm_state_scheme \<Rightarrow> paddr \<times> 'a pmm_state_scheme" where
  "pmm_alloc_page s =
     (case pmm_scan_words s 0 of
        None \<Rightarrow> (0, s)
      | Some page \<Rightarrow>
          (page_addr page,
           (set_used page s)
             \<lparr>page_refs := (page_refs s)(page := 1),
              free_pages := (if free_pages s \<noteq> 0 then free_pages s - 1 else free_pages s)\<rparr>))"

definition page_of :: "paddr \<Rightarrow> nat" where
  "page_of physical = unat physical div 4096"

definition pmm_retain_page :: "paddr \<Rightarrow> 'a pmm_state_scheme \<Rightarrow> 'a pmm_state_scheme" where
  "pmm_retain_page physical s =
     (let page = page_of physical
      in if unat physical mod 4096 \<noteq> 0 \<or> page \<ge> MAX_TRACKED_PAGES \<or> \<not> is_used s page then s
         else if page_refs s page \<noteq> UINT32_MAX
              then s\<lparr>page_refs := (page_refs s)(page := page_refs s page + 1)\<rparr> else s)"

definition pmm_page_refs :: "'a pmm_state_scheme \<Rightarrow> paddr \<Rightarrow> u32" where
  "pmm_page_refs s physical =
     (let page = page_of physical
      in if unat physical mod 4096 \<noteq> 0 \<or> page \<ge> MAX_TRACKED_PAGES \<or> \<not> is_used s page then 0
         else page_refs s page)"

definition pmm_free_page :: "paddr \<Rightarrow> 'a pmm_state_scheme \<Rightarrow> 'a pmm_state_scheme" where
  "pmm_free_page physical s =
     (let page = page_of physical
      in if unat physical mod 4096 \<noteq> 0 \<or> page \<ge> MAX_TRACKED_PAGES \<or> \<not> is_used s page
            \<or> page_refs s page = 0 then s
         else let s = s\<lparr>page_refs := (page_refs s)(page := page_refs s page - 1)\<rparr>
              in if page_refs s page \<noteq> 0 then s
                 else (set_free page s)\<lparr>free_pages := free_pages s + 1\<rparr>)"

definition pmm_total_pages :: "'a pmm_state_scheme \<Rightarrow> u64" where
  "pmm_total_pages s = total_pages s"

definition pmm_free_pages :: "'a pmm_state_scheme \<Rightarrow> u64" where
  "pmm_free_pages s = free_pages s"

definition phys_to_virt :: "'a pmm_state_scheme \<Rightarrow> paddr \<Rightarrow> vaddr" where
  "phys_to_virt s physical = physical + hhdm_offset s"

definition virt_to_phys :: "'a pmm_state_scheme \<Rightarrow> vaddr \<Rightarrow> paddr" where
  "virt_to_phys s virtual_address = virtual_address - hhdm_offset s"

subsection \<open>The bitmap\<close>

lemma is_used_bit: "is_used s p \<longleftrightarrow> bit (page_bitmap s (p div 64)) (p mod 64)"
  by (simp add: is_used_def bit_iff_and_drop_bit_eq_1 and_one_eq)

lemma page_index_eq: "p div 64 = q div 64 \<Longrightarrow> p mod 64 = q mod 64 \<Longrightarrow> p = q" for p q :: nat
  by (metis div_mult_mod_eq)

lemma is_used_set_used [simp]: "is_used (set_used q s) p \<longleftrightarrow> p = q \<or> is_used s p"
  by (auto simp: is_used_bit set_used_def bit_simps dest: page_index_eq)

lemma is_used_set_free [simp]: "is_used (set_free q s) p \<longleftrightarrow> p \<noteq> q \<and> is_used s p"
  by (auto simp: is_used_bit set_free_def bit_simps dest: page_index_eq)

lemma is_used_cong: "page_bitmap s = page_bitmap t \<Longrightarrow> is_used s = is_used t"
  by (simp add: is_used_bit fun_eq_iff)

lemma is_used_update [simp]:
  "is_used (s\<lparr>page_refs := r\<rparr>) = is_used s"
  "is_used (s\<lparr>free_pages := n\<rparr>) = is_used s"
  "is_used (s\<lparr>total_pages := n\<rparr>) = is_used s"
  by (simp_all add: is_used_bit fun_eq_iff)

lemma set_used_simps [simp]:
  "page_refs (set_used p s) = page_refs s" "free_pages (set_used p s) = free_pages s"
  "total_pages (set_used p s) = total_pages s" "hhdm_offset (set_used p s) = hhdm_offset s"
  "pmm_state.more (set_used p s) = pmm_state.more s"
  by (simp_all add: set_used_def)

lemma set_free_simps [simp]:
  "page_refs (set_free p s) = page_refs s" "free_pages (set_free p s) = free_pages s"
  "total_pages (set_free p s) = total_pages s" "hhdm_offset (set_free p s) = hhdm_offset s"
  "pmm_state.more (set_free p s) = pmm_state.more s"
  by (simp_all add: set_free_def)

lemma bitmap_word_full:
  "page_bitmap s w = UINT64_MAX \<longleftrightarrow> (\<forall>b < 64. is_used s (w * 64 + b))"
proof -
  have "page_bitmap s w = UINT64_MAX \<longleftrightarrow> page_bitmap s w = mask 64"
    by (simp add: mask_eq_exp_minus_1)
  also have "\<dots> \<longleftrightarrow> (\<forall>b < 64. bit (page_bitmap s w) b)"
    by (auto simp: bit_eq_iff bit_simps)
  finally show ?thesis by (simp add: is_used_bit)
qed

subsection \<open>The bookkeeping invariant\<close>

text \<open>
  \<open>free_set\<close> is the abstract content of the bitmap.  The invariant: a free page has no references,
  the first 16 MiB are never free and never referenced, and the counter \<^verbatim>\<open>free_pages\<close> is the number of free pages.
\<close>

definition free_set :: "'a pmm_state_scheme \<Rightarrow> nat set" where
  "free_set s = {p. p < MAX_TRACKED_PAGES \<and> \<not> is_used s p}"

definition pmm_wf :: "'a pmm_state_scheme \<Rightarrow> bool" where
  "pmm_wf s \<longleftrightarrow> (\<forall>p \<in> free_set s. page_refs s p = 0)
     \<and> (\<forall>p. p * 4096 < EARLY_RESERVED_END \<longrightarrow> is_used s p \<and> page_refs s p = 0)
     \<and> unat (free_pages s) = card (free_set s)"

lemma finite_free_set [simp]: "finite (free_set s)"
  by (simp add: free_set_def)

lemma card_free_set_le: "card (free_set s) \<le> MAX_TRACKED_PAGES"
proof -
  have "card (free_set s) \<le> card {..<MAX_TRACKED_PAGES}"
    by (rule card_mono) (auto simp: free_set_def)
  then show ?thesis by simp
qed

lemma in_free_set: "p \<in> free_set s \<longleftrightarrow> p < MAX_TRACKED_PAGES \<and> \<not> is_used s p"
  by (simp add: free_set_def)

lemma free_set_update [simp]:
  "free_set (s\<lparr>page_refs := r\<rparr>) = free_set s"
  "free_set (s\<lparr>free_pages := n\<rparr>) = free_set s"
  "free_set (s\<lparr>total_pages := n\<rparr>) = free_set s"
  by (simp_all add: free_set_def)

lemma free_set_set_free [simp]:
  "p < MAX_TRACKED_PAGES \<Longrightarrow> free_set (set_free p s) = insert p (free_set s)"
  by (auto simp: free_set_def)

lemma free_set_set_used [simp]: "free_set (set_used p s) = free_set s - {p}"
  by (auto simp: free_set_def)

lemma unat_count_up:
  "unat (n :: u64) = card (free_set s) \<Longrightarrow> unat (n + 1) = Suc (card (free_set s))"
  using card_free_set_le [of s] by (simp add: unat_word_ariths)

lemma unat_count_down: "n \<noteq> 0 \<Longrightarrow> unat (n - 1) = unat n - 1" for n :: u64
  by (simp add: unat_minus_one)

lemma pmm_wf_refs: "pmm_wf s \<Longrightarrow> p \<in> free_set s \<Longrightarrow> page_refs s p = 0"
  by (simp add: pmm_wf_def)

lemma pmm_wf_page0: "pmm_wf s \<Longrightarrow> 0 \<notin> free_set s"
  by (auto simp: pmm_wf_def in_free_set)

lemma pmm_init_page_wf:
  assumes "pmm_wf s" "page < MAX_TRACKED_PAGES" "\<forall>p. page_refs s p = 0"
  shows "pmm_wf (pmm_init_page page s) \<and> (\<forall>p. page_refs (pmm_init_page page s) p = 0)"
  using assms unat_count_up [of "free_pages s" s]
  by (auto simp: pmm_init_page_def pmm_wf_def in_free_set)

lemma pmm_init_pages_wf:
  assumes "\<forall>p \<in> set ps. p < MAX_TRACKED_PAGES" "pmm_wf s" "\<forall>p. page_refs s p = 0"
  shows "pmm_wf (fold pmm_init_page ps s) \<and> (\<forall>p. page_refs (fold pmm_init_page ps s) p = 0)"
  using assms
proof (induction ps arbitrary: s)
  case (Cons p ps)
  then show ?case using pmm_init_page_wf [of s p] by simp
qed simp

lemma pmm_wf_total [simp]: "pmm_wf (s\<lparr>total_pages := n\<rparr>) = pmm_wf s"
  by (simp add: pmm_wf_def)

lemma pmm_init_entry_wf:
  assumes "pmm_wf s" "\<forall>p. page_refs s p = 0"
  shows "pmm_wf (pmm_init_entry e s) \<and> (\<forall>p. page_refs (pmm_init_entry e s) p = 0)"
  using assms by (auto simp: pmm_init_entry_def Let_def pmm_init_pages_wf)

lemma pmm_init_entries_wf:
  assumes "pmm_wf s" "\<forall>p. page_refs s p = 0"
  shows "pmm_wf (fold pmm_init_entry es s)"
  using assms
proof (induction es arbitrary: s)
  case (Cons e es)
  then show ?case using pmm_init_entry_wf [of s e] by simp
qed simp

lemma all_used_full: "page_bitmap s = (\<lambda>_. UINT64_MAX) \<Longrightarrow> is_used s p"
  using bitmap_word_full [of s "p div 64"] by simp (metis div_mult_mod_eq mod_less_divisor zero_less_numeral)

lemma pmm_init_wf: "pmm_wf (pmm_init memmap hhdm s)"
proof -
  define t where "t = s\<lparr>page_bitmap := (\<lambda>_. UINT64_MAX), page_refs := (\<lambda>_. 0), total_pages := 0,
                 free_pages := 0, hhdm_offset := (case hhdm of None \<Rightarrow> 0 | Some off \<Rightarrow> off)\<rparr>"
  have u: "is_used t p" for p by (simp add: t_def all_used_full)
  then have "free_set t = {}" by (simp add: free_set_def)
  then have "pmm_wf t" "\<forall>p. page_refs t p = 0" by (simp_all add: pmm_wf_def u) (simp_all add: t_def)
  then show ?thesis
    by (simp add: pmm_init_def Let_def pmm_init_entries_wf flip: t_def split: option.split)
qed

subsection \<open>The scan finds the lowest free page\<close>

lemma from_Suc:
  "x \<notin> S \<Longrightarrow> \<forall>q \<in> S. Suc x \<le> q \<longrightarrow> P q \<Longrightarrow> q \<in> S \<Longrightarrow> x \<le> q \<Longrightarrow> P q" for x :: nat
  by (metis Suc_leI le_neq_implies_less)

lemma pmm_scan_bits_unfold:
  "pmm_scan_bits s w b = (if b < 64 then if w * 64 + b \<in> free_set s then Some (w * 64 + b)
     else pmm_scan_bits s w (b + 1) else None)"
  by (subst pmm_scan_bits.simps) (auto simp: in_free_set Let_def)

lemma pmm_scan_bits_Some:
  assumes "pmm_scan_bits s w b = Some p"
  shows "p \<in> free_set s \<and> (\<forall>q \<in> free_set s. w * 64 + b \<le> q \<longrightarrow> p \<le> q)"
  using assms
proof (induction "64 - b" arbitrary: b)
  case 0
  then show ?case by (simp add: pmm_scan_bits_unfold [of s w b])
next
  case (Suc n)
  then have n: "n = 64 - (b + 1)" by simp
  show ?case using Suc.prems Suc.hyps(1) [OF n]
    by (auto simp: pmm_scan_bits_unfold [of s w b] split: if_splits elim: from_Suc)
qed

lemma pmm_scan_bits_None:
  assumes "pmm_scan_bits s w b = None"
  shows "\<forall>q \<in> free_set s. w * 64 + b \<le> q \<longrightarrow> (w + 1) * 64 \<le> q"
  using assms
proof (induction "64 - b" arbitrary: b)
  case (Suc n)
  then have n: "n = 64 - (b + 1)" by simp
  show ?case using Suc.prems Suc.hyps(1) [OF n]
    by (auto simp: pmm_scan_bits_unfold [of s w b] split: if_splits elim: from_Suc)
qed auto

lemma free_word_full:
  assumes "page_bitmap s w = UINT64_MAX" "q \<in> free_set s" "w * 64 \<le> q"
  shows "(w + 1) * 64 \<le> q"
proof (rule ccontr)
  assume "\<not> (w + 1) * 64 \<le> q"
  then have "q - w * 64 < 64" "q = w * 64 + (q - w * 64)" using assms(3) by auto
  then have "is_used s q" using assms(1) unfolding bitmap_word_full by metis
  then show False using assms(2) by (simp add: in_free_set)
qed

lemma pmm_scan_words_Some:
  assumes "pmm_scan_words s w = Some p"
  shows "p \<in> free_set s \<and> (\<forall>q \<in> free_set s. w * 64 \<le> q \<longrightarrow> p \<le> q)"
  using assms
proof (induction "BITMAP_WORDS - w" arbitrary: w)
  case 0
  then show ?case by (simp add: pmm_scan_words.simps [of s w])
next
  case (Suc n)
  then have n: "n = BITMAP_WORDS - (w + 1)" by simp
  show ?case using Suc.prems Suc.hyps(1) [OF n]
    using pmm_scan_bits_Some [of s w 0 p] pmm_scan_bits_None [of s w 0] free_word_full [of s w]
    by (simp add: pmm_scan_words.simps [of s w] split: if_splits option.splits)
qed

lemma pmm_scan_words_None:
  assumes "pmm_scan_words s w = None" "q \<in> free_set s"
  shows "q < w * 64"
  using assms
proof (induction "BITMAP_WORDS - w" arbitrary: w)
  case 0
  then show ?case by (simp add: in_free_set)
next
  case (Suc n)
  then have n: "n = BITMAP_WORDS - (w + 1)" "w < BITMAP_WORDS" by simp_all
  show ?case using Suc.prems Suc.hyps(1) [OF n(1)] n(2)
    using pmm_scan_bits_None [of s w 0] free_word_full [of s w q]
    by (force simp: pmm_scan_words.simps [of s w] not_less split: if_splits option.splits)
qed

lemma pmm_scan_words_least:
  "pmm_scan_words s 0 = (if free_set s = {} then None else Some (Min (free_set s)))"
proof (cases "pmm_scan_words s 0")
  case None
  then show ?thesis using pmm_scan_words_None [of s 0] by fastforce
next
  case (Some p)
  then have "p \<in> free_set s" "\<forall>q \<in> free_set s. p \<le> q" using pmm_scan_words_Some [of s 0 p] by auto
  then show ?thesis using Some by (auto intro!: Min_eqI [symmetric])
qed

subsection \<open>The operations\<close>

lemma unat_page_addr [simp]: "p < MAX_TRACKED_PAGES \<Longrightarrow> unat (page_addr p) = p * 4096"
  by (simp add: page_addr_def unat_of_nat del: of_nat_mult)

lemma page_of_page_addr [simp]: "p < MAX_TRACKED_PAGES \<Longrightarrow> page_of (page_addr p) = p"
  by (simp add: page_of_def)

lemma page_addr_page_of: "unat a mod 4096 = 0 \<Longrightarrow> page_addr (page_of a) = a"
  by (auto simp: page_addr_def page_of_def elim!: dvdE simp flip: dvd_eq_mod_eq_0)

lemma page_addr_0_iff [simp]: "p < MAX_TRACKED_PAGES \<Longrightarrow> page_addr p = 0 \<longleftrightarrow> p = 0"
  by (metis mult_is_0 unat_0 unat_page_addr unat_eq_zero zero_neq_numeral)

text \<open>\<open>tracked s a\<close>: \<open>a\<close> is the base of a page the bitmap marks as in use, the guard of the three
  reference-count operations.\<close>

definition tracked :: "'a pmm_state_scheme \<Rightarrow> paddr \<Rightarrow> bool" where
  "tracked s a \<longleftrightarrow> unat a mod 4096 = 0 \<and> page_of a < MAX_TRACKED_PAGES \<and> is_used s (page_of a)"

lemma tracked_not_free: "tracked s a \<Longrightarrow> page_of a \<notin> free_set s"
  by (simp add: tracked_def in_free_set)

lemma pmm_retain_page_eq:
  "pmm_retain_page a s = (if tracked s a \<and> page_refs s (page_of a) \<noteq> UINT32_MAX
     then s\<lparr>page_refs := (page_refs s)(page_of a := page_refs s (page_of a) + 1)\<rparr> else s)"
  by (simp add: pmm_retain_page_def tracked_def Let_def not_le)

lemma pmm_page_refs_eq: "pmm_page_refs s a = (if tracked s a then page_refs s (page_of a) else 0)"
  by (simp add: pmm_page_refs_def tracked_def Let_def not_le)

lemma pmm_free_page_eq:
  "pmm_free_page a s = (if tracked s a \<and> page_refs s (page_of a) \<noteq> 0
     then let t = s\<lparr>page_refs := (page_refs s)(page_of a := page_refs s (page_of a) - 1)\<rparr>
          in if page_refs s (page_of a) = 1
             then (set_free (page_of a) t)\<lparr>free_pages := free_pages s + 1\<rparr> else t
     else s)"
  by (simp add: pmm_free_page_def tracked_def Let_def not_le)

lemma pmm_alloc_page_none: "free_set s = {} \<Longrightarrow> pmm_alloc_page s = (0, s)"
  by (simp add: pmm_alloc_page_def pmm_scan_words_least)

lemma pmm_alloc_page_some:
  assumes "pmm_wf s" "free_set s \<noteq> {}"
  obtains p where "p = Min (free_set s)" "p \<in> free_set s" "p < MAX_TRACKED_PAGES" "p \<noteq> 0"
    "page_addr p \<noteq> 0" "free_pages s \<noteq> 0" "page_refs s p = 0"
    "pmm_alloc_page s = (page_addr p,
       (set_used p s)\<lparr>page_refs := (page_refs s)(p := 1), free_pages := free_pages s - 1\<rparr>)"
proof -
  define p where "p = Min (free_set s)"
  have p: "p \<in> free_set s" using assms by (simp add: p_def)
  then have q: "p < MAX_TRACKED_PAGES" "p \<noteq> 0" using pmm_wf_page0 [OF assms(1)]
    by (auto simp: in_free_set intro: gr0I)
  have "unat (free_pages s) \<noteq> 0" using assms by (simp add: pmm_wf_def)
  then have f: "free_pages s \<noteq> 0" by auto
  then have "pmm_alloc_page s = (page_addr p,
       (set_used p s)\<lparr>page_refs := (page_refs s)(p := 1), free_pages := free_pages s - 1\<rparr>)"
    using assms by (simp add: pmm_alloc_page_def pmm_scan_words_least p_def)
  with p q f show thesis by (intro that) (simp_all add: p_def pmm_wf_refs [OF assms(1)])
qed

lemma pmm_alloc_page_wf:
  assumes "pmm_wf s"
  shows "pmm_wf (snd (pmm_alloc_page s))"
proof (cases "free_set s = {}")
  case False
  then obtain p where p: "p \<in> free_set s" "free_pages s \<noteq> 0" "snd (pmm_alloc_page s) =
     (set_used p s)\<lparr>page_refs := (page_refs s)(p := 1), free_pages := free_pages s - 1\<rparr>"
    using pmm_alloc_page_some [OF assms] by (metis snd_conv)
  have "unat (free_pages s - 1) = card (free_set s - {p})"
    using p assms by (simp add: unat_count_down pmm_wf_def)
  then show ?thesis using assms p by (auto simp: pmm_wf_def in_free_set)
qed (simp add: pmm_alloc_page_none assms)

lemma pmm_retain_page_wf:
  "pmm_wf s \<Longrightarrow> pmm_page_refs s a \<noteq> 0 \<Longrightarrow> pmm_wf (pmm_retain_page a s)"
  by (auto simp: pmm_retain_page_eq pmm_page_refs_eq pmm_wf_def dest: tracked_not_free split: if_splits)

lemma pmm_free_page_wf:
  assumes "pmm_wf s"
  shows "pmm_wf (pmm_free_page a s)"
proof (cases "tracked s a \<and> page_refs s (page_of a) \<noteq> 0")
  case True
  then have "page_of a < MAX_TRACKED_PAGES" "page_of a \<notin> free_set s"
    by (auto simp: tracked_def in_free_set)
  then show ?thesis using True assms unat_count_up [of "free_pages s" s]
    by (auto simp: pmm_free_page_eq Let_def pmm_wf_def)
qed (auto simp: pmm_free_page_eq assms)

lemma pmm_free_more [simp]: "pmm_state.more (pmm_free_page a s) = pmm_state.more s"
  by (simp add: pmm_free_page_eq Let_def)

lemma pmm_retain_more [simp]: "pmm_state.more (pmm_retain_page a s) = pmm_state.more s"
  by (simp add: pmm_retain_page_eq)

lemma pmm_alloc_more [simp]: "pmm_state.more (snd (pmm_alloc_page s)) = pmm_state.more s"
  by (simp add: pmm_alloc_page_def split: option.split)

lemma pmm_page_refs_update [simp]: "pmm_page_refs (s\<lparr>free_pages := n\<rparr>) = pmm_page_refs s"
  by (simp add: pmm_page_refs_eq tracked_def fun_eq_iff)

subsection \<open>The contract of the allocator\<close>

text \<open>
  What the clients (page tables, virtual memory areas, heap, shared memory) use of the allocator:
  a returned page is page aligned and had no reference, reference counts move by one, and a failed
  allocation changes nothing.
\<close>

locale page_allocator =
  fixes alloc :: "'s \<Rightarrow> paddr \<times> 's"
    and retain :: "paddr \<Rightarrow> 's \<Rightarrow> 's"
    and free :: "paddr \<Rightarrow> 's \<Rightarrow> 's"
    and refs :: "'s \<Rightarrow> paddr \<Rightarrow> u32"
    and inv :: "'s \<Rightarrow> bool"
  assumes alloc_inv: "inv s \<Longrightarrow> inv (snd (alloc s))"
    and retain_inv: "inv s \<Longrightarrow> refs s a \<noteq> 0 \<Longrightarrow> inv (retain a s)"
    and free_inv: "inv s \<Longrightarrow> inv (free a s)"
    and alloc_fail: "inv s \<Longrightarrow> fst (alloc s) = 0 \<Longrightarrow> snd (alloc s) = s"
    and alloc_aligned: "inv s \<Longrightarrow> unat (fst (alloc s)) mod 4096 = 0"
    and alloc_fresh: "inv s \<Longrightarrow> fst (alloc s) \<noteq> 0 \<Longrightarrow> refs s (fst (alloc s)) = 0"
    and alloc_refs: "inv s \<Longrightarrow> fst (alloc s) \<noteq> 0 \<Longrightarrow> refs (snd (alloc s)) = (refs s)(fst (alloc s) := 1)"
    and retain_refs: "inv s \<Longrightarrow> refs s a \<noteq> 0 \<Longrightarrow> refs s a \<noteq> UINT32_MAX \<Longrightarrow>
          refs (retain a s) = (refs s)(a := refs s a + 1)"
    and free_refs: "inv s \<Longrightarrow> refs (free a s) = (refs s)(a := if refs s a = 0 then 0 else refs s a - 1)"
    and refs_null: "inv s \<Longrightarrow> refs s 0 = 0"

text \<open>A client that takes pages one after the other and stops at the first failure.\<close>

fun alloc_n :: "('s \<Rightarrow> paddr \<times> 's) \<Rightarrow> nat \<Rightarrow> 's \<Rightarrow> paddr list \<times> 's" where
  "alloc_n alloc 0 s = ([], s)"
| "alloc_n alloc (Suc n) s =
     (let (p, t) = alloc s
      in if p = 0 then ([], t) else let (ps, u) = alloc_n alloc n t in (p # ps, u))"

context page_allocator
begin

lemma alloc_n_inv: "inv s \<Longrightarrow> inv (snd (alloc_n alloc n s))"
proof (induction n arbitrary: s)
  case (Suc n)
  then show ?case using alloc_inv [of s] by (auto split: prod.splits) (metis snd_conv)
qed simp

lemma alloc_n_refs:
  assumes "inv s" "alloc_n alloc n s = (ps, t)"
  shows "distinct ps \<and> 0 \<notin> set ps \<and> (\<forall>p \<in> set ps. refs s p = 0)
     \<and> refs t = (\<lambda>p. if p \<in> set ps then 1 else refs s p)"
  using assms
proof (induction n arbitrary: s ps t)
  case (Suc n)
  obtain p u where u: "alloc s = (p, u)" by force
  show ?case
  proof (cases "p = 0")
    case True
    then show ?thesis using Suc.prems u alloc_fail [of s] by simp
  next
    case False
    obtain qs v where v: "alloc_n alloc n u = (qs, v)" by force
    have "inv u" using alloc_inv [OF Suc.prems(1)] u by simp
    from Suc.IH [OF this v] show ?thesis
      using Suc.prems u v False alloc_fresh [OF Suc.prems(1)] alloc_refs [OF Suc.prems(1)]
      by (auto simp: fun_eq_iff split: if_splits)
  qed
qed simp

lemma free_all_refs:
  assumes "inv s" "distinct ps" "\<forall>p \<in> set ps. refs s p = 1"
  shows "refs (fold free ps s) = (\<lambda>p. if p \<in> set ps then 0 else refs s p)"
  using assms
proof (induction ps arbitrary: s)
  case (Cons p ps)
  have "\<forall>q \<in> set ps. refs (free p s) q = 1" using Cons.prems by (auto simp: free_refs)
  with Cons show ?case by (auto simp: free_inv free_refs)
qed simp

lemma alloc_n_rollback:
  assumes "inv s" "alloc_n alloc n s = (ps, t)"
  shows "refs (fold free ps t) = refs s"
  using alloc_n_refs [OF assms] alloc_n_inv [OF assms(1), of n] assms(2)
  by (auto simp: free_all_refs fun_eq_iff)

end

lemma pmm_alloc_refs_law:
  assumes "pmm_wf s" "fst (pmm_alloc_page s) \<noteq> 0"
  shows "pmm_page_refs (snd (pmm_alloc_page s)) = (pmm_page_refs s)(fst (pmm_alloc_page s) := 1)"
proof -
  have "free_set s \<noteq> {}" using assms(2) pmm_alloc_page_none [of s] by auto
  from pmm_alloc_page_some [OF assms(1) this] obtain p where p: "p < MAX_TRACKED_PAGES"
    "pmm_alloc_page s = (page_addr p,
       (set_used p s)\<lparr>page_refs := (page_refs s)(p := 1), free_pages := free_pages s - 1\<rparr>)" by metis
  show ?thesis
  proof
    fix a
    show "pmm_page_refs (snd (pmm_alloc_page s)) a = ((pmm_page_refs s)(fst (pmm_alloc_page s) := 1)) a"
      using p page_addr_page_of [of a] by (auto simp: pmm_page_refs_eq tracked_def)
  qed
qed

lemma pmm_refs_zero_free: "pmm_wf s \<Longrightarrow> p \<in> free_set s \<Longrightarrow> pmm_page_refs s (page_addr p) = 0"
  by (simp add: pmm_page_refs_eq tracked_def in_free_set)

lemma pmm_alloc_fresh_law:
  assumes "pmm_wf s"
  shows "pmm_page_refs s (fst (pmm_alloc_page s)) = 0"
    "unat (fst (pmm_alloc_page s)) mod 4096 = 0"
    "fst (pmm_alloc_page s) = 0 \<Longrightarrow> snd (pmm_alloc_page s) = s"
proof -
  consider "pmm_alloc_page s = (0, s)"
    | p t where "p \<in> free_set s" "page_addr p \<noteq> 0" "pmm_alloc_page s = (page_addr p, t)"
    using pmm_alloc_page_none pmm_alloc_page_some [OF assms] by metis
  note cs = this
  have z: "pmm_page_refs s 0 = 0" using assms by (simp add: pmm_page_refs_eq pmm_wf_def page_of_def)
  show "pmm_page_refs s (fst (pmm_alloc_page s)) = 0"
    by (cases rule: cs) (simp_all add: z pmm_refs_zero_free assms)
  show "unat (fst (pmm_alloc_page s)) mod 4096 = 0"
    by (cases rule: cs) (simp_all add: in_free_set)
  show "fst (pmm_alloc_page s) = 0 \<Longrightarrow> snd (pmm_alloc_page s) = s"
    by (cases rule: cs) simp_all
qed

lemma page_of_inj: "4096 dvd unat a \<Longrightarrow> 4096 dvd unat b \<Longrightarrow> page_of a = page_of b \<Longrightarrow> a = b"
  by (metis page_addr_page_of mod_0_imp_dvd dvd_imp_mod_0)

lemma pmm_retain_refs_law:
  "pmm_page_refs s a \<noteq> 0 \<Longrightarrow> pmm_page_refs s a \<noteq> UINT32_MAX \<Longrightarrow>
   pmm_page_refs (pmm_retain_page a s) = (pmm_page_refs s)(a := pmm_page_refs s a + 1)"
  by (auto simp: fun_eq_iff pmm_page_refs_eq pmm_retain_page_eq tracked_def
      dest: page_of_inj split: if_splits)

lemma pmm_free_refs_law:
  "pmm_page_refs (pmm_free_page a s) =
    (pmm_page_refs s)(a := if pmm_page_refs s a = 0 then 0 else pmm_page_refs s a - 1)"
  by (auto simp: fun_eq_iff pmm_page_refs_eq pmm_free_page_eq tracked_def Let_def
      dest: page_of_inj split: if_splits)

interpretation pmm: page_allocator pmm_alloc_page pmm_retain_page pmm_free_page pmm_page_refs pmm_wf
proof unfold_locales
  fix s :: "'a pmm_state_scheme" and a
  assume "pmm_wf s"
  then show "pmm_page_refs s 0 = 0" by (simp add: pmm_page_refs_eq pmm_wf_def page_of_def)
qed (simp_all add: pmm_alloc_page_wf pmm_retain_page_wf pmm_free_page_wf pmm_alloc_fresh_law
    pmm_alloc_refs_law pmm_retain_refs_law pmm_free_refs_law)

subsection \<open>Runs of the allocator\<close>

text \<open>
  The states the allocator goes through from boot on, under any interleaving of its callers.  A
  page is only ever retained by a holder of a reference (\<^verbatim>\<open>clone_user_table\<close>, \<^verbatim>\<open>vm_map_shared\<close>).
\<close>

inductive pmm_step :: "'a pmm_state_scheme \<Rightarrow> 'a pmm_state_scheme \<Rightarrow> bool" where
  step_alloc: "pmm_step s (snd (pmm_alloc_page s))"
| step_retain: "pmm_page_refs s a \<noteq> 0 \<Longrightarrow> pmm_step s (pmm_retain_page a s)"
| step_free: "pmm_step s (pmm_free_page a s)"

inductive pmm_reachable :: "'a pmm_state_scheme \<Rightarrow> bool" where
  reach_init: "pmm_reachable (pmm_init memmap hhdm s)"
| reach_step: "pmm_reachable s \<Longrightarrow> pmm_step s t \<Longrightarrow> pmm_reachable t"

inductive_cases pmm_stepE: "pmm_step s t"

text \<open>The abstract allocator: a set of free page numbers and a reference count for each page.\<close>

record page_pool =
  pool_free :: "nat set"
  pool_refs :: "nat \<Rightarrow> nat"

definition pool_of :: "'a pmm_state_scheme \<Rightarrow> page_pool" where
  "pool_of s = \<lparr>pool_free = free_set s, pool_refs = (\<lambda>p. unat (page_refs s p))\<rparr>"

definition pool_alloc :: "page_pool \<Rightarrow> nat option \<times> page_pool" where
  "pool_alloc P = (if pool_free P = {} then (None, P)
     else let p = Min (pool_free P)
          in (Some p, P\<lparr>pool_free := pool_free P - {p}, pool_refs := (pool_refs P)(p := 1)\<rparr>))"

definition pool_retain :: "nat \<Rightarrow> page_pool \<Rightarrow> page_pool" where
  "pool_retain p P = (if p \<in> pool_free P then P
     else P\<lparr>pool_refs := (pool_refs P)(p := min (2 ^ 32 - 1) (pool_refs P p + 1))\<rparr>)"

definition pool_release :: "nat \<Rightarrow> page_pool \<Rightarrow> page_pool" where
  "pool_release p P =
     P\<lparr>pool_refs := (pool_refs P)(p := pool_refs P p - 1),
       pool_free := (if pool_refs P p = 1 then insert p (pool_free P) else pool_free P)\<rparr>"

lemma unat_u32_max: "unat (n :: u32) \<le> 2 ^ 32 - 1"
  using unsigned_less [of n, where ?'a = nat] by simp

lemma unat_u32_neq_max: "n \<noteq> UINT32_MAX \<Longrightarrow> unat n < 2 ^ 32 - 1" for n :: u32
  using unat_u32_max [of n] word_unat_eq_iff [of n UINT32_MAX] by simp

lemma unat_u32_succ: "n \<noteq> UINT32_MAX \<Longrightarrow> unat (n + 1) = unat n + 1" for n :: u32
  using unat_u32_neq_max [of n] by (simp add: unat_word_ariths)

lemma unat_u32_one: "unat n = Suc 0 \<longleftrightarrow> n = 1" for n :: u32
  by (simp add: word_unat_eq_iff)

lemma pool_of_retain:
  assumes "p < MAX_TRACKED_PAGES"
  shows "pool_of (pmm_retain_page (page_addr p) s) = pool_retain p (pool_of s)"
  using assms unat_u32_neq_max [of "page_refs s p"] unat_u32_succ [of "page_refs s p"]
  by (auto simp: pool_of_def pool_retain_def pmm_retain_page_eq tracked_def in_free_set fun_eq_iff)

lemma pool_of_free:
  assumes "p < MAX_TRACKED_PAGES" "pmm_wf s"
  shows "pool_of (pmm_free_page (page_addr p) s) = pool_release p (pool_of s)"
proof (cases "tracked s (page_addr p) \<and> page_refs s p \<noteq> 0")
  case True
  then show ?thesis using assms
    by (auto simp: pool_of_def pool_release_def pmm_free_page_eq Let_def unat_minus_one unat_u32_one fun_eq_iff)
next
  case False
  then have "page_refs s p = 0" using assms by (auto simp: tracked_def pmm_wf_def in_free_set)
  then show ?thesis using assms by (auto simp: pool_of_def pool_release_def pmm_free_page_eq fun_eq_iff)
qed

lemma set_used_free_id: "\<not> is_used s p \<Longrightarrow> set_free p (set_used p s) = s"
proof -
  assume "\<not> is_used s p"
  then have "(page_bitmap s (p div 64) OR push_bit (p mod 64) 1) AND NOT (push_bit (p mod 64) 1)
      = page_bitmap s (p div 64)"
    by (auto simp: is_used_bit bit_simps intro!: bit_word_eqI)
  then show ?thesis by (simp add: set_free_def set_used_def)
qed

lemma set_free_refs_commute: "set_free p (s\<lparr>page_refs := r\<rparr>) = (set_free p s)\<lparr>page_refs := r\<rparr>"
  by (simp add: set_free_def)

lemma pmm_retain_n:
  assumes "tracked t a" "page_refs t (page_of a) = 1" "n < 2 ^ 32 - 1"
  shows "(pmm_retain_page a ^^ n) t = t\<lparr>page_refs := (page_refs t)(page_of a := of_nat n + 1)\<rparr>"
  using assms(3)
proof (induction n)
  case 0
  have "(page_refs t)(page_of a := 1) = page_refs t" by (rule fun_upd_idem) (rule assms(2))
  then show ?case by simp
next
  case (Suc n)
  have "unat (of_nat n + 1 :: u32) = n + 1"
    using Suc.prems by (simp add: unat_word_ariths unat_of_nat)
  then have "(of_nat n + 1 :: u32) \<noteq> UINT32_MAX" using Suc.prems by auto
  then have step: "pmm_retain_page a (t\<lparr>page_refs := (page_refs t)(page_of a := of_nat n + 1)\<rparr>)
      = t\<lparr>page_refs := (page_refs t)(page_of a := of_nat (Suc n) + 1)\<rparr>"
    using assms(1) by (simp add: pmm_retain_page_eq tracked_def)
  have n: "n < 2 ^ 32 - 1" using Suc.prems by simp
  show ?case unfolding funpow.simps o_apply Suc.IH [OF n] by (rule step)
qed

lemma pmm_free_n:
  assumes "tracked t a" "n < 2 ^ 32 - 1" "k \<le> n"
  shows "(pmm_free_page a ^^ k) (t\<lparr>page_refs := (page_refs t)(page_of a := of_nat n + 1)\<rparr>)
     = t\<lparr>page_refs := (page_refs t)(page_of a := of_nat (n - k) + 1)\<rparr>"
  using assms(3)
proof (induction k)
  case (Suc k)
  define m where "m = n - Suc k"
  have m: "n - k = Suc m" "Suc m < 2 ^ 32 - 1" using Suc.prems assms(2) by (auto simp: m_def)
  have "unat (of_nat (Suc m) + 1 :: u32) = m + 2"
    using m(2) by (simp add: unat_word_ariths unat_of_nat)
  then have "(of_nat (Suc m) + 1 :: u32) \<noteq> 0" "(of_nat (Suc m) + 1 :: u32) \<noteq> 1"
    by (metis add_is_0 unat_0 zero_neq_numeral) (metis One_nat_def Suc_1 add_2_eq_Suc' nat.inject unat_1 old.nat.distinct(1) \<open>unat (of_nat (Suc m) + 1 :: u32) = m + 2\<close>)
  then have step: "pmm_free_page a (t\<lparr>page_refs := (page_refs t)(page_of a := of_nat (Suc m) + 1)\<rparr>)
      = t\<lparr>page_refs := (page_refs t)(page_of a := of_nat m + 1)\<rparr>"
    using assms(1) by (simp add: pmm_free_page_eq tracked_def Let_def del: fun_upd_apply) (simp add: algebra_simps)
  have k: "k \<le> n" using Suc.prems by simp
  show ?case unfolding funpow.simps o_apply Suc.IH [OF k] m(1) m_def [symmetric] by (rule step)
qed simp

lemma pmm_free_last:
  assumes "page_refs t (page_of a) = 1" "tracked t a"
  shows "pmm_free_page a t = (set_free (page_of a) t)
     \<lparr>page_refs := (page_refs t)(page_of a := 0), free_pages := free_pages t + 1\<rparr>"
  using assms by (simp add: pmm_free_page_eq Let_def set_free_refs_commute)

subsection \<open>A small machine\<close>

text \<open>
  A concrete boot with four usable pages above the reserved 16 MiB, for evaluating the properties;
  \<open>x\<close> is the rest of the kernel's state.
\<close>

definition pmm_boot :: "'a \<Rightarrow> 'a pmm_state_scheme" where
  "pmm_boot x = pmm_init (Some [\<lparr>entry_base = 0x1000000, entry_length = 0x4000, entry_type = 0\<rparr>]) (Some 0)
     \<lparr>page_bitmap = (\<lambda>_. 0), page_refs = (\<lambda>_. 0), total_pages = 0, free_pages = 0, hhdm_offset = 0, \<dots> = x\<rparr>"

lemma pmm_boot_wf: "pmm_wf (pmm_boot x)"
  by (simp add: pmm_boot_def pmm_init_wf)

lemma pmm_boot_used: "is_used (pmm_boot x) p \<longleftrightarrow> p \<notin> {4096, 4097, 4098, 4099}"
  by (auto simp: pmm_boot_def pmm_init_def pmm_init_entry_def pmm_init_page_def all_used_full upt_conv_Cons)

lemma pmm_boot_free: "free_set (pmm_boot x) = {4096, 4097, 4098, 4099}"
  by (auto simp: free_set_def pmm_boot_used)

lemma pmm_boot_alloc: "fst (pmm_alloc_page (pmm_boot x)) = 0x1000000"
  by (simp add: pmm_alloc_page_def pmm_scan_words_least pmm_boot_free page_addr_def)

lemma pmm_boot_more [simp]: "pmm_state.more (pmm_boot x) = x"
proof -
  have page: "pmm_state.more (pmm_init_page p s) = pmm_state.more s" for p and s :: "'a pmm_state_scheme"
    by (simp add: pmm_init_page_def)
  have "pmm_state.more (fold pmm_init_page ps s) = pmm_state.more s" for ps and s :: "'a pmm_state_scheme"
    by (induction ps arbitrary: s) (simp_all add: page)
  then show ?thesis by (simp add: pmm_boot_def pmm_init_def pmm_init_entry_def Let_def page)
qed

subsection \<open>Properties\<close>

text \<open>C12. In every state the allocator can reach from boot, a page marked free has no references,
  no page of the first 16 MiB is free or referenced, and the counter of free pages equals the
  number of clear bits of the bitmap.\<close>

theorem pmm_reachable_wf:
  assumes "pmm_reachable s"
  shows "pmm_wf s"
  using assms
proof induction
  case (reach_init memmap hhdm s)
  show ?case by (rule pmm_init_wf)
next
  case (reach_step s t)
  from reach_step.hyps(2) reach_step.IH show ?case
    by (cases rule: pmm_step.cases) (simp_all add: pmm.alloc_inv pmm.retain_inv pmm.free_inv)
qed

theorem pmm_reachable_wf_witness:
  "pmm_wf (snd (pmm_alloc_page (pmm_boot ()))) \<and> fst (pmm_alloc_page (pmm_boot ())) = 0x1000000"
  using pmm_reachable_wf [OF reach_step [OF reach_init step_alloc]]
  by (simp add: pmm_boot_alloc) (simp add: pmm_boot_def)

text \<open>C13. The concrete operations refine the abstract allocator: the scan of the bitmap returns the
  lowest free page number or 0 when there is none, and retain and free act on the page's count,
  with retain saturating at the 32-bit maximum and the last free returning the page.\<close>

theorem pmm_refines_pool:
  assumes "pmm_wf s"
  shows "fst (pmm_alloc_page s) = (case fst (pool_alloc (pool_of s)) of None \<Rightarrow> 0 | Some p \<Rightarrow> page_addr p)
    \<and> pool_of (snd (pmm_alloc_page s)) = snd (pool_alloc (pool_of s))
    \<and> (\<forall>p < MAX_TRACKED_PAGES. pool_of (pmm_retain_page (page_addr p) s) = pool_retain p (pool_of s)
         \<and> pool_of (pmm_free_page (page_addr p) s) = pool_release p (pool_of s))"
proof (cases "free_set s = {}")
  case True
  then show ?thesis using assms
    by (simp add: pmm_alloc_page_none pool_alloc_def pool_of_retain pool_of_free) (simp add: pool_of_def)
next
  case False
  from pmm_alloc_page_some [OF assms False] obtain p where "p = Min (free_set s)"
    "pmm_alloc_page s = (page_addr p,
       (set_used p s)\<lparr>page_refs := (page_refs s)(p := 1), free_pages := free_pages s - 1\<rparr>)" by metis
  then show ?thesis using assms False
    by (simp add: pool_of_retain pool_of_free) (simp add: pool_alloc_def pool_of_def Let_def fun_eq_iff)
qed

theorem pmm_refines_pool_witness:
  "fst (pool_alloc (pool_of (pmm_boot ()))) = Some 4096
   \<and> pool_of (pmm_free_page (page_addr 4096) (pmm_boot ())) = pool_release 4096 (pool_of (pmm_boot ()))"
proof -
  have "fst (pool_alloc (pool_of (pmm_boot ()))) = Some 4096"
    by (simp add: pool_alloc_def pool_of_def pmm_boot_free)
  then show ?thesis using pmm_refines_pool [OF pmm_boot_wf [of "()"]] by simp
qed

text \<open>C14. A page that was allocated and retained \<open>n\<close> more times, with \<open>n < 2\<^sup>3\<^sup>2 - 1\<close> so that the 32-bit
  count does not saturate, stays allocated through the first \<open>n\<close> frees, and the last free restores exactly the state before the allocation.\<close>

theorem pmm_refcount_roundtrip:
  assumes "pmm_wf s" "pmm_alloc_page s = (a, t)" "a \<noteq> 0" "n < 2 ^ 32 - 1"
  shows "(pmm_free_page a ^^ Suc n) ((pmm_retain_page a ^^ n) t) = s
    \<and> (\<forall>k \<le> n. is_used ((pmm_free_page a ^^ k) ((pmm_retain_page a ^^ n) t)) (page_of a))"
proof -
  have "free_set s \<noteq> {}" using assms(2,3) pmm_alloc_page_none [of s] by auto
  from pmm_alloc_page_some [OF assms(1) this] obtain p where p: "p \<in> free_set s" "p < MAX_TRACKED_PAGES"
    "page_refs s p = 0" "pmm_alloc_page s = (page_addr p,
       (set_used p s)\<lparr>page_refs := (page_refs s)(p := 1), free_pages := free_pages s - 1\<rparr>)" by metis
  then have t: "a = page_addr p" "page_of a = p" "\<not> is_used s p"
    "t = (set_used p s)\<lparr>page_refs := (page_refs s)(p := 1), free_pages := free_pages s - 1\<rparr>"
    using assms(2) by (auto simp: in_free_set)
  then have tr: "tracked t a" "page_refs t (page_of a) = 1" using p by (simp_all add: tracked_def)
  have k: "(pmm_free_page a ^^ k) ((pmm_retain_page a ^^ n) t)
      = t\<lparr>page_refs := (page_refs t)(page_of a := of_nat (n - k) + 1)\<rparr>" if "k \<le> n" for k
    using that assms(4) tr by (simp only: pmm_retain_n pmm_free_n)
  have "(page_refs t)(page_of a := 1) = page_refs t" by (rule fun_upd_idem) (rule tr(2))
  then have "(pmm_free_page a ^^ n) ((pmm_retain_page a ^^ n) t) = t" using k [of n] by simp
  moreover have "pmm_free_page a t = s"
    using pmm_free_last [OF tr(2,1)] set_used_free_id [OF t(3)] p(3) t(2)
    unfolding t(4) by (simp add: set_free_def set_used_def fun_upd_idem)
  ultimately show ?thesis using k tr by (simp add: tracked_def)
qed

theorem pmm_refcount_roundtrip_witness:
  "(pmm_free_page 0x1000000 ^^ 3) ((pmm_retain_page 0x1000000 ^^ 2) (snd (pmm_alloc_page (pmm_boot ())))) = (pmm_boot ())"
  using pmm_refcount_roundtrip [OF pmm_boot_wf [of "()"], of "0x1000000" "snd (pmm_alloc_page (pmm_boot ()))" 2]
  by (simp add: prod_eq_iff pmm_boot_alloc numeral_3_eq_3)

text \<open>C15. A client that allocates up to \<open>n\<close> pages one after the other gets pairwise distinct non-null
  pages none of which was referenced before, each with one reference, and freeing what it got (the
  roll-back of a partial failure) restores every reference count.\<close>

theorem pmm_alloc_n_rollback:
  assumes "pmm_wf s" "alloc_n pmm_alloc_page n s = (ps, t)"
  shows "distinct ps \<and> 0 \<notin> set ps \<and> (\<forall>p \<in> set ps. pmm_page_refs s p = 0 \<and> pmm_page_refs t p = 1)
    \<and> pmm_page_refs (fold pmm_free_page ps t) = pmm_page_refs s"
  using pmm.alloc_n_refs [OF assms] pmm.alloc_n_rollback [OF assms] by simp

theorem pmm_alloc_n_rollback_witness:
  "pmm_page_refs (fold pmm_free_page (fst (alloc_n pmm_alloc_page 3 (pmm_boot ())))
     (snd (alloc_n pmm_alloc_page 3 (pmm_boot ())))) = pmm_page_refs (pmm_boot ())"
  using pmm_alloc_n_rollback [OF pmm_boot_wf [of "()"], of 3 "fst (alloc_n pmm_alloc_page 3 (pmm_boot ()))"
      "snd (alloc_n pmm_alloc_page 3 (pmm_boot ()))"] by simp

end
