(* ===== verification/Vmm.thy ===== *)
theory Vmm
  imports Pmm
begin

text \<open>
  The page-table code, \<^verbatim>\<open>src/memory/vmm.c\<close> (its \<^verbatim>\<open>vmm_copyin\<close> and \<^verbatim>\<open>vmm_copyout\<close> need the VMAs and
  are in the theory \<open>Vm\<close>).  Physical memory is part of the state: \<open>phys s f i\<close> is the \<open>i\<close>-th
  quadword of the 4 KiB frame at physical address \<open>f\<close>.  The code reaches a table through the
  linear map (\<^verbatim>\<open>phys_to_virt\<close>), so a \<^verbatim>\<open>uint64_t *\<close> to a table is modelled by the table's physical
  frame, and a \<^verbatim>\<open>uint64_t *\<close> to an entry by the frame and the index.  TLB flushes
  (\<^verbatim>\<open>invlpg\<close>, reloading \<^verbatim>\<open>cr3\<close>) and log messages have no effect on this state and are left out.

  The invariant \<open>space_wf\<close> says the user halves of the live address spaces are disjoint trees built
  of frames the allocator has handed out; under it mapping, unmapping, protecting and the
  copy-on-write split change the translation of exactly one page of one address space.
\<close>

abbreviation (input) VM_PRESENT :: u64 where "VM_PRESENT \<equiv> 0x1"
abbreviation (input) VM_WRITE :: u64 where "VM_WRITE \<equiv> 0x2"
abbreviation (input) VM_USER :: u64 where "VM_USER \<equiv> 0x4"
abbreviation (input) VM_PWT :: u64 where "VM_PWT \<equiv> 0x8"
abbreviation (input) VM_PCD :: u64 where "VM_PCD \<equiv> 0x10"
abbreviation (input) VM_PAGE_SIZE :: u64 where "VM_PAGE_SIZE \<equiv> 0x80"
abbreviation (input) VM_COW :: u64 where "VM_COW \<equiv> 0x200"
abbreviation (input) VM_SHARED :: u64 where "VM_SHARED \<equiv> 0x400"
abbreviation (input) VM_DEVICE :: u64 where "VM_DEVICE \<equiv> 0x800"
abbreviation (input) VM_NX :: u64 where "VM_NX \<equiv> 0x8000000000000000"
abbreviation (input) ENTRY_ADDR_MASK :: u64 where "ENTRY_ADDR_MASK \<equiv> 0x000ffffffffff000"
abbreviation (input) PAGE_TABLE_ENTRIES :: nat where "PAGE_TABLE_ENTRIES \<equiv> 512"
abbreviation (input) USER_LIMIT :: u64 where "USER_LIMIT \<equiv> 0x0000800000000000"
abbreviation (input) KERNEL_PML4_FIRST :: nat where "KERNEL_PML4_FIRST \<equiv> 256"
abbreviation (input) MMIO_WINDOW_BASE :: u64 where "MMIO_WINDOW_BASE \<equiv> 0xffffc00000000000"
abbreviation (input) MMIO_WINDOW_SIZE :: u64 where "MMIO_WINDOW_SIZE \<equiv> 0x10000000"

record vmm_state = pmm_state +
  phys :: "paddr \<Rightarrow> nat \<Rightarrow> u64"
  cr3 :: paddr
  mmio_next_virtual :: vaddr

text \<open>A flag test used as a C condition, and the two ways the code writes to a frame.\<close>

definition has_flag :: "u64 \<Rightarrow> u64 \<Rightarrow> bool" where
  "has_flag entry flag \<longleftrightarrow> entry AND flag \<noteq> 0"

definition set_entry :: "paddr \<Rightarrow> nat \<Rightarrow> u64 \<Rightarrow> 'a vmm_state_scheme \<Rightarrow> 'a vmm_state_scheme" where
  "set_entry table index v s = s\<lparr>phys := (phys s)(table := (phys s table)(index := v))\<rparr>"

definition memset_page :: "paddr \<Rightarrow> 'a vmm_state_scheme \<Rightarrow> 'a vmm_state_scheme" where
  "memset_page page s = s\<lparr>phys := (phys s)(page := (\<lambda>_. 0))\<rparr>"

definition memcpy_page :: "paddr \<Rightarrow> paddr \<Rightarrow> 'a vmm_state_scheme \<Rightarrow> 'a vmm_state_scheme" where
  "memcpy_page dst src s = s\<lparr>phys := (phys s)(dst := phys s src)\<rparr>"

definition canonical :: "u64 \<Rightarrow> bool" where
  "canonical address = (let upper = drop_bit 48 address in upper = 0 \<or> upper = 0xffff)"

definition leaf_flags :: "u64 \<Rightarrow> u64" where
  "leaf_flags flags =
     (let v = VM_PRESENT;
          v = (if has_flag flags VM_WRITE then v OR VM_WRITE else v);
          v = (if has_flag flags VM_USER then v OR VM_USER else v);
          v = (if has_flag flags VM_PWT then v OR VM_PWT else v);
          v = (if has_flag flags VM_PCD then v OR VM_PCD else v);
          v = (if has_flag flags VM_NX then v OR VM_NX else v);
          v = (if has_flag flags VM_SHARED then v OR VM_SHARED else v)
      in if has_flag flags VM_DEVICE then v OR VM_DEVICE else v)"

definition table_flags :: "u64 \<Rightarrow> u64" where
  "table_flags flags =
     (let v = VM_PRESENT OR VM_WRITE in if has_flag flags VM_USER then v OR VM_USER else v)"

definition table_from_entry :: "u64 \<Rightarrow> paddr" where
  "table_from_entry entry = entry AND ENTRY_ADDR_MASK"

definition read_cr3 :: "'a vmm_state_scheme \<Rightarrow> paddr" where
  "read_cr3 s = cr3 s AND ENTRY_ADDR_MASK"

definition root_allowed :: "paddr \<Rightarrow> bool" where
  "root_allowed root \<longleftrightarrow> root \<noteq> 0 \<and> root AND (NPK_PAGE_SIZE - 1) = 0"

text \<open>The four index fields of a virtual address; \<open>shift\<close> is 39, 30, 21 or 12.\<close>

definition table_index :: "nat \<Rightarrow> vaddr \<Rightarrow> nat" where
  "table_index shift virtual_address = unat (drop_bit shift virtual_address AND 0x1ff)"

text \<open>One level of the walk that \<^verbatim>\<open>leaf_entry_ptr\<close>, \<^verbatim>\<open>vmm_unmap_page_root\<close> and \<^verbatim>\<open>vmm_lookup_root\<close>
  share: the next table, unless the entry is absent or a large page.\<close>

definition next_table :: "'a vmm_state_scheme \<Rightarrow> paddr \<Rightarrow> nat \<Rightarrow> paddr option" where
  "next_table s table index =
     (let entry = phys s table index
      in if \<not> has_flag entry VM_PRESENT \<or> has_flag entry VM_PAGE_SIZE then None
         else Some (table_from_entry entry))"

definition leaf_entry_ptr :: "'a vmm_state_scheme \<Rightarrow> paddr \<Rightarrow> vaddr \<Rightarrow> (paddr \<times> nat) option" where
  "leaf_entry_ptr s root virtual_address =
     (if \<not> root_allowed root \<or> \<not> canonical virtual_address then None
      else case next_table s root (table_index 39 virtual_address) of
             None \<Rightarrow> None
           | Some pdpt \<Rightarrow> (case next_table s pdpt (table_index 30 virtual_address) of
               None \<Rightarrow> None
             | Some pd \<Rightarrow> (case next_table s pd (table_index 21 virtual_address) of
                 None \<Rightarrow> None
               | Some pt \<Rightarrow> Some (pt, table_index 12 virtual_address))))"

text \<open>
  \<^verbatim>\<open>clone_user_table\<close>: the \<^verbatim>\<open>for\<close> loop is the recursion on \<open>index\<close>, the call for the child table the
  recursion on \<open>level\<close>; the Boolean accumulates \<^verbatim>\<open>found\<close>.  The virtual base the C code passes along
  is never read and is left out.  The kernel calls it with \<open>level = 4\<close>, so the level is at least 1.
\<close>

function clone_user_table ::
  "paddr \<Rightarrow> paddr \<Rightarrow> nat \<Rightarrow> nat \<Rightarrow> bool \<Rightarrow> 'a vmm_state_scheme \<Rightarrow> bool \<times> 'a vmm_state_scheme" where
  "clone_user_table source destination level index found s =
     (if index \<ge> PAGE_TABLE_ENTRIES then (found, s)
      else let entry = phys s source index
      in if \<not> has_flag entry VM_PRESENT
         then clone_user_table source destination level (index + 1) found s
         else if level \<le> 1 then
           (if \<not> has_flag entry VM_USER \<or> has_flag entry VM_DEVICE
            then clone_user_table source destination level (index + 1) found s
            else clone_user_table source destination level (index + 1) True
                   (pmm_retain_page (entry AND ENTRY_ADDR_MASK) (set_entry destination index entry s)))
         else if has_flag entry VM_PAGE_SIZE
         then clone_user_table source destination level (index + 1) found s
         else let (child_physical, s) = pmm_alloc_page s
         in if child_physical = 0 then (False, s)
            else case clone_user_table (table_from_entry entry) child_physical (level - 1) 0 False
                        (memset_page child_physical s) of
              (child_found, s) \<Rightarrow>
                if \<not> child_found
                then clone_user_table source destination level (index + 1) found
                       (pmm_free_page child_physical s)
                else clone_user_table source destination level (index + 1) True
                       (set_entry destination index
                          (child_physical OR VM_PRESENT OR (entry AND (VM_WRITE OR VM_USER))) s))"
  by pat_completeness auto
termination
  by (relation "measures [\<lambda>(_, _, level, _). level, \<lambda>(_, _, _, index, _). PAGE_TABLE_ENTRIES - index]")
     auto

function mark_cow_table ::
  "paddr \<Rightarrow> paddr \<Rightarrow> nat \<Rightarrow> nat \<Rightarrow> 'a vmm_state_scheme \<Rightarrow> 'a vmm_state_scheme" where
  "mark_cow_table parent child level index s =
     (if index \<ge> PAGE_TABLE_ENTRIES then s
      else let parent_entry = phys s parent index; child_entry = phys s child index
      in if \<not> has_flag parent_entry VM_PRESENT \<or> \<not> has_flag child_entry VM_PRESENT
         then mark_cow_table parent child level (index + 1) s
         else if level \<le> 1 then
           (if has_flag parent_entry VM_USER \<and> \<not> has_flag parent_entry VM_SHARED
               \<and> has_flag parent_entry VM_WRITE
            then mark_cow_table parent child level (index + 1)
                   (set_entry child index ((child_entry AND NOT VM_WRITE) OR VM_COW)
                     (set_entry parent index ((parent_entry AND NOT VM_WRITE) OR VM_COW) s))
            else mark_cow_table parent child level (index + 1) s)
         else if has_flag parent_entry VM_PAGE_SIZE \<or> has_flag child_entry VM_PAGE_SIZE
         then mark_cow_table parent child level (index + 1) s
         else mark_cow_table parent child level (index + 1)
                (mark_cow_table (table_from_entry parent_entry) (table_from_entry child_entry)
                   (level - 1) 0 s))"
  by pat_completeness auto
termination
  by (relation "measures [\<lambda>(_, _, level, _). level, \<lambda>(_, _, _, index, _). PAGE_TABLE_ENTRIES - index]")
     auto

definition ensure_table ::
  "paddr \<Rightarrow> nat \<Rightarrow> u64 \<Rightarrow> 'a vmm_state_scheme \<Rightarrow> paddr option \<times> 'a vmm_state_scheme" where
  "ensure_table parent index flags s =
     (let entry = phys s parent index
      in if has_flag entry VM_PAGE_SIZE then (None, s)
         else if has_flag entry VM_PRESENT then (Some (table_from_entry entry), s)
         else let (page, s) = pmm_alloc_page s
         in if page = 0 then (None, s)
            else (Some page, set_entry parent index (page OR table_flags flags) (memset_page page s)))"

definition vmm_map_page_root ::
  "paddr \<Rightarrow> vaddr \<Rightarrow> paddr \<Rightarrow> u64 \<Rightarrow> 'a vmm_state_scheme \<Rightarrow> bool \<times> 'a vmm_state_scheme" where
  "vmm_map_page_root root virtual_address physical_address flags s =
     (if \<not> root_allowed root \<or> virtual_address AND (NPK_PAGE_SIZE - 1) \<noteq> 0
         \<or> physical_address AND (NPK_PAGE_SIZE - 1) \<noteq> 0 \<or> \<not> canonical virtual_address then (False, s)
      else if has_flag flags VM_USER
         \<and> (virtual_address \<ge> USER_LIMIT \<or> virtual_address > USER_LIMIT - NPK_PAGE_SIZE) then (False, s)
      else if physical_address AND NOT ENTRY_ADDR_MASK \<noteq> 0 then (False, s)
      else case ensure_table root (table_index 39 virtual_address) flags s of
             (None, s) \<Rightarrow> (False, s)
           | (Some pdpt, s) \<Rightarrow> (case ensure_table pdpt (table_index 30 virtual_address) flags s of
               (None, s) \<Rightarrow> (False, s)
             | (Some pd, s) \<Rightarrow> (case ensure_table pd (table_index 21 virtual_address) flags s of
                 (None, s) \<Rightarrow> (False, s)
               | (Some pt, s) \<Rightarrow>
                   let i1 = table_index 12 virtual_address
                   in if has_flag (phys s pt i1) VM_PRESENT then (False, s)
                      else (True, set_entry pt i1 (physical_address OR leaf_flags flags) s))))"

definition vmm_map_page ::
  "vaddr \<Rightarrow> paddr \<Rightarrow> u64 \<Rightarrow> 'a vmm_state_scheme \<Rightarrow> bool \<times> 'a vmm_state_scheme" where
  "vmm_map_page virtual_address physical_address flags s =
     vmm_map_page_root (read_cr3 s) virtual_address physical_address flags s"

definition vmm_protect_page_root ::
  "paddr \<Rightarrow> vaddr \<Rightarrow> u64 \<Rightarrow> 'a vmm_state_scheme \<Rightarrow> bool \<times> 'a vmm_state_scheme" where
  "vmm_protect_page_root root virtual_address flags s =
     (if \<not> root_allowed root \<or> virtual_address AND (NPK_PAGE_SIZE - 1) \<noteq> 0 \<or> \<not> canonical virtual_address
         \<or> \<not> has_flag flags VM_USER \<or> flags AND NOT (VM_USER OR VM_WRITE OR VM_NX) \<noteq> 0
         \<or> virtual_address \<ge> USER_LIMIT then (False, s)
      else case leaf_entry_ptr s root virtual_address of
             None \<Rightarrow> (False, s)
           | Some (pt, i) \<Rightarrow>
               let old = phys s pt i
               in if \<not> has_flag old VM_PRESENT \<or> \<not> has_flag old VM_USER then (False, s)
                  else let updated = (old AND ENTRY_ADDR_MASK) OR leaf_flags flags;
                           updated = updated OR (old AND (VM_SHARED OR VM_DEVICE));
                           updated = (if has_flag old VM_COW then (updated OR VM_COW) AND NOT VM_WRITE
                                      else updated)
                       in (True, set_entry pt i updated s))"

definition vmm_current_root :: "'a vmm_state_scheme \<Rightarrow> paddr" where
  "vmm_current_root s = read_cr3 s"

definition vmm_create_address_space :: "'a vmm_state_scheme \<Rightarrow> paddr \<times> 'a vmm_state_scheme" where
  "vmm_create_address_space s =
     (let current = read_cr3 s; (root, s) = pmm_alloc_page s
      in if root = 0 then (0, s)
         else (root, fold (\<lambda>i s. set_entry root i (phys s current i) s)
                       [KERNEL_PML4_FIRST..<PAGE_TABLE_ENTRIES] (memset_page root s)))"

function destroy_table :: "paddr \<Rightarrow> nat \<Rightarrow> nat \<Rightarrow> 'a vmm_state_scheme \<Rightarrow> 'a vmm_state_scheme" where
  "destroy_table table level i s =
     (if i \<ge> PAGE_TABLE_ENTRIES then s
      else let entry = phys s table i
      in if \<not> has_flag entry VM_PRESENT then destroy_table table level (i + 1) s
         else if has_flag entry VM_PAGE_SIZE
         then destroy_table table level (i + 1)
                (set_entry table i 0 (pmm_free_page (entry AND ENTRY_ADDR_MASK) s))
         else if level > 1
         then destroy_table table level (i + 1)
                (set_entry table i 0 (pmm_free_page (entry AND ENTRY_ADDR_MASK)
                   (destroy_table (table_from_entry entry) (level - 1) 0 s)))
         else destroy_table table level (i + 1)
                (set_entry table i 0
                  (if has_flag entry VM_DEVICE then s else pmm_free_page (entry AND ENTRY_ADDR_MASK) s)))"
  by pat_completeness auto
termination
  by (relation "measures [\<lambda>(_, level, _). level, \<lambda>(_, _, i, _). PAGE_TABLE_ENTRIES - i]") auto

declare clone_user_table.simps [simp del] mark_cow_table.simps [simp del] destroy_table.simps [simp del]

definition vmm_destroy_address_space :: "paddr \<Rightarrow> 'a vmm_state_scheme \<Rightarrow> 'a vmm_state_scheme" where
  "vmm_destroy_address_space root s =
     (if \<not> root_allowed root \<or> root = read_cr3 s then s
      else pmm_free_page root
        (fold (\<lambda>i s. if \<not> has_flag (phys s root i) VM_PRESENT then s
                     else let s = destroy_table (table_from_entry (phys s root i)) 3 0 s
                          in pmm_free_page (phys s root i AND ENTRY_ADDR_MASK) s)
           [0..<KERNEL_PML4_FIRST] s))"

definition vmm_clone_user_space :: "paddr \<Rightarrow> 'a vmm_state_scheme \<Rightarrow> paddr \<times> 'a vmm_state_scheme" where
  "vmm_clone_user_space parent_root s =
     (if \<not> root_allowed parent_root then (0, s)
      else let (child_root, s) = vmm_create_address_space s
      in if child_root = 0 then (0, s)
         else case clone_user_table parent_root child_root 4 0 False s of
                (True, s) \<Rightarrow> (child_root, mark_cow_table parent_root child_root 4 0 s)
              | (False, s) \<Rightarrow> (0, vmm_destroy_address_space child_root s))"

definition vmm_resolve_cow_fault ::
  "paddr \<Rightarrow> vaddr \<Rightarrow> 'a vmm_state_scheme \<Rightarrow> bool \<times> 'a vmm_state_scheme" where
  "vmm_resolve_cow_fault root virtual_address s =
     (case leaf_entry_ptr s root virtual_address of
        None \<Rightarrow> (False, s)
      | Some (pt, i) \<Rightarrow>
          let pte = phys s pt i
          in if \<not> has_flag pte VM_PRESENT \<or> \<not> has_flag pte VM_USER \<or> \<not> has_flag pte VM_COW then (False, s)
             else let old_page = pte AND ENTRY_ADDR_MASK; references = pmm_page_refs s old_page
             in if references = 0 then (False, s)
                else if references = 1 then (True, set_entry pt i ((pte OR VM_WRITE) AND NOT VM_COW) s)
                else let (new_page, s) = pmm_alloc_page s
                in if new_page = 0 then (False, s)
                   else let s = memcpy_page new_page old_page s;
                            new_entry = (phys s pt i AND NOT ENTRY_ADDR_MASK) OR new_page;
                            new_entry = (new_entry OR VM_WRITE) AND NOT VM_COW
                        in (True, pmm_free_page old_page (set_entry pt i new_entry s)))"

text \<open>\<^verbatim>\<open>vmm_unmap_page_root\<close> and \<^verbatim>\<open>vmm_lookup_root\<close> repeat the walk of \<^verbatim>\<open>leaf_entry_ptr\<close>, guards included.\<close>

definition vmm_unmap_page_root :: "paddr \<Rightarrow> vaddr \<Rightarrow> 'a vmm_state_scheme \<Rightarrow> paddr \<times> 'a vmm_state_scheme" where
  "vmm_unmap_page_root root virtual_address s =
     (case leaf_entry_ptr s root virtual_address of
        None \<Rightarrow> (0, s)
      | Some (pt, index) \<Rightarrow> (phys s pt index AND ENTRY_ADDR_MASK, set_entry pt index 0 s))"

definition vmm_unmap :: "vaddr \<Rightarrow> 'a vmm_state_scheme \<Rightarrow> 'a vmm_state_scheme" where
  "vmm_unmap virtual_address s = snd (vmm_unmap_page_root (read_cr3 s) virtual_address s)"

definition vmm_lookup_root :: "'a vmm_state_scheme \<Rightarrow> paddr \<Rightarrow> vaddr \<Rightarrow> u64 \<Rightarrow> paddr" where
  "vmm_lookup_root s root virtual_address required_flags =
     (case leaf_entry_ptr s root virtual_address of
        None \<Rightarrow> 0
      | Some (pt, index) \<Rightarrow>
          let e = phys s pt index
          in if \<not> has_flag e VM_PRESENT \<or> (has_flag required_flags VM_USER \<and> \<not> has_flag e VM_USER)
                \<or> (has_flag required_flags VM_WRITE \<and> \<not> has_flag e VM_WRITE)
                \<or> (has_flag required_flags VM_NX \<and> \<not> has_flag e VM_NX) then 0
             else (e AND ENTRY_ADDR_MASK) OR (virtual_address AND (NPK_PAGE_SIZE - 1)))"

definition vmm_is_user_range :: "vaddr \<Rightarrow> u64 \<Rightarrow> bool" where
  "vmm_is_user_range address len =
     (if len = 0 then address < USER_LIMIT
      else address < USER_LIMIT \<and> len \<le> USER_LIMIT - address
           \<and> canonical address \<and> canonical (address + len - 1))"

text \<open>The mapping loop of \<^verbatim>\<open>vmm_map_mmio\<close> and its roll-back; \<open>mapped\<close> and \<open>span\<close> count bytes.\<close>

fun mmio_unwind :: "vaddr \<Rightarrow> nat \<Rightarrow> 'a vmm_state_scheme \<Rightarrow> 'a vmm_state_scheme" where
  "mmio_unwind virtual_base 0 s = s"
| "mmio_unwind virtual_base (Suc pages) s =
     mmio_unwind virtual_base pages
       (snd (vmm_unmap_page_root (read_cr3 s) (virtual_base + of_nat (pages * 4096)) s))"

function mmio_map_loop ::
  "vaddr \<Rightarrow> paddr \<Rightarrow> nat \<Rightarrow> nat \<Rightarrow> 'a vmm_state_scheme \<Rightarrow> bool \<times> 'a vmm_state_scheme" where
  "mmio_map_loop virtual_base physical_page mapped span s =
     (if mapped < span then
        (case vmm_map_page (virtual_base + of_nat mapped) (physical_page + of_nat mapped)
                (VM_WRITE OR VM_NX OR VM_DEVICE OR VM_PCD OR VM_PWT) s of
           (True, s) \<Rightarrow> mmio_map_loop virtual_base physical_page (mapped + 4096) span s
         | (False, s) \<Rightarrow> (False, mmio_unwind virtual_base (mapped div 4096) s))
      else (True, s))"
  by pat_completeness auto
termination by (relation "measure (\<lambda>(_, _, mapped, span, _). span - mapped)") auto

definition vmm_map_mmio :: "paddr \<Rightarrow> u64 \<Rightarrow> 'a vmm_state_scheme \<Rightarrow> vaddr \<times> 'a vmm_state_scheme" where
  "vmm_map_mmio physical_address len s =
     (if len = 0 \<or> physical_address > UINT64_MAX - len then (0, s)
      else let offset = physical_address AND (NPK_PAGE_SIZE - 1);
               physical_page = physical_address AND NOT (NPK_PAGE_SIZE - 1)
      in if len > UINT64_MAX - offset - (NPK_PAGE_SIZE - 1) then (0, s)
         else let span = (offset + len + NPK_PAGE_SIZE - 1) AND NOT (NPK_PAGE_SIZE - 1)
         in if mmio_next_virtual s < MMIO_WINDOW_BASE
               \<or> mmio_next_virtual s - MMIO_WINDOW_BASE > MMIO_WINDOW_SIZE
               \<or> span > MMIO_WINDOW_SIZE - (mmio_next_virtual s - MMIO_WINDOW_BASE) then (0, s)
            else let virtual_base = mmio_next_virtual s
            in case mmio_map_loop virtual_base physical_page 0 (unat span) s of
                 (False, s) \<Rightarrow> (0, s)
               | (True, s) \<Rightarrow> (virtual_base + offset, s\<lparr>mmio_next_virtual := mmio_next_virtual s + span\<rparr>))"

function map_identity_loop :: "nat \<Rightarrow> nat \<Rightarrow> u64 \<Rightarrow> 'a vmm_state_scheme \<Rightarrow> 'a vmm_state_scheme" where
  "map_identity_loop address end_address flags s =
     (if address < end_address then
        (case vmm_map_page (of_nat address) (of_nat address) flags s of
           (True, s) \<Rightarrow> map_identity_loop (address + 4096) end_address flags s
         | (False, s) \<Rightarrow> s)
      else s)"
  by pat_completeness auto
termination by (relation "measure (\<lambda>(address, end_address, _, _). end_address - address)") auto

declare mmio_map_loop.simps [simp del] map_identity_loop.simps [simp del]

definition vmm_map_identity :: "vaddr \<Rightarrow> vaddr \<Rightarrow> u64 \<Rightarrow> 'a vmm_state_scheme \<Rightarrow> 'a vmm_state_scheme" where
  "vmm_map_identity start end_address flags s =
     (if start > end_address \<or> end_address = 0 then s
      else let start = start AND NOT (NPK_PAGE_SIZE - 1)
      in if end_address > UINT64_MAX - (NPK_PAGE_SIZE - 1) then s
         else let end_address = (end_address + NPK_PAGE_SIZE - 1) AND NOT (NPK_PAGE_SIZE - 1)
         in map_identity_loop (unat start) (unat end_address) flags s)"

end
