(* ===== verification/Vmm_Space.thy ===== *)
theory Vmm_Space
  imports Vmm
begin

text \<open>
  Correctness of the page-table operations of the theory \<open>Vmm\<close>.  A table is addressed by its path
  (the list of indices from the root); \<open>space_wf s R\<close> says of the live roots \<open>R\<close> that every table
  reached is an allocated frame and that a table reached by a user path is reached in no other way.
  The effect of each operation is stated on \<open>pte\<close>, the leaf entry of a virtual address.
\<close>

subsection \<open>Flag arithmetic\<close>

lemma has_flag_or [simp]: "has_flag (a OR b) f \<longleftrightarrow> has_flag a f \<or> has_flag b f"
  by (auto simp: has_flag_def bit_eq_iff bit_simps)

lemma has_flag_and: "has_flag (a AND b) f \<longleftrightarrow> has_flag a (b AND f)"
  by (simp add: has_flag_def and.assoc)

lemma has_flag_0 [simp]: "\<not> has_flag 0 f" "\<not> has_flag a 0"
  by (simp_all add: has_flag_def)

lemma has_flag_numeral [simp]:
  "has_flag (numeral a) (numeral b) \<longleftrightarrow> numeral a AND numeral b \<noteq> (0 :: u64)"
  "has_flag 1 (numeral b) \<longleftrightarrow> 1 AND numeral b \<noteq> (0 :: u64)"
  "has_flag (numeral a) 1 \<longleftrightarrow> numeral a AND 1 \<noteq> (0 :: u64)"
  by (simp_all add: has_flag_def)

lemma has_flag_exp: "has_flag a (2 ^ n) \<longleftrightarrow> bit a n"
  by (simp add: has_flag_def and_exp_eq_0_iff_not_bit)

lemma or_flag_if: "f = 2 ^ n \<Longrightarrow> (if has_flag x f then v OR f else v) = v OR (x AND f)"
  by (rule bit_word_eqI) (auto simp: has_flag_exp bit_simps)

lemma or_flag_ifs:
  "(if has_flag x VM_WRITE then v OR VM_WRITE else v) = v OR (x AND VM_WRITE)"
  "(if has_flag x VM_USER then v OR VM_USER else v) = v OR (x AND VM_USER)"
  "(if has_flag x VM_PWT then v OR VM_PWT else v) = v OR (x AND VM_PWT)"
  "(if has_flag x VM_PCD then v OR VM_PCD else v) = v OR (x AND VM_PCD)"
  "(if has_flag x VM_NX then v OR VM_NX else v) = v OR (x AND VM_NX)"
  "(if has_flag x VM_SHARED then v OR VM_SHARED else v) = v OR (x AND VM_SHARED)"
  "(if has_flag x VM_DEVICE then v OR VM_DEVICE else v) = v OR (x AND VM_DEVICE)"
  by (rule or_flag_if [where n = 1] or_flag_if [where n = 2] or_flag_if [where n = 3]
      or_flag_if [where n = 4] or_flag_if [where n = 63] or_flag_if [where n = 10]
      or_flag_if [where n = 11], simp; fail)+

lemma leaf_flags_eq:
  "leaf_flags flags = VM_PRESENT OR (flags AND VM_WRITE) OR (flags AND VM_USER) OR (flags AND VM_PWT)
     OR (flags AND VM_PCD) OR (flags AND VM_NX) OR (flags AND VM_SHARED) OR (flags AND VM_DEVICE)"
  unfolding leaf_flags_def Let_def or_flag_ifs or.assoc by (rule refl)

lemma table_flags_eq: "table_flags flags = VM_PRESENT OR VM_WRITE OR (flags AND VM_USER)"
  unfolding table_flags_def Let_def or_flag_ifs or.assoc by (rule refl)

text \<open>A frame address has no bit outside \<open>ENTRY_ADDR_MASK\<close>, a flag word none inside it.\<close>

definition frame_addr :: "u64 \<Rightarrow> bool" where
  "frame_addr p \<longleftrightarrow> p AND NOT ENTRY_ADDR_MASK = 0"

lemma and_not_zero: "p AND NOT m = 0 \<Longrightarrow> p AND m = p" for p m :: "'a::len word"
  by (auto simp: bit_eq_iff bit_simps)

lemma frame_addr_mask [simp]: "frame_addr p \<Longrightarrow> p AND ENTRY_ADDR_MASK = p"
  unfolding frame_addr_def by (rule and_not_zero)

lemma frame_addr_entry: "frame_addr p \<Longrightarrow> f AND ENTRY_ADDR_MASK = 0 \<Longrightarrow> (p OR f) AND ENTRY_ADDR_MASK = p"
  by (simp add: bit.conj_disj_distrib2)

lemma no_flag_outside:
  assumes "p AND NOT m = 0" "f AND m = 0"
  shows "\<not> has_flag p f"
proof -
  have "p AND f = p AND (f AND m)" using and_not_zero [OF assms(1)] by (metis and.assoc and.commute)
  then show ?thesis using assms(2) by (simp add: has_flag_def)
qed

lemma frame_addr_no_flag: "frame_addr p \<Longrightarrow> f AND ENTRY_ADDR_MASK = 0 \<Longrightarrow> \<not> has_flag p f"
  unfolding frame_addr_def by (rule no_flag_outside)

lemma leaf_flags_mask [simp]: "leaf_flags flags AND ENTRY_ADDR_MASK = 0"
  by (simp add: leaf_flags_eq bit.conj_disj_distrib2 and.assoc)

lemma table_flags_mask [simp]: "table_flags flags AND ENTRY_ADDR_MASK = 0"
  by (simp add: table_flags_eq bit.conj_disj_distrib2 and.assoc)

lemma leaf_flags_has:
  "has_flag (leaf_flags f) VM_PRESENT" "has_flag (leaf_flags f) VM_USER = has_flag f VM_USER"
  "has_flag (leaf_flags f) VM_WRITE = has_flag f VM_WRITE" "has_flag (leaf_flags f) VM_NX = has_flag f VM_NX"
  "has_flag (leaf_flags f) VM_SHARED = has_flag f VM_SHARED"
  "has_flag (leaf_flags f) VM_DEVICE = has_flag f VM_DEVICE" "\<not> has_flag (leaf_flags f) VM_COW"
  "\<not> has_flag (leaf_flags f) VM_PAGE_SIZE"
  by (simp_all add: leaf_flags_eq has_flag_and) (simp_all add: has_flag_def)

lemma table_flags_has:
  "has_flag (table_flags f) VM_PRESENT" "\<not> has_flag (table_flags f) VM_PAGE_SIZE"
  by (simp_all add: table_flags_eq has_flag_and) (simp_all add: has_flag_def)

lemma unat_high_bits: "p AND NOT (mask 52) = 0 \<longleftrightarrow> unat p < 2 ^ 52" for p :: u64
proof -
  have "p AND NOT (mask 52) = 0 \<longleftrightarrow> unat p div 2 ^ 52 * 2 ^ 52 = 0"
    using unat_and_not_mask [of p 52] by (metis unat_eq_0)
  then show ?thesis by (simp add: div_eq_0_iff)
qed

lemma frame_addr_iff: "frame_addr p \<longleftrightarrow> unat p mod 4096 = 0 \<and> unat p < 2 ^ 52"
proof -
  have "NOT ENTRY_ADDR_MASK = 4095 OR NOT (mask 52)" by (simp add: mask_eq_exp_minus_1)
  then have "frame_addr p \<longleftrightarrow> (p AND 4095) OR (p AND NOT (mask 52)) = 0"
    by (simp only: frame_addr_def bit.conj_disj_distrib)
  also have "\<dots> \<longleftrightarrow> p AND 4095 = 0 \<and> p AND NOT (mask 52) = 0" by (rule or_eq_0_iff)
  finally show ?thesis by (simp only: page_aligned_iff unat_high_bits)
qed

lemma frame_addr_entry_mask: "frame_addr (e AND ENTRY_ADDR_MASK)"
  by (simp add: frame_addr_def and.assoc)

lemma page_addr_frame: "n < MAX_TRACKED_PAGES \<Longrightarrow> frame_addr (page_addr n)"
  by (simp add: frame_addr_iff)


lemma frame_addr_aligned: "frame_addr p \<Longrightarrow> unat p mod 4096 = 0"
  by (simp add: frame_addr_iff)

subsection \<open>Paths through the tables\<close>

fun path_tbl :: "'a vmm_state_scheme \<Rightarrow> paddr \<Rightarrow> nat list \<Rightarrow> paddr option" where
  "path_tbl s t [] = Some t"
| "path_tbl s t (i # p) = Option.bind (next_table s t i) (\<lambda>u. path_tbl s u p)"

definition apath :: "nat list \<Rightarrow> bool" where
  "apath p \<longleftrightarrow> length p \<le> 3 \<and> (\<forall>i \<in> set p. i < 512)"

definition upath :: "nat list \<Rightarrow> bool" where
  "upath p \<longleftrightarrow> apath p \<and> (p \<noteq> [] \<longrightarrow> hd p < 256)"

definition va_path :: "vaddr \<Rightarrow> nat list" where
  "va_path va = [table_index 39 va, table_index 30 va, table_index 21 va]"

definition pte :: "'a vmm_state_scheme \<Rightarrow> paddr \<Rightarrow> vaddr \<Rightarrow> u64" where
  "pte s root va = (case leaf_entry_ptr s root va of None \<Rightarrow> 0 | Some (pt, i) \<Rightarrow> phys s pt i)"

definition tables_used :: "'a vmm_state_scheme \<Rightarrow> paddr set \<Rightarrow> bool" where
  "tables_used s R \<longleftrightarrow> (\<forall>r \<in> R. \<forall>p t. apath p \<longrightarrow> path_tbl s r p = Some t \<longrightarrow> page_of t \<notin> free_set s)"

definition tables_unique :: "'a vmm_state_scheme \<Rightarrow> paddr set \<Rightarrow> bool" where
  "tables_unique s R \<longleftrightarrow> (\<forall>r \<in> R. \<forall>r' \<in> R. \<forall>p q t. upath p \<longrightarrow> apath q \<longrightarrow>
     path_tbl s r p = Some t \<longrightarrow> path_tbl s r' q = Some t \<longrightarrow> r = r' \<and> p = q)"

definition space_wf :: "'a vmm_state_scheme \<Rightarrow> paddr set \<Rightarrow> bool" where
  "space_wf s R \<longleftrightarrow> pmm_wf s \<and> (\<forall>r \<in> R. root_allowed r) \<and> tables_used s R \<and> tables_unique s R"

lemma path_tbl_append: "path_tbl s t (p @ q) = Option.bind (path_tbl s t p) (\<lambda>u. path_tbl s u q)"
  by (induction p arbitrary: t) (simp_all add: Option.bind_assoc)

lemma path_tbl_snoc: "path_tbl s t (p @ [i]) = Option.bind (path_tbl s t p) (\<lambda>u. next_table s u i)"
proof -
  have "path_tbl s u [i] = next_table s u i" for u by (cases "next_table s u i") simp_all
  then show ?thesis by (simp only: path_tbl_append)
qed

lemma apath_snoc: "apath (p @ [i]) \<longleftrightarrow> apath p \<and> length p < 3 \<and> i < 512"
  by (auto simp: apath_def)

lemma unat_drop: "unat (drop_bit n x) = unat x div 2 ^ n" for x :: u64
  unfolding unat_drop_bit_eq by (rule drop_bit_eq_div)

lemma unat_table_index: "table_index n va = unat va div 2 ^ n mod 512"
proof -
  have a: "unat (x AND 0x1ff) = unat x mod 512" for x :: u64
    using unat_and_mask [of x 9] by (simp add: mask_eq_exp_minus_1)
  show ?thesis by (simp only: table_index_def a unat_drop)
qed

lemma table_index_less: "table_index n va < 512"
  by (simp add: unat_table_index)

lemma apath_va_path [simp]: "apath (va_path va)" "length (va_path va) = 3"
  by (simp_all add: apath_def va_path_def table_index_less)

lemma upath_va_path: "va < USER_LIMIT \<Longrightarrow> upath (va_path va)"
proof -
  assume "va < USER_LIMIT"
  then have "unat va < 0x800000000000" by (simp add: word_less_nat_alt)
  then have "unat va div 2 ^ 39 < 256" by simp
  then show ?thesis by (simp add: upath_def) (simp add: va_path_def unat_table_index)
qed

lemma leaf_entry_ptr_path:
  "leaf_entry_ptr s root va = (if root_allowed root \<and> canonical va
     then map_option (\<lambda>pt. (pt, table_index 12 va)) (path_tbl s root (va_path va)) else None)"
  by (simp add: leaf_entry_ptr_def va_path_def split: option.split bind_split)

text \<open>Operations that leave the tables above the leaves alone leave all paths alone.\<close>

lemma path_frame:
  assumes "\<And>q u j. apath q \<Longrightarrow> length q < 3 \<Longrightarrow> j < 512 \<Longrightarrow> path_tbl s r q = Some u \<Longrightarrow> next_table s' u j = next_table s u j"
    and "apath p"
  shows "path_tbl s' r p = path_tbl s r p"
  using assms(2)
proof (induction p rule: rev_induct)
  case (snoc i p)
  then have p: "path_tbl s' r p = path_tbl s r p" "apath p" "length p < 3" "i < 512" by (auto simp: apath_snoc)
  then show ?case
    using assms(1) [OF p(2,3,4)] by (cases "path_tbl s r p") (simp_all add: path_tbl_snoc)
qed simp

lemma space_wfD:
  assumes "space_wf s R"
  shows "pmm_wf s" "r \<in> R \<Longrightarrow> root_allowed r"
    "r \<in> R \<Longrightarrow> apath p \<Longrightarrow> path_tbl s r p = Some t \<Longrightarrow> page_of t \<notin> free_set s"
    "r \<in> R \<Longrightarrow> r' \<in> R \<Longrightarrow> upath p \<Longrightarrow> apath q \<Longrightarrow> path_tbl s r p = Some t \<Longrightarrow> path_tbl s r' q = Some t
       \<Longrightarrow> r = r' \<and> p = q"
  using assms unfolding space_wf_def tables_used_def tables_unique_def by blast+

lemma upath_apath: "upath p \<Longrightarrow> apath p"
  by (simp add: upath_def)

lemma next_table_cong: "phys s' t = phys s t \<Longrightarrow> next_table s' t j = next_table s t j"
  by (simp add: next_table_def)

lemma set_entry_simps [simp]:
  "page_bitmap (set_entry t i v s) = page_bitmap s" "page_refs (set_entry t i v s) = page_refs s"
  "free_pages (set_entry t i v s) = free_pages s" "cr3 (set_entry t i v s) = cr3 s"
  "hhdm_offset (set_entry t i v s) = hhdm_offset s" "total_pages (set_entry t i v s) = total_pages s"
  "mmio_next_virtual (set_entry t i v s) = mmio_next_virtual s"
  "vmm_state.more (set_entry t i v s) = vmm_state.more s"
  "phys (set_entry t i v s) = (phys s)(t := (phys s t)(i := v))"
  by (simp_all add: set_entry_def)

text \<open>The allocator's facts see only its own fields.\<close>

lemma pmm_view_cong:
  assumes "page_bitmap s' = page_bitmap s"
  shows "free_set s' = free_set s" "is_used s' = is_used s"
  using assms is_used_cong [OF assms] by (simp_all add: free_set_def)

lemma pmm_wf_cong:
  assumes "page_bitmap s' = page_bitmap s" "page_refs s' = page_refs s" "free_pages s' = free_pages s"
  shows "pmm_wf s' = pmm_wf s" "pmm_page_refs s' = pmm_page_refs s"
  using assms pmm_view_cong [OF assms(1)] is_used_cong [OF assms(1)]
  by (simp_all add: pmm_wf_def pmm_page_refs_eq tracked_def fun_eq_iff)


subsection \<open>Writing one entry\<close>

lemma set_entry_pmm [simp]:
  "free_set (set_entry t i v s) = free_set s" "pmm_wf (set_entry t i v s) = pmm_wf s"
  "pmm_page_refs (set_entry t i v s) = pmm_page_refs s"
  by (rule pmm_view_cong pmm_wf_cong; simp)+

lemma leaf_write_paths:
  assumes wf: "space_wf s R" and "r \<in> R" "upath p" "length p = 3" "path_tbl s r p = Some t" "r' \<in> R" "apath q"
  shows "path_tbl (set_entry t i v s) r' q = path_tbl s r' q"
proof (rule path_frame)
  fix q u j
  assume q: "apath q" "length q < 3" "path_tbl s r' q = Some u"
  then have "u \<noteq> t" using space_wfD(4) [OF wf \<open>r \<in> R\<close> \<open>r' \<in> R\<close> \<open>upath p\<close> \<open>apath q\<close>] assms by auto
  then show "next_table (set_entry t i v s) u j = next_table s u j" by (intro next_table_cong) simp
qed fact

lemma space_wf_paths:
  assumes "space_wf s R" "pmm_wf s'" "free_set s' \<subseteq> free_set s"
    "\<And>r q. r \<in> R \<Longrightarrow> apath q \<Longrightarrow> path_tbl s' r q = path_tbl s r q"
  shows "space_wf s' R"
  using assms unfolding space_wf_def tables_used_def tables_unique_def
  by (simp add: upath_apath) (meson in_mono)

lemma leaf_write_wf:
  assumes "space_wf s R" and "r \<in> R" "upath p" "length p = 3" "path_tbl s r p = Some t"
  shows "space_wf (set_entry t i v s) R"
  using assms space_wfD(1) [OF assms(1)] by (intro space_wf_paths [OF assms(1)]) (auto simp: leaf_write_paths)

definition same_page :: "vaddr \<Rightarrow> vaddr \<Rightarrow> bool" where
  "same_page a b \<longleftrightarrow> va_path a = va_path b \<and> table_index 12 a = table_index 12 b"

lemma leaf_write_pte:
  assumes wf: "space_wf s R" and r: "r \<in> R" "upath (va_path va)" "path_tbl s r (va_path va) = Some t"
    and r': "r' \<in> R" "canonical va'"
  shows "pte (set_entry t (table_index 12 va) v s) r' va' = (if r' = r \<and> same_page va' va then v else pte s r' va')"
proof (cases "path_tbl s r' (va_path va')")
  case None
  then show ?thesis
    using leaf_write_paths [OF wf r(1,2) _ r(3) r'(1)] r r'
    by (auto simp: pte_def leaf_entry_ptr_path same_page_def)
next
  case (Some u)
  have "u = t \<longleftrightarrow> r' = r \<and> va_path va' = va_path va"
    using space_wfD(4) [OF wf r(1) r'(1) r(2) _ r(3), of "va_path va'"] Some r(3) by auto
  then show ?thesis
    using leaf_write_paths [OF wf r(1,2) _ r(3) r'(1)] r r' Some space_wfD(2) [OF wf r'(1)]
    by (auto simp: pte_def leaf_entry_ptr_path same_page_def)
qed

lemma digit_step:
  fixes X Y :: nat
  assumes "m = n + 9" "X div 2 ^ m = Y div 2 ^ m" "X div 2 ^ n mod 512 = Y div 2 ^ n mod 512"
  shows "X div 2 ^ n = Y div 2 ^ n"
proof -
  have "Z div 2 ^ m = Z div 2 ^ n div 512" for Z :: nat
    unfolding assms(1) power_add div_mult2_eq by simp
  then show ?thesis using assms(2,3) by (metis div_mult_mod_eq)
qed

lemma digit_split: "m = 12 + k \<Longrightarrow> X div 2 ^ m = X div 4096 div 2 ^ k" for X :: nat
  by (simp add: power_add div_mult2_eq)

lemma same_page_user:
  assumes "a < USER_LIMIT" "b < USER_LIMIT"
  shows "same_page a b \<longleftrightarrow> unat a div 4096 = unat b div 4096"
proof
  assume "same_page a b"
  then have e: "unat a div 2 ^ 39 mod 512 = unat b div 2 ^ 39 mod 512"
    "unat a div 2 ^ 30 mod 512 = unat b div 2 ^ 30 mod 512"
    "unat a div 2 ^ 21 mod 512 = unat b div 2 ^ 21 mod 512"
    "unat a div 2 ^ 12 mod 512 = unat b div 2 ^ 12 mod 512"
    by (simp_all only: same_page_def va_path_def unat_table_index list.inject)
  have "unat a div 2 ^ 39 < 512" "unat b div 2 ^ 39 < 512" using assms by (simp_all add: word_less_nat_alt)
  then have "unat a div 2 ^ 39 = unat b div 2 ^ 39" using e(1) by simp
  then have "unat a div 2 ^ 30 = unat b div 2 ^ 30" by (rule digit_step [OF _ _ e(2), rotated]) simp
  then have "unat a div 2 ^ 21 = unat b div 2 ^ 21" by (rule digit_step [OF _ _ e(3), rotated]) simp
  then have "unat a div 2 ^ 12 = unat b div 2 ^ 12" by (rule digit_step [OF _ _ e(4), rotated]) simp
  then show "unat a div 4096 = unat b div 4096" by simp
next
  assume e: "unat a div 4096 = unat b div 4096"
  have "unat c div 2 ^ 39 = unat c div 4096 div 2 ^ 27" "unat c div 2 ^ 30 = unat c div 4096 div 2 ^ 18"
    "unat c div 2 ^ 21 = unat c div 4096 div 2 ^ 9" "unat c div 2 ^ 12 = unat c div 4096 div 2 ^ 0" for c :: u64
    by (rule digit_split, simp)+
  then show "same_page a b" by (simp only: same_page_def va_path_def unat_table_index e)
qed

subsection \<open>Allocating a frame and adding a table\<close>

lemma alloc_phys [simp]: "phys (snd (pmm_alloc_page s)) = phys s" "cr3 (snd (pmm_alloc_page s)) = cr3 s"
  "mmio_next_virtual (snd (pmm_alloc_page s)) = mmio_next_virtual s"
  "vmm_state.more (snd (pmm_alloc_page s)) = vmm_state.more s"
  by (simp_all add: pmm_alloc_page_def set_used_def split: option.split)

lemma free_phys [simp]: "phys (pmm_free_page a s) = phys s" "cr3 (pmm_free_page a s) = cr3 s"
  "mmio_next_virtual (pmm_free_page a s) = mmio_next_virtual s"
  "vmm_state.more (pmm_free_page a s) = vmm_state.more s"
  by (simp_all add: pmm_free_page_eq set_free_def Let_def)

lemma retain_phys [simp]: "phys (pmm_retain_page a s) = phys s" "cr3 (pmm_retain_page a s) = cr3 s"
  "mmio_next_virtual (pmm_retain_page a s) = mmio_next_virtual s"
  "vmm_state.more (pmm_retain_page a s) = vmm_state.more s"
  by (simp_all add: pmm_retain_page_eq)

lemma memset_page_simps [simp]:
  "phys (memset_page g s) = (phys s)(g := (\<lambda>_. 0))" "cr3 (memset_page g s) = cr3 s"
  "free_set (memset_page g s) = free_set s" "pmm_wf (memset_page g s) = pmm_wf s"
  "pmm_page_refs (memset_page g s) = pmm_page_refs s"
proof -
  show "free_set (memset_page g s) = free_set s" "pmm_wf (memset_page g s) = pmm_wf s"
    "pmm_page_refs (memset_page g s) = pmm_page_refs s"
    by (rule pmm_view_cong pmm_wf_cong; simp add: memset_page_def)+
qed (simp_all add: memset_page_def)

lemma alloc_frame:
  assumes "pmm_wf s" "pmm_alloc_page s = (g, t)" "g \<noteq> 0"
  shows "pmm_wf t" "page_of g \<in> free_set s" "free_set t = free_set s - {page_of g}" "frame_addr g"
    "phys t = phys s" "cr3 t = cr3 s" "pmm_page_refs t = (pmm_page_refs s)(g := 1)"
proof -
  show "pmm_wf t" "phys t = phys s" "cr3 t = cr3 s" "pmm_page_refs t = (pmm_page_refs s)(g := 1)"
    using pmm_alloc_page_wf [OF assms(1)] alloc_phys [of s] pmm_alloc_refs_law [OF assms(1)] assms(2,3) by simp_all
  have "free_set s \<noteq> {}" using assms(2,3) pmm_alloc_page_none [of s] by auto
  from pmm_alloc_page_some [OF assms(1) this] obtain p where p: "p \<in> free_set s" "p < MAX_TRACKED_PAGES"
    "pmm_alloc_page s = (page_addr p,
       (set_used p s)\<lparr>page_refs := (page_refs s)(p := 1), free_pages := free_pages s - 1\<rparr>)" by metis
  then show "page_of g \<in> free_set s" "free_set t = free_set s - {page_of g}" "frame_addr g"
    using assms(2) by (auto simp: page_addr_frame)
qed

lemma next_table_set_entry:
  "next_table (set_entry t i v s) u j = (if u = t \<and> j = i
     then if has_flag v VM_PRESENT \<and> \<not> has_flag v VM_PAGE_SIZE then Some (table_from_entry v) else None
     else next_table s u j)"
  by (simp add: next_table_def)

lemma next_table_memset: "next_table (memset_page g s) u j = (if u = g then None else next_table s u j)"
  by (simp add: next_table_def)

lemma new_table_paths:
  assumes wf: "space_wf s R" and r: "r \<in> R" "upath p" "length p < 3" "path_tbl s r p = Some t" "i < 512"
    and none: "next_table s t i = None" and g: "page_of g \<in> free_set s"
    and v: "has_flag v VM_PRESENT" "\<not> has_flag v VM_PAGE_SIZE" "table_from_entry v = g"
    and s': "s' = set_entry t i v (memset_page g s1)" "phys s1 = phys s" 
    and r': "r' \<in> R" "apath q"
  shows "path_tbl s' r' q = (if r' = r \<and> q = p @ [i] then Some g else path_tbl s r' q)"
  using r'(2)
proof (induction q rule: rev_induct)
  case (snoc j q)
  then have q: "apath q" "length q < 3" "j < 512" by (simp_all add: apath_snoc)
  have nt: "next_table s1 u k = next_table s u k" for u k by (rule next_table_cong) (simp add: s')
  have tg: "t \<noteq> g" using space_wfD(3) [OF wf r(1) upath_apath [OF r(2)] r(4)] g by auto
  have step: "next_table s' u k = (if u = t \<and> k = i then Some g else if u = g then None else next_table s u k)"
    for u k using tg by (auto simp: s'(1) next_table_set_entry next_table_memset nt v)
  show ?case
  proof (cases "r' = r \<and> q = p @ [i]")
    case True
    then have a: "path_tbl s' r (p @ [i]) = Some g" using snoc.IH q(1) by metis
    have "path_tbl s' r ((p @ [i]) @ [j]) = None"
      unfolding path_tbl_snoc [of s' r "p @ [i]"] a using tg by (simp add: step)
    moreover have "path_tbl s r ((p @ [i]) @ [j]) = None"
      unfolding path_tbl_snoc [of s r "p @ [i]"] path_tbl_snoc [of s r p] r(4) by (simp add: none)
    ultimately show ?thesis using True by simp
  next
    case False
    show ?thesis
    proof (cases "path_tbl s r' q")
      case None
      then show ?thesis using snoc.IH q False r(4) by (auto simp: path_tbl_snoc)
    next
      case (Some u)
      then have "u \<noteq> g" "u = t \<longleftrightarrow> r' = r \<and> q = p"
        using space_wfD(3) [OF wf r'(1) q(1) Some] g
          space_wfD(4) [OF wf r(1) r'(1) r(2) q(1) r(4)] r(4) by auto
      then show ?thesis using snoc.IH q False Some by (auto simp: path_tbl_snoc step)
    qed
  qed
qed simp


text \<open>\<open>table_frame s R f\<close>: \<open>f\<close> is a table of one of the address spaces.\<close>

definition table_frame :: "'a vmm_state_scheme \<Rightarrow> paddr set \<Rightarrow> paddr \<Rightarrow> bool" where
  "table_frame s R f \<longleftrightarrow> (\<exists>r \<in> R. \<exists>q. apath q \<and> path_tbl s r q = Some f)"

lemma new_table_wf:
  assumes wf: "space_wf s R" and r: "r \<in> R" "upath (p @ [i])" "path_tbl s r p = Some t"
    and none: "next_table s t i = None" and g: "page_of g \<in> free_set s"
    and v: "has_flag v VM_PRESENT" "\<not> has_flag v VM_PAGE_SIZE" "table_from_entry v = g"
    and s': "s' = set_entry t i v (memset_page g s1)" "phys s1 = phys s"
    and s1: "pmm_wf s1" "free_set s1 = free_set s - {page_of g}"
  shows "space_wf s' R" and "path_tbl s' r (p @ [i]) = Some g"
    and "\<And>r' va. r' \<in> R \<Longrightarrow> pte s' r' va = pte s r' va"
proof -
  have p: "upath p" "length p < 3" "i < 512" using r(2) by (auto simp: upath_def apath_def)
  note paths = new_table_paths [OF wf r(1) p(1,2) r(3) p(3) none g v s']
  have old: "path_tbl s r (p @ [i]) = None" by (simp add: path_tbl_snoc r(3) none)
  show new: "path_tbl s' r (p @ [i]) = Some g" using paths [OF r(1)] r(2) by (simp add: upath_def)
  have og: "u \<noteq> g" if "r' \<in> R" "apath q" "path_tbl s r' q = Some u" for r' q u
    using space_wfD(3) [OF wf that] g by auto
  have fs: "free_set s' = free_set s - {page_of g}" "pmm_wf s'" using s1 by (simp_all add: s'(1))
  have tu: "tables_used s' R"
    using space_wfD(3) [OF wf] unfolding tables_used_def by (auto simp: paths fs split: if_splits)
  have "tables_unique s' R"
    using space_wfD(4) [OF wf] og unfolding tables_unique_def
    by (simp add: paths upath_apath) (metis og upath_apath)
  then show "space_wf s' R" using tu fs space_wfD(2) [OF wf] by (simp add: space_wf_def)
  fix r' va
  assume r': "r' \<in> R"
  show "pte s' r' va = pte s r' va"
  proof (cases "r' = r \<and> va_path va = p @ [i]")
    case True
    have "t \<noteq> g" using og [OF r(1) _ r(3)] p by (simp add: upath_apath)
    then show ?thesis using True new old by (simp add: pte_def leaf_entry_ptr_path s'(1) split: option.split)
  next
    case False
    have "u \<noteq> t \<and> u \<noteq> g" if "path_tbl s r' (va_path va) = Some u" for u
      using og [OF r' _ that] space_wfD(4) [OF wf r(1) r' p(1) _ r(3), of "va_path va"] that p(2) by auto
    then show ?thesis using False paths [OF r', of "va_path va"]
      by (auto simp: pte_def leaf_entry_ptr_path s' split: option.split)
  qed
qed

lemma ensure_table_cases:
  assumes "pmm_wf s" "ensure_table t i fl s = (res, s')"
  obtains (same) "s' = s" "res = next_table s t i \<or> res = None"
  | (new) g s1 where "g \<noteq> 0" "pmm_alloc_page s = (g, s1)" "res = Some g"
      "s' = set_entry t i (g OR table_flags fl) (memset_page g s1)" "next_table s t i = None"
proof -
  obtain g s1 where a: "pmm_alloc_page s = (g, s1)" by force
  show thesis
  proof (cases "g = 0")
    case True
    then have "s1 = s" using pmm_alloc_fresh_law(3) [OF assms(1)] a by simp
    then show ?thesis using assms(2) a True same
      by (auto simp: ensure_table_def next_table_def Let_def split: if_splits)
  next
    case False
    then show ?thesis using assms(2) a same new [of g s1]
      by (auto simp: ensure_table_def next_table_def Let_def split: if_splits)
  qed
qed

lemma ensure_table_ok:
  assumes wf: "space_wf s R" and r: "r \<in> R" "upath (p @ [i])" "path_tbl s r p = Some t"
    and e: "ensure_table t i fl s = (res, s')"
  shows "space_wf s' R \<and> (\<forall>u. res = Some u \<longrightarrow> path_tbl s' r (p @ [i]) = Some u)
    \<and> (\<forall>r' \<in> R. \<forall>va. pte s' r' va = pte s r' va) \<and> cr3 s' = cr3 s \<and> free_set s' \<subseteq> free_set s
    \<and> (\<forall>f. page_of f \<notin> free_set s \<longrightarrow> \<not> table_frame s R f \<longrightarrow> \<not> table_frame s' R f \<and> phys s' f = phys s f)"
  using space_wfD(1) [OF wf] e
proof (cases rule: ensure_table_cases)
  case same
  then show ?thesis using wf r(3) by (auto simp: path_tbl_snoc)
next
  case (new g s1)
  note a = alloc_frame [OF space_wfD(1) [OF wf] new(2,1)]
  let ?v = "g OR table_flags fl"
  have v: "has_flag ?v VM_PRESENT" "\<not> has_flag ?v VM_PAGE_SIZE" "table_from_entry ?v = g"
    using a(4) by (simp_all add: table_flags_has frame_addr_no_flag table_from_entry_def frame_addr_entry)
  have p: "upath p" "length p < 3" "i < 512" using r(2) by (auto simp: upath_def apath_def)
  note n = new_table_wf [OF wf r new(5) a(2) v new(4) a(5,1,3)]
  have t: "table_frame s R t" using r p unfolding table_frame_def by (meson upath_apath)
  have "\<not> table_frame s' R f" "phys s' f = phys s f" if "page_of f \<notin> free_set s" "\<not> table_frame s R f" for f
  proof -
    have fg: "f \<noteq> g" "f \<noteq> t" using that a(2) t by auto
    then show "phys s' f = phys s f" by (simp add: new(4) a(5))
    show "\<not> table_frame s' R f" using that(2) fg
      new_table_paths [OF wf r(1) p(1,2) r(3) p(3) new(5) a(2) v new(4) a(5)]
      unfolding table_frame_def by (metis option.inject)
  qed
  then show ?thesis using n new a by auto
qed

subsection \<open>Mapping a page\<close>

lemma user_canonical: "va < USER_LIMIT \<Longrightarrow> canonical va"
proof -
  assume "va < USER_LIMIT"
  then have "unat va < 2 ^ 47" by (simp add: word_less_nat_alt)
  then have "unat (drop_bit 48 va) = 0" by (simp only: unat_drop) simp
  then show ?thesis by (simp add: canonical_def unat_eq_0)
qed

lemma va_path_snoc: "va_path va = ([table_index 39 va] @ [table_index 30 va]) @ [table_index 21 va]"
  by (simp add: va_path_def)

lemma upath_prefix: "upath (p @ q) \<Longrightarrow> upath p"
  by (cases p) (auto simp: upath_def apath_def)

text \<open>What a sequence of \<open>ensure_table\<close> calls keeps.\<close>

definition space_kept :: "'a vmm_state_scheme \<Rightarrow> 'a vmm_state_scheme \<Rightarrow> paddr set \<Rightarrow> bool" where
  "space_kept s s' R \<longleftrightarrow> space_wf s' R \<and> (\<forall>r \<in> R. \<forall>va. pte s' r va = pte s r va) \<and> cr3 s' = cr3 s
     \<and> free_set s' \<subseteq> free_set s
     \<and> (\<forall>f. page_of f \<notin> free_set s \<longrightarrow> \<not> table_frame s R f \<longrightarrow> \<not> table_frame s' R f \<and> phys s' f = phys s f)"

lemma space_kept_refl: "space_wf s R \<Longrightarrow> space_kept s s R"
  by (simp add: space_kept_def)

lemma space_kept_trans: "space_kept s t R \<Longrightarrow> space_kept t u R \<Longrightarrow> space_kept s u R"
  unfolding space_kept_def by (metis subsetD subset_trans)

lemma ensure_table_kept:
  assumes "space_wf s R" "r \<in> R" "upath q" "path_tbl s r p = Some t" "q = p @ [i]"
    "ensure_table t i fl s = (res, s')"
  shows "space_kept s s' R" "space_wf s' R" "res = Some u \<Longrightarrow> path_tbl s' r q = Some u"
  using ensure_table_ok [OF assms(1,2) _ assms(4,6)] assms(3,5) by (simp_all add: space_kept_def)

definition map_guard :: "paddr \<Rightarrow> vaddr \<Rightarrow> paddr \<Rightarrow> u64 \<Rightarrow> bool" where
  "map_guard r va pa fl \<longleftrightarrow> root_allowed r \<and> va AND 4095 = 0 \<and> canonical va \<and> frame_addr pa
     \<and> \<not> (has_flag fl VM_USER \<and> (va \<ge> USER_LIMIT \<or> va > USER_LIMIT - NPK_PAGE_SIZE))"

lemma map_page_guard_false: "\<not> map_guard r va pa fl \<Longrightarrow> vmm_map_page_root r va pa fl s = (False, s)"
  by (auto simp: map_guard_def vmm_map_page_root_def frame_addr_def)

lemma map_page_guard_true:
  assumes "map_guard r va pa fl"
  shows "vmm_map_page_root r va pa fl s = 
    (case ensure_table r (table_index 39 va) fl s of
        (None, s) \<Rightarrow> (False, s)
      | (Some pdpt, s) \<Rightarrow> (case ensure_table pdpt (table_index 30 va) fl s of
          (None, s) \<Rightarrow> (False, s)
        | (Some pd, s) \<Rightarrow> (case ensure_table pd (table_index 21 va) fl s of
            (None, s) \<Rightarrow> (False, s)
          | (Some pt, s) \<Rightarrow>
             if has_flag (phys s pt (table_index 12 va)) VM_PRESENT then (False, s)
             else (True, set_entry pt (table_index 12 va) (pa OR leaf_flags fl) s))))"
proof -
  have "pa AND 4095 = 0" using assms by (simp add: map_guard_def frame_addr_iff page_aligned_iff)
  then show ?thesis using assms unfolding vmm_map_page_root_def map_guard_def frame_addr_def Let_def
    by auto
qed

lemma map_page_cases:
  assumes wf: "space_wf s R" and r: "r \<in> R" and va: "va < USER_LIMIT"
    and m: "vmm_map_page_root r va pa fl s = (b, s')"
  obtains (fail) "\<not> b" "space_kept s s' R"
  | (ok) t u where "b" "space_kept s t R" "path_tbl t r (va_path va) = Some u"
      "\<not> has_flag (phys t u (table_index 12 va)) VM_PRESENT" "map_guard r va pa fl"
      "s' = set_entry u (table_index 12 va) (pa OR leaf_flags fl) t"
proof (cases "map_guard r va pa fl")
  case False
  then show ?thesis using m fail space_kept_refl [OF wf] by (simp add: map_page_guard_false)
next
  case G: True
  let ?i4 = "table_index 39 va" and ?i3 = "table_index 30 va" and ?i2 = "table_index 21 va"
  have up: "upath [?i4, ?i3, ?i2]" using upath_va_path [OF va] by (simp only: va_path_def)
  have up3: "upath [?i4, ?i3]" using upath_prefix [of "[?i4, ?i3]" "[?i2]"] up by simp
  have up4: "upath [?i4]" using upath_prefix [of "[?i4]" "[?i3]"] up3 by simp
  note m = m [unfolded map_page_guard_true [OF G]]
  obtain r4 s4 where e4: "ensure_table r ?i4 fl s = (r4, s4)" by force
  note k4 = ensure_table_kept [OF wf r up4 path_tbl.simps(1) append_Nil [symmetric] e4]
  show ?thesis
  proof (cases r4)
    case None
    then show ?thesis using m e4 k4 fail by simp
  next
    case t4: (Some pdpt)
    obtain r3 s3 where e3: "ensure_table pdpt ?i3 fl s4 = (r3, s3)" by force
    have q3: "[?i4, ?i3] = [?i4] @ [?i3]" by simp
    note k3 = ensure_table_kept [OF k4(2) r up3 k4(3) [OF t4] q3 e3]
    note kept3 = space_kept_trans [OF k4(1) k3(1)]
    show ?thesis
    proof (cases r3)
      case None
      then show ?thesis using m e4 e3 t4 kept3 fail by simp
    next
      case t3: (Some pd)
      obtain r2 s2 where e2: "ensure_table pd ?i2 fl s3 = (r2, s2)" by force
      have q2: "[?i4, ?i3, ?i2] = [?i4, ?i3] @ [?i2]" by simp
      note k2 = ensure_table_kept [OF k3(2) r up k3(3) [OF t3] q2 e2]
      note kept2 = space_kept_trans [OF kept3 k2(1)]
      show ?thesis
      proof (cases r2)
        case None
        then show ?thesis using m e4 e3 e2 t4 t3 kept2 fail by simp
      next
        case t2: (Some pt)
        then show ?thesis using m e4 e3 e2 t4 t3 kept2 fail ok [OF _ kept2, of pt] k2(3) [OF t2] G
          by (auto simp: va_path_def split: if_splits)
      qed
    qed
  qed
qed


lemma pte_not_canonical: "\<not> canonical va \<Longrightarrow> pte s r va = 0"
  by (simp add: pte_def leaf_entry_ptr_path)

lemma leaf_write_pte_any:
  assumes "space_wf s R" "r \<in> R" "upath (va_path va)" "path_tbl s r (va_path va) = Some t" "r' \<in> R"
    and "\<not> (r' = r \<and> same_page va' va)"
  shows "pte (set_entry t (table_index 12 va) v s) r' va' = pte s r' va'"
  using leaf_write_pte [OF assms(1-5), of va' v] assms(6) by (cases "canonical va'") (auto simp: pte_not_canonical)

lemma same_page_refl [simp]: "same_page a a"
  by (simp add: same_page_def)

lemma lookup_pte:
  "vmm_lookup_root s r va req =
     (let e = pte s r va
      in if \<not> has_flag e VM_PRESENT \<or> (has_flag req VM_USER \<and> \<not> has_flag e VM_USER)
            \<or> (has_flag req VM_WRITE \<and> \<not> has_flag e VM_WRITE) \<or> (has_flag req VM_NX \<and> \<not> has_flag e VM_NX) then 0
         else (e AND ENTRY_ADDR_MASK) OR (va AND (NPK_PAGE_SIZE - 1)))"
  by (auto simp: vmm_lookup_root_def pte_def Let_def split: option.split)

lemma leaf_entry_flags:
  assumes "frame_addr pa"
  shows "(pa OR leaf_flags fl) AND ENTRY_ADDR_MASK = pa"
    "has_flag (pa OR leaf_flags fl) VM_PRESENT"
    "has_flag (pa OR leaf_flags fl) VM_USER = has_flag fl VM_USER"
    "has_flag (pa OR leaf_flags fl) VM_WRITE = has_flag fl VM_WRITE"
    "has_flag (pa OR leaf_flags fl) VM_NX = has_flag fl VM_NX"
    "\<not> has_flag (pa OR leaf_flags fl) VM_COW"
  using assms by (simp_all add: frame_addr_entry leaf_flags_has frame_addr_no_flag)

lemma pte_leaf:
  "path_tbl s r (va_path va) = Some t \<Longrightarrow> root_allowed r \<Longrightarrow> canonical va \<Longrightarrow> pte s r va = phys s t (table_index 12 va)"
  by (simp add: pte_def leaf_entry_ptr_path)

lemma leaf_entry_ptrD:
  "leaf_entry_ptr s r va = Some (t, i) \<Longrightarrow> path_tbl s r (va_path va) = Some t \<and> i = table_index 12 va
     \<and> root_allowed r \<and> canonical va \<and> pte s r va = phys s t i"
  by (auto simp: pte_def leaf_entry_ptr_path split: if_splits)

lemma leaf_entry_ptr_None: "leaf_entry_ptr s r va = None \<Longrightarrow> pte s r va = 0"
  by (simp add: pte_def)

lemma table_frameI: "r \<in> R \<Longrightarrow> path_tbl s r (va_path va) = Some t \<Longrightarrow> table_frame s R t"
  unfolding table_frame_def using apath_va_path by blast

text \<open>One leaf rewritten, everything else kept: the common conclusion of the operations below.\<close>

definition leaf_updated ::
  "'a vmm_state_scheme \<Rightarrow> 'a vmm_state_scheme \<Rightarrow> paddr set \<Rightarrow> paddr \<Rightarrow> vaddr \<Rightarrow> u64 \<Rightarrow> bool" where
  "leaf_updated s s' R r va e \<longleftrightarrow> space_wf s' R \<and> pte s' r va = e
     \<and> (\<forall>r' \<in> R. \<forall>va'. \<not> (r' = r \<and> same_page va' va) \<longrightarrow> pte s' r' va' = pte s r' va')
     \<and> (\<forall>f. page_of f \<notin> free_set s \<longrightarrow> \<not> table_frame s R f \<longrightarrow> phys s' f = phys s f)"

lemma leaf_updatedI:
  assumes wf: "space_wf s R" and "r \<in> R" "va < USER_LIMIT" "path_tbl s r (va_path va) = Some t"
  shows "leaf_updated s (set_entry t (table_index 12 va) v s) R r va v"
proof -
  have up: "upath (va_path va)" using assms(3) by (rule upath_va_path)
  have "table_frame s R t" using assms(2,4) by (rule table_frameI)
  then show ?thesis
    unfolding leaf_updated_def
    using leaf_write_wf [OF wf assms(2) up _ assms(4)] leaf_write_pte_any [OF wf assms(2) up assms(4)]
      leaf_write_pte [OF wf assms(2) up assms(4,2) user_canonical [OF assms(3)]] by auto
qed

lemma leaf_updated_kept:
  assumes "space_kept s t R" "leaf_updated t s' R r va e"
  shows "leaf_updated s s' R r va e"
  using assms unfolding leaf_updated_def space_kept_def by (metis subsetD)

lemma map_page_effect:
  assumes "space_wf s R" "r \<in> R" "va < USER_LIMIT" "vmm_map_page_root r va pa fl s = (b, s')"
  shows "if b then leaf_updated s s' R r va (pa OR leaf_flags fl) \<and> frame_addr pa \<and> \<not> has_flag (pte s r va) VM_PRESENT
         else space_kept s s' R"
  using assms
proof (cases rule: map_page_cases)
  case fail
  then show ?thesis by simp
next
  case (ok t u)
  have wt: "space_wf t R" using ok(2) by (simp add: space_kept_def)
  have "pte t r va = phys t u (table_index 12 va)"
    using ok(3) space_wfD(2) [OF assms(1,2)] user_canonical [OF assms(3)] by (rule pte_leaf)
  then have "\<not> has_flag (pte s r va) VM_PRESENT" using ok(2,4) assms(2) by (simp add: space_kept_def)
  then show ?thesis
    using ok leaf_updated_kept [OF ok(2) leaf_updatedI [OF wt assms(2,3) ok(3)]]
    by (simp add: map_guard_def)
qed


subsection \<open>Unmapping, protecting, splitting a copy-on-write page\<close>

lemma unmap_page_effect:
  assumes "space_wf s R" "r \<in> R" "va < USER_LIMIT" "vmm_unmap_page_root r va s = (p, s')"
  shows "leaf_updated s s' R r va 0 \<and> p = pte s r va AND ENTRY_ADDR_MASK"
proof (cases "leaf_entry_ptr s r va")
  case None
  then show ?thesis using assms by (auto simp: vmm_unmap_page_root_def leaf_updated_def pte_def)
next
  case (Some a)
  obtain t i where a: "a = (t, i)" by force
  note l = leaf_entry_ptrD [OF Some [unfolded a]]
  then show ?thesis using assms Some a leaf_updatedI [OF assms(1-3), of t 0]
    by (simp add: vmm_unmap_page_root_def)
qed

text \<open>The entry that \<^verbatim>\<open>vmm_protect_page_root\<close> computes.\<close>

definition protected_entry :: "u64 \<Rightarrow> u64 \<Rightarrow> u64" where
  "protected_entry old flags =
     (let u = (old AND ENTRY_ADDR_MASK) OR leaf_flags flags OR (old AND (VM_SHARED OR VM_DEVICE))
      in if has_flag old VM_COW then (u OR VM_COW) AND NOT VM_WRITE else u)"

definition protect_refused :: "paddr \<Rightarrow> vaddr \<Rightarrow> u64 \<Rightarrow> bool" where
  "protect_refused root va flags \<longleftrightarrow> \<not> root_allowed root \<or> va AND (NPK_PAGE_SIZE - 1) \<noteq> 0 \<or> \<not> canonical va
     \<or> \<not> has_flag flags VM_USER \<or> flags AND NOT (VM_USER OR VM_WRITE OR VM_NX) \<noteq> 0 \<or> va \<ge> USER_LIMIT"

lemma protect_page_eq:
  "vmm_protect_page_root r va flags s = (if protect_refused r va flags then (False, s)
     else case leaf_entry_ptr s r va of None \<Rightarrow> (False, s)
       | Some (t, i) \<Rightarrow> if \<not> has_flag (phys s t i) VM_PRESENT \<or> \<not> has_flag (phys s t i) VM_USER then (False, s)
           else (True, set_entry t i (protected_entry (phys s t i) flags) s))"
  by (simp only: vmm_protect_page_root_def protect_refused_def protected_entry_def Let_def or.assoc)

lemma protect_page_effect:
  assumes "space_wf s R" "r \<in> R" "vmm_protect_page_root r va flags s = (b, s')"
  shows "if b then \<not> protect_refused r va flags \<and> leaf_updated s s' R r va (protected_entry (pte s r va) flags)
             \<and> has_flag (pte s r va) VM_PRESENT \<and> has_flag (pte s r va) VM_USER
         else s' = s"
proof (cases b)
  case True
  then obtain t i where l: "leaf_entry_ptr s r va = Some (t, i)" and g: "\<not> protect_refused r va flags"
    and h: "has_flag (phys s t i) VM_PRESENT" "has_flag (phys s t i) VM_USER"
    and s': "s' = set_entry t i (protected_entry (phys s t i) flags) s"
    using assms(3) by (auto simp: protect_page_eq split: if_splits option.splits)
  note m = leaf_entry_ptrD [OF l]
  have "va < USER_LIMIT" using g by (simp add: protect_refused_def not_le)
  then have "leaf_updated s s' R r va (protected_entry (pte s r va) flags)"
    using leaf_updatedI [OF assms(1,2), of va t] m s' by simp
  then show ?thesis using True g h m by simp
next
  case False
  then show ?thesis using assms(3) by (auto simp: protect_page_eq split: if_splits option.splits)
qed

lemma space_kept_alloc:
  assumes wf: "space_wf s R" and a: "pmm_alloc_page s = (g, t)" "g \<noteq> 0"
    and u: "phys u = (phys s)(g := x)" "pmm_wf u" "free_set u = free_set t" "cr3 u = cr3 s"
  shows "space_kept s u R" "\<not> table_frame s R g"
    "r \<in> R \<Longrightarrow> apath q \<Longrightarrow> path_tbl u r q = path_tbl s r q"
proof -
  note f = alloc_frame [OF space_wfD(1) [OF wf] a]
  show tf: "\<not> table_frame s R g" using space_wfD(3) [OF wf] f(2) unfolding table_frame_def by auto
  have paths: "path_tbl u r q = path_tbl s r q" if "r \<in> R" "apath q" for r q
  proof (rule path_frame)
    fix q' w j assume q: "apath q'" "path_tbl s r q' = Some w"
    then have "w \<noteq> g" using tf that(1) unfolding table_frame_def by blast
    then show "next_table u w j = next_table s w j" by (intro next_table_cong) (simp add: u)
  qed fact
  then show "r \<in> R \<Longrightarrow> apath q \<Longrightarrow> path_tbl u r q = path_tbl s r q" .
  have "space_wf u R" using wf u(2) by (rule space_wf_paths) (auto simp: paths u f)
  moreover have "pte u r va = pte s r va" if "r \<in> R" for r va
  proof -
    have "w \<noteq> g" if "path_tbl s r (va_path va) = Some w" for w
      using tf table_frameI [OF \<open>r \<in> R\<close> that] by auto
    then show ?thesis using paths [OF that, of "va_path va"]
      by (auto simp: pte_def leaf_entry_ptr_path u split: option.split)
  qed
  moreover have "table_frame u R f = table_frame s R f" for f
    unfolding table_frame_def by (intro bex_cong refl ex_cong1 conj_cong) (simp_all add: paths)
  ultimately show "space_kept s u R" using f(2,3) u by (auto simp: space_kept_def)
qed


lemma path_tbl_phys: "phys s' = phys s \<Longrightarrow> path_tbl s' r q = path_tbl s r q"
  by (induction q arbitrary: r) (simp_all add: next_table_def)

lemma pte_phys:
  assumes "phys s' = phys s"
  shows "pte s' r va = pte s r va"
  unfolding pte_def leaf_entry_ptr_path path_tbl_phys [OF assms] assms ..

lemma leaf_updated_phys:
  assumes "leaf_updated s t R r va e" "phys t' = phys t" "pmm_wf t'" "free_set t' \<subseteq> free_set t"
  shows "leaf_updated s t' R r va e"
proof -
  have "space_wf t R" using assms(1) by (simp add: leaf_updated_def)
  then have "space_wf t' R" using assms(3,4) by (rule space_wf_paths) (rule path_tbl_phys [OF assms(2)])
  then show ?thesis using assms(1) unfolding leaf_updated_def assms(2) pte_phys [OF assms(2)] by simp
qed

lemma free_shared:
  assumes "pmm_page_refs s a \<noteq> 0" "pmm_page_refs s a \<noteq> 1"
  shows "free_set (pmm_free_page a s) = free_set s"
  using assms by (auto simp: pmm_page_refs_eq pmm_free_page_eq Let_def split: if_splits)

lemma memcpy_page_simps [simp]:
  "phys (memcpy_page d f s) = (phys s)(d := phys s f)" "cr3 (memcpy_page d f s) = cr3 s"
  "free_set (memcpy_page d f s) = free_set s" "pmm_wf (memcpy_page d f s) = pmm_wf s"
  "pmm_page_refs (memcpy_page d f s) = pmm_page_refs s"
proof -
  show "free_set (memcpy_page d f s) = free_set s" "pmm_wf (memcpy_page d f s) = pmm_wf s"
    "pmm_page_refs (memcpy_page d f s) = pmm_page_refs s"
    by (rule pmm_view_cong pmm_wf_cong; simp add: memcpy_page_def)+
qed (simp_all add: memcpy_page_def)

text \<open>The effect of a successful split: the entry was present, for user code and marked copy-on-write, and becomes
  writable; a frame with other holders is replaced by a fresh copy.\<close>

definition cow_entry :: "u64 \<Rightarrow> bool" where
  "cow_entry e \<longleftrightarrow> has_flag e VM_PRESENT \<and> has_flag e VM_USER \<and> has_flag e VM_COW"

definition cow_split ::
  "'a vmm_state_scheme \<Rightarrow> 'a vmm_state_scheme \<Rightarrow> paddr set \<Rightarrow> paddr \<Rightarrow> vaddr \<Rightarrow> paddr \<Rightarrow> bool" where
  "cow_split s s' R r va new \<longleftrightarrow>
     (let e = pte s r va; old = e AND ENTRY_ADDR_MASK
      in cow_entry e \<and> leaf_updated s s' R r va (((e AND NOT ENTRY_ADDR_MASK) OR new OR VM_WRITE) AND NOT VM_COW)
         \<and> phys s' new = phys s old
         \<and> (if pmm_page_refs s old = 1 then new = old \<and> pmm_page_refs s' = pmm_page_refs s
            else pmm_page_refs s new = 0 \<and> frame_addr new
              \<and> pmm_page_refs s' = (pmm_page_refs s)(new := 1, old := pmm_page_refs s old - 1)))"

lemma entry_split: "(e AND NOT m) OR (e AND m) = e" for e m :: "'a::len word"
  by (rule bit_word_eqI) (auto simp: bit_simps)

lemma resolve_cow_private:
  assumes wf: "space_wf s R" and "r \<in> R" "va < USER_LIMIT"
    and l: "path_tbl s r (va_path va) = Some t" and old: "old = pte s r va AND ENTRY_ADDR_MASK"
    and ref: "pmm_page_refs s old = 1" and cow: "cow_entry (pte s r va)" and nt: "\<not> table_frame s R old"
  shows "cow_split s (set_entry t (table_index 12 va) ((pte s r va OR VM_WRITE) AND NOT VM_COW) s) R r va old"
proof -
  have "old \<noteq> t" using nt table_frameI [OF assms(2) l] by auto
  then have "phys (set_entry t (table_index 12 va) v s) old = phys s old" for v by simp
  moreover have "((pte s r va AND NOT ENTRY_ADDR_MASK) OR old OR VM_WRITE) = pte s r va OR VM_WRITE"
    unfolding old or.assoc [symmetric] entry_split ..
  ultimately show ?thesis
    unfolding cow_split_def Let_def old [symmetric]
    using leaf_updatedI [OF assms(1-4)] ref cow by simp
qed

lemma resolve_cow_shared:
  assumes wf: "space_wf s R" and "r \<in> R" "va < USER_LIMIT"
    and l: "path_tbl s r (va_path va) = Some t" and old: "old = pte s r va AND ENTRY_ADDR_MASK"
    and ref: "pmm_page_refs s old \<noteq> 1" "pmm_page_refs s old \<noteq> 0" and cow: "cow_entry (pte s r va)"
    and a: "pmm_alloc_page s = (g, s1)" "g \<noteq> 0"
    and e: "e = ((pte s r va AND NOT ENTRY_ADDR_MASK) OR g OR VM_WRITE) AND NOT VM_COW"
  shows "cow_split s (pmm_free_page old (set_entry t (table_index 12 va) e (memcpy_page g old s1))) R r va g"
proof -
  note f = alloc_frame [OF space_wfD(1) [OF wf] a]
  let ?s2 = "memcpy_page g old s1" and ?s3 = "set_entry t (table_index 12 va) e (memcpy_page g old s1)"
  have ph: "phys ?s2 = (phys s)(g := phys s old)" by (simp add: f)
  note k = space_kept_alloc [OF wf a ph]
  have k1: "space_kept s ?s2 R" using k(1) f by simp
  have l2: "path_tbl ?s2 r (va_path va) = Some t" using k(3) [OF _ _ _ assms(2), of "va_path va"] f l by simp
  have "g \<noteq> t" using k(2) table_frameI [OF assms(2) l] f by auto
  have w2: "space_wf ?s2 R" using k1 by (simp add: space_kept_def)
  have lu: "leaf_updated s ?s3 R r va e"
    using leaf_updated_kept [OF k1 leaf_updatedI [OF w2 assms(2,3) l2]] .
  have r3: "pmm_page_refs ?s3 = (pmm_page_refs s)(g := 1)" "pmm_wf ?s3" using f by simp_all
  have og: "old \<noteq> g" using pmm_refs_zero_free [OF space_wfD(1) [OF wf] f(2)] f(4) ref
    by (auto simp: page_addr_page_of frame_addr_aligned)
  then have "free_set (pmm_free_page old ?s3) = free_set ?s3" using ref r3 by (intro free_shared) auto
  then have "leaf_updated s (pmm_free_page old ?s3) R r va e"
    using r3 by (intro leaf_updated_phys [OF lu]) (simp_all add: pmm_free_page_wf)
  moreover have "pmm_page_refs s g = 0"
    using pmm_alloc_fresh_law(1) [OF space_wfD(1) [OF wf]] a by simp
  moreover have "phys (pmm_free_page old ?s3) g = phys s old" using \<open>g \<noteq> t\<close> by (simp add: f)
  moreover have "pmm_page_refs (pmm_free_page old ?s3)
      = (pmm_page_refs s)(g := 1, old := pmm_page_refs s old - 1)"
    using ref og unfolding pmm_free_refs_law r3 by simp
  ultimately show ?thesis unfolding cow_split_def Let_def old [symmetric] e [symmetric]
    using ref(1) f(4) cow by simp
qed


lemma user_range_bound:
  assumes "a < USER_LIMIT" "n \<le> USER_LIMIT - a" "n \<noteq> 0"
  shows "canonical (a + n - 1)" "canonical a"
proof -
  have u: "unat a < 0x800000000000" using assms(1) by (simp add: word_less_nat_alt)
  have "unat (USER_LIMIT - a) = 0x800000000000 - unat a" using assms(1) by (subst unat_sub) (simp_all add: order.strict_implies_order)
  then have n: "unat n \<le> 0x800000000000 - unat a" using assms(2) by (simp add: word_le_nat_alt)
  have "0 < unat n" using assms(3) by (simp add: unat_gt_0)
  moreover have an: "unat (a + n) = unat a + unat n" using u n by (simp add: unat_word_ariths)
  ultimately have "a + n \<noteq> 0" by (metis add_is_0 less_numeral_extra(3) unat_0)
  then have "unat (a + n - 1) = unat a + unat n - 1" using an by (simp add: unat_minus_one)
  then have "a + n - 1 < USER_LIMIT" using n u \<open>0 < unat n\<close> by (simp add: word_less_nat_alt)
  then show "canonical (a + n - 1)" by (rule user_canonical)
  show "canonical a" using assms(1) by (rule user_canonical)
qed

subsection \<open>A small address space\<close>

text \<open>One root with one page table, whose entry for address 0x1000 is a copy-on-write page that two
  holders share.\<close>

definition demo_phys :: "paddr \<Rightarrow> nat \<Rightarrow> u64" where
  "demo_phys f i = (if f = 0x10000 \<and> i = 0 then 0x11007 else if f = 0x11000 \<and> i = 0 then 0x12007
     else if f = 0x12000 \<and> i = 0 then 0x13007 else if f = 0x13000 \<and> i = 1 then 0x1000205 else 0)"

definition vmm_demo :: "'a \<Rightarrow> 'a vmm_state_scheme" where
  "vmm_demo x = (pmm_retain_page 0x1000000 (snd (pmm_alloc_page (pmm_boot (vmm_state_ext (\<lambda>_ _. 0) 0 0 x)))))
     \<lparr>phys := demo_phys, cr3 := 0x20000, mmio_next_virtual := MMIO_WINDOW_BASE\<rparr>"

lemma demo_next:
  "next_table (vmm_demo x) 0x10000 i = (if i = 0 then Some 0x11000 else None)"
  "next_table (vmm_demo x) 0x11000 i = (if i = 0 then Some 0x12000 else None)"
  "next_table (vmm_demo x) 0x12000 i = (if i = 0 then Some 0x13000 else None)"
  by (simp_all add: next_table_def vmm_demo_def demo_phys_def has_flag_def table_from_entry_def)

lemma demo_paths:
  assumes "apath q" "path_tbl (vmm_demo x) 0x10000 q = Some t"
  shows "(q, t) \<in> {([], 0x10000), ([0], 0x11000), ([0, 0], 0x12000), ([0, 0, 0], 0x13000)}"
proof -
  have "length q \<le> 3" using assms(1) by (simp add: apath_def)
  then consider "q = []" | i where "q = [i]" | i j where "q = [i, j]" | i j k where "q = [i, j, k]"
    by (auto simp: numeral_3_eq_3 le_Suc_eq length_Suc_conv)
  then show ?thesis using assms(2) by cases (auto simp: demo_next split: if_splits)
qed


lemma vmm_demo_pmm:
  "pmm_wf (vmm_demo x)" "free_set (vmm_demo x) = {4097, 4098, 4099}" "pmm_page_refs (vmm_demo x) 0x1000000 = 2"
proof -
  let ?b = "pmm_boot (vmm_state_ext (\<lambda>_ _. 0) 0 0 x)"
  let ?a = "snd (pmm_alloc_page ?b)"
  have a: "pmm_alloc_page ?b = (0x1000000, ?a)" by (simp add: prod_eq_iff pmm_boot_alloc)
  note f = alloc_frame [OF pmm_boot_wf a]
  have r: "pmm_page_refs ?a 0x1000000 = 1" using f(7) by simp
  have w: "pmm_wf (pmm_retain_page 0x1000000 ?a)" using pmm_retain_page_wf [OF f(1)] r by simp
  have fs: "free_set (pmm_retain_page 0x1000000 ?a) = {4097, 4098, 4099}"
    using f(3) by (simp add: pmm_retain_page_eq pmm_boot_free page_of_def)
  have rr: "pmm_page_refs (pmm_retain_page 0x1000000 ?a) 0x1000000 = 2"
    using pmm_retain_refs_law [of ?a "0x1000000"] r by simp
  have cong: "page_bitmap (vmm_demo x) = page_bitmap (pmm_retain_page 0x1000000 ?a)"
    "page_refs (vmm_demo x) = page_refs (pmm_retain_page 0x1000000 ?a)"
    "free_pages (vmm_demo x) = free_pages (pmm_retain_page 0x1000000 ?a)" by (simp_all add: vmm_demo_def)
  show "pmm_wf (vmm_demo x)" "free_set (vmm_demo x) = {4097, 4098, 4099}" "pmm_page_refs (vmm_demo x) 0x1000000 = 2"
    using w fs rr pmm_view_cong [OF cong(1)] pmm_wf_cong [OF cong] by simp_all
qed

lemma vmm_demo_wf: "space_wf (vmm_demo x) {0x10000}"
proof -
  have "tables_used (vmm_demo x) {0x10000}"
    unfolding tables_used_def vmm_demo_pmm by (auto dest!: demo_paths simp: page_of_def)
  moreover have "tables_unique (vmm_demo x) {0x10000}"
    unfolding tables_unique_def by (auto dest!: upath_apath demo_paths)
  ultimately show ?thesis by (simp add: space_wf_def vmm_demo_pmm root_allowed_def)
qed

lemma demo_pte:
  "pte (vmm_demo x) 0x10000 0x1000 = 0x1000205" "pte (vmm_demo x) 0x10000 0x2000 = 0"
  "path_tbl (vmm_demo x) 0x10000 (va_path 0x1000) = Some 0x13000"
  "path_tbl (vmm_demo x) 0x10000 (va_path 0x2000) = Some 0x13000"
  by (simp_all add: pte_def leaf_entry_ptr_path root_allowed_def canonical_def va_path_def unat_table_index demo_next)
     (simp_all add: vmm_demo_def demo_phys_def)

lemma demo_leaf: "leaf_entry_ptr (vmm_demo x) 0x10000 0x1000 = Some (0x13000, 1)" "phys (vmm_demo x) 0x13000 (Suc 0) = 0x1000205"
  by (simp_all add: leaf_entry_ptr_path root_allowed_def canonical_def demo_pte unat_table_index)
     (simp_all add: vmm_demo_def demo_phys_def)

lemma demo_frame: "\<not> table_frame (vmm_demo x) {0x10000} 0x1000000"
  by (auto simp: table_frame_def dest!: demo_paths)


subsection \<open>Properties\<close>

lemma lookup_eq_pte: "pte s' r va = pte s r va \<Longrightarrow> vmm_lookup_root s' r va req = vmm_lookup_root s r va req"
  by (simp only: lookup_pte)

lemma leaf_updated_others:
  "leaf_updated s s' R r va e \<Longrightarrow> r' \<in> R \<Longrightarrow> \<not> (r' = r \<and> same_page va' va)
     \<Longrightarrow> vmm_lookup_root s' r' va' req = vmm_lookup_root s r' va' req"
  unfolding leaf_updated_def by (intro lookup_eq_pte) blast

text \<open>C1. Mapping a user page keeps the address spaces well formed.  If it succeeds the page was not
  mapped before, and a lookup of it returns exactly the physical page, provided the mapping grants
  the rights the lookup asks for.  No lookup in another address space or of another page changes,
  whether or not it succeeds, and the content of no other allocated data frame changes.\<close>

theorem vmm_map_page_ok:
  assumes "space_wf s R" "r \<in> R" "va < USER_LIMIT" "vmm_map_page_root r va pa fl s = (b, s')"
  shows "space_wf s' R
    \<and> (b \<longrightarrow> vmm_lookup_root s r va 0 = 0 \<and> (\<forall>req. vmm_lookup_root s' r va req =
           (if (has_flag req VM_USER \<longrightarrow> has_flag fl VM_USER) \<and> (has_flag req VM_WRITE \<longrightarrow> has_flag fl VM_WRITE)
               \<and> (has_flag req VM_NX \<longrightarrow> has_flag fl VM_NX) then pa else 0)))
    \<and> (\<forall>r' \<in> R. \<forall>va' req. \<not> (b \<and> r' = r \<and> same_page va' va) \<longrightarrow>
           vmm_lookup_root s' r' va' req = vmm_lookup_root s r' va' req)
    \<and> (\<forall>f. page_of f \<notin> free_set s \<longrightarrow> \<not> table_frame s R f \<longrightarrow> phys s' f = phys s f)"
proof (cases b)
  case False
  then show ?thesis using map_page_effect [OF assms] by (auto simp: space_kept_def lookup_pte)
next
  case True
  then have e: "leaf_updated s s' R r va (pa OR leaf_flags fl)" "frame_addr pa" "\<not> has_flag (pte s r va) VM_PRESENT"
    using map_page_effect [OF assms] by auto
  then have l: "pte s' r va = pa OR leaf_flags fl" by (simp add: leaf_updated_def)
  have "va AND 4095 = 0" using True assms(4) map_page_guard_false [of r va pa fl s] by (auto simp: map_guard_def)
  then have "vmm_lookup_root s r va 0 = 0 \<and> (\<forall>req. vmm_lookup_root s' r va req =
           (if (has_flag req VM_USER \<longrightarrow> has_flag fl VM_USER) \<and> (has_flag req VM_WRITE \<longrightarrow> has_flag fl VM_WRITE)
               \<and> (has_flag req VM_NX \<longrightarrow> has_flag fl VM_NX) then pa else 0))"
    using e(3) leaf_entry_flags [OF e(2), of fl] unfolding lookup_pte l Let_def by simp
  then show ?thesis using e(1) True leaf_updated_others [OF e(1)] by (auto simp: leaf_updated_def)
qed

lemma demo_map: "fst (vmm_map_page_root 0x10000 0x2000 0x1001000 6 (vmm_demo x))"
proof -
  have g: "map_guard 0x10000 0x2000 0x1001000 6"
    by (simp add: map_guard_def root_allowed_def canonical_def frame_addr_def has_flag_def)
  have p: "phys (vmm_demo x) = demo_phys" by (simp add: vmm_demo_def)
  show ?thesis
    unfolding map_page_guard_true [OF g]
    by (simp add: ensure_table_def p demo_phys_def unat_table_index has_flag_def table_from_entry_def)
qed

theorem vmm_map_page_ok_witness:
  "fst (vmm_map_page_root 0x10000 0x2000 0x1001000 6 (vmm_demo ())) \<and>
   vmm_lookup_root (snd (vmm_map_page_root 0x10000 0x2000 0x1001000 6 (vmm_demo ()))) 0x10000 0x2000 VM_WRITE = 0x1001000"
proof -
  let ?m = "vmm_map_page_root 0x10000 0x2000 0x1001000 6 (vmm_demo ())"
  have m: "?m = (True, snd ?m)" using demo_map [of "()"] by (simp add: prod_eq_iff)
  show ?thesis using vmm_map_page_ok [OF vmm_demo_wf _ _ m] demo_map [of "()"] by (simp add: has_flag_def)
qed

text \<open>C3. Unmapping a user page returns the frame it was mapped to (0 if none); afterwards no lookup of the
  page succeeds, and no lookup of another page or in another address space changes.\<close>

theorem vmm_unmap_page_ok:
  assumes "space_wf s R" "r \<in> R" "va < USER_LIMIT" "vmm_unmap_page_root r va s = (p, s')"
  shows "space_wf s' R \<and> (\<forall>req. vmm_lookup_root s' r va req = 0)
    \<and> (vmm_lookup_root s r va 0 \<noteq> 0 \<longrightarrow> vmm_lookup_root s r va 0 = p OR (va AND 4095))
    \<and> (\<forall>r' \<in> R. \<forall>va' req. \<not> (r' = r \<and> same_page va' va) \<longrightarrow>
           vmm_lookup_root s' r' va' req = vmm_lookup_root s r' va' req)"
proof -
  have e: "leaf_updated s s' R r va 0" "p = pte s r va AND ENTRY_ADDR_MASK"
    using unmap_page_effect [OF assms] by auto
  then have "pte s' r va = 0" "space_wf s' R" by (simp_all add: leaf_updated_def)
  then show ?thesis using leaf_updated_others [OF e(1)] e(2) by (simp add: lookup_pte Let_def)
qed

theorem vmm_unmap_page_ok_witness:
  "vmm_lookup_root (snd (vmm_unmap_page_root 0x10000 0x1000 (vmm_demo ()))) 0x10000 0x1000 0 = 0
   \<and> vmm_lookup_root (vmm_demo ()) 0x10000 0x1000 VM_USER = 0x1000000"
proof -
  have "vmm_lookup_root (vmm_demo ()) 0x10000 0x1000 VM_USER = 0x1000000"
    by (simp add: lookup_pte demo_pte has_flag_def)
  then show ?thesis
    using vmm_unmap_page_ok [OF vmm_demo_wf [of "()"], of "0x10000" "0x1000"] by (simp add: prod_eq_iff)
qed

text \<open>C4. Changing the protection of a user page never changes the frame it is mapped to nor its
  shared, device and copy-on-write marks.  The page becomes writable exactly if write access was
  requested and it is not copy-on-write, and non-executable exactly if that was requested.  Nothing
  else changes, and a refused request changes nothing.\<close>

theorem vmm_protect_page_ok:
  assumes "space_wf s R" "r \<in> R" "vmm_protect_page_root r va flags s = (b, s')"
  shows "(b \<longrightarrow> (let e = pte s r va; e' = pte s' r va
            in e' AND ENTRY_ADDR_MASK = e AND ENTRY_ADDR_MASK \<and> has_flag e' VM_PRESENT \<and> has_flag e' VM_USER
              \<and> has_flag e' VM_WRITE = (has_flag flags VM_WRITE \<and> \<not> has_flag e VM_COW)
              \<and> has_flag e' VM_NX = has_flag flags VM_NX \<and> has_flag e' VM_COW = has_flag e VM_COW
              \<and> has_flag e' VM_SHARED = has_flag e VM_SHARED \<and> has_flag e' VM_DEVICE = has_flag e VM_DEVICE)
          \<and> space_wf s' R
          \<and> (\<forall>r' \<in> R. \<forall>va' req. \<not> (r' = r \<and> same_page va' va) \<longrightarrow>
               vmm_lookup_root s' r' va' req = vmm_lookup_root s r' va' req))
    \<and> (\<not> b \<longrightarrow> s' = s)"
proof (cases b)
  case False
  then show ?thesis using protect_page_effect [OF assms] by simp
next
  case True
  have e: "leaf_updated s s' R r va (protected_entry (pte s r va) flags)" "\<not> protect_refused r va flags"
    using protect_page_effect [OF assms] True by auto
  then have p: "pte s' r va = protected_entry (pte s r va) flags" "space_wf s' R" by (simp_all add: leaf_updated_def)
  have f: "has_flag flags VM_USER" "flags AND NOT (VM_USER OR VM_WRITE OR VM_NX) = 0" using e(2) by (auto simp: protect_refused_def)
  then have "\<not> has_flag flags VM_SHARED" "\<not> has_flag flags VM_DEVICE"
    using no_flag_outside [OF f(2), of VM_SHARED] no_flag_outside [OF f(2), of VM_DEVICE] by simp_all
  then have "let e = pte s r va; e' = pte s' r va
            in e' AND ENTRY_ADDR_MASK = e AND ENTRY_ADDR_MASK \<and> has_flag e' VM_PRESENT \<and> has_flag e' VM_USER
              \<and> has_flag e' VM_WRITE = (has_flag flags VM_WRITE \<and> \<not> has_flag e VM_COW)
              \<and> has_flag e' VM_NX = has_flag flags VM_NX \<and> has_flag e' VM_COW = has_flag e VM_COW
              \<and> has_flag e' VM_SHARED = has_flag e VM_SHARED \<and> has_flag e' VM_DEVICE = has_flag e VM_DEVICE"
    using f(1) unfolding p(1) Let_def protected_entry_def
    by (simp add: has_flag_and leaf_flags_has bit.conj_disj_distrib2 and.assoc)
  then show ?thesis using True p(2) leaf_updated_others [OF e(1)] by (auto simp: Let_def)
qed

theorem vmm_protect_page_ok_witness:
  "fst (vmm_protect_page_root 0x10000 0x1000 (VM_USER OR VM_WRITE) (vmm_demo ())) \<and>
   \<not> has_flag (pte (snd (vmm_protect_page_root 0x10000 0x1000 (VM_USER OR VM_WRITE) (vmm_demo ()))) 0x10000 0x1000) VM_WRITE"
proof -
  let ?m = "vmm_protect_page_root 0x10000 0x1000 (VM_USER OR VM_WRITE) (vmm_demo ())"
  have f: "fst ?m" by (simp add: protect_page_eq protect_refused_def root_allowed_def canonical_def demo_leaf)
  then have m: "?m = (True, snd ?m)" by (simp add: prod_eq_iff)
  show ?thesis using vmm_protect_page_ok [OF vmm_demo_wf _ m] f by (simp add: demo_pte Let_def)
qed

lemma resolve_cow_eq:
  "vmm_resolve_cow_fault r va s = (case leaf_entry_ptr s r va of None \<Rightarrow> (False, s)
     | Some (t, i) \<Rightarrow>
         let e = phys s t i; old = e AND ENTRY_ADDR_MASK
         in if \<not> has_flag e VM_PRESENT \<or> \<not> has_flag e VM_USER \<or> \<not> has_flag e VM_COW \<or> pmm_page_refs s old = 0
            then (False, s)
            else if pmm_page_refs s old = 1 then (True, set_entry t i ((e OR VM_WRITE) AND NOT VM_COW) s)
            else case pmm_alloc_page s of (g, s1) \<Rightarrow>
              if g = 0 then (False, s1)
              else (True, pmm_free_page old (set_entry t i
                 ((((phys (memcpy_page g old s1) t i AND NOT ENTRY_ADDR_MASK) OR g) OR VM_WRITE) AND NOT VM_COW)
                 (memcpy_page g old s1))))"
  by (simp only: vmm_resolve_cow_fault_def Let_def) (auto split: option.split prod.split)

text \<open>C2. Resolving a copy-on-write fault either changes nothing or succeeds on a present, user,
  copy-on-write page.  Then the page becomes writable and is no longer marked copy-on-write, its
  content is unchanged, a page with other holders is replaced by a fresh frame with one reference
  and the old frame loses one reference, and no other translation and no other frame changes.\<close>

theorem vmm_resolve_cow_ok:
  assumes "space_wf s R" "r \<in> R" "va < USER_LIMIT"
    and "\<not> table_frame s R (pte s r va AND ENTRY_ADDR_MASK)"
    and "vmm_resolve_cow_fault r va s = (b, s')"
  shows "if b then \<exists>new. cow_split s s' R r va new else s' = s"
proof (cases "leaf_entry_ptr s r va")
  case None
  then show ?thesis using assms(5) by (simp add: resolve_cow_eq)
next
  case (Some a)
  obtain t i where a: "a = (t, i)" by force
  note l = leaf_entry_ptrD [OF Some [unfolded a]]
  define old where "old = pte s r va AND ENTRY_ADDR_MASK"
  obtain g s1 where al: "pmm_alloc_page s = (g, s1)" by force
  have g0: "g = 0 \<Longrightarrow> s1 = s" using pmm_alloc_fresh_law(3) [OF space_wfD(1) [OF assms(1)]] al by simp
  have tg: "phys (memcpy_page g old s1) t i = pte s r va" if "g \<noteq> 0"
  proof -
    note f = alloc_frame [OF space_wfD(1) [OF assms(1)] al that]
    have "t \<noteq> g" using space_wfD(3) [OF assms(1,2) apath_va_path(1)] l f(2) by blast
    then show ?thesis using l f by simp
  qed
  have ph: "phys s t i = pte s r va" "i = table_index 12 va" "path_tbl s r (va_path va) = Some t" using l by simp_all
  note eq = assms(5) [unfolded resolve_cow_eq Some a option.case prod.case Let_def ph(1) al, folded old_def]
  show ?thesis
  proof (cases "\<not> has_flag (pte s r va) VM_PRESENT \<or> \<not> has_flag (pte s r va) VM_USER
      \<or> \<not> has_flag (pte s r va) VM_COW \<or> pmm_page_refs s old = 0")
    case True
    then show ?thesis using eq by (simp only: if_True prod.inject) auto
  next
    case False
    then have ref: "pmm_page_refs s old \<noteq> 0" and cow: "cow_entry (pte s r va)" by (simp_all add: cow_entry_def)
    note eq = eq [unfolded if_not_P [OF False]]
    show ?thesis
    proof (cases "pmm_page_refs s old = 1")
      case True
      then have "b" "cow_split s s' R r va old"
        using eq [unfolded if_P [OF True] prod.inject]
          resolve_cow_private [OF assms(1-3) ph(3) old_def True cow, unfolded old_def, OF assms(4), folded old_def] ph(2)
        by auto
      then show ?thesis by auto
    next
      case False
      note eq = eq [unfolded if_not_P [OF False]]
      show ?thesis
      proof (cases "g = 0")
        case True
        then show ?thesis using eq g0 by simp
      next
        case g: False
        have "b" "cow_split s s' R r va g"
          using eq [unfolded if_not_P [OF g] tg [OF g] or.assoc prod.inject] resolve_cow_shared [OF assms(1-3) ph(3) old_def False ref cow al g refl] ph(2)
          by auto
        then show ?thesis by auto
      qed
    qed
  qed
qed

lemma demo_cow: "fst (vmm_resolve_cow_fault 0x10000 0x1000 (vmm_demo x))"
proof -
  have "fst (pmm_alloc_page (vmm_demo x)) \<noteq> 0"
    by (simp add: pmm_alloc_page_def pmm_scan_words_least vmm_demo_pmm page_addr_def)
  then show ?thesis
    by (auto simp add: resolve_cow_eq demo_leaf vmm_demo_pmm split: prod.split)
qed

theorem vmm_resolve_cow_ok_witness:
  "\<exists>new. cow_split (vmm_demo ()) (snd (vmm_resolve_cow_fault 0x10000 0x1000 (vmm_demo ()))) {0x10000} 0x10000 0x1000 new"
proof -
  have m: "vmm_resolve_cow_fault 0x10000 0x1000 (vmm_demo ()) =
      (True, snd (vmm_resolve_cow_fault 0x10000 0x1000 (vmm_demo ())))"
    using demo_cow [of "()"] by (simp add: prod_eq_iff)
  show ?thesis using vmm_resolve_cow_ok [OF vmm_demo_wf _ _ _ m] by (simp add: demo_pte demo_frame)
qed

text \<open>C5. The range check for user pointers accepts a non-empty range exactly if every byte of it lies
  below the user limit, without wrap-around, and an empty one exactly if its address does.\<close>

theorem vmm_is_user_range_iff:
  "vmm_is_user_range a n \<longleftrightarrow> unat a < 0x800000000000 \<and> unat a + unat n \<le> 0x800000000000"
proof (cases "a < USER_LIMIT")
  case True
  have u: "unat a < 0x800000000000" using True by (simp add: word_less_nat_alt)
  have "unat (USER_LIMIT - a) = 0x800000000000 - unat a" using True by (subst unat_sub) (simp_all add: order.strict_implies_order)
  then have "n \<le> USER_LIMIT - a \<longleftrightarrow> unat a + unat n \<le> 0x800000000000" using u by (auto simp: word_le_nat_alt)
  then show ?thesis using True u user_range_bound [OF True, of n] by (auto simp: vmm_is_user_range_def)
next
  case False
  then have "\<not> unat a < 0x800000000000" by (simp add: word_less_nat_alt)
  then show ?thesis using False by (simp add: vmm_is_user_range_def)
qed

end
