(* ===== verification/Heap.thy ===== *)
theory Heap
  imports Vmm_Space
begin

text \<open>
  The kernel heap, \<^verbatim>\<open>src/memory/heap.c\<close>: a first-fit allocator over a doubly linked list of block
  headers in the virtual window from \<open>NPK_HEAP_BASE\<close>.  The headers are a typed store
  (\<open>heap_blocks\<close>, from the header's address); the payload bytes between them are the callers' and
  are not part of the store.  \<open>NULL\<close> is address 0.  The two loops that follow \<^verbatim>\<open>next\<close> pointers do
  not end on a cyclic list; the model runs them with as many steps as the window has 16-byte slots
  and sets the ghost field \<open>hung\<close>, which says that the kernel is in a loop that never ends, when that is not
  enough; the invariant excludes it.

  The invariant \<open>heap_inv\<close> (theory \<open>Heap_Inv\<close>) relates the store to a list of sizes and free marks that tile the mapped
  part of the window; the operations are shown to refine the corresponding list operations.
\<close>

abbreviation (input) HEAP_MAGIC :: u64 where "HEAP_MAGIC \<equiv> 0x4e504b4845415041"
abbreviation (input) HEAP_FREED :: u64 where "HEAP_FREED \<equiv> 0x4e504b4652454544"
abbreviation (input) NPK_HEAP_BASE :: u64 where "NPK_HEAP_BASE \<equiv> 0xffff900000000000"
abbreviation (input) NPK_HEAP_LIMIT :: u64 where "NPK_HEAP_LIMIT \<equiv> 0xffff900004000000"
abbreviation (input) NPK_HEAP_ALIGNMENT :: u64 where "NPK_HEAP_ALIGNMENT \<equiv> 16"
abbreviation (input) sizeof_heap_block :: u64 where "sizeof_heap_block \<equiv> 48"
abbreviation (input) HEAP_FUEL :: nat where "HEAP_FUEL \<equiv> 0x400000"

record heap_block =
  hb_magic :: u64
  hb_size :: u64
  hb_free :: bool
  hb_next :: u64
  hb_prev :: u64

definition zero_block :: heap_block where
  "zero_block = \<lparr>hb_magic = 0, hb_size = 0, hb_free = False, hb_next = 0, hb_prev = 0\<rparr>"

record heap_state = vmm_state +
  heap_blocks :: "u64 \<Rightarrow> heap_block"
  heap_head :: u64
  heap_mapped :: u64
  heap_free :: u64
  heap_ready :: bool
  hung :: bool

definition blk_upd :: "u64 \<Rightarrow> (heap_block \<Rightarrow> heap_block) \<Rightarrow> 'a heap_state_scheme \<Rightarrow> 'a heap_state_scheme" where
  "blk_upd a f s = s\<lparr>heap_blocks := (heap_blocks s)(a := f (heap_blocks s a))\<rparr>"

definition add_overflow_u64 :: "u64 \<Rightarrow> u64 \<Rightarrow> bool" where
  "add_overflow_u64 a b \<longleftrightarrow> b > UINT64_MAX - a"

definition align_up_u64 :: "u64 \<Rightarrow> u64 \<Rightarrow> u64" where
  "align_up_u64 v alignment =
     (if alignment = 0 \<or> v > UINT64_MAX - (alignment - 1) then 0
      else (v + alignment - 1) AND NOT (alignment - 1))"

definition pointer_in_heap :: "'a heap_state_scheme \<Rightarrow> u64 \<Rightarrow> bool" where
  "pointer_in_heap s pointer \<longleftrightarrow>
     pointer \<ge> NPK_HEAP_BASE + sizeof_heap_block \<and> pointer < NPK_HEAP_BASE + heap_mapped s"

text \<open>\<^verbatim>\<open>map_more\<close>: the loop variable is \<^verbatim>\<open>heap_mapped\<close> itself; the caller has checked that \<open>required\<close> is
  within the window, which is repeated in the loop condition to bound the recursion.\<close>

function map_more_loop :: "u64 \<Rightarrow> u64 \<Rightarrow> 'a heap_state_scheme \<Rightarrow> bool \<times> 'a heap_state_scheme" where
  "map_more_loop required mapped s =
     (if mapped < required \<and> required \<le> NPK_HEAP_LIMIT - NPK_HEAP_BASE then
        let (physical, s) = pmm_alloc_page s
        in if physical = 0 then (False, s)
           else let virtual_address = NPK_HEAP_BASE + mapped
           in case vmm_map_page virtual_address physical (VM_WRITE OR VM_NX) s of
                (False, s) \<Rightarrow> (False, pmm_free_page physical s)
              | (True, s) \<Rightarrow>
                  let s = memset_page physical s;
                      s = s\<lparr>heap_blocks := (\<lambda>a. if virtual_address \<le> a \<and> a < virtual_address + NPK_PAGE_SIZE
                                               then zero_block else heap_blocks s a)\<rparr>
                  in map_more_loop required (mapped + NPK_PAGE_SIZE) (s\<lparr>heap_mapped := mapped + NPK_PAGE_SIZE\<rparr>)
      else (True, s))"
  by pat_completeness auto
termination
proof (relation "measure (\<lambda>(required, mapped, s). unat required - unat mapped)", goal_cases)
  case (2 required mapped s)
  then have m: "unat mapped < unat required" "unat required \<le> 0x4000000"
    by (simp_all add: word_less_nat_alt word_le_nat_alt)
  then have "unat (mapped + NPK_PAGE_SIZE) = unat mapped + 4096" by (simp add: unat_word_ariths)
  then show ?case using m by simp
qed simp

declare map_more_loop.simps [simp del]

definition map_more :: "u64 \<Rightarrow> 'a heap_state_scheme \<Rightarrow> bool \<times> 'a heap_state_scheme" where
  "map_more required_bytes s =
     (let required = align_up_u64 required_bytes NPK_PAGE_SIZE
      in if required = 0 \<or> required > NPK_HEAP_LIMIT - NPK_HEAP_BASE then (False, s)
         else map_more_loop required (heap_mapped s) s)"

text \<open>\<^verbatim>\<open>find_free\<close> and the search for the last block in \<^verbatim>\<open>kmalloc\<close>; \<open>None\<close> when the steps run out.\<close>

fun find_free :: "nat \<Rightarrow> (u64 \<Rightarrow> heap_block) \<Rightarrow> u64 \<Rightarrow> u64 \<Rightarrow> u64 option" where
  "find_free 0 mem block sz = None"
| "find_free (Suc n) mem block sz =
     (if block = 0 then Some 0
      else if hb_free (mem block) \<and> hb_size (mem block) \<ge> sz then Some block
      else find_free n mem (hb_next (mem block)) sz)"

fun last_block :: "nat \<Rightarrow> (u64 \<Rightarrow> heap_block) \<Rightarrow> u64 \<Rightarrow> u64 option" where
  "last_block 0 mem lst = None"
| "last_block (Suc n) mem lst =
     (if hb_next (mem lst) = 0 then Some lst else last_block n mem (hb_next (mem lst)))"

definition split_block :: "u64 \<Rightarrow> u64 \<Rightarrow> 'a heap_state_scheme \<Rightarrow> bool \<times> 'a heap_state_scheme" where
  "split_block block sz s =
     (if hb_size (heap_blocks s block) < sz + sizeof_heap_block + NPK_HEAP_ALIGNMENT then (False, s)
      else let tail = block + sizeof_heap_block + sz;
               nxt = hb_next (heap_blocks s block);
               s = blk_upd tail (\<lambda>_. \<lparr>hb_magic = HEAP_MAGIC,
                     hb_size = hb_size (heap_blocks s block) - sz - sizeof_heap_block,
                     hb_free = True, hb_next = nxt, hb_prev = block\<rparr>) s;
               s = (if nxt \<noteq> 0 then blk_upd nxt (\<lambda>b. b\<lparr>hb_prev := tail\<rparr>) s else s);
               s = blk_upd block (\<lambda>b. b\<lparr>hb_next := tail, hb_size := sz\<rparr>) s
           in (True, s))"

definition merge_with_next :: "u64 \<Rightarrow> 'a heap_state_scheme \<Rightarrow> 'a heap_state_scheme" where
  "merge_with_next block s =
     (let nxt = hb_next (heap_blocks s block)
      in if nxt = 0 \<or> \<not> hb_free (heap_blocks s nxt) then s
         else let expected = block + sizeof_heap_block + hb_size (heap_blocks s block)
         in if nxt \<noteq> expected \<or> hb_magic (heap_blocks s nxt) \<noteq> HEAP_MAGIC then s
            else let s = blk_upd block (\<lambda>b. b\<lparr>hb_size := hb_size b + (sizeof_heap_block + hb_size (heap_blocks s nxt))\<rparr>) s;
                     s = s\<lparr>heap_free := heap_free s + sizeof_heap_block\<rparr>;
                     after = hb_next (heap_blocks s nxt);
                     s = blk_upd block (\<lambda>b. b\<lparr>hb_next := after\<rparr>) s;
                     s = (if after \<noteq> 0 then blk_upd after (\<lambda>b. b\<lparr>hb_prev := block\<rparr>) s else s)
                 in blk_upd nxt (\<lambda>b. b\<lparr>hb_magic := HEAP_FREED, hb_free := True\<rparr>) s)"

definition kheap_init :: "'a heap_state_scheme \<Rightarrow> 'a heap_state_scheme" where
  "kheap_init s =
     (let s = s\<lparr>heap_head := 0, heap_mapped := 0, heap_free := 0, heap_ready := False\<rparr>
      in case map_more NPK_PAGE_SIZE s of
           (False, s) \<Rightarrow> s
         | (True, s) \<Rightarrow>
             let s = s\<lparr>heap_head := NPK_HEAP_BASE\<rparr>;
                 s = blk_upd NPK_HEAP_BASE (\<lambda>_. \<lparr>hb_magic = HEAP_MAGIC,
                       hb_size = NPK_PAGE_SIZE - sizeof_heap_block, hb_free = True, hb_next = 0, hb_prev = 0\<rparr>) s
             in s\<lparr>heap_free := NPK_PAGE_SIZE - sizeof_heap_block, heap_ready := True\<rparr>)"

text \<open>\<^verbatim>\<open>kmalloc\<close> in three parts: growing the heap by a new last block, taking a block, and the whole.\<close>

definition kmalloc_grow :: "u64 \<Rightarrow> 'a heap_state_scheme \<Rightarrow> u64 \<times> 'a heap_state_scheme" where
  "kmalloc_grow aligned s =
     (let old_end = NPK_HEAP_BASE + heap_mapped s
      in if add_overflow_u64 (heap_mapped s) (sizeof_heap_block + aligned) then (0, s)
         else case map_more (heap_mapped s + sizeof_heap_block + aligned) s of
           (False, s) \<Rightarrow> (0, s)
         | (True, s) \<Rightarrow>
             let tail = old_end;
                 size = (NPK_HEAP_BASE + heap_mapped s) - old_end - sizeof_heap_block;
                 s = blk_upd tail (\<lambda>_. \<lparr>hb_magic = HEAP_MAGIC, hb_size = size, hb_free = True,
                                       hb_next = 0, hb_prev = 0\<rparr>) s
             in if heap_head s = 0 then (tail, s\<lparr>heap_head := tail, heap_free := heap_free s + size\<rparr>)
                else case last_block HEAP_FUEL (heap_blocks s) (heap_head s) of
                  None \<Rightarrow> (0, s\<lparr>hung := True\<rparr>)
                | Some lst \<Rightarrow>
                    let s = blk_upd lst (\<lambda>b. b\<lparr>hb_next := tail\<rparr>) s;
                        s = blk_upd tail (\<lambda>b. b\<lparr>hb_prev := lst\<rparr>) s
                    in (tail, s\<lparr>heap_free := heap_free s + size\<rparr>))"

definition kmalloc_take :: "u64 \<Rightarrow> u64 \<Rightarrow> 'a heap_state_scheme \<Rightarrow> u64 \<times> 'a heap_state_scheme" where
  "kmalloc_take block aligned s =
     (let free_before = hb_size (heap_blocks s block);
          (split, s) = split_block block aligned s;
          s = blk_upd block (\<lambda>b. b\<lparr>hb_free := False\<rparr>) s;
          used = (if split then free_before - hb_size (heap_blocks s (hb_next (heap_blocks s block)))
                  else free_before)
      in (block + sizeof_heap_block, s\<lparr>heap_free := heap_free s - used\<rparr>))"

definition kmalloc :: "u64 \<Rightarrow> 'a heap_state_scheme \<Rightarrow> u64 \<times> 'a heap_state_scheme" where
  "kmalloc sz s =
     (if \<not> heap_ready s \<or> sz = 0 then (0, s)
      else let aligned = align_up_u64 sz NPK_HEAP_ALIGNMENT
      in if aligned = 0 then (0, s)
         else case find_free HEAP_FUEL (heap_blocks s) (heap_head s) aligned of
           None \<Rightarrow> (0, s\<lparr>hung := True\<rparr>)
         | Some block \<Rightarrow>
             if block \<noteq> 0 then kmalloc_take block aligned s
             else case kmalloc_grow aligned s of
               (tail, s) \<Rightarrow> if tail = 0 then (0, s) else kmalloc_take tail aligned s)"

text \<open>\<^verbatim>\<open>kcalloc\<close>: zeroing the payload does not touch the headers.\<close>

definition kcalloc :: "u64 \<Rightarrow> u64 \<Rightarrow> 'a heap_state_scheme \<Rightarrow> u64 \<times> 'a heap_state_scheme" where
  "kcalloc count sz s =
     (if count \<noteq> 0 \<and> sz > UINT64_MAX div count then (0, s) else kmalloc (count * sz) s)"

definition kfree :: "u64 \<Rightarrow> 'a heap_state_scheme \<Rightarrow> 'a heap_state_scheme" where
  "kfree pointer s =
     (if pointer = 0 then s
      else if \<not> pointer_in_heap s pointer then s
      else let block = pointer - sizeof_heap_block; b = heap_blocks s block
      in if hb_magic b \<noteq> HEAP_MAGIC \<or> hb_free b \<or> hb_size b = 0 then s
         else let s = blk_upd block (\<lambda>b. b\<lparr>hb_free := True\<rparr>) s;
                  s = s\<lparr>heap_free := heap_free s + hb_size (heap_blocks s block)\<rparr>;
                  prv = hb_prev (heap_blocks s block)
              in if prv \<noteq> 0 \<and> hb_free (heap_blocks s prv)
                 then let s = merge_with_next prv s; block = hb_prev (heap_blocks s block)
                      in merge_with_next block s
                 else merge_with_next block s)"

text \<open>\<^verbatim>\<open>kheap_validate\<close>; \<open>None\<close> when the steps run out.\<close>

fun validate_loop :: "nat \<Rightarrow> (u64 \<Rightarrow> heap_block) \<Rightarrow> u64 \<Rightarrow> u64 \<Rightarrow> u64 \<Rightarrow> u64 \<Rightarrow> (bool \<times> u64 \<times> u64) option" where
  "validate_loop 0 mem block previous address observed_free = None"
| "validate_loop (Suc n) mem block previous address observed_free =
     (if block = 0 then Some (True, address, observed_free)
      else if block \<noteq> address \<or> hb_magic (mem block) \<noteq> HEAP_MAGIC \<or> hb_prev (mem block) \<noteq> previous
              \<or> hb_size (mem block) = 0 then Some (False, address, observed_free)
      else if hb_size (mem block) > NPK_HEAP_LIMIT - NPK_HEAP_BASE
              \<or> add_overflow_u64 address (sizeof_heap_block + hb_size (mem block))
      then Some (False, address, observed_free)
      else validate_loop n mem (hb_next (mem block)) block (address + (sizeof_heap_block + hb_size (mem block)))
             (if hb_free (mem block) then observed_free + hb_size (mem block) else observed_free))"

definition kheap_validate :: "'a heap_state_scheme \<Rightarrow> bool option" where
  "kheap_validate s =
     (if \<not> heap_ready s then Some False
      else case validate_loop HEAP_FUEL (heap_blocks s) (heap_head s) 0 NPK_HEAP_BASE 0 of
             None \<Rightarrow> None
           | Some (ok, address, observed_free) \<Rightarrow>
               Some (ok \<and> address = NPK_HEAP_BASE + heap_mapped s \<and> observed_free = heap_free s))"

definition kheap_mapped_bytes :: "'a heap_state_scheme \<Rightarrow> u64" where
  "kheap_mapped_bytes s = heap_mapped s"

definition kheap_free_bytes :: "'a heap_state_scheme \<Rightarrow> u64" where
  "kheap_free_bytes s = heap_free s"

end
