(* ===== verification/Heap_Inv.thy ===== *)
theory Heap_Inv
  imports Heap
begin

text \<open>
  Correctness of the kernel heap.  The abstract heap is the list of its blocks (offset from
  \<open>NPK_HEAP_BASE\<close>, payload size, free mark) in address order; \<open>hrep\<close> says the linked headers in the
  store represent such a list and \<open>heap_inv\<close> is the allocator's invariant.  Consecutive blocks need
  not touch: growing the heap can fail half way, which leaves a gap (\<^verbatim>\<open>merge_with_next\<close> checks for it).
\<close>

type_synonym hblock = "nat \<times> nat \<times> bool"

definition ad :: "nat \<Rightarrow> u64" where
  "ad off = NPK_HEAP_BASE + of_nat off"

definition first :: "hblock list \<Rightarrow> u64 \<Rightarrow> u64" where
  "first bs nx = (case bs of [] \<Rightarrow> nx | b # _ \<Rightarrow> ad (fst b))"

definition lastp :: "u64 \<Rightarrow> hblock list \<Rightarrow> u64" where
  "lastp p bs = (if bs = [] then p else ad (fst (last bs)))"

fun hrep :: "(u64 \<Rightarrow> heap_block) \<Rightarrow> u64 \<Rightarrow> hblock list \<Rightarrow> u64 \<Rightarrow> bool" where
  "hrep mem p [] nx \<longleftrightarrow> True"
| "hrep mem p ((off, z, f) # bs) nx \<longleftrightarrow>
     mem (ad off) = \<lparr>hb_magic = HEAP_MAGIC, hb_size = of_nat z, hb_free = f, hb_next = first bs nx, hb_prev = p\<rparr>
     \<and> hrep mem (ad off) bs nx"

fun ordered :: "nat \<Rightarrow> hblock list \<Rightarrow> nat \<Rightarrow> bool" where
  "ordered lo [] hi \<longleftrightarrow> lo \<le> hi"
| "ordered lo ((off, z, f) # bs) hi \<longleftrightarrow>
     lo \<le> off \<and> 0 < z \<and> 16 dvd off \<and> 16 dvd z \<and> ordered (off + 48 + z) bs hi"

fun endp :: "nat \<Rightarrow> hblock list \<Rightarrow> nat" where
  "endp lo [] = lo"
| "endp lo ((off, z, f) # bs) = endp (off + 48 + z) bs"

definition free_sum :: "hblock list \<Rightarrow> nat" where
  "free_sum bs = (\<Sum>(off, z, f) \<leftarrow> bs. if f then z else 0)"

abbreviation (input) HEAP_WINDOW :: nat where "HEAP_WINDOW \<equiv> 0x4000000"

definition heap_inv :: "'a heap_state_scheme \<Rightarrow> hblock list \<Rightarrow> bool" where
  "heap_inv s bs \<longleftrightarrow> heap_ready s \<and> bs \<noteq> [] \<and> heap_head s = first bs 0 \<and> hrep (heap_blocks s) 0 bs 0
     \<and> ordered 0 bs (unat (heap_mapped s)) \<and> unat (heap_mapped s) \<le> HEAP_WINDOW \<and> 4096 dvd unat (heap_mapped s)
     \<and> unat (heap_free s) = free_sum bs \<and> \<not> hung s"

subsection \<open>Addresses and lists\<close>

lemma unat_ad: "off \<le> HEAP_WINDOW \<Longrightarrow> unat (ad off) = 0xffff900000000000 + off"
  by (simp add: ad_def unat_word_ariths unat_of_nat)

lemma ad_eq_iff [simp]: "a \<le> HEAP_WINDOW \<Longrightarrow> b \<le> HEAP_WINDOW \<Longrightarrow> ad a = ad b \<longleftrightarrow> a = b"
  by (simp add: word_unat_eq_iff unat_ad)

lemma ad_nonzero [simp]: "off \<le> HEAP_WINDOW \<Longrightarrow> ad off \<noteq> 0"
  by (simp add: word_unat_eq_iff unat_ad)

lemma ad_add: "ad off + 48 + of_nat z = ad (off + 48 + z)"
  by (simp add: ad_def)

lemma first_simps [simp]: "first [] nx = nx" "first ((off, z, f) # bs) nx = ad off"
  by (simp_all add: first_def)

lemma first_append [simp]: "first (xs @ ys) nx = first xs (first ys nx)"
  by (cases xs) (auto simp: first_def)

lemma lastp_simps [simp]: "lastp p [] = p" "lastp p ((off, z, f) # bs) = lastp (ad off) bs"
  by (simp_all add: lastp_def)

lemma lastp_append [simp]: "lastp p (xs @ ys) = lastp (lastp p xs) ys"
  by (simp add: lastp_def)

lemma hrep_append: "hrep mem p (xs @ ys) nx \<longleftrightarrow> hrep mem p xs (first ys nx) \<and> hrep mem (lastp p xs) ys nx"
  by (induction xs arbitrary: p) auto

lemma endp_append [simp]: "endp lo (xs @ ys) = endp (endp lo xs) ys"
  by (induction xs arbitrary: lo) auto

lemma ordered_append: "ordered lo (xs @ ys) hi \<longleftrightarrow> ordered lo xs (endp lo xs) \<and> ordered (endp lo xs) ys hi"
proof (induction xs arbitrary: lo)
  case (Cons b xs)
  then show ?case by (cases b) auto
qed simp

lemma ordered_le: "ordered lo bs hi \<Longrightarrow> lo \<le> hi"
  by (induction lo bs hi rule: ordered.induct) auto

lemma ordered_bounds: "ordered lo bs hi \<Longrightarrow> b \<in> set bs \<Longrightarrow> lo \<le> fst b \<and> fst b + 48 + fst (snd b) \<le> hi"
  by (induction lo bs hi rule: ordered.induct) (auto dest: ordered_le)

lemma ordered_mono: "ordered lo bs hi \<Longrightarrow> hi \<le> hi' \<Longrightarrow> ordered lo bs hi'"
  by (induction lo bs hi rule: ordered.induct) auto

lemma ordered_lower: "ordered lo bs hi \<Longrightarrow> lo' \<le> lo \<Longrightarrow> ordered lo' bs hi"
  by (cases bs) auto

lemma ordered_split:
  assumes "ordered lo (xs @ (off, z, f) # ys) hi"
  shows "ordered lo xs off" "ordered (off + 48 + z) ys hi" "off + 48 + z \<le> hi" "0 < z" "16 dvd z" "16 dvd off"
  using assms by (auto simp: ordered_append intro: ordered_mono dest: ordered_le)

lemma ordered_join:
  "ordered lo xs off \<Longrightarrow> ordered off ys hi \<Longrightarrow> ordered lo (xs @ ys) hi"
proof (induction xs arbitrary: lo)
  case (Cons b xs)
  then show ?case by (cases b) auto
qed (auto intro: ordered_lower)

lemma ordered_length: "ordered lo bs hi \<Longrightarrow> lo + 64 * length bs \<le> hi"
  by (induction lo bs hi rule: ordered.induct) (auto dest!: dvd_imp_le)

lemma hrep_frame:
  "\<forall>b \<in> set bs. mem' (ad (fst b)) = mem (ad (fst b)) \<Longrightarrow> hrep mem' p bs nx = hrep mem p bs nx"
  by (induction mem p bs nx rule: hrep.induct) auto

lemma first_nonzero:
  assumes "ordered lo bs hi" "hi \<le> HEAP_WINDOW"
  shows "first bs 0 = 0 \<longleftrightarrow> bs = []"
proof (cases bs)
  case (Cons b ys)
  then have "fst b \<le> HEAP_WINDOW" using ordered_bounds [OF assms(1), of b] assms(2) by simp
  then have "ad (fst b) \<noteq> 0" by (rule ad_nonzero)
  then show ?thesis by (simp add: first_def Cons)
qed simp

lemma free_sum_simps [simp]:
  "free_sum [] = 0" "free_sum ((off, z, f) # bs) = (if f then z else 0) + free_sum bs"
  "free_sum (xs @ ys) = free_sum xs + free_sum ys"
  by (simp_all add: free_sum_def)

lemma free_sum_le: "ordered lo bs hi \<Longrightarrow> free_sum bs \<le> hi - lo"
  by (induction lo bs hi rule: ordered.induct) (auto dest: ordered_le)

text \<open>Changing the back pointer of the first block, and the forward pointer of the last one.\<close>

lemma hrep_set_prev:
  assumes "hrep m p bs 0" "ordered lo bs hi" "hi \<le> HEAP_WINDOW"
  shows "hrep (if first bs 0 \<noteq> 0 then m(first bs 0 := (m (first bs 0))\<lparr>hb_prev := p'\<rparr>) else m) p' bs 0"
proof (cases bs)
  case (Cons b ys)
  obtain off z f where b: "b = (off, z, f)" by (cases b)
  have "ordered (off + 48 + z) ys hi" using assms(2) by (simp add: Cons b)
  then have "off < fst b' \<and> fst b' \<le> HEAP_WINDOW" if "b' \<in> set ys" for b'
    using ordered_bounds [of "off + 48 + z" ys hi b'] that assms(3) by simp
  then have "hrep (m(ad off := x)) (ad off) ys 0 = hrep m (ad off) ys 0" for x
    by (intro hrep_frame) fastforce
  then show ?thesis using assms(1) first_nonzero [OF assms(2,3)] by (simp add: Cons b)
qed simp

lemma hrep_set_next:
  assumes "hrep m p (xs @ [(off, z, f)]) nx" "ordered lo (xs @ [(off, z, f)]) hi" "hi \<le> HEAP_WINDOW"
  shows "hrep (m(ad off := (m (ad off))\<lparr>hb_next := nx'\<rparr>)) p (xs @ [(off, z, f)]) nx'"
proof -
  have o: "ordered lo xs off" "off \<le> HEAP_WINDOW" using ordered_split [OF assms(2)] assms(3) by auto
  then have "fst b < off" if "b \<in> set xs" for b
    using ordered_bounds [OF o(1) that] by simp
  then have "hrep (m(ad off := x)) p xs nx'' = hrep m p xs nx''" for x nx''
    using o(2) by (intro hrep_frame) fastforce
  then show ?thesis using assms(1) by (simp add: hrep_append)
qed

lemma find_free_ok:
  assumes "hrep mem p bs 0" "ordered lo bs hi" "hi \<le> HEAP_WINDOW" "length bs < n"
  shows "find_free n mem (first bs 0) sz =
    Some (case find (\<lambda>(off, z, f). f \<and> unat sz \<le> z) bs of None \<Rightarrow> 0 | Some (off, z, f) \<Rightarrow> ad off)"
  using assms
proof (induction n arbitrary: p bs lo)
  case (Suc n)
  show ?case
  proof (cases bs)
    case (Cons b ys)
    obtain off z f where b: "b = (off, z, f)" by (cases b)
    have o: "ordered (off + 48 + z) ys hi" "off \<le> HEAP_WINDOW" "z \<le> HEAP_WINDOW"
      using Suc.prems(2,3) ordered_le [of "off + 48 + z" ys hi] by (simp_all add: Cons b)
    then have "(sz \<le> of_nat z) = (unat sz \<le> z)" by (simp add: word_le_nat_alt unat_of_nat)
    moreover have "hrep mem (ad off) ys 0" using Suc.prems(1) by (simp add: Cons b)
    from Suc.IH [OF this o(1) Suc.prems(3)] Suc.prems(4) have "find_free n mem (first ys 0) sz =
        Some (case find (\<lambda>(off, z, f). f \<and> unat sz \<le> z) ys of None \<Rightarrow> 0 | Some (off, z, f) \<Rightarrow> ad off)"
      by (simp add: Cons)
    ultimately show ?thesis using Suc.prems(1) o(2) by (simp add: Cons b)
  qed simp
qed simp

lemma last_block_ok:
  assumes "hrep mem p (xs @ [(off, z, f)]) 0" "ordered lo (xs @ [(off, z, f)]) hi" "hi \<le> HEAP_WINDOW" "length xs < n"
  shows "last_block n mem (first (xs @ [(off, z, f)]) 0) = Some (ad off)"
  using assms
proof (induction n arbitrary: p xs lo)
  case (Suc n)
  show ?case
  proof (cases xs)
    case (Cons b ys)
    obtain off' z' f' where b: "b = (off', z', f')" by (cases b)
    have o: "ordered (off' + 48 + z') (ys @ [(off, z, f)]) hi" using Suc.prems(2) by (simp add: Cons b)
    have "first (ys @ [(off, z, f)]) 0 \<noteq> 0" using first_nonzero [OF o Suc.prems(3)] by simp
    moreover have "hrep mem (ad off') (ys @ [(off, z, f)]) 0" using Suc.prems(1) by (simp add: Cons b)
    from Suc.IH [OF this o Suc.prems(3)] Suc.prems(4)
    have "last_block n mem (first (ys @ [(off, z, f)]) 0) = Some (ad off)" by (simp add: Cons)
    ultimately show ?thesis using Suc.prems(1) by (simp add: Cons b)
  next
    case Nil
    then show ?thesis using Suc.prems(1) by simp
  qed
qed simp


subsection \<open>Taking a block\<close>

lemma blk_upd_simps [simp]:
  "heap_blocks (blk_upd a g s) = (heap_blocks s)(a := g (heap_blocks s a))"
  "heap_head (blk_upd a g s) = heap_head s" "heap_mapped (blk_upd a g s) = heap_mapped s"
  "heap_free (blk_upd a g s) = heap_free s" "heap_ready (blk_upd a g s) = heap_ready s"
  "hung (blk_upd a g s) = hung s" "phys (blk_upd a g s) = phys s"
  "heap_state.more (blk_upd a g s) = heap_state.more s"
  by (simp_all add: blk_upd_def)

definition taken :: "nat \<Rightarrow> nat \<Rightarrow> nat \<Rightarrow> hblock list" where
  "taken off z n = (if n + 64 \<le> z then [(off, n, False), (off + 48 + n, z - n - 48, True)] else [(off, z, False)])"

lemma hrep_update_block:
  assumes "hrep m p (xs @ (off, z, f) # ys) nx" "ordered lo (xs @ (off, z, f) # ys) hi" "hi \<le> HEAP_WINDOW"
  shows "hrep (m(ad off := (m (ad off))\<lparr>hb_free := f'\<rparr>)) p (xs @ (off, z, f') # ys) nx"
proof -
  note o = ordered_split [OF assms(2)]
  have w: "off \<le> HEAP_WINDOW" using o(3) assms(3) by simp
  have x: "fst b < off" if "b \<in> set xs" for b using ordered_bounds [OF o(1) that] by simp
  have y: "off < fst b \<and> fst b \<le> HEAP_WINDOW" if "b \<in> set ys" for b using ordered_bounds [OF o(2) that] assms(3) by simp
  have "hrep (m(ad off := v)) p xs (ad off) = hrep m p xs (ad off)" for v
    by (rule hrep_frame) (use w in \<open>auto dest!: x\<close>)
  moreover have "hrep (m(ad off := v)) (ad off) ys nx = hrep m (ad off) ys nx" for v
    by (rule hrep_frame) (use w in \<open>auto dest!: y\<close>)
  ultimately show ?thesis using assms(1) by (simp add: hrep_append)
qed

lemma first_neq:
  assumes "ordered lo ys hi" "hi \<le> HEAP_WINDOW" "k < lo"
  shows "first ys 0 \<noteq> ad k"
proof -
  have k: "k \<le> HEAP_WINDOW" using assms(3) ordered_le [OF assms(1)] assms(2) by simp
  show ?thesis
  proof (cases ys)
    case Nil
    then show ?thesis using ad_nonzero [OF k] by simp
  next
    case (Cons b zs)
    then have "first ys 0 = ad (fst b)" "lo \<le> fst b" "fst b \<le> HEAP_WINDOW"
      using ordered_bounds [OF assms(1), of b] assms(2) by (auto simp: first_def)
    then show ?thesis using assms(3) k by simp
  qed
qed

lemma hrep_split_block:
  assumes h: "hrep m p (xs @ (off, z, f) # ys) 0" and ord: "ordered lo (xs @ (off, z, f) # ys) hi" and hi: "hi \<le> HEAP_WINDOW"
    and n: "n + 64 \<le> z" and t: "t = ad (off + 48 + n)"
    and m1: "m1 = m(t := \<lparr>hb_magic = HEAP_MAGIC, hb_size = of_nat (z - n - 48), hb_free = True,
                          hb_next = first ys 0, hb_prev = ad off\<rparr>)"
    and m2: "m2 = (if first ys 0 \<noteq> 0 then m1(first ys 0 := (m1 (first ys 0))\<lparr>hb_prev := t\<rparr>) else m1)"
    and m3: "m3 = m2(ad off := (m2 (ad off))\<lparr>hb_next := t, hb_size := of_nat n\<rparr>)"
  shows "hrep m3 p (xs @ (off, n, f) # (off + 48 + n, z - n - 48, True) # ys) 0"
proof -
  note o = ordered_split [OF ord]
  have w: "off + 48 + z \<le> HEAP_WINDOW" using o(3) hi by simp
  have x: "fst b < off" if "b \<in> set xs" for b using ordered_bounds [OF o(1) that] by simp
  have y: "off + 48 + z \<le> fst b \<and> fst b \<le> HEAP_WINDOW" if "b \<in> set ys" for b
    using ordered_bounds [OF o(2) that] hi by simp
  have ynt: "first ys 0 \<noteq> ad k" if "k < off + 48 + z" for k
    using first_neq [OF o(2) hi that] .
  have hx: "hrep m p xs (ad off)" and ho: "m (ad off) = \<lparr>hb_magic = HEAP_MAGIC, hb_size = of_nat z, hb_free = f, hb_next = first ys 0, hb_prev = lastp p xs\<rparr>"
    and hy: "hrep m (ad off) ys 0" using h by (simp_all add: hrep_append)
  have "hrep m1 (ad off) ys 0" unfolding m1 using hy
    by (subst hrep_frame) (use w n in \<open>auto simp: t dest!: y\<close>)
  then have "hrep m2 t ys 0" unfolding m2 using o(2) hi by (rule hrep_set_prev)
  then have 1: "hrep m3 t ys 0" unfolding m3 by (subst hrep_frame) (use w n in \<open>auto dest!: y\<close>)
  have "t \<noteq> ad off" using w n by (simp add: t)
  then have 2: "m3 t = \<lparr>hb_magic = HEAP_MAGIC, hb_size = of_nat (z - n - 48), hb_free = True, hb_next = first ys 0, hb_prev = ad off\<rparr>"
    using ynt [of "off + 48 + n"] n by (simp add: m3 m2 m1 t)
  have 3: "m3 (ad off) = \<lparr>hb_magic = HEAP_MAGIC, hb_size = of_nat n, hb_free = f, hb_next = t, hb_prev = lastp p xs\<rparr>"
    using ynt [of off] \<open>t \<noteq> ad off\<close> ho by (simp add: m3 m2 m1)
  have "hrep m3 p xs (ad off) = hrep m p xs (ad off)"
  proof (rule hrep_frame, rule ballI)
    fix b assume b: "b \<in> set xs"
    have "fst b < off" using x [OF b] .
    then have "ad (fst b) \<noteq> ad off" "ad (fst b) \<noteq> t" "ad (fst b) \<noteq> first ys 0"
      using w n ynt [of "fst b"] by (simp_all add: t)
    then show "m3 (ad (fst b)) = m (ad (fst b))" by (simp add: m3 m2 m1)
  qed
  then show ?thesis using hx 1 2 3 by (simp add: hrep_append t)
qed


lemma hrep_merge_block:
  assumes h: "hrep m p (xs @ (off, z, f) # (off', z', g) # ys) 0"
    and ord: "ordered lo (xs @ (off, z, f) # (off', z', g) # ys) hi" and hi: "hi \<le> HEAP_WINDOW"
    and adj: "off' = off + 48 + z"
    and m1: "m1 = m(ad off := (m (ad off))\<lparr>hb_size := of_nat (z + 48 + z'), hb_next := first ys 0\<rparr>)"
    and m2: "m2 = (if first ys 0 \<noteq> 0 then m1(first ys 0 := (m1 (first ys 0))\<lparr>hb_prev := ad off\<rparr>) else m1)"
  shows "hrep (m2(ad off' := v)) p (xs @ (off, z + 48 + z', f) # ys) 0"
proof -
  note o = ordered_split [OF ord]
  have o2: "ordered (off' + 48 + z') ys hi" "off' + 48 + z' \<le> hi" using o(2) by (auto dest: ordered_le)
  have w: "off' \<le> HEAP_WINDOW" "off \<le> HEAP_WINDOW" "off < off'" using o2 hi adj by auto
  have x: "fst b < off" if "b \<in> set xs" for b using ordered_bounds [OF o(1) that] by simp
  have y: "off' < fst b \<and> fst b \<le> HEAP_WINDOW" if "b \<in> set ys" for b
    using ordered_bounds [OF o2(1) that] hi by simp
  have ynt: "first ys 0 \<noteq> ad k" if "k < off' + 48 + z'" for k using first_neq [OF o2(1) hi that] .
  have hx: "hrep m p xs (ad off)"
    and ho: "m (ad off) = \<lparr>hb_magic = HEAP_MAGIC, hb_size = of_nat z, hb_free = f, hb_next = ad off', hb_prev = lastp p xs\<rparr>"
    and hy: "hrep m (ad off') ys 0" using h by (simp_all add: hrep_append)
  have "hrep m1 (ad off') ys 0" unfolding m1 using hy
    by (subst hrep_frame) (use w in \<open>auto dest!: y\<close>)
  then have "hrep m2 (ad off) ys 0" unfolding m2 using o2(1) hi by (rule hrep_set_prev)
  then have 1: "hrep (m2(ad off' := v)) (ad off) ys 0" by (subst hrep_frame) (use w in \<open>auto dest!: y\<close>)
  have 2: "(m2(ad off' := v)) (ad off) = \<lparr>hb_magic = HEAP_MAGIC, hb_size = of_nat (z + 48 + z'), hb_free = f,
      hb_next = first ys 0, hb_prev = lastp p xs\<rparr>"
    using w ynt [of off] ho by (simp add: m2 m1)
  have "hrep (m2(ad off' := v)) p xs (ad off) = hrep m p xs (ad off)"
  proof (rule hrep_frame, rule ballI)
    fix b assume b: "b \<in> set xs"
    have "fst b < off" using x [OF b] .
    then have "ad (fst b) \<noteq> ad off" "ad (fst b) \<noteq> ad off'" "ad (fst b) \<noteq> first ys 0"
      using w ynt [of "fst b"] by simp_all
    then show "(m2(ad off' := v)) (ad (fst b)) = m (ad (fst b))" by (simp add: m2 m1)
  qed
  then show ?thesis using hx 1 2 by (simp add: hrep_append)
qed

lemma heap_invD:
  assumes "heap_inv s bs"
  shows "hrep (heap_blocks s) 0 bs 0" "ordered 0 bs (unat (heap_mapped s))" "unat (heap_mapped s) \<le> HEAP_WINDOW"
    "unat (heap_free s) = free_sum bs" "heap_head s = first bs 0" "heap_ready s" "bs \<noteq> []"
  using assms by (simp_all add: heap_inv_def)

lemma heap_inv_update:
  assumes "heap_inv s bs" "hrep (heap_blocks s') 0 bs' 0" "ordered 0 bs' (unat (heap_mapped s))"
    "unat (heap_free s') = free_sum bs'" "first bs' 0 = first bs 0" "bs' \<noteq> []"
    "heap_mapped s' = heap_mapped s" "heap_head s' = heap_head s" "heap_ready s' = heap_ready s" "hung s' = hung s"
  shows "heap_inv s' bs'"
  using assms by (simp add: heap_inv_def)

lemma unat_sub_le: "unat b \<le> unat a \<Longrightarrow> unat (a - b) = unat a - unat b" for a b :: u64
  by (simp add: unat_sub word_le_nat_alt)

lemma free_sum_window: "ordered 0 bs hi \<Longrightarrow> hi \<le> HEAP_WINDOW \<Longrightarrow> free_sum bs \<le> HEAP_WINDOW"
  using free_sum_le [of 0 bs hi] by simp

lemma kmalloc_take_ok:
  assumes inv: "heap_inv s (xs @ (off, z, True) # ys)" and n: "unat sz \<le> z" "0 < unat sz" "16 dvd unat sz"
    and k: "kmalloc_take (ad off) sz s = (p, s')"
  shows "p = ad (off + 48)" "heap_inv s' (xs @ taken off z (unat sz) @ ys)"
proof -
  note I = heap_invD [OF inv]
  note o = ordered_split [OF I(2)]
  let ?m = "heap_blocks s"
  have ho: "?m (ad off) = \<lparr>hb_magic = HEAP_MAGIC, hb_size = of_nat z, hb_free = True, hb_next = first ys 0, hb_prev = lastp 0 xs\<rparr>"
    using I(1) by (simp add: hrep_append)
  have w: "off + 48 + z \<le> HEAP_WINDOW" using o(3) I(3) by simp
  have uz: "unat (of_nat z :: u64) = z" using w by (simp add: unat_of_nat)
  have "p = ad off + 48" using k by (auto simp: kmalloc_take_def Let_def split: prod.splits)
  then show "p = ad (off + 48)" by (simp add: ad_def)
  show "heap_inv s' (xs @ taken off z (unat sz) @ ys)"
  proof (cases "unat sz + 64 \<le> z")
    case False
    have "(of_nat z :: u64) < sz + 48 + 16" using False n w by (simp add: word_less_nat_alt uz unat_word_ariths)
    then have s': "s' = (blk_upd (ad off) (\<lambda>b. b\<lparr>hb_free := False\<rparr>) s)\<lparr>heap_free := heap_free s - of_nat z\<rparr>"
      using k ho by (simp add: kmalloc_take_def split_block_def Let_def)
    have "hrep (heap_blocks s') 0 (xs @ (off, z, False) # ys) 0"
      using hrep_update_block [OF I(1,2,3), of False] by (simp add: s')
    moreover have "unat (heap_free s - of_nat z) = free_sum (xs @ (off, z, False) # ys)"
      using I(4) by (subst unat_sub_le) (simp_all add: uz)
    ultimately show ?thesis using False I(2)
      by (intro heap_inv_update [OF inv]) (auto simp: s' taken_def ordered_append)
  next
    case True
    let ?n = "unat sz" and ?t = "ad (off + 48 + unat sz)"
    define m1 where "m1 = ?m(?t := \<lparr>hb_magic = HEAP_MAGIC, hb_size = of_nat (z - ?n - 48), hb_free = True,
                          hb_next = first ys 0, hb_prev = ad off\<rparr>)"
    define m2 where "m2 = (if first ys 0 \<noteq> 0 then m1(first ys 0 := (m1 (first ys 0))\<lparr>hb_prev := ?t\<rparr>) else m1)"
    define m3 where "m3 = m2(ad off := (m2 (ad off))\<lparr>hb_next := ?t, hb_size := of_nat ?n\<rparr>)"
    have h3: "hrep m3 0 (xs @ (off, ?n, True) # (off + 48 + ?n, z - ?n - 48, True) # ys) 0"
      by (rule hrep_split_block [OF I(1,2,3) True refl m1_def m2_def m3_def])
    have o3: "ordered 0 (xs @ (off, ?n, f) # (off + 48 + ?n, z - ?n - 48, True) # ys) (unat (heap_mapped s))" for f
      using True n o by (intro ordered_join [OF o(1)]) (auto simp: dvd_diff_nat ac_simps)
    have h4: "hrep (m3(ad off := (m3 (ad off))\<lparr>hb_free := False\<rparr>)) 0 (xs @ (off, ?n, False) # (off + 48 + ?n, z - ?n - 48, True) # ys) 0"
      by (rule hrep_update_block [OF h3 o3 I(3)])
    have "\<not> (of_nat z :: u64) < sz + 48 + 16" using True w by (simp add: word_less_nat_alt uz unat_word_ariths)
    moreover have tt: "ad off + 48 + sz = ?t" using ad_add [of off ?n] by simp
    moreover have sz3: "(of_nat z :: u64) - sz - 48 = of_nat (z - ?n - 48)" using True by (simp add: of_nat_diff)
    ultimately have sp: "split_block (ad off) sz s = (True, s\<lparr>heap_blocks := m3\<rparr>)"
      using ho by (simp add: split_block_def Let_def blk_upd_def m3_def m2_def m1_def)
    have t3: "?t \<noteq> ad off" using w True by simp
    have "m3 ?t = \<lparr>hb_magic = HEAP_MAGIC, hb_size = of_nat (z - ?n - 48), hb_free = True, hb_next = first ys 0, hb_prev = ad off\<rparr>"
      "hb_next (m3 (ad off)) = ?t" using h3 by (simp_all add: hrep_append)
    moreover have "(of_nat z :: u64) - of_nat (z - ?n - 48) = of_nat (?n + 48)" using True by (simp add: of_nat_diff)
    ultimately have s': "s' = s\<lparr>heap_blocks := m3(ad off := (m3 (ad off))\<lparr>hb_free := False\<rparr>), heap_free := heap_free s - of_nat (?n + 48)\<rparr>"
      using k sp ho t3 by (simp add: kmalloc_take_def blk_upd_def Let_def)
    have "unat (of_nat (?n + 48) :: u64) = ?n + 48" using True w by (simp add: unat_of_nat del: of_nat_add)
    then have "unat (heap_free s - of_nat (?n + 48)) = free_sum (xs @ taken off z ?n @ ys)"
      using I(4) True by (subst unat_sub_le) (simp_all add: taken_def del: of_nat_add)
    then show ?thesis using True h4 o3 by (intro heap_inv_update [OF inv]) (simp_all add: s' taken_def)
  qed
qed


subsection \<open>Returning a block\<close>

fun coalesce :: "nat \<Rightarrow> nat \<Rightarrow> hblock list \<Rightarrow> hblock list" where
  "coalesce off z ((off', z', True) # ys) =
     (if off' = off + 48 + z then (off, z + 48 + z', True) # ys else (off, z, True) # (off', z', True) # ys)"
| "coalesce off z ys = (off, z, True) # ys"

definition released :: "hblock list \<Rightarrow> nat \<Rightarrow> nat \<Rightarrow> hblock list \<Rightarrow> hblock list" where
  "released xs off z ys =
     (if xs \<noteq> [] \<and> snd (snd (last xs)) then
        (case last xs of (off', z', _) \<Rightarrow>
           if off = off' + 48 + z' then butlast xs @ coalesce off' (z' + 48 + z) ys else xs @ (off, z, True) # ys)
      else xs @ coalesce off z ys)"

lemma first_coalesce [simp]: "first (coalesce off z ys) nx = ad off" "coalesce off z ys \<noteq> []"
  by (cases "(off, z, ys)" rule: coalesce.cases; simp)+

lemma merge_no_next:
  assumes "heap_inv s (xs @ (off, z, True) # ys)" "\<And>z' ys'. ys \<noteq> (off + 48 + z, z', True) # ys'"
  shows "merge_with_next (ad off) s = s"
proof -
  note I = heap_invD [OF assms(1)]
  note o = ordered_split [OF I(2)]
  have ho: "hb_next (heap_blocks s (ad off)) = first ys 0" "hb_size (heap_blocks s (ad off)) = of_nat z"
    using I(1) by (simp_all add: hrep_append)
  show ?thesis
  proof (cases ys)
    case Nil
    then show ?thesis by (simp add: merge_with_next_def ho Let_def)
  next
    case (Cons b zs)
    obtain off' z' f where b: "b = (off', z', f)" by (cases b)
    have "off' \<le> HEAP_WINDOW" "off + 48 + z \<le> HEAP_WINDOW" using ordered_bounds [OF o(2), of b] o(3) I(3) by (simp_all add: Cons b)
    then have "ad off' = ad off + 48 + of_nat z \<longleftrightarrow> off' = off + 48 + z" by (simp only: ad_add ad_eq_iff)
    moreover have "hb_free (heap_blocks s (ad off')) = f" using I(1) by (simp add: hrep_append Cons b)
    moreover have "\<not> (f \<and> off' = off + 48 + z)" using assms(2) by (auto simp: Cons b)
    ultimately show ?thesis by (auto simp: merge_with_next_def ho Let_def Cons b)
  qed
qed

lemma merge_next_ok:
  assumes inv: "heap_inv s (xs @ (off, z, True) # (off', z', True) # ys)" and adj: "off' = off + 48 + z"
  shows "heap_inv (merge_with_next (ad off) s) (xs @ (off, z + 48 + z', True) # ys)"
    "hb_prev (heap_blocks (merge_with_next (ad off) s) (ad off')) = ad off"
proof -
  note I = heap_invD [OF inv]
  note o = ordered_split [OF I(2)]
  let ?m = "heap_blocks s"
  have o2: "ordered (off' + 48 + z') ys (unat (heap_mapped s))" "off' + 48 + z' \<le> HEAP_WINDOW" "16 dvd z'"
    using o(2) I(3) by (auto dest: ordered_le)
  have w: "off' \<le> HEAP_WINDOW" "off \<le> HEAP_WINDOW" "off < off'" using o2 adj by auto
  have ho: "?m (ad off) = \<lparr>hb_magic = HEAP_MAGIC, hb_size = of_nat z, hb_free = True, hb_next = ad off', hb_prev = lastp 0 xs\<rparr>"
    and hn: "?m (ad off') = \<lparr>hb_magic = HEAP_MAGIC, hb_size = of_nat z', hb_free = True, hb_next = first ys 0, hb_prev = ad off\<rparr>"
    using I(1) by (simp_all add: hrep_append)
  define m1 where "m1 = ?m(ad off := (?m (ad off))\<lparr>hb_size := of_nat (z + 48 + z'), hb_next := first ys 0\<rparr>)"
  define m2 where "m2 = (if first ys 0 \<noteq> 0 then m1(first ys 0 := (m1 (first ys 0))\<lparr>hb_prev := ad off\<rparr>) else m1)"
  have ynt: "first ys 0 \<noteq> ad k" if "k < off' + 48 + z'" for k
    using first_neq [OF o2(1) I(3) that] .
  have ne: "ad off' \<noteq> ad off" "ad off' \<noteq> 0" using w by simp_all
  have ex: "ad off + 48 + of_nat z = ad off'" using adj by (simp add: ad_add)
  have y1: "first ys 0 \<noteq> ad off" "first ys 0 \<noteq> ad off'" using ynt [of off] ynt [of off'] w by simp_all
  have mm: "merge_with_next (ad off) s = s\<lparr>heap_blocks := m2(ad off' := (m2 (ad off'))\<lparr>hb_magic := HEAP_FREED, hb_free := True\<rparr>),
      heap_free := heap_free s + 48\<rparr>"
  proof -
    have e: "of_nat (z + 48 + z') = of_nat z + (48 + (of_nat z' :: u64))" by simp
    show ?thesis unfolding merge_with_next_def Let_def blk_upd_def m2_def m1_def e
      using ne y1 by (cases "first ys 0 = 0") (simp_all add: ho hn ex)
  qed
  have "free_sum (xs @ (off, z, True) # (off', z', True) # ys) \<le> HEAP_WINDOW" using free_sum_window [OF I(2,3)] .
  then have "unat (heap_free s + 48) = free_sum (xs @ (off, z + 48 + z', True) # ys)"
    using I(4) by (simp add: unat_word_ariths)
  moreover have "ordered 0 (xs @ (off, z + 48 + z', True) # ys) (unat (heap_mapped s))"
    using o o2 adj by (intro ordered_join [OF o(1)]) (auto simp: ac_simps)
  ultimately show "heap_inv (merge_with_next (ad off) s) (xs @ (off, z + 48 + z', True) # ys)"
    using hrep_merge_block [OF I(1,2,3) adj m1_def m2_def]
    by (intro heap_inv_update [OF inv]) (simp_all add: mm)
  show "hb_prev (heap_blocks (merge_with_next (ad off) s) (ad off')) = ad off"
    using hn ne y1 by (simp add: mm m2_def m1_def)
qed

lemma merge_with_next_ok:
  assumes "heap_inv s (xs @ (off, z, True) # ys)"
  shows "heap_inv (merge_with_next (ad off) s) (xs @ coalesce off z ys)"
proof (cases "\<exists>z' ys'. ys = (off + 48 + z, z', True) # ys'")
  case True
  then obtain z' ys' where ys: "ys = (off + 48 + z, z', True) # ys'" by blast
  show ?thesis using merge_next_ok(1) [OF assms [unfolded ys] refl] by (simp add: ys)
next
  case False
  then have "merge_with_next (ad off) s = s" using merge_no_next [OF assms] by blast
  moreover have "coalesce off z ys = (off, z, True) # ys"
    using False by (cases "(off, z, ys)" rule: coalesce.cases) auto
  ultimately show ?thesis using assms by simp
qed


lemma heap_inv_mark_free:
  assumes inv: "heap_inv s (xs @ (off, z, False) # ys)"
    and s1: "s1 = (blk_upd (ad off) (\<lambda>b. b\<lparr>hb_free := True\<rparr>) s)\<lparr>heap_free := heap_free s + of_nat z\<rparr>"
  shows "heap_inv s1 (xs @ (off, z, True) # ys)"
proof -
  note I = heap_invD [OF inv]
  note o = ordered_split [OF I(2)]
  have ord: "ordered 0 (xs @ (off, z, True) # ys) (unat (heap_mapped s))" using I(2) by (simp add: ordered_append)
  have "free_sum (xs @ (off, z, True) # ys) \<le> HEAP_WINDOW" using free_sum_window [OF ord I(3)] .
  then have "unat (heap_free s + of_nat z) = free_sum (xs @ (off, z, True) # ys)"
    using I(4) by (simp add: unat_word_ariths unat_of_nat)
  then show ?thesis using ord hrep_update_block [OF I(1,2,3), of True]
    by (intro heap_inv_update [OF inv]) (simp_all add: s1)
qed

lemma kfree_header:
  assumes inv: "heap_inv s (xs @ (off, z, f) # ys)"
  shows "ad (off + 48) \<noteq> 0" "pointer_in_heap s (ad (off + 48))" "ad (off + 48) - 48 = ad off"
    "heap_blocks s (ad off) = \<lparr>hb_magic = HEAP_MAGIC, hb_size = of_nat z, hb_free = f, hb_next = first ys 0, hb_prev = lastp 0 xs\<rparr>"
    "(of_nat z :: u64) \<noteq> 0"
proof -
  note I = heap_invD [OF inv]
  note o = ordered_split [OF I(2)]
  have w: "off + 48 < unat (heap_mapped s)" "unat (heap_mapped s) \<le> HEAP_WINDOW" "z \<le> HEAP_WINDOW" using o(3,4) I(3) by auto
  then show "ad (off + 48) \<noteq> 0" by simp
  have "unat (NPK_HEAP_BASE + heap_mapped s) = 0xffff900000000000 + unat (heap_mapped s)"
    using w by (simp add: unat_word_ariths)
  then show "pointer_in_heap s (ad (off + 48))"
    using w unat_ad [of "off + 48"] by (simp add: pointer_in_heap_def word_le_nat_alt word_less_nat_alt)
  show "ad (off + 48) - 48 = ad off" by (simp add: ad_def)
  show "heap_blocks s (ad off) = \<lparr>hb_magic = HEAP_MAGIC, hb_size = of_nat z, hb_free = f, hb_next = first ys 0, hb_prev = lastp 0 xs\<rparr>"
    using I(1) by (simp add: hrep_append)
  have "unat (of_nat z :: u64) = z" using w by (simp add: unat_of_nat)
  then show "(of_nat z :: u64) \<noteq> 0" using o(4) by (metis less_numeral_extra(3) unat_0)
qed

lemma kfree_unfold:
  assumes inv: "heap_inv s (xs @ (off, z, False) # ys)"
    and s1: "s1 = (blk_upd (ad off) (\<lambda>b. b\<lparr>hb_free := True\<rparr>) s)\<lparr>heap_free := heap_free s + of_nat z\<rparr>"
  shows "kfree (ad (off + 48)) s =
    (let prv = lastp 0 xs in if prv \<noteq> 0 \<and> hb_free (heap_blocks s1 prv)
     then let s2 = merge_with_next prv s1 in merge_with_next (hb_prev (heap_blocks s2 (ad off))) s2
     else merge_with_next (ad off) s1)"
  using kfree_header [OF inv] by (simp add: kfree_def s1 Let_def)

lemma kfree_ok:
  assumes inv: "heap_inv s (xs @ (off, z, False) # ys)"
  shows "heap_inv (kfree (ad (off + 48)) s) (released xs off z ys)"
proof -
  define s1 where "s1 = (blk_upd (ad off) (\<lambda>b. b\<lparr>hb_free := True\<rparr>) s)\<lparr>heap_free := heap_free s + of_nat z\<rparr>"
  have i1: "heap_inv s1 (xs @ (off, z, True) # ys)" by (rule heap_inv_mark_free [OF inv s1_def])
  note u = kfree_unfold [OF inv s1_def]
  show ?thesis
  proof (cases xs rule: rev_cases)
    case Nil
    then show ?thesis using merge_with_next_ok [OF i1] by (simp add: u released_def)
  next
    case (snoc us b)
    obtain off' z' g where b: "b = (off', z', g)" by (cases b)
    note I = heap_invD [OF i1 [unfolded snoc b append_assoc append_Cons append_Nil]]
    have o': "off' \<le> HEAP_WINDOW" using ordered_split(3) [OF I(2)] I(3) by simp
    have lp: "lastp 0 xs = ad off'" by (simp add: snoc b)
    have hf: "hb_free (heap_blocks s1 (ad off')) = g" using I(1) by (simp add: hrep_append)
    show ?thesis
    proof (cases g)
      case False
      then show ?thesis using merge_with_next_ok [OF i1] by (simp add: u lp hf released_def snoc b)
    next
      case True
      then have i2: "heap_inv s1 (us @ (off', z', True) # (off, z, True) # ys)" using i1 by (simp add: snoc b)
      show ?thesis
      proof (cases "off = off' + 48 + z'")
        case adj: True
        note m = merge_next_ok [OF i2 adj]
        show ?thesis unfolding u using merge_with_next_ok [OF m(1)] m(2) o' True adj
          by (simp add: lp hf released_def snoc b Let_def)
      next
        case False
        have "merge_with_next (ad off') s1 = s1" by (rule merge_no_next [OF i2]) (use False in simp)
        moreover have "hb_prev (heap_blocks s1 (ad off)) = ad off'" using I(1) by (simp add: hrep_append)
        ultimately show ?thesis using i2 True False o' by (simp add: u lp hf released_def snoc b)
      qed
    qed
  qed
qed


subsection \<open>Growing the heap\<close>

lemma alloc_moreD: "pmm_alloc_page s = (g, t) \<Longrightarrow> vmm_state.more t = vmm_state.more s"
  using alloc_phys(4) [of s] by simp

lemma ensure_table_moreD: "ensure_table t i fl s = (r, s') \<Longrightarrow> vmm_state.more s' = vmm_state.more s"
  by (auto simp: ensure_table_def Let_def set_entry_def memset_page_def dest: alloc_moreD split: prod.splits if_splits)

lemma map_page_root_more: "vmm_state.more (snd (vmm_map_page_root r va pa fl s)) = vmm_state.more s"
  by (auto simp: vmm_map_page_root_def Let_def dest!: ensure_table_moreD split: prod.split option.split)

lemma map_page_more: "vmm_state.more (snd (vmm_map_page va pa fl s)) = vmm_state.more s"
  by (simp add: vmm_map_page_def map_page_root_more)

lemma heap_fields_more:
  assumes "vmm_state.more s = vmm_state.more t"
  shows "heap_blocks s = heap_blocks t" "heap_head s = heap_head t" "heap_mapped s = heap_mapped t"
    "heap_free s = heap_free t" "heap_ready s = heap_ready t" "hung s = hung t"
    "heap_state.more s = heap_state.more t"
  using assms by (cases s, cases t, simp)+

lemma map_page_heap [simp]:
  "heap_blocks (snd (vmm_map_page va pa fl s)) = heap_blocks s" "heap_head (snd (vmm_map_page va pa fl s)) = heap_head s"
  "heap_mapped (snd (vmm_map_page va pa fl s)) = heap_mapped s" "heap_free (snd (vmm_map_page va pa fl s)) = heap_free s"
  "heap_ready (snd (vmm_map_page va pa fl s)) = heap_ready s" "hung (snd (vmm_map_page va pa fl s)) = hung s"
  using heap_fields_more [OF map_page_more [of va pa fl s]] by simp_all

lemma alloc_page_heap [simp]:
  "heap_blocks (snd (pmm_alloc_page s)) = heap_blocks s" "heap_head (snd (pmm_alloc_page s)) = heap_head s"
  "heap_mapped (snd (pmm_alloc_page s)) = heap_mapped s" "heap_free (snd (pmm_alloc_page s)) = heap_free s"
  "heap_ready (snd (pmm_alloc_page s)) = heap_ready s" "hung (snd (pmm_alloc_page s)) = hung s"
  using heap_fields_more [OF alloc_phys(4) [of s]] by simp_all

lemma free_page_heap [simp]:
  "heap_blocks (pmm_free_page a s) = heap_blocks s" "heap_head (pmm_free_page a s) = heap_head s"
  "heap_mapped (pmm_free_page a s) = heap_mapped s" "heap_free (pmm_free_page a s) = heap_free s"
  "heap_ready (pmm_free_page a s) = heap_ready s" "hung (pmm_free_page a s) = hung s"
  using heap_fields_more [OF free_phys(4) [of a s]] by simp_all

lemma memset_page_heap [simp]:
  "heap_blocks (memset_page a s) = heap_blocks s" "heap_head (memset_page a s) = heap_head s"
  "heap_mapped (memset_page a s) = heap_mapped s" "heap_free (memset_page a s) = heap_free s"
  "heap_ready (memset_page a s) = heap_ready s" "hung (memset_page a s) = hung s"
  by (simp_all add: memset_page_def)

text \<open>What growing the heap keeps: the blocks below the old end and everything but \<^verbatim>\<open>heap_mapped\<close>.\<close>

definition heap_grown :: "'a heap_state_scheme \<Rightarrow> 'a heap_state_scheme \<Rightarrow> bool" where
  "heap_grown s s' \<longleftrightarrow> heap_head s' = heap_head s \<and> heap_free s' = heap_free s \<and> heap_ready s' = heap_ready s
     \<and> hung s' = hung s \<and> unat (heap_mapped s) \<le> unat (heap_mapped s')
     \<and> unat (heap_mapped s') \<le> HEAP_WINDOW \<and> 4096 dvd unat (heap_mapped s')
     \<and> (\<forall>off < unat (heap_mapped s). heap_blocks s' (ad off) = heap_blocks s (ad off))"

lemma heap_grown_trans: "heap_grown s t \<Longrightarrow> heap_grown t u \<Longrightarrow> heap_grown s u"
  by (auto simp: heap_grown_def)

lemma map_more_step:
  assumes s1: "pmm_alloc_page s = (g, s1)" and s2: "vmm_map_page (NPK_HEAP_BASE + mapped) g fl s1 = (b, s2)"
    and m: "mapped = heap_mapped s" "4096 dvd unat mapped" "unat mapped + 4096 \<le> HEAP_WINDOW"
  shows "heap_grown s (let s3 = memset_page g s2;
       s3 = s3\<lparr>heap_blocks := (\<lambda>a. if NPK_HEAP_BASE + mapped \<le> a \<and> a < NPK_HEAP_BASE + mapped + NPK_PAGE_SIZE
              then zero_block else heap_blocks s3 a)\<rparr> in s3\<lparr>heap_mapped := mapped + NPK_PAGE_SIZE\<rparr>)"
proof -
  have u: "unat (mapped + NPK_PAGE_SIZE) = unat mapped + 4096" using m(3) by (simp add: unat_word_ariths)
  have f1: "heap_head s2 = heap_head s" "heap_free s2 = heap_free s" "heap_ready s2 = heap_ready s"
    "hung s2 = hung s" "heap_blocks s2 = heap_blocks s"
    using s1 s2 alloc_page_heap [of s] map_page_heap [of "NPK_HEAP_BASE + mapped" g fl s1] by simp_all
  have "\<not> NPK_HEAP_BASE + mapped \<le> ad off" if "off < unat mapped" for off
  proof -
    have "unat (NPK_HEAP_BASE + mapped) = 0xffff900000000000 + unat mapped" using m(3) by (simp add: unat_word_ariths)
    then show ?thesis using that m(3) by (simp add: word_le_nat_alt unat_ad)
  qed
  then show ?thesis using m u by (simp add: heap_grown_def Let_def f1)
qed


lemma map_more_loop_ok:
  assumes "map_more_loop required mapped s = (b, s')" "mapped = heap_mapped s" "4096 dvd unat mapped"
    "unat mapped \<le> HEAP_WINDOW" "4096 dvd unat required" "unat required \<le> HEAP_WINDOW"
  shows "heap_grown s s' \<and> (b \<longrightarrow> unat required \<le> unat (heap_mapped s'))"
  using assms
proof (induction "unat required - unat mapped" arbitrary: mapped s b s' rule: less_induct)
  case less
  note prems = less.prems and IH = less.hyps
  have refl: "heap_grown s s" using prems by (simp add: heap_grown_def)
  show ?case
  proof (cases "mapped < required \<and> required \<le> NPK_HEAP_LIMIT - NPK_HEAP_BASE")
    case False
    moreover have "required \<le> NPK_HEAP_LIMIT - NPK_HEAP_BASE" using prems(6) by (simp add: word_le_nat_alt)
    ultimately have "unat required \<le> unat mapped" by (simp add: word_less_nat_alt)
    moreover have "map_more_loop required mapped s = (True, s)"
      by (subst map_more_loop.simps) (rule if_not_P [OF False])
    ultimately show ?thesis using prems(1,2) refl by simp
  next
    case True
    obtain g s1 where a: "pmm_alloc_page s = (g, s1)" by force
    obtain c s2 where v: "vmm_map_page (NPK_HEAP_BASE + mapped) g (VM_WRITE OR VM_NX) s1 = (c, s2)" by force
    have f: "heap_grown s s1" using refl a alloc_page_heap [of s] by (simp add: heap_grown_def)
    have f2: "heap_grown s (pmm_free_page g s2)"
      using f v map_page_heap [of "NPK_HEAP_BASE + mapped" g "VM_WRITE OR VM_NX" s1] by (simp add: heap_grown_def)
    have lt: "unat mapped < unat required" using True by (simp add: word_less_nat_alt)
    then have le: "unat mapped + 4096 \<le> unat required"
      using prems(3,5) by (metis dvd_def linorder_not_less mult_less_cancel1 mult_Suc_right not_less_eq_eq Suc_leI add.commute mult_le_mono2)
    then have u: "unat (mapped + NPK_PAGE_SIZE) = unat mapped + 4096" using prems(6) by (simp add: unat_word_ariths)
    define s4 where "s4 = (let s3 = memset_page g s2;
       s3 = s3\<lparr>heap_blocks := (\<lambda>a. if NPK_HEAP_BASE + mapped \<le> a \<and> a < NPK_HEAP_BASE + mapped + NPK_PAGE_SIZE
              then zero_block else heap_blocks s3 a)\<rparr> in s3\<lparr>heap_mapped := mapped + NPK_PAGE_SIZE\<rparr>)"
    have g4: "heap_grown s s4" unfolding s4_def using a v prems(2,3) le prems(6) by (intro map_more_step) auto
    have eq: "map_more_loop required mapped s = (if g = 0 then (False, s1)
        else if c then map_more_loop required (mapped + NPK_PAGE_SIZE) s4 else (False, pmm_free_page g s2))"
      using True a v by (simp add: map_more_loop.simps [of required mapped s] s4_def Let_def)
    show ?thesis
    proof (cases "g \<noteq> 0 \<and> c")
      case False
      then show ?thesis using prems(1) eq f f2 by (auto split: if_splits)
    next
      case gc: True
      have "heap_grown s4 s' \<and> (b \<longrightarrow> unat required \<le> unat (heap_mapped s'))"
      proof -
        have "map_more_loop required (mapped + NPK_PAGE_SIZE) s4 = (b, s')" using eq gc prems(1) by simp
        moreover have "mapped + NPK_PAGE_SIZE = heap_mapped s4" by (simp add: s4_def Let_def)
        moreover have "4096 dvd unat (mapped + NPK_PAGE_SIZE)" "unat (mapped + NPK_PAGE_SIZE) \<le> HEAP_WINDOW"
          using u prems(3,6) le by auto
        ultimately show ?thesis using IH [of "mapped + NPK_PAGE_SIZE" s4 b s'] u lt prems(5,6) by simp
      qed
      then show ?thesis using heap_grown_trans [OF g4] by blast
    qed
  qed
qed


lemma align_up_bounds:
  assumes "align_up_u64 v a \<noteq> 0" "a = 16 \<or> a = 4096"
  shows "unat v \<le> unat (align_up_u64 v a)" "unat a dvd unat (align_up_u64 v a)" "unat (align_up_u64 v a) < unat v + unat a"
proof -
  have le: "unat v + unat a \<le> 2 ^ 64"
    using assms by (auto simp: align_up_u64_def word_less_nat_alt not_less unat_sub split: if_splits)
  have pos: "0 < unat a" using assms(2) by auto
  have a1: "unat (a - 1) = unat a - 1" using assms(2) by auto
  have "unat (v + (a - 1)) = unat v + unat (a - 1)"
    using le a1 pos by (intro unat_add_lem [THEN iffD1]) simp
  then have u: "unat (v + a - 1) = unat v + unat a - 1" using a1 pos by (simp only: add_diff_eq)
  have al: "align_up_u64 v a = (v + a - 1) AND NOT (a - 1)" using assms(1) by (simp add: align_up_u64_def split: if_splits)
  have "unat ((v + a - 1) AND NOT (a - 1)) = unat (v + a - 1) div unat a * unat a"
    using assms(2) by (auto simp: npk_word)
  then have *: "unat (align_up_u64 v a) = (unat v + unat a - 1) div unat a * unat a" by (simp only: al u)
  show "unat a dvd unat (align_up_u64 v a)" by (simp add: *)
  have "(unat v + unat a - 1) div unat a * unat a + (unat v + unat a - 1) mod unat a = unat v + unat a - 1" by (rule div_mult_mod_eq)
  moreover have "(unat v + unat a - 1) mod unat a < unat a" using pos by simp
  ultimately show "unat v \<le> unat (align_up_u64 v a)" "unat (align_up_u64 v a) < unat v + unat a"
    unfolding * using pos by linarith+
qed

lemma map_more_ok:
  assumes "map_more n s = (b, s')" "4096 dvd unat (heap_mapped s)" "unat (heap_mapped s) \<le> HEAP_WINDOW"
  shows "heap_grown s s' \<and> (b \<longrightarrow> unat n \<le> unat (heap_mapped s'))"
proof (cases "align_up_u64 n NPK_PAGE_SIZE = 0 \<or> align_up_u64 n NPK_PAGE_SIZE > NPK_HEAP_LIMIT - NPK_HEAP_BASE")
  case True
  then show ?thesis using assms by (auto simp: map_more_def heap_grown_def Let_def)
next
  case False
  then have m: "map_more_loop (align_up_u64 n NPK_PAGE_SIZE) (heap_mapped s) s = (b, s')"
    using assms(1) by (simp add: map_more_def Let_def split: if_splits)
  have "unat (align_up_u64 n NPK_PAGE_SIZE) \<le> HEAP_WINDOW" using False by (simp add: word_le_nat_alt not_less)
  then show ?thesis
    using map_more_loop_ok [OF m refl assms(2,3)] align_up_bounds [of n NPK_PAGE_SIZE] False by auto
qed

lemma heap_inv_grown:
  assumes "heap_inv s bs" "heap_grown s s'"
  shows "heap_inv s' bs"
proof -
  note I = heap_invD [OF assms(1)]
  have "heap_blocks s' (ad (fst b)) = heap_blocks s (ad (fst b))" if "b \<in> set bs" for b
    using ordered_bounds [OF I(2) that] assms(2) by (simp add: heap_grown_def)
  then have "hrep (heap_blocks s') 0 bs 0" using I(1) by (subst hrep_frame) auto
  moreover have "ordered 0 bs (unat (heap_mapped s'))" using I(2) assms(2) by (auto simp: heap_grown_def intro: ordered_mono)
  ultimately show ?thesis using assms by (simp add: heap_inv_def heap_grown_def)
qed


lemma hrep_add_last:
  assumes h: "hrep m 0 bs 0" and ord: "ordered 0 bs off" and off: "off \<le> HEAP_WINDOW"
    and bs: "bs = us @ [(lo, lz, lf)]"
    and m1: "m1 = m(ad off := \<lparr>hb_magic = HEAP_MAGIC, hb_size = of_nat z, hb_free = True, hb_next = 0, hb_prev = 0\<rparr>)"
    and m2: "m2 = m1(ad lo := (m1 (ad lo))\<lparr>hb_next := ad off\<rparr>)"
    and m3: "m3 = m2(ad off := (m2 (ad off))\<lparr>hb_prev := ad lo\<rparr>)"
  shows "hrep m1 0 bs 0" "hrep m3 0 (bs @ [(off, z, True)]) 0"
proof -
  have lt: "fst b < off \<and> fst b \<le> HEAP_WINDOW" if "b \<in> set bs" for b
    using ordered_bounds [OF ord that] off by simp
  show h1: "hrep m1 0 bs 0" using h off by (subst hrep_frame) (auto simp: m1 dest!: lt)
  have lo: "lo < off" "lo \<le> HEAP_WINDOW" using lt [of "(lo, lz, lf)"] by (simp_all add: bs)
  have "hrep m2 0 bs (ad off)" unfolding m2 bs using h1 ord off by (intro hrep_set_next) (simp_all add: bs)
  then have "hrep m3 0 bs (ad off)" using off by (subst hrep_frame) (auto simp: m3 dest!: lt)
  moreover have "m3 (ad off) = \<lparr>hb_magic = HEAP_MAGIC, hb_size = of_nat z, hb_free = True, hb_next = 0, hb_prev = ad lo\<rparr>"
    using lo off by (simp add: m3 m2 m1)
  ultimately show "hrep m3 0 (bs @ [(off, z, True)]) 0" by (simp add: hrep_append) (simp add: bs)
qed

lemma kmalloc_grow_ok:
  assumes inv: "heap_inv s bs" and n: "unat aligned + 48 < 2 ^ 64" "0 < unat aligned"
    and k: "kmalloc_grow aligned s = (t, s')"
  shows "if t = 0 then heap_inv s' bs
    else \<exists>z. t = ad (unat (heap_mapped s)) \<and> unat aligned \<le> z \<and> heap_inv s' (bs @ [(unat (heap_mapped s), z, True)])"
proof -
  note I = heap_invD [OF inv]
  have dv: "4096 dvd unat (heap_mapped s)" using inv by (simp add: heap_inv_def)
  obtain b s1 where mm: "map_more (heap_mapped s + 48 + aligned) s = (b, s1)" by force
  note g = map_more_ok [OF mm dv I(3)]
  have i1: "heap_inv s1 bs" using heap_inv_grown [OF inv] g by blast
  show ?thesis
  proof (cases "add_overflow_u64 (heap_mapped s) (48 + aligned) \<or> \<not> b")
    case True
    then have "(t, s') = (0, s) \<or> (t, s') = (0, s1)" using k mm by (auto simp: kmalloc_grow_def Let_def split: if_splits)
    then show ?thesis using inv i1 by auto
  next
    case False
    let ?off = "unat (heap_mapped s)"
    define z where "z = unat (heap_mapped s1) - ?off - 48"
    have u48: "unat (48 + aligned) = unat aligned + 48" using n by (simp add: unat_word_ariths)
    have "unat (UINT64_MAX - heap_mapped s) = 2 ^ 64 - 1 - ?off"
      using I(3) by (subst unat_sub_le) simp_all
    then have "unat aligned + 48 \<le> 2 ^ 64 - 1 - ?off"
      using False u48 by (simp add: add_overflow_u64_def word_less_nat_alt not_less)
    then have "?off + unat (48 + aligned) < 2 ^ 64" using u48 I(3) by simp
    then have "unat (heap_mapped s + (48 + aligned)) = ?off + unat (48 + aligned)"
      by (intro unat_add_lem [THEN iffD1]) simp
    then have "unat (heap_mapped s + 48 + aligned) = ?off + 48 + unat aligned" using u48 by (simp add: add.assoc)
    then have z1: "?off + 48 + unat aligned \<le> unat (heap_mapped s1)" using g False by simp
    then have z: "?off + 48 + unat aligned \<le> unat (heap_mapped s1)" "unat aligned \<le> z"
      "?off + 48 + z = unat (heap_mapped s1)" unfolding z_def by arith+
    have g': "unat (heap_mapped s1) \<le> HEAP_WINDOW" "4096 dvd unat (heap_mapped s1)" "heap_head s1 = heap_head s"
      using g by (simp_all add: heap_grown_def)
    have sz: "NPK_HEAP_BASE + heap_mapped s1 - (NPK_HEAP_BASE + heap_mapped s) - 48 = of_nat z"
    proof -
      have "unat (heap_mapped s1 - heap_mapped s - 48) = z"
        using z by (simp add: z_def unat_sub word_le_nat_alt)
      then have "of_nat z = heap_mapped s1 - heap_mapped s - 48" by auto
      then show ?thesis by simp
    qed
    obtain us lo lz lf where bs: "bs = us @ [(lo, lz, lf)]" using I(7) by (metis rev_exhaust prod_cases3)
    have ho: "hrep (heap_blocks s1) 0 bs 0" using heap_invD(1) [OF i1] .
    have off: "?off \<le> HEAP_WINDOW" using I(3) .
    have tail: "NPK_HEAP_BASE + heap_mapped s = ad ?off" by (simp add: ad_def)
    define m1 where "m1 = (heap_blocks s1)(ad ?off := \<lparr>hb_magic = HEAP_MAGIC, hb_size = of_nat z, hb_free = True, hb_next = 0, hb_prev = 0\<rparr>)"
    define m2 where "m2 = m1(ad lo := (m1 (ad lo))\<lparr>hb_next := ad ?off\<rparr>)"
    define m3 where "m3 = m2(ad ?off := (m2 (ad ?off))\<lparr>hb_prev := ad lo\<rparr>)"
    note h = hrep_add_last [OF ho I(2) off bs m1_def m2_def m3_def]
    have "length us < HEAP_FUEL" using ordered_length [OF I(2)] I(3) by (simp add: bs)
    then have lb: "last_block HEAP_FUEL m1 (first bs 0) = Some (ad lo)"
      using h(1) I(2) off unfolding bs by (rule last_block_ok [rotated 3])
    have hd: "heap_head s1 = first bs 0" "first bs 0 \<noteq> 0" using g'(3) I(5) first_nonzero [OF I(2,3)] I(7) by simp_all
    have ks: "t = ad ?off" "s' = s1\<lparr>heap_blocks := m3, heap_free := heap_free s1 + of_nat z\<rparr>"
      using k False mm lb hd sz
      by (simp_all add: kmalloc_grow_def Let_def blk_upd_def tail m1_def [symmetric] m2_def [symmetric] m3_def [symmetric])
    have "16 dvd ?off" "16 dvd unat (heap_mapped s1)" using dv g'(2) by (auto elim: dvd_trans [rotated])
    then have d: "16 dvd z" "16 dvd ?off" by (simp_all add: z_def dvd_diff_nat)
    then have o': "ordered 0 (bs @ [(?off, z, True)]) (unat (heap_mapped s1))"
      using I(2) z n(2) by (intro ordered_join) auto
    note I1 = heap_invD [OF i1]
    have "free_sum (bs @ [(?off, z, True)]) \<le> HEAP_WINDOW" using free_sum_window [OF o' g'(1)] .
    then have "unat (heap_free s1 + of_nat z) = free_sum (bs @ [(?off, z, True)])"
      using I1(4) by (simp add: unat_word_ariths unat_of_nat)
    then have "heap_inv s' (bs @ [(?off, z, True)])"
      using i1 h(2) o' I(7) by (simp add: heap_inv_def ks(2) first_def split: list.split)
    then show ?thesis using ks off z(2) by auto
  qed
qed


subsection \<open>The whole allocator\<close>

definition live :: "hblock list \<Rightarrow> (nat \<times> nat) set" where
  "live bs = {(off, z). (off, z, False) \<in> set bs}"

lemma live_simps [simp]:
  "live [] = {}" "live ((off, z, True) # bs) = live bs"
  "live ((off, z, False) # bs) = insert (off, z) (live bs)" "live (xs @ ys) = live xs \<union> live ys"
  by (auto simp: live_def)

lemma live_coalesce [simp]: "live (coalesce off z ys) = live ys"
  by (cases "(off, z, ys)" rule: coalesce.cases) auto

lemma live_released: "live (released xs off z ys) = live xs \<union> live ys"
proof (cases xs rule: rev_cases)
  case (snoc us b)
  obtain off' z' g where "b = (off', z', g)" by (cases b)
  then show ?thesis by (cases g) (simp_all add: released_def snoc)
qed (simp add: released_def)

lemma live_not_free:
  assumes "ordered lo (xs @ (off, z, True) # ys) hi"
  shows "(off, z') \<notin> live (xs @ ys)"
proof -
  note o = ordered_split [OF assms]
  have "fst b \<noteq> off" if "b \<in> set xs \<union> set ys" for b
    using that ordered_bounds [OF o(1), of b] ordered_bounds [OF o(2), of b] by auto
  then show ?thesis by (fastforce simp: live_def)
qed

definition alloc_result :: "'a heap_state_scheme \<Rightarrow> u64 \<Rightarrow> nat \<Rightarrow> hblock list \<Rightarrow> bool" where
  "alloc_result s' p n bs \<longleftrightarrow> (\<exists>bs' off z. heap_inv s' bs' \<and> p = ad (off + 48) \<and> off + 48 + z \<le> HEAP_WINDOW \<and> 16 dvd off
     \<and> n \<le> z \<and> live bs' = insert (off, z) (live bs) \<and> (off, z) \<notin> live bs)"

lemma kmalloc_take_result:
  assumes inv: "heap_inv s (xs @ (off, z, True) # ys)" and n: "unat a \<le> z" "0 < unat a" "16 dvd unat a" "n \<le> unat a"
    and k: "kmalloc_take (ad off) a s = (p, s')"
  shows "alloc_result s' p n (xs @ (off, z, True) # ys)"
proof -
  note t = kmalloc_take_ok [OF inv n(1-3) k] and I = heap_invD [OF inv]
  have "off + 48 + z \<le> HEAP_WINDOW" "16 dvd off" using ordered_split(3,6) [OF I(2)] I(3) by auto
  then show ?thesis
    using t n live_not_free [OF I(2)]
    unfolding alloc_result_def
    by (intro exI [of _ "xs @ taken off z (unat a) @ ys"] exI [of _ off]
        exI [of _ "if unat a + 64 \<le> z then unat a else z"]) (auto simp: taken_def)
qed

lemma kmalloc_cases:
  assumes "heap_ready s" "sz \<noteq> 0" "align_up_u64 sz NPK_HEAP_ALIGNMENT \<noteq> 0"
    "find_free HEAP_FUEL (heap_blocks s) (heap_head s) (align_up_u64 sz NPK_HEAP_ALIGNMENT) = Some block"
  shows "kmalloc sz s = (if block \<noteq> 0 then kmalloc_take block (align_up_u64 sz NPK_HEAP_ALIGNMENT) s
     else case kmalloc_grow (align_up_u64 sz NPK_HEAP_ALIGNMENT) s of
       (tail, s) \<Rightarrow> if tail = 0 then (0, s) else kmalloc_take tail (align_up_u64 sz NPK_HEAP_ALIGNMENT) s)"
  using assms by (simp add: kmalloc_def Let_def)

lemma kmalloc_ok:
  assumes inv: "heap_inv s bs" and n: "unat sz \<le> 2 ^ 64 - 64" and k: "kmalloc sz s = (p, s')"
  shows "if p = 0 then heap_inv s' bs else alloc_result s' p (unat sz) bs"
proof (cases "sz = 0 \<or> align_up_u64 sz NPK_HEAP_ALIGNMENT = 0")
  case True
  then show ?thesis using inv k by (auto simp: kmalloc_def Let_def split: if_splits)
next
  case False
  define a where "a = align_up_u64 sz NPK_HEAP_ALIGNMENT"
  note I = heap_invD [OF inv]
  have a: "unat sz \<le> unat a" "16 dvd unat a" "unat a < unat sz + 16"
    using align_up_bounds [of sz NPK_HEAP_ALIGNMENT] False by (simp_all add: a_def)
  have pos: "0 < unat a" using a(1) False by (metis gr_zeroI le_zero_eq unat_eq_0)
  have "length bs < HEAP_FUEL" using ordered_length [OF I(2)] I(3) by simp
  note ff = find_free_ok [OF I(1,2,3) this, of a, folded I(5)]
  note kc = kmalloc_cases [OF I(6) _ _ ff [unfolded a_def], folded a_def]
  show ?thesis
  proof (cases "find (\<lambda>(off, z, f). f \<and> unat a \<le> z) bs")
    case (Some b)
    obtain off z f where b: "b = (off, z, f)" by (cases b)
    have "f \<and> unat a \<le> z" "(off, z, f) \<in> set bs" using Some by (auto simp: find_Some_iff b) (metis nth_mem)
    then obtain xs ys where bs: "bs = xs @ (off, z, True) # ys" "unat a \<le> z" by (metis (full_types) split_list)
    have "off \<le> HEAP_WINDOW" using ordered_split(3) [OF I(2) [unfolded bs]] I(3) by simp
    then have "kmalloc_take (ad off) a s = (p, s')" using k kc False Some by (simp add: b a_def)
    then have r: "alloc_result s' p (unat sz) bs" using kmalloc_take_result [OF inv [unfolded bs] bs(2) pos a(2,1)] bs by simp
    then have "p \<noteq> 0" by (auto simp: alloc_result_def)
    then show ?thesis using r by simp
  next
    case None
    obtain t s1 where g: "kmalloc_grow a s = (t, s1)" by force
    have "unat a + 48 < 2 ^ 64" using a(3) n by simp
    note gr = kmalloc_grow_ok [OF inv this pos g]
    show ?thesis
    proof (cases "t = 0")
      case True
      then show ?thesis using k kc False None g gr by (simp add: a_def)
    next
      case t: False
      then obtain z where z: "t = ad (unat (heap_mapped s))" "unat a \<le> z" "heap_inv s1 (bs @ (unat (heap_mapped s), z, True) # [])"
        using gr by auto
      have "kmalloc_take (ad (unat (heap_mapped s))) a s1 = (p, s')" using k kc False None g t z(1) by (simp add: a_def)
      then have "alloc_result s' p (unat sz) (bs @ [(unat (heap_mapped s), z, True)])"
        by (rule kmalloc_take_result [OF z(3,2) pos a(2,1)])
      then have r: "alloc_result s' p (unat sz) bs" by (simp add: alloc_result_def)
      then have "p \<noteq> 0" by (auto simp: alloc_result_def)
      then show ?thesis using r by simp
    qed
  qed
qed


lemma hrep_unique:
  assumes "hrep m p bs 0" "hrep m p bs' 0" "first bs 0 = first bs' 0" "ordered lo bs hi" "ordered lo' bs' hi" "hi \<le> HEAP_WINDOW"
  shows "bs = bs'"
  using assms
proof (induction bs arbitrary: p bs' lo lo')
  case Nil
  then show ?case using first_nonzero [of lo' bs' hi] by simp
next
  case (Cons b bs)
  obtain off z f where b: "b = (off, z, f)" by (cases b)
  have "bs' \<noteq> []" using Cons.prems(3,4,6) first_nonzero [of lo "b # bs" hi] by auto
  then obtain off' z' f' cs where bs': "bs' = (off', z', f') # cs" by (metis neq_Nil_conv prod_cases3)
  have w: "off \<le> HEAP_WINDOW" "off' \<le> HEAP_WINDOW" "z \<le> HEAP_WINDOW" "z' \<le> HEAP_WINDOW"
    using Cons.prems(4,5,6) ordered_le [of "off + 48 + z" bs hi] ordered_le [of "off' + 48 + z'" cs hi] by (auto simp: b bs')
  then have off: "off' = off" using Cons.prems(3) by (simp add: b bs')
  then have "(of_nat z :: u64) = of_nat z'" "f = f'" "first bs 0 = first cs 0" using Cons.prems(1,2) by (simp_all add: b bs')
  moreover have "z = z'" using arg_cong [OF calculation(1), of unat] w by (simp add: unat_of_nat)
  moreover have "bs = cs"
    using Cons.prems off calculation by (intro Cons.IH [of "ad off" cs "off + 48 + z" "off + 48 + z"]) (simp_all add: b bs')
  ultimately show ?case using off by (simp add: b bs')
qed

lemma heap_inv_unique: "heap_inv s bs \<Longrightarrow> heap_inv s bs' \<Longrightarrow> bs = bs'"
  using hrep_unique [of "heap_blocks s" 0 bs bs' 0 "unat (heap_mapped s)" 0] by (simp add: heap_inv_def)

text \<open>The allocated payloads: address and size.\<close>

definition heap_live :: "'a heap_state_scheme \<Rightarrow> (u64 \<times> nat) set" where
  "heap_live s = {(ad (off + 48), z) | off z. \<exists>bs. heap_inv s bs \<and> (off, z) \<in> live bs}"

lemma heap_live_eq: "heap_inv s bs \<Longrightarrow> heap_live s = (\<lambda>(off, z). (ad (off + 48), z)) ` live bs"
proof -
  assume i: "heap_inv s bs"
  then have "heap_inv s bs' \<longleftrightarrow> bs' = bs" for bs' using heap_inv_unique by blast
  then show ?thesis unfolding heap_live_def by auto
qed

definition heap_ok :: "'a heap_state_scheme \<Rightarrow> bool" where
  "heap_ok s \<longleftrightarrow> (\<exists>bs. heap_inv s bs)"

text \<open>The contract the kernel's components use the heap by.\<close>

locale kernel_heap =
  fixes malloc :: "u64 \<Rightarrow> 's \<Rightarrow> u64 \<times> 's" and release :: "u64 \<Rightarrow> 's \<Rightarrow> 's"
    and ok :: "'s \<Rightarrow> bool" and blocks :: "'s \<Rightarrow> (u64 \<times> nat) set" and max_size :: nat
  assumes malloc_none: "ok s \<Longrightarrow> unat n \<le> max_size \<Longrightarrow> malloc n s = (0, t) \<Longrightarrow> ok t \<and> blocks t = blocks s"
    and malloc_some: "ok s \<Longrightarrow> unat n \<le> max_size \<Longrightarrow> malloc n s = (p, t) \<Longrightarrow> p \<noteq> 0 \<Longrightarrow>
          ok t \<and> (\<exists>z \<ge> unat n. (p, z) \<notin> blocks s \<and> blocks t = insert (p, z) (blocks s))"
    and release_block: "ok s \<Longrightarrow> (p, z) \<in> blocks s \<Longrightarrow> ok (release p s) \<and> blocks (release p s) = blocks s - {(p, z)}"
    and disjoint: "ok s \<Longrightarrow> (p, z) \<in> blocks s \<Longrightarrow> (q, y) \<in> blocks s \<Longrightarrow> (p, z) \<noteq> (q, y) \<Longrightarrow>
          unat p + z \<le> unat q \<or> unat q + y \<le> unat p"
begin

lemma malloc_fresh:
  assumes "ok s" "unat n \<le> max_size" "malloc n s = (p, t)" "p \<noteq> 0" "(q, y) \<in> blocks s"
  shows "unat p + unat n \<le> unat q \<or> unat q + y \<le> unat p"
proof -
  obtain z where z: "ok t" "unat n \<le> z" "(p, z) \<notin> blocks s" "blocks t = insert (p, z) (blocks s)"
    using malloc_some [OF assms(1-4)] by blast
  then have "unat p + z \<le> unat q \<or> unat q + y \<le> unat p"
    using disjoint [OF z(1), of p z q y] assms(5) by auto
  then show ?thesis using z(2) by auto
qed

lemma malloc_release:
  assumes "ok s" "unat n \<le> max_size" "malloc n s = (p, t)" "p \<noteq> 0"
  shows "ok (release p t) \<and> blocks (release p t) = blocks s"
proof -
  obtain z where z: "ok t" "(p, z) \<notin> blocks s" "blocks t = insert (p, z) (blocks s)"
    using malloc_some [OF assms(1-4)] by blast
  then show ?thesis using release_block [OF z(1), of p z] by auto
qed

end

lemma ad_payload_inj: "off + 48 \<le> HEAP_WINDOW \<Longrightarrow> off' + 48 \<le> HEAP_WINDOW \<Longrightarrow> ad (off + 48) = ad (off' + 48) \<longleftrightarrow> off = off'"
  by simp

lemma live_bound: "heap_inv s bs \<Longrightarrow> (off, z) \<in> live bs \<Longrightarrow> off + 48 + z \<le> HEAP_WINDOW"
  using ordered_bounds [of 0 bs "unat (heap_mapped s)" "(off, z, False)"] heap_invD(2,3) [of s bs] by (fastforce simp: live_def)

lemma live_inj: "heap_inv s bs \<Longrightarrow> inj_on (\<lambda>(off, z). (ad (off + 48), z)) (live bs)"
proof (rule inj_onI, clarify)
  fix off z off' z'
  assume i: "heap_inv s bs" and l: "(off, z) \<in> live bs" "(off', z') \<in> live bs" "ad (off + 48) = ad (off' + 48)"
  then show "off = off' \<and> z' = z'" using live_bound [OF i l(1)] live_bound [OF i l(2)] by simp
qed

lemma ordered_disjoint:
  assumes "ordered lo bs hi" "(off, z, f) \<in> set bs" "(off', z', f') \<in> set bs" "off < off'"
  shows "off + 48 + z \<le> off'"
  using assms
proof (induction bs arbitrary: lo)
  case (Cons b bs)
  then show ?case using ordered_bounds [of "fst b + 48 + fst (snd b)" bs hi "(off, z, f)"]
      ordered_bounds [of "fst b + 48 + fst (snd b)" bs hi "(off', z', f')"] by (cases b) auto
qed simp


lemma heap_disjoint_law:
  assumes "heap_ok s" "(p, z) \<in> heap_live s" "(q, y) \<in> heap_live s" "(p, z) \<noteq> (q, y)"
  shows "unat p + z \<le> unat q \<or> unat q + y \<le> unat p"
proof -
  obtain bs where i: "heap_inv s bs" using assms(1) by (auto simp: heap_ok_def)
  then obtain a b where a: "p = ad (a + 48)" "(a, z) \<in> live bs" and b: "q = ad (b + 48)" "(b, y) \<in> live bs"
    using assms(2,3) by (auto simp: heap_live_eq)
  note I = heap_invD [OF i]
  note w = live_bound [OF i a(2)] live_bound [OF i b(2)]
  have m: "(a, z, False) \<in> set bs" "(b, y, False) \<in> set bs" using a b by (simp_all add: live_def)
  have "a \<noteq> b"
  proof
    assume ab: "a = b"
    obtain xs ys where bs: "bs = xs @ (a, z, False) # ys" using split_list [OF m(1)] by blast
    note o = ordered_split [OF I(2) [unfolded bs]]
    have "(b, y, False) \<notin> set xs" "(b, y, False) \<notin> set ys"
      using ordered_bounds [OF o(1), of "(b, y, False)"] ordered_bounds [OF o(2), of "(b, y, False)"] ab by auto
    then show False using m(2) assms(4) a(1) b(1) ab by (auto simp: bs)
  qed
  then have "a + 48 + z \<le> b \<or> b + 48 + y \<le> a"
    using ordered_disjoint [OF I(2) m] ordered_disjoint [OF I(2) m(2,1)] by linarith
  then show ?thesis using w by (auto simp: a(1) b(1) unat_ad)
qed

lemma kmalloc_some_law:
  assumes "heap_ok s" "unat n \<le> 2 ^ 64 - 64" "kmalloc n s = (p, t)" "p \<noteq> 0"
  shows "heap_ok t \<and> (\<exists>z \<ge> unat n. (p, z) \<notin> heap_live s \<and> heap_live t = insert (p, z) (heap_live s))"
proof -
  obtain bs where i: "heap_inv s bs" using assms(1) by (auto simp: heap_ok_def)
  obtain bs' off z where r: "heap_inv t bs'" "p = ad (off + 48)" "off + 48 + z \<le> HEAP_WINDOW" "unat n \<le> z"
    "live bs' = insert (off, z) (live bs)" "(off, z) \<notin> live bs"
    using kmalloc_ok [OF i assms(2,3)] assms(4) by (auto simp: alloc_result_def)
  have "(p, z) \<notin> heap_live s"
  proof
    assume "(p, z) \<in> heap_live s"
    then obtain off' where o': "(off', z) \<in> live bs" "ad (off + 48) = ad (off' + 48)" using r(2) by (auto simp: heap_live_eq [OF i])
    then have "off' = off" using live_bound [OF i o'(1)] r(3) by simp
    then show False using o'(1) r(6) by simp
  qed
  then show ?thesis using r i by (auto simp: heap_ok_def heap_live_eq)
qed

lemma kmalloc_none_law:
  assumes "heap_ok s" "unat n \<le> 2 ^ 64 - 64" "kmalloc n s = (0, t)"
  shows "heap_ok t \<and> heap_live t = heap_live s"
proof -
  obtain bs where i: "heap_inv s bs" using assms(1) by (auto simp: heap_ok_def)
  then have "heap_inv t bs" using kmalloc_ok [OF i assms(2,3)] by simp
  then show ?thesis using i by (auto simp: heap_ok_def heap_live_eq)
qed

lemma kfree_law:
  assumes "heap_ok s" "(p, z) \<in> heap_live s"
  shows "heap_ok (kfree p s) \<and> heap_live (kfree p s) = heap_live s - {(p, z)}"
proof -
  obtain bs where i: "heap_inv s bs" using assms(1) by (auto simp: heap_ok_def)
  obtain off where off: "p = ad (off + 48)" "(off, z) \<in> live bs" using assms(2) by (auto simp: heap_live_eq [OF i])
  then have "(off, z, False) \<in> set bs" by (simp add: live_def)
  then obtain xs ys where bs: "bs = xs @ (off, z, False) # ys" using split_list by metis
  have k: "heap_inv (kfree p s) (released xs off z ys)" using kfree_ok [OF i [unfolded bs]] off(1) by simp
  have "ordered 0 (xs @ (off, z, True) # ys) (unat (heap_mapped s))" using heap_invD(2) [OF i] by (simp add: bs ordered_append)
  then have nl: "(off, z) \<notin> live (xs @ ys)" by (rule live_not_free)
  have "live bs = insert (off, z) (live (xs @ ys))" by (auto simp: bs)
  moreover have "live (released xs off z ys) = live (xs @ ys)" by (simp add: live_released)
  ultimately have "live (released xs off z ys) = live bs - {(off, z)}" using nl by auto
  then have "heap_live (kfree p s) = heap_live s - {(p, z)}"
    using inj_on_image_set_diff [OF live_inj [OF i], of "live bs" "{(off, z)}"] off
    unfolding heap_live_eq [OF k] heap_live_eq [OF i] by simp
  then show ?thesis using k by (auto simp: heap_ok_def)
qed

interpretation kheap: kernel_heap kmalloc kfree heap_ok heap_live "2 ^ 64 - 64"
  by unfold_locales (rule kmalloc_none_law kmalloc_some_law kfree_law heap_disjoint_law; assumption)+


subsection \<open>The validator\<close>

fun tiled :: "nat \<Rightarrow> hblock list \<Rightarrow> nat \<Rightarrow> bool" where
  "tiled lo [] hi \<longleftrightarrow> lo = hi"
| "tiled lo ((off, z, f) # bs) hi \<longleftrightarrow> off = lo \<and> tiled (off + 48 + z) bs hi"

lemma validate_loop_ok:
  assumes "hrep m p bs 0" "ordered lo bs hi" "hi \<le> HEAP_WINDOW" "length bs < n"
    "unat obs + free_sum bs \<le> HEAP_WINDOW"
  shows "\<exists>ok a ob. validate_loop n m (first bs 0) p (ad lo) obs = Some (ok, a, ob)
    \<and> (ok \<and> a = ad hi \<longleftrightarrow> tiled lo bs hi) \<and> (ok \<longrightarrow> unat ob = unat obs + free_sum bs)"
  using assms
proof (induction n arbitrary: p bs lo obs)
  case (Suc n)
  show ?case
  proof (cases bs)
    case Nil
    have "lo \<le> hi" using Suc.prems(2) by (simp add: Nil)
    then show ?thesis using Suc.prems(3) by (auto simp: Nil)
  next
    case (Cons b cs)
    obtain off z f where b: "b = (off, z, f)" by (cases b)
    have o: "lo \<le> off" "ordered (off + 48 + z) cs hi" "0 < z" using Suc.prems(2) by (simp_all add: Cons b)
    have w: "off + 48 + z \<le> HEAP_WINDOW" "lo \<le> HEAP_WINDOW" using ordered_le [OF o(2)] o(1) Suc.prems(3) by simp_all
    have uz: "unat (of_nat z :: u64) = z" using w by (simp add: unat_of_nat)
    have ho: "m (ad off) = \<lparr>hb_magic = HEAP_MAGIC, hb_size = of_nat z, hb_free = f, hb_next = first cs 0, hb_prev = p\<rparr>"
      and hc: "hrep m (ad off) cs 0" using Suc.prems(1) by (simp_all add: Cons b)
    show ?thesis
    proof (cases "off = lo")
      case False
      then show ?thesis using w by (auto simp: Cons b)
    next
      case True
      have z0: "(of_nat z :: u64) \<noteq> 0" using uz o(3) by (metis less_numeral_extra(3) unat_0)
      have "\<not> (of_nat z :: u64) > NPK_HEAP_LIMIT - NPK_HEAP_BASE" using w uz by (simp add: word_less_nat_alt)
      moreover have "\<not> add_overflow_u64 (ad lo) (48 + of_nat z)"
      proof -
        have "unat (UINT64_MAX - ad lo) = 2 ^ 64 - 1 - (0xffff900000000000 + lo)" using w by (subst unat_sub_le) (simp_all add: unat_ad)
        moreover have "unat (48 + of_nat z :: u64) = 48 + z" using w uz by (simp add: unat_word_ariths)
        ultimately show ?thesis using w by (simp add: add_overflow_u64_def word_less_nat_alt)
      qed
      moreover have "ad lo + (48 + of_nat z) = ad (off + 48 + z)" using ad_add [of lo z] True by (simp add: add.assoc)
      moreover define obs' where "obs' = (if f then obs + of_nat z else obs)"
      have uo: "unat obs' = unat obs + (if f then z else 0)"
        using Suc.prems(5) uz by (auto simp: obs'_def Cons b unat_word_ariths)
      ultimately have step: "validate_loop (Suc n) m (first bs 0) p (ad lo) obs = validate_loop n m (first cs 0) (ad off) (ad (off + 48 + z)) obs'"
        using True w z0 ho by (simp add: Cons b obs'_def)
      have "unat obs' + free_sum cs \<le> HEAP_WINDOW" using uo Suc.prems(5) by (simp add: Cons b)
      from Suc.IH [OF hc o(2) Suc.prems(3) _ this] Suc.prems(4) obtain ok a ob where
        "validate_loop n m (first cs 0) (ad off) (ad (off + 48 + z)) obs' = Some (ok, a, ob)"
        "ok \<and> a = ad hi \<longleftrightarrow> tiled (off + 48 + z) cs hi" "ok \<longrightarrow> unat ob = unat obs' + free_sum cs" by (auto simp: Cons)
      then show ?thesis using step True uo by (simp add: Cons b)
    qed
  qed
qed simp

lemma kheap_validate_tiled:
  assumes inv: "heap_inv s bs"
  shows "kheap_validate s = Some (tiled 0 bs (unat (heap_mapped s)))"
proof -
  note I = heap_invD [OF inv]
  have "length bs < HEAP_FUEL" using ordered_length [OF I(2)] I(3) by simp
  from validate_loop_ok [OF I(1,2,3) this, of 0] free_sum_window [OF I(2,3)] obtain ok a ob where
    v: "validate_loop HEAP_FUEL (heap_blocks s) (first bs 0) 0 (ad 0) 0 = Some (ok, a, ob)"
      "ok \<and> a = ad (unat (heap_mapped s)) \<longleftrightarrow> tiled 0 bs (unat (heap_mapped s))" "ok \<longrightarrow> unat ob = free_sum bs" by auto
  have "ok \<Longrightarrow> ob = heap_free s" using v(3) I(4) by (simp add: word_unat_eq_iff)
  moreover have "ad 0 = NPK_HEAP_BASE" "ad (unat (heap_mapped s)) = NPK_HEAP_BASE + heap_mapped s" by (simp_all add: ad_def)
  ultimately show ?thesis using v I(5,6) by (auto simp: kheap_validate_def)
qed


text \<open>A freed header keeps its free mark through the merges, so a second free is rejected.\<close>

lemma merge_keeps_free:
  "hb_free (heap_blocks s a) \<Longrightarrow> hb_free (heap_blocks (merge_with_next b s) a)"
  by (auto simp add: merge_with_next_def blk_upd_def Let_def)

lemma kfree_rejects_free: "hb_free (heap_blocks s (p - 48)) \<Longrightarrow> kfree p s = s"
  by (simp add: kfree_def)

lemma kfree_idem: "kfree p (kfree p s) = kfree p s"
proof (cases "p = 0 \<or> \<not> pointer_in_heap s p \<or> hb_magic (heap_blocks s (p - 48)) \<noteq> HEAP_MAGIC
    \<or> hb_free (heap_blocks s (p - 48)) \<or> hb_size (heap_blocks s (p - 48)) = 0")
  case True
  then have "kfree p s = s" by (auto simp: kfree_def Let_def)
  then show ?thesis by simp
next
  case False
  then have "hb_free (heap_blocks (kfree p s) (p - 48))"
    by (simp add: kfree_def Let_def merge_keeps_free)
  then show ?thesis by (rule kfree_rejects_free)
qed

lemma fst_kmalloc_take [simp]: "fst (kmalloc_take b a s) = b + 48"
  by (simp add: kmalloc_take_def Let_def split: prod.split)

subsection \<open>A small heap\<close>

definition heap_demo :: "'a \<Rightarrow> 'a heap_state_scheme" where
  "heap_demo x = (vmm_demo (heap_state_ext (\<lambda>_. zero_block) 0 0 0 False False x))
     \<lparr>heap_blocks := (\<lambda>_. zero_block)(ad 0 := \<lparr>hb_magic = HEAP_MAGIC, hb_size = 4048, hb_free = True, hb_next = 0, hb_prev = 0\<rparr>),
      heap_head := NPK_HEAP_BASE, heap_mapped := 4096, heap_free := 4048, heap_ready := True, hung := False\<rparr>"

lemma heap_demo_inv: "heap_inv (heap_demo x) [(0, 4048, True)]"
  by (simp add: heap_inv_def heap_demo_def) (simp add: ad_def)

lemma heap_demo_ok: "heap_ok (heap_demo x)"
  unfolding heap_ok_def using heap_demo_inv [of x] by (rule exI)

lemma heap_demo_alloc: "fst (kmalloc 100 (heap_demo x)) = NPK_HEAP_BASE + 48"
proof -
  have "find_free HEAP_FUEL (heap_blocks (heap_demo x)) (heap_head (heap_demo x)) 112 = Some (ad 0)"
    using find_free_ok [of "heap_blocks (heap_demo x)" 0 "[(0, 4048, True)]" 0 4096 HEAP_FUEL 112]
      heap_demo_inv [of x] by (simp add: heap_inv_def)
  then show ?thesis
    using heap_demo_inv [of x]
    by (auto simp: heap_inv_def kmalloc_def align_up_u64_def kmalloc_take_def Let_def ad_def split: prod.split)
qed

subsection \<open>Properties\<close>

text \<open>C6. Allocation from the kernel heap, for every size up to \<open>2\<^sup>6\<^sup>4 - 64\<close>: the allocator's
  invariant is kept whether it succeeds or not, a failed call leaves the allocated blocks as they
  were, and a successful one adds exactly one block, at least as large as requested, that overlaps
  no allocated block.\<close>

theorem kmalloc_correct:
  assumes "heap_ok s" "unat n \<le> 2 ^ 64 - 64" "kmalloc n s = (p, t)"
  shows "heap_ok t
    \<and> (p = 0 \<longrightarrow> heap_live t = heap_live s)
    \<and> (p \<noteq> 0 \<longrightarrow> (\<exists>z \<ge> unat n. heap_live t = insert (p, z) (heap_live s))
         \<and> (\<forall>(q, y) \<in> heap_live s. unat p + unat n \<le> unat q \<or> unat q + y \<le> unat p))"
  using kheap.malloc_none [OF assms(1,2)] kheap.malloc_some [OF assms] kheap.malloc_fresh [OF assms] assms(3)
  by (cases "p = 0") auto

theorem kmalloc_correct_witness:
  "\<exists>z \<ge> 100. heap_live (snd (kmalloc 100 (heap_demo ()))) = insert (NPK_HEAP_BASE + 48, z) (heap_live (heap_demo ()))"
proof -
  have "kmalloc 100 (heap_demo ()) = (NPK_HEAP_BASE + 48, snd (kmalloc 100 (heap_demo ())))"
    using heap_demo_alloc [of "()"] by (simp add: prod_eq_iff)
  from kmalloc_correct [OF heap_demo_ok _ this] show ?thesis by simp
qed

text \<open>C7. Freeing an allocated block keeps the invariant and removes exactly that block; freeing it once
  more at once is rejected and changes nothing.\<close>

theorem kfree_correct:
  assumes "heap_ok s" "(p, z) \<in> heap_live s"
  shows "heap_ok (kfree p s) \<and> heap_live (kfree p s) = heap_live s - {(p, z)} \<and> kfree p (kfree p s) = kfree p s"
  using kheap.release_block [OF assms] kfree_idem by blast

theorem kfree_correct_witness:
  "heap_ok (kfree (NPK_HEAP_BASE + 48) (snd (kmalloc 100 (heap_demo ()))))
   \<and> kfree (NPK_HEAP_BASE + 48) (kfree (NPK_HEAP_BASE + 48) (snd (kmalloc 100 (heap_demo ()))))
     = kfree (NPK_HEAP_BASE + 48) (snd (kmalloc 100 (heap_demo ())))"
proof -
  have k: "kmalloc 100 (heap_demo ()) = (NPK_HEAP_BASE + 48, snd (kmalloc 100 (heap_demo ())))"
    using heap_demo_alloc [of "()"] by (simp add: prod_eq_iff)
  then obtain z where "heap_ok (snd (kmalloc 100 (heap_demo ())))"
    "(NPK_HEAP_BASE + 48, z) \<in> heap_live (snd (kmalloc 100 (heap_demo ())))"
    using kmalloc_some_law [OF heap_demo_ok _ k] by auto
  from kfree_correct [OF this] show ?thesis by blast
qed

text \<open>C8. On every heap that satisfies the invariant the validator returns, and it accepts the heap
  exactly if the blocks tile the mapped part of the window without gaps.\<close>

theorem kheap_validate_correct:
  assumes "heap_inv s bs"
  shows "kheap_validate s = Some (tiled 0 bs (unat (heap_mapped s)))"
  using assms by (rule kheap_validate_tiled)

theorem kheap_validate_correct_witness: "kheap_validate (heap_demo ()) = Some True"
  using kheap_validate_correct [OF heap_demo_inv [of "()"]] by (simp add: heap_demo_def)

text \<open>A growth of the heap that fails half way leaves mapped pages that belong to no block, so that the
  validator rejects the heap from then on although the allocator's invariant still holds.\<close>

lemma validate_after_partial_growth:
  assumes "heap_inv s bs" "heap_grown s t" "kheap_validate s = Some True" "heap_mapped t \<noteq> heap_mapped s"
  shows "heap_inv t bs \<and> kheap_validate t = Some False"
proof -
  have t: "heap_inv t bs" using heap_inv_grown [OF assms(1,2)] .
  have "tiled 0 bs (unat (heap_mapped s))" using assms(3) kheap_validate_tiled [OF assms(1)] by simp
  moreover have "tiled lo bs h \<Longrightarrow> tiled lo bs h' \<Longrightarrow> h = h'" for lo h h'
    by (induction lo bs h rule: tiled.induct) auto
  ultimately have "\<not> tiled 0 bs (unat (heap_mapped t))" using assms(4) by (metis word_unat_eq_iff)
  then show ?thesis using t kheap_validate_tiled [OF t] by simp
qed

text \<open>For a size close to \<open>2\<^sup>6\<^sup>4\<close> the sum of header and payload wraps around before the overflow check
  sees it: the heap is grown by a page only and the caller is given a block far smaller than asked for.\<close>

lemma fst_kmalloc_grow:
  assumes "\<not> add_overflow_u64 (heap_mapped s) (sizeof_heap_block + a)"
    "map_more (heap_mapped s + sizeof_heap_block + a) s = (True, t)" "heap_head t \<noteq> 0"
    "last_block HEAP_FUEL ((heap_blocks t)(NPK_HEAP_BASE + heap_mapped s := \<lparr>hb_magic = HEAP_MAGIC,
        hb_size = NPK_HEAP_BASE + heap_mapped t - (NPK_HEAP_BASE + heap_mapped s) - sizeof_heap_block,
        hb_free = True, hb_next = 0, hb_prev = 0\<rparr>)) (heap_head t) = Some l"
  shows "fst (kmalloc_grow a s) = NPK_HEAP_BASE + heap_mapped s"
  using assms by (simp add: kmalloc_grow_def Let_def blk_upd_def)

lemma kmalloc_size_wraps:
  assumes inv: "heap_inv s bs" and m: "map_more (heap_mapped s + 16) s = (True, t)"
  shows "fst (kmalloc 0xffffffffffffffd8 s) = NPK_HEAP_BASE + heap_mapped s + 48"
proof -
  note I = heap_invD [OF inv]
  have dv: "4096 dvd unat (heap_mapped s)" using inv by (simp add: heap_inv_def)
  have g: "heap_grown s t" using map_more_ok [OF m dv I(3)] by blast
  have al: "align_up_u64 0xffffffffffffffd8 NPK_HEAP_ALIGNMENT = 0xffffffffffffffe0" by (simp add: align_up_u64_def)
  have len: "length bs < HEAP_FUEL" using ordered_length [OF I(2)] I(3) by simp
  have "find (\<lambda>(off, z, f). f \<and> unat (0xffffffffffffffe0 :: u64) \<le> z) bs = None"
    using ordered_bounds [OF I(2)] I(3) by (fastforce simp: find_None_iff)
  then have ff: "find_free HEAP_FUEL (heap_blocks s) (heap_head s) 0xffffffffffffffe0 = Some 0"
    using find_free_ok [OF I(1,2,3) len, of "0xffffffffffffffe0"] I(5) by simp
  have "unat (UINT64_MAX - heap_mapped s) = 2 ^ 64 - 1 - unat (heap_mapped s)" using I(3) by (subst unat_sub_le) simp_all
  then have ov: "\<not> add_overflow_u64 (heap_mapped s) 16" using I(3) by (simp add: add_overflow_u64_def word_less_nat_alt)
  obtain us lo lz lf where bs: "bs = us @ [(lo, lz, lf)]" using I(7) by (metis rev_exhaust prod_cases3)
  let ?z = "unat (NPK_HEAP_BASE + heap_mapped t - (NPK_HEAP_BASE + heap_mapped s) - 48)"
  let ?m1 = "(heap_blocks t)(ad (unat (heap_mapped s)) := \<lparr>hb_magic = HEAP_MAGIC, hb_size = of_nat ?z, hb_free = True, hb_next = 0, hb_prev = 0\<rparr>)"
  have h1: "hrep ?m1 0 bs 0"
    using hrep_add_last(1) [OF heap_invD(1) [OF heap_inv_grown [OF inv g]] I(2,3) bs refl refl refl] .
  have "length us < HEAP_FUEL" using len by (simp add: bs)
  then have lb: "last_block HEAP_FUEL ?m1 (first bs 0) = Some (ad lo)"
    using h1 I(2,3) unfolding bs by (rule last_block_ok [rotated 3])
  have hd: "heap_head t = first bs 0" "first bs 0 \<noteq> 0" "ad (unat (heap_mapped s)) \<noteq> 0"
    using g I(5) first_nonzero [OF I(2,3)] I(3,7) by (simp_all add: heap_grown_def)
  have tail: "NPK_HEAP_BASE + heap_mapped s = ad (unat (heap_mapped s))" by (simp add: ad_def)
  have w: "sizeof_heap_block + 0xffffffffffffffe0 = (16 :: u64)"
    "heap_mapped s + sizeof_heap_block + 0xffffffffffffffe0 = heap_mapped s + 16" by simp_all
  have zz: "of_nat ?z = NPK_HEAP_BASE + heap_mapped t - (NPK_HEAP_BASE + heap_mapped s) - (48 :: u64)" by simp
  have "fst (kmalloc_grow 0xffffffffffffffe0 s) = ad (unat (heap_mapped s))"
    unfolding tail [symmetric]
    by (rule fst_kmalloc_grow [OF _ _ _ lb [folded hd(1), unfolded zz tail [symmetric]]]) (simp_all only: w ov m hd not_False_eq_True)
  then show ?thesis
    using ff I(6) hd(3) by (cases "kmalloc_grow 0xffffffffffffffe0 s") (simp add: kmalloc_def al tail)
qed

end
