(* ===== verification/Port_Io.thy ===== *)
theory Port_Io
  imports Heap
begin

text \<open>
  Port input and output, \<^verbatim>\<open>include/npk/arch.h\<close>, and accesses through pointers to device registers and
  to memory shared with a device.  The devices are not part of the kernel: what a read returns is a
  function \<open>io_hw\<close> of everything the kernel has read and written before, the history \<open>io_hist\<close> (newest
  event first).  No operation changes \<open>io_hw\<close>; a statement that holds for
  every \<open>io_hw\<close> holds for every deterministic device.
\<close>

datatype io_event = In8 u16 | In16 u16 | In32 u16 | Out8 u16 u8 | Out16 u16 u16 | Out32 u16 u32
  | Load8 u64 | Load16 u64 | Load32 u64 | Load64 u64 | Store16 u64 u16 | Store32 u64 u32 | Store64 u64 u64
  | StoreBlock u64 "u8 list"

record io_state = heap_state +
  io_hist :: "io_event list"
  io_hw :: "io_event list \<Rightarrow> io_event \<Rightarrow> u64"

definition io_read :: "io_event \<Rightarrow> 'a io_state_scheme \<Rightarrow> u64 \<times> 'a io_state_scheme" where
  "io_read e s = (io_hw s (io_hist s) e, s\<lparr>io_hist := e # io_hist s\<rparr>)"

definition io_write :: "io_event \<Rightarrow> 'a io_state_scheme \<Rightarrow> 'a io_state_scheme" where
  "io_write e s = s\<lparr>io_hist := e # io_hist s\<rparr>"

definition outb :: "u16 \<Rightarrow> u8 \<Rightarrow> 'a io_state_scheme \<Rightarrow> 'a io_state_scheme" where
  "outb port v s = io_write (Out8 port v) s"

definition inb :: "u16 \<Rightarrow> 'a io_state_scheme \<Rightarrow> u8 \<times> 'a io_state_scheme" where
  "inb port s = (let (v, s) = io_read (In8 port) s in (ucast v, s))"

definition outl :: "u16 \<Rightarrow> u32 \<Rightarrow> 'a io_state_scheme \<Rightarrow> 'a io_state_scheme" where
  "outl port v s = io_write (Out32 port v) s"

definition inl :: "u16 \<Rightarrow> 'a io_state_scheme \<Rightarrow> u32 \<times> 'a io_state_scheme" where
  "inl port s = (let (v, s) = io_read (In32 port) s in (ucast v, s))"

definition outw :: "u16 \<Rightarrow> u16 \<Rightarrow> 'a io_state_scheme \<Rightarrow> 'a io_state_scheme" where
  "outw port v s = io_write (Out16 port v) s"

definition inw :: "u16 \<Rightarrow> 'a io_state_scheme \<Rightarrow> u16 \<times> 'a io_state_scheme" where
  "inw port s = (let (v, s) = io_read (In16 port) s in (ucast v, s))"

text \<open>Loads and stores of device registers and shared memory.\<close>

definition load8 :: "u64 \<Rightarrow> 'a io_state_scheme \<Rightarrow> u8 \<times> 'a io_state_scheme" where
  "load8 a s = (let (v, s) = io_read (Load8 a) s in (ucast v, s))"

definition load16 :: "u64 \<Rightarrow> 'a io_state_scheme \<Rightarrow> u16 \<times> 'a io_state_scheme" where
  "load16 a s = (let (v, s) = io_read (Load16 a) s in (ucast v, s))"

definition load32 :: "u64 \<Rightarrow> 'a io_state_scheme \<Rightarrow> u32 \<times> 'a io_state_scheme" where
  "load32 a s = (let (v, s) = io_read (Load32 a) s in (ucast v, s))"

definition load64 :: "u64 \<Rightarrow> 'a io_state_scheme \<Rightarrow> u64 \<times> 'a io_state_scheme" where
  "load64 a s = io_read (Load64 a) s"

fun load_bytes :: "u64 \<Rightarrow> nat \<Rightarrow> 'a io_state_scheme \<Rightarrow> u8 list \<times> 'a io_state_scheme" where
  "load_bytes a 0 s = ([], s)"
| "load_bytes a (Suc n) s = (let (b, s) = load8 a s; (bs, s) = load_bytes (a + 1) n s in (b # bs, s))"

definition store16 :: "u64 \<Rightarrow> u16 \<Rightarrow> 'a io_state_scheme \<Rightarrow> 'a io_state_scheme" where
  "store16 a v s = io_write (Store16 a v) s"

definition store32 :: "u64 \<Rightarrow> u32 \<Rightarrow> 'a io_state_scheme \<Rightarrow> 'a io_state_scheme" where
  "store32 a v s = io_write (Store32 a v) s"

definition store64 :: "u64 \<Rightarrow> u64 \<Rightarrow> 'a io_state_scheme \<Rightarrow> 'a io_state_scheme" where
  "store64 a v s = io_write (Store64 a v) s"

definition store_block :: "u64 \<Rightarrow> u8 list \<Rightarrow> 'a io_state_scheme \<Rightarrow> 'a io_state_scheme" where
  "store_block a bs s = io_write (StoreBlock a bs) s"

text \<open>A port operation changes the history only: \<open>io_only es s t\<close> says that \<open>t\<close> is \<open>s\<close> after the
  events \<open>es\<close> (newest first).\<close>

definition io_only :: "io_event list \<Rightarrow> 'a io_state_scheme \<Rightarrow> 'a io_state_scheme \<Rightarrow> bool" where
  "io_only es s t \<longleftrightarrow> t = s\<lparr>io_hist := es @ io_hist s\<rparr>"

lemma io_only_refl [simp]: "io_only [] s s"
  by (simp add: io_only_def)

lemma io_only_trans: "io_only es s t \<Longrightarrow> io_only fs t u \<Longrightarrow> io_only (fs @ es) s u"
  by (simp add: io_only_def)

lemma io_only_ports [npk_frame]:
  "io_only [Out8 p b] s (outb p b s)" "io_only [Out16 p w] s (outw p w s)" "io_only [Out32 p d] s (outl p d s)"
  "io_only [In8 p] s (snd (inb p s))" "io_only [In16 p] s (snd (inw p s))" "io_only [In32 p] s (snd (inl p s))"
  by (simp_all add: io_only_def outb_def outw_def outl_def inb_def inw_def inl_def io_write_def io_read_def)

end
