(* ===== verification/Ata.thy ===== *)
theory Ata
  imports Port_Io
begin

text \<open>
  The PIO disk driver, \<^verbatim>\<open>src/drivers/ata.c\<close>, over port input and output.  A sector buffer is the
  list of its bytes; the driver moves it as little-endian 16-bit words.  A read that fails after some
  sectors has filled the front of the caller's buffer, so \<open>ata_read_sectors\<close> returns the bytes it stored
  beside the status.  The alignment test of the buffer pointer is left out: every caller passes a
  static object or a heap block, which are aligned.
\<close>

abbreviation (input) ATA_DATA :: u16 where "ATA_DATA \<equiv> 0x1f0"
abbreviation (input) ATA_SECTOR_COUNT :: u16 where "ATA_SECTOR_COUNT \<equiv> 0x1f2"
abbreviation (input) ATA_LBA_LOW :: u16 where "ATA_LBA_LOW \<equiv> 0x1f3"
abbreviation (input) ATA_LBA_MID :: u16 where "ATA_LBA_MID \<equiv> 0x1f4"
abbreviation (input) ATA_LBA_HIGH :: u16 where "ATA_LBA_HIGH \<equiv> 0x1f5"
abbreviation (input) ATA_DRIVE :: u16 where "ATA_DRIVE \<equiv> 0x1f6"
abbreviation (input) ATA_STATUS :: u16 where "ATA_STATUS \<equiv> 0x1f7"
abbreviation (input) ATA_COMMAND :: u16 where "ATA_COMMAND \<equiv> 0x1f7"
abbreviation (input) ATA_SR_ERR :: u8 where "ATA_SR_ERR \<equiv> 0x01"
abbreviation (input) ATA_SR_DRQ :: u8 where "ATA_SR_DRQ \<equiv> 0x08"
abbreviation (input) ATA_SR_DF :: u8 where "ATA_SR_DF \<equiv> 0x20"
abbreviation (input) ATA_SR_BSY :: u8 where "ATA_SR_BSY \<equiv> 0x80"
abbreviation (input) ATA_LBA28_MAX :: u64 where "ATA_LBA28_MAX \<equiv> 0x10000000"
abbreviation (input) ATA_TIMEOUT :: nat where "ATA_TIMEOUT \<equiv> 1000000"
abbreviation (input) NPK_SECTOR_SIZE :: nat where "NPK_SECTOR_SIZE \<equiv> 512"

record ata_device_info =
  ata_present :: bool
  ata_writable :: bool
  ata_sectors :: u64

definition no_device :: ata_device_info where
  "no_device = \<lparr>ata_present = False, ata_writable = False, ata_sectors = 0\<rparr>"

record ata_state = io_state +
  ata_primary :: ata_device_info

definition io_wait :: "'a io_state_scheme \<Rightarrow> 'a io_state_scheme" where
  "io_wait s = snd (inb 0x80 (snd (inb 0x80 (snd (inb 0x80 (snd (inb 0x80 s)))))))"

definition ata_status :: "'a io_state_scheme \<Rightarrow> u8 \<times> 'a io_state_scheme" where
  "ata_status s = inb ATA_STATUS s"

fun wait_not_busy_loop :: "nat \<Rightarrow> 'a io_state_scheme \<Rightarrow> unit result \<times> 'a io_state_scheme" where
  "wait_not_busy_loop i s =
     (if i = 0 then (Inl ETIMEDOUT, s)
      else let (v, s) = ata_status s
        in if v AND ATA_SR_BSY = 0
           then (if v AND (ATA_SR_ERR OR ATA_SR_DF) \<noteq> 0 then Inl EIO else Inr (), s)
           else wait_not_busy_loop (i - 1) s)"

definition wait_not_busy :: "'a io_state_scheme \<Rightarrow> unit result \<times> 'a io_state_scheme" where
  "wait_not_busy s = wait_not_busy_loop ATA_TIMEOUT s"

fun wait_drq_loop :: "nat \<Rightarrow> 'a io_state_scheme \<Rightarrow> unit result \<times> 'a io_state_scheme" where
  "wait_drq_loop i s =
     (if i = 0 then (Inl ETIMEDOUT, s)
      else let (v, s) = ata_status s
        in if v AND ATA_SR_ERR \<noteq> 0 \<or> v AND ATA_SR_DF \<noteq> 0 then (Inl EIO, s)
           else if v AND ATA_SR_BSY = 0 \<and> v AND ATA_SR_DRQ \<noteq> 0 then (Inr (), s)
           else wait_drq_loop (i - 1) s)"

definition wait_drq :: "'a io_state_scheme \<Rightarrow> unit result \<times> 'a io_state_scheme" where
  "wait_drq s = wait_drq_loop ATA_TIMEOUT s"

declare wait_not_busy_loop.simps [simp del] wait_drq_loop.simps [simp del]

fun inw_words :: "nat \<Rightarrow> 'a io_state_scheme \<Rightarrow> u16 list \<times> 'a io_state_scheme" where
  "inw_words 0 s = ([], s)"
| "inw_words (Suc n) s = (let (w, s) = inw ATA_DATA s; (ws, s) = inw_words n s in (w # ws, s))"

fun outw_words :: "u16 list \<Rightarrow> 'a io_state_scheme \<Rightarrow> 'a io_state_scheme" where
  "outw_words [] s = s"
| "outw_words (w # ws) s = outw_words ws (outw ATA_DATA w s)"

definition identify_sectors :: "u16 list \<Rightarrow> u64" where
  "identify_sectors d =
     (if d ! 83 AND push_bit 10 1 \<noteq> 0
      then let high = push_bit 16 (ucast (d ! 103) :: u32) OR ucast (d ! 102)
        in push_bit 32 (ucast high) OR ucast (push_bit 16 (ucast (d ! 101) :: u32)) OR ucast (d ! 100)
      else ucast (d ! 60) OR push_bit 16 (ucast (d ! 61)))"

definition identify :: "'a ata_state_scheme \<Rightarrow> unit result \<times> 'a ata_state_scheme" where
  "identify s =
     (let s = io_wait (outb ATA_DRIVE 0xa0 s);
          s = outb ATA_LBA_HIGH 0 (outb ATA_LBA_MID 0 (outb ATA_LBA_LOW 0 (outb ATA_SECTOR_COUNT 0 s)));
          s = io_wait (outb ATA_COMMAND 0xec s);
          (v, s) = ata_status s
      in if v = 0 then (Inl ENODEV, s)
         else case wait_not_busy s of
           (Inl _, s) \<Rightarrow> (Inl EIO, s)
         | (Inr _, s) \<Rightarrow>
             let (mid, s) = inb ATA_LBA_MID s
             in if mid \<noteq> 0 then (Inl ENODEV, s)
                else let (high, s) = inb ATA_LBA_HIGH s
                  in if high \<noteq> 0 then (Inl ENODEV, s)
                     else case wait_drq s of
                       (Inl _, s) \<Rightarrow> (Inl EIO, s)
                     | (Inr _, s) \<Rightarrow>
                         let (d, s) = inw_words 256 s
                         in (Inr (), s\<lparr>ata_primary := \<lparr>ata_present = True, ata_writable = True,
                                                      ata_sectors = identify_sectors d\<rparr>\<rparr>))"

definition ata_init :: "'a ata_state_scheme \<Rightarrow> 'a ata_state_scheme" where
  "ata_init s = snd (identify (s\<lparr>ata_primary := no_device\<rparr>))"

definition ata_primary_info :: "'a ata_state_scheme \<Rightarrow> ata_device_info" where
  "ata_primary_info s = ata_primary s"

definition check_request :: "u64 \<Rightarrow> u32 \<Rightarrow> 'a ata_state_scheme \<Rightarrow> bool" where
  "check_request lba count s \<longleftrightarrow>
     \<not> (\<not> ata_present (ata_primary s) \<or> count = 0 \<or> count > 255 \<or> lba \<ge> ATA_LBA28_MAX
        \<or> ucast count > ATA_LBA28_MAX - lba \<or> lba + ucast count > ata_sectors (ata_primary s))"

text \<open>The register writes that select a sector and start a command, common to both directions.\<close>

definition ata_command :: "u8 \<Rightarrow> u32 \<Rightarrow> 'a io_state_scheme \<Rightarrow> 'a io_state_scheme" where
  "ata_command cmd current s =
     (let s = outb ATA_DRIVE (0xe0 OR (ucast (drop_bit 24 current) AND 0x0f)) s;
          s = outb ATA_SECTOR_COUNT 1 s;
          s = outb ATA_LBA_LOW (ucast (current AND 0xff)) s;
          s = outb ATA_LBA_MID (ucast (drop_bit 8 current AND 0xff)) s;
          s = outb ATA_LBA_HIGH (ucast (drop_bit 16 current AND 0xff)) s
      in outb ATA_COMMAND cmd s)"

fun words_to_bytes :: "u16 list \<Rightarrow> u8 list" where
  "words_to_bytes [] = []"
| "words_to_bytes (w # ws) = ucast w # ucast (drop_bit 8 w) # words_to_bytes ws"

fun bytes_to_words :: "u8 list \<Rightarrow> u16 list" where
  "bytes_to_words (a # b # bs) = (ucast a OR push_bit 8 (ucast b)) # bytes_to_words bs"
| "bytes_to_words _ = []"

fun ata_read_loop :: "nat \<Rightarrow> u64 \<Rightarrow> 'a io_state_scheme \<Rightarrow> (unit result \<times> u8 list) \<times> 'a io_state_scheme" where
  "ata_read_loop 0 current s = ((Inr (), []), s)"
| "ata_read_loop (Suc n) current s =
     (case wait_not_busy s of
        (Inl _, s) \<Rightarrow> ((Inl EIO, []), s)
      | (Inr _, s) \<Rightarrow>
          case wait_drq (ata_command 0x20 (ucast current) s) of
            (Inl _, s) \<Rightarrow> ((Inl EIO, []), s)
          | (Inr _, s) \<Rightarrow>
              let (ws, s) = inw_words 256 s;
                  ((r, bs), s) = ata_read_loop n (current + 1) s
              in ((r, words_to_bytes ws @ bs), s))"

definition ata_read_sectors :: "u64 \<Rightarrow> u32 \<Rightarrow> 'a ata_state_scheme \<Rightarrow> (unit result \<times> u8 list) \<times> 'a ata_state_scheme" where
  "ata_read_sectors lba count s =
     (if \<not> check_request lba count s then ((Inl EINVAL, []), s)
      else ata_read_loop (unat count) lba s)"

fun ata_write_loop :: "nat \<Rightarrow> u64 \<Rightarrow> u8 list \<Rightarrow> 'a io_state_scheme \<Rightarrow> unit result \<times> 'a io_state_scheme" where
  "ata_write_loop 0 current bytes s = (Inr (), s)"
| "ata_write_loop (Suc n) current bytes s =
     (case wait_not_busy s of
        (Inl _, s) \<Rightarrow> (Inl EIO, s)
      | (Inr _, s) \<Rightarrow>
          case wait_drq (ata_command 0x30 (ucast current) s) of
            (Inl _, s) \<Rightarrow> (Inl EIO, s)
          | (Inr _, s) \<Rightarrow>
              case wait_not_busy (outb ATA_COMMAND 0xe7 (outw_words (bytes_to_words (take 512 bytes)) s)) of
                (Inl _, s) \<Rightarrow> (Inl EIO, s)
              | (Inr _, s) \<Rightarrow> ata_write_loop n (current + 1) (drop 512 bytes) s)"

definition ata_write_sectors :: "u64 \<Rightarrow> u32 \<Rightarrow> u8 list \<Rightarrow> 'a ata_state_scheme \<Rightarrow> unit result \<times> 'a ata_state_scheme" where
  "ata_write_sectors lba count bytes s =
     (if \<not> check_request lba count s then (Inl EINVAL, s)
      else if \<not> ata_writable (ata_primary s) then (Inl EROFS, s)
      else ata_write_loop (unat count) lba bytes s)"

subsection \<open>The driver changes nothing but the device\<close>

definition io_frame :: "'a io_state_scheme \<Rightarrow> 'a io_state_scheme \<Rightarrow> bool" where
  "io_frame s t \<longleftrightarrow> (\<exists>es. io_only es s t)"

lemma io_frame_refl [simp, intro]: "io_frame s s"
  unfolding io_frame_def using io_only_refl by blast

lemma io_frame_trans [trans]: "io_frame s t \<Longrightarrow> io_frame t u \<Longrightarrow> io_frame s u"
  unfolding io_frame_def using io_only_trans by blast

lemma io_frame_ports:
  "io_frame s (outb p b s)" "io_frame s (outw p w s)" "io_frame s (snd (inb p s))" "io_frame s (snd (inw p s))"
  unfolding io_frame_def using io_only_ports by blast+

lemma io_frameD: "io_frame s t \<Longrightarrow> \<exists>h. t = s\<lparr>io_hist := h\<rparr>"
  by (auto simp: io_frame_def io_only_def)

lemma io_frame_status: "io_frame s (snd (ata_status s))"
  by (simp add: ata_status_def io_frame_ports)

lemma io_frame_wait_not_busy_loop: "wait_not_busy_loop n s = (r, t) \<Longrightarrow> io_frame s t"
proof (induction n arbitrary: s)
  case (Suc n)
  obtain v u where u: "ata_status s = (v, u)" by force
  have "io_frame s u" using io_frame_status [of s] by (simp add: u)
  moreover have "io_frame u t"
    using Suc by (subst (asm) (2) wait_not_busy_loop.simps) (auto simp: u split: if_splits)
  ultimately show ?case by (rule io_frame_trans)
qed (simp add: wait_not_busy_loop.simps)

lemma io_frame_wait_drq_loop: "wait_drq_loop n s = (r, t) \<Longrightarrow> io_frame s t"
proof (induction n arbitrary: s)
  case (Suc n)
  obtain v u where u: "ata_status s = (v, u)" by force
  have "io_frame s u" using io_frame_status [of s] by (simp add: u)
  moreover have "io_frame u t"
    using Suc by (subst (asm) (2) wait_drq_loop.simps) (auto simp: u split: if_splits)
  ultimately show ?case by (rule io_frame_trans)
qed (simp add: wait_drq_loop.simps)

lemma io_frame_waits:
  "wait_not_busy s = (r, t) \<Longrightarrow> io_frame s t" "wait_drq s = (r, t) \<Longrightarrow> io_frame s t"
  by (simp_all add: wait_not_busy_def wait_drq_def io_frame_wait_not_busy_loop io_frame_wait_drq_loop)

lemma io_frame_inw_words: "inw_words n s = (ws, t) \<Longrightarrow> io_frame s t \<and> length ws = n"
proof (induction n arbitrary: s ws)
  case (Suc n)
  obtain v u where u: "inw ATA_DATA s = (v, u)" by force
  have "io_frame s u" using io_frame_ports(4) [of s] by (metis snd_conv u)
  then show ?case using Suc.prems Suc.IH [of u] u by (auto split: prod.splits intro: io_frame_trans [of s u])
qed simp

lemma io_frame_outw_words: "io_frame s (outw_words ws s)"
proof (induction ws arbitrary: s)
  case (Cons w ws)
  show ?case unfolding outw_words.simps by (rule io_frame_trans [OF io_frame_ports(2) Cons.IH])
qed simp

lemma io_frame_command: "io_frame s (ata_command c l s)"
  unfolding ata_command_def Let_def by (intro io_frame_trans [OF _ io_frame_ports(1)] io_frame_refl)

lemma length_words_to_bytes [simp]: "length (words_to_bytes ws) = 2 * length ws"
  by (induction ws) auto

lemma ata_read_loop_frame:
  "ata_read_loop n l s = ((r, bs), t) \<Longrightarrow> io_frame s t \<and> length bs \<le> 512 * n \<and> (r = Inr () \<longrightarrow> length bs = 512 * n)"
proof (induction n arbitrary: l s r bs t)
  case (Suc n)
  obtain a s1 where a: "wait_not_busy s = (a, s1)" by force
  obtain b s2 where b: "wait_drq (ata_command 0x20 (ucast l) s1) = (b, s2)" by force
  obtain ws s3 where ws: "inw_words 256 s2 = (ws, s3)" by force
  obtain r' bs' s4 where r: "ata_read_loop n (l + 1) s3 = ((r', bs'), s4)" by (metis prod.exhaust)
  have f1: "io_frame s s1" using a by (rule io_frame_waits)
  have f2: "io_frame s s2" by (rule io_frame_trans [OF io_frame_trans [OF f1 io_frame_command] io_frame_waits(2) [OF b]])
  have ih: "io_frame s3 s4 \<and> length bs' \<le> 512 * n \<and> (r' = Inr () \<longrightarrow> length bs' = 512 * n)" using r by (rule Suc.IH)
  have g: "io_frame s2 s3" "length ws = 256" using io_frame_inw_words [OF ws] by blast+
  have f4: "io_frame s s4" using io_frame_trans [OF io_frame_trans [OF f2 g(1)]] ih by blast
  show ?case
  proof (cases "isl a \<or> isl b")
    case True
    then have "(r, bs, t) = (Inl EIO, [], s1) \<or> (r, bs, t) = (Inl EIO, [], s2)"
      using Suc.prems a b by (cases a; cases b) auto
    then show ?thesis using f1 f2 by auto
  next
    case False
    then have "(r, bs, t) = (r', words_to_bytes ws @ bs', s4)"
      using Suc.prems a b ws r by (cases a; cases b) auto
    then show ?thesis using f4 g(2) ih by auto
  qed
qed simp

lemma ata_read_sectors_frame:
  assumes "ata_read_sectors l c s = ((r, bs), t)"
  shows "io_frame s t \<and> length bs \<le> 512 * unat c \<and> (r = Inr () \<longrightarrow> length bs = 512 * unat c)"
  using assms ata_read_loop_frame [of "unat c" l s r bs t] by (auto simp: ata_read_sectors_def split: if_splits)

lemma ata_write_loop_frame: "ata_write_loop n l bs s = (r, t) \<Longrightarrow> io_frame s t"
proof (induction n arbitrary: l bs s)
  case (Suc n)
  obtain a s1 where a: "wait_not_busy s = (a, s1)" by force
  obtain b s2 where b: "wait_drq (ata_command 0x30 (ucast l) s1) = (b, s2)" by force
  obtain c s3 where c: "wait_not_busy (outb ATA_COMMAND 0xe7 (outw_words (bytes_to_words (take 512 bs)) s2)) = (c, s3)" by force
  have f1: "io_frame s s1" using a by (rule io_frame_waits)
  have f2: "io_frame s s2" by (rule io_frame_trans [OF io_frame_trans [OF f1 io_frame_command] io_frame_waits(2) [OF b]])
  have f3: "io_frame s s3"
    by (rule io_frame_trans [OF io_frame_trans [OF io_frame_trans [OF f2 io_frame_outw_words] io_frame_ports(1)] io_frame_waits(1) [OF c]])
  show ?case
  proof (cases "isl a \<or> isl b \<or> isl c")
    case True
    then have "t = s1 \<or> t = s2 \<or> t = s3" using Suc.prems a b c by (cases a; cases b; cases c) auto
    then show ?thesis using f1 f2 f3 by blast
  next
    case False
    then have "ata_write_loop n (l + 1) (drop 512 bs) s3 = (r, t)"
      using Suc.prems a b c by (cases a; cases b; cases c) auto
    then show ?thesis using Suc.IH io_frame_trans [OF f3] by blast
  qed
qed simp

lemma ata_write_sectors_frame: "ata_write_sectors l c bs s = (r, t) \<Longrightarrow> io_frame s t"
  using ata_write_loop_frame [of "unat c" l bs s r t] by (auto simp: ata_write_sectors_def split: if_splits)

end
