(* ===== verification/Bytes.thy ===== *)
theory Bytes
  imports Npk_Prelude
begin

text \<open>
  Bytes in memory and on disk: little-endian integers, C strings in byte arrays, partial overwrites of a
  buffer, and arrays of fixed-width records.  A record's layout is an instance of the interface
  \<open>byte_codec\<close>; arrays of such records then decode to what was encoded.
\<close>

definition le16 :: "u16 \<Rightarrow> u8 list" where
  "le16 x = [ucast x, ucast (drop_bit 8 x)]"

definition of_le16 :: "u8 list \<Rightarrow> u16" where
  "of_le16 bs = (ucast (bs ! 0) OR push_bit 8 (ucast (bs ! 1)))"

definition le32 :: "u32 \<Rightarrow> u8 list" where
  "le32 x = [ucast x, ucast (drop_bit 8 x), ucast (drop_bit 16 x), ucast (drop_bit 24 x)]"

definition of_le32 :: "u8 list \<Rightarrow> u32" where
  "of_le32 bs = (ucast (bs ! 0) OR push_bit 8 (ucast (bs ! 1)) OR push_bit 16 (ucast (bs ! 2)) OR push_bit 24 (ucast (bs ! 3)))"

definition le64 :: "u64 \<Rightarrow> u8 list" where
  "le64 x = map (\<lambda>i. ucast (drop_bit (8 * i) x)) [0..<8]"

definition of_le64 :: "u8 list \<Rightarrow> u64" where
  "of_le64 bs = foldr (\<lambda>b acc. ucast b OR push_bit 8 acc) (take 8 bs) 0"

definition field :: "nat \<Rightarrow> nat \<Rightarrow> u8 list \<Rightarrow> u8 list" where
  "field off n bs = take n (drop off bs)"

definition zeros :: "nat \<Rightarrow> u8 list" where
  "zeros n = replicate n 0"

text \<open>A copy of \<open>new\<close> to the front of a buffer that holds \<open>old\<close>, or to an offset in it.\<close>

definition overlay :: "u8 list \<Rightarrow> u8 list \<Rightarrow> u8 list" where
  "overlay new old = new @ drop (length new) old"

definition overlay_at :: "nat \<Rightarrow> u8 list \<Rightarrow> u8 list \<Rightarrow> u8 list" where
  "overlay_at off new old = take off old @ new @ drop (off + length new) old"

text \<open>C strings in byte arrays.\<close>

definition byte_of :: "char \<Rightarrow> u8" where
  "byte_of c = of_nat (of_char c)"

definition bytes_of :: "string \<Rightarrow> u8 list" where
  "bytes_of cs = map byte_of cs"

definition cstring :: "u8 list \<Rightarrow> string" where
  "cstring bs = map (\<lambda>b. char_of (unat b)) (takeWhile (\<lambda>b. b \<noteq> 0) bs)"

lemma length_le [simp]: "length (le16 h) = 2" "length (le32 w) = 4" "length (le64 d) = 8"
  by (simp_all add: le16_def le32_def le64_def)

lemma length_bytes [simp]: "length (zeros n) = n" "length (bytes_of cs) = length cs"
  by (simp_all add: zeros_def bytes_of_def)

lemma length_field [simp]: "length (field off n bs) = min n (length bs - off)"
  by (simp add: field_def)

lemma length_overlay [simp]: "length (overlay new old) = max (length new) (length old)"
  by (simp add: overlay_def)

lemma length_overlay_at: "off + length new \<le> length old \<Longrightarrow> length (overlay_at off new old) = length old"
  by (simp add: overlay_at_def)

lemma field_append_left: "off + n \<le> length xs \<Longrightarrow> field off n (xs @ ys) = field off n xs"
  by (simp add: field_def)

lemma field_append_right: "length xs \<le> off \<Longrightarrow> field off n (xs @ ys) = field (off - length xs) n ys"
  by (simp add: field_def)

lemma field_all: "field 0 (length xs) xs = xs" "n = length xs \<Longrightarrow> field 0 n xs = xs"
  by (simp_all add: field_def)

lemma le16_inverse [simp]: "of_le16 (le16 x) = x"
  by (rule bit_word_eqI) (auto simp: of_le16_def le16_def bit_simps not_less)

lemma bit_byte: "bit (ucast (drop_bit k (x :: 'a::len word)) :: u8) n \<longleftrightarrow> n < 8 \<and> bit x (k + n)"
  by (auto simp: bit_simps dest: bit_imp_le_length)

lemma bit_shifted_byte: "bit (push_bit k (ucast (b :: u8)) :: 'a::len word) n \<longleftrightarrow> n < LENGTH('a) \<and> k \<le> n \<and> bit b (n - k)"
  by (auto simp: bit_simps dest: bit_imp_le_length)

lemma byte_slice:
  fixes x :: "'a::len word"
  shows "bit (push_bit k (ucast (ucast (drop_bit k x) :: u8)) :: 'a word) n \<longleftrightarrow> n < LENGTH('a) \<and> k \<le> n \<and> n < k + 8 \<and> bit x n"
  by (auto simp: bit_shifted_byte bit_byte)

lemma le32_inverse [simp]: "of_le32 (le32 x) = x"
proof (rule bit_word_eqI)
  fix n :: nat assume n: "n < LENGTH(32)"
  have "of_le32 (le32 x) = push_bit 0 (ucast (ucast (drop_bit 0 x) :: u8)) OR push_bit 8 (ucast (ucast (drop_bit 8 x) :: u8))
      OR push_bit 16 (ucast (ucast (drop_bit 16 x) :: u8)) OR push_bit 24 (ucast (ucast (drop_bit 24 x) :: u8))"
    by (simp add: of_le32_def le32_def)
  then show "bit (of_le32 (le32 x)) n = bit x n"
    using n by (simp only: bit_or_iff byte_slice) auto
qed

lemma unat_byte_of: "unat (byte_of c) = of_char c"
  by (simp add: byte_of_def unat_of_nat)

lemma char_of_byte [simp]: "char_of (unat (byte_of c)) = c"
  by (simp add: unat_byte_of)

lemma byte_of_nonzero: "c \<noteq> CHR 0x00 \<Longrightarrow> byte_of c \<noteq> 0"
proof
  assume c: "c \<noteq> CHR 0x00" and "byte_of c = 0"
  then have "char_of (0 :: nat) = c" using char_of_byte [of c] by simp
  moreover have "char_of (0 :: nat) = CHR 0x00" by (simp add: char_of_def)
  ultimately show False using c by simp
qed

lemma cstring_bytes: "CHR 0x00 \<notin> set cs \<Longrightarrow> cstring (bytes_of cs @ 0 # bs) = cs"
proof -
  assume a: "CHR 0x00 \<notin> set cs"
  then have "takeWhile (\<lambda>b. b \<noteq> 0) (bytes_of cs @ 0 # bs) = bytes_of cs"
    by (induction cs) (auto simp: bytes_of_def byte_of_nonzero)
  then show ?thesis by (simp add: cstring_def bytes_of_def comp_def map_idI)
qed

lemma bytes_of_inject: "bytes_of a = bytes_of b \<longleftrightarrow> a = b"
proof
  assume "bytes_of a = bytes_of b"
  then have "map (\<lambda>x. char_of (unat x)) (bytes_of a) = map (\<lambda>x. char_of (unat x)) (bytes_of b)" by simp
  then show "a = b" by (simp add: bytes_of_def comp_def)
qed simp

subsection \<open>Fixed-width records\<close>

locale byte_codec =
  fixes enc :: "'a \<Rightarrow> u8 list" and dec :: "u8 list \<Rightarrow> 'a" and width :: nat and wf :: "'a \<Rightarrow> bool"
  assumes width_pos: "0 < width"
    and length_enc: "wf x \<Longrightarrow> length (enc x) = width"
    and dec_enc: "wf x \<Longrightarrow> dec (enc x) = x"
begin

definition decode_array :: "nat \<Rightarrow> u8 list \<Rightarrow> 'a list" where
  "decode_array n bs = map (\<lambda>i. dec (field (i * width) width bs)) [0..<n]"

lemma length_concat_enc: "list_all wf xs \<Longrightarrow> length (concat (map enc xs)) = length xs * width"
  by (induction xs) (auto simp: length_enc)

lemma field_concat_enc:
  "list_all wf xs \<Longrightarrow> i < length xs \<Longrightarrow> field (i * width) width (concat (map enc xs)) = enc (xs ! i)"
proof (induction xs arbitrary: i)
  case (Cons x xs)
  then show ?case
    by (cases i) (auto simp: length_enc field_append_left field_append_right field_all)
qed simp

lemma decode_encode_array: "list_all wf xs \<Longrightarrow> decode_array (length xs) (concat (map enc xs)) = xs"
  unfolding decode_array_def
  by (rule nth_equalityI) (auto simp: field_concat_enc dec_enc list_all_length)

lemma enc_inject: "wf x \<Longrightarrow> wf y \<Longrightarrow> enc x = enc y \<longleftrightarrow> x = y"
  by (metis dec_enc)

lemma concat_enc_inject:
  "list_all wf xs \<Longrightarrow> list_all wf ys \<Longrightarrow> length xs = length ys
   \<Longrightarrow> concat (map enc xs) = concat (map enc ys) \<longleftrightarrow> xs = ys"
  by (metis decode_encode_array)

end

interpretation le32: byte_codec le32 of_le32 4 "\<lambda>_. True"
  by unfold_locales simp_all

interpretation le16: byte_codec le16 of_le16 2 "\<lambda>_. True"
  by unfold_locales simp_all

end
