(* ===== verification/Vfs_Path.thy ===== *)
theory Vfs_Path
  imports Npk_Prelude
begin

text \<open>
  Path names, from \<^verbatim>\<open>src/fs/vfs.c\<close>: the canonicaliser, the resolver of relative paths, and the
  comparison of canonical paths with the names in the initial archive.  A C string is a \<open>string\<close>
  without its terminating NUL; the output buffer \<^verbatim>\<open>canonical[0 .. output)\<close> is the list \<open>out\<close>.

  The reference is the obvious one: split at slashes, drop empty components and \<^verbatim>\<open>.\<close>, let
  \<^verbatim>\<open>..\<close> remove the last component kept, and join.  The canonicaliser is shown equal to it on every
  input, failures included, and its results are absolute, free of dot components, idempotent and within
  the buffer.  A listing of the archive is compared with \<open>is_child\<close>, which says of a full name and a
  directory what its child there is.
\<close>

abbreviation (input) VFS_NAME_CAPACITY :: nat where "VFS_NAME_CAPACITY \<equiv> 256"
abbreviation (input) slash :: char where "slash \<equiv> CHR ''/''"

text \<open>The backward scan for \<^verbatim>\<open>..\<close>: to the last slash, and over it.\<close>

definition pop_component :: "string \<Rightarrow> string" where
  "pop_component out = rev (drop 1 (dropWhile (\<lambda>c. c \<noteq> slash) (rev out)))"

lemma drop_component_shorter:
  assumes "dropWhile (\<lambda>c. c = slash) rest \<noteq> []"
  shows "length (dropWhile (\<lambda>c. c \<noteq> slash) (dropWhile (\<lambda>c. c = slash) rest)) < length rest"
proof -
  let ?r = "dropWhile (\<lambda>c. c = slash) rest"
  have "hd ?r \<noteq> slash" using hd_dropWhile [OF assms] by simp
  then have "length (dropWhile (\<lambda>c. c \<noteq> slash) ?r) < length ?r"
    using assms by (cases ?r) (auto simp: less_Suc_eq_le length_dropWhile_le)
  then show ?thesis using length_dropWhile_le [of "\<lambda>c. c = slash" rest] by linarith
qed

function canonicalize_loop :: "nat \<Rightarrow> string \<Rightarrow> string \<Rightarrow> string option" where
  "canonicalize_loop capacity rest out =
     (if rest = [] then Some out
      else let rest = dropWhile (\<lambda>c. c = slash) rest
        in if rest = [] then Some out
           else let component = takeWhile (\<lambda>c. c \<noteq> slash) rest;
                    rest = dropWhile (\<lambda>c. c \<noteq> slash) rest
             in if component = ''.'' then canonicalize_loop capacity rest out
                else if component = ''..'' then canonicalize_loop capacity rest (pop_component out)
                else if length out + 1 + length component \<ge> capacity then None
                else canonicalize_loop capacity rest (out @ slash # component))"
  by pat_completeness auto

termination
  by (relation "measure (\<lambda>(capacity, rest, out). length rest)") (use drop_component_shorter in auto)

declare canonicalize_loop.simps [simp del]

definition canonicalize_path :: "string \<Rightarrow> nat \<Rightarrow> string option" where
  "canonicalize_path path capacity =
     (if capacity < 2 \<or> path = [] \<or> hd path \<noteq> slash then None
      else map_option (\<lambda>out. if out = [] then [slash] else out)
             (canonicalize_loop capacity (tl path) []))"

definition vfs_resolve_path :: "string \<Rightarrow> string \<Rightarrow> nat \<Rightarrow> string option" where
  "vfs_resolve_path cwd path capacity =
     (if capacity < 2 \<or> cwd = [] \<or> hd cwd \<noteq> slash \<or> path = [] then None
      else if hd path = slash then
        if length path \<ge> VFS_NAME_CAPACITY then None else canonicalize_path path capacity
      else
        let separator = (if last cwd = slash then [] else [slash])
        in if length cwd + length separator + length path \<ge> VFS_NAME_CAPACITY then None
           else canonicalize_path (cwd @ separator @ path) capacity)"

definition initrd_name_matches :: "string \<Rightarrow> string \<Rightarrow> bool" where
  "initrd_name_matches archive_name canonical =
     (if archive_name \<noteq> [] \<and> hd archive_name = slash then archive_name = canonical
      else canonical \<noteq> [] \<and> hd canonical = slash \<and> archive_name = tl canonical)"

definition strip_slash :: "string \<Rightarrow> string" where
  "strip_slash name = (if name \<noteq> [] \<and> hd name = slash then tl name else name)"

text \<open>\<^verbatim>\<open>strncmp(name, prefix, directory_length) == 0\<close> on a name longer than \<open>directory_length\<close>.\<close>

definition below_directory :: "string \<Rightarrow> string \<Rightarrow> bool" where
  "below_directory name directory \<longleftrightarrow>
     length name > length directory \<and> take (length directory) name = directory
     \<and> name ! length directory = slash"

text \<open>For the empty string \<^verbatim>\<open>strlen(canonical) - 1\<close> is \<^verbatim>\<open>SIZE_MAX\<close>, and no name is longer than that.\<close>

definition initrd_directory_exists :: "string list \<Rightarrow> string \<Rightarrow> bool" where
  "initrd_directory_exists names canonical \<longleftrightarrow>
     canonical \<noteq> []
     \<and> (length canonical - 1 = 0 \<or> list_ex (\<lambda>name. below_directory (strip_slash name) (tl canonical)) names)"

definition initrd_child_from_name :: "string \<Rightarrow> string \<Rightarrow> nat \<Rightarrow> (string \<times> bool) option" where
  "initrd_child_from_name directory archive_name capacity =
     (let name = strip_slash archive_name;
          dir = (if directory = [slash] then [] else tl directory)
      in if capacity = 0 \<or> directory = [] \<or> (dir \<noteq> [] \<and> \<not> below_directory name dir) then None
         else let relative = drop (length dir + (if dir \<noteq> [] then 1 else 0)) name;
                  child = takeWhile (\<lambda>c. c \<noteq> slash) relative
           in if child = [] \<or> length child + 1 > capacity then None
              else Some (child, length child < length relative))"

definition initrd_child_seen :: "string list \<Rightarrow> string \<Rightarrow> nat \<Rightarrow> string \<Rightarrow> bool \<Rightarrow> bool" where
  "initrd_child_seen names directory limit child is_directory \<longleftrightarrow>
     list_ex (\<lambda>name. initrd_child_from_name directory name VFS_NAME_CAPACITY = Some (child, is_directory))
       (take limit names)"

text \<open>\<^verbatim>\<open>initrd_child_at\<close>: the loop over the archive names with the running \<^verbatim>\<open>ordinal\<close>.\<close>

function initrd_child_scan :: "string list \<Rightarrow> string \<Rightarrow> nat \<Rightarrow> nat \<Rightarrow> nat \<Rightarrow> nat \<Rightarrow> (string \<times> bool) option" where
  "initrd_child_scan names directory wanted capacity i ordinal =
     (if i \<ge> length names then None
      else case initrd_child_from_name directory (names ! i) capacity of
        None \<Rightarrow> initrd_child_scan names directory wanted capacity (i + 1) ordinal
      | Some (child, is_directory) \<Rightarrow>
          if initrd_child_seen names directory i child is_directory
          then initrd_child_scan names directory wanted capacity (i + 1) ordinal
          else if ordinal = wanted then Some (child, is_directory)
          else initrd_child_scan names directory wanted capacity (i + 1) (ordinal + 1))"
  by pat_completeness auto

termination
  by (relation "measure (\<lambda>(names, directory, wanted, capacity, i, ordinal). length names - i)") auto

declare initrd_child_scan.simps [simp del]

definition initrd_child_at :: "string list \<Rightarrow> string \<Rightarrow> nat \<Rightarrow> nat \<Rightarrow> (string \<times> bool) option" where
  "initrd_child_at names directory wanted capacity = initrd_child_scan names directory wanted capacity 0 0"

subsection \<open>Reference: components and their resolution\<close>

fun split_at_slash :: "string \<Rightarrow> string \<Rightarrow> string list" where
  "split_at_slash [] cur = [cur]"
| "split_at_slash (x # xs) cur =
     (if x = slash then cur # split_at_slash xs [] else split_at_slash xs (cur @ [x]))"

definition components :: "string \<Rightarrow> string list" where
  "components p = filter (\<lambda>c. c \<noteq> []) (split_at_slash p [])"

definition join_components :: "string list \<Rightarrow> string" where
  "join_components cs = concat (map (\<lambda>c. slash # c) cs)"

definition absolute_path :: "string list \<Rightarrow> string" where
  "absolute_path cs = (if cs = [] then [slash] else join_components cs)"

definition resolve_step :: "string list \<Rightarrow> string \<Rightarrow> string list" where
  "resolve_step kept c = (if c = ''.'' then kept else if c = ''..'' then butlast kept else kept @ [c])"

definition resolve_components :: "string list \<Rightarrow> string list" where
  "resolve_components cs = foldl resolve_step [] cs"

definition proper_component :: "string \<Rightarrow> bool" where
  "proper_component c \<longleftrightarrow> c \<noteq> [] \<and> slash \<notin> set c \<and> c \<noteq> ''.'' \<and> c \<noteq> ''..''"

lemma join_components_simps [simp]:
  "join_components [] = []"
  "join_components (cs @ ds) = join_components cs @ join_components ds"
  "join_components (c # cs) = slash # c @ join_components cs"
  by (simp_all add: join_components_def)

lemma split_no_slash: "slash \<notin> set c \<Longrightarrow> split_at_slash (c @ p) cur = split_at_slash p (cur @ c)"
  by (induction c arbitrary: cur) auto

lemma components_nil [simp]: "components [] = []"
  by (simp add: components_def)

lemma components_slash [simp]: "components (slash # p) = components p"
  by (simp add: components_def)

lemma components_append: "components (a @ slash # b) = components a @ components b"
proof -
  have "split_at_slash (a @ slash # b) cur = split_at_slash a cur @ split_at_slash b []" for cur
    by (induction a arbitrary: cur) auto
  then show ?thesis by (simp add: components_def)
qed

lemma components_join:
  assumes "c \<noteq> []" "slash \<notin> set c" "p = [] \<or> hd p = slash"
  shows "components (c @ p) = c # components p"
  using assms(1,3) split_no_slash [OF assms(2), of p "[]"] split_no_slash [OF assms(2), of "[]" "[]"]
  by (cases p) (simp_all add: components_def)

lemma components_skip: "components (dropWhile (\<lambda>c. c = slash) p) = components p"
  by (induction p) auto

lemma components_cons:
  assumes "p \<noteq> []" "hd p \<noteq> slash"
  shows "components p = takeWhile (\<lambda>c. c \<noteq> slash) p # components (dropWhile (\<lambda>c. c \<noteq> slash) p)"
proof -
  let ?c = "takeWhile (\<lambda>c. c \<noteq> slash) p" and ?r = "dropWhile (\<lambda>c. c \<noteq> slash) p"
  have "?c \<noteq> []" using assms by (cases p) auto
  moreover have "slash \<notin> set ?c" using set_takeWhileD by fastforce
  moreover have "?r = [] \<or> hd ?r = slash" using hd_dropWhile [of "\<lambda>c. c \<noteq> slash" p] by auto
  ultimately have "components (?c @ ?r) = ?c # components ?r" by (rule components_join)
  then show ?thesis by simp
qed

lemma components_absolute:
  "\<forall>c \<in> set cs. c \<noteq> [] \<and> slash \<notin> set c \<Longrightarrow> components (absolute_path cs) = cs"
proof -
  assume a: "\<forall>c \<in> set cs. c \<noteq> [] \<and> slash \<notin> set c"
  then have "components (join_components cs) = cs"
  proof (induction cs)
    case (Cons c cs)
    have "join_components cs = [] \<or> hd (join_components cs) = slash" by (cases cs) auto
    then show ?case using Cons components_join [of c "join_components cs"] by simp
  qed simp
  then show ?thesis by (cases cs) (auto simp: absolute_path_def)
qed

lemma components_wf: "c \<in> set (components p) \<Longrightarrow> c \<noteq> [] \<and> slash \<notin> set c"
proof -
  have "c \<in> set (split_at_slash p cur) \<Longrightarrow> slash \<notin> set cur \<Longrightarrow> slash \<notin> set c" for cur
  proof (induction p arbitrary: cur)
    case (Cons x p)
    show ?case using Cons.prems Cons.IH [of "[]"] Cons.IH [of "cur @ [x]"] by (cases "x = slash") auto
  qed simp
  from this [of "[]"] show "c \<in> set (components p) \<Longrightarrow> ?thesis" by (auto simp: components_def)
qed

lemma pop_join:
  "slash \<notin> set c \<Longrightarrow> pop_component (p @ slash # c) = p"
  by (simp add: pop_component_def dropWhile_append)

lemma pop_components:
  assumes "\<forall>c \<in> set kept. slash \<notin> set c"
  shows "pop_component (join_components kept) = join_components (butlast kept)"
  using assms by (cases kept rule: rev_cases) (auto simp: pop_join, simp add: pop_component_def)

subsection \<open>The canonicaliser computes the reference\<close>

fun resolve_within :: "nat \<Rightarrow> string list \<Rightarrow> string list \<Rightarrow> string list option" where
  "resolve_within capacity [] kept = Some kept"
| "resolve_within capacity (c # cs) kept =
     (if c \<noteq> ''.'' \<and> c \<noteq> ''..'' \<and> length (join_components (kept @ [c])) \<ge> capacity then None
      else resolve_within capacity cs (resolve_step kept c))"

lemma canonicalize_loop_resolve:
  "\<forall>c \<in> set kept. slash \<notin> set c \<Longrightarrow>
   canonicalize_loop capacity rest (join_components kept)
   = map_option join_components (resolve_within capacity (components rest) kept)"
proof (induction rest arbitrary: kept rule: measure_induct_rule [where f = length])
  case (less rest)
  let ?r = "dropWhile (\<lambda>c. c = slash) rest"
  show ?case
  proof (cases "?r = []")
    case True
    then have "components rest = []" by (metis components_skip components_nil)
    then show ?thesis using True by (subst canonicalize_loop.simps) (simp add: Let_def)
  next
    case False
    let ?c = "takeWhile (\<lambda>c. c \<noteq> slash) ?r" and ?q = "dropWhile (\<lambda>c. c \<noteq> slash) ?r"
    have "hd ?r \<noteq> slash" using hd_dropWhile [OF False] by simp
    then have cs: "components rest = ?c # components ?q"
      using components_cons [OF False] components_skip [of rest] by simp
    have nc: "slash \<notin> set ?c" using set_takeWhileD by fastforce
    have IH: "canonicalize_loop capacity ?q (join_components k)
        = map_option join_components (resolve_within capacity (components ?q) k)"
      if "\<forall>c \<in> set k. slash \<notin> set c" for k
      using less.IH [OF drop_component_shorter [OF False]] that by simp
    have k: "\<forall>c \<in> set (butlast kept). slash \<notin> set c" "\<forall>c \<in> set (kept @ [?c]). slash \<notin> set c"
      using less.prems nc by (auto dest: in_set_butlastD)
    have "rest \<noteq> []" using False by auto
    then have "canonicalize_loop capacity rest (join_components kept) =
       (if ?c = ''.'' then canonicalize_loop capacity ?q (join_components kept)
        else if ?c = ''..'' then canonicalize_loop capacity ?q (join_components (butlast kept))
        else if length (join_components (kept @ [?c])) \<ge> capacity then None
        else canonicalize_loop capacity ?q (join_components (kept @ [?c])))"
      using False pop_components [OF less.prems]
      by (subst canonicalize_loop.simps) (simp only: Let_def if_False join_components_simps append_Nil2 length_append list.size add_Suc_right add_Suc One_nat_def add_0_right)
    also have "\<dots> = map_option join_components (resolve_within capacity (components rest) kept)"
      unfolding cs resolve_within.simps resolve_step_def
      using IH [OF less.prems] IH [OF k(1)] IH [OF k(2)] by simp
    finally show ?thesis .
  qed
qed

lemma resolve_within_some:
  "resolve_within capacity cs kept = Some r \<Longrightarrow> r = foldl resolve_step kept cs"
  by (induction cs arbitrary: kept) (auto split: if_splits)

lemma resolve_step_proper:
  assumes "\<forall>k \<in> set kept. proper_component k" "c \<noteq> []" "slash \<notin> set c"
  shows "\<forall>k \<in> set (resolve_step kept c). proper_component k"
  using assms by (auto simp: resolve_step_def proper_component_def dest: in_set_butlastD)

lemma resolve_proper:
  "\<forall>k \<in> set kept. proper_component k \<Longrightarrow> \<forall>c \<in> set cs. c \<noteq> [] \<and> slash \<notin> set c
   \<Longrightarrow> \<forall>k \<in> set (foldl resolve_step kept cs). proper_component k"
proof (induction cs arbitrary: kept)
  case (Cons c cs)
  have "\<forall>k \<in> set (resolve_step kept c). proper_component k"
    using Cons.prems by (intro resolve_step_proper) auto
  then show ?case using Cons.IH Cons.prems(2) by simp
qed simp

lemma length_join_butlast: "length (join_components (butlast kept)) \<le> length (join_components kept)"
  by (cases kept rule: rev_cases) auto

lemma resolve_within_short:
  "resolve_within capacity cs kept = Some r \<Longrightarrow> length (join_components kept) < capacity
   \<Longrightarrow> length (join_components r) < capacity"
proof (induction cs arbitrary: kept)
  case (Cons c cs)
  have "length (join_components (resolve_step kept c)) < capacity"
    using Cons.prems length_join_butlast [of kept] by (auto simp: resolve_step_def split: if_splits)
  then show ?case using Cons by (auto split: if_splits)
qed simp

lemma resolve_within_total:
  "length (join_components kept) + length (join_components cs) < capacity
   \<Longrightarrow> resolve_within capacity cs kept = Some (foldl resolve_step kept cs)"
proof (induction cs arbitrary: kept)
  case (Cons c cs)
  have "length (join_components (resolve_step kept c)) + length (join_components cs) < capacity"
    using Cons.prems length_join_butlast [of kept] by (auto simp: resolve_step_def)
  then show ?case using Cons by simp
qed simp

text \<open>The resolution succeeds exactly when every intermediate result fits.\<close>

lemma all_le_Suc: "(\<forall>k \<le> Suc n. P k) \<longleftrightarrow> P 0 \<and> (\<forall>k \<le> n. P (Suc k))"
  by (metis Suc_le_mono le0 not0_implies_Suc)

lemma resolve_within_iff:
  "length (join_components kept) < capacity \<Longrightarrow>
   resolve_within capacity cs kept =
     (if \<forall>k \<le> length cs. length (join_components (foldl resolve_step kept (take k cs))) < capacity
      then Some (foldl resolve_step kept cs) else None)"
proof (induction cs arbitrary: kept)
  case (Cons c cs)
  let ?kept = "resolve_step kept c"
  show ?case
  proof (cases "length (join_components ?kept) < capacity")
    case True
    then have "resolve_within capacity (c # cs) kept = resolve_within capacity cs ?kept"
      by (auto simp: resolve_step_def)
    then show ?thesis using Cons.IH [OF True] Cons.prems by (simp add: all_le_Suc)
  next
    case False
    then have "resolve_within capacity (c # cs) kept = None"
      using Cons.prems length_join_butlast [of kept] by (auto simp: resolve_step_def split: if_splits)
    moreover have "\<not> (\<forall>k \<le> length (c # cs). length (join_components (foldl resolve_step kept (take k (c # cs)))) < capacity)"
      using False by (auto intro!: exI [of _ 1])
    ultimately show ?thesis by simp
  qed
qed simp

lemma resolve_idem:
  "\<forall>c \<in> set cs. proper_component c \<Longrightarrow> foldl resolve_step kept cs = kept @ cs"
  by (induction cs arbitrary: kept) (auto simp: resolve_step_def proper_component_def)

lemma canonicalize_path_eq:
  assumes "capacity \<ge> 2"
  shows "canonicalize_path (slash # p) capacity =
    map_option absolute_path (resolve_within capacity (components p) [])"
  using assms canonicalize_loop_resolve [of "[]" capacity p]
  by (cases "resolve_within capacity (components p) []")
     (auto simp: canonicalize_path_def absolute_path_def neq_Nil_conv)

lemma canonicalize_pathE:
  assumes "canonicalize_path path capacity = Some r"
  obtains p where "capacity \<ge> 2" "path = slash # p"
    "resolve_within capacity (components p) [] = Some (resolve_components (components path))"
    "r = absolute_path (resolve_components (components path))"
proof -
  obtain p where p: "capacity \<ge> 2" "path = slash # p"
    using assms by (cases path) (auto simp: canonicalize_path_def split: if_splits)
  then obtain k where k: "resolve_within capacity (components p) [] = Some k" "r = absolute_path k"
    using assms canonicalize_path_eq [of capacity p] by auto
  then have "k = resolve_components (components path)"
    using resolve_within_some p(2) by (fastforce simp: resolve_components_def)
  then show thesis using that p k by simp
qed

lemma length_join_components: "length (join_components (components p)) \<le> length p + 1"
proof -
  have "length (concat (map (\<lambda>c. slash # c) (filter (\<lambda>c. c \<noteq> []) (split_at_slash p cur))))
      \<le> length p + length cur + 1" for cur
  proof (induction p arbitrary: cur)
    case (Cons x p)
    then show ?case using Cons.IH [of "[]"] Cons.IH [of "cur @ [x]"] by auto
  qed simp
  from this [of "[]"] show ?thesis by (simp add: components_def join_components_def)
qed

lemma resolve_components_proper: "\<forall>c \<in> set (resolve_components (components p)). proper_component c"
  using resolve_proper [of "[]" "components p"] components_wf by (auto simp: resolve_components_def)

lemma absolute_path_nonempty: "\<exists>q. absolute_path cs = slash # q"
  by (cases cs) (auto simp: absolute_path_def)

lemma length_absolute_path:
  "length (join_components cs) < n \<Longrightarrow> 2 \<le> n \<Longrightarrow> length (absolute_path cs) < n"
  by (simp add: absolute_path_def)

lemma canonicalize_absolute:
  assumes "\<forall>c \<in> set cs. proper_component c" "length (absolute_path cs) < capacity"
  shows "canonicalize_path (absolute_path cs) capacity = Some (absolute_path cs)"
proof -
  obtain q where q: "absolute_path cs = slash # q" using absolute_path_nonempty by blast
  have c: "components q = cs"
    using components_absolute [of cs] assms(1) q by (auto simp: proper_component_def)
  have "length (join_components cs) < capacity" using assms(2) by (simp add: absolute_path_def split: if_splits)
  then have "resolve_within capacity cs [] = Some cs"
    using resolve_within_total [of "[]" cs capacity] resolve_idem [OF assms(1), of "[]"] by simp
  moreover have "capacity \<ge> 2" using assms(2) q by simp
  ultimately show ?thesis using canonicalize_path_eq [of capacity q] by (simp add: c q)
qed

lemma canonicalize_total:
  assumes "hd path = slash" "path \<noteq> []" "length path < capacity"
  shows "canonicalize_path path capacity = Some (absolute_path (resolve_components (components path)))"
proof -
  obtain p where p: "path = slash # p" using assms(1,2) by (cases path) auto
  have "resolve_within capacity (components p) [] = Some (resolve_components (components path))"
    using resolve_within_total [of "[]" "components p" capacity] length_join_components [of p] assms(3)
    by (simp add: p resolve_components_def)
  moreover have "p \<noteq> [] \<or> capacity \<ge> 2" using assms(3) p by auto
  moreover have "capacity \<ge> 2" using assms(3) p by simp
  ultimately show ?thesis using canonicalize_path_eq [of capacity p] by (simp add: p)
qed

lemma canonicalize_some:
  assumes "canonicalize_path path capacity = Some r"
  shows "components r = resolve_components (components path) \<and> list_all proper_component (components r)
    \<and> length r < capacity \<and> canonicalize_path r capacity = Some r"
proof -
  let ?cs = "resolve_components (components path)"
  obtain p where p: "capacity \<ge> 2" "path = slash # p"
    "resolve_within capacity (components p) [] = Some ?cs" "r = absolute_path ?cs"
    using assms by (rule canonicalize_pathE)
  note pr = resolve_components_proper [of path]
  have c: "components r = ?cs" unfolding p(4) using pr by (intro components_absolute) (auto simp: proper_component_def)
  have "length (join_components ?cs) < capacity" using resolve_within_short [OF p(3)] p(1) by simp
  then have l: "length r < capacity" using length_absolute_path p(1,4) by simp
  show ?thesis using c l p(4) pr canonicalize_absolute [OF pr] by (simp add: list_all_iff)
qed

lemma canonicalize_path_iff:
  "canonicalize_path path capacity =
     (if 2 \<le> capacity \<and> path \<noteq> [] \<and> hd path = slash
         \<and> (\<forall>k \<le> length (components path).
              length (join_components (resolve_components (take k (components path)))) < capacity)
      then Some (absolute_path (resolve_components (components path))) else None)"
proof (cases "2 \<le> capacity \<and> path \<noteq> [] \<and> hd path = slash")
  case True
  then obtain p where p: "path = slash # p" by (cases path) auto
  have "canonicalize_path path capacity = map_option absolute_path (resolve_within capacity (components path) [])"
    using canonicalize_path_eq [of capacity p] True by (simp add: p)
  then show ?thesis using True resolve_within_iff [of "[]" capacity "components path"]
    by (simp add: resolve_components_def)
next
  case False
  then have "canonicalize_path path capacity = None" by (simp add: canonicalize_path_def not_le)
  then show ?thesis using False by (subst if_not_P) blast+
qed

text \<open>C9. The canonicaliser computes the reference resolution of a path, on every input.  It succeeds
  exactly when the buffer has at least two bytes, the path is absolute, and the path resolved so far fits the
  buffer with its NUL after each component; the result is then the absolute path of the components kept
  after dropping \<^verbatim>\<open>.\<close> and letting \<^verbatim>\<open>..\<close> remove the component before it.  No component of a result is
  empty, \<^verbatim>\<open>.\<close> or \<^verbatim>\<open>..\<close>, the result with its NUL fits the buffer, and a canonical path is left unchanged.\<close>

theorem canonicalize_path_correct:
  "canonicalize_path path capacity =
     (if 2 \<le> capacity \<and> path \<noteq> [] \<and> hd path = slash
         \<and> (\<forall>k \<le> length (components path).
              length (join_components (resolve_components (take k (components path)))) < capacity)
      then Some (absolute_path (resolve_components (components path))) else None)
   \<and> (\<forall>r. canonicalize_path path capacity = Some r \<longrightarrow>
        components r = resolve_components (components path) \<and> list_all proper_component (components r)
        \<and> length r < capacity \<and> canonicalize_path r capacity = Some r)"
  using canonicalize_path_iff canonicalize_some by blast

theorem canonicalize_path_correct_witness:
  "canonicalize_path ''//a/./b/../../../c'' 5 = Some ''/c'' \<and> canonicalize_path ''//a/./b/../../../c'' 4 = None
   \<and> components ''/c'' = [''c''] \<and> canonicalize_path ''/c'' 5 = Some ''/c''"
proof -
  have cs: "components ''//a/./b/../../../c'' = [''a'', ''.'', ''b'', ''..'', ''..'', ''..'', ''c'']"
    by (simp add: components_def)
  note res = resolve_components_def resolve_step_def absolute_path_def all_le_Suc
  have none: "canonicalize_path ''//a/./b/../../../c'' 4 = None"
    using conjunct1 [OF canonicalize_path_correct, of "''//a/./b/../../../c''" 4, unfolded cs] by (simp add: res)
  have some: "canonicalize_path ''//a/./b/../../../c'' 5 = Some ''/c''"
    using conjunct1 [OF canonicalize_path_correct, of "''//a/./b/../../../c''" 5, unfolded cs] by (simp add: res)
  note facts = conjunct2 [OF canonicalize_path_correct, rule_format, OF some, unfolded cs]
  have "components ''/c'' = [''c'']" using conjunct1 [OF facts] by (simp add: res)
  then show ?thesis using none some conjunct2 [OF conjunct2 [OF conjunct2 [OF facts]]] by blast
qed

text \<open>C10. Resolving a path against a working directory never fails for lack of space when the joined
  text fits the 255 characters of the kernel's buffer, and gives the resolution of the path's components
  after those of the directory, or of the path's alone when it is absolute.\<close>

theorem vfs_resolve_path_correct:
  assumes "hd cwd = slash" "cwd \<noteq> []" "path \<noteq> []" "length cwd + length path < 255" "length cwd + length path < capacity - 1"
  shows "vfs_resolve_path cwd path capacity = Some (absolute_path (resolve_components
      (if hd path = slash then components path else components cwd @ components path)))"
proof (cases "hd path = slash")
  case True
  then have "canonicalize_path path capacity = Some (absolute_path (resolve_components (components path)))"
    using assms by (intro canonicalize_total) auto
  then show ?thesis using True assms by (simp add: vfs_resolve_path_def)
next
  case False
  let ?sep = "if last cwd = slash then [] else [slash]"
  have "components (cwd @ ?sep @ path) = components cwd @ components path"
  proof (cases "last cwd = slash")
    case True
    then have c: "cwd = butlast cwd @ slash # []" using assms(2) by (metis append_butlast_last_id)
    have "components ((butlast cwd @ [slash]) @ path) = components (butlast cwd @ slash # []) @ components path"
      unfolding components_append by (simp add: components_append)
    then show ?thesis using c True by simp
  qed (simp add: components_append)
  moreover have "canonicalize_path (cwd @ ?sep @ path) capacity
      = Some (absolute_path (resolve_components (components (cwd @ ?sep @ path))))"
    using assms by (intro canonicalize_total) auto
  ultimately show ?thesis using False assms by (simp add: vfs_resolve_path_def Let_def)
qed

theorem vfs_resolve_path_correct_witness:
  "vfs_resolve_path ''/home/u'' ''../x/./y'' 256 = Some ''/home/x/y''"
  using vfs_resolve_path_correct [of "''/home/u''" "''../x/./y''" 256]
  by (simp add: components_def resolve_components_def resolve_step_def absolute_path_def)

subsection \<open>Directory listings of the archive\<close>

definition begins :: "string \<Rightarrow> string \<Rightarrow> bool" where
  "begins start name \<longleftrightarrow> take (length start) name = start"

lemma begins_iff: "begins start name \<longleftrightarrow> (\<exists>rest. name = start @ rest)"
  unfolding begins_def by (metis append_eq_conv_conj append_take_drop_id)

lemma begins_simps [simp]: "begins (c # start) (c # name) = begins start name" "begins (d @ start) (d @ name) = begins start name"
  by (simp_all add: begins_def)

text \<open>What a directory lists for one name of the archive, whether or not the name is written with its
  leading slash: the file \<open>child\<close> when the name is the directory's path, a slash and the child; the
  subdirectory \<open>child\<close> when another slash follows there.  A child is a non-empty text that fits the 256 bytes of the
  kernel's buffer.\<close>

definition directory_prefix :: "string \<Rightarrow> string" where
  "directory_prefix directory = (if directory = [slash] then [slash] else directory @ [slash])"

definition is_child :: "string \<Rightarrow> string \<Rightarrow> string \<times> bool \<Rightarrow> bool" where
  "is_child directory name x \<longleftrightarrow> (case x of (child, is_directory) \<Rightarrow>
     child \<noteq> [] \<and> slash \<notin> set child \<and> length child < VFS_NAME_CAPACITY
     \<and> (if is_directory then begins (directory_prefix directory @ child @ [slash]) (slash # strip_slash name)
        else slash # strip_slash name = directory_prefix directory @ child))"

text \<open>The position of the first name that has the child.\<close>

definition first_name :: "string list \<Rightarrow> string \<Rightarrow> string \<times> bool \<Rightarrow> nat" where
  "first_name names directory x = length (takeWhile (\<lambda>name. \<not> is_child directory name x) names)"

lemma below_directory_prefix: "below_directory name dir \<longleftrightarrow> begins (dir @ [slash]) name"
proof
  assume b: "below_directory name dir"
  then have "name = take (length dir) name @ name ! length dir # drop (Suc (length dir)) name"
    by (intro id_take_nth_drop) (simp add: below_directory_def)
  then show "begins (dir @ [slash]) name" using b unfolding below_directory_def begins_iff by (metis append.assoc append_Cons append_Nil)
qed (auto simp: begins_iff below_directory_def)

lemma takeWhile_slash:
  assumes "slash \<notin> set c"
  shows "takeWhile (\<lambda>x. x \<noteq> slash) c = c" "takeWhile (\<lambda>x. x \<noteq> slash) (c @ slash # r) = c"
proof -
  have all: "\<And>x. x \<in> set c \<Longrightarrow> x \<noteq> slash" using assms by auto
  then show "takeWhile (\<lambda>x. x \<noteq> slash) c = c" by simp
  show "takeWhile (\<lambda>x. x \<noteq> slash) (c @ slash # r) = c" using all by (subst takeWhile_append2) auto
qed

lemma split_at_first_slash:
  obtains "slash \<notin> set r" "takeWhile (\<lambda>x. x \<noteq> slash) r = r"
  | c q where "r = c @ slash # q" "slash \<notin> set c" "takeWhile (\<lambda>x. x \<noteq> slash) r = c"
  by (metis split_list_first takeWhile_slash)

lemma child_of_relative:
  "(if takeWhile (\<lambda>c. c \<noteq> slash) r = [] \<or> 255 < length (takeWhile (\<lambda>c. c \<noteq> slash) r) then None
    else Some (takeWhile (\<lambda>c. c \<noteq> slash) r, length (takeWhile (\<lambda>c. c \<noteq> slash) r) < length r)) = Some (child, d)
   \<longleftrightarrow> child \<noteq> [] \<and> slash \<notin> set child \<and> length child < 256
     \<and> (if d then begins (child @ [slash]) r else r = child)"
  by (rule split_at_first_slash [of r]) (auto simp: begins_iff takeWhile_slash append_eq_append_conv2 Cons_eq_append_conv append_eq_Cons_conv)

lemma initrd_child_iff:
  assumes "directory \<noteq> []" "hd directory = slash"
  shows "initrd_child_from_name directory name 256 = Some x \<longleftrightarrow> is_child directory name x"
proof -
  obtain child d where x: "x = (child, d)" by (cases x)
  obtain dir where dir: "directory = slash # dir" using assms by (cases directory) auto
  let ?n = "strip_slash name"
  show ?thesis
  proof (cases "dir = []")
    case True
    then show ?thesis using child_of_relative [of ?n child d]
      by (simp add: initrd_child_from_name_def is_child_def directory_prefix_def dir x Let_def)
  next
    case False
    show ?thesis
    proof (cases "begins (dir @ [slash]) ?n")
      case True
      then obtain r where r: "?n = dir @ slash # r" by (auto simp: begins_iff)
      then have "drop (Suc (length dir)) ?n = r" by simp
      then show ?thesis using False True child_of_relative [of r child d]
        by (simp add: initrd_child_from_name_def is_child_def directory_prefix_def dir x below_directory_prefix r Let_def)
    next
      case no: False
      have "\<not> is_child directory name x"
        using no False by (auto simp: is_child_def directory_prefix_def dir x begins_iff)
      then show ?thesis using no False by (simp add: initrd_child_from_name_def dir below_directory_prefix)
    qed
  qed
qed

definition children :: "string list \<Rightarrow> string \<Rightarrow> (string \<times> bool) list" where
  "children names directory =
     List.map_filter (\<lambda>name. initrd_child_from_name directory name VFS_NAME_CAPACITY) names"

definition first_occurrences :: "'a list \<Rightarrow> 'a list" where
  "first_occurrences xs = rev (remdups (rev xs))"

lemma children_append [simp]: "children (xs @ ys) directory = children xs directory @ children ys directory"
  by (simp add: children_def map_filter_def)

lemma child_seen_iff:
  "initrd_child_seen names directory limit child d \<longleftrightarrow> (child, d) \<in> set (children (take limit names) directory)"
  by (force simp: initrd_child_seen_def children_def map_filter_def list_ex_iff)

lemma first_occurrences_snoc:
  "first_occurrences (xs @ [x]) = (if x \<in> set xs then first_occurrences xs else first_occurrences xs @ [x])"
  by (simp add: first_occurrences_def)

lemma first_occurrences_prefix: "\<exists>zs. first_occurrences (xs @ ys) = first_occurrences xs @ zs"
proof (induction ys rule: rev_induct)
  case (snoc y ys)
  then show ?case using first_occurrences_snoc [of "xs @ ys" y] by (auto split: if_splits)
qed simp

lemma first_occurrences_set [simp]: "set (first_occurrences xs) = set xs" "distinct (first_occurrences xs)"
  by (simp_all add: first_occurrences_def)

lemma children_take_Suc:
  "i < length names \<Longrightarrow> children (take (Suc i) names) directory = children (take i names) directory
     @ (case initrd_child_from_name directory (names ! i) 256 of None \<Rightarrow> [] | Some x \<Rightarrow> [x])"
  by (simp add: take_Suc_conv_app_nth) (simp add: children_def map_filter_def split: option.split)

lemma child_scan_nth:
  assumes "ordinal = length (first_occurrences (children (take i names) directory))" "ordinal \<le> wanted" "i \<le> length names"
  shows "initrd_child_scan names directory wanted 256 i ordinal =
    (let xs = first_occurrences (children names directory) in if wanted < length xs then Some (xs ! wanted) else None)"
  using assms
proof (induction "length names - i" arbitrary: i ordinal)
  case 0
  then show ?case by (subst initrd_child_scan.simps) (simp add: Let_def)
next
  case (Suc n)
  then have i: "i < length names" by simp
  let ?seen = "children (take i names) directory"
  note IH = Suc.hyps(1) [of "Suc i"]
  show ?case
  proof (cases "initrd_child_from_name directory (names ! i) 256")
    case None
    then show ?thesis using Suc IH i by (subst initrd_child_scan.simps) (simp add: children_take_Suc)
  next
    case (Some x)
    obtain c d where x: "x = (c, d)" by (cases x)
    have ch: "children (take (Suc i) names) directory = ?seen @ [x]" using Some i by (simp add: children_take_Suc)
    show ?thesis
    proof (cases "x \<in> set ?seen")
      case True
      then show ?thesis using Suc IH i Some x ch
        by (subst initrd_child_scan.simps) (simp add: child_seen_iff first_occurrences_snoc)
    next
      case False
      have "\<exists>zs. first_occurrences (children (take (Suc i) names @ drop (Suc i) names) directory)
          = first_occurrences (?seen @ [x]) @ zs"
        unfolding children_append ch by (rule first_occurrences_prefix)
      then obtain zs where all: "first_occurrences (children names directory) = first_occurrences ?seen @ x # zs"
        using False by (auto simp: first_occurrences_snoc)
      show ?thesis
      proof (cases "ordinal = wanted")
        case True
        then have "first_occurrences (children names directory) ! wanted = x" "wanted < length (first_occurrences (children names directory))"
          using Suc.prems(1) all by auto
        then show ?thesis using True i Some x False
          by (subst initrd_child_scan.simps) (simp add: child_seen_iff)
      next
        case neq: False
        then show ?thesis using Suc.prems Suc.hyps(2) IH [of "Suc ordinal"] i Some x ch False
          by (subst initrd_child_scan.simps) (simp add: child_seen_iff first_occurrences_snoc)
      qed
    qed
  qed
qed

lemma takeWhile_shorter: "x \<in> set xs \<Longrightarrow> \<not> P x \<Longrightarrow> length (takeWhile P xs) < length xs"
  by (induction xs) auto

lemma children_first:
  assumes "directory \<noteq> []" "hd directory = slash"
  shows "set (children names directory) = {x. \<exists>name \<in> set names. is_child directory name x}
    \<and> sorted_wrt (<) (map (first_name names directory) (first_occurrences (children names directory)))"
proof (induction names rule: rev_induct)
  case Nil
  then show ?case by (simp add: children_def first_occurrences_def map_filter_def)
next
  case (snoc name names)
  note IH = conjunct1 [OF snoc.IH] conjunct2 [OF snoc.IH]
  have one: "children [name] directory = (case initrd_child_from_name directory name 256 of None \<Rightarrow> [] | Some x \<Rightarrow> [x])"
    by (simp add: children_def map_filter_def split: option.split)
  have kept: "first_name (names @ [name]) directory x = first_name names directory x" "first_name names directory x < length names"
    if "x \<in> set (children names directory)" for x
  proof -
    have "\<exists>n \<in> set names. is_child directory n x" using that unfolding IH(1) by simp
    then obtain n where n: "n \<in> set names" "is_child directory n x" ..
    then show "first_name (names @ [name]) directory x = first_name names directory x"
      by (simp add: first_name_def)
    show "first_name names directory x < length names"
      using n takeWhile_shorter [of n names "\<lambda>n. \<not> is_child directory n x"] by (simp add: first_name_def)
  qed
  have same: "map (first_name (names @ [name]) directory) (first_occurrences (children names directory))
      = map (first_name names directory) (first_occurrences (children names directory))"
    by (rule map_cong [OF refl]) (simp add: kept)
  show ?case
  proof (cases "initrd_child_from_name directory name 256")
    case None
    then have "\<not> is_child directory name x" for x using initrd_child_iff [OF assms] by (metis option.distinct(1))
    then have "set (children (names @ [name]) directory) = {x. \<exists>n \<in> set (names @ [name]). is_child directory n x}"
      by (simp add: one None IH(1))
    moreover have "children (names @ [name]) directory = children names directory" by (simp add: one None)
    ultimately show ?thesis using IH(2) by (simp only: same simp_thms)
  next
    case (Some y)
    have y: "is_child directory name x \<longleftrightarrow> x = y" for x using initrd_child_iff [OF assms, of name x] Some by auto
    have new: "first_name (names @ [name]) directory y = length names" if "y \<notin> set (children names directory)"
    proof -
      have "\<forall>n \<in> set names. \<not> is_child directory n y" using that unfolding IH(1) by blast
      then have "takeWhile (\<lambda>n. \<not> is_child directory n y) (names @ [name]) = names"
        using y by (subst takeWhile_append2) auto
      then show ?thesis by (simp add: first_name_def)
    qed
    have "set (children (names @ [name]) directory) = {x. \<exists>n \<in> set (names @ [name]). is_child directory n x}"
      by (auto simp: one Some y IH(1))
    moreover have "sorted_wrt (<) (map (first_name (names @ [name]) directory)
        (first_occurrences (children names directory @ [y])))"
      unfolding first_occurrences_snoc using IH(2) new kept(2) by (auto simp: same sorted_wrt_append)
    ultimately show ?thesis by (simp add: one Some)
  qed
qed

text \<open>C11. Asking \<^verbatim>\<open>initrd_child_at\<close> for the positions 0, 1, 2, ... of a directory lists its children: there is
  a list of entries, and every position below its length gives the entry there and every other position
  nothing; the entries are the files and subdirectories that the names of the archive put into the directory, each
  of them once, in the order of the first name that has them.\<close>

theorem initrd_child_at_lists_children:
  assumes "directory \<noteq> []" "hd directory = slash"
  shows "\<exists>xs. (\<forall>i. initrd_child_at names directory i 256 = (if i < length xs then Some (xs ! i) else None))
     \<and> distinct xs \<and> set xs = {x. \<exists>name \<in> set names. is_child directory name x}
     \<and> sorted_wrt (<) (map (first_name names directory) xs)"
proof (intro exI conjI allI)
  let ?xs = "first_occurrences (children names directory)"
  fix i
  show "initrd_child_at names directory i 256 = (if i < length ?xs then Some (?xs ! i) else None)"
    unfolding initrd_child_at_def
    by (subst child_scan_nth) (simp_all add: children_def map_filter_def first_occurrences_def)
  show "distinct ?xs" "set ?xs = {x. \<exists>name \<in> set names. is_child directory name x}"
    "sorted_wrt (<) (map (first_name names directory) ?xs)"
    using children_first [OF assms, of names] by simp_all
qed

theorem initrd_child_at_lists_children_witness:
  "\<exists>xs. (\<forall>i. initrd_child_at [''bin/sh'', ''/bin/x/y'', ''README'', ''bin/x/z''] ''/bin'' i 256
             = (if i < length xs then Some (xs ! i) else None))
     \<and> distinct xs \<and> set xs = {(''sh'', False), (''x'', True)}"
proof -
  let ?names = "[''bin/sh'', ''/bin/x/y'', ''README'', ''bin/x/z'']"
  have c: "is_child ''/bin'' n x \<longleftrightarrow> initrd_child_from_name ''/bin'' n 256 = Some x" for n x
    by (rule initrd_child_iff [symmetric]) simp_all
  have "{x. \<exists>n \<in> set ?names. is_child ''/bin'' n x} = {(''sh'', False), (''x'', True)}"
    unfolding c by (auto simp: initrd_child_from_name_def strip_slash_def below_directory_def)
  moreover obtain xs where "\<forall>i. initrd_child_at ?names ''/bin'' i 256 = (if i < length xs then Some (xs ! i) else None)"
    "distinct xs" "set xs = {x. \<exists>n \<in> set ?names. is_child ''/bin'' n x}"
    using initrd_child_at_lists_children [of "''/bin''" ?names] by auto
  ultimately show ?thesis by auto
qed

end
