(* ===== verification/Npkfs.thy ===== *)
theory Npkfs
  imports Ata Bytes Vfs_Path
begin

text \<open>
  The persistent file system NPKFS, the \<^verbatim>\<open>persistent_*\<close> functions of \<^verbatim>\<open>src/fs/vfs.c\<close>: a table of 64
  inodes and a superblock, kept twice on the disk and updated by a fixed sequence of sector writes
  between two transaction markers.  On-disk records are byte lists with the layout of the C structures,
  so that checksums, torn writes and recovery are about the bytes themselves.
\<close>

abbreviation (input) PERSIST_MAGIC :: u32 where "PERSIST_MAGIC \<equiv> 0x4e504b46"
abbreviation (input) PERSIST_VERSION :: u32 where "PERSIST_VERSION \<equiv> 2"
abbreviation (input) PERSIST_MAX_FILES :: nat where "PERSIST_MAX_FILES \<equiv> 64"
abbreviation (input) PERSIST_NAME_CAPACITY :: nat where "PERSIST_NAME_CAPACITY \<equiv> 48"
abbreviation (input) PERSIST_DATA_SECTORS :: u32 where "PERSIST_DATA_SECTORS \<equiv> 128"
abbreviation (input) PERSIST_SUPER_PRIMARY :: u64 where "PERSIST_SUPER_PRIMARY \<equiv> 1"
abbreviation (input) PERSIST_INODE_PRIMARY :: u64 where "PERSIST_INODE_PRIMARY \<equiv> 2"
abbreviation (input) PERSIST_SUPER_BACKUP :: u64 where "PERSIST_SUPER_BACKUP \<equiv> 10"
abbreviation (input) PERSIST_TXN_SECTOR :: u64 where "PERSIST_TXN_SECTOR \<equiv> 11"
abbreviation (input) PERSIST_INODE_BACKUP :: u64 where "PERSIST_INODE_BACKUP \<equiv> 12"
abbreviation (input) PERSIST_INODE_SECTORS :: u32 where "PERSIST_INODE_SECTORS \<equiv> 8"
abbreviation (input) PERSIST_DATA_START :: u32 where "PERSIST_DATA_START \<equiv> 32"
abbreviation (input) PERSIST_FILE_BYTES :: nat where "PERSIST_FILE_BYTES \<equiv> 65536"
abbreviation (input) PERSIST_TXN_MAGIC :: u32 where "PERSIST_TXN_MAGIC \<equiv> 0x4e504b54"
abbreviation (input) PERSIST_TXN_PREPARE :: u32 where "PERSIST_TXN_PREPARE \<equiv> 1"
abbreviation (input) PERSIST_TXN_CLEAR :: u32 where "PERSIST_TXN_CLEAR \<equiv> 0"

record persistent_inode_disk =
  pi_used :: u8
  pi_reserved :: "u8 list"
  pi_size :: u32
  pi_start_sector :: u32
  pi_mode :: u32
  pi_name :: "u8 list"

record persistent_superblock =
  sb_magic :: u32
  sb_version :: u32
  sb_inode_count :: u32
  sb_data_start :: u32
  sb_next_sector :: u32
  sb_generation :: u32
  sb_inode_checksum :: u32
  sb_checksum :: u32
  sb_reserved :: "u8 list"

record persistent_txn =
  tx_magic :: u32
  tx_version :: u32
  tx_state :: u32
  tx_target_generation :: u32
  tx_inode_checksum :: u32
  tx_checksum :: u32
  tx_reserved :: "u8 list"

record npkfs_state = ata_state +
  persistent_super :: persistent_superblock
  persistent_inodes :: "persistent_inode_disk list"
  persistent_backup_inodes :: "persistent_inode_disk list"
  persistent_ready :: bool
  persistent_active_slot :: bool

subsection \<open>Layout\<close>

definition inode_bytes :: "persistent_inode_disk \<Rightarrow> u8 list" where
  "inode_bytes i = [pi_used i] @ pi_reserved i @ le32 (pi_size i) @ le32 (pi_start_sector i) @ le32 (pi_mode i) @ pi_name i"

definition inode_of_bytes :: "u8 list \<Rightarrow> persistent_inode_disk" where
  "inode_of_bytes bs = \<lparr>pi_used = bs ! 0, pi_reserved = field 1 3 bs, pi_size = of_le32 (field 4 4 bs),
     pi_start_sector = of_le32 (field 8 4 bs), pi_mode = of_le32 (field 12 4 bs), pi_name = field 16 48 bs\<rparr>"

definition zero_inode :: persistent_inode_disk where
  "zero_inode = \<lparr>pi_used = 0, pi_reserved = zeros 3, pi_size = 0, pi_start_sector = 0, pi_mode = 0, pi_name = zeros 48\<rparr>"

definition zero_inodes :: "persistent_inode_disk list" where
  "zero_inodes = replicate PERSIST_MAX_FILES zero_inode"

definition inodes_bytes :: "persistent_inode_disk list \<Rightarrow> u8 list" where
  "inodes_bytes is = concat (map inode_bytes is)"

definition inodes_of_bytes :: "u8 list \<Rightarrow> persistent_inode_disk list" where
  "inodes_of_bytes bs = map (\<lambda>i. inode_of_bytes (field (i * 64) 64 bs)) [0..<PERSIST_MAX_FILES]"

definition super_bytes :: "persistent_superblock \<Rightarrow> u8 list" where
  "super_bytes b = le32 (sb_magic b) @ le32 (sb_version b) @ le32 (sb_inode_count b) @ le32 (sb_data_start b)
     @ le32 (sb_next_sector b) @ le32 (sb_generation b) @ le32 (sb_inode_checksum b) @ le32 (sb_checksum b) @ sb_reserved b"

definition super_of_bytes :: "u8 list \<Rightarrow> persistent_superblock" where
  "super_of_bytes bs = \<lparr>sb_magic = of_le32 (field 0 4 bs), sb_version = of_le32 (field 4 4 bs),
     sb_inode_count = of_le32 (field 8 4 bs), sb_data_start = of_le32 (field 12 4 bs),
     sb_next_sector = of_le32 (field 16 4 bs), sb_generation = of_le32 (field 20 4 bs),
     sb_inode_checksum = of_le32 (field 24 4 bs), sb_checksum = of_le32 (field 28 4 bs), sb_reserved = field 32 480 bs\<rparr>"

definition zero_super :: persistent_superblock where
  "zero_super = \<lparr>sb_magic = 0, sb_version = 0, sb_inode_count = 0, sb_data_start = 0, sb_next_sector = 0,
     sb_generation = 0, sb_inode_checksum = 0, sb_checksum = 0, sb_reserved = zeros 480\<rparr>"

definition txn_bytes :: "persistent_txn \<Rightarrow> u8 list" where
  "txn_bytes t = le32 (tx_magic t) @ le32 (tx_version t) @ le32 (tx_state t) @ le32 (tx_target_generation t)
     @ le32 (tx_inode_checksum t) @ le32 (tx_checksum t) @ tx_reserved t"

definition txn_of_bytes :: "u8 list \<Rightarrow> persistent_txn" where
  "txn_of_bytes bs = \<lparr>tx_magic = of_le32 (field 0 4 bs), tx_version = of_le32 (field 4 4 bs),
     tx_state = of_le32 (field 8 4 bs), tx_target_generation = of_le32 (field 12 4 bs),
     tx_inode_checksum = of_le32 (field 16 4 bs), tx_checksum = of_le32 (field 20 4 bs), tx_reserved = field 24 488 bs\<rparr>"

definition zero_txn :: persistent_txn where
  "zero_txn = \<lparr>tx_magic = 0, tx_version = 0, tx_state = 0, tx_target_generation = 0, tx_inode_checksum = 0,
     tx_checksum = 0, tx_reserved = zeros 488\<rparr>"

subsection \<open>Checksums\<close>

definition crc_bit :: "u32 \<Rightarrow> u32" where
  "crc_bit crc = drop_bit 1 crc XOR (0xedb88320 AND (- (crc AND 1)))"

definition crc_byte :: "u8 \<Rightarrow> u32 \<Rightarrow> u32" where
  "crc_byte b crc = (crc_bit ^^ 8) (crc XOR ucast b)"

definition persistent_checksum_bytes :: "u8 list \<Rightarrow> u32" where
  "persistent_checksum_bytes data = NOT (fold crc_byte data 0xffffffff)"

definition persistent_inode_checksum :: "persistent_inode_disk list \<Rightarrow> u32" where
  "persistent_inode_checksum inodes = persistent_checksum_bytes (inodes_bytes inodes)"

definition persistent_super_checksum :: "persistent_superblock \<Rightarrow> u32" where
  "persistent_super_checksum super = persistent_checksum_bytes (super_bytes (super\<lparr>sb_checksum := 0\<rparr>))"

definition persistent_txn_checksum :: "persistent_txn \<Rightarrow> u32" where
  "persistent_txn_checksum txn = persistent_checksum_bytes (txn_bytes (txn\<lparr>tx_checksum := 0\<rparr>))"

subsection \<open>Writing the metadata\<close>

definition next_superblock :: "persistent_superblock \<Rightarrow> persistent_inode_disk list \<Rightarrow> persistent_superblock" where
  "next_superblock super inodes =
     (let next = super\<lparr>sb_generation := sb_generation super + 1,
                       sb_inode_count := of_nat (length (filter (\<lambda>i. pi_used i \<noteq> 0) inodes)),
                       sb_inode_checksum := persistent_inode_checksum inodes, sb_checksum := 0\<rparr>
      in next\<lparr>sb_checksum := persistent_super_checksum next\<rparr>)"

definition make_txn :: "u32 \<Rightarrow> u32 \<Rightarrow> u32 \<Rightarrow> persistent_txn" where
  "make_txn state generation inode_checksum =
     (let txn = zero_txn\<lparr>tx_magic := PERSIST_TXN_MAGIC, tx_version := PERSIST_VERSION, tx_state := state,
                         tx_target_generation := generation, tx_inode_checksum := inode_checksum\<rparr>
      in txn\<lparr>tx_checksum := persistent_txn_checksum txn\<rparr>)"

text \<open>The sector writes of one update, in the order of the code; the first that fails ends it.\<close>

definition metadata_writes ::
  "persistent_superblock \<Rightarrow> persistent_inode_disk list \<Rightarrow> (u64 \<times> u32 \<times> u8 list) list" where
  "metadata_writes next inodes =
     [(PERSIST_TXN_SECTOR, 1, txn_bytes (make_txn PERSIST_TXN_PREPARE (sb_generation next) (sb_inode_checksum next))),
      (PERSIST_INODE_BACKUP, PERSIST_INODE_SECTORS, inodes_bytes inodes),
      (PERSIST_SUPER_BACKUP, 1, super_bytes next),
      (PERSIST_INODE_PRIMARY, PERSIST_INODE_SECTORS, inodes_bytes inodes),
      (PERSIST_SUPER_PRIMARY, 1, super_bytes next),
      (PERSIST_TXN_SECTOR, 1, txn_bytes (make_txn PERSIST_TXN_CLEAR 0 0))]"

fun write_sequence :: "(u64 \<times> u32 \<times> u8 list) list \<Rightarrow> 'a ata_state_scheme \<Rightarrow> bool \<times> 'a ata_state_scheme" where
  "write_sequence [] s = (True, s)"
| "write_sequence ((lba, count, bytes) # ws) s =
     (case ata_write_sectors lba count bytes s of
        (Inl _, s) \<Rightarrow> (False, s)
      | (Inr _, s) \<Rightarrow> write_sequence ws s)"

definition persistent_write_metadata :: "'a npkfs_state_scheme \<Rightarrow> unit result \<times> 'a npkfs_state_scheme" where
  "persistent_write_metadata s =
     (if \<not> persistent_ready s then (Inl ENODEV, s)
      else if sb_next_sector (persistent_super s) < PERSIST_DATA_START then (Inl EIO, s)
      else if ucast (sb_next_sector (persistent_super s)) > ata_sectors (ata_primary_info s) then (Inl EIO, s)
      else if sb_generation (persistent_super s) = UINT32_MAX then (Inl EIO, s)
      else let next = next_superblock (persistent_super s) (persistent_inodes s)
        in case write_sequence (metadata_writes next (persistent_inodes s)) s of
             (False, s) \<Rightarrow> (Inl EIO, s)
           | (True, s) \<Rightarrow> (Inr (), s\<lparr>persistent_super := next, persistent_active_slot := False\<rparr>))"

subsection \<open>Validation and recovery\<close>

definition persistent_inode_valid :: "persistent_inode_disk \<Rightarrow> u64 \<Rightarrow> bool" where
  "persistent_inode_valid inode sectors \<longleftrightarrow>
     \<not> (pi_used inode = 0 \<or> pi_name inode ! 0 = 0 \<or> pi_name inode ! (PERSIST_NAME_CAPACITY - 1) \<noteq> 0
        \<or> unat (pi_size inode) > PERSIST_FILE_BYTES \<or> pi_start_sector inode < PERSIST_DATA_START
        \<or> ucast (pi_start_sector inode) > sectors
        \<or> ucast PERSIST_DATA_SECTORS > sectors - ucast (pi_start_sector inode))"

definition persistent_super_slot_valid ::
  "persistent_superblock \<Rightarrow> persistent_inode_disk list \<Rightarrow> u64 \<Rightarrow> bool" where
  "persistent_super_slot_valid super inodes sectors \<longleftrightarrow>
     \<not> (sb_magic super \<noteq> PERSIST_MAGIC \<or> sb_version super \<noteq> PERSIST_VERSION
        \<or> sb_data_start super \<noteq> PERSIST_DATA_START \<or> unat (sb_inode_count super) > PERSIST_MAX_FILES
        \<or> sb_next_sector super < PERSIST_DATA_START \<or> ucast (sb_next_sector super) > sectors
        \<or> sb_generation super = 0 \<or> sb_checksum super \<noteq> persistent_super_checksum super
        \<or> sb_inode_checksum super \<noteq> persistent_inode_checksum inodes)
     \<and> list_all (\<lambda>i. pi_used i \<noteq> 0 \<longrightarrow> persistent_inode_valid i sectors) inodes
     \<and> length (filter (\<lambda>i. pi_used i \<noteq> 0) inodes) = unat (sb_inode_count super)"

definition persistent_txn_valid :: "persistent_txn \<Rightarrow> bool" where
  "persistent_txn_valid txn \<longleftrightarrow>
     tx_magic txn = PERSIST_TXN_MAGIC \<and> tx_version txn = PERSIST_VERSION
     \<and> (tx_state txn = PERSIST_TXN_PREPARE \<or> tx_state txn = PERSIST_TXN_CLEAR)
     \<and> tx_checksum txn = persistent_txn_checksum txn"

definition persistent_format :: "'a npkfs_state_scheme \<Rightarrow> 'a npkfs_state_scheme" where
  "persistent_format s =
     (let super = zero_super\<lparr>sb_magic := PERSIST_MAGIC, sb_version := PERSIST_VERSION,
                             sb_data_start := PERSIST_DATA_START, sb_next_sector := PERSIST_DATA_START, sb_generation := 0\<rparr>
      in snd (persistent_write_metadata
           (s\<lparr>persistent_super := super, persistent_inodes := zero_inodes, persistent_backup_inodes := zero_inodes,
              persistent_ready := True, persistent_active_slot := False\<rparr>)))"

text \<open>One metadata slot: its superblock and, if that could be read, its inodes, into a buffer that holds
  \<open>old\<close>.\<close>

definition read_slot ::
  "u64 \<Rightarrow> u64 \<Rightarrow> persistent_inode_disk list \<Rightarrow> 'a ata_state_scheme
   \<Rightarrow> (bool \<times> persistent_superblock \<times> persistent_inode_disk list) \<times> 'a ata_state_scheme" where
  "read_slot super_sector inode_sector old s =
     (let ((r, bs), s) = ata_read_sectors super_sector 1 s;
          super = super_of_bytes (overlay bs (zeros 512))
      in case r of
           Inl _ \<Rightarrow> ((False, super, old), s)
         | Inr _ \<Rightarrow>
             let ((r, bs), s) = ata_read_sectors inode_sector PERSIST_INODE_SECTORS s
             in ((r = Inr (), super, inodes_of_bytes (overlay bs (inodes_bytes old))), s))"

definition persistent_select ::
  "bool \<Rightarrow> bool \<Rightarrow> persistent_superblock \<Rightarrow> persistent_superblock \<Rightarrow> 'a npkfs_state_scheme \<Rightarrow> 'a npkfs_state_scheme" where
  "persistent_select primary_valid backup_valid primary backup s =
     (if backup_valid \<and> (\<not> primary_valid \<or> sb_generation backup > sb_generation primary)
      then s\<lparr>persistent_super := backup, persistent_inodes := persistent_backup_inodes s, persistent_active_slot := True\<rparr>
      else s\<lparr>persistent_super := primary, persistent_active_slot := False\<rparr>)"

definition persistent_init :: "'a npkfs_state_scheme \<Rightarrow> 'a npkfs_state_scheme" where
  "persistent_init s =
     (let s = s\<lparr>persistent_ready := False, persistent_active_slot := False\<rparr>;
          device = ata_primary_info s
      in if \<not> ata_present device \<or> \<not> ata_writable device
            \<or> ata_sectors device < ucast (PERSIST_DATA_START + PERSIST_DATA_SECTORS) then s
         else
           let ((primary_read, primary, inodes), s) =
                 read_slot PERSIST_SUPER_PRIMARY PERSIST_INODE_PRIMARY (persistent_inodes s) s;
               s = s\<lparr>persistent_inodes := inodes\<rparr>;
               ((backup_read, backup, inodes), s) =
                 read_slot PERSIST_SUPER_BACKUP PERSIST_INODE_BACKUP (persistent_backup_inodes s) s;
               s = s\<lparr>persistent_backup_inodes := inodes\<rparr>;
               ((txn_read, bs), s) = ata_read_sectors PERSIST_TXN_SECTOR 1 s;
               txn = txn_of_bytes (overlay bs (zeros 512));
               primary_valid = (primary_read \<and>
                 persistent_super_slot_valid primary (persistent_inodes s) (ata_sectors device));
               backup_valid = (backup_read \<and>
                 persistent_super_slot_valid backup (persistent_backup_inodes s) (ata_sectors device))
           in if \<not> primary_valid \<and> \<not> backup_valid then persistent_format s
              else let s = (persistent_select primary_valid backup_valid primary backup s)\<lparr>persistent_ready := True\<rparr>
                in if txn_read = Inr () \<and> persistent_txn_valid txn \<and> tx_state txn = PERSIST_TXN_PREPARE
                   then snd (ata_write_sectors PERSIST_TXN_SECTOR 1 (txn_bytes (make_txn PERSIST_TXN_CLEAR 0 0)) s)
                   else s)"

subsection \<open>Files\<close>

definition persistent_extract_name :: "string \<Rightarrow> nat \<Rightarrow> string option" where
  "persistent_extract_name path capacity =
     (if capacity = 0 \<or> take 9 path \<noteq> ''/persist/'' then None
      else let source = drop 9 path
        in if source = [] \<or> length source \<ge> capacity \<or> slash \<in> set source then None else Some source)"

definition inode_name :: "persistent_inode_disk \<Rightarrow> string" where
  "inode_name i = cstring (pi_name i)"

definition persistent_find :: "string \<Rightarrow> 'a npkfs_state_scheme \<Rightarrow> nat option" where
  "persistent_find name s =
     find (\<lambda>i. pi_used (persistent_inodes s ! i) \<noteq> 0 \<and> inode_name (persistent_inodes s ! i) = name)
       [0..<length (persistent_inodes s)]"

definition set_inode :: "nat \<Rightarrow> persistent_inode_disk \<Rightarrow> 'a npkfs_state_scheme \<Rightarrow> 'a npkfs_state_scheme" where
  "set_inode i inode s = s\<lparr>persistent_inodes := (persistent_inodes s)[i := inode]\<rparr>"

definition fresh_inode :: "string \<Rightarrow> u32 \<Rightarrow> persistent_inode_disk" where
  "fresh_inode name start =
     zero_inode\<lparr>pi_used := 1, pi_size := 0, pi_start_sector := start, pi_mode := 0x81b6,
                pi_name := overlay (bytes_of name @ [0]) (zeros 48)\<rparr>"

definition persistent_create :: "string \<Rightarrow> 'a npkfs_state_scheme \<Rightarrow> nat option \<times> 'a npkfs_state_scheme" where
  "persistent_create name s =
     (let super = persistent_super s; sectors = ata_sectors (ata_primary_info s)
      in if \<not> persistent_ready s \<or> length name \<ge> PERSIST_NAME_CAPACITY
            \<or> unat (sb_inode_count super) \<ge> PERSIST_MAX_FILES then (None, s)
         else if ucast (sb_next_sector super) > sectors
            \<or> ucast PERSIST_DATA_SECTORS > sectors - ucast (sb_next_sector super) then (None, s)
         else case find (\<lambda>i. pi_used (persistent_inodes s ! i) = 0) [0..<length (persistent_inodes s)] of
           None \<Rightarrow> (None, s)
         | Some i \<Rightarrow>
             let start = sb_next_sector super;
                 s = set_inode i (fresh_inode name start) s;
                 s = s\<lparr>persistent_super := super\<lparr>sb_next_sector := start + PERSIST_DATA_SECTORS,
                                               sb_inode_count := sb_inode_count super + 1\<rparr>\<rparr>;
                 (r, s) = (case ata_write_sectors (ucast start) PERSIST_DATA_SECTORS (zeros PERSIST_FILE_BYTES) s of
                             (Inl e, s) \<Rightarrow> (Inl e, s)
                           | (Inr _, s) \<Rightarrow> persistent_write_metadata s)
             in case r of
                  Inr _ \<Rightarrow> (Some i, s)
                | Inl _ \<Rightarrow>
                    let s = set_inode i zero_inode s;
                        s = s\<lparr>persistent_super := (persistent_super s)
                                \<lparr>sb_inode_count := sb_inode_count (persistent_super s) - 1,
                                 sb_next_sector := sb_next_sector (persistent_super s) - PERSIST_DATA_SECTORS\<rparr>\<rparr>
                    in (None, snd (persistent_write_metadata s)))"

text \<open>\<^verbatim>\<open>persistent_sync_descriptor\<close>, on the descriptor's inode, size and buffer.\<close>

definition persistent_sync :: "nat \<Rightarrow> nat \<Rightarrow> u8 list \<Rightarrow> 'a npkfs_state_scheme \<Rightarrow> unit result \<times> 'a npkfs_state_scheme" where
  "persistent_sync i sz data s =
     (let s = set_inode i ((persistent_inodes s ! i)\<lparr>pi_size := of_nat sz\<rparr>) s
      in case ata_write_sectors (ucast (pi_start_sector (persistent_inodes s ! i))) PERSIST_DATA_SECTORS data s of
           (Inl _, s) \<Rightarrow> (Inl EIO, s)
         | (Inr _, s) \<Rightarrow> persistent_write_metadata s)"

end
