(* ===== verification/Vfs.thy ===== *)
theory Vfs
  imports Npkfs
begin

text \<open>
  The virtual file system, \<^verbatim>\<open>src/fs/vfs.c\<close>: the table of 64 archive files and 64 open descriptors, and
  the operations on them.  Objects on the kernel heap (pipes, epoll sets, shared memory objects) are
  typed stores indexed by the address \<open>kcalloc\<close> returned; the buffer of an open persistent file belongs
  to its one descriptor and is kept there, beside its heap address.  A result \<open>Inl e\<close> is the negative
  error number \<open>- e\<close> of the code; bytes the code stores through a buffer pointer are part of the result.
  What lies outside the component is an argument: the \<^verbatim>\<open>/proc\<close> snapshot of a path (\<^verbatim>\<open>procfs_snapshot\<close>, which
  looks at the process table) and whether the keyboard has data.
\<close>

abbreviation (input) MAX_INITRD_FILES :: nat where "MAX_INITRD_FILES \<equiv> 64"
abbreviation (input) OPEN_DESCRIPTOR_BASE :: nat where "OPEN_DESCRIPTOR_BASE \<equiv> 64"
abbreviation (input) OPEN_DESCRIPTOR_END :: nat where "OPEN_DESCRIPTOR_END \<equiv> 128"
abbreviation (input) PIPE_CAPACITY :: nat where "PIPE_CAPACITY \<equiv> 4096"
abbreviation (input) EPOLL_MAX_WATCHES :: nat where "EPOLL_MAX_WATCHES \<equiv> 32"
abbreviation (input) SHM_MAX_PAGES :: nat where "SHM_MAX_PAGES \<equiv> 256"
abbreviation (input) SIZE_MAX :: nat where "SIZE_MAX \<equiv> 0xffffffffffffffff"
abbreviation (input) sizeof_pipe :: u64 where "sizeof_pipe \<equiv> 4128"
abbreviation (input) sizeof_epoll :: u64 where "sizeof_epoll \<equiv> 768"
abbreviation (input) sizeof_shm :: u64 where "sizeof_shm \<equiv> 2064"

abbreviation (input) NPK_VFS_POLLIN :: u32 where "NPK_VFS_POLLIN \<equiv> 0x001"
abbreviation (input) NPK_VFS_POLLOUT :: u32 where "NPK_VFS_POLLOUT \<equiv> 0x004"
abbreviation (input) NPK_VFS_POLLERR :: u32 where "NPK_VFS_POLLERR \<equiv> 0x008"
abbreviation (input) NPK_VFS_POLLHUP :: u32 where "NPK_VFS_POLLHUP \<equiv> 0x010"
abbreviation (input) NPK_O_WRONLY :: u32 where "NPK_O_WRONLY \<equiv> 0x0001"
abbreviation (input) NPK_O_RDWR :: u32 where "NPK_O_RDWR \<equiv> 0x0002"
abbreviation (input) NPK_O_CREAT :: u32 where "NPK_O_CREAT \<equiv> 0x0040"
abbreviation (input) NPK_O_TRUNC :: u32 where "NPK_O_TRUNC \<equiv> 0x0200"
abbreviation (input) NPK_O_APPEND :: u32 where "NPK_O_APPEND \<equiv> 0x0400"

record pipe_object =
  pipe_buffer :: "u8 list"
  pipe_head :: nat
  pipe_tail :: nat
  pipe_count :: nat
  pipe_readers :: nat
  pipe_writers :: nat

record shm_object =
  shm_size :: nat
  shm_page_count :: nat
  shm_pages :: "paddr list"

record epoll_watch =
  watch_used :: bool
  watch_fd :: int
  watch_events :: u32
  watch_data :: u64

type_synonym epoll_object = "epoll_watch list"

text \<open>What \<^verbatim>\<open>file.data\<close> points to: nothing, immutable bytes (the archive, or the descriptor's own
  \<^verbatim>\<open>proc_buffer\<close>), or the buffer of the persistent file.\<close>

datatype file_data = NoData | ConstData "u8 list" | PersistData

record descriptor =
  file_name :: "string option"
  file_data :: file_data
  file_size :: nat
  fd_offset :: nat
  fd_refs :: nat
  fd_used :: bool
  fd_pseudo :: bool
  fd_directory :: bool
  fd_readable :: bool
  fd_writable :: bool
  fd_is_pipe :: bool
  fd_is_epoll :: bool
  fd_is_shm :: bool
  fd_initrd_directory :: bool
  fd_persistent :: bool
  fd_persistent_directory :: bool
  fd_persistent_inode :: "nat option"
  fd_persistent_data :: u64
  fd_persistent_bytes :: "u8 list"
  fd_pipe :: u64
  fd_epoll :: u64
  fd_shm :: u64

definition zero_descriptor :: descriptor where
  "zero_descriptor = \<lparr>file_name = None, file_data = NoData, file_size = 0, fd_offset = 0, fd_refs = 0,
     fd_used = False, fd_pseudo = False, fd_directory = False, fd_readable = False, fd_writable = False,
     fd_is_pipe = False, fd_is_epoll = False, fd_is_shm = False, fd_initrd_directory = False,
     fd_persistent = False, fd_persistent_directory = False, fd_persistent_inode = None,
     fd_persistent_data = 0, fd_persistent_bytes = [], fd_pipe = 0, fd_epoll = 0, fd_shm = 0\<rparr>"

definition zero_watch :: epoll_watch where
  "zero_watch = \<lparr>watch_used = False, watch_fd = 0, watch_events = 0, watch_data = 0\<rparr>"

record vfs_state = npkfs_state +
  files :: "nat \<Rightarrow> descriptor"
  file_count :: nat
  pipes :: "u64 \<Rightarrow> pipe_object"
  epolls :: "u64 \<Rightarrow> epoll_object"
  shms :: "u64 \<Rightarrow> shm_object"

definition set_file :: "nat \<Rightarrow> descriptor \<Rightarrow> 'a vfs_state_scheme \<Rightarrow> 'a vfs_state_scheme" where
  "set_file i d s = s\<lparr>files := (files s)(i := d)\<rparr>"

definition set_pipe :: "u64 \<Rightarrow> pipe_object \<Rightarrow> 'a vfs_state_scheme \<Rightarrow> 'a vfs_state_scheme" where
  "set_pipe a p s = s\<lparr>pipes := (pipes s)(a := p)\<rparr>"

definition set_epoll :: "u64 \<Rightarrow> epoll_object \<Rightarrow> 'a vfs_state_scheme \<Rightarrow> 'a vfs_state_scheme" where
  "set_epoll a e s = s\<lparr>epolls := (epolls s)(a := e)\<rparr>"

definition set_shm :: "u64 \<Rightarrow> shm_object \<Rightarrow> 'a vfs_state_scheme \<Rightarrow> 'a vfs_state_scheme" where
  "set_shm a e s = s\<lparr>shms := (shms s)(a := e)\<rparr>"

text \<open>The test every operation starts with: an open descriptor of the second half of the table.\<close>

definition fd_open :: "int \<Rightarrow> 'a vfs_state_scheme \<Rightarrow> bool" where
  "fd_open fd s \<longleftrightarrow>
     \<not> (fd < int OPEN_DESCRIPTOR_BASE \<or> fd \<ge> int OPEN_DESCRIPTOR_END \<or> \<not> fd_used (files s (nat fd)))"

definition the_file :: "int \<Rightarrow> 'a vfs_state_scheme \<Rightarrow> descriptor" where
  "the_file fd s = files s (nat fd)"

subsection \<open>The table\<close>

definition fresh_descriptor :: descriptor where
  "fresh_descriptor = zero_descriptor\<lparr>fd_used := True, fd_refs := 1\<rparr>"

definition allocate_descriptor :: "'a vfs_state_scheme \<Rightarrow> nat result \<times> 'a vfs_state_scheme" where
  "allocate_descriptor s =
     (case find (\<lambda>i. \<not> fd_used (files s i)) [OPEN_DESCRIPTOR_BASE..<OPEN_DESCRIPTOR_END] of
        None \<Rightarrow> (Inl EMFILE, s)
      | Some i \<Rightarrow> (Inr i, set_file i fresh_descriptor s))"

definition copy_name :: "nat \<Rightarrow> string \<Rightarrow> string option" where
  "copy_name capacity source = (if capacity = 0 \<or> length source + 1 > capacity then None else Some source)"

definition vfs_register_file :: "string \<Rightarrow> u8 list \<Rightarrow> 'a vfs_state_scheme \<Rightarrow> 'a vfs_state_scheme" where
  "vfs_register_file name data s =
     (if file_count s \<ge> MAX_INITRD_FILES then s
      else (set_file (file_count s)
              ((files s (file_count s))\<lparr>file_name := Some name, file_data := ConstData data,
                 file_size := length data, fd_used := True, fd_readable := True\<rparr>) s)
           \<lparr>file_count := file_count s + 1\<rparr>)"

definition initrd_names :: "'a vfs_state_scheme \<Rightarrow> string list" where
  "initrd_names s = map (\<lambda>i. case file_name (files s i) of None \<Rightarrow> [] | Some n \<Rightarrow> n) [0..<file_count s]"

subsection \<open>The initial archive\<close>

definition hex_digit :: "u8 \<Rightarrow> u32 option" where
  "hex_digit c =
     (if c \<ge> 0x30 \<and> c \<le> 0x39 then Some (ucast c - 0x30)
      else if c \<ge> 0x61 \<and> c \<le> 0x66 then Some (ucast c - 0x61 + 10)
      else if c \<ge> 0x41 \<and> c \<le> 0x46 then Some (ucast c - 0x41 + 10)
      else None)"

fun hex_loop :: "u8 list \<Rightarrow> u32 \<Rightarrow> u32" where
  "hex_loop [] v = v"
| "hex_loop (c # cs) v =
     (case hex_digit c of None \<Rightarrow> 0 | Some d \<Rightarrow> hex_loop cs (push_bit 4 v OR d))"

definition hex_field :: "u8 list \<Rightarrow> u32" where
  "hex_field cs = hex_loop cs 0"

definition vfs_add_overflow :: "nat \<Rightarrow> nat \<Rightarrow> bool" where
  "vfs_add_overflow a b \<longleftrightarrow> b > SIZE_MAX - a"

definition align4_checked :: "nat \<Rightarrow> nat option" where
  "align4_checked v = (if v > SIZE_MAX - 3 then None else Some ((v + 3) div 4 * 4))"

lemma align4_ge: "align4_checked v = Some w \<Longrightarrow> v \<le> w"
  by (auto simp: align4_checked_def split: if_splits)

function parse_newc :: "u8 list \<Rightarrow> nat \<Rightarrow> 'a vfs_state_scheme \<Rightarrow> 'a vfs_state_scheme" where
  "parse_newc archive offset s =
     (let sz = length archive
      in if \<not> (offset \<le> sz \<and> sz - offset \<ge> 110) then s
         else let header = drop offset archive
           in if take 6 header \<noteq> bytes_of ''070701'' then s
              else let mode = hex_field (field 14 8 header);
                       fsize = unat (hex_field (field 54 8 header));
                       name_size = unat (hex_field (field 94 8 header))
                in if name_size = 0 \<or> name_size > sz - offset - 110 then s
                   else let name_offset = offset + 110
                     in if vfs_add_overflow name_offset name_size then s
                        else case align4_checked (name_offset + name_size) of
                          None \<Rightarrow> s
                        | Some name_end \<Rightarrow>
                            if name_end > sz then s
                            else if take 10 (drop name_offset archive) = bytes_of ''TRAILER!!!'' then s
                            else if vfs_add_overflow name_end fsize then s
                            else case align4_checked (name_end + fsize) of
                              None \<Rightarrow> s
                            | Some data_end \<Rightarrow>
                                if data_end > sz then s
                                else parse_newc archive data_end
                                  (if mode AND 0xf000 = 0x8000 \<and> archive ! (name_offset + name_size - 1) = 0
                                   then vfs_register_file (cstring (drop name_offset archive))
                                          (field name_end fsize archive) s
                                   else s))"
  by pat_completeness auto

termination
proof (relation "measure (\<lambda>(archive, offset, s). length archive - offset)", goal_cases)
  case (2 archive offset s sz header mode fsize name_size name_offset name_end data_end)
  then show ?case using align4_ge [of "name_offset + name_size" name_end] align4_ge [of "name_end + fsize" data_end]
    by auto
qed simp

declare parse_newc.simps [simp del]

end
