(* ===== verification/Vfs_Ops.thy ===== *)
theory Vfs_Ops
  imports Vfs
begin

text \<open>
  The operations of \<^verbatim>\<open>src/fs/vfs.c\<close> on open descriptors: opening, shared memory, reading and writing,
  closing, polling, epoll sets, seeking, status and directory listing.
\<close>

subsection \<open>Synchronising and opening\<close>

definition persistent_sync_descriptor :: "nat \<Rightarrow> 'a vfs_state_scheme \<Rightarrow> unit result \<times> 'a vfs_state_scheme" where
  "persistent_sync_descriptor fd s =
     (let d = files s fd
      in case fd_persistent_inode d of
           None \<Rightarrow> (Inl EBADF, s)
         | Some i \<Rightarrow>
             if \<not> fd_persistent d \<or> fd_persistent_data d = 0 then (Inl EBADF, s)
             else persistent_sync i (file_size d) (fd_persistent_bytes d) s)"

text \<open>The modules the boot loader passed, as the list of their contents; the first one that is a
  \<^verbatim>\<open>newc\<close> archive is registered.\<close>

definition vfs_init :: "u8 list list \<Rightarrow> 'a vfs_state_scheme \<Rightarrow> 'a vfs_state_scheme" where
  "vfs_init modules s =
     (let s = s\<lparr>files := \<lambda>_. zero_descriptor, file_count := 0, persistent_super := zero_super,
                persistent_inodes := zero_inodes\<rparr>;
          s = persistent_init s
      in case find (\<lambda>m. length m \<ge> 6 \<and> take 6 m = bytes_of ''070701'') modules of
           None \<Rightarrow> s
         | Some m \<Rightarrow> parse_newc m 0 s)"

definition upd_file :: "nat \<Rightarrow> (descriptor \<Rightarrow> descriptor) \<Rightarrow> 'a vfs_state_scheme \<Rightarrow> 'a vfs_state_scheme" where
  "upd_file i f s = set_file i (f (files s i)) s"

definition open_persist_directory :: "'a vfs_state_scheme \<Rightarrow> nat result \<times> 'a vfs_state_scheme" where
  "open_persist_directory s =
     (case allocate_descriptor s of
        (Inl e, s) \<Rightarrow> (Inl e, s)
      | (Inr fd, s) \<Rightarrow>
          (case copy_name VFS_NAME_CAPACITY ''/persist'' of
             None \<Rightarrow> (Inl ENAMETOOLONG, set_file fd zero_descriptor s)
           | Some n \<Rightarrow> (Inr fd, upd_file fd (\<lambda>d. d\<lparr>fd_persistent_directory := True, fd_directory := True,
                                                fd_readable := True, file_name := Some n\<rparr>) s)))"

definition persistent_find_or_create ::
  "string \<Rightarrow> u32 \<Rightarrow> 'a npkfs_state_scheme \<Rightarrow> nat option \<times> 'a npkfs_state_scheme" where
  "persistent_find_or_create name flags s =
     (case persistent_find name s of
        Some i \<Rightarrow> (Some i, s)
      | None \<Rightarrow> if flags AND NPK_O_CREAT \<noteq> 0 then persistent_create name s else (None, s))"

definition open_persistent_load :: "nat \<Rightarrow> nat \<Rightarrow> 'a vfs_state_scheme \<Rightarrow> unit result \<times> 'a vfs_state_scheme" where
  "open_persistent_load i fd s =
     (let s = upd_file fd (\<lambda>d. d\<lparr>fd_persistent := True, fd_persistent_inode := Some i\<rparr>) s;
          (p, s) = kmalloc (of_nat PERSIST_FILE_BYTES) s
      in if p = 0 then (Inl EIO, set_file fd zero_descriptor s)
         else case ata_read_sectors (ucast (pi_start_sector (persistent_inodes s ! i))) PERSIST_DATA_SECTORS s of
           ((Inl _, _), s) \<Rightarrow> (Inl EIO, set_file fd zero_descriptor (kfree p s))
         | ((Inr _, bs), s) \<Rightarrow>
             (Inr (), upd_file fd (\<lambda>d. d\<lparr>fd_persistent_data := p, fd_persistent_bytes := bs,
                file_size := unat (pi_size (persistent_inodes s ! i)), file_data := PersistData\<rparr>) s))"

definition open_persistent :: "string \<Rightarrow> string \<Rightarrow> u32 \<Rightarrow> 'a vfs_state_scheme \<Rightarrow> nat result \<times> 'a vfs_state_scheme" where
  "open_persistent cpath name flags s =
     (let write_requested = (flags AND (NPK_O_WRONLY OR NPK_O_RDWR) \<noteq> 0)
      in if \<not> persistent_ready s then (Inl ENODEV, s)
         else case persistent_find_or_create name flags s of
           (None, s) \<Rightarrow> (Inl ENOENT, s)
         | (Some i, s) \<Rightarrow>
             if write_requested \<and> pi_mode (persistent_inodes s ! i) AND 0x80 = 0 then (Inl EACCES, s)
             else case allocate_descriptor s of
               (Inl e, s) \<Rightarrow> (Inl e, s)
             | (Inr fd, s) \<Rightarrow>
                 (case open_persistent_load i fd s of
                    (Inl e, s) \<Rightarrow> (Inl e, s)
                  | (Inr _, s) \<Rightarrow>
                      let s = upd_file fd (\<lambda>d. d\<lparr>fd_readable := (flags AND NPK_O_WRONLY = 0),
                                                fd_writable := write_requested\<rparr>) s;
                          (r, s) = (if flags AND NPK_O_TRUNC \<noteq> 0 \<and> write_requested
                                    then persistent_sync_descriptor fd
                                      (upd_file fd (\<lambda>d. d\<lparr>fd_persistent_bytes := zeros PERSIST_FILE_BYTES, file_size := 0\<rparr>) s)
                                    else (Inr (), s))
                      in case r of
                           Inl _ \<Rightarrow> (Inl EIO, set_file fd zero_descriptor (kfree (fd_persistent_data (files s fd)) s))
                         | Inr _ \<Rightarrow>
                             (Inr fd, upd_file fd (\<lambda>d. d\<lparr>fd_offset := (if flags AND NPK_O_APPEND \<noteq> 0 then file_size d else fd_offset d),
                                                        file_name := Some cpath\<rparr>) s)))"

definition procfs_is_path :: "string \<Rightarrow> bool" where
  "procfs_is_path path \<longleftrightarrow> take 6 path = ''/proc/'' \<or> path = ''/proc''"

definition open_procfs :: "(string \<Rightarrow> u8 list result) \<Rightarrow> string \<Rightarrow> 'a vfs_state_scheme \<Rightarrow> nat result \<times> 'a vfs_state_scheme" where
  "open_procfs snapshot cpath s =
     (case allocate_descriptor s of
        (Inl e, s) \<Rightarrow> (Inl e, s)
      | (Inr fd, s) \<Rightarrow>
          (case (snapshot cpath, copy_name VFS_NAME_CAPACITY cpath) of
             (Inl e, _) \<Rightarrow> (Inl e, set_file fd zero_descriptor s)
           | (Inr _, None) \<Rightarrow> (Inl ENAMETOOLONG, set_file fd zero_descriptor s)
           | (Inr bytes, Some n) \<Rightarrow>
               (Inr fd, upd_file fd (\<lambda>d. d\<lparr>file_name := Some n, file_data := ConstData bytes,
                                          file_size := length bytes, fd_pseudo := True, fd_readable := True\<rparr>) s)))"

definition open_directory :: "string \<Rightarrow> 'a vfs_state_scheme \<Rightarrow> nat result \<times> 'a vfs_state_scheme" where
  "open_directory cpath s =
     (case allocate_descriptor s of
        (Inl e, s) \<Rightarrow> (Inl e, s)
      | (Inr fd, s) \<Rightarrow>
          (case copy_name VFS_NAME_CAPACITY cpath of
             None \<Rightarrow> (Inl ENAMETOOLONG, set_file fd zero_descriptor s)
           | Some n \<Rightarrow> (Inr fd, upd_file fd (\<lambda>d. d\<lparr>fd_pseudo := (cpath = [slash]),
                          fd_initrd_directory := (cpath \<noteq> [slash]), fd_directory := True, fd_readable := True,
                          file_name := Some n\<rparr>) s)))"

definition open_initrd :: "string \<Rightarrow> 'a vfs_state_scheme \<Rightarrow> nat result \<times> 'a vfs_state_scheme" where
  "open_initrd cpath s =
     (case find (\<lambda>i. initrd_name_matches (initrd_names s ! i) cpath) [0..<file_count s] of
        None \<Rightarrow> (Inl ENOENT, s)
      | Some i \<Rightarrow>
          (case allocate_descriptor s of
             (Inl e, s) \<Rightarrow> (Inl e, s)
           | (Inr fd, s) \<Rightarrow>
               (Inr fd, upd_file fd (\<lambda>d. d\<lparr>file_name := file_name (files s i), file_data := file_data (files s i),
                                          file_size := file_size (files s i), fd_readable := True\<rparr>) s)))"

definition vfs_open_flags ::
  "(string \<Rightarrow> u8 list result) \<Rightarrow> string option \<Rightarrow> u32 \<Rightarrow> 'a vfs_state_scheme \<Rightarrow> nat result \<times> 'a vfs_state_scheme" where
  "vfs_open_flags snapshot path flags s =
     (case path of
        None \<Rightarrow> (Inl ENOENT, s)
      | Some path \<Rightarrow>
          (case canonicalize_path path VFS_NAME_CAPACITY of
             None \<Rightarrow> (Inl EINVAL, s)
           | Some cpath \<Rightarrow>
               let write_requested = (flags AND (NPK_O_WRONLY OR NPK_O_RDWR) \<noteq> 0)
               in if cpath = ''/persist'' then
                    if write_requested then (Inl EISDIR, s) else open_persist_directory s
                  else case persistent_extract_name cpath PERSIST_NAME_CAPACITY of
                    Some name \<Rightarrow> open_persistent cpath name flags s
                  | None \<Rightarrow>
                      if write_requested then (Inl EROFS, s)
                      else if procfs_is_path cpath then open_procfs snapshot cpath s
                      else if cpath = [slash] \<or> initrd_directory_exists (initrd_names s) cpath
                      then open_directory cpath s
                      else open_initrd cpath s))"

definition vfs_open :: "(string \<Rightarrow> u8 list result) \<Rightarrow> string option \<Rightarrow> 'a vfs_state_scheme \<Rightarrow> nat result \<times> 'a vfs_state_scheme" where
  "vfs_open snapshot path s = vfs_open_flags snapshot path 0 s"

subsection \<open>Shared memory\<close>

fun shm_alloc_pages :: "nat \<Rightarrow> paddr list \<Rightarrow> 'a vmm_state_scheme \<Rightarrow> (bool \<times> paddr list) \<times> 'a vmm_state_scheme" where
  "shm_alloc_pages 0 pages s = ((True, pages), s)"
| "shm_alloc_pages (Suc n) pages s =
     (let (p, s) = pmm_alloc_page s
      in if p = 0 then ((False, pages), fold pmm_free_page pages s)
         else shm_alloc_pages n (pages @ [p]) (memset_page p s))"

definition vfs_shm_create :: "nat \<Rightarrow> 'a vfs_state_scheme \<Rightarrow> nat result \<times> 'a vfs_state_scheme" where
  "vfs_shm_create sz s =
     (if sz = 0 \<or> sz > SHM_MAX_PAGES * 4096 \<or> sz > SIZE_MAX - 4095 then (Inl EINVAL, s)
      else let page_count = (sz + 4096 - 1) div 4096
        in if page_count = 0 \<or> page_count > SHM_MAX_PAGES then (Inl EINVAL, s)
           else case allocate_descriptor s of
             (Inl e, s) \<Rightarrow> (Inl e, s)
           | (Inr fd, s) \<Rightarrow>
               let (a, s) = kcalloc 1 sizeof_shm s
               in if a = 0 then (Inl ENOMEM, set_file fd zero_descriptor s)
                  else case shm_alloc_pages page_count [] s of
                    ((False, _), s) \<Rightarrow> (Inl ENOMEM, set_file fd zero_descriptor (kfree a s))
                  | ((True, pages), s) \<Rightarrow>
                      (Inr fd, upd_file fd (\<lambda>d. d\<lparr>fd_is_shm := True, fd_readable := True, fd_writable := True,
                                                 file_name := Some ''npk-shm'', file_size := sz, fd_shm := a\<rparr>)
                         (set_shm a \<lparr>shm_size = sz, shm_page_count = page_count, shm_pages = pages\<rparr> s)))"

definition vfs_is_shared_memory :: "int \<Rightarrow> 'a vfs_state_scheme \<Rightarrow> bool" where
  "vfs_is_shared_memory fd s \<longleftrightarrow> fd_open fd s \<and> fd_is_shm (the_file fd s) \<and> fd_shm (the_file fd s) \<noteq> 0"

definition vfs_shm_page :: "int \<Rightarrow> nat \<Rightarrow> 'a vfs_state_scheme \<Rightarrow> paddr" where
  "vfs_shm_page fd page_index s =
     (let o' = shms s (fd_shm (the_file fd s))
      in if \<not> vfs_is_shared_memory fd s \<or> page_index \<ge> shm_page_count o' then 0 else shm_pages o' ! page_index)"

definition vfs_shm_page_count :: "int \<Rightarrow> 'a vfs_state_scheme \<Rightarrow> nat" where
  "vfs_shm_page_count fd s =
     (if vfs_is_shared_memory fd s then shm_page_count (shms s (fd_shm (the_file fd s))) else 0)"

subsection \<open>References\<close>

definition vfs_retain :: "int \<Rightarrow> 'a vfs_state_scheme \<Rightarrow> unit result \<times> 'a vfs_state_scheme" where
  "vfs_retain fd s =
     (if fd = 0 \<or> fd = 1 \<or> fd = 2 then (Inr (), s)
      else if \<not> fd_open fd s \<or> fd_refs (the_file fd s) = unat UINT32_MAX then (Inl EBADF, s)
      else let d = the_file fd s;
               s = set_file (nat fd) (d\<lparr>fd_refs := fd_refs d + 1\<rparr>) s
        in if fd_is_pipe d \<and> fd_pipe d \<noteq> 0
           then let p = pipes s (fd_pipe d)
             in (Inr (), set_pipe (fd_pipe d)
                   (p\<lparr>pipe_readers := pipe_readers p + (if fd_readable d then 1 else 0),
                      pipe_writers := pipe_writers p + (if fd_writable d then 1 else 0)\<rparr>) s)
           else (Inr (), s))"

subsection \<open>Reading and writing\<close>

text \<open>The bytes \<^verbatim>\<open>file.data\<close> points to.\<close>

definition file_bytes :: "descriptor \<Rightarrow> u8 list" where
  "file_bytes d = (case file_data d of NoData \<Rightarrow> [] | ConstData bs \<Rightarrow> bs | PersistData \<Rightarrow> fd_persistent_bytes d)"

fun pipe_take :: "nat \<Rightarrow> pipe_object \<Rightarrow> u8 list \<times> pipe_object" where
  "pipe_take 0 p = ([], p)"
| "pipe_take (Suc n) p =
     (let b = pipe_buffer p ! pipe_head p;
          (bs, p) = pipe_take n (p\<lparr>pipe_head := (pipe_head p + 1) mod PIPE_CAPACITY\<rparr>)
      in (b # bs, p))"

fun pipe_put :: "u8 list \<Rightarrow> pipe_object \<Rightarrow> pipe_object" where
  "pipe_put [] p = p"
| "pipe_put (b # bs) p =
     pipe_put bs (p\<lparr>pipe_buffer := (pipe_buffer p)[pipe_tail p := b],
                    pipe_tail := (pipe_tail p + 1) mod PIPE_CAPACITY\<rparr>)"

definition vfs_read :: "int \<Rightarrow> bool \<Rightarrow> nat \<Rightarrow> 'a vfs_state_scheme \<Rightarrow> u8 list result \<times> 'a vfs_state_scheme" where
  "vfs_read fd buffer count s =
     (let d = the_file fd s
      in if \<not> fd_open fd s \<or> \<not> fd_readable d then (Inl EBADF, s)
         else if count = 0 then (Inr [], s)
         else if \<not> buffer then (Inl EFAULT, s)
         else if fd_is_pipe d then
           (let p = pipes s (fd_pipe d)
            in if fd_pipe d = 0 then (Inr [], s)
               else if pipe_count p = 0 then (if pipe_writers p \<noteq> 0 then Inl EAGAIN else Inr [], s)
               else let amount = min count (pipe_count p);
                        (bs, q) = pipe_take amount p
                 in (Inr bs, set_pipe (fd_pipe d) (q\<lparr>pipe_count := pipe_count q - amount\<rparr>) s))
         else if fd_directory d then (Inl EISDIR, s)
         else if fd_is_shm d then (Inl EINVAL, s)
         else if fd_offset d \<ge> file_size d then (Inr [], s)
         else let amount = min count (file_size d - fd_offset d)
           in (Inr (field (fd_offset d) amount (file_bytes d)),
               set_file (nat fd) (d\<lparr>fd_offset := fd_offset d + amount\<rparr>) s))"

definition vfs_read_at :: "int \<Rightarrow> bool \<Rightarrow> nat \<Rightarrow> nat \<Rightarrow> 'a vfs_state_scheme \<Rightarrow> u8 list result" where
  "vfs_read_at fd buffer count offset s =
     (let d = the_file fd s
      in if \<not> fd_open fd s \<or> \<not> fd_readable d \<or> fd_is_pipe d \<or> fd_is_shm d \<or> fd_directory d then Inl EBADF
         else if count = 0 then Inr []
         else if \<not> buffer \<or> offset > file_size d then Inl EFAULT
         else Inr (field offset (min count (file_size d - offset)) (file_bytes d)))"

definition vfs_file_backed :: "int \<Rightarrow> 'a vfs_state_scheme \<Rightarrow> bool" where
  "vfs_file_backed fd s \<longleftrightarrow>
     (let d = the_file fd s
      in \<not> (\<not> fd_open fd s \<or> fd_pseudo d \<or> fd_persistent d \<or> fd_is_pipe d \<or> fd_is_epoll d \<or> fd_directory d
            \<or> \<not> fd_readable d \<or> fd_writable d)
         \<and> (file_data d \<noteq> NoData \<or> file_size d = 0))"

definition write_persistent :: "nat \<Rightarrow> u8 list \<Rightarrow> 'a vfs_state_scheme \<Rightarrow> nat result \<times> 'a vfs_state_scheme" where
  "write_persistent fd bytes s =
     (let d = files s fd
      in if fd_persistent_inode d = None \<or> fd_persistent_data d = 0 then (Inl EIO, s)
         else if fd_offset d > PERSIST_FILE_BYTES then (Inl EFBIG, s)
         else let amount = min (length bytes) (PERSIST_FILE_BYTES - fd_offset d)
           in if amount = 0 then (Inl EFBIG, s)
              else
                let offset = fd_offset d + amount;
                    s = set_file fd (d\<lparr>fd_persistent_bytes := overlay_at (fd_offset d) (take amount bytes) (fd_persistent_bytes d),
                                       fd_offset := offset, file_size := max offset (file_size d)\<rparr>) s
                in case persistent_sync_descriptor fd s of
                     (Inr _, s) \<Rightarrow> (Inr amount, s)
                   | (Inl _, s) \<Rightarrow>
                       let ((_, bs), s) = ata_read_sectors
                             (ucast (pi_start_sector (persistent_inodes s ! the (fd_persistent_inode d)))) PERSIST_DATA_SECTORS s
                       in (Inl EIO, upd_file fd (\<lambda>e. e\<lparr>fd_persistent_bytes := overlay bs (fd_persistent_bytes e),
                             file_size := file_size d, fd_offset := min offset (file_size d)\<rparr>) s))"

definition vfs_write :: "int \<Rightarrow> u8 list option \<Rightarrow> nat \<Rightarrow> 'a vfs_state_scheme \<Rightarrow> nat result \<times> 'a vfs_state_scheme" where
  "vfs_write fd buffer count s =
     (let d = the_file fd s
      in if \<not> fd_open fd s \<or> \<not> fd_writable d then (Inl EBADF, s)
         else if count = 0 then (Inr 0, s)
         else case buffer of
           None \<Rightarrow> (Inl EFAULT, s)
         | Some bytes \<Rightarrow>
             if fd_is_shm d then (Inl EINVAL, s)
             else if fd_persistent d then write_persistent (nat fd) (take count bytes) s
             else if \<not> fd_is_pipe d \<or> fd_pipe d = 0 then (Inl EBADF, s)
             else let p = pipes s (fd_pipe d); available = PIPE_CAPACITY - pipe_count p
               in if pipe_readers p = 0 then (Inl EPIPE, s)
                  else if available = 0 then (Inl EAGAIN, s)
                  else let amount = min count available;
                           q = pipe_put (take amount bytes) p
                    in (Inr amount, set_pipe (fd_pipe d) (q\<lparr>pipe_count := pipe_count q + amount\<rparr>) s))"

subsection \<open>Closing\<close>

definition pipe_release :: "descriptor \<Rightarrow> 'a vfs_state_scheme \<Rightarrow> 'a vfs_state_scheme" where
  "pipe_release d s =
     (if fd_is_pipe d \<and> fd_pipe d \<noteq> 0
      then let p = pipes s (fd_pipe d)
        in set_pipe (fd_pipe d)
             (p\<lparr>pipe_readers := pipe_readers p - (if fd_readable d then 1 else 0),
                pipe_writers := pipe_writers p - (if fd_writable d then 1 else 0)\<rparr>) s
      else s)"

definition close_shm :: "nat \<Rightarrow> 'a vfs_state_scheme \<Rightarrow> 'a vfs_state_scheme" where
  "close_shm fd s =
     (let d = files s fd; o' = shms s (fd_shm d)
      in if fd_is_shm d \<and> fd_shm d \<noteq> 0
         then upd_file fd (\<lambda>d. d\<lparr>fd_shm := 0\<rparr>)
                (kfree (fd_shm d)
                  (fold pmm_free_page (filter (\<lambda>p. p \<noteq> 0) (take (shm_page_count o') (shm_pages o'))) s))
         else s)"

definition close_persistent :: "nat \<Rightarrow> 'a vfs_state_scheme \<Rightarrow> 'a vfs_state_scheme" where
  "close_persistent fd s =
     (let d = files s fd
      in if fd_persistent d \<and> fd_persistent_data d \<noteq> 0
         then kfree (fd_persistent_data d) (snd (persistent_sync_descriptor fd s))
         else s)"

text \<open>\<^verbatim>\<open>vfs_close\<close> of the last reference to an epoll set closes the descriptors it watches, and so on;
  \<open>close\<close> is the recursive call.  The set being closed keeps its slot with no references until its
  watches are closed, so each level of the recursion is a different descriptor.  The model allows 64
  levels and sets the ghost field \<open>hung\<close> when the recursion goes deeper; \<open>vfs_close_returns\<close> (theory
  \<open>Vfs_Props\<close>) shows that it never does.\<close>

definition close_watch ::
  "(int \<Rightarrow> 'a vfs_state_scheme \<Rightarrow> 'a vfs_state_scheme) \<Rightarrow> nat \<Rightarrow> nat \<Rightarrow> 'a vfs_state_scheme \<Rightarrow> 'a vfs_state_scheme" where
  "close_watch close i n s =
     (let a = fd_epoll (files s i); w = epolls s a ! n
      in if watch_used w
         then let s = close (watch_fd w) s in set_epoll a ((epolls s a)[n := zero_watch]) s
         else s)"

definition close_epoll ::
  "(int \<Rightarrow> 'a vfs_state_scheme \<Rightarrow> 'a vfs_state_scheme) \<Rightarrow> nat \<Rightarrow> 'a vfs_state_scheme \<Rightarrow> 'a vfs_state_scheme" where
  "close_epoll close i s =
     (if fd_is_epoll (files s i) \<and> fd_epoll (files s i) \<noteq> 0
      then let s = fold (close_watch close i) [0..<EPOLL_MAX_WATCHES] s
        in upd_file i (\<lambda>d. d\<lparr>fd_epoll := 0\<rparr>) (kfree (fd_epoll (files s i)) s)
      else s)"

definition close_step ::
  "(int \<Rightarrow> 'a vfs_state_scheme \<Rightarrow> 'a vfs_state_scheme) \<Rightarrow> int \<Rightarrow> 'a vfs_state_scheme \<Rightarrow> unit result \<times> 'a vfs_state_scheme" where
  "close_step close fd s =
     (if fd = 0 \<or> fd = 1 \<or> fd = 2 then (Inr (), s)
      else if \<not> fd_open fd s \<or> fd_refs (the_file fd s) = 0 then (Inl EBADF, s)
      else
        let i = nat fd;
            s = pipe_release (files s i) s;
            s = upd_file i (\<lambda>d. d\<lparr>fd_refs := fd_refs d - 1\<rparr>) s
        in if fd_refs (files s i) \<noteq> 0 then (Inr (), s)
           else
             let s = close_epoll close i s;
                 p = fd_pipe (files s i);
                 s = set_file i zero_descriptor (close_persistent i (close_shm i s))
             in (Inr (), if p \<noteq> 0 \<and> pipe_readers (pipes s p) = 0 \<and> pipe_writers (pipes s p) = 0 then kfree p s else s))"

primrec vfs_close_at :: "nat \<Rightarrow> int \<Rightarrow> 'a vfs_state_scheme \<Rightarrow> unit result \<times> 'a vfs_state_scheme" where
  "vfs_close_at 0 = close_step (\<lambda>fd s. s\<lparr>hung := True\<rparr>)"
| "vfs_close_at (Suc level) = close_step (\<lambda>fd s. snd (vfs_close_at level fd s))"

definition vfs_close :: "int \<Rightarrow> 'a vfs_state_scheme \<Rightarrow> unit result \<times> 'a vfs_state_scheme" where
  "vfs_close fd s = vfs_close_at 64 fd s"

subsection \<open>Polling\<close>

text \<open>Epoll sets may watch each other, and then \<^verbatim>\<open>vfs_poll_events\<close> recurses without end: the model runs it
  with a bound on the levels of recursion, the argument \<open>level\<close>, and is \<open>None\<close> when the bound is not enough.\<close>

definition pipe_ready :: "descriptor \<Rightarrow> pipe_object \<Rightarrow> u32" where
  "pipe_ready d p =
     (if fd_readable d \<and> (pipe_count p \<noteq> 0 \<or> pipe_writers p = 0)
      then (if pipe_count p \<noteq> 0 then NPK_VFS_POLLIN else NPK_VFS_POLLHUP) else 0) OR
     (if fd_writable d \<and> pipe_readers p = 0 then NPK_VFS_POLLERR OR NPK_VFS_POLLHUP
      else if fd_writable d \<and> pipe_count p < PIPE_CAPACITY then NPK_VFS_POLLOUT else 0)"

fun epoll_ready :: "(int \<Rightarrow> u32 \<Rightarrow> u32 option) \<Rightarrow> epoll_watch list \<Rightarrow> u32 option" where
  "epoll_ready poll [] = Some 0"
| "epoll_ready poll (w # ws) =
     (if watch_used w
      then case poll (watch_fd w) (watch_events w) of
          None \<Rightarrow> None
        | Some r \<Rightarrow> if r \<noteq> 0 then Some NPK_VFS_POLLIN else epoll_ready poll ws
      else epoll_ready poll ws)"

definition poll_step ::
  "(int \<Rightarrow> u32 \<Rightarrow> u32 option) \<Rightarrow> bool \<Rightarrow> int \<Rightarrow> u32 \<Rightarrow> 'a vfs_state_scheme \<Rightarrow> u32 option" where
  "poll_step poll keyboard_has_data fd requested s =
     (if fd = 1 \<or> fd = 2 then Some (requested AND NPK_VFS_POLLOUT)
      else if fd = 0 then Some (if keyboard_has_data then requested AND NPK_VFS_POLLIN else 0)
      else if \<not> fd_open fd s then Some NPK_VFS_POLLERR
      else let d = the_file fd s;
               ready = (if fd_is_pipe d \<and> fd_pipe d \<noteq> 0 then Some (pipe_ready d (pipes s (fd_pipe d)))
                        else if fd_is_epoll d \<and> fd_epoll d \<noteq> 0 then epoll_ready poll (epolls s (fd_epoll d))
                        else if fd_is_shm d then Some 0
                        else Some ((if fd_readable d then NPK_VFS_POLLIN else 0) OR
                                   (if fd_writable d then NPK_VFS_POLLOUT else 0)))
        in map_option (\<lambda>r. r AND (requested OR NPK_VFS_POLLERR OR NPK_VFS_POLLHUP)) ready)"

primrec vfs_poll_events :: "nat \<Rightarrow> bool \<Rightarrow> int \<Rightarrow> u32 \<Rightarrow> 'a vfs_state_scheme \<Rightarrow> u32 option" where
  "vfs_poll_events 0 kbd fd requested s = None"
| "vfs_poll_events (Suc level) kbd fd requested s =
     poll_step (\<lambda>fd events. vfs_poll_events level kbd fd events s) kbd fd requested s"

definition vfs_epoll_create :: "'a vfs_state_scheme \<Rightarrow> nat result \<times> 'a vfs_state_scheme" where
  "vfs_epoll_create s =
     (case allocate_descriptor s of
        (Inl e, s) \<Rightarrow> (Inl e, s)
      | (Inr fd, s) \<Rightarrow>
          let (a, s) = kcalloc 1 sizeof_epoll s
          in if a = 0 then (Inl ENOMEM, set_file fd zero_descriptor s)
             else (Inr fd, upd_file fd (\<lambda>d. d\<lparr>fd_is_epoll := True, fd_epoll := a, file_name := Some ''epoll''\<rparr>)
                             (set_epoll a (replicate EPOLL_MAX_WATCHES zero_watch) s)))"

text \<open>The last slot that watches \<open>fd\<close> (\<^verbatim>\<open>found\<close>) and the first free one (\<^verbatim>\<open>free_slot\<close>).\<close>

definition find_watch :: "int \<Rightarrow> epoll_watch list \<Rightarrow> nat option" where
  "find_watch fd ws = find (\<lambda>i. watch_used (ws ! i) \<and> watch_fd (ws ! i) = fd) (rev [0..<EPOLL_MAX_WATCHES])"

definition free_watch :: "epoll_watch list \<Rightarrow> nat option" where
  "free_watch ws = find (\<lambda>i. \<not> watch_used (ws ! i)) [0..<EPOLL_MAX_WATCHES]"

definition vfs_epoll_ctl :: "int \<Rightarrow> int \<Rightarrow> int \<Rightarrow> u32 \<Rightarrow> u64 \<Rightarrow> 'a vfs_state_scheme \<Rightarrow> unit result \<times> 'a vfs_state_scheme" where
  "vfs_epoll_ctl epfd operation fd events data s =
     (let ep = the_file epfd s; a = fd_epoll ep; ws = epolls s a; found = find_watch fd ws
      in if \<not> fd_open epfd s \<or> \<not> fd_is_epoll ep \<or> a = 0 \<or> fd < 0
            \<or> (fd \<ge> int OPEN_DESCRIPTOR_END \<and> fd \<noteq> 1 \<and> fd \<noteq> 2) \<or> fd = epfd then (Inl EBADF, s)
         else if fd \<ge> int OPEN_DESCRIPTOR_BASE \<and> \<not> fd_used (the_file fd s) then (Inl EBADF, s)
         else if operation = 1 then
           (case (found, free_watch ws) of
              (Some _, _) \<Rightarrow> (Inl EEXIST, s)
            | (None, None) \<Rightarrow> (Inl ENOSPC, s)
            | (None, Some i) \<Rightarrow>
                (case vfs_retain fd s of
                   (Inl _, s) \<Rightarrow> (Inl ENOSPC, s)
                 | (Inr _, s) \<Rightarrow>
                     (Inr (), set_epoll a (ws[i := \<lparr>watch_used = True, watch_fd = fd, watch_events = events, watch_data = data\<rparr>]) s)))
         else if operation = 2 then
           (case found of
              None \<Rightarrow> (Inl ENOENT, s)
            | Some i \<Rightarrow>
                let s = snd (vfs_close (watch_fd (ws ! i)) s)
                in (Inr (), set_epoll a ((epolls s a)[i := zero_watch]) s))
         else if operation = 3 then
           (case found of
              None \<Rightarrow> (Inl ENOENT, s)
            | Some i \<Rightarrow>
                (Inr (), set_epoll a (ws[i := (ws ! i)\<lparr>watch_events := events, watch_data := data\<rparr>]) s))
         else (Inl EINVAL, s))"

fun epoll_collect :: "(int \<Rightarrow> u32 \<Rightarrow> u32 option) \<Rightarrow> nat \<Rightarrow> epoll_watch list \<Rightarrow> (u64 \<times> u32) list option" where
  "epoll_collect poll capacity [] = Some []"
| "epoll_collect poll capacity (w # ws) =
     (if capacity = 0 then Some []
      else if \<not> watch_used w then epoll_collect poll capacity ws
      else case poll (watch_fd w) (watch_events w) of
          None \<Rightarrow> None
        | Some r \<Rightarrow> if r = 0 then epoll_collect poll capacity ws
                    else map_option ((#) (watch_data w, r)) (epoll_collect poll (capacity - 1) ws))"

definition vfs_epoll_wait :: "nat \<Rightarrow> bool \<Rightarrow> int \<Rightarrow> bool \<Rightarrow> nat \<Rightarrow> 'a vfs_state_scheme \<Rightarrow> (u64 \<times> u32) list result option" where
  "vfs_epoll_wait level kbd epfd events capacity s =
     (let ep = the_file epfd s
      in if \<not> fd_open epfd s \<or> \<not> fd_is_epoll ep \<or> fd_epoll ep = 0 then Some (Inl EBADF)
         else if \<not> events \<or> capacity = 0 then Some (Inr [])
         else map_option Inr
                (epoll_collect (\<lambda>fd evs. vfs_poll_events level kbd fd evs s) capacity (epolls s (fd_epoll ep))))"

subsection \<open>Synchronisation, position and status\<close>

definition vfs_sync_fd :: "int \<Rightarrow> 'a vfs_state_scheme \<Rightarrow> unit result \<times> 'a vfs_state_scheme" where
  "vfs_sync_fd fd s =
     (if \<not> fd_open fd s then (Inl EBADF, s)
      else if fd_persistent (the_file fd s) then persistent_sync_descriptor (nat fd) s else (Inr (), s))"

fun sync_all_loop :: "nat list \<Rightarrow> unit result \<Rightarrow> 'a vfs_state_scheme \<Rightarrow> unit result \<times> 'a vfs_state_scheme" where
  "sync_all_loop [] result s = (result, s)"
| "sync_all_loop (i # is) result s =
     (if \<not> fd_used (files s i) \<or> \<not> fd_persistent (files s i) then sync_all_loop is result s
      else let (status, s) = persistent_sync_descriptor i s
        in sync_all_loop is (if result = Inr () then status else result) s)"

definition vfs_sync_all :: "'a vfs_state_scheme \<Rightarrow> unit result \<times> 'a vfs_state_scheme" where
  "vfs_sync_all s = sync_all_loop [OPEN_DESCRIPTOR_BASE..<OPEN_DESCRIPTOR_END] (Inr ()) s"

definition vfs_size :: "int \<Rightarrow> 'a vfs_state_scheme \<Rightarrow> int result" where
  "vfs_size fd s =
     (let d = the_file fd s
      in if \<not> fd_open fd s then Inl EBADF
         else if fd_is_pipe d then Inr (int (pipe_count (pipes s (fd_pipe d))))
         else if fd_directory d then Inr 0 else Inr (sint (of_nat (file_size d) :: u64)))"

abbreviation (input) INT64_MAX :: int where "INT64_MAX \<equiv> 0x7fffffffffffffff"
abbreviation (input) INT64_MIN :: int where "INT64_MIN \<equiv> - 0x8000000000000000"

definition vfs_seek :: "int \<Rightarrow> int \<Rightarrow> int \<Rightarrow> 'a vfs_state_scheme \<Rightarrow> int result \<times> 'a vfs_state_scheme" where
  "vfs_seek fd offset whence s =
     (let d = the_file fd s
      in if \<not> fd_open fd s then (Inl EBADF, s)
         else if fd_directory d \<or> fd_is_pipe d \<or> fd_is_shm d then (Inl ESPIPE, s)
         else let base = (if whence = 0 then 0 else if whence = 1 then sint (of_nat (fd_offset d) :: u64)
                          else if whence = 2 then sint (of_nat (file_size d) :: u64) else INT64_MIN)
           in if base = INT64_MIN \<or> (offset > 0 \<and> base > INT64_MAX - offset) \<or> (offset < 0 \<and> base < INT64_MIN - offset)
              then (Inl EINVAL, s)
              else let target = base + offset
                in if target < 0 then (Inl EINVAL, s)
                   else (Inr target, set_file (nat fd) (d\<lparr>fd_offset := nat target\<rparr>) s))"

record vfs_stat =
  st_inode :: u64
  st_mode :: u32
  st_uid :: u32
  st_gid :: u32
  st_size :: u64
  st_blocks :: u64
  st_is_directory :: u32

definition vfs_stat_fd :: "int \<Rightarrow> bool \<Rightarrow> 'a vfs_state_scheme \<Rightarrow> vfs_stat result" where
  "vfs_stat_fd fd status s =
     (let d = the_file fd s
      in if \<not> status then Inl EFAULT
         else if \<not> fd_open fd s then Inl EBADF
         else let mode = (if fd_is_pipe d then 0x11b6 else if fd_directory d then 0x416d else if fd_is_shm d then 0x81b6
                          else if fd_persistent d then pi_mode (persistent_inodes s ! the (fd_persistent_inode d)) else 0x8124);
                  sz = (of_nat (if fd_is_pipe d then pipe_count (pipes s (fd_pipe d))
                                else if fd_directory d then 0 else file_size d) :: u64)
           in Inr \<lparr>st_inode = of_int (fd + 1), st_mode = mode, st_uid = 0, st_gid = 0, st_size = sz,
                   st_blocks = (sz + 511) div 512, st_is_directory = (if fd_directory d then 1 else 0)\<rparr>)"

subsection \<open>Directory listing\<close>

abbreviation (input) sizeof_dirent_header :: nat where "sizeof_dirent_header \<equiv> 19"

definition dirent_length :: "string \<Rightarrow> nat" where
  "dirent_length name = (sizeof_dirent_header + (length name + 1) + 7) div 8 * 8"

definition dirent_bytes :: "u64 \<Rightarrow> u64 \<Rightarrow> u8 \<Rightarrow> string \<Rightarrow> u8 list" where
  "dirent_bytes inode offset type name =
     overlay (le64 inode @ le64 offset @ le16 (of_nat (dirent_length name)) @ [type] @ bytes_of name @ [0])
       (zeros (dirent_length name))"

text \<open>The loop over the inode table.  The result is the bytes written and the new position; \<open>None\<close> is
  the error of a record that does not fit an empty buffer.\<close>

function getdents_persistent :: "persistent_inode_disk list \<Rightarrow> nat \<Rightarrow> u8 list \<Rightarrow> nat \<Rightarrow> u8 list option \<times> nat" where
  "getdents_persistent inodes capacity written offset =
     (if offset \<ge> PERSIST_MAX_FILES then (Some written, offset)
      else if pi_used (inodes ! offset) = 0 then getdents_persistent inodes capacity written (offset + 1)
      else let name = inode_name (inodes ! offset); record_length = dirent_length name
        in if record_length > 0xffff then (None, offset + 1)
           else if record_length > capacity - length written then
             (if written = [] then (None, offset + 1) else (Some written, offset))
           else getdents_persistent inodes capacity
                  (written @ dirent_bytes (of_nat (offset + 2)) (of_nat (offset + 1)) 8 name) (offset + 1))"
  by pat_completeness auto

termination
  by (relation "measure (\<lambda>(inodes, capacity, written, offset). 64 - offset)") auto

declare getdents_persistent.simps [simp del]

text \<open>The entry at a position of any other directory: name and whether it is a directory.\<close>

definition dirent_at :: "string list \<Rightarrow> bool \<Rightarrow> string \<Rightarrow> nat \<Rightarrow> (string \<times> bool) option" where
  "dirent_at names ready directory entry =
     (if entry = 0 then Some (''.'', True)
      else if entry = 1 then Some (''..'', True)
      else if directory = [slash] \<and> ready then
        (if entry = 2 then Some (''persist'', True)
         else initrd_child_at names directory (entry - 3) VFS_NAME_CAPACITY)
      else initrd_child_at names directory (entry - 2) VFS_NAME_CAPACITY)"

lemma dirent_length_pos: "dirent_length name \<ge> 24"
  by (simp add: dirent_length_def)

lemma length_dirent_bytes [simp]: "length (dirent_bytes i off t name) = dirent_length name"
proof -
  have "20 + length name \<le> dirent_length name"
    unfolding dirent_length_def by linarith
  then show ?thesis by (simp add: dirent_bytes_def)
qed

function getdents_loop :: "string list \<Rightarrow> bool \<Rightarrow> string \<Rightarrow> nat \<Rightarrow> u8 list \<Rightarrow> nat \<Rightarrow> u8 list option \<times> nat" where
  "getdents_loop names ready directory capacity written offset =
     (case dirent_at names ready directory offset of
        None \<Rightarrow> (Some written, offset + 1)
      | Some (name, is_directory) \<Rightarrow>
          let record_length = dirent_length name
          in if record_length > 0xffff then (None, offset + 1)
             else if record_length > capacity - length written then
               (if written = [] then (None, offset + 1) else (Some written, offset))
             else getdents_loop names ready directory capacity
                    (written @ dirent_bytes (of_nat (offset + 1)) (of_nat (offset + 1)) (if is_directory then 4 else 8) name)
                    (offset + 1))"
  by pat_completeness auto

termination
proof (relation "measure (\<lambda>(names, ready, directory, capacity, written, offset). capacity - length written)", goal_cases)
  case (2 names ready directory capacity written offset x2 name is_directory record_length)
  then show ?case using dirent_length_pos [of name] by simp
qed simp

declare getdents_loop.simps [simp del]

definition vfs_getdents64 :: "int \<Rightarrow> bool \<Rightarrow> nat \<Rightarrow> 'a vfs_state_scheme \<Rightarrow> u8 list result \<times> 'a vfs_state_scheme" where
  "vfs_getdents64 fd buffer capacity s =
     (let d = the_file fd s
      in if \<not> fd_open fd s then (Inl EBADF, s)
         else if \<not> buffer then (Inl EFAULT, s)
         else if \<not> fd_directory d then (Inl ENOTDIR, s)
         else let (r, offset) =
                (if fd_persistent_directory d then getdents_persistent (persistent_inodes s) capacity [] (fd_offset d)
                 else getdents_loop (initrd_names s) (persistent_ready s)
                        (case file_name d of None \<Rightarrow> [slash] | Some n \<Rightarrow> n) capacity [] (fd_offset d))
           in (case r of None \<Rightarrow> Inl EINVAL | Some bs \<Rightarrow> Inr bs, set_file (nat fd) (d\<lparr>fd_offset := offset\<rparr>) s))"

subsection \<open>Pipes\<close>

definition empty_pipe :: pipe_object where
  "empty_pipe = \<lparr>pipe_buffer = zeros PIPE_CAPACITY, pipe_head = 0, pipe_tail = 0, pipe_count = 0,
     pipe_readers = 0, pipe_writers = 0\<rparr>"

definition vfs_pipe_create :: "bool \<Rightarrow> 'a vfs_state_scheme \<Rightarrow> (nat \<times> nat) result \<times> 'a vfs_state_scheme" where
  "vfs_pipe_create fds s =
     (if \<not> fds then (Inl EFAULT, s)
      else let (a, s) = kcalloc 1 sizeof_pipe s
        in if a = 0 then (Inl ENOMEM, s)
           else let (reader, s) = allocate_descriptor s; (writer, s) = allocate_descriptor s
             in case (reader, writer) of
                  (Inr r, Inr w) \<Rightarrow>
                    (Inr (r, w),
                     upd_file w (\<lambda>d. d\<lparr>fd_is_pipe := True, fd_writable := True, fd_pipe := a, file_name := Some ''pipe''\<rparr>)
                       (upd_file r (\<lambda>d. d\<lparr>fd_is_pipe := True, fd_readable := True, fd_pipe := a, file_name := Some ''pipe''\<rparr>)
                         (set_pipe a (empty_pipe\<lparr>pipe_readers := 1, pipe_writers := 1\<rparr>) s)))
                | _ \<Rightarrow>
                    let s = (case reader of Inr r \<Rightarrow> set_file r zero_descriptor s | Inl _ \<Rightarrow> s);
                        s = (case writer of Inr w \<Rightarrow> set_file w zero_descriptor s | Inl _ \<Rightarrow> s)
                    in (Inl EMFILE, kfree a s))"

end
