(* ===== verification/Process_Types.thy ===== *)
theory Process_Types
  imports Vfs_Ops
begin

text \<open>
  The process and thread structures of \<^verbatim>\<open>include/npk/process.h\<close> and the memory regions of
  \<^verbatim>\<open>src/memory/vm.c\<close>.  A pointer to a process or thread of the static tables is its index.  The list of
  memory regions is a HOL list in the order of the \<^verbatim>\<open>next\<close> pointers, each node with the address it was
  allocated at.  A saved register frame, which the code keeps on the thread's kernel stack and points to,
  is the list of its quadwords.
\<close>

abbreviation (input) NPK_MAX_PROCESSES :: nat where "NPK_MAX_PROCESSES \<equiv> 128"
abbreviation (input) NPK_MAX_THREADS :: nat where "NPK_MAX_THREADS \<equiv> 256"
abbreviation (input) NPK_MAX_FDS :: nat where "NPK_MAX_FDS \<equiv> 32"
abbreviation (input) NPK_SIGNAL_MAX :: nat where "NPK_SIGNAL_MAX \<equiv> 64"
abbreviation (input) NPK_SIGNAL_QUEUE_MAX :: nat where "NPK_SIGNAL_QUEUE_MAX \<equiv> 32"
abbreviation (input) NPK_FD_TRANSFER_MAX :: nat where "NPK_FD_TRANSFER_MAX \<equiv> 8"
abbreviation (input) NPK_KERNEL_STACK_SIZE :: u64 where "NPK_KERNEL_STACK_SIZE \<equiv> 65536"
abbreviation (input) NPK_USER_STACK_TOP :: u64 where "NPK_USER_STACK_TOP \<equiv> 0x00007ffffff00000"
abbreviation (input) NPK_USER_STACK_PAGES :: u64 where "NPK_USER_STACK_PAGES \<equiv> 32"
abbreviation (input) NPK_PROCESS_PATH_MAX :: nat where "NPK_PROCESS_PATH_MAX \<equiv> 256"

record npk_vma =
  vma_node :: u64
  vma_start :: vaddr
  vma_end :: vaddr
  vma_protection :: u64
  vma_flags :: u64
  vma_backing_handle :: int
  vma_backing_offset :: u64
  vma_backing_size :: u64

record npk_sigaction =
  sa_handler :: u64
  sa_flags :: u64
  sa_restorer :: u64
  sa_mask :: "u64 list"

record npk_signal_info =
  si_signal :: u64
  si_code :: int
  si_sender_pid :: int
  si_sender_uid :: u32
  si_value :: int

datatype thread_state = THREAD_UNUSED | THREAD_READY | THREAD_RUNNING | THREAD_BLOCKED | THREAD_ZOMBIE

text \<open>\<^verbatim>\<open>cpu_context_t\<close>: the fields the kernel reads and writes by name, and the remaining registers in the
  order of the structure (rax to r15).\<close>

record cpu_context =
  ctx_rip :: u64
  ctx_rsp :: u64
  ctx_rflags :: u64
  ctx_regs :: "u64 list"
  ctx_cr3 :: u64

record thread =
  tid :: u64
  th_state :: thread_state
  privilege_ring :: nat
  th_context :: cpu_context
  kernel_stack :: u64
  kernel_stack_top :: u64
  th_user_stack_top :: u64
  fs_base :: u64
  gs_base :: u64
  saved_interrupt_frame :: "u64 list option"
  saved_frame_kind :: nat
  signal_inflight :: bool
  signal_frame_user :: u64
  signal_restorer :: u64
  signal_number :: u64
  signal_blocked :: u64
  signal_pending :: u64
  signal_saved_mask :: u64
  signal_queue :: "npk_signal_info list"
  signal_queue_head :: nat
  signal_queue_tail :: nat
  signal_queue_count :: nat
  signal_saved_frame :: "u64 list"
  futex_waiting :: bool
  futex_result :: int
  clear_child_tid_address :: vaddr
  clone_thread :: bool
  group_leader :: bool
  thread_exit_status :: u8
  th_owner :: "nat option"
  th_entry :: u64
  th_argument :: u64

record process =
  pid :: u64
  parent_pid :: u64
  thread_count :: u32
  alive :: bool
  exit_status :: u8
  group_exiting :: bool
  wait_active :: bool
  wait_target :: int
  wait_status_user :: vaddr
  wait_options :: u64
  wait_result :: int
  pending_reap_pid :: u64
  wait_woken :: bool
  address_space_root :: paddr
  image_base :: u64
  image_end :: u64
  mmap_cursor :: u64
  brk_start :: u64
  brk_end :: u64
  user_stack_top :: u64
  user_stack_bottom :: u64
  user_stack_limit :: u64
  image_path :: string
  cwd :: string
  incoming_fd_transfers :: "(int \<times> u32) list"
  vmas :: "npk_vma list"
  main_thread :: "nat option"
  signal_actions :: "nat \<Rightarrow> npk_sigaction"
  fds :: "int list"
  fd_flags :: "u32 list"

definition zero_sigaction :: npk_sigaction where
  "zero_sigaction = \<lparr>sa_handler = 0, sa_flags = 0, sa_restorer = 0, sa_mask = replicate 16 0\<rparr>"

definition zero_info :: npk_signal_info where
  "zero_info = \<lparr>si_signal = 0, si_code = 0, si_sender_pid = 0, si_sender_uid = 0, si_value = 0\<rparr>"

definition zero_context :: cpu_context where
  "zero_context = \<lparr>ctx_rip = 0, ctx_rsp = 0, ctx_rflags = 0, ctx_regs = replicate 15 0, ctx_cr3 = 0\<rparr>"

definition zero_thread :: thread where
  "zero_thread = \<lparr>tid = 0, th_state = THREAD_UNUSED, privilege_ring = 0, th_context = zero_context, kernel_stack = 0,
     kernel_stack_top = 0, th_user_stack_top = 0, fs_base = 0, gs_base = 0, saved_interrupt_frame = None,
     saved_frame_kind = 0, signal_inflight = False, signal_frame_user = 0, signal_restorer = 0, signal_number = 0,
     signal_blocked = 0, signal_pending = 0, signal_saved_mask = 0, signal_queue = replicate NPK_SIGNAL_QUEUE_MAX zero_info,
     signal_queue_head = 0, signal_queue_tail = 0, signal_queue_count = 0, signal_saved_frame = replicate 20 0,
     futex_waiting = False, futex_result = 0, clear_child_tid_address = 0, clone_thread = False, group_leader = False,
     thread_exit_status = 0, th_owner = None, th_entry = 0, th_argument = 0\<rparr>"

definition zero_process :: process where
  "zero_process = \<lparr>pid = 0, parent_pid = 0, thread_count = 0, alive = False, exit_status = 0, group_exiting = False,
     wait_active = False, wait_target = 0, wait_status_user = 0, wait_options = 0, wait_result = 0, pending_reap_pid = 0,
     wait_woken = False, address_space_root = 0, image_base = 0, image_end = 0, mmap_cursor = 0, brk_start = 0, brk_end = 0,
     user_stack_top = 0, user_stack_bottom = 0, user_stack_limit = 0, image_path = [], cwd = [], incoming_fd_transfers = [],
     vmas = [], main_thread = None, signal_actions = (\<lambda>_. zero_sigaction), fds = replicate NPK_MAX_FDS 0,
     fd_flags = replicate NPK_MAX_FDS 0\<rparr>"

end
