(* ===== verification/Vm.thy ===== *)
theory Vm
  imports Process_Types
begin

text \<open>
  The memory regions of a process, \<^verbatim>\<open>src/memory/vm.c\<close>.  Every operation takes the process value and the
  kernel state and returns both: the process may be one of the table or the private one that \<^verbatim>\<open>exec\<close>
  builds.  A region is a reservation; its pages are made on the first access by the page-fault path at the
  end of the theory.
\<close>

abbreviation (input) VM_USER_MMAP_BASE :: u64 where "VM_USER_MMAP_BASE \<equiv> 0x1000000000"
abbreviation (input) VM_USER_MMAP_LIMIT :: u64 where "VM_USER_MMAP_LIMIT \<equiv> 0x400000000000"
abbreviation (input) NPK_PROT_READ :: u64 where "NPK_PROT_READ \<equiv> 1"
abbreviation (input) NPK_PROT_WRITE :: u64 where "NPK_PROT_WRITE \<equiv> 2"
abbreviation (input) NPK_PROT_EXEC :: u64 where "NPK_PROT_EXEC \<equiv> 4"
abbreviation (input) NPK_MAP_SHARED :: u64 where "NPK_MAP_SHARED \<equiv> 1"
abbreviation (input) NPK_MAP_PRIVATE :: u64 where "NPK_MAP_PRIVATE \<equiv> 2"
abbreviation (input) NPK_MAP_FIXED :: u64 where "NPK_MAP_FIXED \<equiv> 16"
abbreviation (input) NPK_MAP_ANONYMOUS :: u64 where "NPK_MAP_ANONYMOUS \<equiv> 32"
abbreviation (input) NPK_MAP_HEAP :: u64 where "NPK_MAP_HEAP \<equiv> 0x100"
abbreviation (input) NPK_MAP_SHARED_OBJECT :: u64 where "NPK_MAP_SHARED_OBJECT \<equiv> 0x200"
abbreviation (input) NPK_MAP_DEVICE :: u64 where "NPK_MAP_DEVICE \<equiv> 0x400"
abbreviation (input) sizeof_vma :: u64 where "sizeof_vma \<equiv> 64"

definition vm_add_overflow :: "u64 \<Rightarrow> u64 \<Rightarrow> bool" where
  "vm_add_overflow a b \<longleftrightarrow> b > UINT64_MAX - a"

definition page_align :: "u64 \<Rightarrow> u64" where
  "page_align v = v AND NOT (NPK_PAGE_SIZE - 1)"

definition page_align_up :: "u64 \<Rightarrow> u64 option" where
  "page_align_up v =
     (if v > UINT64_MAX - (NPK_PAGE_SIZE - 1) then None
      else Some ((v + NPK_PAGE_SIZE - 1) AND NOT (NPK_PAGE_SIZE - 1)))"

definition overlaps :: "npk_vma list \<Rightarrow> vaddr \<Rightarrow> vaddr \<Rightarrow> bool" where
  "overlaps list start end' \<longleftrightarrow> list_ex (\<lambda>v. start < vma_end v \<and> end' > vma_start v) list"

definition page_flags_for :: "u64 \<Rightarrow> u64" where
  "page_flags_for protection =
     VM_USER OR (if has_flag protection NPK_PROT_WRITE then VM_WRITE else 0)
       OR (if \<not> has_flag protection NPK_PROT_EXEC then VM_NX else 0)"

definition find_heap_vma :: "process \<Rightarrow> npk_vma option" where
  "find_heap_vma p = find (\<lambda>v. has_flag (vma_flags v) NPK_MAP_HEAP) (vmas p)"

definition find_vma :: "npk_vma list \<Rightarrow> vaddr \<Rightarrow> npk_vma option" where
  "find_vma list address = find (\<lambda>v. address \<ge> vma_start v \<and> address < vma_end v) list"

text \<open>Writing through the pointer \<^verbatim>\<open>find_vma\<close> returned: the first region that holds the address.\<close>

fun upd_vma :: "vaddr \<Rightarrow> (npk_vma \<Rightarrow> npk_vma) \<Rightarrow> npk_vma list \<Rightarrow> npk_vma list" where
  "upd_vma address f [] = []"
| "upd_vma address f (v # vs) =
     (if address \<ge> vma_start v \<and> address < vma_end v then f v # vs else v # upd_vma address f vs)"

definition bad_protection :: "u64 \<Rightarrow> bool" where
  "bad_protection protection \<longleftrightarrow>
     protection AND NOT 7 \<noteq> 0 \<or> (has_flag protection NPK_PROT_WRITE \<and> has_flag protection NPK_PROT_EXEC)"

text \<open>The pages of \<open>[lo, hi)\<close>, as the loops \<^verbatim>\<open>for (page = lo; page < hi; page += NPK_PAGE_SIZE)\<close> visit them.\<close>

definition page_range :: "vaddr \<Rightarrow> vaddr \<Rightarrow> vaddr list" where
  "page_range lo hi = map (\<lambda>k. lo + of_nat (k * 4096)) [0..<(unat hi - unat lo + 4095) div 4096]"

definition unmap_page :: "paddr \<Rightarrow> vaddr \<Rightarrow> 'a vmm_state_scheme \<Rightarrow> 'a vmm_state_scheme" where
  "unmap_page root page s =
     (let (physical, s) = vmm_unmap_page_root root page s
      in if physical \<noteq> 0 then pmm_free_page physical s else s)"

subsection \<open>Removing a region\<close>

definition backing_trim_right :: "u64 \<Rightarrow> npk_vma \<Rightarrow> npk_vma" where
  "backing_trim_right keep v =
     (if vma_backing_handle v \<ge> 0
      then v\<lparr>vma_backing_size := (if keep < vma_backing_size v then keep else vma_backing_size v)\<rparr> else v)"

definition backing_trim_left :: "u64 \<Rightarrow> npk_vma \<Rightarrow> npk_vma" where
  "backing_trim_left delta v =
     (if vma_backing_handle v \<ge> 0
      then v\<lparr>vma_backing_offset := vma_backing_offset v + delta,
             vma_backing_size := (if delta < vma_backing_size v then vma_backing_size v - delta else 0)\<rparr> else v)"

text \<open>The change of the region list: \<open>before\<close> and \<open>after\<close> are the regions around the one that holds
  \<open>[address, end')\<close>.  The flag says that the region itself is gone.\<close>

definition unmap_region ::
  "npk_vma list \<Rightarrow> npk_vma \<Rightarrow> npk_vma list \<Rightarrow> vaddr \<Rightarrow> vaddr \<Rightarrow> 'a vfs_state_scheme
   \<Rightarrow> (bool \<times> npk_vma list) result \<times> 'a vfs_state_scheme" where
  "unmap_region before v after address end' s =
     (if address > vma_start v \<and> end' < vma_end v then
        (let (node, s) = kmalloc sizeof_vma s
         in if node = 0 then (Inl ENOMEM, s)
            else let (r, s) = (if vma_backing_handle v \<ge> 0 then vfs_retain (vma_backing_handle v) s else (Inr (), s))
              in case r of
                   Inl _ \<Rightarrow> (Inl ENOMEM, kfree node s)
                 | Inr _ \<Rightarrow>
                     let right = (backing_trim_left (end' - vma_start v) v)\<lparr>vma_node := node, vma_start := end'\<rparr>;
                         left = (backing_trim_right (address - vma_start v) v)\<lparr>vma_end := address\<rparr>
                     in (Inr (False, before @ left # right # after), s))
      else if address = vma_start v \<and> end' = vma_end v then (Inr (True, before @ after), s)
      else if address = vma_start v then
        (Inr (False, before @ (backing_trim_left (end' - vma_start v) v)\<lparr>vma_start := end'\<rparr> # after), s)
      else if end' = vma_end v then
        (Inr (False, before @ (backing_trim_right (address - vma_start v) v)\<lparr>vma_end := address\<rparr> # after), s)
      else (Inl EINVAL, s))"

definition holds_range :: "vaddr \<Rightarrow> vaddr \<Rightarrow> npk_vma \<Rightarrow> bool" where
  "holds_range address end' v \<longleftrightarrow> address \<ge> vma_start v \<and> end' \<le> vma_end v"

definition vm_unmap :: "process \<Rightarrow> vaddr \<Rightarrow> u64 \<Rightarrow> 'a vfs_state_scheme \<Rightarrow> unit result \<times> process \<times> 'a vfs_state_scheme" where
  "vm_unmap p address len s =
     (if \<not> alive p \<or> address AND (NPK_PAGE_SIZE - 1) \<noteq> 0 \<or> len = 0 then (Inl EINVAL, p, s)
      else case page_align_up len of
        None \<Rightarrow> (Inl EINVAL, p, s)
      | Some sz \<Rightarrow>
          if vm_add_overflow address sz then (Inl EINVAL, p, s)
          else let end' = address + sz;
                   before = takeWhile (\<lambda>v. \<not> holds_range address end' v) (vmas p)
            in case dropWhile (\<lambda>v. \<not> holds_range address end' v) (vmas p) of
                 [] \<Rightarrow> (Inl EINVAL, p, s)
               | v # after \<Rightarrow>
                   if has_flag (vma_flags v) NPK_MAP_HEAP then (Inl EINVAL, p, s)
                   else case unmap_region before v after address end' s of
                     (Inl e, s) \<Rightarrow> (Inl e, p, s)
                   | (Inr (gone, vs), s) \<Rightarrow>
                       let s = fold (unmap_page (address_space_root p)) (page_range address end') s;
                           s = (if gone
                                then kfree (vma_node v)
                                  (if vma_backing_handle v \<ge> 0 then snd (vfs_close (vma_backing_handle v) s) else s)
                                else s)
                       in (Inr (), p\<lparr>vmas := vs\<rparr>, s))"

subsection \<open>Mapping\<close>

text \<open>A step that wraps around lands below the base, which ends the search.\<close>

lemma next_page_advances:
  fixes start :: u64
  assumes "\<not> start + 4096 < VM_USER_MMAP_BASE"
  shows "unat (start + 4096) = unat start + 4096"
proof -
  have "unat (start + 4096) = (unat start + 4096) mod 2 ^ 64" by (simp add: unat_word_ariths)
  moreover have "unat (start + 4096) \<ge> 0x1000000000" using assms by (simp add: word_less_nat_alt)
  moreover have "unat start < 2 ^ 64" using unsigned_less [of start] by simp
  ultimately show ?thesis by (cases "unat start + 4096 < 2 ^ 64") (auto simp: mod_if split: if_splits)
qed

text \<open>The search for a free place: from \<open>start\<close> upwards a page at a time.\<close>

function find_gap :: "npk_vma list \<Rightarrow> u64 \<Rightarrow> vaddr \<Rightarrow> vaddr option" where
  "find_gap list sz start =
     (if vm_add_overflow start sz \<or> start + sz > VM_USER_MMAP_LIMIT \<or> overlaps list start (start + sz)
      then let start' = start + NPK_PAGE_SIZE
        in if start' < VM_USER_MMAP_BASE \<or> start' \<ge> VM_USER_MMAP_LIMIT then None else find_gap list sz start'
      else Some start)"
  by pat_completeness auto

termination
proof (relation "measure (\<lambda>(list, sz, start). 0x400000000000 - unat start)", goal_cases)
  case (2 list sz start start')
  then have "\<not> start + 4096 < VM_USER_MMAP_BASE" "unat (start + 4096) < 0x400000000000"
    by (simp_all add: not_le word_less_nat_alt)
  then show ?case using next_page_advances [of start] 2(2) by simp
qed simp

declare find_gap.simps [simp del]

definition new_vma :: "u64 \<Rightarrow> vaddr \<Rightarrow> vaddr \<Rightarrow> u64 \<Rightarrow> u64 \<Rightarrow> npk_vma" where
  "new_vma node start end' protection flags =
     \<lparr>vma_node = node, vma_start = start, vma_end = end', vma_protection = protection, vma_flags = flags,
      vma_backing_handle = -1, vma_backing_offset = 0, vma_backing_size = 0\<rparr>"

definition mmap_start :: "process \<Rightarrow> vaddr \<Rightarrow> vaddr" where
  "mmap_start p hint =
     (let start = (if hint \<noteq> 0 then page_align hint else if mmap_cursor p \<noteq> 0 then mmap_cursor p else VM_USER_MMAP_BASE)
      in if start < VM_USER_MMAP_BASE then VM_USER_MMAP_BASE else start)"

definition vm_map_anonymous ::
  "process \<Rightarrow> vaddr \<Rightarrow> u64 \<Rightarrow> u64 \<Rightarrow> u64 \<Rightarrow> 'a heap_state_scheme \<Rightarrow> vaddr result \<times> process \<times> 'a heap_state_scheme" where
  "vm_map_anonymous p hint len protection flags s =
     (if \<not> alive p \<or> len = 0 \<or> \<not> has_flag flags NPK_MAP_ANONYMOUS
         \<or> flags AND (NPK_MAP_SHARED OR NPK_MAP_PRIVATE) = 0 \<or> bad_protection protection then (Inl EINVAL, p, s)
      else case page_align_up len of
        None \<Rightarrow> (Inl EINVAL, p, s)
      | Some sz \<Rightarrow>
          if sz = 0 \<or> sz > VM_USER_MMAP_LIMIT - VM_USER_MMAP_BASE then (Inl EINVAL, p, s)
          else if has_flag flags NPK_MAP_FIXED \<and> hint AND (NPK_PAGE_SIZE - 1) \<noteq> 0 then (Inl EINVAL, p, s)
          else case (if has_flag flags NPK_MAP_FIXED then Some hint else find_gap (vmas p) sz (mmap_start p hint)) of
            None \<Rightarrow> (Inl ENOMEM, p, s)
          | Some start \<Rightarrow>
              if start < NPK_USER_MIN \<or> vm_add_overflow start sz \<or> start + sz > NPK_USER_MAX
                 \<or> overlaps (vmas p) start (start + sz) then (Inl EEXIST, p, s)
              else let (node, s) = kmalloc sizeof_vma s
                in if node = 0 then (Inl ENOMEM, p, s)
                   else (Inr start,
                         p\<lparr>vmas := new_vma node start (start + sz) protection flags # vmas p,
                           mmap_cursor := start + sz + NPK_PAGE_SIZE\<rparr>, s))"

definition vm_map_file ::
  "process \<Rightarrow> int \<Rightarrow> vaddr \<Rightarrow> u64 \<Rightarrow> u64 \<Rightarrow> u64 \<Rightarrow> u64 \<Rightarrow> 'a vfs_state_scheme \<Rightarrow> vaddr result \<times> process \<times> 'a vfs_state_scheme" where
  "vm_map_file p handle hint len protection flags offset s =
     (if \<not> alive p \<or> handle < 0 \<or> len = 0 \<or> has_flag flags NPK_MAP_ANONYMOUS
         \<or> flags AND (NPK_MAP_SHARED OR NPK_MAP_PRIVATE) = 0 \<or> bad_protection protection
         \<or> offset AND (NPK_PAGE_SIZE - 1) \<noteq> 0 \<or> (has_flag protection NPK_PROT_WRITE \<and> has_flag flags NPK_MAP_SHARED)
         \<or> \<not> vfs_file_backed handle s then (Inl EINVAL, p, s)
      else case vfs_size handle s of
        Inl _ \<Rightarrow> (Inl EINVAL, p, s)
      | Inr size_result \<Rightarrow>
          if size_result < 0 \<or> offset > UINT64_MAX - len then (Inl EINVAL, p, s)
          else case vm_map_anonymous p hint len protection (flags OR NPK_MAP_ANONYMOUS) s of
            (Inl e, p, s) \<Rightarrow> (Inl e, p, s)
          | (Inr mapped, p, s) \<Rightarrow>
              (case vfs_retain handle s of
                 (Inl _, s) \<Rightarrow> (let (_, p, s) = vm_unmap p mapped len s in (Inl EINVAL, p, s))
               | (Inr _, s) \<Rightarrow>
                   if find_vma (vmas p) mapped = None
                   then let s = snd (vfs_close handle s); (_, p, s) = vm_unmap p mapped len s in (Inl EINVAL, p, s)
                   else let file_size = of_int size_result;
                            available = (if offset < file_size then file_size - offset else 0)
                     in (Inr mapped,
                         p\<lparr>vmas := upd_vma mapped (\<lambda>v.
                             let mapping_size = vma_end v - vma_start v
                             in v\<lparr>vma_flags := vma_flags v AND NOT NPK_MAP_ANONYMOUS, vma_backing_handle := handle,
                                  vma_backing_offset := offset,
                                  vma_backing_size := (if available < mapping_size then available else mapping_size)\<rparr>) (vmas p)\<rparr>, s)))"

definition vm_map_shared ::
  "process \<Rightarrow> int \<Rightarrow> vaddr \<Rightarrow> u64 \<Rightarrow> u64 \<Rightarrow> u64 \<Rightarrow> u64 \<Rightarrow> 'a vfs_state_scheme \<Rightarrow> vaddr result \<times> process \<times> 'a vfs_state_scheme" where
  "vm_map_shared p handle hint len protection flags offset s =
     (if \<not> alive p \<or> handle < 0 \<or> len = 0 \<or> has_flag flags NPK_MAP_ANONYMOUS
         \<or> \<not> has_flag flags NPK_MAP_SHARED \<or> has_flag flags NPK_MAP_PRIVATE \<or> bad_protection protection
         \<or> offset AND (NPK_PAGE_SIZE - 1) \<noteq> 0 \<or> \<not> vfs_is_shared_memory handle s then (Inl EINVAL, p, s)
      else let page_count = vfs_shm_page_count handle s
        in if page_count = 0 \<or> offset > UINT64_MAX - len \<or> offset + len > of_nat page_count * NPK_PAGE_SIZE
           then (Inl EINVAL, p, s)
           else case vm_map_anonymous p hint len protection (flags OR NPK_MAP_ANONYMOUS) s of
             (Inl e, p, s) \<Rightarrow> (Inl e, p, s)
           | (Inr mapped, p, s) \<Rightarrow>
               (case vfs_retain handle s of
                  (Inl _, s) \<Rightarrow> (let (_, p, s) = vm_unmap p mapped len s in (Inl EINVAL, p, s))
                | (Inr _, s) \<Rightarrow>
                    if find_vma (vmas p) mapped = None
                    then let s = snd (vfs_close handle s); (_, p, s) = vm_unmap p mapped len s in (Inl EINVAL, p, s)
                    else (Inr mapped,
                          p\<lparr>vmas := upd_vma mapped (\<lambda>v.
                              v\<lparr>vma_flags := (vma_flags v AND NOT NPK_MAP_ANONYMOUS) OR NPK_MAP_SHARED_OBJECT,
                                vma_backing_handle := handle, vma_backing_offset := offset,
                                vma_backing_size := vma_end v - vma_start v\<rparr>) (vmas p)\<rparr>, s)))"

fun map_device_pages :: "paddr \<Rightarrow> u64 \<Rightarrow> vaddr \<Rightarrow> paddr \<Rightarrow> nat \<Rightarrow> 'a vmm_state_scheme \<Rightarrow> bool \<times> 'a vmm_state_scheme" where
  "map_device_pages root flags mapped physical 0 s = (True, s)"
| "map_device_pages root flags mapped physical (Suc n) s =
     (case vmm_map_page_root root mapped physical flags s of
        (False, s) \<Rightarrow> (False, s)
      | (True, s) \<Rightarrow> map_device_pages root flags (mapped + NPK_PAGE_SIZE) (physical + NPK_PAGE_SIZE) n s)"

definition vm_map_device ::
  "process \<Rightarrow> vaddr \<Rightarrow> u64 \<Rightarrow> u64 \<Rightarrow> u64 \<Rightarrow> u64 \<Rightarrow> 'a vfs_state_scheme \<Rightarrow> vaddr result \<times> process \<times> 'a vfs_state_scheme" where
  "vm_map_device p hint physical len protection flags s =
     (if \<not> alive p \<or> len = 0 \<or> has_flag flags NPK_MAP_ANONYMOUS \<or> \<not> has_flag flags NPK_MAP_SHARED
         \<or> has_flag flags NPK_MAP_PRIVATE \<or> protection AND NOT 7 \<noteq> 0 \<or> has_flag protection NPK_PROT_EXEC
         \<or> physical AND (NPK_PAGE_SIZE - 1) \<noteq> 0 then (Inl EINVAL, p, s)
      else case page_align_up len of
        None \<Rightarrow> (Inl EINVAL, p, s)
      | Some sz \<Rightarrow>
          if sz = 0 \<or> physical > UINT64_MAX - sz then (Inl EINVAL, p, s)
          else case vm_map_anonymous p hint sz protection (flags OR NPK_MAP_ANONYMOUS) s of
            (Inl e, p, s) \<Rightarrow> (Inl e, p, s)
          | (Inr mapped, p, s) \<Rightarrow>
              if find_vma (vmas p) mapped = None
              then let (_, p, s) = vm_unmap p mapped sz s in (Inl EINVAL, p, s)
              else let p = p\<lparr>vmas := upd_vma mapped (\<lambda>v. v\<lparr>vma_flags :=
                               (vma_flags v AND NOT NPK_MAP_ANONYMOUS) OR NPK_MAP_DEVICE\<rparr>) (vmas p)\<rparr>
                in case map_device_pages (address_space_root p) (page_flags_for protection OR VM_DEVICE) mapped physical
                          (unat sz div 4096) s of
                     (False, s) \<Rightarrow> (let (_, p, s) = vm_unmap p mapped sz s in (Inl ENOMEM, p, s))
                   | (True, s) \<Rightarrow> (Inr mapped, p, s))"

definition vm_reserve_range ::
  "process \<Rightarrow> vaddr \<Rightarrow> u64 \<Rightarrow> u64 \<Rightarrow> u64 \<Rightarrow> 'a heap_state_scheme \<Rightarrow> unit result \<times> process \<times> 'a heap_state_scheme" where
  "vm_reserve_range p start len protection flags s =
     (case page_align_up len of
        None \<Rightarrow> (Inl EINVAL, p, s)
      | Some sz \<Rightarrow>
          if \<not> alive p \<or> start < NPK_USER_MIN \<or> start AND (NPK_PAGE_SIZE - 1) \<noteq> 0 \<or> len = 0 \<or> sz = 0
             \<or> vm_add_overflow start sz \<or> start + sz > NPK_USER_MAX \<or> bad_protection protection
             \<or> overlaps (vmas p) start (start + sz) then (Inl EINVAL, p, s)
          else let (node, s) = kmalloc sizeof_vma s
            in if node = 0 then (Inl ENOMEM, p, s)
               else (Inr (), p\<lparr>vmas := new_vma node start (start + sz) protection flags # vmas p\<rparr>, s))"

definition vm_reserve_heap ::
  "process \<Rightarrow> vaddr \<Rightarrow> vaddr \<Rightarrow> 'a heap_state_scheme \<Rightarrow> unit result \<times> process \<times> 'a heap_state_scheme" where
  "vm_reserve_heap p start limit s =
     (if \<not> alive p \<or> start \<ge> limit \<or> find_heap_vma p \<noteq> None then (Inl EINVAL, p, s)
      else case vm_reserve_range p start (limit - start) (NPK_PROT_READ OR NPK_PROT_WRITE)
                  (NPK_MAP_PRIVATE OR NPK_MAP_ANONYMOUS OR NPK_MAP_HEAP) s of
        (Inl e, p, s) \<Rightarrow> (Inl e, p, s)
      | (Inr _, p, s) \<Rightarrow> (Inr (), p\<lparr>brk_start := start, brk_end := start\<rparr>, s))"

definition vm_resize_heap :: "process \<Rightarrow> vaddr \<Rightarrow> 'a vmm_state_scheme \<Rightarrow> unit result \<times> process \<times> 'a vmm_state_scheme" where
  "vm_resize_heap p new_end s =
     (case find_heap_vma p of
        None \<Rightarrow> (Inl EINVAL, p, s)
      | Some heap \<Rightarrow>
          if \<not> alive p \<or> new_end AND (NPK_PAGE_SIZE - 1) \<noteq> 0 \<or> new_end < vma_start heap \<or> new_end > vma_end heap
          then (Inl EINVAL, p, s)
          else let s = (if new_end < brk_end p
                        then fold (unmap_page (address_space_root p)) (page_range new_end (brk_end p)) s else s)
            in (Inr (), p\<lparr>brk_end := new_end\<rparr>, s))"

subsection \<open>Protection\<close>

text \<open>The walk that checks that \<open>[cursor, end')\<close> is covered by regions other than the heap.\<close>

function protect_covered :: "npk_vma list \<Rightarrow> vaddr \<Rightarrow> vaddr \<Rightarrow> bool" where
  "protect_covered list cursor end' =
     (if cursor < end'
      then case find_vma list cursor of
          None \<Rightarrow> False
        | Some v \<Rightarrow>
            if vma_end v \<le> cursor \<or> has_flag (vma_flags v) NPK_MAP_HEAP then False
            else protect_covered list (if vma_end v < end' then vma_end v else end') end'
      else True)"
  by pat_completeness auto

termination
  by (relation "measure (\<lambda>(list, cursor, end'). unat end' - unat cursor)")
     (auto simp: word_less_nat_alt word_le_nat_alt)

declare protect_covered.simps [simp del]

definition split_vma_at :: "process \<Rightarrow> vaddr \<Rightarrow> 'a vfs_state_scheme \<Rightarrow> bool \<times> process \<times> 'a vfs_state_scheme" where
  "split_vma_at p point s =
     (let inside = (\<lambda>v. \<not> (point \<le> vma_start v \<or> point \<ge> vma_end v));
          before = takeWhile (\<lambda>v. \<not> inside v) (vmas p)
      in case dropWhile (\<lambda>v. \<not> inside v) (vmas p) of
           [] \<Rightarrow> (True, p, s)
         | v # after \<Rightarrow>
             let (node, s) = kmalloc sizeof_vma s
             in if node = 0 then (False, p, s)
                else let (r, s) = (if vma_backing_handle v \<ge> 0 then vfs_retain (vma_backing_handle v) s else (Inr (), s))
                  in case r of
                       Inl _ \<Rightarrow> (False, p, kfree node s)
                     | Inr _ \<Rightarrow>
                         let delta = point - vma_start v;
                             right = (backing_trim_left delta v)\<lparr>vma_node := node, vma_start := point\<rparr>;
                             left = (backing_trim_right delta v)\<lparr>vma_end := point\<rparr>
                         in (True, p\<lparr>vmas := before @ left # right # after\<rparr>, s))"

fun protect_pages :: "paddr \<Rightarrow> u64 \<Rightarrow> vaddr list \<Rightarrow> 'a vmm_state_scheme \<Rightarrow> bool \<times> 'a vmm_state_scheme" where
  "protect_pages root flags [] s = (True, s)"
| "protect_pages root flags (page # pages) s =
     (if vmm_lookup_root s root page VM_USER \<noteq> 0
      then case vmm_protect_page_root root page flags s of
          (False, s) \<Rightarrow> (False, s)
        | (True, s) \<Rightarrow> protect_pages root flags pages s
      else protect_pages root flags pages s)"

definition vm_protect ::
  "process \<Rightarrow> vaddr \<Rightarrow> u64 \<Rightarrow> u64 \<Rightarrow> 'a vfs_state_scheme \<Rightarrow> unit result \<times> process \<times> 'a vfs_state_scheme" where
  "vm_protect p address len protection s =
     (if \<not> alive p \<or> address AND (NPK_PAGE_SIZE - 1) \<noteq> 0 \<or> len = 0 \<or> bad_protection protection then (Inl EINVAL, p, s)
      else case page_align_up len of
        None \<Rightarrow> (Inl EINVAL, p, s)
      | Some sz \<Rightarrow>
          if vm_add_overflow address sz \<or> address < NPK_USER_MIN \<or> address + sz > NPK_USER_MAX then (Inl EINVAL, p, s)
          else let end' = address + sz
            in if \<not> protect_covered (vmas p) address end' then (Inl EINVAL, p, s)
               else case split_vma_at p address s of
                 (False, p, s) \<Rightarrow> (Inl ENOMEM, p, s)
               | (True, p, s) \<Rightarrow>
                   (case split_vma_at p end' s of
                      (False, p, s) \<Rightarrow> (Inl ENOMEM, p, s)
                    | (True, p, s) \<Rightarrow>
                        let p = p\<lparr>vmas := map (\<lambda>v. if vma_start v < address \<or> vma_end v > end' then v
                                                  else v\<lparr>vma_protection := protection\<rparr>) (vmas p)\<rparr>
                        in case protect_pages (address_space_root p) (page_flags_for protection) (page_range address end') s of
                             (False, s) \<Rightarrow> (Inl EINVAL, p, s)
                           | (True, s) \<Rightarrow> (Inr (), p, s)))"

subsection \<open>The whole address space\<close>

text \<open>\<^verbatim>\<open>vm_revoke_device_mappings\<close> walks the list it changes, from a saved \<^verbatim>\<open>next\<close> pointer: it visits the regions
  the list had at the start.\<close>

fun revoke_loop :: "npk_vma list \<Rightarrow> process \<Rightarrow> 'a vfs_state_scheme \<Rightarrow> process \<times> 'a vfs_state_scheme" where
  "revoke_loop [] p s = (p, s)"
| "revoke_loop (v # vs) p s =
     (if has_flag (vma_flags v) NPK_MAP_DEVICE
      then let (_, p, s) = vm_unmap p (vma_start v) (vma_end v - vma_start v) s in revoke_loop vs p s
      else revoke_loop vs p s)"

definition vm_revoke_device_mappings :: "process \<Rightarrow> 'a vfs_state_scheme \<Rightarrow> process \<times> 'a vfs_state_scheme" where
  "vm_revoke_device_mappings p s = revoke_loop (vmas p) p s"

definition vm_range_owned :: "process \<Rightarrow> vaddr \<Rightarrow> u64 \<Rightarrow> u64 \<Rightarrow> bool" where
  "vm_range_owned p address len protection \<longleftrightarrow>
     \<not> (\<not> vmm_is_user_range address len \<or> vm_add_overflow address len)
     \<and> list_ex (\<lambda>v. address \<ge> vma_start v \<and> address + len \<le> vma_end v \<and> vma_protection v AND protection = protection) (vmas p)"

definition destroy_vma :: "npk_vma \<Rightarrow> 'a vfs_state_scheme \<Rightarrow> 'a vfs_state_scheme" where
  "destroy_vma v s =
     kfree (vma_node v) (if vma_backing_handle v \<ge> 0 then snd (vfs_close (vma_backing_handle v) s) else s)"

definition vm_destroy_all :: "process \<Rightarrow> 'a vfs_state_scheme \<Rightarrow> process \<times> 'a vfs_state_scheme" where
  "vm_destroy_all p s = (p\<lparr>vmas := []\<rparr>, fold destroy_vma (vmas p) s)"

fun clone_metadata_loop :: "npk_vma list \<Rightarrow> process \<Rightarrow> 'a vfs_state_scheme \<Rightarrow> bool \<times> process \<times> 'a vfs_state_scheme" where
  "clone_metadata_loop [] child s = (True, child, s)"
| "clone_metadata_loop (v # vs) child s =
     (if has_flag (vma_flags v) NPK_MAP_DEVICE then clone_metadata_loop vs child s
      else let (node, s) = kmalloc sizeof_vma s
        in if node = 0 then (False, vm_destroy_all child s)
           else let (r, s) = (if vma_backing_handle v \<ge> 0 then vfs_retain (vma_backing_handle v) s else (Inr (), s))
             in case r of
                  Inl _ \<Rightarrow> (False, vm_destroy_all child (kfree node s))
                | Inr _ \<Rightarrow> clone_metadata_loop vs (child\<lparr>vmas := vmas child @ [v\<lparr>vma_node := node\<rparr>]\<rparr>) s)"

definition vm_clone_metadata :: "process \<Rightarrow> process \<Rightarrow> 'a vfs_state_scheme \<Rightarrow> bool \<times> process \<times> 'a vfs_state_scheme" where
  "vm_clone_metadata parent child s = clone_metadata_loop (vmas parent) (child\<lparr>vmas := []\<rparr>) s"

end
