(* ===== verification/Vm_Fault.thy ===== *)
theory Vm_Fault
  imports Vm
begin

text \<open>
  Pages on demand: the page-fault half of \<^verbatim>\<open>src/memory/vm.c\<close>, and the copies between kernel and user
  memory that use it, \<^verbatim>\<open>vmm_copyin\<close> and \<^verbatim>\<open>vmm_copyout\<close> of \<^verbatim>\<open>src/memory/vmm.c\<close> and \<^verbatim>\<open>copyout_process\<close> and
  \<^verbatim>\<open>user_stack_write\<close> of \<^verbatim>\<open>src/proc/process.c\<close>.  Physical memory is stored as quadwords; bytes are read
  from and written into them.
\<close>

subsection \<open>Bytes of physical memory\<close>

definition phys_byte :: "'a vmm_state_scheme \<Rightarrow> paddr \<Rightarrow> u8" where
  "phys_byte s a =
     (let k = unat (a AND 4095) in ucast (drop_bit (8 * (k mod 8)) (phys s (a AND NOT 4095) (k div 8))))"

definition poke_byte :: "paddr \<Rightarrow> u8 \<Rightarrow> 'a vmm_state_scheme \<Rightarrow> 'a vmm_state_scheme" where
  "poke_byte a b s =
     (let k = unat (a AND 4095); page = a AND NOT 4095; j = 8 * (k mod 8); q = phys s page (k div 8)
      in set_entry page (k div 8) ((q AND NOT (push_bit j 0xff)) OR push_bit j (ucast b)) s)"

definition read_phys :: "'a vmm_state_scheme \<Rightarrow> paddr \<Rightarrow> nat \<Rightarrow> u8 list" where
  "read_phys s a n = map (\<lambda>i. phys_byte s (a + of_nat i)) [0..<n]"

fun write_phys :: "paddr \<Rightarrow> u8 list \<Rightarrow> 'a vmm_state_scheme \<Rightarrow> 'a vmm_state_scheme" where
  "write_phys a [] s = s"
| "write_phys a (b # bs) s = write_phys (a + 1) bs (poke_byte a b s)"

subsection \<open>Making a page\<close>

definition map_zero_page :: "process \<Rightarrow> vaddr \<Rightarrow> u64 \<Rightarrow> 'a vmm_state_scheme \<Rightarrow> bool \<times> 'a vmm_state_scheme" where
  "map_zero_page p page protection s =
     (if address_space_root p = 0 \<or> \<not> vmm_is_user_range page NPK_PAGE_SIZE then (False, s)
      else let flags = page_flags_for protection;
               flags = (if protection AND NPK_PROT_WRITE = 0 then flags AND NOT VM_WRITE else flags);
               (physical, s) = pmm_alloc_page s
        in if physical = 0 then (False, s)
           else case vmm_map_page_root (address_space_root p) page physical flags s of
             (False, s) \<Rightarrow> (False, pmm_free_page physical s)
           | (True, s) \<Rightarrow> (True, memset_page physical s))"

definition map_file_page :: "process \<Rightarrow> npk_vma \<Rightarrow> vaddr \<Rightarrow> 'a vfs_state_scheme \<Rightarrow> bool \<times> 'a vfs_state_scheme" where
  "map_file_page p v page s =
     (if vma_backing_handle v < 0 \<or> page < vma_start v \<or> page \<ge> vma_end v \<or> \<not> vmm_is_user_range page NPK_PAGE_SIZE
      then (False, s)
      else let (physical, s) = pmm_alloc_page s
        in if physical = 0 then (False, s)
           else
             let s = memset_page physical s;
                 delta = page - vma_start v;
                 amount = (if delta < vma_backing_size v then min (unat (vma_backing_size v - delta)) 4096 else 0);
                 r = (if delta < vma_backing_size v
                      then vfs_read_at (vma_backing_handle v) True amount (unat (vma_backing_offset v + delta)) s
                      else Inr [])
             in case r of
                  Inl _ \<Rightarrow> (False, pmm_free_page physical s)
                | Inr bytes \<Rightarrow>
                    let s = write_phys physical bytes s
                    in if length bytes \<noteq> amount then (False, pmm_free_page physical s)
                       else case vmm_map_page_root (address_space_root p) page physical (page_flags_for (vma_protection v)) s of
                         (False, s) \<Rightarrow> (False, pmm_free_page physical s)
                       | (True, s) \<Rightarrow> (True, s))"

definition map_shared_page :: "process \<Rightarrow> npk_vma \<Rightarrow> vaddr \<Rightarrow> 'a vfs_state_scheme \<Rightarrow> bool \<times> 'a vfs_state_scheme" where
  "map_shared_page p v page s =
     (let delta = page - vma_start v
      in if vma_backing_handle v < 0 \<or> page < vma_start v \<or> page \<ge> vma_end v \<or> \<not> vmm_is_user_range page NPK_PAGE_SIZE
            \<or> delta \<ge> vma_backing_size v then (False, s)
         else let physical = vfs_shm_page (vma_backing_handle v) (unat ((vma_backing_offset v + delta) div NPK_PAGE_SIZE)) s
           in if physical = 0 then (False, s)
              else let s = pmm_retain_page physical s
                in case vmm_map_page_root (address_space_root p) page physical (page_flags_for (vma_protection v) OR VM_SHARED) s of
                     (False, s) \<Rightarrow> (False, pmm_free_page physical s)
                   | (True, s) \<Rightarrow> (True, s))"

subsection \<open>Faults\<close>

definition stack_page_allowed :: "process \<Rightarrow> vaddr \<Rightarrow> vaddr \<Rightarrow> bool \<Rightarrow> bool" where
  "stack_page_allowed p page user_rsp from_kernel =
     (if user_stack_top p = 0 \<or> user_stack_limit p = 0 then False
      else if page < user_stack_limit p \<or> page \<ge> user_stack_top p then False
      else if page \<ge> user_stack_bottom p then True
      else if from_kernel then True
      else if user_rsp < user_stack_limit p \<or> user_rsp > user_stack_top p then False
      else page + NPK_PAGE_SIZE \<ge> user_rsp AND NOT (NPK_PAGE_SIZE - 1))"

definition map_region_page :: "process \<Rightarrow> npk_vma option \<Rightarrow> vaddr \<Rightarrow> u64 \<Rightarrow> 'a vfs_state_scheme \<Rightarrow> bool \<times> 'a vfs_state_scheme" where
  "map_region_page p vma page protection s =
     (case vma of
        None \<Rightarrow> map_zero_page p page protection s
      | Some v \<Rightarrow>
          if has_flag (vma_flags v) NPK_MAP_SHARED_OBJECT then map_shared_page p v page s
          else if vma_backing_handle v \<ge> 0 then map_file_page p v page s
          else map_zero_page p page protection s)"

definition beyond_brk :: "process \<Rightarrow> npk_vma option \<Rightarrow> vaddr \<Rightarrow> bool" where
  "beyond_brk p vma address \<longleftrightarrow>
     (case vma of None \<Rightarrow> False | Some v \<Rightarrow> has_flag (vma_flags v) NPK_MAP_HEAP \<and> address \<ge> brk_end p)"

definition grow_stack :: "bool \<Rightarrow> vaddr \<Rightarrow> process \<Rightarrow> process" where
  "grow_stack stack page p = (if stack \<and> page < user_stack_bottom p then p\<lparr>user_stack_bottom := page\<rparr> else p)"

definition vm_ensure_user_page :: "process \<Rightarrow> vaddr \<Rightarrow> bool \<Rightarrow> 'a vfs_state_scheme \<Rightarrow> bool \<times> process \<times> 'a vfs_state_scheme" where
  "vm_ensure_user_page p address write s =
     (if \<not> alive p \<or> \<not> vmm_is_user_range address 1 then (False, p, s)
      else let page = address AND NOT (NPK_PAGE_SIZE - 1)
        in if vmm_lookup_root s (address_space_root p) address (VM_USER OR (if write then VM_WRITE else 0)) \<noteq> 0
           then (True, p, s)
           else
             let vma = find_vma (vmas p) address;
                 protection = (case vma of None \<Rightarrow> 0 | Some v \<Rightarrow> vma_protection v);
                 stack = stack_page_allowed p page 0 True
             in if beyond_brk p vma address \<or> (vma = None \<and> \<not> stack)
                   \<or> (write \<and> \<not> has_flag protection NPK_PROT_WRITE \<and> \<not> stack)
                   \<or> (\<not> write \<and> protection AND (NPK_PROT_READ OR NPK_PROT_WRITE OR NPK_PROT_EXEC) = 0 \<and> \<not> stack)
                then (False, p, s)
                else case map_region_page p vma page (if stack then NPK_PROT_READ OR NPK_PROT_WRITE else protection) s of
                  (False, s) \<Rightarrow> (False, p, s)
                | (True, s) \<Rightarrow> (True, grow_stack stack page p, s))"

definition vm_handle_page_fault ::
  "process \<Rightarrow> vaddr \<Rightarrow> u64 \<Rightarrow> vaddr \<Rightarrow> 'a vfs_state_scheme \<Rightarrow> bool \<times> process \<times> 'a vfs_state_scheme" where
  "vm_handle_page_fault p fault_address error_code user_rsp s =
     (if \<not> alive p \<or> \<not> vmm_is_user_range fault_address 1 then (False, p, s)
      else let write = has_flag error_code 2
        in if has_flag error_code 1 then
             (if \<not> write then (False, p, s)
              else let (ok, s) = vmm_resolve_cow_fault (address_space_root p) fault_address s in (ok, p, s))
           else
             let page = fault_address AND NOT (NPK_PAGE_SIZE - 1)
             in if has_flag error_code 16 \<or> \<not> vmm_is_user_range page NPK_PAGE_SIZE then (False, p, s)
                else
                  let vma = find_vma (vmas p) fault_address;
                      stack = stack_page_allowed p page user_rsp False;
                      protection = (if stack then NPK_PROT_READ OR NPK_PROT_WRITE
                                    else case vma of None \<Rightarrow> 0 | Some v \<Rightarrow> vma_protection v)
                  in if beyond_brk p vma fault_address \<or> (vma = None \<and> \<not> stack)
                        \<or> (write \<and> \<not> has_flag protection NPK_PROT_WRITE)
                        \<or> (\<not> write \<and> protection AND (NPK_PROT_READ OR NPK_PROT_WRITE OR NPK_PROT_EXEC) = 0)
                     then (False, p, s)
                     else case map_region_page p vma page protection s of
                       (False, s) \<Rightarrow> (False, p, s)
                     | (True, s) \<Rightarrow> (True, grow_stack stack page p, s))"

subsection \<open>Copies between kernel and user memory\<close>

text \<open>The current process is an argument: \<open>None\<close> when there is none, and then the active page tables are
  used and no page can be made.\<close>

definition user_root :: "process option \<Rightarrow> 'a vmm_state_scheme \<Rightarrow> paddr" where
  "user_root process s =
     (case process of None \<Rightarrow> read_cr3 s | Some p \<Rightarrow> if address_space_root p \<noteq> 0 then address_space_root p else read_cr3 s)"

definition ensure_page :: "process option \<Rightarrow> vaddr \<Rightarrow> bool \<Rightarrow> 'a vfs_state_scheme \<Rightarrow> bool \<times> process option \<times> 'a vfs_state_scheme" where
  "ensure_page process address write s =
     (case process of
        None \<Rightarrow> (False, None, s)
      | Some p \<Rightarrow> (let (ok, p, s) = vm_ensure_user_page p address write s in (ok, Some p, s)))"

definition page_left :: "vaddr \<Rightarrow> nat" where
  "page_left a = 4096 - unat (a AND (NPK_PAGE_SIZE - 1))"

lemma page_left_pos: "0 < page_left a"
  by (simp add: page_left_def unat_and_4095)

text \<open>The physical address of a user byte that may be read, made present if need be.\<close>

definition readable_address ::
  "process option \<Rightarrow> paddr \<Rightarrow> vaddr \<Rightarrow> 'a vfs_state_scheme \<Rightarrow> paddr \<times> process option \<times> 'a vfs_state_scheme" where
  "readable_address process root address s =
     (let physical = vmm_lookup_root s root address VM_USER
      in if physical \<noteq> 0 then (physical, process, s)
         else case ensure_page process address False s of
           (False, process, s) \<Rightarrow> (0, process, s)
         | (True, process, s) \<Rightarrow> (vmm_lookup_root s root address VM_USER, process, s))"

function copyin_loop ::
  "process option \<Rightarrow> paddr \<Rightarrow> vaddr \<Rightarrow> nat \<Rightarrow> u8 list \<Rightarrow> 'a vfs_state_scheme \<Rightarrow> u8 list option \<times> process option \<times> 'a vfs_state_scheme" where
  "copyin_loop process root address n copied s =
     (if n = 0 then (Some copied, process, s)
      else case readable_address process root address s of
        (physical, process, s) \<Rightarrow>
          if physical = 0 then (None, process, s)
          else let amount = min n (page_left address)
            in copyin_loop process root (address + of_nat amount) (n - amount) (copied @ read_phys s physical amount) s)"
  by pat_completeness auto

termination
  by (relation "measure (\<lambda>(process, root, address, n, copied, s). n)") (auto simp: page_left_pos)

declare copyin_loop.simps [simp del]

definition vmm_copyin ::
  "process option \<Rightarrow> vaddr \<Rightarrow> nat \<Rightarrow> 'a vfs_state_scheme \<Rightarrow> u8 list option \<times> process option \<times> 'a vfs_state_scheme" where
  "vmm_copyin process user_source n s =
     (if \<not> vmm_is_user_range user_source (of_nat n) then (None, process, s)
      else copyin_loop process (user_root process s) user_source n [] s)"

text \<open>The same for writing: a shared copy-on-write page is split first; \<open>cow\<close> is off in the one caller that
  does not try.\<close>

definition writable_address ::
  "bool \<Rightarrow> process option \<Rightarrow> paddr \<Rightarrow> vaddr \<Rightarrow> 'a vfs_state_scheme \<Rightarrow> paddr \<times> process option \<times> 'a vfs_state_scheme" where
  "writable_address cow process root address s =
     (let physical = vmm_lookup_root s root address (VM_USER OR VM_WRITE)
      in if physical \<noteq> 0 then (physical, process, s)
         else let (ok, s) = (if cow then vmm_resolve_cow_fault root address s else (False, s));
                  physical = (if ok then vmm_lookup_root s root address (VM_USER OR VM_WRITE) else 0)
           in if physical \<noteq> 0 then (physical, process, s)
              else case ensure_page process address True s of
                (False, process, s) \<Rightarrow> (0, process, s)
              | (True, process, s) \<Rightarrow> (vmm_lookup_root s root address (VM_USER OR VM_WRITE), process, s))"

function copyout_loop ::
  "bool \<Rightarrow> process option \<Rightarrow> paddr \<Rightarrow> vaddr \<Rightarrow> u8 list \<Rightarrow> 'a vfs_state_scheme \<Rightarrow> bool \<times> process option \<times> 'a vfs_state_scheme" where
  "copyout_loop cow process root address bytes s =
     (if bytes = [] then (True, process, s)
      else case writable_address cow process root address s of
        (physical, process, s) \<Rightarrow>
          if physical = 0 then (False, process, s)
          else let amount = min (length bytes) (page_left address)
            in copyout_loop cow process root (address + of_nat amount) (drop amount bytes)
                 (write_phys physical (take amount bytes) s))"
  by pat_completeness auto

termination
  by (relation "measure (\<lambda>(cow, process, root, address, bytes, s). length bytes)")
     (use page_left_pos in \<open>auto simp: neq_Nil_conv\<close>)

declare copyout_loop.simps [simp del]

definition vmm_copyout ::
  "process option \<Rightarrow> vaddr \<Rightarrow> u8 list \<Rightarrow> 'a vfs_state_scheme \<Rightarrow> bool \<times> process option \<times> 'a vfs_state_scheme" where
  "vmm_copyout process user_destination bytes s =
     (if \<not> vmm_is_user_range user_destination (of_nat (length bytes)) then (False, process, s)
      else copyout_loop True process (user_root process s) user_destination bytes s)"

definition copyout_process :: "process \<Rightarrow> vaddr \<Rightarrow> u8 list \<Rightarrow> 'a vfs_state_scheme \<Rightarrow> bool \<times> process \<times> 'a vfs_state_scheme" where
  "copyout_process p destination bytes s =
     (if \<not> vmm_is_user_range destination (of_nat (length bytes)) then (False, p, s)
      else case copyout_loop True (Some p) (address_space_root p) destination bytes s of
        (ok, q, s) \<Rightarrow> (ok, the q, s))"

definition user_stack_write ::
  "process \<Rightarrow> paddr \<Rightarrow> vaddr \<Rightarrow> u8 list \<Rightarrow> 'a vfs_state_scheme \<Rightarrow> bool \<times> process \<times> 'a vfs_state_scheme" where
  "user_stack_write p root address bytes s =
     (if \<not> vmm_is_user_range address (of_nat (length bytes)) then (False, p, s)
      else case copyout_loop False (Some p) root address bytes s of
        (ok, q, s) \<Rightarrow> (ok, the q, s))"

definition user_stack_push ::
  "process \<Rightarrow> paddr \<Rightarrow> u64 \<Rightarrow> u64 \<Rightarrow> 'a vfs_state_scheme \<Rightarrow> (bool \<times> u64) \<times> process \<times> 'a vfs_state_scheme" where
  "user_stack_push p root stack_pointer v s =
     (if stack_pointer < NPK_USER_MIN + 8 then ((False, stack_pointer), p, s)
      else let sp = stack_pointer - 8; (ok, p, s) = user_stack_write p root sp (le64 v) s
        in ((ok, sp), p, s))"

end
