(* ===== verification/Elf.thy ===== *)
theory Elf
  imports Vm_Fault
begin

text \<open>
  The ELF validator and loader, \<^verbatim>\<open>src/exec/elf.c\<close>.  An image is the list of its bytes; the header and
  the program headers are decoded from it at the offsets of the packed C structures.
\<close>

abbreviation (input) ET_EXEC :: u16 where "ET_EXEC \<equiv> 2"
abbreviation (input) ET_DYN :: u16 where "ET_DYN \<equiv> 3"
abbreviation (input) PT_LOAD :: u32 where "PT_LOAD \<equiv> 1"
abbreviation (input) PT_DYNAMIC :: u32 where "PT_DYNAMIC \<equiv> 2"
abbreviation (input) PT_INTERP :: u32 where "PT_INTERP \<equiv> 3"
abbreviation (input) PT_PHDR :: u32 where "PT_PHDR \<equiv> 6"
abbreviation (input) PF_X :: u32 where "PF_X \<equiv> 1"
abbreviation (input) PF_W :: u32 where "PF_W \<equiv> 2"
abbreviation (input) PF_R :: u32 where "PF_R \<equiv> 4"
abbreviation (input) NPK_USER_DYN_BASE :: u64 where "NPK_USER_DYN_BASE \<equiv> 0x4000000000"
abbreviation (input) NPK_USER_INTERP_BASE :: u64 where "NPK_USER_INTERP_BASE \<equiv> 0x5000000000"
abbreviation (input) NPK_ELF_INTERP_MAX :: u64 where "NPK_ELF_INTERP_MAX \<equiv> 256"
abbreviation (input) NPK_MAX_PHNUM :: u16 where "NPK_MAX_PHNUM \<equiv> 64"
abbreviation (input) NPK_MAX_ELF_PAGES :: u64 where "NPK_MAX_ELF_PAGES \<equiv> 65536"
abbreviation (input) sizeof_elf64_header :: nat where "sizeof_elf64_header \<equiv> 64"
abbreviation (input) sizeof_program_header :: nat where "sizeof_program_header \<equiv> 56"

record elf64_header =
  eh_ident :: "u8 list"
  eh_type :: u16
  eh_machine :: u16
  eh_version :: u32
  eh_entry :: u64
  eh_phoff :: u64
  eh_ehsize :: u16
  eh_phentsize :: u16
  eh_phnum :: u16

record elf64_program_header =
  ph_type :: u32
  ph_flags :: u32
  ph_offset :: u64
  ph_vaddr :: u64
  ph_filesz :: u64
  ph_memsz :: u64
  ph_align :: u64

record elf_load_result =
  er_entry :: u64
  er_image_base :: u64
  er_image_end :: u64
  er_load_bias :: u64
  er_loaded_segments :: nat
  er_program_header :: u64
  er_program_header_count :: u16
  er_program_header_size :: u16
  er_has_interp :: bool
  er_interpreter :: string

definition elf_header :: "u8 list \<Rightarrow> elf64_header" where
  "elf_header img = \<lparr>eh_ident = field 0 16 img, eh_type = of_le16 (field 16 2 img), eh_machine = of_le16 (field 18 2 img),
     eh_version = of_le32 (field 20 4 img), eh_entry = of_le64 (field 24 8 img), eh_phoff = of_le64 (field 32 8 img),
     eh_ehsize = of_le16 (field 52 2 img), eh_phentsize = of_le16 (field 54 2 img), eh_phnum = of_le16 (field 56 2 img)\<rparr>"

definition program_of_bytes :: "u8 list \<Rightarrow> elf64_program_header" where
  "program_of_bytes b = \<lparr>ph_type = of_le32 (field 0 4 b), ph_flags = of_le32 (field 4 4 b), ph_offset = of_le64 (field 8 8 b),
     ph_vaddr = of_le64 (field 16 8 b), ph_filesz = of_le64 (field 32 8 b), ph_memsz = of_le64 (field 40 8 b),
     ph_align = of_le64 (field 48 8 b)\<rparr>"

definition elf_programs :: "u8 list \<Rightarrow> elf64_program_header list" where
  "elf_programs img =
     map (\<lambda>i. program_of_bytes (field (unat (eh_phoff (elf_header img)) + i * sizeof_program_header) sizeof_program_header img))
       [0..<unat (eh_phnum (elf_header img))]"

definition image_size :: "u8 list \<Rightarrow> u64" where
  "image_size img = of_nat (length img)"

subsection \<open>Arithmetic\<close>

definition add_overflows :: "u64 \<Rightarrow> u64 \<Rightarrow> bool" where
  "add_overflows a b \<longleftrightarrow> b > UINT64_MAX - a"

definition mul_overflows :: "u64 \<Rightarrow> u64 \<Rightarrow> bool" where
  "mul_overflows a b \<longleftrightarrow> a \<noteq> 0 \<and> b > UINT64_MAX div a"

definition is_power_of_two :: "u64 \<Rightarrow> bool" where
  "is_power_of_two v \<longleftrightarrow> v \<noteq> 0 \<and> v AND (v - 1) = 0"

definition elf_align_down :: "u64 \<Rightarrow> u64" where
  "elf_align_down v = v AND NOT (NPK_PAGE_SIZE - 1)"

definition elf_align_up :: "u64 \<Rightarrow> u64 option" where
  "elf_align_up v =
     (if v > UINT64_MAX - (NPK_PAGE_SIZE - 1) then None
      else Some ((v + NPK_PAGE_SIZE - 1) AND NOT (NPK_PAGE_SIZE - 1)))"

subsection \<open>Validation\<close>

definition user_span :: "u64 \<Rightarrow> u64 \<Rightarrow> u64 \<Rightarrow> u64 option" where
  "user_span start len bias =
     (if add_overflows start bias then None
      else let absolute = start + bias
        in if absolute < NPK_USER_MIN \<or> absolute \<ge> NPK_USER_MAX \<or> len = 0 \<or> add_overflows absolute len then None
           else let end' = absolute + len
             in if end' > NPK_USER_MAX \<or> end' \<le> absolute then None else Some end')"

text \<open>The results \<^verbatim>\<open>start\<close>, \<^verbatim>\<open>end\<close>, \<^verbatim>\<open>page_start\<close> and \<^verbatim>\<open>page_end\<close> of the segment, if it is valid.\<close>

definition segment_range_valid :: "elf64_program_header \<Rightarrow> u64 \<Rightarrow> u64 \<Rightarrow> (u64 \<times> u64 \<times> u64 \<times> u64) option" where
  "segment_range_valid ph isize bias =
     (if ph_filesz ph > ph_memsz ph \<or> ph_memsz ph = 0 then None
      else if ph_offset ph > isize \<or> ph_filesz ph > isize - ph_offset ph then None
      else if ph_align ph > 1 \<and> (\<not> is_power_of_two (ph_align ph) \<or> ph_vaddr ph mod ph_align ph \<noteq> ph_offset ph mod ph_align ph)
      then None
      else if ph_flags ph AND PF_W \<noteq> 0 \<and> ph_flags ph AND PF_X \<noteq> 0 then None
      else case user_span (ph_vaddr ph) (ph_memsz ph) bias of
        None \<Rightarrow> None
      | Some end' \<Rightarrow>
          let start = ph_vaddr ph + bias
          in if start < NPK_USER_MIN then None
             else let page_start = elf_align_down start
               in case elf_align_up end' of
                    None \<Rightarrow> None
                  | Some page_end \<Rightarrow>
                      if page_end \<le> NPK_USER_MAX \<and> page_end > page_start then Some (start, end', page_start, page_end) else None)"

definition load_segments_overlap :: "elf64_program_header list \<Rightarrow> u64 \<Rightarrow> u64 \<Rightarrow> u64 \<Rightarrow> u64 \<Rightarrow> bool" where
  "load_segments_overlap earlier isize bias current_start current_end \<longleftrightarrow>
     list_ex (\<lambda>ph. ph_type ph = PT_LOAD \<and>
       (case segment_range_valid ph isize bias of
          None \<Rightarrow> True
        | Some (start, end', page_start, page_end) \<Rightarrow> current_start < page_end \<and> start < current_end)) earlier"

text \<open>The loop over the dynamic table: terminated by a null tag before any negative one.\<close>

fun dynamic_entries_valid :: "u8 list \<Rightarrow> nat \<Rightarrow> bool" where
  "dynamic_entries_valid bytes 0 = False"
| "dynamic_entries_valid bytes (Suc n) =
     (let tag = of_le64 (field 0 8 bytes)
      in if tag = 0 then True
         else if sint tag < 0 then False
         else dynamic_entries_valid (drop 16 bytes) n)"

definition dynamic_table_valid :: "u8 list \<Rightarrow> elf64_program_header \<Rightarrow> bool" where
  "dynamic_table_valid img ph =
     (if ph_filesz ph = 0 \<or> ph_filesz ph > ph_memsz ph \<or> ph_filesz ph mod 16 \<noteq> 0
         \<or> ph_offset ph > image_size img \<or> ph_filesz ph > image_size img - ph_offset ph then False
      else dynamic_entries_valid (drop (unat (ph_offset ph)) img) (unat (ph_filesz ph div 16)))"

text \<open>The loop over the interpreter path: \<open>i\<close> the position, \<open>start\<close> the start of the component.\<close>

function interp_loop :: "u8 list \<Rightarrow> nat \<Rightarrow> nat \<Rightarrow> nat \<Rightarrow> bool" where
  "interp_loop v filesz i start =
     (if i + 1 < filesz then
        (if v ! i = 0 \<or> v ! i < 0x20 \<or> v ! i = 0x7f then False
         else if v ! i \<noteq> 0x2f \<and> i + 1 \<noteq> filesz - 1 then interp_loop v filesz (i + 1) start
         else if i \<ge> start \<and> i - start = 2 \<and> v ! start = 0x2e \<and> v ! (start + 1) = 0x2e then False
         else interp_loop v filesz (i + 1) (i + 1))
      else True)"
  by pat_completeness auto

termination
  by (relation "measure (\<lambda>(v, filesz, i, start). filesz - i)") auto

declare interp_loop.simps [simp del]

definition interpreter_field_valid :: "u8 list \<Rightarrow> elf64_program_header \<Rightarrow> bool" where
  "interpreter_field_valid img ph =
     (if ph_filesz ph = 0 \<or> ph_filesz ph > ph_memsz ph \<or> ph_filesz ph > NPK_ELF_INTERP_MAX
         \<or> ph_offset ph > image_size img \<or> ph_filesz ph > image_size img - ph_offset ph then False
      else let v = field (unat (ph_offset ph)) (unat (ph_filesz ph)) img
        in if v ! (unat (ph_filesz ph) - 1) \<noteq> 0 \<or> v ! 0 \<noteq> 0x2f then False
           else interp_loop v (unat (ph_filesz ph)) 0 1)"

definition header_valid :: "u8 list \<Rightarrow> bool" where
  "header_valid img =
     (let h = elf_header img; table = ucast (eh_phnum h) * ucast (eh_phentsize h)
      in if length img < sizeof_elf64_header then False
         else if take 4 (eh_ident h) \<noteq> [0x7f, 0x45, 0x4c, 0x46] then False
         else if eh_ident h ! 4 \<noteq> 2 \<or> eh_ident h ! 5 \<noteq> 1 \<or> eh_ident h ! 6 \<noteq> 1 then False
         else if eh_type h \<noteq> ET_EXEC \<and> eh_type h \<noteq> ET_DYN then False
         else if eh_machine h \<noteq> 62 \<or> eh_version h \<noteq> 1 then False
         else if eh_ehsize h \<noteq> of_nat sizeof_elf64_header \<or> eh_phentsize h \<noteq> of_nat sizeof_program_header
                 \<or> eh_phnum h = 0 \<or> eh_phnum h > NPK_MAX_PHNUM then False
         else \<not> (mul_overflows (ucast (eh_phnum h)) (ucast (eh_phentsize h)) \<or> add_overflows (eh_phoff h) table
                 \<or> eh_phoff h > image_size img \<or> table > image_size img - eh_phoff h))"

record elf_scan =
  sc_pages :: u64
  sc_loaded :: nat
  sc_entry :: bool
  sc_interp :: bool
  sc_dynamic :: bool

definition validate_segment ::
  "u8 list \<Rightarrow> u64 \<Rightarrow> u64 \<Rightarrow> elf64_program_header list \<Rightarrow> elf64_program_header \<Rightarrow> elf_scan \<Rightarrow> elf_scan option" where
  "validate_segment img bias absolute_entry earlier ph a =
     (if ph_type ph = PT_INTERP then
        (if sc_interp a \<or> \<not> interpreter_field_valid img ph then None else Some (a\<lparr>sc_interp := True\<rparr>))
      else if ph_type ph = PT_DYNAMIC then
        (if sc_dynamic a \<or> \<not> dynamic_table_valid img ph then None else Some (a\<lparr>sc_dynamic := True\<rparr>))
      else if ph_type ph \<noteq> PT_LOAD then Some a
      else case segment_range_valid ph (image_size img) bias of
        None \<Rightarrow> None
      | Some (start, end', page_start, page_end) \<Rightarrow>
          if load_segments_overlap earlier (image_size img) bias page_start page_end then None
          else if page_end - page_start > NPK_MAX_ELF_PAGES * NPK_PAGE_SIZE - sc_pages a * NPK_PAGE_SIZE then None
          else Some (a\<lparr>sc_pages := sc_pages a + (page_end - page_start) div NPK_PAGE_SIZE,
                       sc_entry := (sc_entry a \<or> absolute_entry \<ge> start \<and> absolute_entry < end' \<and> ph_flags ph AND PF_X \<noteq> 0),
                       sc_loaded := sc_loaded a + 1\<rparr>))"

fun validate_segments ::
  "u8 list \<Rightarrow> u64 \<Rightarrow> u64 \<Rightarrow> elf64_program_header list \<Rightarrow> elf64_program_header list \<Rightarrow> elf_scan \<Rightarrow> elf_scan option" where
  "validate_segments img bias absolute_entry earlier [] a = Some a"
| "validate_segments img bias absolute_entry earlier (ph # phs) a =
     (case validate_segment img bias absolute_entry earlier ph a of
        None \<Rightarrow> None
      | Some a \<Rightarrow> validate_segments img bias absolute_entry (earlier @ [ph]) phs a)"

definition bias_allowed :: "u8 list \<Rightarrow> u64 \<Rightarrow> bool" where
  "bias_allowed img bias \<longleftrightarrow>
     \<not> (bias AND (NPK_PAGE_SIZE - 1) \<noteq> 0 \<or> (eh_type (elf_header img) = ET_EXEC \<and> bias \<noteq> 0)
        \<or> (eh_type (elf_header img) = ET_DYN \<and> bias < NPK_USER_DYN_BASE))"

definition elf64_validate_at_bias :: "u8 list \<Rightarrow> u64 \<Rightarrow> bool" where
  "elf64_validate_at_bias img bias =
     (let h = elf_header img
      in if \<not> header_valid img \<or> \<not> bias_allowed img bias \<or> add_overflows (eh_entry h) bias then False
         else case validate_segments img bias (eh_entry h + bias) [] (elf_programs img)
                     \<lparr>sc_pages = 0, sc_loaded = 0, sc_entry = False, sc_interp = False, sc_dynamic = False\<rparr> of
           None \<Rightarrow> False
         | Some a \<Rightarrow> \<not> (sc_loaded a = 0 \<or> sc_pages a = 0 \<or> sc_pages a > NPK_MAX_ELF_PAGES \<or> \<not> sc_entry a))"

definition elf_default_bias :: "u8 list \<Rightarrow> u64" where
  "elf_default_bias img = (if eh_type (elf_header img) = ET_DYN then NPK_USER_DYN_BASE else 0)"

definition elf64_validate :: "u8 list \<Rightarrow> bool" where
  "elf64_validate img \<longleftrightarrow> header_valid img \<and> elf64_validate_at_bias img (elf_default_bias img)"

text \<open>The interpreter path, empty if the image has none; \<open>None\<close> is the error.\<close>

definition elf64_get_interpreter :: "u8 list \<Rightarrow> nat \<Rightarrow> string option" where
  "elf64_get_interpreter img path_capacity =
     (if path_capacity < 2 \<or> \<not> header_valid img then None
      else case find (\<lambda>ph. ph_type ph = PT_INTERP) (elf_programs img) of
        None \<Rightarrow> Some []
      | Some ph \<Rightarrow>
          if \<not> interpreter_field_valid img ph \<or> unat (ph_filesz ph) \<ge> path_capacity then None
          else Some (cstring (field (unat (ph_offset ph)) (unat (ph_filesz ph)) img)))"

subsection \<open>Loading\<close>

definition locate_program_header :: "elf64_header \<Rightarrow> elf64_program_header list \<Rightarrow> u64 \<Rightarrow> u64" where
  "locate_program_header h programs bias =
     (let table_size = ucast (eh_phnum h) * ucast (eh_phentsize h)
      in case find (\<lambda>ph. ph_type ph = PT_PHDR \<and> ph_vaddr ph \<le> UINT64_MAX - bias) programs of
           Some ph \<Rightarrow> ph_vaddr ph + bias
         | None \<Rightarrow>
             (case find (\<lambda>ph. \<not> (ph_type ph \<noteq> PT_LOAD \<or> eh_phoff h < ph_offset ph \<or> table_size > ph_filesz ph
                        \<or> eh_phoff h - ph_offset ph > ph_filesz ph - table_size
                        \<or> ph_vaddr ph > UINT64_MAX - (eh_phoff h - ph_offset ph)
                        \<or> ph_vaddr ph + (eh_phoff h - ph_offset ph) > UINT64_MAX - bias)) programs of
                Some ph \<Rightarrow> ph_vaddr ph + (eh_phoff h - ph_offset ph) + bias
              | None \<Rightarrow> 0))"

text \<open>The first pass of the loader: the extent of the image, its pages and whether the entry is inside.\<close>

record elf_extent =
  ex_low :: u64
  ex_high :: u64
  ex_pages :: u64
  ex_loaded :: nat
  ex_entry :: bool

fun measure_segments :: "u64 \<Rightarrow> u64 \<Rightarrow> u64 \<Rightarrow> elf64_program_header list \<Rightarrow> elf_extent \<Rightarrow> elf_extent option" where
  "measure_segments isize bias entry [] e = Some e"
| "measure_segments isize bias entry (ph # phs) e =
     (if ph_type ph \<noteq> PT_LOAD then measure_segments isize bias entry phs e
      else case segment_range_valid ph isize bias of
        None \<Rightarrow> None
      | Some (start, end', page_start, page_end) \<Rightarrow>
          measure_segments isize bias entry phs
            \<lparr>ex_low = (if start < ex_low e then start else ex_low e),
             ex_high = (if end' > ex_high e then end' else ex_high e),
             ex_pages = ex_pages e + (page_end - page_start) div NPK_PAGE_SIZE,
             ex_loaded = ex_loaded e + 1,
             ex_entry = (ex_entry e \<or> entry \<ge> start \<and> entry < end' \<and> ph_flags ph AND PF_X \<noteq> 0)\<rparr>)"

definition segment_flags :: "elf64_program_header \<Rightarrow> u64" where
  "segment_flags ph = VM_USER OR (if ph_flags ph AND PF_W \<noteq> 0 then VM_WRITE else 0)
     OR (if ph_flags ph AND PF_X = 0 then VM_NX else 0)"

type_synonym page_records = "(vaddr \<times> paddr) list"

text \<open>One page of a segment: allocate, map, clear, copy the part of the file that falls into it, and
  record it.\<close>

definition load_page ::
  "u8 list \<Rightarrow> paddr \<Rightarrow> u64 \<Rightarrow> elf64_program_header \<Rightarrow> u64 \<Rightarrow> nat \<Rightarrow> vaddr \<Rightarrow> page_records \<Rightarrow> 'a vmm_state_scheme
   \<Rightarrow> page_records result \<times> 'a vmm_state_scheme" where
  "load_page img root bias ph start page_count va records s =
     (let (physical, s) = pmm_alloc_page s
      in if physical = 0 then (Inl ENOMEM, s)
         else if length records \<ge> page_count then (Inl ENOMEM, pmm_free_page physical s)
         else case vmm_map_page_root root va physical (segment_flags ph) s of
           (False, s) \<Rightarrow> (Inl ENOMEM, pmm_free_page physical s)
         | (True, s) \<Rightarrow>
             let s = memset_page physical s;
                 file_start = ph_vaddr ph + bias;
                 file_end = file_start + ph_filesz ph;
                 copy_start = (if start > va then start else va);
                 copy_end = (if file_end < va + NPK_PAGE_SIZE then file_end else va + NPK_PAGE_SIZE);
                 source_delta = copy_start - file_start
             in if copy_end > copy_start then
                  (if source_delta > ph_filesz ph \<or> copy_end - copy_start > ph_filesz ph - source_delta then (Inl EFAULT, s)
                   else (Inr (records @ [(va, physical)]),
                         write_phys (physical + (copy_start - va))
                           (field (unat (ph_offset ph + source_delta)) (unat (copy_end - copy_start)) img) s))
                else (Inr (records @ [(va, physical)]), s))"

text \<open>The loops keep the records made so far also when they fail: the roll-back needs them.\<close>

fun load_pages ::
  "u8 list \<Rightarrow> paddr \<Rightarrow> u64 \<Rightarrow> elf64_program_header \<Rightarrow> u64 \<Rightarrow> nat \<Rightarrow> vaddr list \<Rightarrow> page_records \<Rightarrow> 'a vmm_state_scheme
   \<Rightarrow> (unit result \<times> page_records) \<times> 'a vmm_state_scheme" where
  "load_pages img root bias ph start page_count [] records s = ((Inr (), records), s)"
| "load_pages img root bias ph start page_count (va # vas) records s =
     (case load_page img root bias ph start page_count va records s of
        (Inl e, s) \<Rightarrow> ((Inl e, records), s)
      | (Inr records, s) \<Rightarrow> load_pages img root bias ph start page_count vas records s)"

fun load_segments ::
  "u8 list \<Rightarrow> paddr \<Rightarrow> u64 \<Rightarrow> nat \<Rightarrow> elf64_program_header list \<Rightarrow> page_records \<Rightarrow> 'a vmm_state_scheme
   \<Rightarrow> (unit result \<times> page_records) \<times> 'a vmm_state_scheme" where
  "load_segments img root bias page_count [] records s = ((Inr (), records), s)"
| "load_segments img root bias page_count (ph # phs) records s =
     (if ph_type ph \<noteq> PT_LOAD then load_segments img root bias page_count phs records s
      else case segment_range_valid ph (image_size img) bias of
        None \<Rightarrow> ((Inl ENOEXEC, records), s)
      | Some (start, end', page_start, page_end) \<Rightarrow>
          (case load_pages img root bias ph start page_count (page_range page_start page_end) records s of
             ((Inl e, records), s) \<Rightarrow> ((Inl e, records), s)
           | ((Inr _, records), s) \<Rightarrow> load_segments img root bias page_count phs records s))"

definition unload_page :: "paddr \<Rightarrow> vaddr \<times> paddr \<Rightarrow> 'a vmm_state_scheme \<Rightarrow> 'a vmm_state_scheme" where
  "unload_page root r s = unmap_page root (fst r) s"

definition elf64_load_in_address_space ::
  "u8 list \<Rightarrow> paddr \<Rightarrow> u64 \<Rightarrow> 'a heap_state_scheme \<Rightarrow> elf_load_result result \<times> 'a heap_state_scheme" where
  "elf64_load_in_address_space img root load_bias s =
     (let h = elf_header img; programs = elf_programs img
      in if root = 0 \<or> \<not> header_valid img then (Inl EINVAL, s)
         else if \<not> bias_allowed img load_bias then (Inl EINVAL, s)
         else if \<not> elf64_validate_at_bias img load_bias then (Inl ENOEXEC, s)
         else case measure_segments (image_size img) load_bias (eh_entry h + load_bias) programs
                     \<lparr>ex_low = UINT64_MAX, ex_high = 0, ex_pages = 0, ex_loaded = 0, ex_entry = False\<rparr> of
           None \<Rightarrow> (Inl ENOEXEC, s)
         | Some e \<Rightarrow>
             if \<not> ex_entry e \<or> ex_pages e = 0 \<or> ex_pages e > NPK_MAX_ELF_PAGES then (Inl ENOEXEC, s)
             else let (node, s) = kcalloc (ex_pages e) 16 s
               in if node = 0 then (Inl ENOMEM, s)
                  else case load_segments img root load_bias (unat (ex_pages e)) programs [] s of
                    ((Inl err, records), s) \<Rightarrow> (Inl err, kfree node (fold (unload_page root) (rev records) s))
                  | ((Inr _, records), s) \<Rightarrow>
                      let interp = (case elf64_get_interpreter img 256 of None \<Rightarrow> [] | Some path \<Rightarrow> path)
                      in (Inr \<lparr>er_entry = eh_entry h + load_bias, er_image_base = ex_low e, er_image_end = ex_high e,
                               er_load_bias = load_bias, er_loaded_segments = ex_loaded e,
                               er_program_header = locate_program_header h programs load_bias,
                               er_program_header_count = eh_phnum h, er_program_header_size = eh_phentsize h,
                               er_has_interp = (interp \<noteq> []), er_interpreter = interp\<rparr>, kfree node s))"

definition elf64_load :: "u8 list \<Rightarrow> 'a heap_state_scheme \<Rightarrow> elf_load_result result \<times> 'a heap_state_scheme" where
  "elf64_load img s =
     (if \<not> header_valid img then (Inl EINVAL, s)
      else elf64_load_in_address_space img (vmm_current_root s) (elf_default_bias img) s)"

end
