(* ===== verification/Process.thy ===== *)
theory Process
  imports Elf
begin

text \<open>
  Processes and threads, \<^verbatim>\<open>src/proc/process.c\<close>, first part: the tables, register frames, signal queues,
  futexes, and the end of processes.  A process operation that works on a table entry reads it, computes on
  the value and writes it back (\<open>on_process\<close>); \<open>NULL\<close> pointers to threads and processes are \<open>None\<close>.
\<close>

abbreviation (input) KERNEL_CS :: u64 where "KERNEL_CS \<equiv> 0x08"
abbreviation (input) USER_CS :: u64 where "USER_CS \<equiv> 0x23"
abbreviation (input) USER_SS :: u64 where "USER_SS \<equiv> 0x1b"
abbreviation (input) NPK_SA_SIGINFO :: u64 where "NPK_SA_SIGINFO \<equiv> 4"
abbreviation (input) NPK_SIGNAL_FRAME_MAGIC :: u64 where "NPK_SIGNAL_FRAME_MAGIC \<equiv> 0x4e504b5349474652"
abbreviation (input) NPK_USER_SIGINFO_SIZE :: u64 where "NPK_USER_SIGINFO_SIZE \<equiv> 128"
abbreviation (input) NPK_USER_UCONTEXT_SIZE :: u64 where "NPK_USER_UCONTEXT_SIZE \<equiv> 256"
abbreviation (input) NPK_FUTEX_MAX_WAITERS :: nat where "NPK_FUTEX_MAX_WAITERS \<equiv> 256"

record futex_waiter =
  fw_active :: bool
  fw_thread :: nat
  fw_root :: paddr
  fw_address :: vaddr
  fw_deadline :: u64
  fw_timed :: bool

record cpu_state =
  cpu_fs_base :: u64
  cpu_user_gs_base :: u64
  cpu_rsp0 :: u64
  cpu_syscall_process :: "nat option"

record proc_state = vfs_state +
  processes :: "nat \<Rightarrow> process"
  threads :: "nat \<Rightarrow> thread"
  next_pid :: u64
  next_tid :: u64
  current :: "nat option"
  bsp_idle_thread :: "nat option"
  scheduler_ticks :: u64
  reschedule_pending :: bool
  kernel_address_space_root :: paddr
  futex_waiters :: "nat \<Rightarrow> futex_waiter"
  cpu :: cpu_state
  user_display_owner :: u64
  ticks :: u64
  frequency :: u32

record syscall_frame =
  sf_rax :: u64
  sf_rbx :: u64
  sf_rcx :: u64
  sf_rdx :: u64
  sf_rsi :: u64
  sf_rdi :: u64
  sf_rbp :: u64
  sf_r8 :: u64
  sf_r9 :: u64
  sf_r10 :: u64
  sf_r11 :: u64
  sf_r12 :: u64
  sf_r13 :: u64
  sf_r14 :: u64
  sf_r15 :: u64
  sf_rip :: u64
  sf_cs :: u64
  sf_rflags :: u64
  sf_rsp :: u64
  sf_ss :: u64

definition upd_thread :: "nat \<Rightarrow> (thread \<Rightarrow> thread) \<Rightarrow> 'a proc_state_scheme \<Rightarrow> 'a proc_state_scheme" where
  "upd_thread i f s = s\<lparr>threads := (threads s)(i := f (threads s i))\<rparr>"

definition upd_process :: "nat \<Rightarrow> (process \<Rightarrow> process) \<Rightarrow> 'a proc_state_scheme \<Rightarrow> 'a proc_state_scheme" where
  "upd_process i f s = s\<lparr>processes := (processes s)(i := f (processes s i))\<rparr>"

definition on_process ::
  "nat \<Rightarrow> (process \<Rightarrow> 'a proc_state_scheme \<Rightarrow> 'r \<times> process \<times> 'a proc_state_scheme) \<Rightarrow> 'a proc_state_scheme \<Rightarrow> 'r \<times> 'a proc_state_scheme" where
  "on_process i f s = (let (r, p, s) = f (processes s i) s in (r, upd_process i (\<lambda>_. p) s))"

definition process_current :: "'a proc_state_scheme \<Rightarrow> nat option" where
  "process_current s = (case current s of None \<Rightarrow> None | Some t \<Rightarrow> th_owner (threads s t))"

definition scheduler_current :: "'a proc_state_scheme \<Rightarrow> nat option" where
  "scheduler_current s = current s"

subsection \<open>Register frames\<close>

text \<open>A wrapper frame is the fifteen general registers (r15 first, rax last) and the words the processor
  pushes: rip, cs, rflags, and rsp, ss for user mode.  The system-call frame has them in the order
  rax to r15.\<close>

definition user_entry_frame :: "u64 \<Rightarrow> u64 \<Rightarrow> u64 list" where
  "user_entry_frame entry user_rsp = replicate 15 0 @ [entry, USER_CS, 0x202, user_rsp, USER_SS]"

definition prepare_user_entry_frame :: "u64 \<Rightarrow> u64 \<Rightarrow> thread \<Rightarrow> thread" where
  "prepare_user_entry_frame entry user_rsp t =
     (if kernel_stack_top t = 0 then t
      else t\<lparr>saved_interrupt_frame := Some (user_entry_frame entry user_rsp), saved_frame_kind := 0\<rparr>)"

definition frame_regs :: "syscall_frame \<Rightarrow> u64 list" where
  "frame_regs f = [sf_r15 f, sf_r14 f, sf_r13 f, sf_r12 f, sf_r11 f, sf_r10 f, sf_r9 f, sf_r8 f, sf_rbp f, sf_rdi f,
     sf_rsi f, sf_rdx f, sf_rcx f, sf_rbx f, sf_rax f]"

definition prepare_fork_frame_with_stack :: "syscall_frame \<Rightarrow> vaddr \<Rightarrow> thread \<Rightarrow> bool \<times> thread" where
  "prepare_fork_frame_with_stack parent child_stack t =
     (if kernel_stack_top t = 0 then (False, t)
      else (True, t\<lparr>saved_interrupt_frame := Some (frame_regs (parent\<lparr>sf_rax := 0\<rparr>) @
                     [sf_rip parent, sf_cs parent, sf_rflags parent,
                      if child_stack \<noteq> 0 then child_stack else sf_rsp parent, sf_ss parent]),
                   saved_frame_kind := 0\<rparr>))"

definition prepare_fork_frame :: "syscall_frame \<Rightarrow> thread \<Rightarrow> bool \<times> thread" where
  "prepare_fork_frame parent t = prepare_fork_frame_with_stack parent 0 t"

definition context_frame :: "cpu_context \<Rightarrow> u64 list" where
  "context_frame c = rev (ctx_regs c) @ [ctx_rip c, KERNEL_CS, if ctx_rflags c \<noteq> 0 then ctx_rflags c else 0x202]"

definition materialize_context_frame :: "thread \<Rightarrow> thread" where
  "materialize_context_frame t =
     (if ctx_rip (th_context t) = 0 \<or> ctx_rsp (th_context t) = 0 then t
      else t\<lparr>saved_interrupt_frame := Some (context_frame (th_context t)), saved_frame_kind := 0\<rparr>)"

subsection \<open>Lookups\<close>

definition wait_target_matches :: "int \<Rightarrow> process \<Rightarrow> bool" where
  "wait_target_matches target_pid child =
     (if target_pid = -1 then True else target_pid > 0 \<and> of_int target_pid = pid child)"

definition find_process_by_pid :: "u64 \<Rightarrow> 'a proc_state_scheme \<Rightarrow> nat option" where
  "find_process_by_pid p s = find (\<lambda>i. pid (processes s i) = p) [1..<NPK_MAX_PROCESSES]"

subsection \<open>Signals\<close>

definition signal_bit :: "u64 \<Rightarrow> u64" where
  "signal_bit signal = (if signal \<ge> 1 \<and> signal \<le> 64 then push_bit (unat (signal - 1)) 1 else 0)"

definition signal_uncatchable :: "u64 \<Rightarrow> bool" where
  "signal_uncatchable signal \<longleftrightarrow> signal = 9 \<or> signal = 19"

definition signal_action_handler_valid :: "npk_sigaction \<Rightarrow> bool" where
  "signal_action_handler_valid action =
     (if sa_handler action = 0 \<or> sa_handler action = 1 then False
      else if \<not> vmm_is_user_range (sa_handler action) 1 then False
      else if sa_restorer action = 0 \<or> \<not> vmm_is_user_range (sa_restorer action) 1 then False
      else True)"

definition signal_queue_push :: "npk_signal_info \<Rightarrow> thread \<Rightarrow> bool \<times> thread" where
  "signal_queue_push info t =
     (if signal_queue_count t \<ge> NPK_SIGNAL_QUEUE_MAX then (False, t)
      else (True, t\<lparr>signal_queue := (signal_queue t)[signal_queue_tail t := info],
                   signal_queue_tail := (signal_queue_tail t + 1) mod NPK_SIGNAL_QUEUE_MAX,
                   signal_queue_count := signal_queue_count t + 1\<rparr>))"

definition queue_index :: "thread \<Rightarrow> nat \<Rightarrow> nat" where
  "queue_index t i = (signal_queue_head t + i) mod NPK_SIGNAL_QUEUE_MAX"

definition signal_queue_contains :: "thread \<Rightarrow> u64 \<Rightarrow> bool" where
  "signal_queue_contains t signal \<longleftrightarrow>
     list_ex (\<lambda>i. si_signal (signal_queue t ! queue_index t i) = signal) [0..<signal_queue_count t]"

text \<open>The compaction loop of \<^verbatim>\<open>signal_queue_pop\<close>: each entry after position \<open>i\<close> moves down by one.\<close>

function queue_close_gap :: "nat \<Rightarrow> thread \<Rightarrow> thread" where
  "queue_close_gap i t =
     (if i + 1 < signal_queue_count t
      then queue_close_gap (i + 1)
             (t\<lparr>signal_queue := (signal_queue t)[queue_index t i := signal_queue t ! queue_index t (i + 1)]\<rparr>)
      else t)"
  by pat_completeness auto

termination
  by (relation "measure (\<lambda>(i, t). signal_queue_count t - i)") auto

declare queue_close_gap.simps [simp del]

definition signal_queue_pop :: "u64 \<Rightarrow> thread \<Rightarrow> npk_signal_info option \<times> thread" where
  "signal_queue_pop signal t =
     (case find (\<lambda>i. si_signal (signal_queue t ! queue_index t i) = signal) [0..<signal_queue_count t] of
        None \<Rightarrow> (None, t)
      | Some found \<Rightarrow>
          let info = signal_queue t ! queue_index t found;
              t = queue_close_gap found t;
              n = signal_queue_count t - 1
          in (Some info, t\<lparr>signal_queue_count := n, signal_queue_tail := (signal_queue_head t + n) mod NPK_SIGNAL_QUEUE_MAX\<rparr>))"

text \<open>The raw \<^verbatim>\<open>siginfo_t\<close> and the frame header the handler finds on its stack.\<close>

definition siginfo_bytes :: "u64 \<Rightarrow> npk_signal_info \<Rightarrow> u8 list" where
  "siginfo_bytes signal info =
     overlay_at 24 (le64 (of_int (si_value info)))
      (overlay_at 20 (le32 (si_sender_uid info))
        (overlay_at 16 (le32 (of_int (si_sender_pid info)))
          (overlay_at 8 (le32 (of_int (si_code info)))
            (overlay_at 0 (le32 (ucast signal)) (zeros 128)))))"

definition signal_header_bytes :: "u64 \<Rightarrow> u64 \<Rightarrow> u64 \<Rightarrow> u8 list" where
  "signal_header_bytes signal siginfo ucontext =
     le64 NPK_SIGNAL_FRAME_MAGIC @ le64 signal @ le64 siginfo @ le64 ucontext"

fun copyout_all :: "(vaddr \<times> u8 list) list \<Rightarrow> process \<Rightarrow> 'a vfs_state_scheme \<Rightarrow> bool \<times> process \<times> 'a vfs_state_scheme" where
  "copyout_all [] p s = (True, p, s)"
| "copyout_all ((a, bs) # ws) p s =
     (case copyout_process p a bs s of
        (False, p, s) \<Rightarrow> (False, p, s)
      | (True, p, s) \<Rightarrow> copyout_all ws p s)"

definition signal_frame :: "u64 list \<Rightarrow> u64 \<Rightarrow> u64 \<Rightarrow> u64 \<Rightarrow> u64 \<Rightarrow> u64 \<Rightarrow> u64 list" where
  "signal_frame frame signal siginfo ucontext handler sp =
     frame[9 := signal, 10 := siginfo, 11 := ucontext, 15 := handler, 16 := USER_CS,
           17 := frame ! 17 OR 0x200, 18 := sp, 19 := USER_SS]"

definition signal_thread_update :: "u64 list \<Rightarrow> u64 \<Rightarrow> u64 \<Rightarrow> npk_sigaction \<Rightarrow> thread \<Rightarrow> thread" where
  "signal_thread_update frame signal sp action t =
     t\<lparr>signal_saved_frame := take 20 frame, signal_saved_mask := signal_blocked t, signal_inflight := True,
       signal_frame_user := sp, signal_restorer := sa_restorer action, signal_number := signal,
       signal_blocked := signal_blocked t OR (signal_bit signal OR sa_mask action ! 0)\<rparr>"

text \<open>The result is the frame to return to, \<open>None\<close> for failure.\<close>

definition process_deliver_signal_with_info ::
  "u64 list \<Rightarrow> u64 \<Rightarrow> npk_signal_info option \<Rightarrow> 'a proc_state_scheme \<Rightarrow> u64 list option \<times> 'a proc_state_scheme" where
  "process_deliver_signal_with_info frame signal info s =
     (case (current s, process_current s) of
        (Some t, Some i) \<Rightarrow>
          let action = signal_actions (processes s i) (unat signal);
              use_siginfo = (info \<noteq> None \<and> has_flag (sa_flags action) NPK_SA_SIGINFO);
              payload_size = (if use_siginfo then NPK_USER_SIGINFO_SIZE + NPK_USER_UCONTEXT_SIZE else 0);
              frame_size = 8 + 32 + payload_size;
              old_rsp = frame ! 18;
              sp = (old_rsp - frame_size) AND NOT 0xf;
              siginfo = (if use_siginfo then sp + 8 + 32 else 0);
              ucontext = (if use_siginfo then sp + 8 + 32 + NPK_USER_SIGINFO_SIZE else 0);
              writes = [(sp, le64 (sa_restorer action)), (sp + 8, signal_header_bytes signal siginfo ucontext)] @
                       (if use_siginfo then [(siginfo, siginfo_bytes signal (the info)), (ucontext, zeros 256)] else [])
          in if \<not> alive (processes s i) \<or> privilege_ring (threads s t) \<noteq> 3 \<or> signal = 0 \<or> signal > of_nat NPK_SIGNAL_MAX
                \<or> signal_inflight (threads s t) \<or> \<not> signal_action_handler_valid action
                \<or> old_rsp < frame_size \<or> old_rsp - frame_size < NPK_USER_MIN
                \<or> \<not> vmm_is_user_range sp frame_size then (None, s)
             else case on_process i (copyout_all writes) s of
               (False, s) \<Rightarrow> (None, s)
             | (True, s) \<Rightarrow>
                 (Some (signal_frame frame signal siginfo ucontext (sa_handler action) sp),
                  upd_thread t (signal_thread_update frame signal sp action) s)
      | _ \<Rightarrow> (None, s))"

definition process_deliver_signal :: "u64 list \<Rightarrow> u64 \<Rightarrow> 'a proc_state_scheme \<Rightarrow> u64 list option \<times> 'a proc_state_scheme" where
  "process_deliver_signal frame signal s = process_deliver_signal_with_info frame signal None s"

definition wrapper_of_frame :: "syscall_frame \<Rightarrow> u64 list" where
  "wrapper_of_frame f = frame_regs f @ [sf_rip f, sf_cs f, sf_rflags f, sf_rsp f, sf_ss f]"

definition frame_of_wrapper :: "u64 list \<Rightarrow> syscall_frame" where
  "frame_of_wrapper w = \<lparr>sf_rax = w ! 14, sf_rbx = w ! 13, sf_rcx = w ! 12, sf_rdx = w ! 11, sf_rsi = w ! 10, sf_rdi = w ! 9,
     sf_rbp = w ! 8, sf_r8 = w ! 7, sf_r9 = w ! 6, sf_r10 = w ! 5, sf_r11 = w ! 4, sf_r12 = w ! 3, sf_r13 = w ! 2,
     sf_r14 = w ! 1, sf_r15 = w ! 0, sf_rip = w ! 15, sf_cs = w ! 16, sf_rflags = w ! 17, sf_rsp = w ! 18, sf_ss = w ! 19\<rparr>"

text \<open>\<^verbatim>\<open>vmm_copyin\<close> and \<^verbatim>\<open>vmm_copyout\<close> for the current process.\<close>

definition copyin_current :: "vaddr \<Rightarrow> nat \<Rightarrow> 'a proc_state_scheme \<Rightarrow> u8 list option \<times> 'a proc_state_scheme" where
  "copyin_current a n s =
     (case process_current s of
        None \<Rightarrow> (let (r, _, s) = vmm_copyin None a n s in (r, s))
      | Some i \<Rightarrow> on_process i (\<lambda>p s. let (r, q, s) = vmm_copyin (Some p) a n s in (r, the q, s)) s)"

definition copyout_current :: "vaddr \<Rightarrow> u8 list \<Rightarrow> 'a proc_state_scheme \<Rightarrow> bool \<times> 'a proc_state_scheme" where
  "copyout_current a bs s =
     (case process_current s of
        None \<Rightarrow> (let (r, _, s) = vmm_copyout None a bs s in (r, s))
      | Some i \<Rightarrow> on_process i (\<lambda>p s. let (r, q, s) = vmm_copyout (Some p) a bs s in (r, the q, s)) s)"

definition signal_thread_restore :: "thread \<Rightarrow> thread" where
  "signal_thread_restore t =
     t\<lparr>signal_blocked := signal_saved_mask t, signal_saved_mask := 0, signal_inflight := False, signal_frame_user := 0,
       signal_restorer := 0, signal_number := 0, signal_saved_frame := replicate 20 0\<rparr>"

definition process_sigreturn :: "syscall_frame \<Rightarrow> 'a proc_state_scheme \<Rightarrow> (u64 result \<times> syscall_frame) \<times> 'a proc_state_scheme" where
  "process_sigreturn frame s =
     (case current s of
        None \<Rightarrow> ((Inl EINVAL, frame), s)
      | Some i \<Rightarrow>
          let t = threads s i
          in if \<not> signal_inflight t \<or> sf_rsp frame \<noteq> signal_frame_user t + 8 \<or> \<not> vmm_is_user_range (sf_rip frame) 1
             then ((Inl EINVAL, frame), s)
             else case copyin_current (signal_frame_user t + 8) 32 s of
               (None, s) \<Rightarrow> ((Inl EINVAL, frame), s)
             | (Some h, s) \<Rightarrow>
                 if of_le64 (field 0 8 h) \<noteq> NPK_SIGNAL_FRAME_MAGIC \<or> of_le64 (field 8 8 h) \<noteq> signal_number t
                    \<or> sf_rip frame < signal_restorer t \<or> sf_rip frame - signal_restorer t > 32
                 then ((Inl EINVAL, frame), s)
                 else let f = frame_of_wrapper (signal_saved_frame t)
                   in ((Inr (sf_rax f), f), upd_thread i signal_thread_restore s))"

subsection \<open>Futexes\<close>

definition complete_thread :: "int \<Rightarrow> thread \<Rightarrow> thread" where
  "complete_thread r t =
     t\<lparr>futex_waiting := False, futex_result := r,
       th_state := (if th_state t = THREAD_BLOCKED then THREAD_READY else th_state t)\<rparr>"

definition futex_complete_step :: "nat \<Rightarrow> int \<Rightarrow> nat \<Rightarrow> 'a proc_state_scheme \<Rightarrow> 'a proc_state_scheme" where
  "futex_complete_step t r i s =
     (let w = futex_waiters s i
      in if \<not> fw_active w \<or> fw_thread w \<noteq> t then s
         else upd_thread t (complete_thread r) (s\<lparr>futex_waiters := (futex_waiters s)(i := w\<lparr>fw_active := False\<rparr>)\<rparr>))"

definition futex_complete_thread :: "nat \<Rightarrow> int \<Rightarrow> 'a proc_state_scheme \<Rightarrow> 'a proc_state_scheme" where
  "futex_complete_thread t r s = fold (futex_complete_step t r) [0..<NPK_FUTEX_MAX_WAITERS] s"

definition futex_cancel_thread :: "nat \<Rightarrow> 'a proc_state_scheme \<Rightarrow> 'a proc_state_scheme" where
  "futex_cancel_thread t s = futex_complete_thread t (- errno_num EINTR) s"

fun futex_wake_loop :: "paddr \<Rightarrow> vaddr \<Rightarrow> nat \<Rightarrow> nat list \<Rightarrow> nat \<Rightarrow> 'a proc_state_scheme \<Rightarrow> nat \<times> 'a proc_state_scheme" where
  "futex_wake_loop root address count [] woken s = (woken, s)"
| "futex_wake_loop root address count (i # is) woken s =
     (if woken \<ge> count then (woken, s)
      else let w = futex_waiters s i
        in if \<not> fw_active w \<or> fw_root w \<noteq> root \<or> fw_address w \<noteq> address
           then futex_wake_loop root address count is woken s
           else futex_wake_loop root address count is (woken + 1) (futex_complete_thread (fw_thread w) 0 s))"

definition futex_wake_internal :: "paddr \<Rightarrow> vaddr \<Rightarrow> u32 \<Rightarrow> 'a proc_state_scheme \<Rightarrow> nat \<times> 'a proc_state_scheme" where
  "futex_wake_internal root address count s = futex_wake_loop root address (unat count) [0..<NPK_FUTEX_MAX_WAITERS] 0 s"

definition clear_child_tid :: "nat \<Rightarrow> 'a proc_state_scheme \<Rightarrow> 'a proc_state_scheme" where
  "clear_child_tid t s =
     (case th_owner (threads s t) of
        None \<Rightarrow> s
      | Some i \<Rightarrow>
          let address = clear_child_tid_address (threads s t)
          in if address = 0 then s
             else let (ok, s) = (if vmm_is_user_range address 4 then on_process i (\<lambda>p. vm_ensure_user_page p address True) s else (False, s));
                      s = (if ok then
                             let (_, s) = on_process i (\<lambda>p. copyout_process p address (le32 0)) s
                             in snd (futex_wake_internal (address_space_root (processes s i)) address UINT32_MAX s)
                           else s)
               in upd_thread t (\<lambda>t. t\<lparr>clear_child_tid_address := 0\<rparr>) s)"

definition futex_expire_step :: "u64 \<Rightarrow> nat \<Rightarrow> 'a proc_state_scheme \<Rightarrow> 'a proc_state_scheme" where
  "futex_expire_step now i s =
     (let w = futex_waiters s i
      in if \<not> fw_active w \<or> \<not> fw_timed w then s
         else if sint (now - fw_deadline w) \<ge> 0 then futex_complete_thread (fw_thread w) (- errno_num ETIMEDOUT) s
         else s)"

definition futex_expire_waiters :: "'a proc_state_scheme \<Rightarrow> 'a proc_state_scheme" where
  "futex_expire_waiters s = fold (futex_expire_step (ticks s)) [0..<NPK_FUTEX_MAX_WAITERS] s"

text \<open>The conversion of a relative timeout to ticks, on the two fields read from user memory.\<close>

definition timespec_ticks :: "u32 \<Rightarrow> int \<Rightarrow> int \<Rightarrow> u64 option" where
  "timespec_ticks freq seconds nanoseconds =
     (if seconds < 0 \<or> nanoseconds < 0 \<or> nanoseconds \<ge> 1000000000 then None
      else let f = ucast freq :: u64
        in if of_int seconds > UINT64_MAX div f then None
           else let t = of_int seconds * f; fractional = (of_int nanoseconds * f) div 1000000000
             in if t > UINT64_MAX - fractional then None
                else let t = t + fractional
                  in Some (if t = 0 \<and> (seconds \<noteq> 0 \<or> nanoseconds \<noteq> 0) then 1 else t))"

definition futex_timespec_to_ticks :: "vaddr \<Rightarrow> 'a proc_state_scheme \<Rightarrow> u64 option \<times> 'a proc_state_scheme" where
  "futex_timespec_to_ticks user_timeout s =
     (if user_timeout = 0 then (Some 0, s)
      else case copyin_current user_timeout 16 s of
        (None, s) \<Rightarrow> (None, s)
      | (Some b, s) \<Rightarrow> (timespec_ticks (frequency s) (sint (of_le64 (field 0 8 b))) (sint (of_le64 (field 8 8 b))), s))"

end
