(* ===== verification/Process_Life.thy ===== *)
theory Process_Life
  imports Process
begin

text \<open>
  Processes and threads, \<^verbatim>\<open>src/proc/process.c\<close>, second part: sending signals, the life of a process from
  creation to reaping, and the scheduler.  An operation that may leave the calling thread without returning
  has an outcome: it returns, or the processor goes on in another thread (whose saved frame is then restored),
  or it halts.  The contents of the processor's registers at a \<^verbatim>\<open>context_switch\<close> between kernel threads are
  not modelled.
\<close>

datatype 'r outcome = Returns 'r | Switches nat | Halts

datatype delivery = NotDelivered | Delivered "u64 list" | Terminates u64

subsection \<open>Sending signals\<close>

definition signal_target_process :: "int \<Rightarrow> 'a proc_state_scheme \<Rightarrow> nat option" where
  "signal_target_process target s =
     (if target = 0 then process_current s
      else if target > 0 then find_process_by_pid (of_int target) s else None)"

definition signal_candidate :: "nat \<Rightarrow> 'a proc_state_scheme \<Rightarrow> nat \<Rightarrow> bool" where
  "signal_candidate i s t \<longleftrightarrow>
     th_owner (threads s t) = Some i \<and> th_state (threads s t) \<noteq> THREAD_UNUSED \<and> th_state (threads s t) \<noteq> THREAD_ZOMBIE"

definition select_signal_thread :: "nat \<Rightarrow> u64 \<Rightarrow> 'a proc_state_scheme \<Rightarrow> nat option" where
  "select_signal_thread i b s =
     (case find (\<lambda>t. signal_candidate i s t \<and> signal_blocked (threads s t) AND b = 0) [0..<NPK_MAX_THREADS] of
        Some t \<Rightarrow> Some t
      | None \<Rightarrow> find (signal_candidate i s) [0..<NPK_MAX_THREADS])"

definition queue_signal_to_thread :: "nat \<Rightarrow> u64 \<Rightarrow> npk_signal_info option \<Rightarrow> 'a proc_state_scheme \<Rightarrow> unit result \<times> 'a proc_state_scheme" where
  "queue_signal_to_thread t signal info s =
     (let b = signal_bit signal
      in if b = 0 then (Inl ESRCH, s)
         else let (ok, th) = (case info of None \<Rightarrow> (True, threads s t) | Some i \<Rightarrow> signal_queue_push i (threads s t))
           in if \<not> ok then (Inl EAGAIN, s)
              else let s = upd_thread t (\<lambda>_. th\<lparr>signal_pending := signal_pending th OR b\<rparr>) s
                in (Inr (), if futex_waiting th \<and> (signal_uncatchable signal \<or> signal_blocked th AND b = 0)
                            then futex_complete_thread t (- errno_num EINTR) s else s))"

definition process_send_signal_info :: "int \<Rightarrow> u64 \<Rightarrow> npk_signal_info option \<Rightarrow> 'a proc_state_scheme \<Rightarrow> unit result \<times> 'a proc_state_scheme" where
  "process_send_signal_info target signal info s =
     (if signal > of_nat NPK_SIGNAL_MAX then (Inl EINVAL, s)
      else case signal_target_process target s of
        None \<Rightarrow> (Inl ESRCH, s)
      | Some i \<Rightarrow>
          if \<not> alive (processes s i) then (Inl ESRCH, s)
          else if signal = 0 then (Inr (), s)
          else case select_signal_thread i (signal_bit signal) s of
            None \<Rightarrow> (Inl ESRCH, s)
          | Some t \<Rightarrow> queue_signal_to_thread t signal info s)"

definition process_send_signal :: "int \<Rightarrow> u64 \<Rightarrow> 'a proc_state_scheme \<Rightarrow> unit result \<times> 'a proc_state_scheme" where
  "process_send_signal target signal s = process_send_signal_info target signal None s"

definition process_send_thread_signal_info ::
  "int \<Rightarrow> int \<Rightarrow> u64 \<Rightarrow> npk_signal_info option \<Rightarrow> 'a proc_state_scheme \<Rightarrow> unit result \<times> 'a proc_state_scheme" where
  "process_send_thread_signal_info tgid target signal info s =
     (if tgid \<le> 0 \<or> target \<le> 0 \<or> signal > of_nat NPK_SIGNAL_MAX then (Inl EINVAL, s)
      else case find_process_by_pid (of_int tgid) s of
        None \<Rightarrow> (Inl ESRCH, s)
      | Some i \<Rightarrow>
          if \<not> alive (processes s i) then (Inl ESRCH, s)
          else case find (\<lambda>t. tid (threads s t) = of_int target \<and> th_owner (threads s t) = Some i
                              \<and> th_state (threads s t) \<noteq> THREAD_UNUSED) [0..<NPK_MAX_THREADS] of
            None \<Rightarrow> (Inl ESRCH, s)
          | Some t \<Rightarrow> if signal = 0 then (Inr (), s) else queue_signal_to_thread t signal info s)"

definition process_send_thread_signal :: "int \<Rightarrow> int \<Rightarrow> u64 \<Rightarrow> 'a proc_state_scheme \<Rightarrow> unit result \<times> 'a proc_state_scheme" where
  "process_send_thread_signal tgid target signal s = process_send_thread_signal_info tgid target signal None s"

definition process_get_signal_mask :: "'a proc_state_scheme \<Rightarrow> u64" where
  "process_get_signal_mask s = (case current s of None \<Rightarrow> 0 | Some t \<Rightarrow> signal_blocked (threads s t))"

definition process_set_signal_mask :: "u64 \<Rightarrow> 'a proc_state_scheme \<Rightarrow> 'a proc_state_scheme" where
  "process_set_signal_mask m s =
     (case current s of
        None \<Rightarrow> s
      | Some t \<Rightarrow> upd_thread t (\<lambda>th. th\<lparr>signal_blocked := m AND NOT (signal_bit 9) AND NOT (signal_bit 19)\<rparr>) s)"

text \<open>Taking one pending signal off a thread: the queued information, if any, and the thread with the
  signal still pending when more of it is queued.\<close>

definition take_pending :: "u64 \<Rightarrow> thread \<Rightarrow> npk_signal_info option \<times> thread" where
  "take_pending signal t =
     (let b = signal_bit signal;
          (info, t) = signal_queue_pop signal (t\<lparr>signal_pending := signal_pending t AND NOT b\<rparr>)
      in (info, if signal_queue_contains t signal then t\<lparr>signal_pending := signal_pending t OR b\<rparr> else t))"

fun deliver_loop :: "u64 list \<Rightarrow> nat \<Rightarrow> nat \<Rightarrow> u64 \<Rightarrow> u64 list \<Rightarrow> 'a proc_state_scheme \<Rightarrow> delivery \<times> 'a proc_state_scheme" where
  "deliver_loop frame t i deliverable [] s = (NotDelivered, s)"
| "deliver_loop frame t i deliverable (signal # signals) s =
     (if signal_bit signal = 0 \<or> deliverable AND signal_bit signal = 0 then deliver_loop frame t i deliverable signals s
      else let action = signal_actions (processes s i) (unat signal);
               (info, th) = take_pending signal (threads s t);
               s = upd_thread t (\<lambda>_. th) s
        in if sa_handler action = 1 \<and> \<not> signal_uncatchable signal then deliver_loop frame t i deliverable signals s
           else if signal_uncatchable signal \<or> sa_handler action = 0 then (Terminates signal, s)
           else case process_deliver_signal_with_info frame signal info s of
             (Some frame, s) \<Rightarrow> (Delivered frame, s)
           | (None, s) \<Rightarrow> (Terminates signal, s))"

definition all_signals :: "u64 list" where
  "all_signals = map of_nat [1..<65]"

definition process_deliver_pending_common :: "u64 list \<Rightarrow> 'a proc_state_scheme \<Rightarrow> delivery \<times> 'a proc_state_scheme" where
  "process_deliver_pending_common frame s =
     (case (current s, process_current s) of
        (Some t, Some i) \<Rightarrow>
          if \<not> alive (processes s i) \<or> privilege_ring (threads s t) \<noteq> 3 \<or> signal_inflight (threads s t) then (NotDelivered, s)
          else deliver_loop frame t i (signal_pending (threads s t) AND NOT (signal_blocked (threads s t))) all_signals s
      | _ \<Rightarrow> (NotDelivered, s))"

definition process_deliver_pending_signal :: "u64 list \<Rightarrow> 'a proc_state_scheme \<Rightarrow> delivery \<times> 'a proc_state_scheme" where
  "process_deliver_pending_signal frame s = process_deliver_pending_common frame s"

text \<open>On a system-call frame: the frame to return with, unchanged when nothing was delivered.\<close>

definition process_deliver_pending_signal_syscall ::
  "syscall_frame \<Rightarrow> 'a proc_state_scheme \<Rightarrow> (u64 option \<times> syscall_frame) \<times> 'a proc_state_scheme" where
  "process_deliver_pending_signal_syscall f s =
     (case process_deliver_pending_common (wrapper_of_frame f) s of
        (NotDelivered, s) \<Rightarrow> ((None, f), s)
      | (Delivered w, s) \<Rightarrow> ((None, frame_of_wrapper w), s)
      | (Terminates signal, s) \<Rightarrow> ((Some signal, f), s))"

subsection \<open>The end of a process\<close>

definition close_fd_entry :: "nat \<Rightarrow> process \<times> 'a vfs_state_scheme \<Rightarrow> process \<times> 'a vfs_state_scheme" where
  "close_fd_entry i ps =
     (let (p, s) = ps
      in if fds p ! i \<ge> 0 then (p\<lparr>fds := (fds p)[i := -1]\<rparr>, snd (vfs_close (fds p ! i) s)) else (p, s))"

definition close_process_fds :: "process \<Rightarrow> 'a vfs_state_scheme \<Rightarrow> process \<times> 'a vfs_state_scheme" where
  "close_process_fds p s = fold close_fd_entry [0..<NPK_MAX_FDS] (p, s)"

definition discard_incoming_fd_transfers :: "process \<Rightarrow> 'a vfs_state_scheme \<Rightarrow> process \<times> 'a vfs_state_scheme" where
  "discard_incoming_fd_transfers p s =
     (p\<lparr>incoming_fd_transfers := []\<rparr>,
      fold (\<lambda>(h, _) s. if h \<ge> 0 then snd (vfs_close h s) else s) (incoming_fd_transfers p) s)"

definition destroy_process_memory :: "process \<Rightarrow> 'a proc_state_scheme \<Rightarrow> process \<times> 'a proc_state_scheme" where
  "destroy_process_memory p s =
     (let root = address_space_root p; kernel = kernel_address_space_root s;
          (p, s) = vm_destroy_all p s
      in if root = 0 then (p, s)
         else let s = (if root = vmm_current_root s \<and> kernel \<noteq> 0 \<and> kernel \<noteq> root then s\<lparr>cr3 := kernel\<rparr> else s);
                  s = (if root \<noteq> kernel \<and> root \<noteq> vmm_current_root s then vmm_destroy_address_space root s else s)
           in (p\<lparr>address_space_root := 0\<rparr>, s))"

definition on_process_value ::
  "nat \<Rightarrow> (process \<Rightarrow> 'a proc_state_scheme \<Rightarrow> process \<times> 'a proc_state_scheme) \<Rightarrow> 'a proc_state_scheme \<Rightarrow> 'a proc_state_scheme" where
  "on_process_value i f s = (let (p, s) = f (processes s i) s in upd_process i (\<lambda>_. p) s)"

definition reap_thread :: "nat \<Rightarrow> nat \<Rightarrow> 'a proc_state_scheme \<Rightarrow> 'a proc_state_scheme" where
  "reap_thread i t s =
     (if th_owner (threads s t) \<noteq> Some i then s
      else let s = (if current s \<noteq> Some t \<and> kernel_stack (threads s t) \<noteq> 0 then kfree (kernel_stack (threads s t)) s else s)
        in upd_thread t (\<lambda>_. zero_thread) s)"

definition reap_process :: "nat \<Rightarrow> 'a proc_state_scheme \<Rightarrow> 'a proc_state_scheme" where
  "reap_process i s =
     (if i = 0 \<or> alive (processes s i) \<or> pid (processes s i) = 0 \<or> process_current s = Some i then s
      else let s = on_process_value i destroy_process_memory s;
               s = on_process_value i close_process_fds s;
               s = fold (reap_thread i) [1..<NPK_MAX_THREADS] s
        in upd_process i (\<lambda>_. zero_process) s)"

definition process_reap_pending :: "'a proc_state_scheme \<Rightarrow> 'a proc_state_scheme" where
  "process_reap_pending s =
     (case process_current s of
        None \<Rightarrow> s
      | Some i \<Rightarrow>
          let child = pending_reap_pid (processes s i)
          in if child = 0 then s
             else let s = upd_process i (\<lambda>p. p\<lparr>pending_reap_pid := 0\<rparr>) s
               in case find_process_by_pid child s of
                    None \<Rightarrow> s
                  | Some c \<Rightarrow> if parent_pid (processes s c) = pid (processes s i) \<and> \<not> alive (processes s c)
                              then reap_process c s else s)"

definition wake_parent_waiter :: "nat \<Rightarrow> 'a proc_state_scheme \<Rightarrow> 'a proc_state_scheme" where
  "wake_parent_waiter c s =
     (let child = processes s c
      in if parent_pid child = 0 then s
         else case find_process_by_pid (parent_pid child) s of
           None \<Rightarrow> s
         | Some i \<Rightarrow>
             let parent = processes s i
             in if \<not> alive parent \<or> \<not> wait_active parent \<or> \<not> wait_target_matches (wait_target parent) child then s
                else
                  let (status_ok, s) = (if wait_status_user parent = 0 then (True, s)
                        else on_process i (\<lambda>p. copyout_process p (wait_status_user parent) (le32 (push_bit 8 (ucast (exit_status child))))) s)
                  in case find (\<lambda>t. th_owner (threads s t) = Some i \<and> th_state (threads s t) = THREAD_BLOCKED) [0..<NPK_MAX_THREADS] of
                       None \<Rightarrow> s
                     | Some t \<Rightarrow>
                         let r = (if status_ok then uint (pid child) else - errno_num EFAULT);
                             s = upd_process i (\<lambda>p. p\<lparr>wait_active := False, wait_result := r,
                                   pending_reap_pid := (if status_ok then pid child else pending_reap_pid p), wait_woken := True\<rparr>) s
                         in upd_thread t (\<lambda>th. th\<lparr>th_state := THREAD_READY,
                              saved_interrupt_frame := map_option (\<lambda>f. f[0 := of_int r]) (saved_interrupt_frame th)\<rparr>) s)"

definition gop_release_user_display :: "u64 \<Rightarrow> 'a proc_state_scheme \<Rightarrow> 'a proc_state_scheme" where
  "gop_release_user_display p s = (if p \<noteq> 0 \<and> user_display_owner s = p then s\<lparr>user_display_owner := 0\<rparr> else s)"

definition exit_thread_step :: "nat \<Rightarrow> u8 \<Rightarrow> nat \<Rightarrow> 'a proc_state_scheme \<Rightarrow> 'a proc_state_scheme" where
  "exit_thread_step i status t s =
     (if th_owner (threads s t) \<noteq> Some i \<or> th_state (threads s t) = THREAD_UNUSED then s
      else upd_thread t (\<lambda>th. th\<lparr>thread_exit_status := status, th_state := THREAD_ZOMBIE\<rparr>)
             (futex_cancel_thread t (clear_child_tid t s)))"

text \<open>What both ways of ending a process have in common.\<close>

definition finish_process :: "nat \<Rightarrow> u8 \<Rightarrow> 'a proc_state_scheme \<Rightarrow> 'a proc_state_scheme" where
  "finish_process i status s =
     (let s = upd_process i (\<lambda>p. p\<lparr>exit_status := status, alive := False\<rparr>) s;
          s = gop_release_user_display (pid (processes s i)) s;
          s = on_process_value i vm_revoke_device_mappings s;
          s = on_process_value i destroy_process_memory s;
          s = on_process_value i close_process_fds s;
          s = on_process_value i discard_incoming_fd_transfers s
      in wake_parent_waiter i s)"

definition process_exit_current :: "u8 \<Rightarrow> 'a proc_state_scheme \<Rightarrow> 'a proc_state_scheme" where
  "process_exit_current status s =
     (case (current s, process_current s) of
        (Some t, Some i) \<Rightarrow>
          if t = 0 \<or> \<not> alive (processes s i) then s
          else let s = upd_process i (\<lambda>p. p\<lparr>group_exiting := True\<rparr>) s;
                   s = fold (exit_thread_step i status) [1..<NPK_MAX_THREADS] s;
                   s = upd_process i (\<lambda>p. p\<lparr>thread_count := 0\<rparr>) s
            in finish_process i status s
      | _ \<Rightarrow> s)"

definition process_exit_thread_current :: "u8 \<Rightarrow> 'a proc_state_scheme \<Rightarrow> 'a proc_state_scheme" where
  "process_exit_thread_current status s =
     (case (current s, process_current s) of
        (Some t, Some i) \<Rightarrow>
          if t = 0 \<or> \<not> alive (processes s i) \<or> group_exiting (processes s i) then s
          else
            let s = upd_thread t (\<lambda>th. th\<lparr>thread_exit_status := status, th_state := THREAD_ZOMBIE\<rparr>)
                      (futex_cancel_thread t (clear_child_tid t s));
                s = upd_process i (\<lambda>p. p\<lparr>thread_count := (if thread_count p > 0 then thread_count p - 1 else 0)\<rparr>) s;
                s = (if main_thread (processes s i) = Some t
                     then case find (\<lambda>c. th_owner (threads s c) = Some i \<and> th_state (threads s c) \<noteq> THREAD_ZOMBIE
                                         \<and> th_state (threads s c) \<noteq> THREAD_UNUSED) [1..<NPK_MAX_THREADS] of
                         None \<Rightarrow> upd_process i (\<lambda>p. p\<lparr>main_thread := None\<rparr>) s
                       | Some c \<Rightarrow> upd_process i (\<lambda>p. p\<lparr>main_thread := Some c\<rparr>) (upd_thread c (\<lambda>th. th\<lparr>group_leader := True\<rparr>) s)
                     else s)
            in if thread_count (processes s i) = 0
               then finish_process i status (upd_process i (\<lambda>p. p\<lparr>group_exiting := True\<rparr>) s)
               else s
      | _ \<Rightarrow> s)"

subsection \<open>The scheduler\<close>

definition allocate_thread :: "'a proc_state_scheme \<Rightarrow> nat option \<times> 'a proc_state_scheme" where
  "allocate_thread s =
     (case find (\<lambda>t. th_state (threads s t) = THREAD_UNUSED) [1..<NPK_MAX_THREADS] of
        None \<Rightarrow> (None, s)
      | Some t \<Rightarrow> (Some t, upd_thread t (\<lambda>_. zero_thread\<lparr>tid := next_tid s, th_state := THREAD_READY\<rparr>)
                             (s\<lparr>next_tid := next_tid s + 1\<rparr>)))"

definition activate_thread :: "nat \<Rightarrow> 'a proc_state_scheme \<Rightarrow> 'a proc_state_scheme" where
  "activate_thread t s =
     (case th_owner (threads s t) of
        None \<Rightarrow> s
      | Some i \<Rightarrow>
          let th = threads s t;
              s = upd_thread t (\<lambda>th. th\<lparr>th_state := THREAD_RUNNING\<rparr>) (s\<lparr>current := Some t\<rparr>);
              s = (if ctx_cr3 (th_context th) \<noteq> 0 \<and> ctx_cr3 (th_context th) \<noteq> vmm_current_root s
                   then s\<lparr>cr3 := ctx_cr3 (th_context th)\<rparr> else s)
          in s\<lparr>cpu := \<lparr>cpu_fs_base = (if privilege_ring th = 3 then fs_base th else 0),
                       cpu_user_gs_base = (if privilege_ring th = 3 then gs_base th else 0),
                       cpu_rsp0 = (if kernel_stack_top th \<noteq> 0 then kernel_stack_top th else cpu_rsp0 (cpu s)),
                       cpu_syscall_process = Some i\<rparr>\<rparr>)"

definition runnable :: "'a proc_state_scheme \<Rightarrow> nat option \<Rightarrow> bool \<Rightarrow> nat \<Rightarrow> bool" where
  "runnable s from allow_idle c \<longleftrightarrow>
     \<not> (c = 0 \<and> from \<noteq> Some 0) \<and> \<not> (\<not> allow_idle \<and> bsp_idle_thread s = Some c)
     \<and> th_state (threads s c) = THREAD_READY
     \<and> (case th_owner (threads s c) of None \<Rightarrow> False | Some i \<Rightarrow> alive (processes s i))"

definition find_next_runnable :: "nat option \<Rightarrow> bool \<Rightarrow> 'a proc_state_scheme \<Rightarrow> nat option" where
  "find_next_runnable from allow_idle s =
     (let start = (case from of None \<Rightarrow> 0 | Some t \<Rightarrow> t)
      in find (runnable s from allow_idle) (map (\<lambda>offset. (start + offset) mod NPK_MAX_THREADS) [1..<NPK_MAX_THREADS + 1]))"

definition next_runnable :: "nat option \<Rightarrow> 'a proc_state_scheme \<Rightarrow> nat option" where
  "next_runnable from s =
     (case find_next_runnable from False s of Some t \<Rightarrow> Some t | None \<Rightarrow> find_next_runnable from True s)"

definition next_non_idle_runnable :: "nat option \<Rightarrow> 'a proc_state_scheme \<Rightarrow> nat option" where
  "next_non_idle_runnable from s = find_next_runnable from False s"

definition scheduler_wake_thread :: "nat \<Rightarrow> 'a proc_state_scheme \<Rightarrow> 'a proc_state_scheme" where
  "scheduler_wake_thread t s =
     (if th_state (threads s t) \<noteq> THREAD_BLOCKED then s
      else (upd_thread t (\<lambda>th. th\<lparr>th_state := THREAD_READY\<rparr>) s)\<lparr>reschedule_pending := True\<rparr>)"

definition scheduler_tick :: "'a proc_state_scheme \<Rightarrow> 'a proc_state_scheme" where
  "scheduler_tick s =
     (let s = futex_expire_waiters (s\<lparr>scheduler_ticks := scheduler_ticks s + 1\<rparr>)
      in case current s of
           None \<Rightarrow> s
         | Some t \<Rightarrow>
             let s = upd_thread t (\<lambda>th. th\<lparr>th_state := THREAD_RUNNING\<rparr>) s
             in s\<lparr>reschedule_pending := (next_non_idle_runnable (Some t) s \<noteq> None)\<rparr>)"

definition scheduler_reschedule_pending :: "'a proc_state_scheme \<Rightarrow> bool" where
  "scheduler_reschedule_pending s = reschedule_pending s"

text \<open>The frame a thread is about to be resumed with: its saved frame, or one made from its context; and the
  delivery of a pending signal when it is a user frame of an interrupt.\<close>

definition ensure_frame :: "nat \<Rightarrow> 'a proc_state_scheme \<Rightarrow> 'a proc_state_scheme" where
  "ensure_frame t s =
     (if saved_interrupt_frame (threads s t) = None then upd_thread t materialize_context_frame s else s)"

definition deliver_on_resume :: "nat \<Rightarrow> 'a proc_state_scheme \<Rightarrow> u64 option \<times> 'a proc_state_scheme" where
  "deliver_on_resume t s =
     (case saved_interrupt_frame (threads s t) of
        None \<Rightarrow> (None, s)
      | Some f \<Rightarrow>
          if saved_frame_kind (threads s t) = 0 \<and> f ! 16 AND 3 = 3
          then case process_deliver_pending_signal f s of
              (NotDelivered, s) \<Rightarrow> (None, s)
            | (Delivered g, s) \<Rightarrow> (None, upd_thread t (\<lambda>th. th\<lparr>saved_interrupt_frame := Some g\<rparr>) s)
            | (Terminates signal, s) \<Rightarrow> (Some signal, s)
          else (None, s))"

text \<open>Ending the current process by a signal; \<open>False\<close> when there is none that may end.\<close>

definition terminate_current :: "u64 \<Rightarrow> 'a proc_state_scheme \<Rightarrow> bool \<times> 'a proc_state_scheme" where
  "terminate_current signal s =
     (case (current s, process_current s) of
        (Some t, Some i) \<Rightarrow>
          if t \<noteq> 0 \<and> alive (processes s i)
          then (True, process_exit_current (ucast (if 128 + signal > 255 then 255 else 128 + signal)) s)
          else (False, s)
      | _ \<Rightarrow> (False, s))"

text \<open>\<^verbatim>\<open>scheduler_yield\<close>.  A fatal signal found while resuming a user thread ends that thread's process and
  yields again; each such round ends a live process, so the number of rounds is bounded by the number of
  processes.\<close>

fun scheduler_yield_at :: "nat \<Rightarrow> 'a proc_state_scheme \<Rightarrow> unit outcome \<times> 'a proc_state_scheme" where
  "scheduler_yield_at rounds s =
     (case (current s, next_runnable (current s) s) of
        (Some old, Some t) \<Rightarrow>
          if t = old then (Returns (), s\<lparr>reschedule_pending := False\<rparr>)
          else
            let s = upd_thread old (\<lambda>th. th\<lparr>th_state := (if th_state th = THREAD_RUNNING then THREAD_READY else th_state th),
                      saved_interrupt_frame := (if th_state th = THREAD_BLOCKED then saved_interrupt_frame th else None)\<rparr>) s;
                s = (activate_thread t s)\<lparr>reschedule_pending := False\<rparr>
            in if privilege_ring (threads s t) = 0 then (Switches t, s)
               else case deliver_on_resume t (ensure_frame t s) of
                 (None, s) \<Rightarrow> (Switches t, s)
               | (Some signal, s) \<Rightarrow>
                   if rounds = 0 then (Halts, s)
                   else case terminate_current signal s of
                     (False, s) \<Rightarrow> (Halts, s)
                   | (True, s) \<Rightarrow>
                       (case scheduler_yield_at (rounds - 1) s of
                          (Returns _, s) \<Rightarrow> (Halts, s)
                        | (r, s) \<Rightarrow> (r, s))
      | _ \<Rightarrow> (Returns (), s\<lparr>reschedule_pending := False\<rparr>))"

declare scheduler_yield_at.simps [simp del]

definition scheduler_yield :: "'a proc_state_scheme \<Rightarrow> unit outcome \<times> 'a proc_state_scheme" where
  "scheduler_yield s = scheduler_yield_at NPK_MAX_PROCESSES s"

definition process_terminate_by_signal :: "u64 \<Rightarrow> 'a proc_state_scheme \<Rightarrow> unit outcome \<times> 'a proc_state_scheme" where
  "process_terminate_by_signal signal s =
     (case terminate_current signal s of
        (False, s) \<Rightarrow> (Halts, s)
      | (True, s) \<Rightarrow> (case scheduler_yield s of (Returns _, s) \<Rightarrow> (Halts, s) | (r, s) \<Rightarrow> (r, s)))"

text \<open>\<^verbatim>\<open>scheduler_preempt\<close>: the frame the interrupt returns to.\<close>

definition scheduler_preempt :: "u64 list \<Rightarrow> 'a proc_state_scheme \<Rightarrow> u64 list outcome \<times> 'a proc_state_scheme" where
  "scheduler_preempt frame s =
     (case current s of
        None \<Rightarrow> (Returns frame, s)
      | Some old \<Rightarrow>
          let s = futex_expire_waiters (s\<lparr>scheduler_ticks := scheduler_ticks s + 1\<rparr>)
          in if frame ! 16 AND 3 \<noteq> 3
             then (Returns frame, s\<lparr>reschedule_pending := (next_non_idle_runnable (Some old) s \<noteq> None)\<rparr>)
             else
               let s = upd_thread old (\<lambda>th. th\<lparr>saved_interrupt_frame := Some frame, saved_frame_kind := 0, th_state := THREAD_RUNNING\<rparr>) s
               in case next_non_idle_runnable (Some old) s of
                    None \<Rightarrow> (Returns frame, s\<lparr>reschedule_pending := False\<rparr>)
                  | Some t \<Rightarrow>
                      let s = upd_thread old (\<lambda>th. th\<lparr>th_state := THREAD_READY\<rparr>) s;
                          s = (activate_thread t s)\<lparr>reschedule_pending := False\<rparr>
                      in case deliver_on_resume t (ensure_frame t s) of
                           (Some signal, s) \<Rightarrow>
                             (case process_terminate_by_signal signal s of
                                (Switches u, s) \<Rightarrow> (Switches u, s)
                              | (_, s) \<Rightarrow> (Halts, s))
                         | (None, s) \<Rightarrow>
                             (Returns (case saved_interrupt_frame (threads s t) of None \<Rightarrow> frame | Some f \<Rightarrow> f), s))"

end
