(* ===== verification/Procfs.thy ===== *)
theory Procfs
  imports Vfs_Ops
begin

text \<open>
  The \<^verbatim>\<open>/proc\<close> files, \<^verbatim>\<open>src/fs/procfs.c\<close>.  A snapshot is text built in a buffer of a given capacity; the
  numbers it shows (uptime, page counts, the current process) are arguments.
\<close>

definition path_eq :: "string \<Rightarrow> string \<Rightarrow> bool" where
  "path_eq a b \<longleftrightarrow> a = b"

text \<open>The buffer is the list of the bytes written so far; \<open>None\<close> is a failed append.\<close>

definition append_text :: "nat \<Rightarrow> string \<Rightarrow> u8 list \<Rightarrow> u8 list option" where
  "append_text capacity txt buffer =
     (if length buffer > capacity \<or> length txt > capacity - length buffer then None else Some (buffer @ bytes_of txt))"

text \<open>The digits, least significant first, at most \<open>n\<close> of them.\<close>

fun digits_loop :: "nat \<Rightarrow> nat \<Rightarrow> string" where
  "digits_loop n v =
     (if n = 0 \<or> v = 0 then [] else char_of (48 + v mod 10) # digits_loop (n - 1) (v div 10))"

declare digits_loop.simps [simp del]

definition append_u64 :: "nat \<Rightarrow> u64 \<Rightarrow> u8 list \<Rightarrow> u8 list option" where
  "append_u64 capacity v buffer =
     (let digits = (if v = 0 then ''0'' else digits_loop 21 (unat v))
      in if length buffer > capacity \<or> length digits > capacity - length buffer then None
         else Some (buffer @ bytes_of (rev digits)))"

record proc_info =
  info_ticks :: u64
  info_frequency :: u64
  info_total_pages :: u64
  info_free_pages :: u64
  info_process :: "(bool \<times> u64) option"

fun append_all :: "(u8 list \<Rightarrow> u8 list option) list \<Rightarrow> u8 list \<Rightarrow> u8 list option" where
  "append_all [] buffer = Some buffer"
| "append_all (f # fs) buffer = (case f buffer of None \<Rightarrow> None | Some b \<Rightarrow> append_all fs b)"

definition procfs_content :: "proc_info \<Rightarrow> string \<Rightarrow> nat \<Rightarrow> (u8 list \<Rightarrow> u8 list option) list option" where
  "procfs_content i path cap =
     (if path_eq path ''/proc/uptime'' then
        Some [append_u64 cap (info_ticks i div info_frequency i), append_text cap [CHR 0x0A]]
      else if path_eq path ''/proc/meminfo'' then
        Some [append_text cap ''MemTotal: '', append_u64 cap (info_total_pages i * 4),
              append_text cap ('' kB'' @ [CHR 0x0A] @ ''MemFree: ''), append_u64 cap (info_free_pages i * 4),
              append_text cap ('' kB'' @ [CHR 0x0A])]
      else if path_eq path ''/proc/mounts'' then
        Some [append_text cap (''proc /proc proc ro 0 0'' @ [CHR 0x0A] @ ''initramfs / cpio ro 0 0'' @ [CHR 0x0A])]
      else if path_eq path ''/proc/self/status'' then
        Some [append_text cap (''Name:'' @ [CHR 0x09] @ ''NPKernel'' @ [CHR 0x0A] @ ''State:'' @ [CHR 0x09]),
              append_text cap ((case info_process i of Some (True, _) \<Rightarrow> ''R'' | _ \<Rightarrow> ''Z'') @ [CHR 0x0A] @ ''Pid:'' @ [CHR 0x09]),
              append_u64 cap (case info_process i of Some (_, pid) \<Rightarrow> pid | None \<Rightarrow> 1),
              append_text cap ([CHR 0x0A] @ ''Threads:'' @ [CHR 0x09] @ ''1'' @ [CHR 0x0A])]
      else if path_eq path ''/proc'' \<or> path_eq path ''/proc/'' then
        Some [append_text cap (''self'' @ [CHR 0x0A] @ ''meminfo'' @ [CHR 0x0A] @ ''uptime'' @ [CHR 0x0A] @ ''mounts'' @ [CHR 0x0A])]
      else None)"

definition procfs_snapshot :: "proc_info \<Rightarrow> string \<Rightarrow> nat \<Rightarrow> u8 list result" where
  "procfs_snapshot i path capacity =
     (if \<not> procfs_is_path path \<or> capacity = 0 then Inl EFAULT
      else case procfs_content i path capacity of
        None \<Rightarrow> Inl ENOENT
      | Some fs \<Rightarrow> (case append_all fs [] of None \<Rightarrow> Inl ENOSPC | Some b \<Rightarrow> Inr b))"

end
