(* ===== verification/Process_Exec.thy ===== *)
theory Process_Exec
  imports Process_Life Procfs
begin

text \<open>
  Processes and threads, \<^verbatim>\<open>src/proc/process.c\<close>, third part: creating processes and threads, loading a
  program image, fork and clone, waiting, and passing descriptors.  Argument and environment vectors are
  lists of strings (no \<open>NULL\<close> entries).  A blocking call is an outcome: when another thread runs instead,
  the caller later resumes from its saved frame and not after the call.
\<close>

abbreviation (input) NPK_MAX_EXEC_IMAGE :: int where "NPK_MAX_EXEC_IMAGE \<equiv> 16 * 1024 * 1024"
abbreviation (input) NPK_CLONE_THREAD_FLAGS :: u64 where "NPK_CLONE_THREAD_FLAGS \<equiv> 0x10f00"
abbreviation (input) NPK_CLONE_SETTLS :: u64 where "NPK_CLONE_SETTLS \<equiv> 0x80000"
abbreviation (input) NPK_CLONE_PARENT_SETTID :: u64 where "NPK_CLONE_PARENT_SETTID \<equiv> 0x10000000"
abbreviation (input) NPK_CLONE_CHILD_CLEARTID :: u64 where "NPK_CLONE_CHILD_CLEARTID \<equiv> 0x20000000"
abbreviation (input) NPK_CLONE_CHILD_SETTID :: u64 where "NPK_CLONE_CHILD_SETTID \<equiv> 0x100000000"
abbreviation (input) NPK_CLONE_OPTIONAL_FLAGS :: u64 where "NPK_CLONE_OPTIONAL_FLAGS \<equiv> 0x1300c0000"

subsection \<open>The kernel process and kernel threads\<close>

definition first_fds :: "int list" where
  "first_fds = [0, 1, 2] @ replicate 29 (-1)"

text \<open>The entry point of every kernel thread is the bootstrap function at address \<open>bootstrap\<close>; the copy of
  that address on the new stack is not part of the state.\<close>

definition scheduler_create_kernel_thread :: "u64 \<Rightarrow> u64 \<Rightarrow> u64 \<Rightarrow> 'a proc_state_scheme \<Rightarrow> nat option \<times> 'a proc_state_scheme" where
  "scheduler_create_kernel_thread bootstrap entry argument s =
     (if entry = 0 then (None, s)
      else case allocate_thread s of
        (None, s) \<Rightarrow> (None, s)
      | (Some t, s) \<Rightarrow>
          let (stack, s) = kcalloc 1 NPK_KERNEL_STACK_SIZE s
          in if stack = 0 then (None, upd_thread t (\<lambda>_. zero_thread) s)
             else let top = (stack + NPK_KERNEL_STACK_SIZE) AND NOT 0xf
               in (Some t, upd_thread t (\<lambda>th. th\<lparr>kernel_stack := stack, kernel_stack_top := top, privilege_ring := 0,
                     th_state := THREAD_READY, th_owner := Some 0, th_entry := entry, th_argument := argument,
                     th_context := (th_context th)\<lparr>ctx_rip := bootstrap, ctx_rsp := top - 16, ctx_rflags := 0x202,
                                                  ctx_cr3 := vmm_current_root s\<rparr>\<rparr>) s))"

text \<open>The flag of the result is \<open>False\<close> when the idle thread cannot be created and the kernel panics.\<close>

definition process_init :: "u64 \<Rightarrow> u64 \<Rightarrow> 'a proc_state_scheme \<Rightarrow> bool \<times> 'a proc_state_scheme" where
  "process_init bootstrap idle_entry s =
     (let s = s\<lparr>processes := (\<lambda>_. zero_process), threads := (\<lambda>_. zero_thread), kernel_address_space_root := vmm_current_root s\<rparr>;
          s = (upd_process 0 (\<lambda>p. p\<lparr>pid := next_pid s, thread_count := 1, alive := True, cwd := ''/'', fds := first_fds,
                 fd_flags := replicate NPK_MAX_FDS 0, main_thread := Some 0\<rparr>) s)\<lparr>next_pid := next_pid s + 1\<rparr>;
          s = (upd_thread 0 (\<lambda>t. t\<lparr>tid := next_tid s, th_state := THREAD_RUNNING, privilege_ring := 0, th_owner := Some 0,
                 group_leader := True\<rparr>) s)\<lparr>next_tid := next_tid s + 1\<rparr>;
          s = s\<lparr>current := Some 0, cpu := (cpu s)\<lparr>cpu_syscall_process := Some 0\<rparr>\<rparr>;
          (idle, s) = scheduler_create_kernel_thread bootstrap idle_entry 0 s
      in (idle \<noteq> None, s\<lparr>bsp_idle_thread := idle\<rparr>))"

subsection \<open>A new user process\<close>

definition user_process :: "u64 \<Rightarrow> paddr \<Rightarrow> u64 \<Rightarrow> nat \<Rightarrow> process" where
  "user_process new_pid root stack_top t =
     zero_process\<lparr>fds := first_fds, fd_flags := replicate NPK_MAX_FDS 0, pid := new_pid, thread_count := 1, alive := True,
       cwd := ''/'', address_space_root := root, main_thread := Some t, user_stack_top := NPK_USER_STACK_TOP,
       user_stack_limit := NPK_USER_STACK_TOP - NPK_USER_STACK_PAGES * NPK_PAGE_SIZE,
       user_stack_bottom := stack_top AND NOT (NPK_PAGE_SIZE - 1)\<rparr>"

definition process_create_user :: "paddr \<Rightarrow> u64 \<Rightarrow> u64 \<Rightarrow> 'a proc_state_scheme \<Rightarrow> nat option \<times> 'a proc_state_scheme" where
  "process_create_user root entry stack_top s =
     (if root = 0 \<or> \<not> vmm_is_user_range entry 1 \<or> stack_top < NPK_PAGE_SIZE
         \<or> \<not> vmm_is_user_range (stack_top - NPK_PAGE_SIZE) NPK_PAGE_SIZE then (None, s)
      else case find (\<lambda>i. \<not> alive (processes s i)) [1..<NPK_MAX_PROCESSES] of
        None \<Rightarrow> (None, s)
      | Some i \<Rightarrow>
          (case allocate_thread s of
             (None, s) \<Rightarrow> (None, s)
           | (Some t, s) \<Rightarrow>
               let s = (upd_process i (\<lambda>_. user_process (next_pid s) root stack_top t) s)\<lparr>next_pid := next_pid s + 1\<rparr>;
                   s = upd_thread t (\<lambda>th. th\<lparr>group_leader := True, privilege_ring := 3, th_owner := Some i,
                         th_context := (th_context th)\<lparr>ctx_rip := entry, ctx_rsp := stack_top, ctx_rflags := 0x202, ctx_cr3 := root\<rparr>,
                         th_user_stack_top := NPK_USER_STACK_TOP\<rparr>) s;
                   (stack, s) = kcalloc 1 NPK_KERNEL_STACK_SIZE s;
                   s = upd_thread t (\<lambda>th. th\<lparr>kernel_stack := stack\<rparr>) s
               in if stack = 0
                  then (None, upd_process i (\<lambda>p. p\<lparr>alive := False\<rparr>) (upd_thread t (\<lambda>th. th\<lparr>th_state := THREAD_ZOMBIE\<rparr>) s))
                  else (Some i, upd_thread t (\<lambda>th. prepare_user_entry_frame entry stack_top
                          (th\<lparr>kernel_stack_top := (stack + NPK_KERNEL_STACK_SIZE) AND NOT 0xf\<rparr>)) s)))"

text \<open>Strings are pushed last first; the addresses come out in the order of the vector.\<close>

fun push_strings ::
  "paddr \<Rightarrow> string list \<Rightarrow> u64 \<Rightarrow> u64 list \<Rightarrow> process \<Rightarrow> 'a vfs_state_scheme \<Rightarrow> (u64 \<times> u64 list) option \<times> process \<times> 'a vfs_state_scheme" where
  "push_strings root [] sp addresses p s = (Some (sp, addresses), p, s)"
| "push_strings root (str # strs) sp addresses p s =
     (let len = of_nat (length str + 1)
      in if length str + 1 > unat (NPK_PAGE_SIZE :: u64) \<or> sp < NPK_USER_MIN + len then (None, p, s)
         else case user_stack_write p root (sp - len) (bytes_of str @ [0]) s of
           (False, p, s) \<Rightarrow> (None, p, s)
         | (True, p, s) \<Rightarrow> push_strings root strs (sp - len) ((sp - len) # addresses) p s)"

fun push_words :: "paddr \<Rightarrow> u64 list \<Rightarrow> u64 \<Rightarrow> process \<Rightarrow> 'a vfs_state_scheme \<Rightarrow> u64 option \<times> process \<times> 'a vfs_state_scheme" where
  "push_words root [] sp p s = (Some sp, p, s)"
| "push_words root (w # ws) sp p s =
     (case user_stack_push p root sp w s of
        ((False, _), p, s) \<Rightarrow> (None, p, s)
      | ((True, sp), p, s) \<Rightarrow> push_words root ws sp p s)"

definition exec_auxv :: "elf_load_result \<Rightarrow> elf_load_result option \<Rightarrow> (u64 \<times> u64) list" where
  "exec_auxv main_image interpreter =
     (if er_program_header main_image \<noteq> 0
      then [(3, er_program_header main_image), (4, ucast (er_program_header_size main_image)), (5, ucast (er_program_header_count main_image))]
      else []) @ [(6, NPK_PAGE_SIZE)] @
     (case interpreter of
        Some i \<Rightarrow> if er_has_interp i \<and> er_entry i \<noteq> 0 then [(7, er_load_bias i)] else []
      | None \<Rightarrow> []) @ [(9, er_entry main_image), (0, 0)]"

text \<open>The words of the initial stack, from the stack pointer upwards.\<close>

definition initial_words :: "u64 list \<Rightarrow> u64 list \<Rightarrow> (u64 \<times> u64) list \<Rightarrow> u64 list" where
  "initial_words argv_addresses env_addresses auxv =
     of_nat (length argv_addresses) # argv_addresses @ 0 # env_addresses @ 0 # concat (map (\<lambda>(t, v). [t, v]) auxv)"

definition build_initial_user_stack ::
  "paddr \<Rightarrow> u64 \<Rightarrow> string list \<Rightarrow> string list \<Rightarrow> elf_load_result \<Rightarrow> elf_load_result option \<Rightarrow>
   process \<Rightarrow> 'a vfs_state_scheme \<Rightarrow> u64 option \<times> process \<times> 'a vfs_state_scheme" where
  "build_initial_user_stack root stack_top argv envp main_image interpreter p s =
     (if length argv > 64 \<or> length envp > 64 then (None, p, s)
      else case push_strings root (rev argv) stack_top [] p s of
        (None, p, s) \<Rightarrow> (None, p, s)
      | (Some (sp, argv_addresses), p, s) \<Rightarrow>
          (case push_strings root (rev envp) sp [] p s of
             (None, p, s) \<Rightarrow> (None, p, s)
           | (Some (sp, env_addresses), p, s) \<Rightarrow>
               push_words root (rev (initial_words argv_addresses env_addresses (exec_auxv main_image interpreter)))
                 (sp AND NOT 0xf) p s))"

subsection \<open>Staging a program image\<close>

fun register_segments :: "u64 \<Rightarrow> elf64_program_header list \<Rightarrow> process \<Rightarrow> 'a heap_state_scheme \<Rightarrow> bool \<times> process \<times> 'a heap_state_scheme" where
  "register_segments bias [] p s = (True, p, s)"
| "register_segments bias (ph # phs) p s =
     (if ph_type ph \<noteq> PT_LOAD \<or> ph_memsz ph = 0 then register_segments bias phs p s
      else if ph_vaddr ph > UINT64_MAX - bias \<or> ph_memsz ph > UINT64_MAX - (ph_vaddr ph + bias) then (False, p, s)
      else let start = (ph_vaddr ph + bias) AND NOT (NPK_PAGE_SIZE - 1);
               raw_end = ph_vaddr ph + bias + ph_memsz ph
        in if raw_end > UINT64_MAX - (NPK_PAGE_SIZE - 1) then (False, p, s)
           else let stop = (raw_end + NPK_PAGE_SIZE - 1) AND NOT (NPK_PAGE_SIZE - 1);
                    protection = (if ph_flags ph AND PF_R \<noteq> 0 then NPK_PROT_READ else 0)
                      OR (if ph_flags ph AND PF_W \<noteq> 0 then NPK_PROT_WRITE else 0)
                      OR (if ph_flags ph AND PF_X \<noteq> 0 then NPK_PROT_EXEC else 0)
             in if stop \<le> start then (False, p, s)
                else case vm_reserve_range p start (stop - start) protection (NPK_MAP_PRIVATE OR NPK_MAP_ANONYMOUS) s of
                  (Inl _, p, s) \<Rightarrow> (False, p, s)
                | (Inr _, p, s) \<Rightarrow> register_segments bias phs p s)"

definition register_exec_vmas :: "u8 list \<Rightarrow> elf_load_result \<Rightarrow> process \<Rightarrow> 'a heap_state_scheme \<Rightarrow> bool \<times> process \<times> 'a heap_state_scheme" where
  "register_exec_vmas img loaded p s =
     (let h = elf_header img
      in if length img < sizeof_elf64_header \<or> eh_phoff h > image_size img \<or> eh_phentsize h \<noteq> of_nat sizeof_program_header
            \<or> ucast (eh_phnum h) * ucast (eh_phentsize h) > image_size img - eh_phoff h then (False, p, s)
         else register_segments (er_load_bias loaded) (elf_programs img) p s)"

text \<open>Reading a whole file: \<open>None\<close> when a read returns nothing or too much.\<close>

function read_all_loop :: "int \<Rightarrow> nat \<Rightarrow> u8 list \<Rightarrow> 'a vfs_state_scheme \<Rightarrow> u8 list option \<times> 'a vfs_state_scheme" where
  "read_all_loop fd left done_bytes s =
     (if left = 0 then (Some done_bytes, s)
      else case vfs_read fd True left s of
        (Inl _, s) \<Rightarrow> (None, s)
      | (Inr bs, s) \<Rightarrow>
          if bs = [] \<or> length bs > left then (None, s)
          else read_all_loop fd (left - length bs) (done_bytes @ bs) s)"
  by pat_completeness auto

termination
  by (relation "measure (\<lambda>(fd, left, _). left)") (auto simp: length_greater_0_conv [symmetric] simp del: length_greater_0_conv)

declare read_all_loop.simps [simp del]

definition proc_snapshot :: "'a proc_state_scheme \<Rightarrow> string \<Rightarrow> u8 list result" where
  "proc_snapshot s path =
     procfs_snapshot \<lparr>info_ticks = ticks s, info_frequency = ucast (frequency s), info_total_pages = pmm_total_pages s,
       info_free_pages = pmm_free_pages s,
       info_process = map_option (\<lambda>i. (alive (processes s i), pid (processes s i))) (process_current s)\<rparr> path 4096"

text \<open>The result is the kernel buffer with the image in it.\<close>

definition read_vfs_image :: "string \<Rightarrow> 'a proc_state_scheme \<Rightarrow> (u64 \<times> u8 list) option \<times> 'a proc_state_scheme" where
  "read_vfs_image path s =
     (case vfs_open (proc_snapshot s) (Some path) s of
        (Inl _, s) \<Rightarrow> (None, s)
      | (Inr fd, s) \<Rightarrow>
          (case vfs_size (int fd) s of
             Inl _ \<Rightarrow> (None, snd (vfs_close (int fd) s))
           | Inr raw_size \<Rightarrow>
               if raw_size \<le> 0 \<or> raw_size > NPK_MAX_EXEC_IMAGE then (None, snd (vfs_close (int fd) s))
               else let (buffer, s) = kcalloc 1 (of_int raw_size) s
                 in if buffer = 0 then (None, snd (vfs_close (int fd) s))
                    else case read_all_loop (int fd) (nat raw_size) [] s of
                      (None, s) \<Rightarrow> (None, snd (vfs_close (int fd) (kfree buffer s)))
                    | (Some bs, s) \<Rightarrow> (Some (buffer, bs), snd (vfs_close (int fd) s))))"

record staged_exec =
  st_process :: process
  st_entry :: u64
  st_initial_stack :: u64
  st_main_image :: elf_load_result
  st_interpreter_image :: "elf_load_result option"

text \<open>The interpreter named by the image, read into a kernel buffer; \<open>None\<close> is the failure, the inner
  \<open>None\<close> an image without an interpreter.\<close>

definition stage_interpreter :: "u8 list \<Rightarrow> 'a proc_state_scheme \<Rightarrow> (u64 \<times> u8 list) option option \<times> 'a proc_state_scheme" where
  "stage_interpreter img s =
     (case elf64_get_interpreter img (unat NPK_ELF_INTERP_MAX) of
        None \<Rightarrow> (None, s)
      | Some path \<Rightarrow>
          if path = [] then (Some None, s)
          else case read_vfs_image path s of
            (None, s) \<Rightarrow> (None, s)
          | (Some (buffer, bytes), s) \<Rightarrow>
              if elf64_get_interpreter bytes (unat NPK_ELF_INTERP_MAX) \<noteq> Some [] \<or> eh_type (elf_header bytes) \<noteq> ET_DYN
                 \<or> \<not> elf64_validate bytes
              then (None, kfree buffer s)
              else (Some (Some (buffer, bytes)), s))"

definition load_and_register ::
  "u8 list \<Rightarrow> u64 \<Rightarrow> process \<Rightarrow> 'a heap_state_scheme \<Rightarrow> elf_load_result option \<times> process \<times> 'a heap_state_scheme" where
  "load_and_register img bias p s =
     (case elf64_load_in_address_space img (address_space_root p) bias s of
        (Inl _, s) \<Rightarrow> (None, p, s)
      | (Inr loaded, s) \<Rightarrow>
          (case register_exec_vmas img loaded p s of
             (False, p, s) \<Rightarrow> (None, p, s)
           | (True, p, s) \<Rightarrow> (Some loaded, p, s)))"

definition stage_images ::
  "u8 list \<Rightarrow> u64 \<Rightarrow> u8 list option \<Rightarrow> process \<Rightarrow> 'a heap_state_scheme \<Rightarrow>
   (elf_load_result \<times> elf_load_result option) option \<times> process \<times> 'a heap_state_scheme" where
  "stage_images img bias interpreter p s =
     (case load_and_register img bias p s of
        (None, p, s) \<Rightarrow> (None, p, s)
      | (Some m, p, s) \<Rightarrow>
          (case interpreter of
             None \<Rightarrow> (Some (m, None), p, s)
           | Some bytes \<Rightarrow>
               (case load_and_register bytes NPK_USER_INTERP_BASE p s of
                  (None, p, s) \<Rightarrow> (None, p, s)
                | (Some i, p, s) \<Rightarrow> (Some (m, Some (i\<lparr>er_has_interp := True\<rparr>)), p, s))))"

text \<open>The heap and the stack of the new image; the result is the initial stack pointer.\<close>

definition stage_layout ::
  "string list \<Rightarrow> string list \<Rightarrow> elf_load_result \<Rightarrow> elf_load_result option \<Rightarrow> process \<Rightarrow> 'a vfs_state_scheme \<Rightarrow>
   u64 option \<times> process \<times> 'a vfs_state_scheme" where
  "stage_layout argv envp m interpreter p s =
     (let image_stop = (case interpreter of
            Some i \<Rightarrow> if er_image_end i > er_image_end m then er_image_end i else er_image_end m
          | None \<Rightarrow> er_image_end m);
          p = p\<lparr>image_base := er_image_base m, image_end := image_stop\<rparr>
      in if image_stop > UINT64_MAX - (NPK_PAGE_SIZE - 1) then (None, p, s)
         else let heap_start = (image_stop + NPK_PAGE_SIZE - 1) AND NOT (NPK_PAGE_SIZE - 1);
                  heap_limit = heap_start + 0x100000000;
                  heap_limit = (if heap_limit < heap_start \<or> heap_limit > NPK_USER_MAX then NPK_USER_MAX - NPK_PAGE_SIZE else heap_limit)
           in case vm_reserve_heap p heap_start heap_limit s of
                (Inl _, p, s) \<Rightarrow> (None, p, s)
              | (Inr _, p, s) \<Rightarrow>
                  let p = p\<lparr>user_stack_top := NPK_USER_STACK_TOP,
                            user_stack_limit := NPK_USER_STACK_TOP - NPK_USER_STACK_PAGES * NPK_PAGE_SIZE,
                            user_stack_bottom := NPK_USER_STACK_TOP\<rparr>
                  in case build_initial_user_stack (address_space_root p) NPK_USER_STACK_TOP argv envp m interpreter p s of
                       (None, p, s) \<Rightarrow> (None, p, s)
                     | (Some sp, p, s) \<Rightarrow>
                         (Some sp, p\<lparr>brk_start := heap_start, brk_end := heap_start, mmap_cursor := 0x1000000000\<rparr>, s))"

definition free_buffer :: "(u64 \<times> u8 list) option \<Rightarrow> 'a heap_state_scheme \<Rightarrow> 'a heap_state_scheme" where
  "free_buffer b s = (case b of None \<Rightarrow> s | Some (buffer, _) \<Rightarrow> kfree buffer s)"

definition stage_fail :: "(u64 \<times> u8 list) option \<Rightarrow> paddr \<Rightarrow> process \<Rightarrow> 'a vfs_state_scheme \<Rightarrow> 'a vfs_state_scheme" where
  "stage_fail b root p s = vmm_destroy_address_space root (snd (vm_destroy_all p (free_buffer b s)))"

definition stage_exec_image ::
  "u8 list \<Rightarrow> string list \<Rightarrow> string list \<Rightarrow> 'a proc_state_scheme \<Rightarrow> staged_exec option \<times> 'a proc_state_scheme" where
  "stage_exec_image img argv envp s =
     (if \<not> elf64_validate img then (None, s)
      else case stage_interpreter img s of
        (None, s) \<Rightarrow> (None, s)
      | (Some interp, s) \<Rightarrow>
          (case vmm_create_address_space s of
             (root, s) \<Rightarrow>
               if root = 0 then (None, free_buffer interp s)
               else
                 (case stage_images img (elf_default_bias img) (map_option snd interp)
                         (zero_process\<lparr>alive := True, address_space_root := root\<rparr>) s of
                    (None, p, s) \<Rightarrow> (None, stage_fail interp root p s)
                  | (Some (m, i), p, s) \<Rightarrow>
                      (case stage_layout argv envp m i p s of
                         (None, p, s) \<Rightarrow> (None, stage_fail interp root p s)
                       | (Some sp, p, s) \<Rightarrow>
                           (Some \<lparr>st_process = p, st_entry = er_entry (case i of None \<Rightarrow> m | Some i \<Rightarrow> i),
                                  st_initial_stack = sp, st_main_image = m, st_interpreter_image = i\<rparr>,
                            free_buffer interp s)))))"

text \<open>The fields of the process that the staged image replaces.\<close>

definition adopt_image :: "process \<Rightarrow> process \<Rightarrow> process" where
  "adopt_image st p =
     p\<lparr>image_base := image_base st, image_end := image_end st, brk_start := brk_start st, brk_end := brk_end st,
       mmap_cursor := mmap_cursor st, user_stack_top := user_stack_top st, user_stack_bottom := user_stack_bottom st,
       user_stack_limit := user_stack_limit st, vmas := vmas st\<rparr>"

definition process_exec_image_with_args ::
  "u8 list \<Rightarrow> string list \<Rightarrow> string list \<Rightarrow> 'a proc_state_scheme \<Rightarrow> nat option \<times> 'a proc_state_scheme" where
  "process_exec_image_with_args img argv envp s =
     (case stage_exec_image img argv envp s of
        (None, s) \<Rightarrow> (None, s)
      | (Some st, s) \<Rightarrow>
          (case process_create_user (address_space_root (st_process st)) (st_entry st) (st_initial_stack st) s of
             (None, s) \<Rightarrow>
               (None, vmm_destroy_address_space (address_space_root (st_process st)) (snd (vm_destroy_all (st_process st) s)))
           | (Some i, s) \<Rightarrow> (Some i, upd_process i (adopt_image (st_process st)) s)))"

definition process_exec_image :: "u8 list \<Rightarrow> 'a proc_state_scheme \<Rightarrow> nat option \<times> 'a proc_state_scheme" where
  "process_exec_image img s = process_exec_image_with_args img [] [] s"

definition process_activate :: "nat \<Rightarrow> 'a proc_state_scheme \<Rightarrow> 'a proc_state_scheme" where
  "process_activate i s =
     (case main_thread (processes s i) of
        None \<Rightarrow> s
      | Some t \<Rightarrow>
          if \<not> alive (processes s i) then s
          else let th = threads s t; root = address_space_root (processes s i);
                   s = upd_thread t (\<lambda>th. th\<lparr>th_state := THREAD_RUNNING\<rparr>) (s\<lparr>current := Some t\<rparr>);
                   s = (if root \<noteq> 0 \<and> root \<noteq> vmm_current_root s then s\<lparr>cr3 := root\<rparr> else s)
            in s\<lparr>cpu := \<lparr>cpu_fs_base = (if privilege_ring th = 3 then fs_base th else 0),
                         cpu_user_gs_base = (if privilege_ring th = 3 then gs_base th else 0),
                         cpu_rsp0 = kernel_stack_top th, cpu_syscall_process = Some i\<rparr>\<rparr>)"

definition process_launch_user :: "nat \<Rightarrow> 'a proc_state_scheme \<Rightarrow> unit outcome \<times> 'a proc_state_scheme" where
  "process_launch_user i s =
     (case main_thread (processes s i) of
        None \<Rightarrow> (Returns (), s)
      | Some t \<Rightarrow>
          if \<not> alive (processes s i) \<or> privilege_ring (threads s t) \<noteq> 3 then (Returns (), s)
          else (Switches t, process_activate i s))"

definition close_on_exec_entry :: "nat \<Rightarrow> process \<times> 'a vfs_state_scheme \<Rightarrow> process \<times> 'a vfs_state_scheme" where
  "close_on_exec_entry i ps =
     (let (p, s) = ps
      in if fd_flags p ! i AND 1 \<noteq> 0 \<and> fds p ! i \<ge> 0
         then (p\<lparr>fds := (fds p)[i := -1], fd_flags := (fd_flags p)[i := 0]\<rparr>, snd (vfs_close (fds p ! i) s)) else (p, s))"

definition exec_thread :: "paddr \<Rightarrow> u64 \<Rightarrow> u64 \<Rightarrow> thread \<Rightarrow> thread" where
  "exec_thread root entry sp t =
     t\<lparr>signal_inflight := False, signal_frame_user := 0, signal_restorer := 0, signal_number := 0, signal_blocked := 0,
       signal_pending := 0, signal_saved_mask := 0, signal_saved_frame := replicate 20 0, fs_base := 0, gs_base := 0,
       th_context := (th_context t)\<lparr>ctx_cr3 := root, ctx_rip := entry, ctx_rsp := sp, ctx_rflags := 0x202\<rparr>\<rparr>"

definition exec_frame :: "u64 \<Rightarrow> u64 \<Rightarrow> syscall_frame" where
  "exec_frame entry sp = frame_of_wrapper (user_entry_frame entry sp)"

definition process_exec_current ::
  "u8 list \<Rightarrow> string list \<Rightarrow> string list \<Rightarrow> syscall_frame \<Rightarrow> 'a proc_state_scheme \<Rightarrow>
   (unit result \<times> syscall_frame) \<times> 'a proc_state_scheme" where
  "process_exec_current img argv envp frame s =
     (case (current s, process_current s) of
        (Some t, Some i) \<Rightarrow>
          if privilege_ring (threads s t) \<noteq> 3 then ((Inl EFAULT, frame), s)
          else (case stage_exec_image img argv envp s of
                  (None, s) \<Rightarrow> ((Inl EINVAL, frame), s)
                | (Some st, s) \<Rightarrow>
                    let old_image = processes s i;
                        new_root = address_space_root (st_process st);
                        s = on_process_value i (\<lambda>p s. fold close_on_exec_entry [0..<NPK_MAX_FDS] (p, s)) s;
                        s = upd_process i (\<lambda>p. (adopt_image (st_process st) p)\<lparr>address_space_root := new_root,
                              signal_actions := (\<lambda>_. zero_sigaction)\<rparr>) s;
                        s = upd_thread t (exec_thread new_root (st_entry st) (st_initial_stack st)) s;
                        s = process_activate i s;
                        s = (if address_space_root old_image \<noteq> 0 \<and> address_space_root old_image \<noteq> new_root
                             then snd (destroy_process_memory old_image s) else s)
                    in ((Inr (), exec_frame (st_entry st) (st_initial_stack st)), s))
      | _ \<Rightarrow> ((Inl EFAULT, frame), s))"

subsection \<open>Fork and clone\<close>

definition close_handles :: "int list \<Rightarrow> 'a vfs_state_scheme \<Rightarrow> 'a vfs_state_scheme" where
  "close_handles hs s = fold (\<lambda>h s. if h \<ge> 0 then snd (vfs_close h s) else s) hs s"

fun retain_fds :: "int list \<Rightarrow> int list \<Rightarrow> 'a vfs_state_scheme \<Rightarrow> bool \<times> 'a vfs_state_scheme" where
  "retain_fds before [] s = (True, s)"
| "retain_fds before (h # hs) s =
     (if h < 0 then retain_fds (before @ [h]) hs s
      else case vfs_retain h s of
        (Inl _, s) \<Rightarrow> (False, close_handles before s)
      | (Inr _, s) \<Rightarrow> retain_fds (before @ [h]) hs s)"

definition fork_process :: "process \<Rightarrow> u64 \<Rightarrow> paddr \<Rightarrow> process" where
  "fork_process parent child_pid root =
     zero_process\<lparr>pid := child_pid, parent_pid := pid parent, thread_count := 1, alive := True, address_space_root := root,
       image_base := image_base parent, image_end := image_end parent, mmap_cursor := mmap_cursor parent,
       brk_start := brk_start parent, brk_end := brk_end parent, user_stack_top := user_stack_top parent,
       user_stack_bottom := user_stack_bottom parent, user_stack_limit := user_stack_limit parent,
       image_path := image_path parent, cwd := cwd parent, fds := fds parent, fd_flags := fd_flags parent\<rparr>"

definition fork_thread :: "syscall_frame \<Rightarrow> nat \<Rightarrow> process \<Rightarrow> thread option \<Rightarrow> thread \<Rightarrow> thread" where
  "fork_thread frame i child leader t =
     t\<lparr>privilege_ring := 3, group_leader := True, th_owner := Some i,
       th_context := (th_context t)\<lparr>ctx_rip := sf_rip frame, ctx_rsp := sf_rsp frame, ctx_rflags := sf_rflags frame,
                                   ctx_cr3 := address_space_root child\<rparr>,
       fs_base := (case leader of None \<Rightarrow> 0 | Some l \<Rightarrow> fs_base l),
       gs_base := (case leader of None \<Rightarrow> 0 | Some l \<Rightarrow> gs_base l),
       signal_blocked := (case leader of None \<Rightarrow> 0 | Some l \<Rightarrow> signal_blocked l),
       signal_pending := 0, signal_inflight := False, th_user_stack_top := user_stack_top child\<rparr>"

definition drop_slots :: "nat \<Rightarrow> nat \<Rightarrow> 'a proc_state_scheme \<Rightarrow> 'a proc_state_scheme" where
  "drop_slots i t s = upd_thread t (\<lambda>_. zero_thread) (upd_process i (\<lambda>_. zero_process) s)"

definition process_fork :: "syscall_frame \<Rightarrow> 'a proc_state_scheme \<Rightarrow> u64 result \<times> 'a proc_state_scheme" where
  "process_fork frame s =
     (case (current s, process_current s) of
        (Some ct, Some pi) \<Rightarrow>
          let parent = processes s pi
          in if \<not> alive parent \<or> privilege_ring (threads s ct) \<noteq> 3 then (Inl EINVAL, s)
             else (case find (\<lambda>i. pid (processes s i) = 0) [1..<NPK_MAX_PROCESSES] of
               None \<Rightarrow> (Inl EAGAIN, s)
             | Some i \<Rightarrow>
                 (case vmm_clone_user_space (address_space_root parent) s of
                    (root, s) \<Rightarrow>
                      if root = 0 then (Inl ENOMEM, s)
                      else (case allocate_thread s of
                        (None, s) \<Rightarrow> (Inl EAGAIN, vmm_destroy_address_space root s)
                      | (Some t, s) \<Rightarrow>
                          let child = fork_process parent (next_pid s) root;
                              s = (upd_process i (\<lambda>_. child) s)\<lparr>next_pid := next_pid s + 1\<rparr>
                          in (case retain_fds [] (fds child) s of
                               (False, s) \<Rightarrow> (Inl EMFILE, drop_slots i t (vmm_destroy_address_space root s))
                             | (True, s) \<Rightarrow>
                                 (case vm_clone_metadata parent (child\<lparr>signal_actions := signal_actions parent\<rparr>) s of
                                    (False, child, s) \<Rightarrow>
                                      (Inl ENOMEM, drop_slots i t (vmm_destroy_address_space root (close_handles (fds child) s)))
                                  | (True, child, s) \<Rightarrow>
                                      let s = upd_process i (\<lambda>_. child\<lparr>main_thread := Some t\<rparr>) s;
                                          s = upd_thread t (fork_thread frame i child (map_option (threads s) (main_thread parent))) s;
                                          (stack, s) = kcalloc 1 NPK_KERNEL_STACK_SIZE s
                                      in if stack = 0
                                         then (Inl ENOMEM, drop_slots i t (vmm_destroy_address_space root (snd (vm_destroy_all child s))))
                                         else case prepare_fork_frame frame ((threads s t)\<lparr>kernel_stack := stack,
                                                     kernel_stack_top := (stack + NPK_KERNEL_STACK_SIZE) AND NOT 0xf\<rparr>) of
                                           (False, _) \<Rightarrow>
                                             (Inl ENOMEM, drop_slots i t (vmm_destroy_address_space root (snd (vm_destroy_all child (kfree stack s)))))
                                         | (True, th) \<Rightarrow> (Inr (pid child), upd_thread t (\<lambda>_. th) s))))))
      | _ \<Rightarrow> (Inl EINVAL, s))"

text \<open>The checks of \<^verbatim>\<open>process_clone\<close> on its arguments.\<close>

definition clone_check :: "u64 \<Rightarrow> vaddr \<Rightarrow> vaddr \<Rightarrow> vaddr \<Rightarrow> vaddr \<Rightarrow> unit result" where
  "clone_check flags child_stack parent_tid tls child_tid =
     (if flags AND NPK_CLONE_THREAD_FLAGS \<noteq> NPK_CLONE_THREAD_FLAGS
         \<or> flags AND NOT (NPK_CLONE_THREAD_FLAGS OR NPK_CLONE_OPTIONAL_FLAGS) \<noteq> 0 then Inl ENOSYS
      else if child_stack = 0 \<or> child_stack AND 0xf \<noteq> 0 \<or> child_stack < NPK_PAGE_SIZE \<or> \<not> vmm_is_user_range (child_stack - 16) 16
      then Inl EFAULT
      else if has_flag flags NPK_CLONE_PARENT_SETTID \<and> (parent_tid = 0 \<or> \<not> vmm_is_user_range parent_tid 4) then Inl EFAULT
      else if flags AND (NPK_CLONE_CHILD_SETTID OR NPK_CLONE_CHILD_CLEARTID) \<noteq> 0
              \<and> (child_tid = 0 \<or> \<not> vmm_is_user_range child_tid 4) then Inl EFAULT
      else if has_flag flags NPK_CLONE_SETTLS \<and> tls \<noteq> 0 \<and> \<not> vmm_is_user_range tls 1 then Inl EFAULT
      else Inr ())"

definition clone_thread_of :: "u64 \<Rightarrow> vaddr \<Rightarrow> vaddr \<Rightarrow> syscall_frame \<Rightarrow> nat \<Rightarrow> paddr \<Rightarrow> thread \<Rightarrow> thread \<Rightarrow> thread" where
  "clone_thread_of flags child_stack tls frame i root parent t =
     t\<lparr>clone_thread := True, group_leader := False, th_owner := Some i, privilege_ring := 3, th_user_stack_top := child_stack,
       th_context := (th_context t)\<lparr>ctx_cr3 := root, ctx_rip := sf_rip frame, ctx_rsp := child_stack, ctx_rflags := sf_rflags frame\<rparr>,
       fs_base := (if has_flag flags NPK_CLONE_SETTLS then tls else fs_base parent), gs_base := gs_base parent,
       signal_blocked := signal_blocked parent, signal_pending := 0, signal_inflight := False\<rparr>"

definition store_tid :: "bool \<Rightarrow> nat \<Rightarrow> vaddr \<Rightarrow> u64 \<Rightarrow> 'a proc_state_scheme \<Rightarrow> bool \<times> 'a proc_state_scheme" where
  "store_tid requested i address n s =
     (if requested then on_process i (\<lambda>p. copyout_process p address (le32 (ucast n))) s else (True, s))"

definition drop_thread :: "nat \<Rightarrow> 'a proc_state_scheme \<Rightarrow> 'a proc_state_scheme" where
  "drop_thread t s = upd_thread t (\<lambda>_. zero_thread) (kfree (kernel_stack (threads s t)) s)"

definition process_clone ::
  "u64 \<Rightarrow> vaddr \<Rightarrow> vaddr \<Rightarrow> vaddr \<Rightarrow> vaddr \<Rightarrow> syscall_frame \<Rightarrow> 'a proc_state_scheme \<Rightarrow> u64 result \<times> 'a proc_state_scheme" where
  "process_clone flags child_stack parent_tid tls child_tid frame s =
     (case (current s, process_current s) of
        (Some ct, Some i) \<Rightarrow>
          if \<not> alive (processes s i) \<or> privilege_ring (threads s ct) \<noteq> 3 then (Inl EPERM, s)
          else (case clone_check flags child_stack parent_tid tls child_tid of
            Inl e \<Rightarrow> (Inl e, s)
          | Inr _ \<Rightarrow>
              (case on_process i (\<lambda>p. vm_ensure_user_page p (child_stack - 1) True) s of
                 (False, s) \<Rightarrow> (Inl EFAULT, s)
               | (True, s) \<Rightarrow>
                   (case allocate_thread s of
                      (None, s) \<Rightarrow> (Inl EAGAIN, s)
                    | (Some t, s) \<Rightarrow>
                        let child = clone_thread_of flags child_stack tls frame i (address_space_root (processes s i)) (threads s ct) (threads s t);
                            (stack, s) = kcalloc 1 NPK_KERNEL_STACK_SIZE s
                        in if stack = 0 then (Inl ENOMEM, upd_thread t (\<lambda>_. zero_thread) s)
                           else case prepare_fork_frame_with_stack frame child_stack (child\<lparr>kernel_stack := stack,
                                       kernel_stack_top := (stack + NPK_KERNEL_STACK_SIZE) AND NOT 0xf\<rparr>) of
                             (False, _) \<Rightarrow> (Inl ENOMEM, upd_thread t (\<lambda>_. zero_thread) (kfree stack s))
                           | (True, child) \<Rightarrow>
                               let child = (if has_flag flags NPK_CLONE_CHILD_CLEARTID then child\<lparr>clear_child_tid_address := child_tid\<rparr> else child);
                                   s = upd_thread t (\<lambda>_. child) s
                               in case store_tid (has_flag flags NPK_CLONE_PARENT_SETTID) i parent_tid (tid child) s of
                                    (False, s) \<Rightarrow> (Inl EFAULT, drop_thread t s)
                                  | (True, s) \<Rightarrow>
                                      (case store_tid (has_flag flags NPK_CLONE_CHILD_SETTID) i child_tid (tid child) s of
                                         (False, s) \<Rightarrow> (Inl EFAULT, drop_thread t s)
                                       | (True, s) \<Rightarrow>
                                           if thread_count (processes s i) = UINT32_MAX
                                           then (Inl EAGAIN, drop_thread t (clear_child_tid t s))
                                           else (Inr (tid child), upd_process i (\<lambda>p. p\<lparr>thread_count := thread_count p + 1\<rparr>) s)))))
      | _ \<Rightarrow> (Inl EPERM, s))"

definition process_set_tid_address :: "vaddr \<Rightarrow> 'a proc_state_scheme \<Rightarrow> u64 result \<times> 'a proc_state_scheme" where
  "process_set_tid_address address s =
     (case (current s, process_current s) of
        (Some t, Some _) \<Rightarrow>
          if privilege_ring (threads s t) \<noteq> 3 then (Inl EPERM, s)
          else if address \<noteq> 0 \<and> \<not> vmm_is_user_range address 4 then (Inl EFAULT, s)
          else (Inr (tid (threads s t)), upd_thread t (\<lambda>th. th\<lparr>clear_child_tid_address := address\<rparr>) s)
      | _ \<Rightarrow> (Inl EPERM, s))"

subsection \<open>Waiting\<close>

text \<open>The results of the blocking calls are the signed return values.\<close>

definition wait_status :: "process \<Rightarrow> u8 list" where
  "wait_status child = le32 (push_bit 8 (ucast (exit_status child)))"

definition is_child :: "process \<Rightarrow> int \<Rightarrow> process \<Rightarrow> bool" where
  "is_child parent target child \<longleftrightarrow> pid child \<noteq> 0 \<and> parent_pid child = pid parent \<and> wait_target_matches target child"

definition report_status :: "vaddr \<Rightarrow> process \<Rightarrow> 'a proc_state_scheme \<Rightarrow> bool \<times> 'a proc_state_scheme" where
  "report_status user_status child s =
     (if user_status \<noteq> 0 then copyout_current user_status (wait_status child) s else (True, s))"

text \<open>What happens after \<^verbatim>\<open>scheduler_yield\<close> came back to the waiting thread itself.\<close>

definition wait_resume :: "nat \<Rightarrow> nat \<Rightarrow> 'a proc_state_scheme \<Rightarrow> int \<times> 'a proc_state_scheme" where
  "wait_resume t i s =
     (let parent = processes s i
      in if wait_woken parent then
           let r = wait_result parent;
               s = upd_process i (\<lambda>p. p\<lparr>wait_active := False, wait_woken := False\<rparr>) s;
               s = upd_thread t (\<lambda>th. th\<lparr>th_state := THREAD_RUNNING\<rparr>) s
           in if r > 0 then
                (case find_process_by_pid (of_int r) s of
                   None \<Rightarrow> (r, s)
                 | Some c \<Rightarrow>
                     if alive (processes s c) then (r, s)
                     else case report_status (wait_status_user parent) (processes s c) s of
                       (False, s) \<Rightarrow> (- errno_num EFAULT, s)
                     | (True, s) \<Rightarrow> (r, reap_process c s))
              else (r, s)
         else (- errno_num EAGAIN,
               upd_thread t (\<lambda>th. th\<lparr>th_state := THREAD_RUNNING\<rparr>) (upd_process i (\<lambda>p. p\<lparr>wait_active := False\<rparr>) s)))"

definition process_wait4 :: "int \<Rightarrow> vaddr \<Rightarrow> u64 \<Rightarrow> 'a proc_state_scheme \<Rightarrow> int outcome \<times> 'a proc_state_scheme" where
  "process_wait4 target user_status options s =
     (case (current s, process_current s) of
        (Some t, Some i) \<Rightarrow>
          let parent = processes s i;
              children = filter (\<lambda>c. is_child parent target (processes s c)) [1..<NPK_MAX_PROCESSES]
          in if \<not> alive parent \<or> privilege_ring (threads s t) \<noteq> 3 then (Returns (- errno_num EFAULT), s)
             else if target = 0 \<or> target < -1 \<or> options AND NOT 1 \<noteq> 0 then (Returns (- errno_num EINVAL), s)
             else if user_status \<noteq> 0 \<and> \<not> vmm_is_user_range user_status 4 then (Returns (- errno_num EFAULT), s)
             else (case find (\<lambda>c. \<not> alive (processes s c)) children of
               Some c \<Rightarrow>
                 (case report_status user_status (processes s c) s of
                    (False, s) \<Rightarrow> (Returns (- errno_num EFAULT), s)
                  | (True, s) \<Rightarrow> (Returns (uint (pid (processes s c))), reap_process c s))
             | None \<Rightarrow>
                 if children = [] then (Returns (- errno_num ECHILD), s)
                 else if options AND 1 \<noteq> 0 then (Returns 0, s)
                 else
                   let s = upd_process i (\<lambda>p. p\<lparr>wait_active := True, wait_woken := False, wait_result := - errno_num EAGAIN,
                             wait_target := target, wait_status_user := user_status, wait_options := options\<rparr>) s;
                       s = upd_thread t (\<lambda>th. th\<lparr>th_state := THREAD_BLOCKED\<rparr>) s
                   in case scheduler_yield s of
                        (Returns _, s) \<Rightarrow> (let (r, s) = wait_resume t i s in (Returns r, s))
                      | (Switches u, s) \<Rightarrow> (Switches u, s)
                      | (Halts, s) \<Rightarrow> (Halts, s))
      | _ \<Rightarrow> (Returns (- errno_num EFAULT), s))"

definition futex_address_ok :: "vaddr \<Rightarrow> bool" where
  "futex_address_ok a \<longleftrightarrow> a AND 3 = 0 \<and> vmm_is_user_range a 4"

definition futex_resume :: "nat \<Rightarrow> 'a proc_state_scheme \<Rightarrow> int \<times> 'a proc_state_scheme" where
  "futex_resume t s =
     (if futex_waiting (threads s t)
      then (- errno_num EAGAIN,
            upd_thread t (\<lambda>th. th\<lparr>futex_result := - errno_num EAGAIN, th_state := THREAD_RUNNING\<rparr>) (futex_cancel_thread t s))
      else (futex_result (threads s t),
            upd_thread t (\<lambda>th. th\<lparr>futex_waiting := False, th_state := THREAD_RUNNING\<rparr>) s))"

definition process_futex_wait :: "vaddr \<Rightarrow> u32 \<Rightarrow> vaddr \<Rightarrow> 'a proc_state_scheme \<Rightarrow> int outcome \<times> 'a proc_state_scheme" where
  "process_futex_wait user_address expected user_timeout s =
     (case (current s, process_current s) of
        (Some t, Some i) \<Rightarrow>
          if privilege_ring (threads s t) \<noteq> 3 \<or> \<not> futex_address_ok user_address then (Returns (- errno_num EFAULT), s)
          else (case futex_timespec_to_ticks user_timeout s of
            (None, s) \<Rightarrow> (Returns (- errno_num EFAULT), s)
          | (Some timeout_ticks, s) \<Rightarrow>
              (case copyin_current user_address 4 s of
                 (None, s) \<Rightarrow> (Returns (- errno_num EFAULT), s)
               | (Some b, s) \<Rightarrow>
                   if of_le32 b \<noteq> expected then (Returns (- errno_num EAGAIN), s)
                   else if user_timeout \<noteq> 0 \<and> timeout_ticks = 0 then (Returns (- errno_num ETIMEDOUT), s)
                   else case find (\<lambda>w. \<not> fw_active (futex_waiters s w)) [0..<NPK_FUTEX_MAX_WAITERS] of
                     None \<Rightarrow> (Returns (- errno_num ENOMEM), s)
                   | Some w \<Rightarrow>
                       let s = s\<lparr>futex_waiters := (futex_waiters s)(w :=
                                 \<lparr>fw_active = True, fw_thread = t, fw_root = address_space_root (processes s i), fw_address = user_address,
                                  fw_deadline = (if timeout_ticks \<noteq> 0 then ticks s + timeout_ticks else 0), fw_timed = (timeout_ticks \<noteq> 0)\<rparr>)\<rparr>;
                           s = upd_thread t (\<lambda>th. th\<lparr>futex_waiting := True, futex_result := - errno_num EINTR, th_state := THREAD_BLOCKED\<rparr>) s
                       in case scheduler_yield s of
                            (Returns _, s) \<Rightarrow> (let (r, s) = futex_resume t s in (Returns r, s))
                          | (Switches u, s) \<Rightarrow> (Switches u, s)
                          | (Halts, s) \<Rightarrow> (Halts, s)))
      | _ \<Rightarrow> (Returns (- errno_num EFAULT), s))"

definition process_futex_wake :: "vaddr \<Rightarrow> u32 \<Rightarrow> 'a proc_state_scheme \<Rightarrow> nat result \<times> 'a proc_state_scheme" where
  "process_futex_wake user_address count s =
     (case (current s, process_current s) of
        (Some t, Some i) \<Rightarrow>
          if privilege_ring (threads s t) \<noteq> 3 \<or> \<not> futex_address_ok user_address then (Inl EFAULT, s)
          else if count = 0 then (Inr 0, s)
          else let (n, s) = futex_wake_internal (address_space_root (processes s i)) user_address count s in (Inr n, s)
      | _ \<Rightarrow> (Inl EFAULT, s))"

subsection \<open>Names and passed descriptors\<close>

definition process_set_image_path :: "string option \<Rightarrow> process \<Rightarrow> process" where
  "process_set_image_path path p =
     p\<lparr>image_path := (case path of None \<Rightarrow> [] | Some name \<Rightarrow> take (NPK_PROCESS_PATH_MAX - 1) name)\<rparr>"

definition process_send_fd :: "int \<Rightarrow> int \<Rightarrow> 'a proc_state_scheme \<Rightarrow> unit result \<times> 'a proc_state_scheme" where
  "process_send_fd target source_fd s =
     (case process_current s of
        None \<Rightarrow> (Inl EPERM, s)
      | Some i \<Rightarrow>
          let sender = processes s i
          in if \<not> alive sender \<or> i = 0 \<or> source_fd < 0 \<or> source_fd \<ge> int NPK_MAX_FDS then (Inl EPERM, s)
             else let handle = fds sender ! nat source_fd
               in if handle < 0 then (Inl EBADF, s)
                  else case (if target > 0 then find_process_by_pid (of_int target) s else None) of
                    None \<Rightarrow> (Inl ESRCH, s)
                  | Some j \<Rightarrow>
                      let receiver = processes s j
                      in if \<not> alive receiver then (Inl ESRCH, s)
                         else if j \<noteq> i \<and> parent_pid receiver \<noteq> pid sender \<and> parent_pid sender \<noteq> pid receiver then (Inl EPERM, s)
                         else if length (incoming_fd_transfers receiver) \<ge> NPK_FD_TRANSFER_MAX then (Inl EAGAIN, s)
                         else case vfs_retain handle s of
                           (Inl _, s) \<Rightarrow> (Inl EBADF, s)
                         | (Inr _, s) \<Rightarrow>
                             (Inr (), upd_process j (\<lambda>p. p\<lparr>incoming_fd_transfers := incoming_fd_transfers p @ [(handle, 0)]\<rparr>) s))"

definition process_receive_fd :: "process \<Rightarrow> (int \<times> u32) result \<times> process" where
  "process_receive_fd p =
     (case incoming_fd_transfers p of
        [] \<Rightarrow> (Inl EAGAIN, p)
      | x # xs \<Rightarrow> (Inr x, p\<lparr>incoming_fd_transfers := xs\<rparr>))"

end
