(* ===== verification/Font.thy ===== *)
theory Font
  imports Npk_Prelude
begin

text \<open>
  The console font, \<^verbatim>\<open>src/drivers/font.c\<close>: sixteen rows of ten bits per glyph, the first pixel of a row in
  bit 0.
\<close>

definition ascii_font :: "u16 list list" where
  "ascii_font =
    [[0x0, 0x0, 0x0, 0x0, 0x0, 0x0, 0x0, 0x0, 0x0, 0x0, 0x0, 0x0, 0x0, 0x0, 0x0, 0x0],
     [0x0, 0x0, 0x0, 0x0, 0x0, 0x0, 0x0, 0x0, 0x0, 0x0, 0x0, 0x0, 0x0, 0x0, 0x0, 0x0],
     [0x0, 0x0, 0x0, 0x0, 0x0, 0x0, 0x0, 0x0, 0x0, 0x0, 0x0, 0x0, 0x0, 0x0, 0x0, 0x0],
     [0x0, 0x0, 0x0, 0x0, 0x0, 0x0, 0x0, 0x0, 0x0, 0x0, 0x0, 0x0, 0x0, 0x0, 0x0, 0x0],
     [0x0, 0x0, 0x0, 0x0, 0x0, 0x0, 0x0, 0x0, 0x0, 0x0, 0x0, 0x0, 0x0, 0x0, 0x0, 0x0],
     [0x0, 0x0, 0x0, 0x0, 0x0, 0x0, 0x0, 0x0, 0x0, 0x0, 0x0, 0x0, 0x0, 0x0, 0x0, 0x0],
     [0x0, 0x0, 0x0, 0x0, 0x0, 0x0, 0x0, 0x0, 0x0, 0x0, 0x0, 0x0, 0x0, 0x0, 0x0, 0x0],
     [0x0, 0x0, 0x0, 0x0, 0x0, 0x0, 0x0, 0x0, 0x0, 0x0, 0x0, 0x0, 0x0, 0x0, 0x0, 0x0],
     [0x0, 0x0, 0x0, 0x0, 0x0, 0x0, 0x0, 0x0, 0x0, 0x0, 0x0, 0x0, 0x0, 0x0, 0x0, 0x0],
     [0x0, 0x0, 0x0, 0x0, 0x0, 0x0, 0x0, 0x0, 0x0, 0x0, 0x0, 0x0, 0x0, 0x0, 0x0, 0x0],
     [0x0, 0x0, 0x0, 0x0, 0x0, 0x0, 0x0, 0x0, 0x0, 0x0, 0x0, 0x0, 0x0, 0x0, 0x0, 0x0],
     [0x0, 0x0, 0x0, 0x0, 0x0, 0x0, 0x0, 0x0, 0x0, 0x0, 0x0, 0x0, 0x0, 0x0, 0x0, 0x0],
     [0x0, 0x0, 0x0, 0x0, 0x0, 0x0, 0x0, 0x0, 0x0, 0x0, 0x0, 0x0, 0x0, 0x0, 0x0, 0x0],
     [0x0, 0x0, 0x0, 0x0, 0x0, 0x0, 0x0, 0x0, 0x0, 0x0, 0x0, 0x0, 0x0, 0x0, 0x0, 0x0],
     [0x0, 0x0, 0x0, 0x0, 0x0, 0x0, 0x0, 0x0, 0x0, 0x0, 0x0, 0x0, 0x0, 0x0, 0x0, 0x0],
     [0x0, 0x0, 0x0, 0x0, 0x0, 0x0, 0x0, 0x0, 0x0, 0x0, 0x0, 0x0, 0x0, 0x0, 0x0, 0x0],
     [0x0, 0x0, 0x0, 0x0, 0x0, 0x0, 0x0, 0x0, 0x0, 0x0, 0x0, 0x0, 0x0, 0x0, 0x0, 0x0],
     [0x0, 0x0, 0x0, 0x0, 0x0, 0x0, 0x0, 0x0, 0x0, 0x0, 0x0, 0x0, 0x0, 0x0, 0x0, 0x0],
     [0x0, 0x0, 0x0, 0x0, 0x0, 0x0, 0x0, 0x0, 0x0, 0x0, 0x0, 0x0, 0x0, 0x0, 0x0, 0x0],
     [0x0, 0x0, 0x0, 0x0, 0x0, 0x0, 0x0, 0x0, 0x0, 0x0, 0x0, 0x0, 0x0, 0x0, 0x0, 0x0],
     [0x0, 0x0, 0x0, 0x0, 0x0, 0x0, 0x0, 0x0, 0x0, 0x0, 0x0, 0x0, 0x0, 0x0, 0x0, 0x0],
     [0x0, 0x0, 0x0, 0x0, 0x0, 0x0, 0x0, 0x0, 0x0, 0x0, 0x0, 0x0, 0x0, 0x0, 0x0, 0x0],
     [0x0, 0x0, 0x0, 0x0, 0x0, 0x0, 0x0, 0x0, 0x0, 0x0, 0x0, 0x0, 0x0, 0x0, 0x0, 0x0],
     [0x0, 0x0, 0x0, 0x0, 0x0, 0x0, 0x0, 0x0, 0x0, 0x0, 0x0, 0x0, 0x0, 0x0, 0x0, 0x0],
     [0x0, 0x0, 0x0, 0x0, 0x0, 0x0, 0x0, 0x0, 0x0, 0x0, 0x0, 0x0, 0x0, 0x0, 0x0, 0x0],
     [0x0, 0x0, 0x0, 0x0, 0x0, 0x0, 0x0, 0x0, 0x0, 0x0, 0x0, 0x0, 0x0, 0x0, 0x0, 0x0],
     [0x0, 0x0, 0x0, 0x0, 0x0, 0x0, 0x0, 0x0, 0x0, 0x0, 0x0, 0x0, 0x0, 0x0, 0x0, 0x0],
     [0x0, 0x0, 0x0, 0x0, 0x0, 0x0, 0x0, 0x0, 0x0, 0x0, 0x0, 0x0, 0x0, 0x0, 0x0, 0x0],
     [0x0, 0x0, 0x0, 0x0, 0x0, 0x0, 0x0, 0x0, 0x0, 0x0, 0x0, 0x0, 0x0, 0x0, 0x0, 0x0],
     [0x0, 0x0, 0x0, 0x0, 0x0, 0x0, 0x0, 0x0, 0x0, 0x0, 0x0, 0x0, 0x0, 0x0, 0x0, 0x0],
     [0x0, 0x0, 0x0, 0x0, 0x0, 0x0, 0x0, 0x0, 0x0, 0x0, 0x0, 0x0, 0x0, 0x0, 0x0, 0x0],
     [0x0, 0x0, 0x0, 0x0, 0x0, 0x0, 0x0, 0x0, 0x0, 0x0, 0x0, 0x0, 0x0, 0x0, 0x0, 0x0],
     [0x0, 0x0, 0x0, 0x0, 0x0, 0x0, 0x0, 0x0, 0x0, 0x0, 0x0, 0x0, 0x0, 0x0, 0x0, 0x0],
     [0x0, 0x38, 0x38, 0x38, 0x38, 0x38, 0x38, 0x10, 0x10, 0x0, 0x38, 0x38, 0x0, 0x0, 0x0, 0x0],
     [0x0, 0x6c, 0x6c, 0x6c, 0x6c, 0x0, 0x0, 0x0, 0x0, 0x0, 0x0, 0x0, 0x0, 0x0, 0x0, 0x0],
     [0x0, 0xd8, 0xd8, 0xd8, 0x1fe, 0x6c, 0x6c, 0x6c, 0xff, 0x36, 0x36, 0x36, 0x0, 0x0, 0x0, 0x0],
     [0x10, 0x10, 0x7c, 0x56, 0x16, 0x1e, 0x7c, 0xf0, 0xd0, 0xd0, 0xd6, 0x7c, 0x10, 0x10, 0x0, 0x0],
     [0x0, 0xe, 0x1b, 0x1b, 0x1b, 0xce, 0x38, 0xe6, 0x1b0, 0x1b0, 0x1b0, 0xe0, 0x0, 0x0, 0x0, 0x0],
     [0x0, 0x38, 0x4c, 0xc, 0xc, 0x1c, 0x1be, 0x1b3, 0x1f3, 0xe7, 0xe6, 0x1fc, 0x0, 0x0, 0x0, 0x0],
     [0x0, 0x38, 0x38, 0x38, 0x38, 0x0, 0x0, 0x0, 0x0, 0x0, 0x0, 0x0, 0x0, 0x0, 0x0, 0x0],
     [0x0, 0x60, 0x30, 0x30, 0x18, 0x18, 0x18, 0x18, 0x18, 0x18, 0x18, 0x30, 0x30, 0x60, 0x0, 0x0],
     [0x0, 0xc, 0x18, 0x18, 0x30, 0x30, 0x30, 0x30, 0x30, 0x30, 0x30, 0x18, 0x18, 0xc, 0x0, 0x0],
     [0x0, 0x10, 0xd6, 0x7c, 0x7c, 0xd6, 0x10, 0x0, 0x0, 0x0, 0x0, 0x0, 0x0, 0x0, 0x0, 0x0],
     [0x0, 0x0, 0x0, 0x10, 0x10, 0x10, 0x1ff, 0x1ff, 0x10, 0x10, 0x10, 0x0, 0x0, 0x0, 0x0, 0x0],
     [0x0, 0x0, 0x0, 0x0, 0x0, 0x0, 0x0, 0x0, 0x0, 0x38, 0x38, 0x38, 0x18, 0x18, 0x0, 0x0],
     [0x0, 0x0, 0x0, 0x0, 0x0, 0x0, 0x0, 0x7c, 0x7c, 0x0, 0x0, 0x0, 0x0, 0x0, 0x0, 0x0],
     [0x0, 0x0, 0x0, 0x0, 0x0, 0x0, 0x0, 0x0, 0x0, 0x38, 0x38, 0x38, 0x0, 0x0, 0x0, 0x0],
     [0x0, 0xc0, 0xc0, 0x60, 0x60, 0x30, 0x30, 0x18, 0x18, 0xc, 0xc, 0x6, 0x6, 0x0, 0x0, 0x0],
     [0x0, 0x38, 0x6c, 0xc6, 0xc6, 0xd6, 0xd6, 0xc6, 0xc6, 0xc6, 0x6c, 0x38, 0x0, 0x0, 0x0, 0x0],
     [0x0, 0x38, 0x34, 0x30, 0x30, 0x30, 0x30, 0x30, 0x30, 0x30, 0x30, 0xfe, 0x0, 0x0, 0x0, 0x0],
     [0x0, 0x3c, 0x62, 0xe0, 0xe0, 0xe0, 0x70, 0x30, 0x38, 0x1c, 0xe, 0xfe, 0x0, 0x0, 0x0, 0x0],
     [0x0, 0x7c, 0xe2, 0xc0, 0x60, 0x38, 0x60, 0xc0, 0xc0, 0xc0, 0xe2, 0x3c, 0x0, 0x0, 0x0, 0x0],
     [0x0, 0x70, 0x70, 0x78, 0x7c, 0x6c, 0x66, 0x66, 0xfe, 0x60, 0x60, 0x60, 0x0, 0x0, 0x0, 0x0],
     [0x0, 0x7e, 0x6, 0x6, 0x6, 0x3e, 0x62, 0xc0, 0xc0, 0xc0, 0x62, 0x3c, 0x0, 0x0, 0x0, 0x0],
     [0x0, 0x78, 0x8c, 0x6, 0x6, 0x7e, 0xce, 0xc6, 0xc6, 0xc6, 0xcc, 0x78, 0x0, 0x0, 0x0, 0x0],
     [0x0, 0xfe, 0xe0, 0xe0, 0x60, 0x70, 0x30, 0x30, 0x38, 0x18, 0x1c, 0xc, 0x0, 0x0, 0x0, 0x0],
     [0x0, 0x7c, 0xee, 0xc6, 0xee, 0x7c, 0xee, 0xc6, 0xc6, 0xc6, 0xee, 0x7c, 0x0, 0x0, 0x0, 0x0],
     [0x0, 0x3c, 0x66, 0xc6, 0xc6, 0xc6, 0xe6, 0xfc, 0xc0, 0xc0, 0x60, 0x3c, 0x0, 0x0, 0x0, 0x0],
     [0x0, 0x0, 0x0, 0x0, 0x38, 0x38, 0x38, 0x0, 0x0, 0x38, 0x38, 0x38, 0x0, 0x0, 0x0, 0x0],
     [0x0, 0x0, 0x0, 0x0, 0x38, 0x38, 0x38, 0x0, 0x0, 0x38, 0x38, 0x38, 0x18, 0x18, 0x0, 0x0],
     [0x0, 0x0, 0x0, 0x80, 0xe0, 0x7c, 0xe, 0xe, 0x7c, 0xf0, 0x80, 0x0, 0x0, 0x0, 0x0, 0x0],
     [0x0, 0x0, 0x0, 0x0, 0xfe, 0xfe, 0x0, 0x0, 0xfe, 0xfe, 0x0, 0x0, 0x0, 0x0, 0x0, 0x0],
     [0x0, 0x0, 0x0, 0x2, 0x1e, 0x7c, 0xe0, 0xe0, 0x7c, 0x1e, 0x2, 0x0, 0x0, 0x0, 0x0, 0x0],
     [0x0, 0x78, 0xe4, 0xc0, 0x60, 0x30, 0x38, 0x18, 0x18, 0x0, 0x18, 0x18, 0x0, 0x0, 0x0, 0x0],
     [0x0, 0x0, 0x78, 0xcc, 0x86, 0x1f3, 0x1db, 0x19b, 0x18b, 0x19b, 0x1db, 0x1f2, 0x6, 0x8c, 0xf8, 0x0],
     [0x0, 0x38, 0x38, 0x7c, 0x6c, 0x6c, 0x6c, 0xee, 0xfe, 0xc6, 0xc6, 0x1c7, 0x0, 0x0, 0x0, 0x0],
     [0x0, 0x7e, 0xe6, 0xc6, 0xc6, 0xe6, 0x7e, 0xc6, 0xc6, 0xc6, 0xc6, 0x7e, 0x0, 0x0, 0x0, 0x0],
     [0x0, 0x78, 0x9c, 0xc, 0xe, 0x6, 0x6, 0x6, 0xe, 0xc, 0x9c, 0x78, 0x0, 0x0, 0x0, 0x0],
     [0x0, 0x3e, 0x66, 0xc6, 0xc6, 0xc6, 0xc6, 0xc6, 0xc6, 0xc6, 0x66, 0x3e, 0x0, 0x0, 0x0, 0x0],
     [0x0, 0xfe, 0x6, 0x6, 0x6, 0x6, 0xfe, 0x6, 0x6, 0x6, 0x6, 0xfe, 0x0, 0x0, 0x0, 0x0],
     [0x0, 0xfe, 0xe, 0xe, 0xe, 0xe, 0xfe, 0xe, 0xe, 0xe, 0xe, 0xe, 0x0, 0x0, 0x0, 0x0],
     [0x0, 0x78, 0x8c, 0xe, 0x6, 0x6, 0x6, 0xe6, 0xc6, 0xce, 0xcc, 0xf8, 0x0, 0x0, 0x0, 0x0],
     [0x0, 0xc6, 0xc6, 0xc6, 0xc6, 0xc6, 0xfe, 0xc6, 0xc6, 0xc6, 0xc6, 0xc6, 0x0, 0x0, 0x0, 0x0],
     [0x0, 0xfe, 0x38, 0x38, 0x38, 0x38, 0x38, 0x38, 0x38, 0x38, 0x38, 0xfe, 0x0, 0x0, 0x0, 0x0],
     [0x0, 0x78, 0x60, 0x60, 0x60, 0x60, 0x60, 0x60, 0x60, 0x60, 0x62, 0x3c, 0x0, 0x0, 0x0, 0x0],
     [0x0, 0x1c6, 0xe6, 0x76, 0x36, 0x3e, 0x3e, 0x7e, 0x66, 0xe6, 0xc6, 0x1c6, 0x0, 0x0, 0x0, 0x0],
     [0x0, 0xc, 0xc, 0xc, 0xc, 0xc, 0xc, 0xc, 0xc, 0xc, 0xc, 0x1fc, 0x0, 0x0, 0x0, 0x0],
     [0x0, 0xc6, 0xee, 0xee, 0xee, 0xfe, 0xfe, 0xfe, 0xc6, 0xc6, 0xc6, 0xc6, 0x0, 0x0, 0x0, 0x0],
     [0x0, 0xc6, 0xce, 0xce, 0xde, 0xde, 0xd6, 0xf6, 0xf6, 0xe6, 0xe6, 0xc6, 0x0, 0x0, 0x0, 0x0],
     [0x0, 0x38, 0x6c, 0xc6, 0xc6, 0xc6, 0xc6, 0xc6, 0xc6, 0xc6, 0x6c, 0x38, 0x0, 0x0, 0x0, 0x0],
     [0x0, 0x7e, 0xe6, 0xc6, 0xc6, 0xc6, 0xe6, 0x7e, 0x6, 0x6, 0x6, 0x6, 0x0, 0x0, 0x0, 0x0],
     [0x0, 0x38, 0x6c, 0xc6, 0xc6, 0xc6, 0xc6, 0xc6, 0xc6, 0xc6, 0xec, 0x78, 0xe0, 0x40, 0x0, 0x0],
     [0x0, 0x7e, 0xe6, 0xc6, 0xc6, 0xc6, 0xe6, 0x7e, 0x66, 0xe6, 0xc6, 0x1c6, 0x0, 0x0, 0x0, 0x0],
     [0x0, 0x7c, 0xce, 0x6, 0xe, 0x3e, 0x7c, 0xf0, 0xe0, 0xc0, 0xe2, 0x7c, 0x0, 0x0, 0x0, 0x0],
     [0x0, 0xfe, 0x38, 0x38, 0x38, 0x38, 0x38, 0x38, 0x38, 0x38, 0x38, 0x38, 0x0, 0x0, 0x0, 0x0],
     [0x0, 0xc6, 0xc6, 0xc6, 0xc6, 0xc6, 0xc6, 0xc6, 0xc6, 0xc6, 0xee, 0x7c, 0x0, 0x0, 0x0, 0x0],
     [0x0, 0x1c7, 0xc6, 0xc6, 0xc6, 0xee, 0x6c, 0x6c, 0x6c, 0x7c, 0x38, 0x38, 0x0, 0x0, 0x0, 0x0],
     [0x0, 0x183, 0x183, 0x183, 0x1bb, 0x1bb, 0xba, 0xfe, 0xee, 0xee, 0xee, 0xce, 0x0, 0x0, 0x0, 0x0],
     [0x0, 0x1c6, 0xc6, 0x6c, 0x7c, 0x38, 0x38, 0x38, 0x7c, 0x6c, 0xc6, 0x1c7, 0x0, 0x0, 0x0, 0x0],
     [0x0, 0x1c7, 0xc6, 0xee, 0x6c, 0x7c, 0x38, 0x38, 0x38, 0x38, 0x38, 0x38, 0x0, 0x0, 0x0, 0x0],
     [0x0, 0xfe, 0xe0, 0xe0, 0xf0, 0x70, 0x38, 0x3c, 0x1c, 0xe, 0xe, 0x1fe, 0x0, 0x0, 0x0, 0x0],
     [0x0, 0x78, 0x18, 0x18, 0x18, 0x18, 0x18, 0x18, 0x18, 0x18, 0x18, 0x18, 0x18, 0x78, 0x0, 0x0],
     [0x0, 0x6, 0x6, 0xc, 0xc, 0x18, 0x18, 0x30, 0x30, 0x60, 0x60, 0xc0, 0xc0, 0x0, 0x0, 0x0],
     [0x0, 0x3c, 0x30, 0x30, 0x30, 0x30, 0x30, 0x30, 0x30, 0x30, 0x30, 0x30, 0x30, 0x3c, 0x0, 0x0],
     [0x0, 0x38, 0x7c, 0x6c, 0xc6, 0x0, 0x0, 0x0, 0x0, 0x0, 0x0, 0x0, 0x0, 0x0, 0x0, 0x0],
     [0x0, 0x0, 0x0, 0x0, 0x0, 0x0, 0x0, 0x0, 0x0, 0x0, 0x0, 0x0, 0x0, 0x0, 0x0, 0x1ff],
     [0xc, 0x18, 0x10, 0x0, 0x0, 0x0, 0x0, 0x0, 0x0, 0x0, 0x0, 0x0, 0x0, 0x0, 0x0, 0x0],
     [0x0, 0x0, 0x0, 0x0, 0x7c, 0xc4, 0xc0, 0xfc, 0xc6, 0xc6, 0xe6, 0xfc, 0x0, 0x0, 0x0, 0x0],
     [0x0, 0x6, 0x6, 0x6, 0x7e, 0xee, 0xc6, 0xc6, 0xc6, 0xc6, 0xee, 0x7e, 0x0, 0x0, 0x0, 0x0],
     [0x0, 0x0, 0x0, 0x0, 0x78, 0x8c, 0xe, 0xe, 0xe, 0xe, 0x8c, 0x78, 0x0, 0x0, 0x0, 0x0],
     [0x0, 0xc0, 0xc0, 0xc0, 0xfc, 0xee, 0xc6, 0xc6, 0xc6, 0xc6, 0xee, 0xfc, 0x0, 0x0, 0x0, 0x0],
     [0x0, 0x0, 0x0, 0x0, 0x7c, 0xce, 0xc6, 0xfe, 0x6, 0x6, 0x8e, 0x7c, 0x0, 0x0, 0x0, 0x0],
     [0x0, 0xf0, 0x38, 0x18, 0xfe, 0x18, 0x18, 0x18, 0x18, 0x18, 0x18, 0x18, 0x0, 0x0, 0x0, 0x0],
     [0x0, 0x0, 0x0, 0x0, 0xfc, 0xee, 0xc6, 0xc6, 0xc6, 0xc6, 0xee, 0xfc, 0xc0, 0xe0, 0x7c, 0x0],
     [0x0, 0x6, 0x6, 0x6, 0x7e, 0xee, 0xce, 0xc6, 0xc6, 0xc6, 0xc6, 0xc6, 0x0, 0x0, 0x0, 0x0],
     [0x30, 0x30, 0x30, 0x0, 0x3c, 0x30, 0x30, 0x30, 0x30, 0x30, 0x30, 0x1fe, 0x0, 0x0, 0x0, 0x0],
     [0x30, 0x30, 0x30, 0x0, 0x3c, 0x30, 0x30, 0x30, 0x30, 0x30, 0x30, 0x30, 0x30, 0x30, 0x1e, 0x0],
     [0x0, 0x6, 0x6, 0x6, 0xe6, 0x66, 0x3e, 0x3e, 0x7e, 0x66, 0xe6, 0x1c6, 0x0, 0x0, 0x0, 0x0],
     [0x0, 0x1e, 0x18, 0x18, 0x18, 0x18, 0x18, 0x18, 0x18, 0x18, 0x18, 0xf0, 0x0, 0x0, 0x0, 0x0],
     [0x0, 0x0, 0x0, 0x0, 0xfe, 0xfe, 0x92, 0x192, 0x192, 0x192, 0x192, 0x192, 0x0, 0x0, 0x0, 0x0],
     [0x0, 0x0, 0x0, 0x0, 0x7e, 0xee, 0xce, 0xc6, 0xc6, 0xc6, 0xc6, 0xc6, 0x0, 0x0, 0x0, 0x0],
     [0x0, 0x0, 0x0, 0x0, 0x7c, 0xee, 0xc6, 0xc6, 0xc6, 0xc6, 0xee, 0x7c, 0x0, 0x0, 0x0, 0x0],
     [0x0, 0x0, 0x0, 0x0, 0x7e, 0xee, 0xc6, 0xc6, 0xc6, 0xc6, 0xee, 0x7e, 0x6, 0x6, 0x6, 0x0],
     [0x0, 0x0, 0x0, 0x0, 0xfc, 0xee, 0xc6, 0xc6, 0xc6, 0xc6, 0xee, 0xfc, 0xc0, 0xc0, 0xc0, 0x0],
     [0x0, 0x0, 0x0, 0x0, 0x1fc, 0x1c, 0x1c, 0xc, 0xc, 0xc, 0xc, 0xc, 0x0, 0x0, 0x0, 0x0],
     [0x0, 0x0, 0x0, 0x0, 0x3c, 0x4e, 0xe, 0x7c, 0xf8, 0xe0, 0xe2, 0x7c, 0x0, 0x0, 0x0, 0x0],
     [0x0, 0x0, 0x18, 0x18, 0xfe, 0x18, 0x18, 0x18, 0x18, 0x18, 0x18, 0xf0, 0x0, 0x0, 0x0, 0x0],
     [0x0, 0x0, 0x0, 0x0, 0xc6, 0xc6, 0xc6, 0xc6, 0xc6, 0xc6, 0xee, 0xfc, 0x0, 0x0, 0x0, 0x0],
     [0x0, 0x0, 0x0, 0x0, 0xc6, 0xc6, 0xee, 0x6c, 0x6c, 0x7c, 0x38, 0x38, 0x0, 0x0, 0x0, 0x0],
     [0x0, 0x0, 0x0, 0x0, 0x183, 0x183, 0x1bb, 0xba, 0xfe, 0xee, 0xee, 0xee, 0x0, 0x0, 0x0, 0x0],
     [0x0, 0x0, 0x0, 0x0, 0xce, 0x6c, 0x7c, 0x38, 0x38, 0x7c, 0xee, 0xc6, 0x0, 0x0, 0x0, 0x0],
     [0x0, 0x0, 0x0, 0x0, 0xc6, 0xc6, 0xee, 0x6c, 0x7c, 0x78, 0x38, 0x38, 0x38, 0x18, 0xe, 0x0],
     [0x0, 0x0, 0x0, 0x0, 0xfe, 0xe0, 0x70, 0x78, 0x38, 0x1c, 0xe, 0xfe, 0x0, 0x0, 0x0, 0x0],
     [0x0, 0xf0, 0x30, 0x38, 0x38, 0x38, 0x38, 0x18, 0x1e, 0x18, 0x38, 0x38, 0x38, 0x30, 0xf0, 0x0],
     [0x0, 0x10, 0x10, 0x10, 0x10, 0x10, 0x10, 0x10, 0x10, 0x10, 0x10, 0x10, 0x10, 0x10, 0x10, 0x10],
     [0x0, 0x1e, 0x18, 0x38, 0x38, 0x38, 0x38, 0x30, 0xf0, 0x30, 0x38, 0x38, 0x38, 0x18, 0x1e, 0x0],
     [0x0, 0x0, 0x0, 0x0, 0x0, 0x0, 0x1e, 0xfe, 0xf0, 0x0, 0x0, 0x0, 0x0, 0x0, 0x0, 0x0],
     [0x0, 0xfe, 0x82, 0x82, 0x82, 0x82, 0x82, 0x82, 0x82, 0x82, 0x82, 0x82, 0x82, 0xfe, 0x0, 0x0]]"

definition unicode_font :: "(u32 \<times> u16 list) list" where
  "unicode_font =
    [(0xc7, [0x0, 0x78, 0x9c, 0xc, 0xe, 0x6, 0x6, 0x6, 0xe, 0xc, 0x9c, 0x78, 0x20, 0x60, 0x70, 0x0]),
     (0xe7, [0x0, 0x0, 0x0, 0x0, 0x78, 0x8c, 0xe, 0xe, 0xe, 0xe, 0x8c, 0x78, 0x20, 0x60, 0x38, 0x0]),
     (0x11e, [0x0, 0x78, 0x8c, 0xe, 0x6, 0x6, 0x6, 0xe6, 0xc6, 0xce, 0xcc, 0xf8, 0x0, 0x0, 0x0, 0x0]),
     (0x11f, [0x44, 0x38, 0x0, 0x0, 0xfc, 0xee, 0xc6, 0xc6, 0xc6, 0xc6, 0xee, 0xfc, 0xc0, 0xe0, 0x7c, 0x0]),
     (0x130, [0x0, 0xfe, 0x38, 0x38, 0x38, 0x38, 0x38, 0x38, 0x38, 0x38, 0x38, 0xfe, 0x0, 0x0, 0x0, 0x0]),
     (0x131, [0x0, 0x0, 0x0, 0x0, 0x3c, 0x30, 0x30, 0x30, 0x30, 0x30, 0x30, 0x1fe, 0x0, 0x0, 0x0, 0x0]),
     (0xd6, [0x0, 0x38, 0x6c, 0xc6, 0xc6, 0xc6, 0xc6, 0xc6, 0xc6, 0xc6, 0x6c, 0x38, 0x0, 0x0, 0x0, 0x0]),
     (0xf6, [0x6c, 0x6c, 0x0, 0x0, 0x7c, 0xee, 0xc6, 0xc6, 0xc6, 0xc6, 0xee, 0x7c, 0x0, 0x0, 0x0, 0x0]),
     (0x15e, [0x0, 0x7c, 0xce, 0x6, 0xe, 0x3e, 0x7c, 0xf0, 0xe0, 0xc0, 0xe2, 0x7c, 0x30, 0x20, 0x38, 0x0]),
     (0x15f, [0x0, 0x0, 0x0, 0x0, 0x3c, 0x4e, 0xe, 0x7c, 0xf8, 0xe0, 0xe2, 0x7c, 0x30, 0x20, 0x38, 0x0]),
     (0xdc, [0x0, 0xc6, 0xc6, 0xc6, 0xc6, 0xc6, 0xc6, 0xc6, 0xc6, 0xc6, 0xee, 0x7c, 0x0, 0x0, 0x0, 0x0]),
     (0xfc, [0x6c, 0x6c, 0x0, 0x0, 0xc6, 0xc6, 0xc6, 0xc6, 0xc6, 0xc6, 0xee, 0xfc, 0x0, 0x0, 0x0, 0x0])]"

definition font_glyph :: "u32 \<Rightarrow> u16 list" where
  "font_glyph cp =
     (if cp < 128 then ascii_font ! unat cp
      else case map_of unicode_font cp of Some rows \<Rightarrow> rows | None \<Rightarrow> ascii_font ! 63)"

lemma font_glyph_rows: "length (font_glyph cp) = 16"
proof -
  have a: "\<forall>r\<in>set ascii_font. length r = 16" by (simp add: ascii_font_def)
  have n: "length ascii_font = 128" by (simp add: ascii_font_def)
  have u: "\<forall>r\<in>set unicode_font. length (snd r) = 16" by (simp add: unicode_font_def)
  show ?thesis
  proof (cases "cp < 128")
    case True
    then have "unat cp < 128" by (simp add: word_less_nat_alt)
    then show ?thesis using a n True by (simp add: font_glyph_def)
  next
    case False
    then show ?thesis using a n u by (force simp: font_glyph_def split: option.splits dest: map_of_SomeD)
  qed
qed

end
