(* ===== verification/Display.thy ===== *)
theory Display
  imports Process_Exec Font
begin

text \<open>
  The framebuffer (\<^verbatim>\<open>src/drivers/gop.c\<close>) and the text console on it (\<^verbatim>\<open>src/console.c\<close>).  The description of the
  framebuffer comes from the boot loader.  Its memory is a map from byte offsets, counted from its address, to
  bytes, and so is the VGA text buffer from cell numbers to cells, so that a write outside the buffer would be
  seen as a change outside the range of its offsets.
\<close>

abbreviation (input) LIMINE_FRAMEBUFFER_RGB :: u8 where "LIMINE_FRAMEBUFFER_RGB \<equiv> 1"
abbreviation (input) cell_columns :: u64 where "cell_columns \<equiv> 20"
abbreviation (input) cell_rows :: u64 where "cell_rows \<equiv> 32"

record framebuffer =
  fb_address :: u64
  fb_width :: u64
  fb_height :: u64
  fb_pitch :: u64
  fb_bpp :: u16
  fb_memory_model :: u8
  fb_red_mask_size :: u8
  fb_red_mask_shift :: u8
  fb_green_mask_size :: u8
  fb_green_mask_shift :: u8
  fb_blue_mask_size :: u8
  fb_blue_mask_shift :: u8

record gop_framebuffer_info =
  gi_physical_base :: paddr
  gi_page_offset :: u64
  gi_mapping_size :: u64
  gi_framebuffer :: framebuffer

record display_state = proc_state +
  fb :: "framebuffer option"
  fb_mem :: "u64 \<Rightarrow> u8"
  current_bg :: u32
  cursor_x :: u64
  cursor_y :: u64
  foreground :: u32
  background :: u32
  using_gop :: bool
  vga_buffer :: "nat \<Rightarrow> u16"
  vga_cursor_x :: u16
  vga_cursor_y :: u16
  ansi_state :: nat
  ansi_sequence :: "u8 list"

subsection \<open>Pixels\<close>

definition channel :: "u32 \<Rightarrow> u8 \<Rightarrow> u8 \<Rightarrow> u32" where
  "channel v shift sz =
     (if sz = 0 then 0
      else let v = (if sz < 8 then drop_bit (8 - unat sz) v else v)
        in push_bit (unat shift) (v AND (push_bit (unat sz) 1 - 1)))"

definition pixel_value :: "framebuffer \<Rightarrow> u32 \<Rightarrow> u32" where
  "pixel_value f rgb =
     (if fb_memory_model f = LIMINE_FRAMEBUFFER_RGB
      then channel (drop_bit 16 rgb AND 0xff) (fb_red_mask_shift f) (fb_red_mask_size f)
           OR channel (drop_bit 8 rgb AND 0xff) (fb_green_mask_shift f) (fb_green_mask_size f)
           OR channel (rgb AND 0xff) (fb_blue_mask_shift f) (fb_blue_mask_size f)
      else rgb)"

text \<open>The bytes of one pixel at its offset: four, three or two of them.\<close>

definition pixel_bytes :: "u16 \<Rightarrow> u32 \<Rightarrow> u8 list" where
  "pixel_bytes bpp v = (if bpp = 32 then le32 v else if bpp = 24 then take 3 (le32 v) else if bpp = 16 then take 2 (le32 v) else [])"

definition pixel_offset :: "framebuffer \<Rightarrow> u64 \<Rightarrow> u64 \<Rightarrow> u64" where
  "pixel_offset f x y = y * fb_pitch f + x * (ucast (fb_bpp f) div 8)"

fun store_bytes :: "u64 \<Rightarrow> u8 list \<Rightarrow> (u64 \<Rightarrow> u8) \<Rightarrow> u64 \<Rightarrow> u8" where
  "store_bytes offset [] m = m"
| "store_bytes offset (b # bs) m = store_bytes (offset + 1) bs (m(offset := b))"

definition put_pixel :: "u64 \<Rightarrow> u64 \<Rightarrow> u32 \<Rightarrow> 'a display_state_scheme \<Rightarrow> 'a display_state_scheme" where
  "put_pixel x y rgb s =
     (case fb s of
        None \<Rightarrow> s
      | Some f \<Rightarrow>
          if x \<ge> fb_width f \<or> y \<ge> fb_height f then s
          else s\<lparr>fb_mem := store_bytes (pixel_offset f x y) (pixel_bytes (fb_bpp f) (pixel_value f rgb)) (fb_mem s)\<rparr>)"

definition fill_rows :: "u64 \<Rightarrow> u64 \<Rightarrow> u32 \<Rightarrow> 'a display_state_scheme \<Rightarrow> 'a display_state_scheme" where
  "fill_rows first_row last_row color s =
     (case fb s of
        None \<Rightarrow> s
      | Some f \<Rightarrow>
          if first_row \<ge> last_row \<or> first_row \<ge> fb_height f then s
          else fold (\<lambda>y s. fold (\<lambda>x s. put_pixel (of_nat x) (of_nat y) color s) [0..<unat (fb_width f)] s)
                 [unat first_row..<unat (min last_row (fb_height f))] s)"

subsection \<open>The framebuffer\<close>

definition gop_init :: "framebuffer option \<Rightarrow> 'a display_state_scheme \<Rightarrow> bool \<times> 'a display_state_scheme" where
  "gop_init boot_framebuffer s =
     (let s = s\<lparr>fb := boot_framebuffer\<rparr>
      in case boot_framebuffer of
           None \<Rightarrow> (False, s)
         | Some f \<Rightarrow>
             if fb_address f = 0 \<or> fb_width f = 0 \<or> fb_height f = 0 then (False, s)
             else if fb_bpp f \<noteq> 16 \<and> fb_bpp f \<noteq> 24 \<and> fb_bpp f \<noteq> 32 then (False, s)
             else (True, s\<lparr>current_bg := 0x101820, user_display_owner := 0\<rparr>))"

definition gop_ready :: "'a display_state_scheme \<Rightarrow> bool" where
  "gop_ready s \<longleftrightarrow> fb s \<noteq> None"

text \<open>\<open>hhdm\<close> is the offset of the direct map, if the boot loader gave one.\<close>

definition gop_get_framebuffer_info :: "u64 option \<Rightarrow> 'a display_state_scheme \<Rightarrow> gop_framebuffer_info option" where
  "gop_get_framebuffer_info hhdm s =
     (case fb s of
        None \<Rightarrow> None
      | Some f \<Rightarrow>
          if fb_address f = 0 \<or> fb_width f = 0 \<or> fb_height f = 0 \<or> fb_pitch f = 0 then None
          else let physical = (case hhdm of
                     Some offset \<Rightarrow> if fb_address f \<ge> offset then fb_address f - offset else fb_address f
                   | None \<Rightarrow> fb_address f);
                   page_offset = physical AND (NPK_PAGE_SIZE - 1)
            in if fb_height f > UINT64_MAX div fb_pitch f then None
               else let byte_count = fb_pitch f * fb_height f
                 in if byte_count > UINT64_MAX - page_offset then None
                    else let sz = page_offset + byte_count
                      in if sz > UINT64_MAX - (NPK_PAGE_SIZE - 1) then None
                         else let sz = (sz + NPK_PAGE_SIZE - 1) AND NOT (NPK_PAGE_SIZE - 1)
                           in if sz = 0 then None
                              else Some \<lparr>gi_physical_base = physical - page_offset, gi_page_offset = page_offset,
                                         gi_mapping_size = sz, gi_framebuffer = f\<rparr>)"

definition gop_claim_user_display :: "u64 \<Rightarrow> 'a display_state_scheme \<Rightarrow> bool \<times> 'a display_state_scheme" where
  "gop_claim_user_display p s =
     (if \<not> gop_ready s \<or> p = 0 then (False, s)
      else if user_display_owner s \<noteq> 0 \<and> user_display_owner s \<noteq> p then (False, s)
      else (True, s\<lparr>user_display_owner := p\<rparr>))"

definition gop_user_display_owned :: "'a proc_state_scheme \<Rightarrow> bool" where
  "gop_user_display_owned s \<longleftrightarrow> user_display_owner s \<noteq> 0"

definition gop_user_display_owned_by :: "u64 \<Rightarrow> 'a proc_state_scheme \<Rightarrow> bool" where
  "gop_user_display_owned_by p s \<longleftrightarrow> p \<noteq> 0 \<and> user_display_owner s = p"

definition gop_width :: "'a display_state_scheme \<Rightarrow> u64" where
  "gop_width s = (case fb s of None \<Rightarrow> 0 | Some f \<Rightarrow> fb_width f)"

definition gop_height :: "'a display_state_scheme \<Rightarrow> u64" where
  "gop_height s = (case fb s of None \<Rightarrow> 0 | Some f \<Rightarrow> fb_height f)"

definition gop_columns :: "'a display_state_scheme \<Rightarrow> u64" where
  "gop_columns s = (case fb s of None \<Rightarrow> 0 | Some f \<Rightarrow> fb_width f div cell_columns)"

definition gop_rows :: "'a display_state_scheme \<Rightarrow> u64" where
  "gop_rows s = (case fb s of None \<Rightarrow> 0 | Some f \<Rightarrow> fb_height f div cell_rows)"

definition gop_clear :: "u32 \<Rightarrow> 'a display_state_scheme \<Rightarrow> 'a display_state_scheme" where
  "gop_clear color s =
     (case fb s of
        None \<Rightarrow> s
      | Some f \<Rightarrow> if user_display_owner s \<noteq> 0 then s else fill_rows 0 (fb_height f) color (s\<lparr>current_bg := color\<rparr>))"

definition draw_glyph_pixel ::
  "u64 \<Rightarrow> u64 \<Rightarrow> u16 list \<Rightarrow> u32 \<Rightarrow> u32 \<Rightarrow> nat \<times> nat \<times> nat \<times> nat \<Rightarrow> 'a display_state_scheme \<Rightarrow> 'a display_state_scheme" where
  "draw_glyph_pixel origin_x origin_y glyph fg bg p s =
     (let (gy, gx, sy, sx) = p; color = (if bit (glyph ! gy) gx then fg else bg)
      in put_pixel (origin_x + of_nat gx * 2 + of_nat sx) (origin_y + of_nat gy * 2 + of_nat sy) color s)"

definition glyph_pixels :: "(nat \<times> nat \<times> nat \<times> nat) list" where
  "glyph_pixels = [(gy, gx, sy, sx). gy \<leftarrow> [0..<16], gx \<leftarrow> [0..<10], sy \<leftarrow> [0..<2], sx \<leftarrow> [0..<2]]"

definition gop_draw_cell :: "u64 \<Rightarrow> u64 \<Rightarrow> u32 \<Rightarrow> u32 \<Rightarrow> u32 \<Rightarrow> 'a display_state_scheme \<Rightarrow> 'a display_state_scheme" where
  "gop_draw_cell column row codepoint fg bg s =
     (if fb s = None \<or> user_display_owner s \<noteq> 0 \<or> column \<ge> gop_columns s \<or> row \<ge> gop_rows s then s
      else fold (draw_glyph_pixel (column * cell_columns) (row * cell_rows) (font_glyph codepoint) fg bg) glyph_pixels s)"

text \<open>\<^verbatim>\<open>memmove\<close> of the lower part of the buffer to its start.\<close>

definition move_up :: "u64 \<Rightarrow> u64 \<Rightarrow> (u64 \<Rightarrow> u8) \<Rightarrow> u64 \<Rightarrow> u8" where
  "move_up distance count m = (\<lambda>a. if a < count then m (a + distance) else m a)"

definition gop_scroll_rows :: "u64 \<Rightarrow> u32 \<Rightarrow> 'a display_state_scheme \<Rightarrow> 'a display_state_scheme" where
  "gop_scroll_rows rows bg s =
     (case fb s of
        None \<Rightarrow> s
      | Some f \<Rightarrow>
          if user_display_owner s \<noteq> 0 \<or> rows = 0 then s
          else let pixel_rows = rows * cell_rows
            in if pixel_rows \<ge> fb_height f then gop_clear bg s
               else let s = s\<lparr>fb_mem := move_up (pixel_rows * fb_pitch f) ((fb_height f - pixel_rows) * fb_pitch f) (fb_mem s)\<rparr>
                 in (fill_rows (fb_height f - pixel_rows) (fb_height f) bg s)\<lparr>current_bg := bg\<rparr>)"

subsection \<open>The console\<close>

definition vga_putc_fallback :: "u8 \<Rightarrow> 'a display_state_scheme \<Rightarrow> 'a display_state_scheme" where
  "vga_putc_fallback c s =
     (let x = vga_cursor_x s; y = vga_cursor_y s;
          s = (if c = 10 then s\<lparr>vga_cursor_x := 0, vga_cursor_y := y + 1\<rparr>
               else if c = 13 then s\<lparr>vga_cursor_x := 0\<rparr>
               else if c = 8 then
                 (let x = (if x \<noteq> 0 then x - 1 else x)
                  in s\<lparr>vga_cursor_x := x, vga_buffer := (vga_buffer s)(unat y * 80 + unat x := 0x0720)\<rparr>)
               else if c = 9 then s\<lparr>vga_cursor_x := (x + 8) AND NOT 7\<rparr>
               else s\<lparr>vga_buffer := (vga_buffer s)(unat y * 80 + unat x := 0x0700 OR ucast c), vga_cursor_x := x + 1\<rparr>);
          s = (if vga_cursor_x s \<ge> 80 then s\<lparr>vga_cursor_x := 0, vga_cursor_y := vga_cursor_y s + 1\<rparr> else s)
      in if vga_cursor_y s \<ge> 25 then s\<lparr>vga_cursor_y := 0\<rparr> else s)"

definition tty_newline :: "'a display_state_scheme \<Rightarrow> 'a display_state_scheme" where
  "tty_newline s =
     (let s = s\<lparr>cursor_x := 0, cursor_y := cursor_y s + 1\<rparr>
      in if cursor_y s \<ge> gop_rows s
         then (gop_scroll_rows 1 (background s) s)\<lparr>cursor_y := (if gop_rows s = 0 then 0 else gop_rows s - 1)\<rparr>
         else s)"

text \<open>\<^verbatim>\<open>draw_codepoint\<close> without its tab case, which calls it with blanks.\<close>

definition draw_simple :: "u32 \<Rightarrow> 'a display_state_scheme \<Rightarrow> 'a display_state_scheme" where
  "draw_simple cp s =
     (if cp = 10 then tty_newline s
      else if cp = 13 then s\<lparr>cursor_x := 0\<rparr>
      else if cp = 8 then
        (if cursor_x s \<noteq> 0
         then gop_draw_cell (cursor_x s - 1) (cursor_y s) 32 (foreground s) (background s) (s\<lparr>cursor_x := cursor_x s - 1\<rparr>)
         else s)
      else let s = gop_draw_cell (cursor_x s) (cursor_y s) cp (foreground s) (background s) s;
               s = s\<lparr>cursor_x := cursor_x s + 1\<rparr>
        in if cursor_x s \<ge> gop_columns s then tty_newline s else s)"

fun draw_tab :: "nat \<Rightarrow> 'a display_state_scheme \<Rightarrow> 'a display_state_scheme" where
  "draw_tab 0 s = s"
| "draw_tab (Suc n) s = (let s = draw_simple 32 s in if cursor_x s = 0 then s else draw_tab n s)"

definition draw_codepoint :: "u32 \<Rightarrow> 'a display_state_scheme \<Rightarrow> 'a display_state_scheme" where
  "draw_codepoint cp s =
     (if \<not> using_gop s then (if cp < 128 then vga_putc_fallback (ucast cp) s else s)
      else if gop_columns s = 0 \<or> gop_rows s = 0 then s
      else if cp = 9 then draw_tab (unat (8 - (cursor_x s AND 7))) s
      else draw_simple cp s)"

definition console_init :: "framebuffer option \<Rightarrow> 'a display_state_scheme \<Rightarrow> 'a display_state_scheme" where
  "console_init boot_framebuffer s =
     (let (ok, s) = gop_init boot_framebuffer s;
          s = s\<lparr>using_gop := ok, cursor_x := 0, cursor_y := 0, vga_cursor_x := 0, vga_cursor_y := 0\<rparr>
      in if ok then gop_clear (background s) s else s)"

definition console_clear :: "'a display_state_scheme \<Rightarrow> 'a display_state_scheme" where
  "console_clear s =
     (let s = s\<lparr>cursor_x := 0, cursor_y := 0, vga_cursor_x := 0, vga_cursor_y := 0, ansi_state := 0, ansi_sequence := []\<rparr>
      in if using_gop s then gop_clear (background s) s else s)"

definition console_set_color :: "u32 \<Rightarrow> u32 \<Rightarrow> 'a display_state_scheme \<Rightarrow> 'a display_state_scheme" where
  "console_set_color fg bg s = s\<lparr>foreground := fg, background := bg\<rparr>"

definition console_putc :: "u8 \<Rightarrow> 'a display_state_scheme \<Rightarrow> 'a display_state_scheme" where
  "console_putc c s = draw_codepoint (ucast c) s"

text \<open>The codepoint at the head of the bytes and the number of bytes it takes.\<close>

definition continuation :: "u8 \<Rightarrow> bool" where
  "continuation b \<longleftrightarrow> b AND 0xc0 = 0x80"

definition decode_utf8 :: "u8 list \<Rightarrow> u32 \<times> nat" where
  "decode_utf8 bs =
     (case bs of
        [] \<Rightarrow> (0, 1)
      | c # rest \<Rightarrow>
          if c AND 0xe0 = 0xc0 \<and> length rest \<ge> 1 \<and> continuation (rest ! 0)
          then (push_bit 6 (ucast (c AND 0x1f)) OR ucast (rest ! 0 AND 0x3f), 2)
          else if c AND 0xf0 = 0xe0 \<and> length rest \<ge> 2 \<and> continuation (rest ! 0) \<and> continuation (rest ! 1)
          then (push_bit 12 (ucast (c AND 0x0f)) OR push_bit 6 (ucast (rest ! 0 AND 0x3f)) OR ucast (rest ! 1 AND 0x3f), 3)
          else if c AND 0xf8 = 0xf0 \<and> length rest \<ge> 3 \<and> continuation (rest ! 0) \<and> continuation (rest ! 1) \<and> continuation (rest ! 2)
          then (push_bit 18 (ucast (c AND 7)) OR push_bit 12 (ucast (rest ! 0 AND 0x3f))
                OR push_bit 6 (ucast (rest ! 1 AND 0x3f)) OR ucast (rest ! 2 AND 0x3f), 4)
          else (ucast c, 1))"

definition blank_cells :: "nat list \<Rightarrow> 'a display_state_scheme \<Rightarrow> 'a display_state_scheme" where
  "blank_cells xs s = fold (\<lambda>x s. gop_draw_cell (of_nat x) (cursor_y s) 32 (foreground s) (background s) s) xs s"

text \<open>The final byte of an escape sequence.\<close>

definition ansi_final :: "u8 \<Rightarrow> 'a display_state_scheme \<Rightarrow> 'a display_state_scheme" where
  "ansi_final c s =
     (let s = (if c = byte_of (CHR ''J'') \<and> cstring (ansi_sequence s) = ''2'' then console_clear s
               else if c = byte_of (CHR ''H'') \<and> (ansi_sequence s = [] \<or> cstring (ansi_sequence s) = ''1;1'')
               then s\<lparr>cursor_x := 0, cursor_y := 0\<rparr>
               else if c = byte_of (CHR ''K'') \<and> using_gop s then blank_cells [unat (cursor_x s)..<unat (gop_columns s)] s
               else s)
      in s\<lparr>ansi_state := 0, ansi_sequence := []\<rparr>)"

definition ansi_byte :: "u8 \<Rightarrow> 'a display_state_scheme \<Rightarrow> 'a display_state_scheme" where
  "ansi_byte c s =
     (if ansi_state s = 1 then s\<lparr>ansi_state := (if c = byte_of (CHR ''['') then 2 else 0), ansi_sequence := []\<rparr>
      else if c \<ge> 0x40 \<and> c \<le> 0x7e then ansi_final c s
      else if length (ansi_sequence s) + 1 < 16 then s\<lparr>ansi_sequence := ansi_sequence s @ [c]\<rparr>
      else s\<lparr>ansi_state := 0, ansi_sequence := []\<rparr>)"

function console_write_n :: "u8 list \<Rightarrow> 'a display_state_scheme \<Rightarrow> 'a display_state_scheme" where
  "console_write_n [] s = s"
| "console_write_n (c # bs) s =
     (if ansi_state s = 0 \<and> c = 0x1b then console_write_n bs (s\<lparr>ansi_state := 1\<rparr>)
      else if ansi_state s \<noteq> 0 then console_write_n bs (ansi_byte c s)
      else let (cp, consumed) = decode_utf8 (c # bs)
        in console_write_n (drop (consumed - 1) bs) (draw_codepoint cp s))"
  by pat_completeness auto

termination
  by (relation "measure (\<lambda>(bs, s). length bs)") auto

definition console_write :: "string \<Rightarrow> 'a display_state_scheme \<Rightarrow> 'a display_state_scheme" where
  "console_write txt s = console_write_n (bytes_of txt) s"

text \<open>The digits of a number, most significant first.\<close>

fun digit_bytes :: "nat \<Rightarrow> nat \<Rightarrow> u8 list" where
  "digit_bytes base v =
     (if v = 0 \<or> base < 2 then [] else digit_bytes base (v div base) @ [bytes_of ''0123456789abcdef'' ! (v mod base)])"

declare digit_bytes.simps [simp del]

definition console_write_u64 :: "u64 \<Rightarrow> nat \<Rightarrow> 'a display_state_scheme \<Rightarrow> 'a display_state_scheme" where
  "console_write_u64 v base s =
     (if v = 0 then console_putc 48 s else fold console_putc (digit_bytes base (unat v)) s)"

definition console_write_hex :: "u64 \<Rightarrow> 'a display_state_scheme \<Rightarrow> 'a display_state_scheme" where
  "console_write_hex v s = console_write_u64 v 16 (console_write ''0x'' s)"

definition console_write_i64 :: "u64 \<Rightarrow> 'a display_state_scheme \<Rightarrow> 'a display_state_scheme" where
  "console_write_i64 v s =
     (if sint v < 0 then console_write_u64 (- (v + 1) + 1) 10 (console_putc 45 s) else console_write_u64 v 10 s)"

end
