(* ===== verification/Keyboard.thy ===== *)
theory Keyboard
  imports Display
begin

text \<open>
  Keyboard and mouse: \<^verbatim>\<open>src/drivers/keyboard.c\<close>, \<^verbatim>\<open>src/drivers/mouse.c\<close> and the boot-report decoder of
  \<^verbatim>\<open>src/drivers/usb_generic_keyboard.c\<close>.  Characters go to a ring buffer of bytes and events to a ring buffer
  of event records; both keep one slot empty.  A blocking read waits for other threads and interrupts, which
  are a function \<open>idle\<close> of the state: what the state is when the waiting thread runs again.
\<close>

abbreviation (input) QUEUE_SIZE :: nat where "QUEUE_SIZE \<equiv> 1024"
abbreviation (input) EVENT_QUEUE_SIZE :: nat where "EVENT_QUEUE_SIZE \<equiv> 128"
abbreviation (input) NPK_INPUT_EVENT_KEY :: u16 where "NPK_INPUT_EVENT_KEY \<equiv> 1"
abbreviation (input) NPK_INPUT_EVENT_REL :: u16 where "NPK_INPUT_EVENT_REL \<equiv> 2"
abbreviation (input) NPK_INPUT_MOD_SHIFT :: u32 where "NPK_INPUT_MOD_SHIFT \<equiv> 1"
abbreviation (input) NPK_INPUT_MOD_CAPSLOCK :: u32 where "NPK_INPUT_MOD_CAPSLOCK \<equiv> 2"
abbreviation (input) NPK_INPUT_MOD_EXTENDED :: u32 where "NPK_INPUT_MOD_EXTENDED \<equiv> 4"
abbreviation (input) NPK_INPUT_MOD_CTRL :: u32 where "NPK_INPUT_MOD_CTRL \<equiv> 8"
abbreviation (input) NPK_INPUT_MOD_ALT :: u32 where "NPK_INPUT_MOD_ALT \<equiv> 16"
abbreviation (input) NPK_INPUT_MOD_GUI :: u32 where "NPK_INPUT_MOD_GUI \<equiv> 32"
abbreviation (input) NPK_INPUT_MOD_ALTGR :: u32 where "NPK_INPUT_MOD_ALTGR \<equiv> 64"

record npk_input_event =
  ev_timestamp :: u64
  ev_type :: u16
  ev_code :: u16
  ev_value :: int
  ev_modifiers :: u32

record usb_generic_keyboard_state =
  uk_modifiers :: u8
  uk_keys :: "u8 list"
  uk_initialized :: bool

record input_state = display_state +
  kb_queue :: "u8 list"
  kb_head :: nat
  kb_tail :: nat
  input_waiter :: "nat option"
  event_queue :: "npk_input_event list"
  event_head :: nat
  event_tail :: nat
  turkish :: bool
  shift_down :: bool
  altgr_down :: bool
  caps_lock :: bool
  kb_extended :: bool
  mouse_is_ready :: bool
  mouse_packet :: "u8 list"
  button_state :: u8
  keyboard_states :: "nat \<Rightarrow> usb_generic_keyboard_state"

subsection \<open>Key tables\<close>

definition us_lower :: "(u16 \<times> u8 list) list" where
  "us_lower =
    [(0x2, [0x31]), (0x3, [0x32]), (0x4, [0x33]), (0x5, [0x34]), (0x6, [0x35]), (0x7, [0x36]), (0x8, [0x37]),
     (0x9, [0x38]), (0xa, [0x39]), (0xb, [0x30]), (0x10, [0x71]), (0x11, [0x77]), (0x12, [0x65]), (0x13, [0x72]),
     (0x14, [0x74]), (0x15, [0x79]), (0x16, [0x75]), (0x17, [0x69]), (0x18, [0x6f]), (0x19, [0x70]),
     (0x1e, [0x61]), (0x1f, [0x73]), (0x20, [0x64]), (0x21, [0x66]), (0x22, [0x67]), (0x23, [0x68]),
     (0x24, [0x6a]), (0x25, [0x6b]), (0x26, [0x6c]), (0x2c, [0x7a]), (0x2d, [0x78]), (0x2e, [0x63]),
     (0x2f, [0x76]), (0x30, [0x62]), (0x31, [0x6e]), (0x32, [0x6d]), (0x39, [0x20])]"

definition us_upper :: "(u16 \<times> u8 list) list" where
  "us_upper =
    [(0x2, [0x21]), (0x3, [0x40]), (0x4, [0x23]), (0x5, [0x24]), (0x6, [0x25]), (0x7, [0x5e]), (0x8, [0x26]),
     (0x9, [0x2a]), (0xa, [0x28]), (0xb, [0x29]), (0x10, [0x51]), (0x11, [0x57]), (0x12, [0x45]), (0x13, [0x52]),
     (0x14, [0x54]), (0x15, [0x59]), (0x16, [0x55]), (0x17, [0x49]), (0x18, [0x4f]), (0x19, [0x50]),
     (0x1e, [0x41]), (0x1f, [0x53]), (0x20, [0x44]), (0x21, [0x46]), (0x22, [0x47]), (0x23, [0x48]),
     (0x24, [0x4a]), (0x25, [0x4b]), (0x26, [0x4c]), (0x2c, [0x5a]), (0x2d, [0x58]), (0x2e, [0x43]),
     (0x2f, [0x56]), (0x30, [0x42]), (0x31, [0x4e]), (0x32, [0x4d]), (0x39, [0x20])]"

definition tr_lower :: "(u16 \<times> u8 list) list" where
  "tr_lower =
    [(0x2, [0x31]), (0x3, [0x32]), (0x4, [0x33]), (0x5, [0x34]), (0x6, [0x35]), (0x7, [0x36]), (0x8, [0x37]),
     (0x9, [0x38]), (0xa, [0x39]), (0xb, [0x30]), (0xc, [0x2a]), (0xd, [0x2d]), (0x2b, [0x2c]), (0x29, [0x22]),
     (0x35, [0x2e]), (0x10, [0x71]), (0x11, [0x77]), (0x12, [0x65]), (0x13, [0x72]), (0x14, [0x74]),
     (0x15, [0x79]), (0x16, [0x75]), (0x17, [0xc4, 0xb1]), (0x18, [0x6f]), (0x19, [0x70]), (0x1a, [0xc4, 0x9f]),
     (0x1b, [0xc3, 0xbc]), (0x1e, [0x61]), (0x1f, [0x73]), (0x20, [0x64]), (0x21, [0x66]), (0x22, [0x67]),
     (0x23, [0x68]), (0x24, [0x6a]), (0x25, [0x6b]), (0x26, [0x6c]), (0x27, [0xc5, 0x9f]), (0x28, [0x69]),
     (0x2c, [0x7a]), (0x2d, [0x78]), (0x2e, [0x63]), (0x2f, [0x76]), (0x30, [0x62]), (0x31, [0x6e]),
     (0x32, [0x6d]), (0x33, [0xc3, 0xb6]), (0x34, [0xc3, 0xa7]), (0x39, [0x20])]"

definition tr_upper :: "(u16 \<times> u8 list) list" where
  "tr_upper =
    [(0x2, [0x21]), (0x3, [0x27]), (0x4, [0x5e]), (0x5, [0x2b]), (0x6, [0x25]), (0x7, [0x26]), (0x8, [0x2f]),
     (0x9, [0x28]), (0xa, [0x29]), (0xb, [0x3d]), (0xc, [0x3f]), (0xd, [0x5f]), (0x2b, [0x3b]),
     (0x29, [0xc3, 0xa9]), (0x35, [0x3a]), (0x10, [0x51]), (0x11, [0x57]), (0x12, [0x45]), (0x13, [0x52]),
     (0x14, [0x54]), (0x15, [0x59]), (0x16, [0x55]), (0x17, [0x49]), (0x18, [0x4f]), (0x19, [0x50]),
     (0x1a, [0xc4, 0x9e]), (0x1b, [0xc3, 0x9c]), (0x1e, [0x41]), (0x1f, [0x53]), (0x20, [0x44]), (0x21, [0x46]),
     (0x22, [0x47]), (0x23, [0x48]), (0x24, [0x4a]), (0x25, [0x4b]), (0x26, [0x4c]), (0x27, [0xc5, 0x9e]),
     (0x28, [0xc4, 0xb0]), (0x2c, [0x5a]), (0x2d, [0x58]), (0x2e, [0x43]), (0x2f, [0x56]), (0x30, [0x42]),
     (0x31, [0x4e]), (0x32, [0x4d]), (0x33, [0xc3, 0x96]), (0x34, [0xc3, 0x87]), (0x39, [0x20])]"

definition usb_letters :: "u16 list" where
  "usb_letters = [0x1e, 0x30, 0x2e, 0x20, 0x12, 0x21, 0x22, 0x23, 0x17, 0x24, 0x25, 0x26, 0x32, 0x31, 0x18, 0x19, 0x10, 0x13, 0x1f, 0x14, 0x16, 0x2f, 0x11, 0x2d, 0x15, 0x2c]"

definition usb_digits :: "u16 list" where
  "usb_digits = [0x2, 0x3, 0x4, 0x5, 0x6, 0x7, 0x8, 0x9, 0xa, 0xb]"

definition usb_cases :: "(u8 \<times> u16 \<times> bool) list" where
  "usb_cases =
    [(0x28, 0x1c, False), (0x29, 0x01, False), (0x2a, 0x0e, False), (0x2b, 0x0f, False), (0x2c, 0x39, False),
     (0x2d, 0x0c, False), (0x2e, 0x0d, False), (0x2f, 0x1a, False), (0x30, 0x1b, False), (0x31, 0x2b, False),
     (0x32, 0x2b, False), (0x33, 0x27, False), (0x34, 0x28, False), (0x35, 0x29, False), (0x36, 0x33, False),
     (0x37, 0x34, False), (0x38, 0x35, False), (0x39, 0x3a, False), (0x3a, 0x3b, False), (0x3b, 0x3c, False),
     (0x3c, 0x3d, False), (0x3d, 0x3e, False), (0x3e, 0x3f, False), (0x3f, 0x40, False), (0x40, 0x41, False),
     (0x41, 0x42, False), (0x42, 0x43, False), (0x43, 0x44, False), (0x44, 0x57, False), (0x45, 0x58, False),
     (0x46, 0x37, True), (0x47, 0x46, False), (0x48, 0x45, False), (0x58, 0x1c, True), (0x49, 0x52, True),
     (0x4a, 0x47, True), (0x4b, 0x49, True), (0x4c, 0x53, True), (0x4d, 0x4f, True), (0x4e, 0x51, True),
     (0x4f, 0x4d, True), (0x50, 0x4b, True), (0x51, 0x50, True), (0x52, 0x48, True), (0x53, 0x45, False),
     (0x54, 0x35, True), (0x55, 0x37, False), (0x56, 0x4a, False), (0x57, 0x4e, False), (0x59, 0x4f, False),
     (0x5a, 0x50, False), (0x5b, 0x51, False), (0x5c, 0x4b, False), (0x5d, 0x4c, False), (0x5e, 0x4d, False),
     (0x5f, 0x47, False), (0x60, 0x48, False), (0x61, 0x49, False), (0x62, 0x52, False), (0x63, 0x53, False),
     (0x64, 0x56, False), (0x65, 0x5d, True), (0x66, 0x5e, True), (0x67, 0x0d, False), (0xe0, 0x1d, False),
     (0xe1, 0x2a, False), (0xe2, 0x38, False), (0xe3, 0x5b, True), (0xe4, 0x1d, True), (0xe5, 0x36, False),
     (0xe6, 0x38, True), (0xe7, 0x5c, True)]"

text \<open>The key code of a USB usage and whether it is an extended key; code 0 is an unknown usage.\<close>

definition usb_usage_to_keycode :: "u8 \<Rightarrow> u16 \<times> bool" where
  "usb_usage_to_keycode usage =
     (if usage \<ge> 0x04 \<and> usage \<le> 0x1d then (usb_letters ! unat (usage - 0x04), False)
      else if usage \<ge> 0x1e \<and> usage \<le> 0x27 then (usb_digits ! unat (usage - 0x1e), False)
      else case map_of usb_cases usage of Some r \<Rightarrow> r | None \<Rightarrow> (0, False))"

definition key_text :: "bool \<Rightarrow> bool \<Rightarrow> u16 \<Rightarrow> u8 list option" where
  "key_text tr use_upper key =
     map_of (if use_upper then (if tr then tr_upper else us_upper) else (if tr then tr_lower else us_lower)) key"

definition euro_sign :: "u8 list" where
  "euro_sign = [0xe2, 0x82, 0xac]"

subsection \<open>The two queues\<close>

definition enqueue_byte :: "u8 \<Rightarrow> 'a input_state_scheme \<Rightarrow> 'a input_state_scheme" where
  "enqueue_byte v s =
     (let nxt = (kb_head s + 1) mod QUEUE_SIZE
      in if nxt = kb_tail s then s
         else let s = s\<lparr>kb_queue := (kb_queue s)[kb_head s := v], kb_head := nxt\<rparr>
           in case input_waiter s of
                None \<Rightarrow> s
              | Some t \<Rightarrow> scheduler_wake_thread t (s\<lparr>input_waiter := None\<rparr>))"

definition enqueue_text :: "u8 list \<Rightarrow> 'a input_state_scheme \<Rightarrow> 'a input_state_scheme" where
  "enqueue_text txt s = fold enqueue_byte txt s"

definition keyboard_enqueue_input_event :: "u16 \<Rightarrow> u16 \<Rightarrow> int \<Rightarrow> u32 \<Rightarrow> 'a input_state_scheme \<Rightarrow> 'a input_state_scheme" where
  "keyboard_enqueue_input_event typ code v modifiers s =
     (let nxt = (event_head s + 1) mod EVENT_QUEUE_SIZE
      in if nxt = event_tail s then s
         else s\<lparr>event_queue := (event_queue s)[event_head s := \<lparr>ev_timestamp = ticks s, ev_type = typ, ev_code = code,
                                                             ev_value = v, ev_modifiers = modifiers\<rparr>],
                event_head := nxt\<rparr>)"

definition keyboard_has_data :: "'a input_state_scheme \<Rightarrow> bool" where
  "keyboard_has_data s \<longleftrightarrow> kb_tail s \<noteq> kb_head s"

definition keyboard_get_event :: "'a input_state_scheme \<Rightarrow> npk_input_event option \<times> 'a input_state_scheme" where
  "keyboard_get_event s =
     (if event_tail s = event_head s then (None, s)
      else (Some (event_queue s ! event_tail s), s\<lparr>event_tail := (event_tail s + 1) mod EVENT_QUEUE_SIZE\<rparr>))"

definition keyboard_clear_events :: "'a input_state_scheme \<Rightarrow> 'a input_state_scheme" where
  "keyboard_clear_events s = s\<lparr>event_tail := event_head s\<rparr>"

definition keyboard_getchar :: "'a input_state_scheme \<Rightarrow> u8 option \<times> 'a input_state_scheme" where
  "keyboard_getchar s =
     (if kb_tail s \<noteq> kb_head s
      then (Some (kb_queue s ! kb_tail s), s\<lparr>kb_tail := (kb_tail s + 1) mod QUEUE_SIZE\<rparr>)
      else (None, s))"

text \<open>Before the thread gives up the processor, and after it has it back.\<close>

definition input_block :: "nat \<Rightarrow> 'a input_state_scheme \<Rightarrow> 'a input_state_scheme" where
  "input_block t s =
     snd (scheduler_yield (upd_thread t (\<lambda>th. th\<lparr>th_state := THREAD_BLOCKED, privilege_ring := 0\<rparr>) (s\<lparr>input_waiter := Some t\<rparr>)))"

definition input_resume :: "nat \<Rightarrow> nat \<Rightarrow> 'a input_state_scheme \<Rightarrow> 'a input_state_scheme" where
  "input_resume t ring s =
     (let s = upd_thread t (\<lambda>th. th\<lparr>privilege_ring := ring\<rparr>) s
      in if ring = 3
         then s\<lparr>cpu := (cpu s)\<lparr>cpu_fs_base := fs_base (threads s t), cpu_user_gs_base := gs_base (threads s t)\<rparr>\<rparr>
         else s)"

definition input_wait :: "('a input_state_scheme \<Rightarrow> 'a input_state_scheme) \<Rightarrow> 'a input_state_scheme \<Rightarrow> 'a input_state_scheme" where
  "input_wait idle s =
     (case current s of
        None \<Rightarrow> idle s
      | Some t \<Rightarrow> input_resume t (privilege_ring (threads s t)) (idle (input_block t s)))"

partial_function (option) keyboard_getchar_blocking ::
  "('a input_state_scheme \<Rightarrow> 'a input_state_scheme) \<Rightarrow> 'a input_state_scheme \<Rightarrow> (u8 \<times> 'a input_state_scheme) option" where
  "keyboard_getchar_blocking idle s =
     (case keyboard_getchar s of
        (Some c, s) \<Rightarrow> Some (c, s)
      | (None, s) \<Rightarrow> keyboard_getchar_blocking idle (input_wait idle s))"

definition keyboard_init :: "'a input_state_scheme \<Rightarrow> 'a input_state_scheme" where
  "keyboard_init s =
     s\<lparr>kb_head := 0, kb_tail := 0, input_waiter := None, event_head := 0, event_tail := 0, shift_down := False,
       altgr_down := False, caps_lock := False, kb_extended := False\<rparr>"

definition keyboard_set_turkish_layout :: "bool \<Rightarrow> 'a input_state_scheme \<Rightarrow> 'a input_state_scheme" where
  "keyboard_set_turkish_layout enabled s = s\<lparr>turkish := enabled\<rparr>"

subsection \<open>PS/2 scan codes\<close>

definition extended_key_code :: "u8 \<Rightarrow> u16" where
  "extended_key_code key =
     (if key = 0x48 then 103 else if key = 0x50 then 108 else if key = 0x4b then 105 else if key = 0x4d then 106 else 0)"

definition flag :: "bool \<Rightarrow> u32 \<Rightarrow> u32" where
  "flag b m = (if b then m else 0)"

definition ps2_letter :: "u8 \<Rightarrow> bool" where
  "ps2_letter key \<longleftrightarrow> (key \<ge> 0x10 \<and> key \<le> 0x1b) \<or> (key \<ge> 0x1e \<and> key \<le> 0x28) \<or> (key \<ge> 0x2c \<and> key \<le> 0x34)"

definition ps2_text :: "u8 \<Rightarrow> 'a input_state_scheme \<Rightarrow> u8 list option" where
  "ps2_text key s =
     (if key < 0x40 then
        if altgr_down s then (if key = 0x12 then Some euro_sign else None)
        else key_text (turkish s) (if ps2_letter key \<and> caps_lock s then \<not> shift_down s else shift_down s) (ucast key)
      else None)"

definition ps2_key :: "bool \<Rightarrow> u8 \<Rightarrow> 'a input_state_scheme \<Rightarrow> 'a input_state_scheme" where
  "ps2_key released key s =
     (if key = 0x2a \<or> key = 0x36 then s\<lparr>shift_down := \<not> released, kb_extended := False\<rparr>
      else if kb_extended s \<and> key = 0x38 then s\<lparr>altgr_down := \<not> released, kb_extended := False\<rparr>
      else if \<not> released \<and> key = 0x3a then s\<lparr>caps_lock := \<not> caps_lock s, kb_extended := False\<rparr>
      else if released then s\<lparr>kb_extended := False\<rparr>
      else if kb_extended s then (if key = 0x1c then enqueue_byte 10 s else s)\<lparr>kb_extended := False\<rparr>
      else if key = 0x1c then enqueue_byte 10 s
      else if key = 0x0e then enqueue_byte 8 s
      else if key = 0x0f then enqueue_byte 9 s
      else case ps2_text key s of None \<Rightarrow> s | Some txt \<Rightarrow> enqueue_text txt s)"

definition keyboard_scancode :: "u8 \<Rightarrow> 'a input_state_scheme \<Rightarrow> 'a input_state_scheme" where
  "keyboard_scancode code s =
     (if code = 0xe0 then s\<lparr>kb_extended := True\<rparr>
      else let released = (code AND 0x80 \<noteq> 0); key = code AND 0x7f;
               modifiers = flag (shift_down s) NPK_INPUT_MOD_SHIFT OR flag (caps_lock s) NPK_INPUT_MOD_CAPSLOCK
                 OR flag (altgr_down s) (NPK_INPUT_MOD_ALT OR NPK_INPUT_MOD_ALTGR) OR flag (kb_extended s) NPK_INPUT_MOD_EXTENDED;
               event_code = (if extended_key_code key \<noteq> 0 then extended_key_code key else ucast key)
        in ps2_key released key
             (keyboard_enqueue_input_event NPK_INPUT_EVENT_KEY event_code (if released then 0 else 1) modifiers s))"

definition keyboard_irq :: "'a input_state_scheme \<Rightarrow> 'a input_state_scheme" where
  "keyboard_irq s = (let (code, s) = inb 0x60 s in keyboard_scancode code s)"

subsection \<open>USB boot reports\<close>

definition usb_event_key :: "u8 \<Rightarrow> u16 \<Rightarrow> u16" where
  "usb_event_key usage key =
     (case map_of [(0x49, 110), (0x4a, 102), (0x4b, 104), (0x4c, 111), (0x4d, 107), (0x4e, 109), (0x4f, 106), (0x50, 105),
                   (0x51, 108), (0x52, 103), (0x53, 0x45)] usage of Some k \<Rightarrow> k | None \<Rightarrow> key)"

definition usb_modifiers :: "u8 \<Rightarrow> bool \<Rightarrow> bool \<Rightarrow> u32" where
  "usb_modifiers hid caps is_extended =
     flag (hid AND 0x22 \<noteq> 0) NPK_INPUT_MOD_SHIFT OR flag (hid AND 0x11 \<noteq> 0) NPK_INPUT_MOD_CTRL
     OR flag (hid AND 0x04 \<noteq> 0) NPK_INPUT_MOD_ALT OR flag (hid AND 0x40 \<noteq> 0) (NPK_INPUT_MOD_ALT OR NPK_INPUT_MOD_ALTGR)
     OR flag (hid AND 0x88 \<noteq> 0) NPK_INPUT_MOD_GUI OR flag caps NPK_INPUT_MOD_CAPSLOCK OR flag is_extended NPK_INPUT_MOD_EXTENDED"

definition usb_text :: "u8 \<Rightarrow> u16 \<Rightarrow> u32 \<Rightarrow> bool \<Rightarrow> u8 list option" where
  "usb_text usage key modifiers tr =
     (if key < 0x40 then
        let letter = (usage \<ge> 0x04 \<and> usage \<le> 0x1d); shift = (modifiers AND NPK_INPUT_MOD_SHIFT \<noteq> 0);
            use_upper = (if letter \<and> modifiers AND NPK_INPUT_MOD_CAPSLOCK \<noteq> 0 then \<not> shift else shift)
        in if modifiers AND NPK_INPUT_MOD_ALTGR \<noteq> 0 then (if key = 0x12 then Some euro_sign else None)
           else key_text tr use_upper key
      else None)"

definition keyboard_usb_hid_event :: "u8 \<Rightarrow> bool \<Rightarrow> u8 \<Rightarrow> 'a input_state_scheme \<Rightarrow> 'a input_state_scheme" where
  "keyboard_usb_hid_event usage pressed hid s =
     (let (key, is_extended) = usb_usage_to_keycode usage
      in if key = 0 then s
         else let s = (if usage = 0x39 \<and> pressed then s\<lparr>caps_lock := \<not> caps_lock s\<rparr> else s);
                  modifiers = usb_modifiers hid (caps_lock s) is_extended;
                  s = keyboard_enqueue_input_event NPK_INPUT_EVENT_KEY (usb_event_key usage key) (if pressed then 1 else 0) modifiers s
           in if \<not> pressed then s
              else if usage = 0x28 then enqueue_byte 10 s
              else if usage = 0x2a then enqueue_byte 8 s
              else if usage = 0x2b then enqueue_byte 9 s
              else if usage = 0x58 then enqueue_byte 10 s
              else if is_extended then s
              else case usb_text usage key modifiers (turkish s) of None \<Rightarrow> s | Some txt \<Rightarrow> enqueue_text txt s)"

text \<open>The events of one report: changed modifiers, released keys, pressed keys.\<close>

definition modifier_events :: "u8 \<Rightarrow> u8 \<Rightarrow> (u8 \<times> bool) list" where
  "modifier_events old new =
     map (\<lambda>b. (0xe0 + of_nat b, bit new b)) (filter (\<lambda>b. bit old b \<noteq> bit new b) [0..<8])"

definition release_events :: "u8 list \<Rightarrow> u8 list \<Rightarrow> (u8 \<times> bool) list" where
  "release_events old new = map (\<lambda>u. (u, False)) (filter (\<lambda>u. u \<noteq> 0 \<and> u \<notin> set new) old)"

definition press_events :: "u8 list \<Rightarrow> u8 list \<Rightarrow> (u8 \<times> bool) list" where
  "press_events old new = map (\<lambda>u. (u, True)) (filter (\<lambda>u. u \<noteq> 0 \<and> u \<notin> set old) new)"

definition send_events :: "u8 \<Rightarrow> (u8 \<times> bool) list \<Rightarrow> 'a input_state_scheme \<Rightarrow> 'a input_state_scheme" where
  "send_events modifiers events s = fold (\<lambda>(usage, pressed) s. keyboard_usb_hid_event usage pressed modifiers s) events s"

definition usb_generic_keyboard_process_report ::
  "usb_generic_keyboard_state \<Rightarrow> u8 list \<Rightarrow> 'a input_state_scheme \<Rightarrow> bool \<times> usb_generic_keyboard_state \<times> 'a input_state_scheme" where
  "usb_generic_keyboard_process_report k report s =
     (if length report \<noteq> 8 then (False, k, s)
      else let old_modifiers = (if uk_initialized k then uk_modifiers k else 0);
               new_modifiers = report ! 0; keys = drop 2 report;
               s = send_events new_modifiers (modifier_events old_modifiers new_modifiers) s;
               k' = k\<lparr>uk_modifiers := new_modifiers, uk_initialized := True\<rparr>
        in if 1 \<in> set keys then (True, k', s)
           else let old_keys = (if uk_initialized k then uk_keys k else replicate 6 0);
                    s = send_events new_modifiers (release_events old_keys keys) s;
                    s = send_events new_modifiers (press_events old_keys keys) s
             in (True, k'\<lparr>uk_keys := keys\<rparr>, s))"

definition usb_generic_keyboard_receive_report :: "u8 \<Rightarrow> u8 list \<Rightarrow> 'a input_state_scheme \<Rightarrow> 'a input_state_scheme" where
  "usb_generic_keyboard_receive_report slot report s =
     (if slot = 0 \<or> slot > 16 then s
      else let (_, k, s) = usb_generic_keyboard_process_report (keyboard_states s (unat slot)) report s
        in s\<lparr>keyboard_states := (keyboard_states s)(unat slot := k)\<rparr>)"

text \<open>The scan of a HID report descriptor: whether it has a keyboard application collection.\<close>

record hid_scan =
  hid_usage_page :: u32
  hid_local_usage :: u32
  hid_depth :: nat
  hid_keyboard :: bool

definition item_value :: "u8 list \<Rightarrow> u32" where
  "item_value bs = foldr (\<lambda>b v. push_bit 8 v OR ucast b) bs 0"

definition hid_item :: "u8 \<Rightarrow> u32 \<Rightarrow> hid_scan \<Rightarrow> hid_scan option" where
  "hid_item prefix v h =
     (let item_type = drop_bit 2 prefix AND 3; tag = drop_bit 4 prefix
      in if item_type = 1 then Some (if tag = 0 then h\<lparr>hid_usage_page := v\<rparr> else h)
         else if item_type = 2 then Some (if tag = 0 then h\<lparr>hid_local_usage := v\<rparr> else h)
         else if item_type = 0 then
           if tag = 10 then
             if hid_depth h \<ge> 16 then None
             else Some (h\<lparr>hid_keyboard := (hid_keyboard h \<or> (hid_depth h = 0 \<and> v = 1 \<and> hid_usage_page h = 1 \<and> hid_local_usage h = 6)),
                          hid_depth := hid_depth h + 1, hid_local_usage := UINT32_MAX\<rparr>)
           else if tag = 12 then
             if hid_depth h = 0 then None else Some (h\<lparr>hid_depth := hid_depth h - 1, hid_local_usage := UINT32_MAX\<rparr>)
           else Some (h\<lparr>hid_local_usage := UINT32_MAX\<rparr>)
         else Some h)"

function hid_items :: "u8 list \<Rightarrow> hid_scan \<Rightarrow> hid_scan option" where
  "hid_items [] h = Some h"
| "hid_items (prefix # bs) h =
     (if prefix = 0xfe then
        (case bs of
           n # _ # rest \<Rightarrow> if unat n > length rest then None else hid_items (drop (unat n) rest) h
         | _ \<Rightarrow> None)
      else let code = unat (prefix AND 3); n = (if code = 3 then 4 else code)
        in if n > length bs then None
           else case hid_item prefix (item_value (take n bs)) h of
             None \<Rightarrow> None
           | Some h \<Rightarrow> hid_items (drop n bs) h)"
  by pat_completeness auto

termination
  by (relation "measure (\<lambda>(bs, h). length bs)") auto

definition report_descriptor_has_keyboard_application :: "u8 list \<Rightarrow> bool" where
  "report_descriptor_has_keyboard_application bs =
     (if bs = [] \<or> length bs > 512 then False
      else case hid_items bs \<lparr>hid_usage_page = 0, hid_local_usage = UINT32_MAX, hid_depth = 0, hid_keyboard = False\<rparr> of
        None \<Rightarrow> False
      | Some h \<Rightarrow> hid_keyboard h \<and> hid_depth h = 0)"

subsection \<open>The mouse\<close>

fun wait_status_bit :: "nat \<Rightarrow> u8 \<Rightarrow> bool \<Rightarrow> 'a io_state_scheme \<Rightarrow> bool \<times> 'a io_state_scheme" where
  "wait_status_bit 0 m wanted s = (False, s)"
| "wait_status_bit (Suc n) m wanted s =
     (let (v, s) = inb 0x64 s in if (v AND m \<noteq> 0) = wanted then (True, s) else wait_status_bit n m wanted s)"

definition wait_input_clear :: "'a io_state_scheme \<Rightarrow> bool \<times> 'a io_state_scheme" where
  "wait_input_clear s = wait_status_bit 100000 2 False s"

definition wait_output_full :: "'a io_state_scheme \<Rightarrow> bool \<times> 'a io_state_scheme" where
  "wait_output_full s = wait_status_bit 100000 1 True s"

definition mouse_command :: "u8 \<Rightarrow> 'a io_state_scheme \<Rightarrow> bool \<times> 'a io_state_scheme" where
  "mouse_command command s =
     (case wait_input_clear s of
        (False, s) \<Rightarrow> (False, s)
      | (True, s) \<Rightarrow>
          (case wait_input_clear (outb 0x64 0xd4 s) of
             (False, s) \<Rightarrow> (False, s)
           | (True, s) \<Rightarrow>
               (case wait_output_full (outb 0x60 command s) of
                  (False, s) \<Rightarrow> (False, s)
                | (True, s) \<Rightarrow> (let (v, s) = inb 0x60 s in (v = 0xfa, s)))))"

definition mouse_init :: "'a input_state_scheme \<Rightarrow> 'a input_state_scheme" where
  "mouse_init s =
     (let s = s\<lparr>mouse_is_ready := False, mouse_packet := [], button_state := 0\<rparr>;
          (ok, s) = mouse_command 0xf4 s
      in if ok then s\<lparr>mouse_is_ready := True\<rparr> else s)"

definition mouse_ready :: "'a input_state_scheme \<Rightarrow> bool" where
  "mouse_ready s = mouse_is_ready s"

definition mouse_buttons :: "u8 \<Rightarrow> u8 \<Rightarrow> 'a input_state_scheme \<Rightarrow> 'a input_state_scheme" where
  "mouse_buttons changed buttons s =
     fold (\<lambda>(m, code) s. if changed AND m \<noteq> 0
                            then keyboard_enqueue_input_event NPK_INPUT_EVENT_KEY code (if buttons AND m \<noteq> 0 then 1 else 0) 0 s else s)
       [(1, 0x110), (2, 0x111), (4, 0x112)] s"

definition mouse_motion :: "u16 \<Rightarrow> int \<Rightarrow> 'a input_state_scheme \<Rightarrow> 'a input_state_scheme" where
  "mouse_motion axis d s = (if d \<noteq> 0 then keyboard_enqueue_input_event NPK_INPUT_EVENT_REL axis d 0 s else s)"

text \<open>The packet is the list of its bytes received so far.\<close>

definition mouse_byte :: "u8 \<Rightarrow> 'a input_state_scheme \<Rightarrow> 'a input_state_scheme" where
  "mouse_byte v s =
     (if mouse_packet s = [] \<and> v AND 0x08 = 0 then s
      else let p = mouse_packet s @ [v]
        in if length p \<noteq> 3 then s\<lparr>mouse_packet := p\<rparr>
           else let s = s\<lparr>mouse_packet := []\<rparr>; buttons = p ! 0 AND 7; dx = sint (p ! 1); dy = - sint (p ! 2);
                    s = (if p ! 0 AND 0xc0 = 0 then mouse_motion 1 dy (mouse_motion 0 dx s) else s)
             in (mouse_buttons (buttons XOR button_state s) buttons s)\<lparr>button_state := buttons\<rparr>)"

definition mouse_irq :: "'a input_state_scheme \<Rightarrow> 'a input_state_scheme" where
  "mouse_irq s = (let (v, s) = inb 0x60 s in if \<not> mouse_is_ready s then s else mouse_byte v s)"

end
