(* ===== verification/Timer.thy ===== *)
theory Timer
  imports Keyboard
begin

text \<open>
  The interval timer (\<^verbatim>\<open>src/arch/timer.c\<close>) and the dispatch of hardware interrupts (\<^verbatim>\<open>src/arch/irq.c\<close>).  A thread
  that sleeps waits for interrupts: \<open>idle\<close> is what the state is when the next one has been served.
\<close>

abbreviation (input) PIT_INPUT_HZ :: u32 where "PIT_INPUT_HZ \<equiv> 1193182"

subsection \<open>The timer\<close>

definition timer_init :: "u32 \<Rightarrow> 'a proc_state_scheme \<Rightarrow> 'a proc_state_scheme" where
  "timer_init requested s =
     (let hz = (if requested < 20 \<or> requested > 1000 then 100 else requested);
          divisor = PIT_INPUT_HZ div hz;
          divisor = (if divisor = 0 \<or> divisor > 0xffff then 0xffff else divisor)
      in outb 0x40 (ucast (drop_bit 8 divisor)) (outb 0x40 (ucast (divisor AND 0xff)) (outb 0x43 0x36 (s\<lparr>frequency := hz\<rparr>))))"

definition timer_irq :: "'a proc_state_scheme \<Rightarrow> 'a proc_state_scheme" where
  "timer_irq s = s\<lparr>ticks := ticks s + 1\<rparr>"

definition timer_monotonic_ns :: "'a proc_state_scheme \<Rightarrow> u64" where
  "timer_monotonic_ns s = (ticks s * 1000000000) div ucast (frequency s)"

definition reached :: "u64 \<Rightarrow> 'a proc_state_scheme \<Rightarrow> bool" where
  "reached deadline s \<longleftrightarrow> sint (ticks s - deadline) \<ge> 0"

partial_function (option) sleep_until ::
  "('a proc_state_scheme \<Rightarrow> 'a proc_state_scheme) \<Rightarrow> u64 \<Rightarrow> 'a proc_state_scheme \<Rightarrow> 'a proc_state_scheme option" where
  "sleep_until idle deadline s = (if reached deadline s then Some s else sleep_until idle deadline (idle s))"

definition timer_sleep_ticks ::
  "('a proc_state_scheme \<Rightarrow> 'a proc_state_scheme) \<Rightarrow> u64 \<Rightarrow> 'a proc_state_scheme \<Rightarrow> 'a proc_state_scheme option" where
  "timer_sleep_ticks idle duration s = (if duration = 0 then Some s else sleep_until idle (ticks s + duration) s)"

subsection \<open>The interrupt controller\<close>

definition pic_remap :: "'a io_state_scheme \<Rightarrow> 'a io_state_scheme" where
  "pic_remap s =
     (let (master_mask, s) = inb 0x21 s; (slave_mask, s) = inb 0xa1 s
      in fold (\<lambda>(port, v). outb port v)
           [(0x20, 0x11), (0xa0, 0x11), (0x21, 0x20), (0xa1, 0x28), (0x21, 0x04), (0xa1, 0x02), (0x21, 0x01), (0xa1, 0x01),
            (0x21, master_mask AND NOT 2), (0xa1, slave_mask)] s)"

definition unmask_bit :: "u16 \<Rightarrow> nat \<Rightarrow> 'a io_state_scheme \<Rightarrow> 'a io_state_scheme" where
  "unmask_bit port n s = (let (v, s) = inb port s in outb port (v AND NOT (push_bit n 1)) s)"

definition irq_unmask_line :: "u8 \<Rightarrow> 'a io_state_scheme \<Rightarrow> 'a io_state_scheme" where
  "irq_unmask_line irq s =
     (if irq < 8 then unmask_bit 0x21 (unat irq) s
      else if irq < 16 then unmask_bit 0x21 2 (unmask_bit 0xa1 (unat (irq - 8)) s) else s)"

definition irq_init :: "'a input_state_scheme \<Rightarrow> 'a input_state_scheme" where
  "irq_init s =
     (let s = mouse_init (irq_unmask_line 1 (irq_unmask_line 0 (pic_remap s)))
      in if mouse_ready s then irq_unmask_line 12 s else s)"

definition irq1_dispatch :: "'a input_state_scheme \<Rightarrow> 'a input_state_scheme" where
  "irq1_dispatch s = outb 0x20 0x20 (keyboard_irq s)"

definition irq12_dispatch :: "'a input_state_scheme \<Rightarrow> 'a input_state_scheme" where
  "irq12_dispatch s = outb 0x20 0x20 (outb 0xa0 0x20 (mouse_irq s))"

definition irq_timer_dispatch :: "u64 list \<Rightarrow> 'a proc_state_scheme \<Rightarrow> u64 list outcome \<times> 'a proc_state_scheme" where
  "irq_timer_dispatch frame s =
     (case scheduler_preempt frame (timer_irq s) of
        (Returns selected, s) \<Rightarrow>
          let s = outb 0x20 0x20 s
          in (case current s of
                None \<Rightarrow> (Returns selected, s)
              | Some t \<Rightarrow> if selected \<noteq> frame \<and> privilege_ring (threads s t) = 0 then (Switches t, s) else (Returns selected, s))
      | (r, s) \<Rightarrow> (r, s))"

end
