(* ===== verification/Syscall_Io.thy ===== *)
theory Syscall_Io
  imports Timer
begin

text \<open>
  System calls on descriptors, paths and the terminal: the first part of \<^verbatim>\<open>src/syscall/syscall.c\<close>.  A call
  returns the 64-bit word the user program gets, a negated error number for an error.  A call that waits has
  an optional result, \<open>None\<close> when it never returns; \<open>idle\<close> is what the state is when the waiting thread runs
  again and \<open>usb_poll\<close> the effect of \<^verbatim>\<open>usb_poll()\<close>.
\<close>

abbreviation (input) PATH_MAX_NPK :: nat where "PATH_MAX_NPK \<equiv> 256"
abbreviation (input) IO_CHUNK :: nat where "IO_CHUNK \<equiv> 4096"
abbreviation (input) IOV_MAX_NPK :: u64 where "IOV_MAX_NPK \<equiv> 1024"
abbreviation (input) TTY_INPUT_LINE_MAX :: nat where "TTY_INPUT_LINE_MAX \<equiv> 512"
abbreviation (input) TTY_ICANON :: u32 where "TTY_ICANON \<equiv> 2"
abbreviation (input) TTY_ECHO :: u32 where "TTY_ECHO \<equiv> 8"
abbreviation (input) NPK_POLLNVAL :: u16 where "NPK_POLLNVAL \<equiv> 0x020"
abbreviation (input) sizeof_termios :: nat where "sizeof_termios \<equiv> 60"

record npk_winsize =
  ws_rows :: u16
  ws_columns :: u16
  ws_x_pixels :: u16
  ws_y_pixels :: u16

text \<open>The terminal: the bytes of \<^verbatim>\<open>terminal_settings\<close>, the current line (its first \<^verbatim>\<open>tty_input_length\<close> bytes) and
  the multi-byte character being echoed.\<close>

record sys_state = input_state +
  terminal_settings :: "u8 list"
  terminal_winsize :: npk_winsize
  tty_input_line :: "u8 list"
  tty_input_offset :: nat
  tty_echo_sequence :: "u8 list"
  tty_echo_expected :: nat

definition initial_termios :: "u8 list" where
  "initial_termios = le32 0x100 @ le32 1 @ le32 0xbf @ le32 0x0a @ [0] @ (zeros 32)[6 := 1] @ zeros 3 @ le32 15 @ le32 15"

definition c_lflag :: "u8 list \<Rightarrow> u32" where
  "c_lflag bs = of_le32 (field 12 4 bs)"

definition neg_errno :: "errno \<Rightarrow> u64" where
  "neg_errno e = of_int (- errno_num e)"

definition status_word :: "unit result \<Rightarrow> u64" where
  "status_word r = (case r of Inl e \<Rightarrow> neg_errno e | Inr _ \<Rightarrow> 0)"

definition result_word :: "u64 result \<Rightarrow> u64" where
  "result_word r = (case r of Inl e \<Rightarrow> neg_errno e | Inr v \<Rightarrow> v)"

definition copyout_status :: "vaddr \<Rightarrow> u8 list \<Rightarrow> 'a proc_state_scheme \<Rightarrow> u64 \<times> 'a proc_state_scheme" where
  "copyout_status a bs s = (let (ok, s) = copyout_current a bs s in (if ok then 0 else neg_errno EFAULT, s))"

subsection \<open>Strings, paths and descriptors\<close>

fun copy_user_loop :: "nat \<Rightarrow> vaddr \<Rightarrow> string \<Rightarrow> 'a proc_state_scheme \<Rightarrow> string option \<times> 'a proc_state_scheme" where
  "copy_user_loop 0 user acc s = (None, s)"
| "copy_user_loop (Suc n) user acc s =
     (case copyin_current user 1 s of
        (None, s) \<Rightarrow> (None, s)
      | (Some bs, s) \<Rightarrow> if hd bs = 0 then (Some acc, s) else copy_user_loop n (user + 1) (acc @ cstring bs) s)"

definition copy_user_string :: "vaddr \<Rightarrow> nat \<Rightarrow> 'a proc_state_scheme \<Rightarrow> string option \<times> 'a proc_state_scheme" where
  "copy_user_string user capacity s =
     (if capacity = 0 \<or> \<not> vmm_is_user_range user 1 then (None, s) else copy_user_loop (capacity - 1) user [] s)"

definition resolve_process_path :: "nat option \<Rightarrow> string \<Rightarrow> nat \<Rightarrow> 'a proc_state_scheme \<Rightarrow> string option" where
  "resolve_process_path i path capacity s =
     (case i of None \<Rightarrow> None | Some i \<Rightarrow> vfs_resolve_path (cwd (processes s i)) path capacity)"

definition process_handle_for_fd :: "process \<Rightarrow> int \<Rightarrow> int" where
  "process_handle_for_fd p fd = (if fd < 0 \<or> fd \<ge> int NPK_MAX_FDS then -1 else fds p ! nat fd)"

text \<open>The handle of a descriptor of the current process; negative when there is none.\<close>

definition current_handle :: "u64 \<Rightarrow> 'a proc_state_scheme \<Rightarrow> int" where
  "current_handle fd s =
     (case process_current s of
        None \<Rightarrow> -1
      | Some i \<Rightarrow> if fd < 32 then process_handle_for_fd (processes s i) (uint fd) else -1)"

definition process_install_fd :: "int \<Rightarrow> int \<Rightarrow> u32 \<Rightarrow> process \<Rightarrow> nat option \<times> process" where
  "process_install_fd handle minimum flags p =
     (if handle < 0 \<or> minimum < 0 \<or> minimum \<ge> int NPK_MAX_FDS then (None, p)
      else case find (\<lambda>i. fds p ! i = -1) [nat minimum..<NPK_MAX_FDS] of
        None \<Rightarrow> (None, p)
      | Some i \<Rightarrow> (Some i, p\<lparr>fds := (fds p)[i := handle], fd_flags := (fd_flags p)[i := flags]\<rparr>))"

text \<open>Giving a new handle to the process: the descriptor, or the handle closed and \<^verbatim>\<open>EMFILE\<close>.\<close>

definition install_handle :: "nat \<Rightarrow> int \<Rightarrow> int \<Rightarrow> u32 \<Rightarrow> 'a proc_state_scheme \<Rightarrow> u64 \<times> 'a proc_state_scheme" where
  "install_handle i handle minimum flags s =
     (case process_install_fd handle minimum flags (processes s i) of
        (None, _) \<Rightarrow> (neg_errno EMFILE, snd (vfs_close handle s))
      | (Some fd, p) \<Rightarrow> (of_nat fd, upd_process i (\<lambda>_. p) s))"

definition process_forget_fd :: "nat \<Rightarrow> int \<Rightarrow> 'a proc_state_scheme \<Rightarrow> 'a proc_state_scheme" where
  "process_forget_fd i fd s =
     (let p = processes s i
      in if fd < 0 \<or> fd \<ge> int NPK_MAX_FDS \<or> fds p ! nat fd < 0 then s
         else upd_process i (\<lambda>p. p\<lparr>fds := (fds p)[nat fd := -1], fd_flags := (fd_flags p)[nat fd := 0]\<rparr>)
                (snd (vfs_close (fds p ! nat fd) s)))"

subsection \<open>Writing\<close>

function write_loop :: "int \<Rightarrow> vaddr \<Rightarrow> nat \<Rightarrow> nat \<Rightarrow> 'a display_state_scheme \<Rightarrow> u64 \<times> 'a display_state_scheme" where
  "write_loop handle user count written s =
     (if written \<ge> count then (of_nat written, s)
      else let amount = min (count - written) IO_CHUNK
        in case copyin_current (user + of_nat written) amount s of
             (None, s) \<Rightarrow> (neg_errno EFAULT, s)
           | (Some chunk, s) \<Rightarrow>
               if handle = 1 \<or> handle = 2 then write_loop handle user count (written + amount) (console_write_n chunk s)
               else (case vfs_write handle (Some chunk) amount s of
                       (Inl e, s) \<Rightarrow> (if written \<noteq> 0 then of_nat written else neg_errno e, s)
                     | (Inr n, s) \<Rightarrow>
                         if n < amount then (of_nat (written + n), s) else write_loop handle user count (written + n) s))"
  by pat_completeness auto

termination
  by (relation "measure (\<lambda>(handle, user, count, written, s). count - written)") auto

declare write_loop.simps [simp del]

definition sys_write :: "u64 \<Rightarrow> vaddr \<Rightarrow> u64 \<Rightarrow> 'a display_state_scheme \<Rightarrow> u64 \<times> 'a display_state_scheme" where
  "sys_write fd user_buffer count s =
     (if current_handle fd s < 0 then (neg_errno EBADF, s)
      else if \<not> vmm_is_user_range user_buffer count then (neg_errno EFAULT, s)
      else write_loop (current_handle fd s) user_buffer (unat count) 0 s)"

subsection \<open>Status, position, directories\<close>

definition stat_bytes :: "vfs_stat \<Rightarrow> u8 list" where
  "stat_bytes st =
     le64 1 @ le64 (st_inode st) @ le64 1 @ le32 (st_mode st) @ le32 (st_uid st) @ le32 (st_gid st) @ le32 0
     @ le64 0 @ le64 (st_size st) @ le64 512 @ le64 (st_blocks st) @ zeros 72"

definition sys_fstat :: "u64 \<Rightarrow> vaddr \<Rightarrow> 'a proc_state_scheme \<Rightarrow> u64 \<times> 'a proc_state_scheme" where
  "sys_fstat fd user_status s =
     (if current_handle fd s < 0 then (neg_errno EBADF, s)
      else case vfs_stat_fd (current_handle fd s) True s of
        Inl e \<Rightarrow> (neg_errno e, s)
      | Inr st \<Rightarrow> copyout_status user_status (stat_bytes st) s)"

definition sys_stat_path :: "vaddr \<Rightarrow> vaddr \<Rightarrow> 'a proc_state_scheme \<Rightarrow> u64 \<times> 'a proc_state_scheme" where
  "sys_stat_path user_path user_status s =
     (case copy_user_string user_path PATH_MAX_NPK s of
        (None, s) \<Rightarrow> (neg_errno EFAULT, s)
      | (Some path, s) \<Rightarrow>
          (case resolve_process_path (process_current s) path PATH_MAX_NPK s of
             None \<Rightarrow> (neg_errno ENAMETOOLONG, s)
           | Some resolved \<Rightarrow>
               (case vfs_open (proc_snapshot s) (Some resolved) s of
                  (Inl e, s) \<Rightarrow> (neg_errno e, s)
                | (Inr handle, s) \<Rightarrow>
                    let r = vfs_stat_fd (int handle) True s; s = snd (vfs_close (int handle) s)
                    in (case r of Inl e \<Rightarrow> (neg_errno e, s) | Inr st \<Rightarrow> copyout_status user_status (stat_bytes st) s))))"

definition sys_lseek :: "u64 \<Rightarrow> u64 \<Rightarrow> u64 \<Rightarrow> 'a proc_state_scheme \<Rightarrow> u64 \<times> 'a proc_state_scheme" where
  "sys_lseek fd raw_offset whence s =
     (if current_handle fd s < 0 then (neg_errno EBADF, s)
      else case vfs_seek (current_handle fd s) (sint raw_offset) (sint (ucast whence :: u32)) s of
        (Inl e, s) \<Rightarrow> (neg_errno e, s)
      | (Inr v, s) \<Rightarrow> (of_int v, s))"

definition sys_getdents64 :: "u64 \<Rightarrow> vaddr \<Rightarrow> u64 \<Rightarrow> 'a proc_state_scheme \<Rightarrow> u64 \<times> 'a proc_state_scheme" where
  "sys_getdents64 fd user_buffer count s =
     (if current_handle fd s < 0 then (neg_errno EBADF, s)
      else if count = 0 then (0, s)
      else if count > 4096 \<or> \<not> vmm_is_user_range user_buffer count then (neg_errno EFAULT, s)
      else case vfs_getdents64 (current_handle fd s) True (unat count) s of
        (Inl e, s) \<Rightarrow> (neg_errno e, s)
      | (Inr bs, s) \<Rightarrow>
          (let (ok, s) = copyout_current user_buffer bs s in (if ok then of_nat (length bs) else neg_errno EFAULT, s)))"

definition sys_getcwd :: "vaddr \<Rightarrow> u64 \<Rightarrow> 'a proc_state_scheme \<Rightarrow> u64 \<times> 'a proc_state_scheme" where
  "sys_getcwd user_buffer sz s =
     (case process_current s of
        None \<Rightarrow> (neg_errno EFAULT, s)
      | Some i \<Rightarrow>
          let path = cwd (processes s i); n = of_nat (length path)
          in if sz < n + 1 then (neg_errno ERANGE, s)
             else if \<not> vmm_is_user_range user_buffer (n + 1) then (neg_errno EFAULT, s)
             else let (ok, s) = copyout_current user_buffer (bytes_of path @ [0]) s in (if ok then n else neg_errno EFAULT, s))"

definition sys_chdir :: "vaddr \<Rightarrow> 'a proc_state_scheme \<Rightarrow> u64 \<times> 'a proc_state_scheme" where
  "sys_chdir user_path s =
     (case process_current s of
        None \<Rightarrow> (neg_errno EFAULT, s)
      | Some i \<Rightarrow>
          (case copy_user_string user_path PATH_MAX_NPK s of
             (None, s) \<Rightarrow> (neg_errno EFAULT, s)
           | (Some path, s) \<Rightarrow>
               (case resolve_process_path (Some i) path PATH_MAX_NPK s of
                  None \<Rightarrow> (neg_errno ENAMETOOLONG, s)
                | Some resolved \<Rightarrow>
                    (case vfs_open (proc_snapshot s) (Some resolved) s of
                       (Inl e, s) \<Rightarrow> (neg_errno e, s)
                     | (Inr handle, s) \<Rightarrow>
                         let r = vfs_stat_fd (int handle) True s; s = snd (vfs_close (int handle) s)
                         in (case r of
                               Inl e \<Rightarrow> (neg_errno e, s)
                             | Inr st \<Rightarrow>
                                 if st_is_directory st = 0 then (neg_errno ENOTDIR, s)
                                 else if length resolved \<ge> NPK_PROCESS_PATH_MAX then (neg_errno ENAMETOOLONG, s)
                                 else (0, upd_process i (\<lambda>p. p\<lparr>cwd := resolved\<rparr>) s))))))"

subsection \<open>The terminal\<close>

definition tty_echo_byte :: "u8 \<Rightarrow> 'a sys_state_scheme \<Rightarrow> 'a sys_state_scheme" where
  "tty_echo_byte b s =
     (if b AND 0x80 = 0 then console_write_n [b] (s\<lparr>tty_echo_sequence := [], tty_echo_expected := 0\<rparr>)
      else if b AND 0xc0 = 0x80 \<and> tty_echo_sequence s \<noteq> [] \<and> length (tty_echo_sequence s) < 4 then
        let sq = tty_echo_sequence s @ [b]
        in if length sq = tty_echo_expected s
           then (console_write_n sq s)\<lparr>tty_echo_sequence := [], tty_echo_expected := 0\<rparr>
           else s\<lparr>tty_echo_sequence := sq\<rparr>
      else let expected = (if b AND 0xe0 = 0xc0 then 2 else if b AND 0xf0 = 0xe0 then 3 else if b AND 0xf8 = 0xf0 then 4 else 0)
        in if expected = 0
           then console_write ''?'' (s\<lparr>tty_echo_sequence := [], tty_echo_expected := 0\<rparr>)
           else s\<lparr>tty_echo_sequence := [b], tty_echo_expected := expected\<rparr>)"

text \<open>Erasing the last character of the line: its continuation bytes and its first byte.  The line is
  given last byte first.\<close>

fun erase_last :: "u8 list \<Rightarrow> u8 list" where
  "erase_last [] = []"
| "erase_last (b # bs) = (if bs \<noteq> [] \<and> continuation b then erase_last bs else bs)"

definition tty_erase :: "bool \<Rightarrow> 'a sys_state_scheme \<Rightarrow> 'a sys_state_scheme" where
  "tty_erase echo s =
     (let s = (if tty_input_line s \<noteq> []
               then (let s = s\<lparr>tty_input_line := rev (erase_last (rev (tty_input_line s)))\<rparr>
                     in if echo then console_putc 8 s else s)
               else s)
      in s\<lparr>tty_echo_sequence := [], tty_echo_expected := 0\<rparr>)"

text \<open>One input byte; whether the line is complete.\<close>

definition tty_input :: "bool \<Rightarrow> u8 \<Rightarrow> 'a sys_state_scheme \<Rightarrow> bool \<times> 'a sys_state_scheme" where
  "tty_input echo b s =
     (if b = 8 \<or> b = 0x7f then (False, tty_erase echo s)
      else let b = (if b = 13 then 10 else b)
        in if b = 10 then
             let s = (if length (tty_input_line s) < TTY_INPUT_LINE_MAX then s\<lparr>tty_input_line := tty_input_line s @ [10]\<rparr> else s)
             in (True, if echo then console_putc 10 s else s)
           else if (b < 0x20 \<and> b \<noteq> 9) \<or> length (tty_input_line s) + 1 \<ge> TTY_INPUT_LINE_MAX then (False, s)
           else let s = s\<lparr>tty_input_line := tty_input_line s @ [b]\<rparr>
             in (False, if echo then tty_echo_byte b s else s))"

partial_function (option) tty_collect_loop ::
  "('a sys_state_scheme \<Rightarrow> 'a sys_state_scheme) \<Rightarrow> bool \<Rightarrow> 'a sys_state_scheme \<Rightarrow> 'a sys_state_scheme option" where
  "tty_collect_loop idle echo s =
     (case keyboard_getchar_blocking idle s of
        None \<Rightarrow> None
      | Some (b, s) \<Rightarrow> (let (complete, s) = tty_input echo b s in if complete then Some s else tty_collect_loop idle echo s))"

definition tty_collect_canonical_line ::
  "('a sys_state_scheme \<Rightarrow> 'a sys_state_scheme) \<Rightarrow> 'a sys_state_scheme \<Rightarrow> 'a sys_state_scheme option" where
  "tty_collect_canonical_line idle s =
     tty_collect_loop idle (c_lflag (terminal_settings s) AND TTY_ECHO \<noteq> 0)
       (s\<lparr>tty_input_line := [], tty_input_offset := 0, tty_echo_sequence := [], tty_echo_expected := 0\<rparr>)"

text \<open>Reading the terminal: a byte at a time, or from the line read last.\<close>

definition tty_read_raw ::
  "('a sys_state_scheme \<Rightarrow> 'a sys_state_scheme) \<Rightarrow> vaddr \<Rightarrow> 'a sys_state_scheme \<Rightarrow> (u64 \<times> 'a sys_state_scheme) option" where
  "tty_read_raw idle user_buffer s =
     (case keyboard_getchar_blocking idle s of
        None \<Rightarrow> None
      | Some (b, s) \<Rightarrow>
          (let s = (if c_lflag (terminal_settings s) AND TTY_ECHO \<noteq> 0 then tty_echo_byte b s else s);
               (ok, s) = copyout_current user_buffer [b] s
           in Some (if ok then 1 else neg_errno EFAULT, s)))"

definition tty_read_line :: "vaddr \<Rightarrow> nat \<Rightarrow> 'a sys_state_scheme \<Rightarrow> u64 \<times> 'a sys_state_scheme" where
  "tty_read_line user_buffer count s =
     (let amount = min (min count IO_CHUNK) (length (tty_input_line s) - tty_input_offset s)
      in case copyout_current user_buffer (field (tty_input_offset s) amount (tty_input_line s)) s of
           (False, s) \<Rightarrow> (neg_errno EFAULT, s)
         | (True, s) \<Rightarrow>
             let s = s\<lparr>tty_input_offset := tty_input_offset s + amount\<rparr>
             in (of_nat amount, if tty_input_offset s = length (tty_input_line s) then s\<lparr>tty_input_offset := 0, tty_input_line := []\<rparr> else s))"

definition tty_read ::
  "('a sys_state_scheme \<Rightarrow> 'a sys_state_scheme) \<Rightarrow> vaddr \<Rightarrow> nat \<Rightarrow> 'a sys_state_scheme \<Rightarrow> (u64 \<times> 'a sys_state_scheme) option" where
  "tty_read idle user_buffer count s =
     (if c_lflag (terminal_settings s) AND TTY_ICANON = 0 then tty_read_raw idle user_buffer s
      else map_option (tty_read_line user_buffer count)
             (if tty_input_offset s = length (tty_input_line s) then tty_collect_canonical_line idle s else Some s))"

subsection \<open>Reading\<close>

function read_loop :: "int \<Rightarrow> vaddr \<Rightarrow> nat \<Rightarrow> nat \<Rightarrow> 'a proc_state_scheme \<Rightarrow> u64 \<times> 'a proc_state_scheme" where
  "read_loop handle user count got s =
     (if got \<ge> count then (of_nat got, s)
      else let amount = min (count - got) IO_CHUNK
        in case vfs_read handle True amount s of
             (Inl e, s) \<Rightarrow> (if got \<noteq> 0 then of_nat got else neg_errno e, s)
           | (Inr chunk, s) \<Rightarrow>
               if chunk = [] then (of_nat got, s)
               else (case copyout_current (user + of_nat got) chunk s of
                       (False, s) \<Rightarrow> (neg_errno EFAULT, s)
                     | (True, s) \<Rightarrow>
                         if length chunk < amount then (of_nat (got + length chunk), s)
                         else read_loop handle user count (got + length chunk) s))"
  by pat_completeness auto

termination
  by (relation "measure (\<lambda>(handle, user, count, got, s). count - got)") auto

declare read_loop.simps [simp del]

definition sys_read ::
  "('a sys_state_scheme \<Rightarrow> 'a sys_state_scheme) \<Rightarrow> u64 \<Rightarrow> vaddr \<Rightarrow> u64 \<Rightarrow> 'a sys_state_scheme \<Rightarrow> (u64 \<times> 'a sys_state_scheme) option" where
  "sys_read idle fd user_buffer count s =
     (if current_handle fd s < 0 then Some (neg_errno EBADF, s)
      else if \<not> vmm_is_user_range user_buffer count then Some (neg_errno EFAULT, s)
      else if count = 0 then Some (0, s)
      else if current_handle fd s = 0 then tty_read idle user_buffer (unat count) s
      else Some (read_loop (current_handle fd s) user_buffer (unat count) 0 s))"

subsection \<open>Vectors\<close>

text \<open>The vector entries from \<open>i\<close> on, each handled by \<open>f\<close>.\<close>

fun iov_loop ::
  "(vaddr \<Rightarrow> u64 \<Rightarrow> 'a sys_state_scheme \<Rightarrow> (u64 \<times> 'a sys_state_scheme) option) \<Rightarrow> nat \<Rightarrow> vaddr \<Rightarrow> u64 \<Rightarrow> 'a sys_state_scheme \<Rightarrow>
   (u64 \<times> 'a sys_state_scheme) option" where
  "iov_loop f 0 a got s = Some (got, s)"
| "iov_loop f (Suc n) a got s =
     (case copyin_current a 16 s of
        (None, s) \<Rightarrow> Some (neg_errno EFAULT, s)
      | (Some iov, s) \<Rightarrow>
          let base = of_le64 (field 0 8 iov); len = of_le64 (field 8 8 iov)
          in if len > UINT64_MAX - got then Some (neg_errno EOVERFLOW, s)
             else case f base len s of
               None \<Rightarrow> None
             | Some (r, s) \<Rightarrow>
                 if sint r < 0 then Some (if got \<noteq> 0 then got else r, s)
                 else if r \<noteq> len then Some (got + r, s)
                 else iov_loop f n (a + 16) (got + r) s)"

definition iov_all ::
  "(vaddr \<Rightarrow> u64 \<Rightarrow> 'a sys_state_scheme \<Rightarrow> (u64 \<times> 'a sys_state_scheme) option) \<Rightarrow> vaddr \<Rightarrow> u64 \<Rightarrow> 'a sys_state_scheme \<Rightarrow>
   (u64 \<times> 'a sys_state_scheme) option" where
  "iov_all f user_iov raw_count s =
     (if sint raw_count < 0 \<or> raw_count > IOV_MAX_NPK then Some (neg_errno EINVAL, s)
      else if raw_count \<noteq> 0 \<and> \<not> vmm_is_user_range user_iov (raw_count * 16) then Some (neg_errno EFAULT, s)
      else iov_loop f (unat raw_count) user_iov 0 s)"

definition sys_readv ::
  "('a sys_state_scheme \<Rightarrow> 'a sys_state_scheme) \<Rightarrow> u64 \<Rightarrow> vaddr \<Rightarrow> u64 \<Rightarrow> 'a sys_state_scheme \<Rightarrow> (u64 \<times> 'a sys_state_scheme) option" where
  "sys_readv idle raw_fd user_iov raw_count s = iov_all (sys_read idle raw_fd) user_iov raw_count s"

definition sys_writev :: "u64 \<Rightarrow> vaddr \<Rightarrow> u64 \<Rightarrow> 'a sys_state_scheme \<Rightarrow> (u64 \<times> 'a sys_state_scheme) option" where
  "sys_writev raw_fd user_iov raw_count s = iov_all (\<lambda>base len s. Some (sys_write raw_fd base len s)) user_iov raw_count s"

subsection \<open>Opening, closing, duplicating\<close>

definition sys_open_path :: "vaddr \<Rightarrow> u64 \<Rightarrow> 'a proc_state_scheme \<Rightarrow> u64 \<times> 'a proc_state_scheme" where
  "sys_open_path user_path raw_flags s =
     (case process_current s of
        None \<Rightarrow> (neg_errno EFAULT, s)
      | Some i \<Rightarrow>
          (case copy_user_string user_path PATH_MAX_NPK s of
             (None, s) \<Rightarrow> (neg_errno EFAULT, s)
           | (Some path, s) \<Rightarrow>
               (case resolve_process_path (Some i) path PATH_MAX_NPK s of
                  None \<Rightarrow> (neg_errno ENAMETOOLONG, s)
                | Some resolved \<Rightarrow>
                    (case vfs_open_flags (proc_snapshot s) (Some resolved) (ucast raw_flags) s of
                       (Inl e, s) \<Rightarrow> (neg_errno e, s)
                     | (Inr handle, s) \<Rightarrow> install_handle i (int handle) 3 0 s))))"

definition sys_openat_path :: "u64 \<Rightarrow> vaddr \<Rightarrow> u64 \<Rightarrow> 'a proc_state_scheme \<Rightarrow> u64 \<times> 'a proc_state_scheme" where
  "sys_openat_path raw_dirfd user_path raw_flags s =
     (if sint raw_dirfd \<noteq> -100 then (neg_errno EINVAL, s) else sys_open_path user_path raw_flags s)"

definition sys_close :: "u64 \<Rightarrow> 'a proc_state_scheme \<Rightarrow> u64 \<times> 'a proc_state_scheme" where
  "sys_close raw_fd s =
     (let fd = sint (ucast raw_fd :: u32)
      in case process_current s of
           None \<Rightarrow> (neg_errno EBADF, s)
         | Some i \<Rightarrow>
             if fd < 0 \<or> fd \<ge> int NPK_MAX_FDS \<or> process_handle_for_fd (processes s i) fd < 0 then (neg_errno EBADF, s)
             else (0, process_forget_fd i fd s))"

definition sys_pipe_common :: "vaddr \<Rightarrow> u64 \<Rightarrow> 'a proc_state_scheme \<Rightarrow> u64 \<times> 'a proc_state_scheme" where
  "sys_pipe_common user_pipefd flags s =
     (case process_current s of
        None \<Rightarrow> (neg_errno EFAULT, s)
      | Some i \<Rightarrow>
          if \<not> vmm_is_user_range user_pipefd 8 then (neg_errno EFAULT, s)
          else if flags AND NOT (0x800 OR 0x80000) \<noteq> 0 then (neg_errno EINVAL, s)
          else (case vfs_pipe_create True s of
             (Inl e, s) \<Rightarrow> (neg_errno e, s)
           | (Inr (r, w), s) \<Rightarrow>
               let fdf = (if flags AND 0x80000 \<noteq> 0 then 1 else 0)
               in (case process_install_fd (int r) 3 fdf (processes s i) of
                     (None, _) \<Rightarrow> (neg_errno EMFILE, snd (vfs_close (int w) (snd (vfs_close (int r) s))))
                   | (Some rfd, p) \<Rightarrow>
                       let s = upd_process i (\<lambda>_. p) s
                       in (case process_install_fd (int w) 3 fdf (processes s i) of
                             (None, _) \<Rightarrow> (neg_errno EMFILE, snd (vfs_close (int w) (process_forget_fd i (int rfd) s)))
                           | (Some wfd, p) \<Rightarrow>
                               (case copyout_current user_pipefd (le32 (of_nat rfd) @ le32 (of_nat wfd)) (upd_process i (\<lambda>_. p) s) of
                                  (True, s) \<Rightarrow> (0, s)
                                | (False, s) \<Rightarrow>
                                    (neg_errno EFAULT, process_forget_fd i (int wfd) (process_forget_fd i (int rfd) s)))))))"

definition sys_dup :: "u64 \<Rightarrow> int \<Rightarrow> u32 \<Rightarrow> 'a proc_state_scheme \<Rightarrow> u64 \<times> 'a proc_state_scheme" where
  "sys_dup raw_fd minimum flags s =
     (case process_current s of
        None \<Rightarrow> (neg_errno EBADF, s)
      | Some i \<Rightarrow>
          let handle = current_handle raw_fd s
          in if handle < 0 then (neg_errno EBADF, s)
             else case vfs_retain handle s of
               (Inl _, s) \<Rightarrow> (neg_errno EBADF, s)
             | (Inr _, s) \<Rightarrow> install_handle i handle minimum flags s)"

definition sys_dup2 :: "u64 \<Rightarrow> u64 \<Rightarrow> 'a proc_state_scheme \<Rightarrow> u64 \<times> 'a proc_state_scheme" where
  "sys_dup2 raw_oldfd raw_newfd s =
     (case process_current s of
        None \<Rightarrow> (neg_errno EBADF, s)
      | Some i \<Rightarrow>
          let handle = current_handle raw_oldfd s
          in if raw_newfd \<ge> 32 \<or> handle < 0 then (neg_errno EBADF, s)
             else if raw_oldfd = raw_newfd then (raw_newfd, s)
             else case vfs_retain handle s of
               (Inl _, s) \<Rightarrow> (neg_errno EBADF, s)
             | (Inr _, s) \<Rightarrow>
                 let s = process_forget_fd i (uint raw_newfd) s
                 in (raw_newfd, upd_process i (\<lambda>p. p\<lparr>fds := (fds p)[unat raw_newfd := handle],
                                                   fd_flags := (fd_flags p)[unat raw_newfd := 0]\<rparr>) s))"

definition sys_fcntl :: "u64 \<Rightarrow> u64 \<Rightarrow> u64 \<Rightarrow> 'a proc_state_scheme \<Rightarrow> u64 \<times> 'a proc_state_scheme" where
  "sys_fcntl raw_fd command argument s =
     (case process_current s of
        None \<Rightarrow> (neg_errno EBADF, s)
      | Some i \<Rightarrow>
          let fd = unat raw_fd; minimum = sint (ucast argument :: u32)
          in if current_handle raw_fd s < 0 then (neg_errno EBADF, s)
             else if command = 0 then sys_dup raw_fd minimum 0 s
             else if command = 1030 then sys_dup raw_fd minimum 1 s
             else if command = 1 then (ucast (fd_flags (processes s i) ! fd AND 1), s)
             else if command = 2 then (0, upd_process i (\<lambda>p. p\<lparr>fd_flags := (fd_flags p)[fd := ucast argument AND 1]\<rparr>) s)
             else if command = 3 then (0x800, s)
             else if command = 4 then (0, s)
             else (neg_errno EINVAL, s))"

definition sys_shm_create :: "u64 \<Rightarrow> 'a proc_state_scheme \<Rightarrow> u64 \<times> 'a proc_state_scheme" where
  "sys_shm_create raw_size s =
     (case process_current s of
        None \<Rightarrow> (neg_errno EINVAL, s)
      | Some i \<Rightarrow>
          if raw_size = 0 \<or> raw_size > 256 * NPK_PAGE_SIZE then (neg_errno EINVAL, s)
          else (case vfs_shm_create (unat raw_size) s of
             (Inl e, s) \<Rightarrow> (neg_errno e, s)
           | (Inr handle, s) \<Rightarrow> install_handle i (int handle) 3 0 s))"

definition sys_fd_send :: "u64 \<Rightarrow> u64 \<Rightarrow> 'a proc_state_scheme \<Rightarrow> u64 \<times> 'a proc_state_scheme" where
  "sys_fd_send raw_pid raw_fd s =
     (if sint raw_pid < 0 \<or> raw_fd \<ge> 32 then (neg_errno EINVAL, s)
      else let (r, s) = process_send_fd (uint raw_pid) (uint raw_fd) s in (status_word r, s))"

definition sys_fd_recv :: "'a proc_state_scheme \<Rightarrow> u64 \<times> 'a proc_state_scheme" where
  "sys_fd_recv s =
     (case process_current s of
        None \<Rightarrow> (neg_errno EFAULT, s)
      | Some i \<Rightarrow>
          (case process_receive_fd (processes s i) of
             (Inl e, _) \<Rightarrow> (neg_errno e, s)
           | (Inr (handle, fdf), p) \<Rightarrow> install_handle i handle 3 fdf (upd_process i (\<lambda>_. p) s)))"

definition sys_sync_fd :: "u64 \<Rightarrow> 'a proc_state_scheme \<Rightarrow> u64 \<times> 'a proc_state_scheme" where
  "sys_sync_fd raw_fd s =
     (if current_handle raw_fd s < 0 then (neg_errno EBADF, s)
      else let (r, s) = vfs_sync_fd (current_handle raw_fd s) s in (status_word r, s))"

definition sys_readlink_path :: "vaddr \<Rightarrow> vaddr \<Rightarrow> u64 \<Rightarrow> 'a proc_state_scheme \<Rightarrow> u64 \<times> 'a proc_state_scheme" where
  "sys_readlink_path user_path user_buffer capacity s =
     (case process_current s of
        None \<Rightarrow> (neg_errno EINVAL, s)
      | Some i \<Rightarrow>
          if capacity = 0 \<or> \<not> vmm_is_user_range user_buffer capacity then (neg_errno EINVAL, s)
          else (case copy_user_string user_path PATH_MAX_NPK s of
             (None, s) \<Rightarrow> (neg_errno EFAULT, s)
           | (Some path, s) \<Rightarrow>
               (case resolve_process_path (Some i) path PATH_MAX_NPK s of
                  None \<Rightarrow> (neg_errno ENAMETOOLONG, s)
                | Some resolved \<Rightarrow>
                    let target = image_path (processes s i)
                    in if resolved \<noteq> ''/proc/self/exe'' \<or> target = [] then (neg_errno ENOENT, s)
                       else let bs = take (unat capacity) (bytes_of target); (ok, s) = copyout_current user_buffer bs s
                         in (if ok then of_nat (length bs) else neg_errno EFAULT, s))))"

subsection \<open>Polling\<close>

text \<open>The levels of nested epoll descriptors that can be reached without meeting one twice: there are 64
  descriptors.\<close>

definition POLL_LEVELS :: nat where
  "POLL_LEVELS = 66"

definition handle_events :: "int \<Rightarrow> u32 \<Rightarrow> 'a input_state_scheme \<Rightarrow> u32 option" where
  "handle_events handle events s = vfs_poll_events POLL_LEVELS (keyboard_has_data s) handle events s"

type_synonym npk_pollfd = "int \<times> u16 \<times> u16"

definition pollfd_of_bytes :: "u8 list \<Rightarrow> npk_pollfd" where
  "pollfd_of_bytes bs = (sint (of_le32 (field 0 4 bs)), of_le16 (field 4 2 bs), of_le16 (field 6 2 bs))"

definition pollfd_bytes :: "npk_pollfd \<Rightarrow> u8 list" where
  "pollfd_bytes p = (case p of (fd, events, revents) \<Rightarrow> le32 (of_int fd) @ le16 events @ le16 revents)"

definition poll_one :: "'a input_state_scheme \<Rightarrow> npk_pollfd \<Rightarrow> npk_pollfd option" where
  "poll_one s p =
     (case p of (fd, events, _) \<Rightarrow>
        if fd < 0 then Some (fd, events, 0)
        else let handle = (case process_current s of None \<Rightarrow> -1 | Some i \<Rightarrow> process_handle_for_fd (processes s i) fd)
          in if handle < 0 then Some (fd, events, NPK_POLLNVAL)
             else map_option (\<lambda>r. (fd, events, ucast r)) (handle_events handle (ucast events) s))"

definition poll_scan :: "npk_pollfd list \<Rightarrow> 'a input_state_scheme \<Rightarrow> (nat \<times> npk_pollfd list) option" where
  "poll_scan ps s =
     (let rs = map (poll_one s) ps
      in if None \<in> set rs then None
         else Some (length (filter (\<lambda>(_, _, revents). revents \<noteq> 0) (map the rs)), map the rs))"

definition poll_deadline :: "int \<Rightarrow> 'a proc_state_scheme \<Rightarrow> u64" where
  "poll_deadline timeout_ms s =
     (if timeout_ms > 0
      then let n = (of_int timeout_ms * ucast (frequency s) + 999) div 1000 in ticks s + (if n = 0 then 1 else n)
      else 0)"

definition poll_expired :: "int \<Rightarrow> u64 \<Rightarrow> 'a proc_state_scheme \<Rightarrow> bool" where
  "poll_expired timeout_ms deadline s \<longleftrightarrow> timeout_ms = 0 \<or> (timeout_ms > 0 \<and> reached deadline s)"

partial_function (option) poll_loop ::
  "('a sys_state_scheme \<Rightarrow> 'a sys_state_scheme) \<Rightarrow> ('a sys_state_scheme \<Rightarrow> 'a sys_state_scheme) \<Rightarrow> vaddr \<Rightarrow> npk_pollfd list \<Rightarrow> int \<Rightarrow>
   u64 \<Rightarrow> 'a sys_state_scheme \<Rightarrow> (u64 \<times> 'a sys_state_scheme) option" where
  "poll_loop idle usb_poll user ps timeout_ms deadline s =
     (case poll_scan ps s of
        None \<Rightarrow> None
      | Some (ready, rs) \<Rightarrow>
          if ready \<noteq> 0 \<or> poll_expired timeout_ms deadline s then
            (if rs = [] then Some (of_nat ready, s)
             else let (ok, s) = copyout_current user (concat (map pollfd_bytes rs)) s
               in Some (if ok then of_nat ready else neg_errno EFAULT, s))
          else case timer_sleep_ticks idle 1 s of
            None \<Rightarrow> None
          | Some s \<Rightarrow> poll_loop idle usb_poll user ps timeout_ms deadline (usb_poll s))"

definition sys_poll_common ::
  "('a sys_state_scheme \<Rightarrow> 'a sys_state_scheme) \<Rightarrow> ('a sys_state_scheme \<Rightarrow> 'a sys_state_scheme) \<Rightarrow> vaddr \<Rightarrow> u64 \<Rightarrow> int \<Rightarrow>
   'a sys_state_scheme \<Rightarrow> (u64 \<times> 'a sys_state_scheme) option" where
  "sys_poll_common idle usb_poll user_pollfds raw_count timeout_ms s =
     (if raw_count > 32 \<or> (raw_count \<noteq> 0 \<and> \<not> vmm_is_user_range user_pollfds (raw_count * 8)) then Some (neg_errno EFAULT, s)
      else case (if raw_count = 0 then (Some [], s) else copyin_current user_pollfds (unat raw_count * 8) s) of
        (None, s) \<Rightarrow> Some (neg_errno EFAULT, s)
      | (Some bs, s) \<Rightarrow>
          poll_loop idle usb_poll user_pollfds (map (\<lambda>i. pollfd_of_bytes (field (8 * i) 8 bs)) [0..<unat raw_count])
            timeout_ms (poll_deadline timeout_ms s) s)"

definition sys_poll ::
  "('a sys_state_scheme \<Rightarrow> 'a sys_state_scheme) \<Rightarrow> ('a sys_state_scheme \<Rightarrow> 'a sys_state_scheme) \<Rightarrow> vaddr \<Rightarrow> u64 \<Rightarrow> int \<Rightarrow>
   'a sys_state_scheme \<Rightarrow> (u64 \<times> 'a sys_state_scheme) option" where
  "sys_poll idle usb_poll user_pollfds raw_count timeout_ms s =
     (if timeout_ms < -1 then Some (neg_errno EINVAL, s) else sys_poll_common idle usb_poll user_pollfds raw_count timeout_ms s)"

text \<open>The timeout in milliseconds, rounded up; \<open>None\<close> for an unreadable or invalid one.\<close>

definition poll_timeout_ms :: "vaddr \<Rightarrow> 'a proc_state_scheme \<Rightarrow> int option \<times> 'a proc_state_scheme" where
  "poll_timeout_ms user_timeout s =
     (if user_timeout = 0 then (Some (-1), s)
      else case copyin_current user_timeout 16 s of
        (None, s) \<Rightarrow> (None, s)
      | (Some bs, s) \<Rightarrow>
          let seconds = sint (of_le64 (field 0 8 bs)); nanoseconds = sint (of_le64 (field 8 8 bs))
          in if seconds < 0 \<or> nanoseconds < 0 \<or> nanoseconds \<ge> 1000000000 \<or> seconds > INT64_MAX div 1000 then (None, s)
             else let ms = sint (of_int (seconds * 1000 + nanoseconds div 1000000
                               + (if nanoseconds mod 1000000 \<noteq> 0 then 1 else 0)) :: u64)
               in (Some ms, s))"

definition sys_ppoll ::
  "('a sys_state_scheme \<Rightarrow> 'a sys_state_scheme) \<Rightarrow> ('a sys_state_scheme \<Rightarrow> 'a sys_state_scheme) \<Rightarrow> vaddr \<Rightarrow> u64 \<Rightarrow> vaddr \<Rightarrow> vaddr \<Rightarrow>
   u64 \<Rightarrow> 'a sys_state_scheme \<Rightarrow> (u64 \<times> 'a sys_state_scheme) option" where
  "sys_ppoll idle usb_poll user_pollfds raw_count user_timeout user_sigmask sigset_size s =
     (if user_sigmask \<noteq> 0 \<and> sigset_size \<noteq> 8 \<and> sigset_size \<noteq> 128 then Some (neg_errno EINVAL, s)
      else let old_mask = process_get_signal_mask s
        in case (if user_sigmask = 0 then (Some [], s) else copyin_current user_sigmask (unat sigset_size) s) of
             (None, s) \<Rightarrow> Some (neg_errno EFAULT, s)
           | (Some bs, s) \<Rightarrow>
               let s = (if user_sigmask = 0 then s else process_set_signal_mask (of_le64 (field 0 8 bs)) s);
                   restore = (\<lambda>(r, s). (r, if user_sigmask = 0 then s else process_set_signal_mask old_mask s))
               in (case poll_timeout_ms user_timeout s of
                     (None, s) \<Rightarrow> Some (restore (neg_errno EFAULT, s))
                   | (Some timeout_ms, s) \<Rightarrow>
                       map_option restore (sys_poll_common idle usb_poll user_pollfds raw_count timeout_ms s)))"

definition sys_epoll_create1 :: "u64 \<Rightarrow> 'a proc_state_scheme \<Rightarrow> u64 \<times> 'a proc_state_scheme" where
  "sys_epoll_create1 flags s =
     (if flags AND NOT 0x80000 \<noteq> 0 then (neg_errno EINVAL, s)
      else case process_current s of
        None \<Rightarrow> (neg_errno EFAULT, s)
      | Some i \<Rightarrow>
          (case vfs_epoll_create s of
             (Inl e, s) \<Rightarrow> (neg_errno e, s)
           | (Inr handle, s) \<Rightarrow> install_handle i (int handle) 3 (if flags AND 0x80000 \<noteq> 0 then 1 else 0) s))"

definition sys_epoll_ctl :: "u64 \<Rightarrow> u64 \<Rightarrow> u64 \<Rightarrow> vaddr \<Rightarrow> 'a proc_state_scheme \<Rightarrow> u64 \<times> 'a proc_state_scheme" where
  "sys_epoll_ctl raw_epfd operation raw_fd user_event s =
     (if process_current s = None \<or> raw_epfd \<ge> 32 \<or> raw_fd \<ge> 32 \<or> \<not> vmm_is_user_range user_event 16 then (neg_errno EFAULT, s)
      else let epfd = current_handle raw_epfd s; fd = current_handle raw_fd s
        in if epfd < 0 \<or> fd < 0 then (neg_errno EBADF, s)
           else case copyin_current user_event 16 s of
             (None, s) \<Rightarrow> (neg_errno EFAULT, s)
           | (Some ev, s) \<Rightarrow>
               let (r, s) = vfs_epoll_ctl epfd (sint (ucast operation :: u32)) fd (of_le32 (field 0 4 ev)) (of_le64 (field 8 8 ev)) s
               in (status_word r, s))"

fun epoll_copyout :: "vaddr \<Rightarrow> (u64 \<times> u32) list \<Rightarrow> 'a proc_state_scheme \<Rightarrow> bool \<times> 'a proc_state_scheme" where
  "epoll_copyout a [] s = (True, s)"
| "epoll_copyout a ((data, events) # rs) s =
     (case copyout_current a (le32 events @ le32 0 @ le64 data) s of
        (False, s) \<Rightarrow> (False, s)
      | (True, s) \<Rightarrow> epoll_copyout (a + 16) rs s)"

partial_function (option) epoll_loop ::
  "('a sys_state_scheme \<Rightarrow> 'a sys_state_scheme) \<Rightarrow> int \<Rightarrow> vaddr \<Rightarrow> nat \<Rightarrow> int \<Rightarrow> u64 \<Rightarrow> 'a sys_state_scheme \<Rightarrow>
   (u64 \<times> 'a sys_state_scheme) option" where
  "epoll_loop idle epfd user_events maxevents timeout_ms deadline s =
     (case vfs_epoll_wait POLL_LEVELS (keyboard_has_data s) epfd True maxevents s of
        None \<Rightarrow> None
      | Some (Inl e) \<Rightarrow> Some (neg_errno e, s)
      | Some (Inr rs) \<Rightarrow>
          if rs \<noteq> [] \<or> poll_expired timeout_ms deadline s then
            (let (ok, s) = epoll_copyout user_events rs s in Some (if ok then of_nat (length rs) else neg_errno EFAULT, s))
          else case timer_sleep_ticks idle 1 s of
            None \<Rightarrow> None
          | Some s \<Rightarrow> epoll_loop idle epfd user_events maxevents timeout_ms deadline s)"

definition sys_epoll_wait ::
  "('a sys_state_scheme \<Rightarrow> 'a sys_state_scheme) \<Rightarrow> u64 \<Rightarrow> vaddr \<Rightarrow> u64 \<Rightarrow> int \<Rightarrow> 'a sys_state_scheme \<Rightarrow>
   (u64 \<times> 'a sys_state_scheme) option" where
  "sys_epoll_wait idle raw_epfd user_events maxevents timeout_ms s =
     (if maxevents = 0 \<or> maxevents > 32 \<or> timeout_ms < -1 then Some (neg_errno EINVAL, s)
      else if process_current s = None \<or> raw_epfd \<ge> 32 \<or> \<not> vmm_is_user_range user_events (maxevents * 16)
      then Some (neg_errno EFAULT, s)
      else if current_handle raw_epfd s < 0 then Some (neg_errno EBADF, s)
      else epoll_loop idle (current_handle raw_epfd s) user_events (unat maxevents) timeout_ms (poll_deadline timeout_ms s) s)"

subsection \<open>Terminal control\<close>

definition winsize_bytes :: "npk_winsize \<Rightarrow> u8 list" where
  "winsize_bytes w = le16 (ws_rows w) @ le16 (ws_columns w) @ le16 (ws_x_pixels w) @ le16 (ws_y_pixels w)"

definition winsize_of_bytes :: "u8 list \<Rightarrow> npk_winsize" where
  "winsize_of_bytes bs = \<lparr>ws_rows = of_le16 (field 0 2 bs), ws_columns = of_le16 (field 2 2 bs),
     ws_x_pixels = of_le16 (field 4 2 bs), ws_y_pixels = of_le16 (field 6 2 bs)\<rparr>"

definition saturate16 :: "u64 \<Rightarrow> u16" where
  "saturate16 v = (if v > 0xffff then 0xffff else ucast v)"

definition current_winsize :: "'a display_state_scheme \<Rightarrow> npk_winsize" where
  "current_winsize s =
     (if \<not> gop_ready s then \<lparr>ws_rows = 25, ws_columns = 80, ws_x_pixels = 0, ws_y_pixels = 0\<rparr>
      else \<lparr>ws_rows = saturate16 (gop_rows s), ws_columns = saturate16 (gop_columns s),
            ws_x_pixels = saturate16 (gop_width s), ws_y_pixels = saturate16 (gop_height s)\<rparr>)"

definition terminal_fd_valid :: "u64 \<Rightarrow> 'a proc_state_scheme \<Rightarrow> bool" where
  "terminal_fd_valid raw_fd s \<longleftrightarrow>
     process_current s \<noteq> None \<and> raw_fd < 32 \<and>
     (if raw_fd \<le> 2 then current_handle raw_fd s = uint raw_fd else current_handle raw_fd s \<ge> 0)"

definition sys_ioctl :: "u64 \<Rightarrow> u64 \<Rightarrow> vaddr \<Rightarrow> 'a sys_state_scheme \<Rightarrow> u64 \<times> 'a sys_state_scheme" where
  "sys_ioctl raw_fd request user_arg s =
     (if \<not> terminal_fd_valid raw_fd s then (neg_errno EBADF, s)
      else if raw_fd > 2 then (neg_errno ENOTTY, s)
      else if request = 0x5401 then copyout_status user_arg (terminal_settings s) s
      else if request = 0x5402 \<or> request = 0x5403 \<or> request = 0x5404 then
        (case copyin_current user_arg sizeof_termios s of
           (None, s) \<Rightarrow> (neg_errno EFAULT, s)
         | (Some bs, s) \<Rightarrow> (0, s\<lparr>terminal_settings := bs\<rparr>))
      else if request = 0x5413 then
        (let s = s\<lparr>terminal_winsize := current_winsize s\<rparr> in copyout_status user_arg (winsize_bytes (terminal_winsize s)) s)
      else if request = 0x5414 then
        (case copyin_current user_arg 8 s of
           (None, s) \<Rightarrow> (neg_errno EFAULT, s)
         | (Some bs, s) \<Rightarrow> (0, s\<lparr>terminal_winsize := winsize_of_bytes bs\<rparr>))
      else if request = 0x541b then
        (if raw_fd \<noteq> 0 then (neg_errno ENOTTY, s)
         else copyout_status user_arg (le32 (if keyboard_has_data s then 1 else 0)) s)
      else (neg_errno ENOTTY, s))"

end
