(* ===== verification/Syscall.thy ===== *)
theory Syscall
  imports Syscall_Io
begin

text \<open>
  The remaining system calls and their dispatch: the second part of \<^verbatim>\<open>src/syscall/syscall.c\<close>.  \<open>hhdm\<close> is the
  offset of the direct map given by the boot loader.  The outcome of a call is the word it returns, the
  thread the processor switches to instead of returning, or a halt.
\<close>

abbreviation (input) EXEC_MAX_IMAGE :: int where "EXEC_MAX_IMAGE \<equiv> 16 * 1024 * 1024"
abbreviation (input) EXEC_MAX_VECTOR :: nat where "EXEC_MAX_VECTOR \<equiv> 32"
abbreviation (input) EXEC_STRING_STORAGE :: nat where "EXEC_STRING_STORAGE \<equiv> 4096"
abbreviation (input) NPK_SIGRTMIN :: u64 where "NPK_SIGRTMIN \<equiv> 32"
abbreviation (input) NPK_SIGRTMAX :: u64 where "NPK_SIGRTMAX \<equiv> 64"

subsection \<open>Memory\<close>

definition sys_brk :: "u64 \<Rightarrow> 'a proc_state_scheme \<Rightarrow> u64 \<times> 'a proc_state_scheme" where
  "sys_brk requested s =
     (case process_current s of
        None \<Rightarrow> (neg_errno EFAULT, s)
      | Some i \<Rightarrow>
          let p = processes s i
          in if \<not> alive p then (neg_errno EFAULT, s)
             else if requested = 0 then (brk_end p, s)
             else if requested < brk_start p \<or> requested \<ge> NPK_USER_MAX \<or> requested > UINT64_MAX - (NPK_PAGE_SIZE - 1) then (brk_end p, s)
             else let target = (requested + NPK_PAGE_SIZE - 1) AND NOT (NPK_PAGE_SIZE - 1)
               in case on_process i (\<lambda>p. vm_resize_heap p target) s of
                    (Inl _, s) \<Rightarrow> (brk_end (processes s i), s)
                  | (Inr _, s) \<Rightarrow> (requested, s))"

definition sys_mprotect :: "vaddr \<Rightarrow> u64 \<Rightarrow> u64 \<Rightarrow> 'a proc_state_scheme \<Rightarrow> u64 \<times> 'a proc_state_scheme" where
  "sys_mprotect address len prot s =
     (case process_current s of
        None \<Rightarrow> (neg_errno EFAULT, s)
      | Some i \<Rightarrow>
          if \<not> alive (processes s i) \<or> \<not> vmm_is_user_range address len then (neg_errno EFAULT, s)
          else let (r, s) = on_process i (\<lambda>p. vm_protect p address len prot) s in (status_word r, s))"

definition sys_mmap :: "vaddr \<Rightarrow> u64 \<Rightarrow> u64 \<Rightarrow> u64 \<Rightarrow> u64 \<Rightarrow> u64 \<Rightarrow> 'a proc_state_scheme \<Rightarrow> u64 \<times> 'a proc_state_scheme" where
  "sys_mmap requested len prot flags fd offset s =
     (case process_current s of
        None \<Rightarrow> (neg_errno EINVAL, s)
      | Some i \<Rightarrow>
          if \<not> alive (processes s i) \<or> len = 0 \<or> bad_protection prot \<or> flags AND (NPK_MAP_SHARED OR NPK_MAP_PRIVATE) = 0
          then (neg_errno EINVAL, s)
          else if has_flag flags NPK_MAP_ANONYMOUS then
            (if fd \<noteq> UINT64_MAX \<or> offset \<noteq> 0 then (neg_errno EINVAL, s)
             else let (r, s) = on_process i (\<lambda>p. vm_map_anonymous p requested len prot flags) s in (result_word r, s))
          else if fd \<ge> 32 \<or> offset AND (NPK_PAGE_SIZE - 1) \<noteq> 0 then (neg_errno EINVAL, s)
          else let handle = current_handle fd s
            in if handle < 0 then (neg_errno EBADF, s)
               else let (r, s) =
                   (if vfs_is_shared_memory handle s
                    then on_process i (\<lambda>p. vm_map_shared p handle requested len prot flags offset) s
                    else on_process i (\<lambda>p. vm_map_file p handle requested len prot flags offset) s)
                 in (result_word r, s))"

definition sys_munmap :: "vaddr \<Rightarrow> u64 \<Rightarrow> 'a proc_state_scheme \<Rightarrow> u64 \<times> 'a proc_state_scheme" where
  "sys_munmap address len s =
     (case process_current s of
        None \<Rightarrow> (neg_errno EINVAL, s)
      | Some i \<Rightarrow> let (r, s) = on_process i (\<lambda>p. vm_unmap p address len) s in (status_word r, s))"

subsection \<open>Signals and thread bases\<close>

definition valid_user_base :: "u64 \<Rightarrow> bool" where
  "valid_user_base base \<longleftrightarrow> base = 0 \<or> base \<le> 0x00007fffffffffff"

definition sys_arch_prctl :: "u64 \<Rightarrow> u64 \<Rightarrow> 'a proc_state_scheme \<Rightarrow> u64 \<times> 'a proc_state_scheme" where
  "sys_arch_prctl operation argument s =
     (case (current s, process_current s) of
        (Some t, Some i) \<Rightarrow>
          if \<not> alive (processes s i) \<or> privilege_ring (threads s t) \<noteq> 3 then (neg_errno EPERM, s)
          else if operation = 0x1002 then
            (if \<not> valid_user_base argument then (neg_errno EINVAL, s)
             else (0, (upd_thread t (\<lambda>th. th\<lparr>fs_base := argument\<rparr>) s)\<lparr>cpu := (cpu s)\<lparr>cpu_fs_base := argument\<rparr>\<rparr>))
          else if operation = 0x1003 then copyout_status argument (le64 (fs_base (threads s t))) s
          else if operation = 0x1001 then
            (if \<not> valid_user_base argument then (neg_errno EINVAL, s)
             else (0, (upd_thread t (\<lambda>th. th\<lparr>gs_base := argument\<rparr>) s)\<lparr>cpu := (cpu s)\<lparr>cpu_user_gs_base := argument\<rparr>\<rparr>))
          else if operation = 0x1004 then copyout_status argument (le64 (gs_base (threads s t))) s
          else (neg_errno EINVAL, s)
      | _ \<Rightarrow> (neg_errno EPERM, s))"

definition sigaction_bytes :: "npk_sigaction \<Rightarrow> u8 list" where
  "sigaction_bytes a = le64 (sa_handler a) @ le64 (sa_flags a) @ le64 (sa_restorer a) @ concat (map le64 (sa_mask a))"

definition sigaction_of_bytes :: "u8 list \<Rightarrow> npk_sigaction" where
  "sigaction_of_bytes bs = \<lparr>sa_handler = of_le64 (field 0 8 bs), sa_flags = of_le64 (field 8 8 bs),
     sa_restorer = of_le64 (field 16 8 bs), sa_mask = map (\<lambda>i. of_le64 (field (24 + 8 * i) 8 bs)) [0..<16]\<rparr>"

definition sys_rt_sigaction :: "u64 \<Rightarrow> vaddr \<Rightarrow> vaddr \<Rightarrow> u64 \<Rightarrow> 'a proc_state_scheme \<Rightarrow> u64 \<times> 'a proc_state_scheme" where
  "sys_rt_sigaction signal user_new user_old sigset_size s =
     (case process_current s of
        None \<Rightarrow> (neg_errno EINVAL, s)
      | Some i \<Rightarrow>
          if \<not> alive (processes s i) \<or> signal = 0 \<or> signal > 64 \<or> signal = 9 \<or> signal = 19 then (neg_errno EINVAL, s)
          else if sigset_size \<noteq> 0 \<and> sigset_size \<noteq> 8 \<and> sigset_size \<noteq> 128 then (neg_errno EINVAL, s)
          else (case (if user_old = 0 then (True, s)
                      else copyout_current user_old (sigaction_bytes (signal_actions (processes s i) (unat signal))) s) of
             (False, s) \<Rightarrow> (neg_errno EFAULT, s)
           | (True, s) \<Rightarrow>
               if user_new = 0 then (0, s)
               else (case copyin_current user_new 152 s of
                       (None, s) \<Rightarrow> (neg_errno EFAULT, s)
                     | (Some bs, s) \<Rightarrow>
                         (0, upd_process i (\<lambda>p. p\<lparr>signal_actions := (signal_actions p)(unat signal := sigaction_of_bytes bs)\<rparr>) s))))"

definition sys_rt_sigprocmask :: "u64 \<Rightarrow> vaddr \<Rightarrow> vaddr \<Rightarrow> u64 \<Rightarrow> 'a proc_state_scheme \<Rightarrow> u64 \<times> 'a proc_state_scheme" where
  "sys_rt_sigprocmask operation user_set user_old_set sigset_size s =
     (if sigset_size \<noteq> 8 \<and> sigset_size \<noteq> 128 then (neg_errno EINVAL, s)
      else if operation > 2 then (neg_errno EINVAL, s)
      else let old_mask = process_get_signal_mask s; n = unat sigset_size
        in case (if user_old_set = 0 then (True, s) else copyout_current user_old_set (take n (le64 old_mask @ zeros 120)) s) of
             (False, s) \<Rightarrow> (neg_errno EFAULT, s)
           | (True, s) \<Rightarrow>
               if user_set = 0 then (0, s)
               else (case copyin_current user_set n s of
                       (None, s) \<Rightarrow> (neg_errno EFAULT, s)
                     | (Some bs, s) \<Rightarrow>
                         let m = of_le64 (field 0 8 bs)
                         in (0, process_set_signal_mask
                                  (if operation = 0 then old_mask OR m else if operation = 1 then old_mask AND NOT m else m) s)))"

text \<open>The information a queued signal carries: the sender's identity is the kernel's, not the caller's.\<close>

definition user_signal_info :: "u64 \<Rightarrow> u8 list \<Rightarrow> process \<Rightarrow> npk_signal_info" where
  "user_signal_info signal raw sender =
     \<lparr>si_signal = signal, si_code = sint (of_le32 (field 8 4 raw)), si_sender_pid = uint (pid sender), si_sender_uid = 0,
      si_value = sint (of_le64 (field 24 8 raw))\<rparr>"

definition queue_from_user ::
  "(npk_signal_info \<Rightarrow> 'a proc_state_scheme \<Rightarrow> unit result \<times> 'a proc_state_scheme) \<Rightarrow> u64 \<Rightarrow> vaddr \<Rightarrow> 'a proc_state_scheme \<Rightarrow>
   u64 \<times> 'a proc_state_scheme" where
  "queue_from_user send signal user_info s =
     (if signal < NPK_SIGRTMIN \<or> signal > NPK_SIGRTMAX \<or> user_info = 0 then (neg_errno EINVAL, s)
      else case copyin_current user_info 128 s of
        (None, s) \<Rightarrow> (neg_errno EFAULT, s)
      | (Some raw, s) \<Rightarrow>
          if of_le32 (field 0 4 raw) \<noteq> ucast signal then (neg_errno EINVAL, s)
          else (case process_current s of
             None \<Rightarrow> (neg_errno ESRCH, s)
           | Some i \<Rightarrow>
               if \<not> alive (processes s i) then (neg_errno ESRCH, s)
               else let (r, s) = send (user_signal_info signal raw (processes s i)) s in (status_word r, s)))"

definition sys_rt_sigqueueinfo :: "int \<Rightarrow> u64 \<Rightarrow> vaddr \<Rightarrow> 'a proc_state_scheme \<Rightarrow> u64 \<times> 'a proc_state_scheme" where
  "sys_rt_sigqueueinfo target signal user_info s =
     queue_from_user (\<lambda>info. process_send_signal_info target signal (Some info)) signal user_info s"

definition sys_rt_tgsigqueueinfo :: "int \<Rightarrow> int \<Rightarrow> u64 \<Rightarrow> vaddr \<Rightarrow> 'a proc_state_scheme \<Rightarrow> u64 \<times> 'a proc_state_scheme" where
  "sys_rt_tgsigqueueinfo tgid target signal user_info s =
     queue_from_user (\<lambda>info. process_send_thread_signal_info tgid target signal (Some info)) signal user_info s"

subsection \<open>Time\<close>

definition timespec_bytes :: "u64 \<Rightarrow> u64 \<Rightarrow> u8 list" where
  "timespec_bytes seconds nanoseconds = le64 seconds @ le64 nanoseconds"

definition sys_clock_gettime :: "u64 \<Rightarrow> vaddr \<Rightarrow> 'a proc_state_scheme \<Rightarrow> u64 \<times> 'a proc_state_scheme" where
  "sys_clock_gettime clock_id user_timespec s =
     (if clock_id > 1 then (neg_errno EINVAL, s)
      else let ns = timer_monotonic_ns s
        in copyout_status user_timespec (timespec_bytes (ns div 1000000000) (ns mod 1000000000)) s)"

definition sleep_ticks_of :: "int \<Rightarrow> int \<Rightarrow> u32 \<Rightarrow> u64" where
  "sleep_ticks_of seconds nanoseconds hz =
     (let n = of_int seconds * ucast hz + (of_int nanoseconds * ucast hz) div 1000000000
      in if n = 0 \<and> (seconds \<noteq> 0 \<or> nanoseconds \<noteq> 0) then 1 else n)"

definition sys_nanosleep ::
  "('a proc_state_scheme \<Rightarrow> 'a proc_state_scheme) \<Rightarrow> vaddr \<Rightarrow> vaddr \<Rightarrow> 'a proc_state_scheme \<Rightarrow> (u64 \<times> 'a proc_state_scheme) option" where
  "sys_nanosleep idle user_request user_remainder s =
     (case copyin_current user_request 16 s of
        (None, s) \<Rightarrow> Some (neg_errno EFAULT, s)
      | (Some bs, s) \<Rightarrow>
          let seconds = sint (of_le64 (field 0 8 bs)); nanoseconds = sint (of_le64 (field 8 8 bs))
          in if seconds < 0 \<or> nanoseconds < 0 \<or> nanoseconds \<ge> 1000000000 then Some (neg_errno EFAULT, s)
             else map_option (\<lambda>s. if user_remainder = 0 then (0, s) else copyout_status user_remainder (timespec_bytes 0 0) s)
                    (timer_sleep_ticks idle (sleep_ticks_of seconds nanoseconds (frequency s)) s))"

subsection \<open>The display and its input\<close>

text \<open>The structure ends in seven bytes of padding.\<close>

definition framebuffer_info_bytes :: "gop_framebuffer_info \<Rightarrow> u8 list" where
  "framebuffer_info_bytes i =
     (let f = gi_framebuffer i
      in le64 (gi_physical_base i) @ le64 (gi_page_offset i) @ le64 (gi_mapping_size i) @ le64 (fb_width f) @ le64 (fb_height f)
         @ le64 (fb_pitch f) @ le16 (fb_bpp f) @ [fb_memory_model f, fb_red_mask_size f, fb_red_mask_shift f,
           fb_green_mask_size f, fb_green_mask_shift f, fb_blue_mask_size f, fb_blue_mask_shift f] @ zeros 7)"

definition sys_display_info :: "u64 option \<Rightarrow> vaddr \<Rightarrow> 'a display_state_scheme \<Rightarrow> u64 \<times> 'a display_state_scheme" where
  "sys_display_info hhdm user_info s =
     (case gop_get_framebuffer_info hhdm s of
        None \<Rightarrow> (neg_errno ENODEV, s)
      | Some info \<Rightarrow> copyout_status user_info (framebuffer_info_bytes info) s)"

definition sys_display_claim :: "'a input_state_scheme \<Rightarrow> u64 \<times> 'a input_state_scheme" where
  "sys_display_claim s =
     (case process_current s of
        None \<Rightarrow> (neg_errno EFAULT, s)
      | Some i \<Rightarrow>
          if \<not> alive (processes s i) then (neg_errno EFAULT, s)
          else (case gop_claim_user_display (pid (processes s i)) s of
             (False, s) \<Rightarrow> (neg_errno ENODEV, s)
           | (True, s) \<Rightarrow> (0, keyboard_clear_events s)))"

text \<open>The current process when it is alive and owns the display.\<close>

definition display_owner :: "'a proc_state_scheme \<Rightarrow> nat option" where
  "display_owner s =
     (case process_current s of
        None \<Rightarrow> None
      | Some i \<Rightarrow> if alive (processes s i) \<and> gop_user_display_owned_by (pid (processes s i)) s then Some i else None)"

definition sys_display_map :: "u64 option \<Rightarrow> vaddr \<Rightarrow> u64 \<Rightarrow> 'a display_state_scheme \<Rightarrow> u64 \<times> 'a display_state_scheme" where
  "sys_display_map hhdm requested flags s =
     (case display_owner s of
        None \<Rightarrow> (neg_errno EPERM, s)
      | Some i \<Rightarrow>
          if \<not> has_flag flags NPK_MAP_SHARED \<or> has_flag flags NPK_MAP_PRIVATE \<or> has_flag flags NPK_MAP_ANONYMOUS
          then (neg_errno EINVAL, s)
          else (case gop_get_framebuffer_info hhdm s of
             None \<Rightarrow> (neg_errno ENODEV, s)
           | Some info \<Rightarrow>
               let (r, s) = on_process i (\<lambda>p. vm_map_device p requested (gi_physical_base info) (gi_mapping_size info)
                              (NPK_PROT_READ OR NPK_PROT_WRITE) flags) s
               in (result_word r, s)))"

definition sys_display_release :: "'a proc_state_scheme \<Rightarrow> u64 \<times> 'a proc_state_scheme" where
  "sys_display_release s =
     (case display_owner s of
        None \<Rightarrow> (neg_errno EPERM, s)
      | Some i \<Rightarrow>
          (0, let s = on_process_value i vm_revoke_device_mappings s in gop_release_user_display (pid (processes s i)) s))"

definition event_bytes :: "npk_input_event \<Rightarrow> u8 list" where
  "event_bytes e = le64 (ev_timestamp e) @ le16 (ev_type e) @ le16 (ev_code e) @ le32 (of_int (ev_value e)) @ le32 (ev_modifiers e) @ le32 0"

fun take_events :: "nat \<Rightarrow> 'a input_state_scheme \<Rightarrow> npk_input_event list \<times> 'a input_state_scheme" where
  "take_events 0 s = ([], s)"
| "take_events (Suc n) s =
     (case keyboard_get_event s of
        (None, s) \<Rightarrow> ([], s)
      | (Some e, s) \<Rightarrow> (let (es, s) = take_events n s in (e # es, s)))"

definition sys_input_read :: "vaddr \<Rightarrow> u64 \<Rightarrow> 'a input_state_scheme \<Rightarrow> u64 \<times> 'a input_state_scheme" where
  "sys_input_read user_buffer capacity s =
     (case display_owner s of
        None \<Rightarrow> (neg_errno EPERM, s)
      | Some i \<Rightarrow>
          if capacity = 0 then (0, s)
          else if \<not> vmm_is_user_range user_buffer capacity then (neg_errno EFAULT, s)
          else let (es, s) = take_events (min (unat capacity div 24) 16) s
            in if es = [] then (0, s)
               else let (ok, s) = copyout_current user_buffer (concat (map event_bytes es)) s
                 in (if ok then of_nat (24 * length es) else neg_errno EFAULT, s))"

subsection \<open>Names\<close>

definition uname_field :: "string \<Rightarrow> u8 list" where
  "uname_field v = overlay (take 64 (bytes_of v)) (zeros 65)"

definition sys_uname :: "vaddr \<Rightarrow> 'a proc_state_scheme \<Rightarrow> u64 \<times> 'a proc_state_scheme" where
  "sys_uname user_buffer s =
     copyout_status user_buffer
       (concat (map uname_field [''NPKernel'', ''npk'', ''0.2.0-dev'', ''No Problem Kernel'', ''x86_64'', []])) s"

subsection \<open>Execution\<close>

text \<open>The strings of a user vector and the bytes of the string storage used after them.\<close>

fun copy_vector_loop :: "nat \<Rightarrow> nat \<Rightarrow> vaddr \<Rightarrow> nat \<Rightarrow> 'a proc_state_scheme \<Rightarrow> (string list \<times> nat) option \<times> 'a proc_state_scheme" where
  "copy_vector_loop 0 i user_vector used s = (None, s)"
| "copy_vector_loop (Suc n) i user_vector used s =
     (if of_nat i > (UINT64_MAX - user_vector) div 8 then (None, s)
      else case copyin_current (user_vector + of_nat i * 8) 8 s of
        (None, s) \<Rightarrow> (None, s)
      | (Some bs, s) \<Rightarrow>
          if of_le64 bs = 0 then (Some ([], used), s)
          else if used \<ge> EXEC_STRING_STORAGE then (None, s)
          else (case copy_user_string (of_le64 bs) (EXEC_STRING_STORAGE - used) s of
             (None, s) \<Rightarrow> (None, s)
           | (Some txt, s) \<Rightarrow>
               (let (r, s) = copy_vector_loop n (i + 1) user_vector (used + length txt + 1) s
                in (map_option (\<lambda>(txts, used). (txt # txts, used)) r, s))))"

definition copy_user_vector :: "vaddr \<Rightarrow> nat \<Rightarrow> 'a proc_state_scheme \<Rightarrow> (string list \<times> nat) option \<times> 'a proc_state_scheme" where
  "copy_user_vector user_vector used s =
     (if user_vector = 0 then (Some ([], used), s) else copy_vector_loop EXEC_MAX_VECTOR 0 user_vector used s)"

definition copy_vectors :: "vaddr \<Rightarrow> vaddr \<Rightarrow> 'a proc_state_scheme \<Rightarrow> (string list \<times> string list) option \<times> 'a proc_state_scheme" where
  "copy_vectors user_argv user_envp s =
     (case copy_user_vector user_argv 0 s of
        (None, s) \<Rightarrow> (None, s)
      | (Some (argv, used), s) \<Rightarrow>
          (let (r, s) = copy_user_vector user_envp used s in (map_option (\<lambda>(envp, _). (argv, envp)) r, s)))"

text \<open>The image of a file in a kernel buffer.\<close>

definition read_exec_image :: "string \<Rightarrow> 'a proc_state_scheme \<Rightarrow> (u64 \<times> u8 list) result \<times> 'a proc_state_scheme" where
  "read_exec_image resolved s =
     (case vfs_open (proc_snapshot s) (Some resolved) s of
        (Inl _, s) \<Rightarrow> (Inl ENOENT, s)
      | (Inr fd, s) \<Rightarrow>
          (case vfs_size (int fd) s of
             Inl _ \<Rightarrow> (Inl EINVAL, snd (vfs_close (int fd) s))
           | Inr sz \<Rightarrow>
               if sz \<le> 0 \<or> sz > EXEC_MAX_IMAGE then (Inl EINVAL, snd (vfs_close (int fd) s))
               else let (buffer, s) = kmalloc (of_int sz) s
                 in if buffer = 0 then (Inl ENOMEM, snd (vfs_close (int fd) s))
                    else let (r, s) = vfs_read (int fd) True (nat sz) s; s = snd (vfs_close (int fd) s)
                      in (case r of
                            Inl _ \<Rightarrow> (Inl EFAULT, kfree buffer s)
                          | Inr bs \<Rightarrow> if int (length bs) \<noteq> sz then (Inl EFAULT, kfree buffer s) else (Inr (buffer, bs), s))))"

definition sys_execve :: "syscall_frame \<Rightarrow> 'a proc_state_scheme \<Rightarrow> (u64 \<times> syscall_frame) \<times> 'a proc_state_scheme" where
  "sys_execve frame s =
     (case copy_user_string (sf_rdi frame) PATH_MAX_NPK s of
        (None, s) \<Rightarrow> ((neg_errno (if sf_rdi frame \<noteq> 0 then ENAMETOOLONG else EFAULT), frame), s)
      | (Some path, s) \<Rightarrow>
          (case resolve_process_path (process_current s) path PATH_MAX_NPK s of
             None \<Rightarrow> ((neg_errno ENAMETOOLONG, frame), s)
           | Some resolved \<Rightarrow>
               (case read_exec_image resolved s of
                  (Inl e, s) \<Rightarrow> ((neg_errno e, frame), s)
                | (Inr (buffer, img), s) \<Rightarrow>
                    let (storage, s) = kmalloc (of_nat EXEC_STRING_STORAGE) s
                    in if storage = 0 then ((neg_errno ENOMEM, frame), kfree buffer s)
                       else (case copy_vectors (sf_rsi frame) (sf_rdx frame) s of
                          (None, s) \<Rightarrow> ((neg_errno EFAULT, frame), kfree buffer (kfree storage s))
                        | (Some (argv, envp), s) \<Rightarrow>
                            let ((r, frame), s) = process_exec_current img argv envp frame s;
                                s = (case (r, process_current s) of
                                       (Inr _, Some i) \<Rightarrow> upd_process i (process_set_image_path (Some resolved)) s
                                     | _ \<Rightarrow> s)
                            in ((status_word r, frame), kfree buffer (kfree storage s))))))"

subsection \<open>Dispatch\<close>

text \<open>Delivering a pending signal on the way out of a call that returns \<open>r\<close>.\<close>

definition deliver_and_return :: "u64 \<Rightarrow> syscall_frame \<Rightarrow> 'a proc_state_scheme \<Rightarrow> (u64 outcome \<times> syscall_frame) \<times> 'a proc_state_scheme" where
  "deliver_and_return r f s =
     (case process_deliver_pending_signal_syscall f s of
        ((None, f), s) \<Rightarrow> ((Returns r, f), s)
      | ((Some signal, f), s) \<Rightarrow>
          (case process_terminate_by_signal signal s of
             (Switches t, s) \<Rightarrow> ((Switches t, f), s)
           | (_, s) \<Rightarrow> ((Halts, f), s)))"

definition deliver_if_zero :: "syscall_frame \<Rightarrow> u64 \<times> 'a proc_state_scheme \<Rightarrow> (u64 outcome \<times> syscall_frame) \<times> 'a proc_state_scheme" where
  "deliver_if_zero f rs = (case rs of (r, s) \<Rightarrow> if r = 0 then deliver_and_return r f s else ((Returns r, f), s))"

definition returns :: "syscall_frame \<Rightarrow> u64 \<times> 's \<Rightarrow> (u64 outcome \<times> syscall_frame) \<times> 's" where
  "returns f rs = ((Returns (fst rs), f), snd rs)"

text \<open>After the last thread of an exit the processor switches away or halts; the call never returns.\<close>

definition leave :: "syscall_frame \<Rightarrow> 'a proc_state_scheme \<Rightarrow> (u64 outcome \<times> syscall_frame) \<times> 'a proc_state_scheme" where
  "leave f s =
     (case scheduler_yield s of
        (Switches t, s) \<Rightarrow> ((Switches t, f), s)
      | (_, s) \<Rightarrow> ((Halts, f), s))"

definition signed_outcome :: "syscall_frame \<Rightarrow> int outcome \<times> 's \<Rightarrow> (u64 outcome \<times> syscall_frame) \<times> 's" where
  "signed_outcome f os =
     (case os of
        (Returns v, s) \<Rightarrow> ((Returns (of_int v), f), s)
      | (Switches t, s) \<Rightarrow> ((Switches t, f), s)
      | (Halts, s) \<Rightarrow> ((Halts, f), s))"

definition sys_futex :: "vaddr \<Rightarrow> u64 \<Rightarrow> u32 \<Rightarrow> vaddr \<Rightarrow> 'a proc_state_scheme \<Rightarrow> int outcome \<times> 'a proc_state_scheme" where
  "sys_futex user_address operation v user_timeout s =
     (if operation AND 256 \<noteq> 0 then (Returns (- errno_num EINVAL), s)
      else if operation AND NOT (0x7f OR 128) \<noteq> 0 then (Returns (- errno_num EINVAL), s)
      else let command = operation AND 0x7f
        in if command = 0 then process_futex_wait user_address v user_timeout s
           else if command = 1 then
             (let (r, s) = process_futex_wake user_address v s
              in (Returns (case r of Inl e \<Rightarrow> - errno_num e | Inr n \<Rightarrow> int n), s))
           else (Returns (- errno_num ENOSYS), s))"

definition futex_dispatch :: "syscall_frame \<Rightarrow> 'a proc_state_scheme \<Rightarrow> (u64 outcome \<times> syscall_frame) \<times> 'a proc_state_scheme" where
  "futex_dispatch f s =
     (case sys_futex (sf_rdi f) (sf_rsi f) (ucast (sf_rdx f)) (sf_r10 f) s of
        (Returns v, s) \<Rightarrow> if v = - errno_num EINTR then deliver_and_return (of_int v) f s else ((Returns (of_int v), f), s)
      | (Switches t, s) \<Rightarrow> ((Switches t, f), s)
      | (Halts, s) \<Rightarrow> ((Halts, f), s))"

definition sys_sched_yield :: "'a proc_state_scheme \<Rightarrow> int outcome \<times> 'a proc_state_scheme" where
  "sys_sched_yield s =
     (case scheduler_yield s of
        (Returns _, s) \<Rightarrow> (Returns 0, s)
      | (Switches t, s) \<Rightarrow> (Switches t, s)
      | (Halts, s) \<Rightarrow> (Halts, s))"

definition sigreturn_dispatch :: "syscall_frame \<Rightarrow> 'a proc_state_scheme \<Rightarrow> (u64 outcome \<times> syscall_frame) \<times> 'a proc_state_scheme" where
  "sigreturn_dispatch f s =
     (let ((r, f), s) = process_sigreturn f s
      in case current s of
           Some t \<Rightarrow> if \<not> signal_inflight (threads s t) then deliver_and_return (result_word r) f s else ((Returns (result_word r), f), s)
         | None \<Rightarrow> ((Returns (result_word r), f), s))"

definition sys_getpid :: "'a proc_state_scheme \<Rightarrow> u64" where
  "sys_getpid s = (case cpu_syscall_process (cpu s) of None \<Rightarrow> 1 | Some i \<Rightarrow> pid (processes s i))"

definition sys_gettid :: "'a proc_state_scheme \<Rightarrow> u64" where
  "sys_gettid s = (case current s of None \<Rightarrow> 1 | Some t \<Rightarrow> tid (threads s t))"

text \<open>The calls that may wait.\<close>

definition dispatch_waiting ::
  "('a sys_state_scheme \<Rightarrow> 'a sys_state_scheme) \<Rightarrow> ('a sys_state_scheme \<Rightarrow> 'a sys_state_scheme) \<Rightarrow> syscall_frame \<Rightarrow>
   'a sys_state_scheme \<Rightarrow> (u64 \<times> 'a sys_state_scheme) option option" where
  "dispatch_waiting idle usb_poll f s =
     (let n = sf_rax f; a = sf_rdi f; b = sf_rsi f; c = sf_rdx f
      in if n = 0 then Some (sys_read idle a b c s)
         else if n = 19 then Some (sys_readv idle a b c s)
         else if n = 20 then Some (sys_writev a b c s)
         else if n = 7 then Some (sys_poll idle usb_poll a b (sint c) s)
         else if n = 271 then Some (sys_ppoll idle usb_poll a b c (sf_r10 f) (sf_r8 f) s)
         else if n = 232 then Some (sys_epoll_wait idle a b c (sint (sf_r10 f)) s)
         else if n = 35 then Some (sys_nanosleep idle a b s)
         else None)"

text \<open>The calls that only return a word.\<close>

definition dispatch_plain ::
  "u64 option \<Rightarrow> syscall_frame \<Rightarrow> 'a sys_state_scheme \<Rightarrow> (u64 \<times> 'a sys_state_scheme) option" where
  "dispatch_plain hhdm f s =
     (let n = sf_rax f; a = sf_rdi f; b = sf_rsi f; c = sf_rdx f; d = sf_r10 f
      in if n = 1 then Some (sys_write a b c s)
         else if n = 4 then Some (sys_stat_path a b s)
         else if n = 5 then Some (sys_fstat a b s)
         else if n = 8 then Some (sys_lseek a b c s)
         else if n = 79 then Some (sys_getcwd a b s)
         else if n = 80 then Some (sys_chdir a s)
         else if n = 217 then Some (sys_getdents64 a b c s)
         else if n = 291 then Some (sys_epoll_create1 a s)
         else if n = 233 then Some (sys_epoll_ctl a b c d s)
         else if n = 2 then Some (sys_open_path a b s)
         else if n = 257 then Some (sys_openat_path a b c s)
         else if n = 16 then Some (sys_ioctl a b c s)
         else if n = 89 then Some (sys_readlink_path a b c s)
         else if n = 0x400 then Some (sys_shm_create a s)
         else if n = 0x403 then Some (sys_display_info hhdm a s)
         else if n = 0x404 then Some (sys_display_claim s)
         else if n = 0x405 then Some (sys_display_map hhdm a b s)
         else if n = 0x406 then Some (sys_display_release s)
         else if n = 0x407 then Some (sys_input_read a b s)
         else if n = 0x401 then Some (sys_fd_send a b s)
         else if n = 0x402 then Some (sys_fd_recv s)
         else if n = 74 \<or> n = 75 then Some (sys_sync_fd a s)
         else if n = 162 then Some (let (r, s) = vfs_sync_all s in (status_word r, s))
         else if n = 3 then Some (sys_close a s)
         else if n = 22 then Some (sys_pipe_common a 0 s)
         else if n = 32 then Some (sys_dup a 3 0 s)
         else if n = 33 then Some (sys_dup2 a b s)
         else if n = 72 then Some (sys_fcntl a b c s)
         else if n = 39 then Some (sys_getpid s, s)
         else if n = 186 then Some (sys_gettid s, s)
         else if n = 218 then Some (let (r, s) = process_set_tid_address a s in (result_word r, s))
         else if n = 63 then Some (sys_uname a s)
         else if n = 9 then Some (sys_mmap a b c d (sf_r8 f) (sf_r9 f) s)
         else if n = 10 then Some (sys_mprotect a b c s)
         else if n = 11 then Some (sys_munmap a b s)
         else if n = 12 then Some (sys_brk a s)
         else if n = 228 then Some (sys_clock_gettime a b s)
         else if n = 57 then Some (let (r, s) = process_fork f s in (result_word r, s))
         else if n = 56 then Some (let (r, s) = process_clone a b c d (sf_r8 f) f s in (result_word r, s))
         else if n = 158 then Some (sys_arch_prctl a b s)
         else if n = 13 then Some (sys_rt_sigaction a b c d s)
         else None)"

text \<open>The calls that change the frame or may switch to another thread.\<close>

definition dispatch_control :: "syscall_frame \<Rightarrow> 'a sys_state_scheme \<Rightarrow> (u64 outcome \<times> syscall_frame) \<times> 'a sys_state_scheme" where
  "dispatch_control f s =
     (let n = sf_rax f; a = sf_rdi f; b = sf_rsi f; c = sf_rdx f
      in if n = 202 then futex_dispatch f s
         else if n = 59 then (let ((r, f), s) = sys_execve f s in ((Returns r, f), s))
         else if n = 60 then leave f (process_exit_thread_current (ucast a) s)
         else if n = 231 then leave f (process_exit_current (ucast a) s)
         else if n = 61 \<or> n = 114 then signed_outcome f (process_wait4 (sint a) b c s)
         else if n = 24 then signed_outcome f (sys_sched_yield s)
         else if n = 15 then sigreturn_dispatch f s
         else if n = 129 then deliver_if_zero f (sys_rt_sigqueueinfo (sint a) b c s)
         else if n = 297 then deliver_if_zero f (sys_rt_tgsigqueueinfo (sint a) (sint b) c (sf_r10 f) s)
         else if n = 14 then deliver_if_zero f (sys_rt_sigprocmask a b c (sf_r10 f) s)
         else if n = 62 then deliver_if_zero f (let (r, s) = process_send_signal (sint a) b s in (status_word r, s))
         else if n = 234 then deliver_if_zero f (let (r, s) = process_send_thread_signal (sint a) (sint b) c s in (status_word r, s))
         else ((Returns (neg_errno ENOSYS), f), s))"

definition syscall_dispatch ::
  "('a sys_state_scheme \<Rightarrow> 'a sys_state_scheme) \<Rightarrow> ('a sys_state_scheme \<Rightarrow> 'a sys_state_scheme) \<Rightarrow> u64 option \<Rightarrow> syscall_frame \<Rightarrow>
   'a sys_state_scheme \<Rightarrow> ((u64 outcome \<times> syscall_frame) \<times> 'a sys_state_scheme) option" where
  "syscall_dispatch idle usb_poll hhdm f s =
     (case dispatch_waiting idle usb_poll f s of
        Some r \<Rightarrow> map_option (returns f) r
      | None \<Rightarrow>
          (case dispatch_plain hhdm f s of
             Some rs \<Rightarrow> Some (returns f rs)
           | None \<Rightarrow> Some (dispatch_control f s)))"

text \<open>The entry from assembly: the register block, rax first, is copied to a frame and back.\<close>

definition frame_of_raw :: "u64 list \<Rightarrow> syscall_frame" where
  "frame_of_raw raw = \<lparr>sf_rax = raw ! 0, sf_rbx = raw ! 1, sf_rcx = raw ! 2, sf_rdx = raw ! 3, sf_rsi = raw ! 4, sf_rdi = raw ! 5,
     sf_rbp = raw ! 6, sf_r8 = raw ! 7, sf_r9 = raw ! 8, sf_r10 = raw ! 9, sf_r11 = raw ! 10, sf_r12 = raw ! 11, sf_r13 = raw ! 12,
     sf_r14 = raw ! 13, sf_r15 = raw ! 14, sf_rip = raw ! 15, sf_cs = raw ! 16, sf_rflags = raw ! 17, sf_rsp = raw ! 18, sf_ss = raw ! 19\<rparr>"

definition raw_of_frame :: "syscall_frame \<Rightarrow> u64 list" where
  "raw_of_frame f = [sf_rax f, sf_rbx f, sf_rcx f, sf_rdx f, sf_rsi f, sf_rdi f, sf_rbp f, sf_r8 f, sf_r9 f, sf_r10 f, sf_r11 f,
     sf_r12 f, sf_r13 f, sf_r14 f, sf_r15 f, sf_rip f, sf_cs f, sf_rflags f, sf_rsp f, sf_ss f]"

definition syscall_dispatch_asm ::
  "('a sys_state_scheme \<Rightarrow> 'a sys_state_scheme) \<Rightarrow> ('a sys_state_scheme \<Rightarrow> 'a sys_state_scheme) \<Rightarrow> u64 option \<Rightarrow> u64 list \<Rightarrow>
   'a sys_state_scheme \<Rightarrow> ((u64 outcome \<times> u64 list) \<times> 'a sys_state_scheme) option" where
  "syscall_dispatch_asm idle usb_poll hhdm raw s =
     (let s = (case current s of
                 None \<Rightarrow> s
               | Some t \<Rightarrow> upd_thread t (\<lambda>th. th\<lparr>saved_interrupt_frame := Some raw, saved_frame_kind := 1\<rparr>) s);
          s = process_reap_pending s
      in map_option (\<lambda>((r, f), s). ((r, raw_of_frame f), s)) (syscall_dispatch idle usb_poll hhdm (frame_of_raw raw) s))"

end
