(* ===== verification/Demo.thy ===== *)
theory Demo
  imports Syscall
begin

text \<open>
  The state of the kernel's variables before any initialisation, with empty queues of the right size.  Closed
  examples start from it and set the fields they need.
\<close>

definition zero_pipe :: pipe_object where
  "zero_pipe = empty_pipe"

definition blank_state :: sys_state where
  "blank_state = \<lparr>page_bitmap = (\<lambda>_. 0), page_refs = (\<lambda>_. 0), total_pages = 0, free_pages = 0, hhdm_offset = 0,
     phys = (\<lambda>_ _. 0), cr3 = 0, mmio_next_virtual = 0,
     heap_blocks = (\<lambda>_. zero_block), heap_head = 0, heap_mapped = 0, heap_free = 0, heap_ready = False, hung = False,
     io_hist = [], io_hw = (\<lambda>_ _. 0), ata_primary = no_device,
     persistent_super = zero_super, persistent_inodes = zero_inodes, persistent_backup_inodes = zero_inodes,
     persistent_ready = False, persistent_active_slot = False,
     files = (\<lambda>_. zero_descriptor), file_count = 0, pipes = (\<lambda>_. zero_pipe), epolls = (\<lambda>_. []),
     shms = (\<lambda>_. \<lparr>shm_size = 0, shm_page_count = 0, shm_pages = []\<rparr>),
     processes = (\<lambda>_. zero_process), threads = (\<lambda>_. zero_thread), next_pid = 1, next_tid = 1, current = None,
     bsp_idle_thread = None, scheduler_ticks = 0, reschedule_pending = False, kernel_address_space_root = 0,
     futex_waiters = (\<lambda>_. \<lparr>fw_active = False, fw_thread = 0, fw_root = 0, fw_address = 0, fw_deadline = 0, fw_timed = False\<rparr>),
     cpu = \<lparr>cpu_fs_base = 0, cpu_user_gs_base = 0, cpu_rsp0 = 0, cpu_syscall_process = None\<rparr>,
     user_display_owner = 0, ticks = 0, frequency = 100,
     fb = None, fb_mem = (\<lambda>_. 0), current_bg = 0, cursor_x = 0, cursor_y = 0, foreground = 0xf2f5fa, background = 0,
     using_gop = False, vga_buffer = (\<lambda>_. 0), vga_cursor_x = 0, vga_cursor_y = 0, ansi_state = 0, ansi_sequence = [],
     kb_queue = replicate QUEUE_SIZE 0, kb_head = 0, kb_tail = 0, input_waiter = None,
     event_queue = replicate EVENT_QUEUE_SIZE \<lparr>ev_timestamp = 0, ev_type = 0, ev_code = 0, ev_value = 0, ev_modifiers = 0\<rparr>,
     event_head = 0, event_tail = 0, turkish = True, shift_down = False, altgr_down = False, caps_lock = False,
     kb_extended = False, mouse_is_ready = False, mouse_packet = [], button_state = 0,
     keyboard_states = (\<lambda>_. \<lparr>uk_modifiers = 0, uk_keys = replicate 6 0, uk_initialized = False\<rparr>),
     terminal_settings = initial_termios, terminal_winsize = \<lparr>ws_rows = 25, ws_columns = 80, ws_x_pixels = 0, ws_y_pixels = 0\<rparr>,
     tty_input_line = [], tty_input_offset = 0, tty_echo_sequence = [], tty_echo_expected = 0\<rparr>"

end
