(* ===== verification/Ring.thy ===== *)
theory Ring
  imports Npk_Prelude
begin

text \<open>
  Queues kept in ring buffers.  The kernel has four of them (pipes, terminal bytes, input events, queued
  signals).  The contents of a ring are the elements from the read index on; the interface of a bounded queue
  and what a client may rely on are a locale, with the run of any sequence of operations compared with a list.
\<close>

definition ring_contents :: "nat \<Rightarrow> 'a list \<Rightarrow> nat \<Rightarrow> nat \<Rightarrow> 'a list" where
  "ring_contents cap buf start n = map (\<lambda>i. buf ! ((start + i) mod cap)) [0..<n]"

lemma length_ring_contents [simp]: "length (ring_contents cap buf start n) = n"
  by (simp add: ring_contents_def)

lemma ring_contents_0 [simp]: "ring_contents cap buf start 0 = []"
  by (simp add: ring_contents_def)

lemma ring_contents_Cons:
  assumes "start < cap" "n > 0"
  shows "ring_contents cap buf start n = buf ! start # ring_contents cap buf ((start + 1) mod cap) (n - 1)"
proof -
  have "[0..<n] = 0 # map Suc [0..<n - 1]"
    using assms(2) by (metis Suc_pred' map_Suc_upt upt_conv_Cons One_nat_def)
  then show ?thesis
    using assms(1) by (simp add: ring_contents_def comp_def mod_simps)
qed

lemma take_ring_contents: "m \<le> n \<Longrightarrow> take m (ring_contents cap buf start n) = ring_contents cap buf start m"
  by (simp add: ring_contents_def take_map take_upt)

lemma drop_ring_contents: "drop m (ring_contents cap buf start n) = ring_contents cap buf ((start + m) mod cap) (n - m)"
  by (rule nth_equalityI) (auto simp: ring_contents_def mod_simps add.assoc)

lemma mod_add_inj:
  fixes cap :: nat
  assumes "i < n" "n < cap"
  shows "(start + i) mod cap \<noteq> (start + n) mod cap"
proof
  assume "(start + i) mod cap = (start + n) mod cap"
  then have "cap dvd (start + n) - (start + i)"
    using assms by (metis mod_eq_dvd_iff_nat add_le_cancel_left less_imp_le)
  then have "cap dvd n - i" by simp
  then show False using assms by (auto dest: dvd_imp_le)
qed

lemma ring_contents_put:
  assumes "n < cap" "length buf = cap"
  shows "ring_contents cap (buf[(start + n) mod cap := x]) start (n + 1) = ring_contents cap buf start n @ [x]"
proof -
  have "cap > 0" using assms by simp
  have "buf[(start + n) mod cap := x] ! ((start + i) mod cap) = buf ! ((start + i) mod cap)" if "i < n" for i
    using mod_add_inj [OF that assms(1), of start, THEN not_sym] by simp
  moreover have "buf[(start + n) mod cap := x] ! ((start + n) mod cap) = x"
    using assms \<open>cap > 0\<close> by simp
  ultimately show ?thesis by (simp add: ring_contents_def)
qed

text \<open>The number of elements between the read and the write index of a ring that keeps one slot empty.\<close>

definition ring_count :: "nat \<Rightarrow> nat \<Rightarrow> nat \<Rightarrow> nat" where
  "ring_count cap read_index write_index = (write_index + (cap - read_index)) mod cap"

lemma ring_count_less: "cap > 0 \<Longrightarrow> ring_count cap r w < cap"
  by (simp add: ring_count_def)

lemma ring_count_write:
  assumes "r < cap" "w < cap"
  shows "(r + ring_count cap r w) mod cap = w"
proof -
  have "(r + (w + (cap - r)) mod cap) mod cap = (r + (w + (cap - r))) mod cap" by (simp add: mod_simps)
  also have "r + (w + (cap - r)) = w + cap" using assms by simp
  finally show ?thesis using assms by (simp add: ring_count_def)
qed

lemma ring_count_0_iff:
  assumes "r < cap" "w < cap"
  shows "ring_count cap r w = 0 \<longleftrightarrow> r = w"
  using ring_count_write [OF assms] assms by (auto simp: ring_count_def)

lemma ring_count_advance_write:
  assumes "r < cap" "w < cap" "(w + 1) mod cap \<noteq> r"
  shows "ring_count cap r ((w + 1) mod cap) = ring_count cap r w + 1" and "ring_count cap r w + 1 < cap"
proof -
  have "ring_count cap r w + 1 \<noteq> cap"
  proof
    assume "ring_count cap r w + 1 = cap"
    then have "(r + ring_count cap r w + 1) mod cap = r mod cap"
      by (metis add.assoc mod_add_self2)
    moreover have "(r + ring_count cap r w + 1) mod cap = (w + 1) mod cap"
      using ring_count_write [OF assms(1,2)] by (metis mod_add_left_eq)
    ultimately show False using assms by simp
  qed
  then show less: "ring_count cap r w + 1 < cap"
    using ring_count_less [of cap r w] assms(1) by linarith
  have "ring_count cap r ((w + 1) mod cap) = ((w + 1) mod cap + (cap - r)) mod cap"
    by (simp add: ring_count_def)
  also have "\<dots> = ((w + (cap - r)) mod cap + 1) mod cap"
    by (simp add: mod_simps)
  also have "\<dots> = ring_count cap r w + 1" using less by (simp add: ring_count_def)
  finally show "ring_count cap r ((w + 1) mod cap) = ring_count cap r w + 1" .
qed

lemma ring_count_full:
  assumes "r < cap" "w < cap" "(w + 1) mod cap = r"
  shows "ring_count cap r w + 1 = cap"
proof -
  have "cap > 0" using assms by simp
  have "(ring_count cap r w + 1) mod cap = 0"
  proof -
    have "(r + (ring_count cap r w + 1)) mod cap = r mod cap"
      using ring_count_write [OF assms(1,2)] assms by (metis add.assoc mod_add_left_eq mod_less)
    then have "cap dvd (r + (ring_count cap r w + 1)) - r" by (metis mod_eq_dvd_iff_nat le_add1)
    then show ?thesis by simp
  qed
  moreover have "ring_count cap r w + 1 \<le> cap" using ring_count_less [OF \<open>cap > 0\<close>, of r w] by simp
  ultimately show ?thesis by (metis One_nat_def add_is_0 le_neq_implies_less mod_less one_neq_zero)
qed

lemma ring_count_advance_read:
  assumes "r < cap" "w < cap" "r \<noteq> w"
  shows "ring_count cap ((r + 1) mod cap) w = ring_count cap r w - 1"
proof -
  let ?n = "ring_count cap r w"
  have pos: "?n > 0" using ring_count_0_iff [OF assms(1,2)] assms(3) by simp
  have r': "(r + 1) mod cap < cap" using assms(1) by simp
  have "((r + 1) mod cap + (?n - 1)) mod cap = w"
  proof -
    have "r + 1 + (?n - 1) = r + ?n" using pos by simp
    then show ?thesis using ring_count_write [OF assms(1,2)] by (metis mod_add_left_eq)
  qed
  moreover have "((r + 1) mod cap + ring_count cap ((r + 1) mod cap) w) mod cap = w"
    by (rule ring_count_write [OF r' assms(2)])
  moreover have "?n - 1 < cap" "ring_count cap ((r + 1) mod cap) w < cap"
    using ring_count_less [of cap r w] ring_count_less [of cap "(r + 1) mod cap" w] assms(1) by auto
  ultimately show ?thesis
    by (metis mod_add_inj linorder_neqE_nat)
qed

subsection \<open>Bounded queues\<close>

text \<open>A sequence of operations, \<open>Some x\<close> an insertion and \<open>None\<close> a removal, on a queue and on a list.\<close>

fun queue_run :: "('a \<Rightarrow> 'q \<Rightarrow> 'q) \<Rightarrow> ('q \<Rightarrow> 'a option \<times> 'q) \<Rightarrow> 'a option list \<Rightarrow> 'q \<Rightarrow> 'a option list \<times> 'q" where
  "queue_run put get [] q = ([], q)"
| "queue_run put get (Some x # ops) q = queue_run put get ops (put x q)"
| "queue_run put get (None # ops) q = (let (r, q) = get q; (rs, q) = queue_run put get ops q in (r # rs, q))"

fun list_run :: "nat \<Rightarrow> 'a option list \<Rightarrow> 'a list \<Rightarrow> 'a option list \<times> 'a list" where
  "list_run limit [] xs = ([], xs)"
| "list_run limit (Some x # ops) xs = list_run limit ops (if length xs < limit then xs @ [x] else xs)"
| "list_run limit (None # ops) xs =
     (let (rs, ys) = list_run limit ops (tl xs) in ((if xs = [] then None else Some (hd xs)) # rs, ys))"

locale bounded_queue =
  fixes put :: "'a \<Rightarrow> 'q \<Rightarrow> 'q"
    and get :: "'q \<Rightarrow> 'a option \<times> 'q"
    and contents :: "'q \<Rightarrow> 'a list"
    and good :: "'q \<Rightarrow> bool"
    and limit :: nat
  assumes good_put: "good q \<Longrightarrow> good (put x q)"
    and contents_put: "good q \<Longrightarrow> contents (put x q) = (if length (contents q) < limit then contents q @ [x] else contents q)"
    and good_get: "good q \<Longrightarrow> good (snd (get q))"
    and get_empty: "good q \<Longrightarrow> contents q = [] \<Longrightarrow> get q = (None, q)"
    and get_head: "good q \<Longrightarrow> contents q = x # xs \<Longrightarrow> fst (get q) = Some x \<and> contents (snd (get q)) = xs"
begin

lemma get_contents:
  assumes "good q"
  shows "fst (get q) = (if contents q = [] then None else Some (hd (contents q)))"
    and "contents (snd (get q)) = tl (contents q)"
  using get_empty [OF assms] get_head [OF assms] by (cases "contents q"; simp)+

lemma run_good: "good q \<Longrightarrow> good (snd (queue_run put get ops q))"
proof (induction ops arbitrary: q)
  case (Cons a ops)
  then show ?case by (cases a) (simp_all add: good_put good_get split_beta)
qed simp

text \<open>Whatever is done to the queue, every element comes out exactly as from the list: in order, none lost,
  none twice, and a full queue refuses.\<close>

lemma run_refines:
  "good q \<Longrightarrow> fst (queue_run put get ops q) = fst (list_run limit ops (contents q))
      \<and> contents (snd (queue_run put get ops q)) = snd (list_run limit ops (contents q))"
proof (induction ops arbitrary: q)
  case (Cons a ops)
  show ?case
  proof (cases a)
    case None
    then show ?thesis
      using Cons.IH [OF good_get [OF Cons.prems]] get_contents [OF Cons.prems] by (simp add: split_beta)
  next
    case (Some x)
    then show ?thesis using Cons.IH [OF good_put [OF Cons.prems]] contents_put [OF Cons.prems] by simp
  qed
qed simp

end

end
