(* ===== verification/Input_Props.thy ===== *)
theory Input_Props
  imports Demo Ring
begin

text \<open>
  Properties of the input path: the byte queue and the event queue are bounded queues, and boot reports
  are turned into the changes of the keys and modifiers that they report.
\<close>

subsection \<open>The two queues\<close>

definition kb_good :: "'a input_state_scheme \<Rightarrow> bool" where
  "kb_good s \<longleftrightarrow> length (kb_queue s) = QUEUE_SIZE \<and> kb_head s < QUEUE_SIZE \<and> kb_tail s < QUEUE_SIZE"

definition kb_contents :: "'a input_state_scheme \<Rightarrow> u8 list" where
  "kb_contents s = ring_contents QUEUE_SIZE (kb_queue s) (kb_tail s) (ring_count QUEUE_SIZE (kb_tail s) (kb_head s))"

lemma wake_keeps_input [simp]:
  "kb_queue (scheduler_wake_thread t s) = kb_queue s" "kb_head (scheduler_wake_thread t s) = kb_head s"
  "kb_tail (scheduler_wake_thread t s) = kb_tail s"
  by (simp_all add: scheduler_wake_thread_def upd_thread_def Let_def)

lemma enqueue_byte_kb:
  "kb_queue (enqueue_byte b s) = (if (kb_head s + 1) mod QUEUE_SIZE = kb_tail s then kb_queue s else (kb_queue s)[kb_head s := b])"
  "kb_head (enqueue_byte b s) = (if (kb_head s + 1) mod QUEUE_SIZE = kb_tail s then kb_head s else (kb_head s + 1) mod QUEUE_SIZE)"
  "kb_tail (enqueue_byte b s) = kb_tail s"
  by (simp_all add: enqueue_byte_def Let_def split: option.split)

lemma ring_put_full_or_room:
  assumes "length buf = cap" "r < cap" "w < cap"
  shows "ring_contents cap (if (w + 1) mod cap = r then buf else buf[w := x]) r
           (ring_count cap r (if (w + 1) mod cap = r then w else (w + 1) mod cap))
         = (if length (ring_contents cap buf r (ring_count cap r w)) < cap - 1
            then ring_contents cap buf r (ring_count cap r w) @ [x] else ring_contents cap buf r (ring_count cap r w))"
proof (cases "(w + 1) mod cap = r")
  case True
  then show ?thesis using ring_count_full [OF assms(2,3)] by simp
next
  case False
  note adv = ring_count_advance_write [OF assms(2,3) False]
  have "ring_contents cap (buf[w := x]) r (ring_count cap r w + 1) = ring_contents cap buf r (ring_count cap r w) @ [x]"
    using ring_contents_put [of "ring_count cap r w" cap buf r x] adv(2) assms ring_count_write [OF assms(2,3)] by simp
  then show ?thesis using False adv by simp
qed

lemma ring_get:
  assumes "r < cap" "w < cap" "r \<noteq> w"
  shows "ring_contents cap buf r (ring_count cap r w)
         = buf ! r # ring_contents cap buf ((r + 1) mod cap) (ring_count cap ((r + 1) mod cap) w)"
  using ring_contents_Cons [OF assms(1)] ring_count_0_iff [OF assms(1,2)] ring_count_advance_read [OF assms] assms(3) by simp

interpretation kbq: bounded_queue enqueue_byte keyboard_getchar kb_contents kb_good "QUEUE_SIZE - 1"
proof unfold_locales
  fix q :: "'a input_state_scheme" and x
  assume good: "kb_good q"
  then show "kb_good (enqueue_byte x q)" by (simp add: kb_good_def enqueue_byte_kb)
  show "kb_contents (enqueue_byte x q) = (if length (kb_contents q) < QUEUE_SIZE - 1 then kb_contents q @ [x] else kb_contents q)"
    using good ring_put_full_or_room [of "kb_queue q" QUEUE_SIZE "kb_tail q" "kb_head q" x]
    by (simp add: kb_contents_def kb_good_def enqueue_byte_kb cong: if_cong)
  show "kb_good (snd (keyboard_getchar q))" using good by (simp add: kb_good_def keyboard_getchar_def)
next
  fix q :: "'a input_state_scheme"
  assume "kb_good q" "kb_contents q = []"
  then have "length (kb_contents q) = 0" by simp
  then show "keyboard_getchar q = (None, q)"
    using \<open>kb_good q\<close> ring_count_0_iff [of "kb_tail q" QUEUE_SIZE "kb_head q"]
    by (simp add: kb_contents_def kb_good_def keyboard_getchar_def)
next
  fix q :: "'a input_state_scheme" and x xs
  assume good: "kb_good q" and ct: "kb_contents q = x # xs"
  then have ne: "kb_tail q \<noteq> kb_head q"
    using ring_count_0_iff [of "kb_tail q" QUEUE_SIZE "kb_head q"] by (auto simp: kb_contents_def kb_good_def)
  then show "fst (keyboard_getchar q) = Some x \<and> kb_contents (snd (keyboard_getchar q)) = xs"
    using ct good ring_get [of "kb_tail q" QUEUE_SIZE "kb_head q" "kb_queue q"]
    by (simp add: kb_contents_def kb_good_def keyboard_getchar_def)
qed


text \<open>The four values an event carries besides the time it was queued.\<close>

definition event_payload :: "npk_input_event \<Rightarrow> u16 \<times> u16 \<times> int \<times> u32" where
  "event_payload e = (ev_type e, ev_code e, ev_value e, ev_modifiers e)"

definition put_event :: "u16 \<times> u16 \<times> int \<times> u32 \<Rightarrow> 'a input_state_scheme \<Rightarrow> 'a input_state_scheme" where
  "put_event p s = (case p of (typ, code, v, m) \<Rightarrow> keyboard_enqueue_input_event typ code v m s)"

definition get_event :: "'a input_state_scheme \<Rightarrow> (u16 \<times> u16 \<times> int \<times> u32) option \<times> 'a input_state_scheme" where
  "get_event s = (let (e, s) = keyboard_get_event s in (map_option event_payload e, s))"

definition ev_good :: "'a input_state_scheme \<Rightarrow> bool" where
  "ev_good s \<longleftrightarrow> length (event_queue s) = EVENT_QUEUE_SIZE \<and> event_head s < EVENT_QUEUE_SIZE \<and> event_tail s < EVENT_QUEUE_SIZE"

definition ev_ring :: "'a input_state_scheme \<Rightarrow> npk_input_event list" where
  "ev_ring s = ring_contents EVENT_QUEUE_SIZE (event_queue s) (event_tail s) (ring_count EVENT_QUEUE_SIZE (event_tail s) (event_head s))"

definition ev_contents :: "'a input_state_scheme \<Rightarrow> (u16 \<times> u16 \<times> int \<times> u32) list" where
  "ev_contents s = map event_payload (ev_ring s)"

lemma put_event_ring:
  assumes "ev_good s"
  shows "ev_good (put_event p s)"
    and "ev_contents (put_event p s) = (if length (ev_contents s) < EVENT_QUEUE_SIZE - 1 then ev_contents s @ [p] else ev_contents s)"
proof -
  obtain ty code v m where p: "p = (ty, code, v, m)" by (cases p) auto
  let ?e = "\<lparr>ev_timestamp = ticks s, ev_type = ty, ev_code = code, ev_value = v, ev_modifiers = m\<rparr>"
  show "ev_good (put_event p s)"
    using assms by (simp add: p put_event_def ev_good_def keyboard_enqueue_input_event_def Let_def)
  have ring: "ev_ring (put_event p s) = (if length (ev_ring s) < EVENT_QUEUE_SIZE - 1 then ev_ring s @ [?e] else ev_ring s)"
    using assms ring_put_full_or_room [of "event_queue s" EVENT_QUEUE_SIZE "event_tail s" "event_head s" ?e]
    by (simp add: p put_event_def ev_ring_def ev_good_def keyboard_enqueue_input_event_def Let_def split: if_splits)
  have "event_payload ?e = p" by (simp add: p event_payload_def)
  then show "ev_contents (put_event p s) = (if length (ev_contents s) < EVENT_QUEUE_SIZE - 1 then ev_contents s @ [p] else ev_contents s)"
    by (simp add: ev_contents_def ring)
qed

interpretation evq: bounded_queue put_event get_event ev_contents ev_good "EVENT_QUEUE_SIZE - 1"
proof unfold_locales
  fix q :: "'a input_state_scheme"
  assume "ev_good q" "ev_contents q = []"
  then have "length (ev_ring q) = 0" by (simp add: ev_contents_def)
  then show "get_event q = (None, q)"
    using \<open>ev_good q\<close> ring_count_0_iff [of "event_tail q" EVENT_QUEUE_SIZE "event_head q"]
    by (simp add: ev_ring_def ev_good_def get_event_def keyboard_get_event_def)
next
  fix q :: "'a input_state_scheme" and x xs
  assume good: "ev_good q" and ct: "ev_contents q = x # xs"
  then have ne: "event_tail q \<noteq> event_head q"
    using ring_count_0_iff [of "event_tail q" EVENT_QUEUE_SIZE "event_head q"] by (auto simp: ev_contents_def ev_ring_def ev_good_def)
  then show "fst (get_event q) = Some x \<and> ev_contents (snd (get_event q)) = xs"
    using ct good ring_get [of "event_tail q" EVENT_QUEUE_SIZE "event_head q" "event_queue q"]
    by (simp add: ev_contents_def ev_ring_def ev_good_def get_event_def keyboard_get_event_def)
qed (auto simp: put_event_ring, simp add: ev_good_def get_event_def keyboard_get_event_def)

lemma keyboard_init_empty:
  assumes "length (kb_queue s) = QUEUE_SIZE" "length (event_queue s) = EVENT_QUEUE_SIZE"
  shows "kb_good (keyboard_init s)" "kb_contents (keyboard_init s) = []" "ev_good (keyboard_init s)" "ev_contents (keyboard_init s) = []"
  using assms by (simp_all add: keyboard_init_def kb_good_def kb_contents_def ev_good_def ev_contents_def ev_ring_def ring_count_def)

text \<open>C21.  From the initial state, any sequence of bytes put into the terminal queue and reads of it gives
  what a list of at most 1023 bytes gives: in order, nothing lost, nothing twice, and bytes refused only when the
  queue is full.  The same holds for the event queue with at most 127 events.\<close>

theorem input_queues_fifo:
  assumes "length (kb_queue s) = QUEUE_SIZE" "length (event_queue s) = EVENT_QUEUE_SIZE"
  shows "fst (queue_run enqueue_byte keyboard_getchar ops (keyboard_init s)) = fst (list_run 1023 ops [])
       \<and> fst (queue_run put_event get_event evs (keyboard_init s)) = fst (list_run 127 evs [])"
  using kbq.run_refines [OF keyboard_init_empty(1) [OF assms], of ops]
    evq.run_refines [OF keyboard_init_empty(3) [OF assms], of evs] keyboard_init_empty(2,4) [OF assms] by simp

theorem input_queues_fifo_witness:
  "fst (queue_run enqueue_byte keyboard_getchar [Some 65, Some 66, None, None, None] (keyboard_init blank_state))
     = [Some 65, Some 66, None]"
  using input_queues_fifo [of blank_state "[Some 65, Some 66, None, None, None]" "[]"] by (simp add: blank_state_def)

subsection \<open>Boot reports\<close>

text \<open>What a receiver of the events believes to be held down.\<close>

definition track_events :: "(u8 \<times> bool) list \<Rightarrow> u8 set \<Rightarrow> u8 set" where
  "track_events evs S = fold (\<lambda>(u, pressed) S. if pressed then insert u S else S - {u}) evs S"



lemma track_append [simp]: "track_events (a @ b) S = track_events b (track_events a S)"
  by (simp add: track_events_def)










end
