(* ===== verification/Frames.thy ===== *)
theory Frames
  imports Vfs_Ops Heap_Inv
begin

text \<open>
  What the lower layers leave alone.  The kernel state is one record that each layer extends; an operation of
  a layer changes the fields of that layer and below only, so the rest of the record is the same before and
  after.  The collection \<open>npk_frame\<close> holds these facts.
\<close>

lemma merge_more [simp]: "heap_state.more (merge_with_next b s) = heap_state.more s"
  by (simp add: merge_with_next_def Let_def)

lemma kfree_more [npk_frame]: "heap_state.more (kfree p s) = heap_state.more s"
  by (simp add: kfree_def Let_def)

lemma free_pages_more [npk_frame]: "heap_state.more (fold pmm_free_page ps s) = heap_state.more s"
proof (induction ps arbitrary: s)
  case (Cons p ps)
  show ?case using Cons [of "pmm_free_page p s"] heap_fields_more(7) [OF free_phys(4), of p s] by simp
qed simp

text \<open>From the rest of the heap record to the fields above it.\<close>

lemma vfs_fields_more:
  assumes "heap_state.more s = heap_state.more t"
  shows "files s = files t" "file_count s = file_count t" "pipes s = pipes t" "epolls s = epolls t" "shms s = shms t"
    "persistent_inodes s = persistent_inodes t" "vfs_state.more s = vfs_state.more t"
  using assms by (cases s, cases t, simp)+

lemma vfs_fields_npkfs_more:
  assumes "npkfs_state.more s = npkfs_state.more t"
  shows "files s = files t" "file_count s = file_count t" "pipes s = pipes t" "epolls s = epolls t" "shms s = shms t"
    "vfs_state.more s = vfs_state.more t"
  using assms by (cases s, cases t, simp)+

lemma kfree_vfs [simp]:
  "files (kfree p s) = files s" "file_count (kfree p s) = file_count s" "pipes (kfree p s) = pipes s"
  "epolls (kfree p s) = epolls s" "shms (kfree p s) = shms s" "persistent_inodes (kfree p s) = persistent_inodes s"
  "vfs_state.more (kfree p s) = vfs_state.more s"
  using vfs_fields_more [OF kfree_more [of p s]] by simp_all

lemma free_pages_vfs [simp]:
  "files (fold pmm_free_page ps s) = files s" "pipes (fold pmm_free_page ps s) = pipes s"
  "epolls (fold pmm_free_page ps s) = epolls s" "shms (fold pmm_free_page ps s) = shms s"
  "vfs_state.more (fold pmm_free_page ps s) = vfs_state.more s"
  using vfs_fields_more [OF free_pages_more [of ps s]] by simp_all

lemma io_frame_npkfs: "io_frame s t \<Longrightarrow> npkfs_state.more t = npkfs_state.more s"
  by (auto dest!: io_frameD)

lemma write_sequence_frame: "write_sequence ws s = (ok, t) \<Longrightarrow> io_frame s t"
proof (induction ws arbitrary: s)
  case (Cons w ws)
  obtain lba count bytes where w: "w = (lba, count, bytes)" by (cases w) auto
  obtain r u where u: "ata_write_sectors lba count bytes s = (r, u)" by force
  have "io_frame s u" using u by (rule ata_write_sectors_frame)
  then show ?case using Cons u w by (cases r) (auto intro: io_frame_trans)
qed simp

lemma write_metadata_npkfs [npk_frame]: "npkfs_state.more (snd (persistent_write_metadata s)) = npkfs_state.more s"
  by (auto simp: persistent_write_metadata_def Let_def dest!: write_sequence_frame io_frame_npkfs split: prod.split bool.split)

lemma persistent_sync_npkfs [npk_frame]: "npkfs_state.more (snd (persistent_sync i sz data s)) = npkfs_state.more s"
  by (auto simp: persistent_sync_def Let_def set_inode_def write_metadata_npkfs
      dest!: ata_write_sectors_frame io_frame_npkfs split: prod.split sum.split)

lemma sync_descriptor_npkfs [npk_frame]: "npkfs_state.more (snd (persistent_sync_descriptor fd s)) = npkfs_state.more s"
  by (simp add: persistent_sync_descriptor_def persistent_sync_npkfs Let_def split: option.split)

lemma sync_descriptor_vfs [simp]:
  "files (snd (persistent_sync_descriptor fd s)) = files s" "pipes (snd (persistent_sync_descriptor fd s)) = pipes s"
  "epolls (snd (persistent_sync_descriptor fd s)) = epolls s" "shms (snd (persistent_sync_descriptor fd s)) = shms s"
  "vfs_state.more (snd (persistent_sync_descriptor fd s)) = vfs_state.more s"
  using vfs_fields_npkfs_more [OF sync_descriptor_npkfs [of fd s]] by simp_all

lemma set_vfs [simp]:
  "files (set_file i d s) = (files s)(i := d)" "pipes (set_file i d s) = pipes s" "epolls (set_file i d s) = epolls s"
  "files (set_pipe a p s) = files s" "pipes (set_pipe a p s) = (pipes s)(a := p)" "epolls (set_pipe a p s) = epolls s"
  "files (set_epoll a e s) = files s" "pipes (set_epoll a e s) = pipes s" "epolls (set_epoll a e s) = (epolls s)(a := e)"
  "files (upd_file i f s) = (files s)(i := f (files s i))" "pipes (upd_file i f s) = pipes s" "epolls (upd_file i f s) = epolls s"
  "vfs_state.more (set_file i d s) = vfs_state.more s" "vfs_state.more (set_pipe a p s) = vfs_state.more s"
  "vfs_state.more (set_epoll a e s) = vfs_state.more s" "vfs_state.more (upd_file i f s) = vfs_state.more s"
  by (simp_all add: set_file_def set_pipe_def set_epoll_def upd_file_def)

end
