(* ===== verification/Vfs_Props.thy ===== *)
theory Vfs_Props
  imports Demo Ring Frames
begin

text \<open>
  Properties of the virtual file system: a pipe is a queue of bytes, retaining and closing are inverse, closing
  always returns, and polling returns exactly as long as it does not run round a cycle of epoll sets.
\<close>

subsection \<open>Pipes\<close>

definition pipe_ok :: "pipe_object \<Rightarrow> bool" where
  "pipe_ok p \<longleftrightarrow> length (pipe_buffer p) = PIPE_CAPACITY \<and> pipe_head p < PIPE_CAPACITY \<and> pipe_count p \<le> PIPE_CAPACITY
     \<and> pipe_tail p = (pipe_head p + pipe_count p) mod PIPE_CAPACITY"

definition pipe_contents :: "pipe_object \<Rightarrow> u8 list" where
  "pipe_contents p = ring_contents PIPE_CAPACITY (pipe_buffer p) (pipe_head p) (pipe_count p)"

lemma length_pipe_contents [simp]: "length (pipe_contents p) = pipe_count p"
  by (simp add: pipe_contents_def)

lemma pipe_take_eq:
  assumes "pipe_head p < PIPE_CAPACITY"
  shows "pipe_take n p = (ring_contents PIPE_CAPACITY (pipe_buffer p) (pipe_head p) n,
                          p\<lparr>pipe_head := (pipe_head p + n) mod PIPE_CAPACITY\<rparr>)"
  using assms
proof (induction n arbitrary: p)
  case (Suc n)
  then show ?case
    using Suc.IH [of "p\<lparr>pipe_head := (pipe_head p + 1) mod PIPE_CAPACITY\<rparr>"]
      ring_contents_Cons [of "pipe_head p" PIPE_CAPACITY "Suc n" "pipe_buffer p"]
    by (simp add: Let_def mod_simps add.commute)
qed simp

lemma pipe_ok_advance:
  assumes "pipe_ok p" "m \<le> pipe_count p"
  shows "pipe_ok (p\<lparr>pipe_head := (pipe_head p + m) mod PIPE_CAPACITY, pipe_count := pipe_count p - m\<rparr>)"
proof -
  obtain k where "pipe_count p = m + k" using assms(2) le_Suc_ex by blast
  then show ?thesis using assms(1) by (simp add: pipe_ok_def mod_simps add.assoc)
qed

lemma pipe_put_fields [simp]:
  "pipe_head (pipe_put bs p) = pipe_head p" "pipe_count (pipe_put bs p) = pipe_count p"
  "pipe_readers (pipe_put bs p) = pipe_readers p" "pipe_writers (pipe_put bs p) = pipe_writers p"
  "length (pipe_buffer (pipe_put bs p)) = length (pipe_buffer p)"
  by (induction bs arbitrary: p) simp_all

lemma pipe_put_eq:
  assumes "n + length bs \<le> PIPE_CAPACITY" "length (pipe_buffer p) = PIPE_CAPACITY"
    "pipe_tail p = (pipe_head p + n) mod PIPE_CAPACITY"
  shows "ring_contents PIPE_CAPACITY (pipe_buffer (pipe_put bs p)) (pipe_head p) (n + length bs)
           = ring_contents PIPE_CAPACITY (pipe_buffer p) (pipe_head p) n @ bs
         \<and> pipe_tail (pipe_put bs p) = (pipe_head p + n + length bs) mod PIPE_CAPACITY"
  using assms
proof (induction bs arbitrary: p n)
  case (Cons b bs)
  let ?q = "p\<lparr>pipe_buffer := (pipe_buffer p)[pipe_tail p := b], pipe_tail := (pipe_tail p + 1) mod PIPE_CAPACITY\<rparr>"
  have "ring_contents PIPE_CAPACITY (pipe_buffer ?q) (pipe_head p) (n + 1)
      = ring_contents PIPE_CAPACITY (pipe_buffer p) (pipe_head p) n @ [b]"
    using ring_contents_put [of n PIPE_CAPACITY "pipe_buffer p" "pipe_head p" b] Cons.prems by simp
  moreover have "pipe_tail ?q = (pipe_head ?q + (n + 1)) mod PIPE_CAPACITY"
    using Cons.prems(3) by (simp add: mod_simps)
  ultimately show ?case using Cons.IH [of "n + 1" ?q] Cons.prems by (simp add: add.assoc)
qed simp

text \<open>What the two ends of a pipe promise, on the bytes in flight.\<close>

definition pipe_write_spec :: "nat \<Rightarrow> u8 list \<Rightarrow> u8 list \<Rightarrow> nat result \<times> u8 list" where
  "pipe_write_spec readers bs xs =
     (let n = min (length bs) (PIPE_CAPACITY - length xs)
      in if bs = [] then (Inr 0, xs) else if readers = 0 then (Inl EPIPE, xs)
         else if length xs = PIPE_CAPACITY then (Inl EAGAIN, xs) else (Inr n, xs @ take n bs))"

definition pipe_read_spec :: "nat \<Rightarrow> nat \<Rightarrow> u8 list \<Rightarrow> u8 list result \<times> u8 list" where
  "pipe_read_spec writers n xs =
     (if n = 0 then (Inr [], xs) else if xs = [] then (if writers \<noteq> 0 then Inl EAGAIN else Inr [], [])
      else (Inr (take n xs), drop n xs))"

definition same_but_pipe :: "u64 \<Rightarrow> 'a vfs_state_scheme \<Rightarrow> 'a vfs_state_scheme \<Rightarrow> bool" where
  "same_but_pipe a s s' \<longleftrightarrow> (\<exists>p. s' = set_pipe a p s \<and> pipe_readers p = pipe_readers (pipes s a) \<and> pipe_writers p = pipe_writers (pipes s a))"

lemma same_but_pipe_refl [simp]: "same_but_pipe a s s"
  unfolding same_but_pipe_def by (rule exI [of _ "pipes s a"]) (simp add: set_pipe_def)

lemma pipe_write_refines:
  assumes "fd_open fd s" "fd_is_pipe (the_file fd s)" "fd_pipe (the_file fd s) = a" "a \<noteq> 0" "pipe_ok (pipes s a)"
    "fd_writable (the_file fd s)" "\<not> fd_is_shm (the_file fd s)" "\<not> fd_persistent (the_file fd s)"
  shows "case vfs_write fd (Some bs) (length bs) s of (r, s') \<Rightarrow>
     (r, pipe_contents (pipes s' a)) = pipe_write_spec (pipe_readers (pipes s a)) bs (pipe_contents (pipes s a))
     \<and> pipe_ok (pipes s' a) \<and> same_but_pipe a s s'"
proof -
  let ?p = "pipes s a"
  let ?n = "min (length bs) (PIPE_CAPACITY - pipe_count ?p)"
  let ?q = "(pipe_put (take ?n bs) ?p)\<lparr>pipe_count := pipe_count ?p + ?n\<rparr>"
  have len: "length (take ?n bs) = ?n" by simp
  have le: "pipe_count ?p + ?n \<le> PIPE_CAPACITY" using assms(5) unfolding pipe_ok_def by linarith
  have "ring_contents PIPE_CAPACITY (pipe_buffer (pipe_put (take ?n bs) ?p)) (pipe_head ?p) (pipe_count ?p + ?n)
          = pipe_contents ?p @ take ?n bs
        \<and> pipe_tail (pipe_put (take ?n bs) ?p) = (pipe_head ?p + pipe_count ?p + ?n) mod PIPE_CAPACITY"
    using pipe_put_eq [of "pipe_count ?p" "take ?n bs" ?p] assms(5) le unfolding len pipe_contents_def pipe_ok_def by blast
  then have q: "pipe_contents ?q = pipe_contents ?p @ take ?n bs" "pipe_ok ?q"
    using assms(5) le by (simp_all add: pipe_contents_def pipe_ok_def add.assoc)
  have "same_but_pipe a s (set_pipe a ?q s)"
    unfolding same_but_pipe_def by (intro exI [of _ ?q]) simp
  then show ?thesis
    using assms q by (auto simp: vfs_write_def pipe_write_spec_def Let_def set_pipe_def pipe_ok_def)
qed

lemma pipe_read_refines:
  assumes "fd_open fd s" "fd_is_pipe (the_file fd s)" "fd_pipe (the_file fd s) = a" "a \<noteq> 0" "pipe_ok (pipes s a)"
    "fd_readable (the_file fd s)"
  shows "case vfs_read fd True n s of (r, s') \<Rightarrow>
     (r, pipe_contents (pipes s' a)) = pipe_read_spec (pipe_writers (pipes s a)) n (pipe_contents (pipes s a))
     \<and> pipe_ok (pipes s' a) \<and> same_but_pipe a s s'"
proof -
  let ?p = "pipes s a"
  let ?m = "min n (pipe_count ?p)"
  let ?q = "?p\<lparr>pipe_head := (pipe_head ?p + ?m) mod PIPE_CAPACITY, pipe_count := pipe_count ?p - ?m\<rparr>"
  have ok: "pipe_head ?p < PIPE_CAPACITY" "pipe_count ?p \<le> PIPE_CAPACITY"
    "pipe_tail ?p = (pipe_head ?p + pipe_count ?p) mod PIPE_CAPACITY" "length (pipe_buffer ?p) = PIPE_CAPACITY"
    using assms(5) by (simp_all add: pipe_ok_def)
  have tk: "pipe_take ?m ?p = (take ?m (pipe_contents ?p), ?p\<lparr>pipe_head := (pipe_head ?p + ?m) mod PIPE_CAPACITY\<rparr>)"
    using pipe_take_eq [OF ok(1), of ?m] by (simp add: pipe_contents_def take_ring_contents)
  have "pipe_contents ?q = drop ?m (pipe_contents ?p)"
    by (simp add: pipe_contents_def drop_ring_contents)
  moreover have "pipe_ok ?q" using pipe_ok_advance [OF assms(5), of ?m] by simp
  moreover have "same_but_pipe a s (set_pipe a ?q s)"
    unfolding same_but_pipe_def by (intro exI [of _ ?q]) simp
  moreover have "take ?m (pipe_contents ?p) = take n (pipe_contents ?p)" "drop ?m (pipe_contents ?p) = drop n (pipe_contents ?p)"
    by (simp_all add: min_def)
  moreover have "pipe_contents ?p = [] \<longleftrightarrow> pipe_count ?p = 0" by (metis length_0_conv length_pipe_contents)
  ultimately show ?thesis
    using assms tk by (auto simp: vfs_read_def pipe_read_spec_def Let_def set_pipe_def)
qed


text \<open>C16.  A pipe is a queue of at most 4096 bytes.  Writing appends as many bytes as there is room for and
  reports their number, fails with \<^verbatim>\<open>EAGAIN\<close> when there is no room and with \<^verbatim>\<open>EPIPE\<close> when no reader is left;
  reading removes the oldest bytes, gives end of file when no writer is left and \<^verbatim>\<open>EAGAIN\<close> otherwise.  The ring
  buffer stays consistent and nothing but this pipe changes.\<close>

theorem pipe_is_queue:
  assumes "pipe_ok (pipes s a)" "a \<noteq> 0"
    and "fd_open w s" "fd_is_pipe (the_file w s)" "fd_pipe (the_file w s) = a" "fd_writable (the_file w s)"
    and "\<not> fd_is_shm (the_file w s)" "\<not> fd_persistent (the_file w s)"
    and "fd_open r s" "fd_is_pipe (the_file r s)" "fd_pipe (the_file r s) = a" "fd_readable (the_file r s)"
  shows "(case vfs_write w (Some bs) (length bs) s of (res, s') \<Rightarrow>
            (res, pipe_contents (pipes s' a)) = pipe_write_spec (pipe_readers (pipes s a)) bs (pipe_contents (pipes s a))
            \<and> pipe_ok (pipes s' a) \<and> same_but_pipe a s s')
       \<and> (case vfs_read r True n s of (res, s') \<Rightarrow>
            (res, pipe_contents (pipes s' a)) = pipe_read_spec (pipe_writers (pipes s a)) n (pipe_contents (pipes s a))
            \<and> pipe_ok (pipes s' a) \<and> same_but_pipe a s s')"
  using pipe_write_refines [OF assms(3-5) assms(2,1) assms(6-8), of bs]
    pipe_read_refines [OF assms(9-11) assms(2,1) assms(12), of n] by blast

text \<open>A pipe between descriptors 64 (read end) and 65 (write end) with the byte 7 in it.\<close>

definition pipe_demo :: sys_state where
  "pipe_demo = blank_state\<lparr>files := (\<lambda>_. zero_descriptor)
     (64 := zero_descriptor\<lparr>fd_used := True, fd_refs := 1, fd_is_pipe := True, fd_readable := True, fd_pipe := 16\<rparr>,
      65 := zero_descriptor\<lparr>fd_used := True, fd_refs := 1, fd_is_pipe := True, fd_writable := True, fd_pipe := 16\<rparr>),
     pipes := (\<lambda>_. zero_pipe)(16 := empty_pipe\<lparr>pipe_buffer := (zeros PIPE_CAPACITY)[4095 := 7], pipe_head := 4095,
       pipe_count := 1, pipe_readers := 1, pipe_writers := 1\<rparr>)\<rparr>"

lemma pipe_demo_contents: "pipe_contents (pipes pipe_demo 16) = [7]"
  by (simp add: pipe_demo_def pipe_contents_def ring_contents_def zeros_def)

theorem pipe_is_queue_witness:
  "(case vfs_write 65 (Some [8, 9]) 2 pipe_demo of (res, s') \<Rightarrow> res = Inr 2 \<and> pipe_contents (pipes s' 16) = [7, 8, 9])
   \<and> (case vfs_read 64 True 5 pipe_demo of (res, s') \<Rightarrow> res = Inr [7] \<and> pipe_contents (pipes s' 16) = [])"
proof -
  have "pipe_ok (pipes pipe_demo 16)" "pipe_readers (pipes pipe_demo 16) = 1" "pipe_writers (pipes pipe_demo 16) = 1"
    by (simp_all add: pipe_demo_def pipe_ok_def empty_pipe_def zeros_def)
  moreover have "fd_open 65 pipe_demo" "fd_is_pipe (the_file 65 pipe_demo)" "fd_pipe (the_file 65 pipe_demo) = 16"
    "fd_writable (the_file 65 pipe_demo)" "\<not> fd_is_shm (the_file 65 pipe_demo)" "\<not> fd_persistent (the_file 65 pipe_demo)"
    "fd_open 64 pipe_demo" "fd_is_pipe (the_file 64 pipe_demo)" "fd_pipe (the_file 64 pipe_demo) = 16"
    "fd_readable (the_file 64 pipe_demo)"
    by (simp_all add: pipe_demo_def fd_open_def the_file_def zero_descriptor_def)
  moreover have two: "length [8 :: u8, 9] = 2" by simp
  ultimately show ?thesis
    using pipe_is_queue [of pipe_demo 16 65 64 "[8, 9]" 5, unfolded two]
    by (simp add: pipe_demo_contents pipe_write_spec_def pipe_read_spec_def split_beta)
qed


subsection \<open>Retaining and closing\<close>

text \<open>The descriptors that can still be closed.\<close>

definition live_fds :: "'a vfs_state_scheme \<Rightarrow> nat set" where
  "live_fds s = {i. OPEN_DESCRIPTOR_BASE \<le> i \<and> i < OPEN_DESCRIPTOR_END \<and> fd_used (files s i) \<and> fd_refs (files s i) \<noteq> 0}"

lemma finite_live_fds [simp]: "finite (live_fds s)"
  by (rule finite_subset [of _ "{..<OPEN_DESCRIPTOR_END}"]) (auto simp: live_fds_def)

lemma card_live_fds: "card (live_fds s) \<le> 64"
proof -
  have "live_fds s \<subseteq> {OPEN_DESCRIPTOR_BASE..<OPEN_DESCRIPTOR_END}" by (auto simp: live_fds_def)
  from card_mono [OF _ this] show ?thesis by simp
qed

lemma live_fds_cong: "files t = files s \<Longrightarrow> live_fds t = live_fds s"
  by (simp add: live_fds_def)

lemma live_fds_frame [simp]: "live_fds (kfree p s) = live_fds s" "live_fds (set_epoll a e s) = live_fds s"
  by (rule live_fds_cong, simp)+

lemma pipe_release_vfs [simp]:
  "files (pipe_release d s) = files s" "epolls (pipe_release d s) = epolls s"
  by (simp_all add: pipe_release_def Let_def)

lemma close_rest_live: "live_fds (set_file i zero_descriptor (close_persistent i (close_shm i s))) \<subseteq> live_fds s"
  by (auto simp: live_fds_def close_persistent_def close_shm_def Let_def zero_descriptor_def split: if_splits)

lemma close_watch_live:
  assumes "\<And>fd t. live_fds (close fd t) \<subseteq> live_fds t"
  shows "live_fds (close_watch close i n s) \<subseteq> live_fds s"
  using assms by (simp add: close_watch_def Let_def)

lemma close_watches_live:
  assumes "\<And>fd t. live_fds (close fd t) \<subseteq> live_fds t"
  shows "live_fds (fold (close_watch close i) ns s) \<subseteq> live_fds s"
proof (induction ns arbitrary: s)
  case (Cons n ns)
  show ?case using Cons [of "close_watch close i n s"] close_watch_live [where close = close and i = i and n = n and s = s, OF assms] by auto
qed simp

lemma close_epoll_live:
  assumes "\<And>fd t. live_fds (close fd t) \<subseteq> live_fds t"
  shows "live_fds (close_epoll close i s) \<subseteq> live_fds s"
proof -
  have upd: "live_fds (upd_file i (\<lambda>d. d\<lparr>fd_epoll := 0\<rparr>) t) = live_fds t" for t :: "'a vfs_state_scheme"
    by (auto simp: live_fds_def)
  have "live_fds (if c then let s = fold (close_watch close i) ns s
                       in upd_file i (\<lambda>d. d\<lparr>fd_epoll := 0\<rparr>) (kfree (fd_epoll (files s i)) s) else s) \<subseteq> live_fds s" for c ns
    using close_watches_live [where close = close and i = i and s = s and ns = ns, OF assms] by (simp add: Let_def upd)
  then show ?thesis unfolding close_epoll_def .
qed

text \<open>One step of the recursion: what the descriptor holds is released and, when this was the last
  reference, the watches are closed in a state with one live descriptor less.\<close>

definition drop_reference :: "nat \<Rightarrow> 'a vfs_state_scheme \<Rightarrow> 'a vfs_state_scheme" where
  "drop_reference i s = upd_file i (\<lambda>d. d\<lparr>fd_refs := fd_refs d - 1\<rparr>) (pipe_release (files s i) s)"

definition finish_close :: "nat \<Rightarrow> 'a vfs_state_scheme \<Rightarrow> unit result \<times> 'a vfs_state_scheme" where
  "finish_close i s =
     (let p = fd_pipe (files s i);
          s = set_file i zero_descriptor (close_persistent i (close_shm i s))
      in (Inr (), if p \<noteq> 0 \<and> pipe_readers (pipes s p) = 0 \<and> pipe_writers (pipes s p) = 0 then kfree p s else s))"

lemma close_step_cases:
  "close_step close fd s =
     (if fd = 0 \<or> fd = 1 \<or> fd = 2 then (Inr (), s)
      else if \<not> fd_open fd s \<or> fd_refs (the_file fd s) = 0 then (Inl EBADF, s)
      else if fd_refs (files (drop_reference (nat fd) s) (nat fd)) \<noteq> 0 then (Inr (), drop_reference (nat fd) s)
      else finish_close (nat fd) (close_epoll close (nat fd) (drop_reference (nat fd) s)))"
  by (simp add: close_step_def drop_reference_def finish_close_def Let_def)

lemma drop_reference_live: "live_fds (drop_reference i s) \<subseteq> live_fds s"
  by (auto simp: live_fds_def drop_reference_def split: if_splits)

lemma drop_last_live:
  assumes "fd_open fd s" "fd_refs (the_file fd s) \<noteq> 0" "fd_refs (files (drop_reference (nat fd) s) (nat fd)) = 0"
  shows "card (live_fds (drop_reference (nat fd) s)) < card (live_fds s)"
proof (rule psubset_card_mono)
  have "nat fd \<in> live_fds s" "nat fd \<notin> live_fds (drop_reference (nat fd) s)"
    using assms by (auto simp: live_fds_def fd_open_def the_file_def)
  then show "live_fds (drop_reference (nat fd) s) \<subset> live_fds s" using drop_reference_live [of "nat fd" s] by blast
qed simp

lemma finish_close_live: "live_fds (snd (finish_close i s)) \<subseteq> live_fds s"
  using close_rest_live [of i s] by (auto simp: finish_close_def Let_def)

lemma close_step_live:
  assumes "\<And>fd t. live_fds (close fd t) \<subseteq> live_fds t"
  shows "live_fds (snd (close_step close fd s)) \<subseteq> live_fds s"
proof -
  have "live_fds (snd (finish_close (nat fd) (close_epoll close (nat fd) (drop_reference (nat fd) s)))) \<subseteq> live_fds s"
    by (rule subset_trans [OF finish_close_live subset_trans [OF close_epoll_live [OF assms] drop_reference_live]])
  then show ?thesis using drop_reference_live [of "nat fd" s] by (simp add: close_step_cases)
qed

lemma close_step_shallow:
  "\<not> (fd_open fd s \<and> fd_refs (the_file fd s) \<noteq> 0 \<and> fd_refs (files (drop_reference (nat fd) s) (nat fd)) = 0) \<Longrightarrow>
     close_step c1 fd s = close_step c2 fd s"
  by (auto simp: close_step_cases)

lemma vfs_close_at_live: "live_fds (snd (vfs_close_at n fd s)) \<subseteq> live_fds s"
proof (induction n arbitrary: fd s)
  case 0
  show ?case unfolding vfs_close_at.simps by (rule close_step_live) (simp add: live_fds_def)
next
  case (Suc n)
  show ?case unfolding vfs_close_at.simps by (rule close_step_live) (rule Suc.IH)
qed

lemma close_epoll_cong:
  assumes "\<And>fd t. card (live_fds t) \<le> k \<Longrightarrow> c1 fd t = c2 fd t" "\<And>fd t. live_fds (c1 fd t) \<subseteq> live_fds t" "card (live_fds s) \<le> k"
  shows "close_epoll c1 i s = close_epoll c2 i s"
proof -
  have "fold (close_watch c1 i) ns u = fold (close_watch c2 i) ns u" if "card (live_fds u) \<le> k" for ns u
    using that
  proof (induction ns arbitrary: u)
    case (Cons n ns)
    have same: "close_watch c1 i n u = close_watch c2 i n u"
      using assms(1) [OF Cons.prems] by (simp add: close_watch_def Let_def)
    have "card (live_fds (close_watch c1 i n u)) \<le> k"
      using card_mono [OF finite_live_fds close_watch_live [where close = c1 and i = i and n = n and s = u, OF assms(2)]] Cons.prems by simp
    then show ?case using Cons.IH same by simp
  qed simp
  from this [OF assms(3)] show ?thesis unfolding close_epoll_def by (rule ssubst) (rule refl)
qed

lemma vfs_close_at_enough:
  "card (live_fds s) \<le> n \<Longrightarrow> card (live_fds s) \<le> m \<Longrightarrow> vfs_close_at n fd s = vfs_close_at m fd s"
proof (induction n arbitrary: m fd s)
  case 0
  then have "\<not> (fd_open fd s \<and> fd_refs (the_file fd s) \<noteq> 0 \<and> fd_refs (files (drop_reference (nat fd) s) (nat fd)) = 0)"
    by (auto simp: live_fds_def fd_open_def the_file_def)
  then show ?case by (cases m) (simp_all only: vfs_close_at.simps, rule close_step_shallow, simp)
next
  case (Suc n)
  show ?case
  proof (cases "fd_open fd s \<and> fd_refs (the_file fd s) \<noteq> 0 \<and> fd_refs (files (drop_reference (nat fd) s) (nat fd)) = 0")
    case True
    let ?t = "drop_reference (nat fd) s"
    have less: "card (live_fds ?t) < card (live_fds s)" using True by (intro drop_last_live) auto
    then obtain m' where m: "m = Suc m'" using Suc.prems by (cases m) auto
    let ?k = "card (live_fds ?t)"
    have "close_epoll (\<lambda>fd s. snd (vfs_close_at n fd s)) (nat fd) ?t = close_epoll (\<lambda>fd s. snd (vfs_close_at m' fd s)) (nat fd) ?t"
    proof (rule close_epoll_cong [of ?k])
      fix fd and t :: "'a vfs_state_scheme"
      assume "card (live_fds t) \<le> ?k"
      then show "snd (vfs_close_at n fd t) = snd (vfs_close_at m' fd t)"
        using less Suc.prems m Suc.IH [of t m' fd] by simp
    qed (simp_all add: vfs_close_at_live)
    then show ?thesis unfolding m vfs_close_at.simps close_step_cases by (simp only:)
  next
    case False
    then show ?thesis by (cases m) (simp_all only: vfs_close_at.simps, (rule close_step_shallow, simp)+)
  qed
qed

lemma vfs_close_unfold: "vfs_close fd s = close_step (\<lambda>fd s. snd (vfs_close_at 63 fd s)) fd s"
proof -
  have "vfs_close_at (Suc 63) fd s = close_step (\<lambda>fd s. snd (vfs_close_at 63 fd s)) fd s"
    by (simp only: vfs_close_at.simps)
  then show ?thesis by (simp add: vfs_close_def)
qed

text \<open>The ghost field that marks a recursion without end: nothing closing does to the other fields sets it.\<close>

lemma hung_fields [simp]:
  "hung (set_file i d s) = hung s" "hung (set_pipe a q s) = hung s"
  "hung (set_epoll a e s) = hung s" "hung (upd_file i f s) = hung s"
  by (simp_all add: set_file_def set_pipe_def set_epoll_def upd_file_def)

lemma hung_merge [simp]: "hung (merge_with_next b s) = hung s"
  by (simp add: merge_with_next_def Let_def)

lemma hung_kfree [simp]: "hung (kfree p s) = hung s"
  by (simp add: kfree_def Let_def)

lemma hung_free_pages [simp]: "hung (fold pmm_free_page ps s) = hung s"
  by (induction ps arbitrary: s) simp_all

lemma hung_io_frame: "io_frame s t \<Longrightarrow> hung t = hung s"
  by (auto dest!: io_frameD)

lemma hung_sync [simp]: "hung (snd (persistent_sync_descriptor fd s)) = hung s"
  by (auto simp: persistent_sync_descriptor_def persistent_sync_def persistent_write_metadata_def set_inode_def Let_def
      dest!: ata_write_sectors_frame write_sequence_frame hung_io_frame split: option.split prod.split sum.split bool.split)

lemma hung_close_parts [simp]:
  "hung (pipe_release d s) = hung s" "hung (drop_reference i s) = hung s" "hung (snd (finish_close i s)) = hung s"
  by (simp_all add: pipe_release_def drop_reference_def finish_close_def close_persistent_def close_shm_def Let_def)

lemma close_epoll_hung:
  assumes "\<And>fd t. card (live_fds t) \<le> k \<Longrightarrow> hung (close fd t) = hung t" "\<And>fd t. live_fds (close fd t) \<subseteq> live_fds t"
    "card (live_fds s) \<le> k"
  shows "hung (close_epoll close i s) = hung s"
proof -
  have "hung (fold (close_watch close i) ns u) = hung u" if "card (live_fds u) \<le> k" for ns u
    using that
  proof (induction ns arbitrary: u)
    case (Cons n ns)
    have "hung (close_watch close i n u) = hung u"
      using assms(1) [OF Cons.prems] by (simp add: close_watch_def Let_def)
    moreover have "card (live_fds (close_watch close i n u)) \<le> k"
      using card_mono [OF finite_live_fds close_watch_live [where close = close and i = i and n = n and s = u, OF assms(2)]] Cons.prems by simp
    ultimately show ?case using Cons.IH by simp
  qed simp
  from this [OF assms(3)] show ?thesis by (simp add: close_epoll_def Let_def)
qed

lemma vfs_close_at_hung: "card (live_fds s) \<le> n \<Longrightarrow> hung (snd (vfs_close_at n fd s)) = hung s"
proof (induction n arbitrary: fd s)
  case 0
  then have "\<not> (fd_open fd s \<and> fd_refs (the_file fd s) \<noteq> 0 \<and> fd_refs (files (drop_reference (nat fd) s) (nat fd)) = 0)"
    by (auto simp: live_fds_def fd_open_def the_file_def)
  then show ?case by (auto simp: close_step_cases)
next
  case (Suc n)
  let ?t = "drop_reference (nat fd) s" and ?close = "\<lambda>fd s. snd (vfs_close_at n fd s)"
  have "hung (close_epoll ?close (nat fd) ?t) = hung s"
    if "fd_open fd s" "fd_refs (the_file fd s) \<noteq> 0" "fd_refs (files ?t (nat fd)) = 0"
  proof -
    have "card (live_fds ?t) \<le> n" using drop_last_live [OF that] Suc.prems by simp
    then have "hung (close_epoll ?close (nat fd) ?t) = hung ?t"
      using Suc.IH vfs_close_at_live by (intro close_epoll_hung [of n]) blast+
    then show ?thesis by simp
  qed
  then show ?case by (auto simp: close_step_cases)
qed

lemma vfs_close_at_levels: "vfs_close_at (card (live_fds s) + k) fd s = vfs_close fd s"
  unfolding vfs_close_def using card_live_fds by (intro vfs_close_at_enough) simp_all

text \<open>C17.  Closing returns, although epoll sets may hold references to each other.  The model's
  \<^verbatim>\<open>vfs_close\<close> is a solution of the recursion in the code, in which closing the last reference to an epoll
  set closes every descriptor it watches; it never raises the mark of a recursion that goes deeper than the levels
  allowed; and no call nests deeper than the number of descriptors that still have a reference, whatever the
  watches are.\<close>

theorem vfs_close_returns:
  "vfs_close fd s = close_step (\<lambda>fd s. snd (vfs_close fd s)) fd s
   \<and> hung (snd (vfs_close fd s)) = hung s
   \<and> vfs_close_at (card (live_fds s) + k) fd s = vfs_close fd s"
proof (intro conjI)
  have "vfs_close fd s = vfs_close_at (Suc 64) fd s"
    unfolding vfs_close_def by (rule vfs_close_at_enough) (use card_live_fds [of s] in simp_all)
  then show "vfs_close fd s = close_step (\<lambda>fd s. snd (vfs_close fd s)) fd s"
    unfolding vfs_close_at.simps vfs_close_def .
  show "hung (snd (vfs_close fd s)) = hung s"
    unfolding vfs_close_def by (rule vfs_close_at_hung [OF card_live_fds])
qed (rule vfs_close_at_levels)

lemma same_fields:
  "d\<lparr>fd_refs := fd_refs d\<rparr> = d" "p\<lparr>pipe_readers := pipe_readers p, pipe_writers := pipe_writers p\<rparr> = p"
  for d :: descriptor and p :: pipe_object
  by (cases d, simp) (cases p, simp)

lemma file_pipe_undo:
  "set_file i (files s i) (set_pipe a (pipes s a) (set_pipe a p (set_file i d s))) = s"
  "set_file i (files s i) (set_file i d s) = s"
  by (cases s, simp add: set_file_def set_pipe_def)+

lemma retain_drop:
  assumes "vfs_retain fd s = (Inr (), s')" "fd \<noteq> 0" "fd \<noteq> 1" "fd \<noteq> 2"
  shows "drop_reference (nat fd) s' = s"
proof -
  let ?i = "nat fd" and ?d = "files s (nat fd)"
  let ?a = "fd_pipe ?d"
  let ?p = "pipes s ?a"
  let ?e = "?d\<lparr>fd_refs := fd_refs ?d + 1\<rparr>"
  let ?q = "?p\<lparr>pipe_readers := pipe_readers ?p + (if fd_readable ?d then 1 else 0),
                pipe_writers := pipe_writers ?p + (if fd_writable ?d then 1 else 0)\<rparr>"
  have s': "s' = (if fd_is_pipe ?d \<and> ?a \<noteq> 0 then set_pipe ?a ?q (set_file ?i ?e s) else set_file ?i ?e s)"
    using assms by (auto simp only: vfs_retain_def Let_def the_file_def set_vfs prod.inject split: if_splits)
  show ?thesis
  proof (cases "fd_is_pipe ?d \<and> ?a \<noteq> 0")
    case True
    then have s': "s' = set_pipe ?a ?q (set_file ?i ?e s)" by (simp add: s')
    have "pipe_release (files s' ?i) s' = set_pipe ?a ?p s'"
      using True by (simp add: s' pipe_release_def Let_def same_fields)
    then show ?thesis using file_pipe_undo(1) [of ?i s ?a ?q ?e] by (simp add: drop_reference_def upd_file_def s' same_fields)
  next
    case False
    then have s': "s' = set_file ?i ?e s" by (auto simp: s')
    have "pipe_release (files s' ?i) s' = s'" using False by (auto simp: s' pipe_release_def)
    then show ?thesis using file_pipe_undo(2) [of ?i s ?e] by (simp add: drop_reference_def upd_file_def s' same_fields)
  qed
qed

text \<open>C18.  \<^verbatim>\<open>vfs_retain\<close> succeeds on the three standard descriptors and on every open descriptor whose count
  is not saturated; on every other number it returns \<^verbatim>\<open>EBADF\<close> and changes nothing.  A reference it has taken on a
  descriptor that had one already is given back by \<^verbatim>\<open>vfs_close\<close>, which leaves the file system exactly as it was,
  the reader and writer counts of a pipe included.\<close>

theorem vfs_retain_close:
  "case vfs_retain fd s of
     (Inr _, s') \<Rightarrow> (fd \<in> {0, 1, 2} \<or> fd_open fd s \<and> fd_refs (the_file fd s) \<noteq> unat UINT32_MAX)
        \<and> (fd \<in> {0, 1, 2} \<or> fd_refs (the_file fd s) \<noteq> 0 \<longrightarrow> vfs_close fd s' = (Inr (), s))
   | (Inl e, s') \<Rightarrow> e = EBADF \<and> s' = s \<and> fd \<notin> {0, 1, 2}
        \<and> (\<not> fd_open fd s \<or> fd_refs (the_file fd s) = unat UINT32_MAX)"
proof (cases "fd = 0 \<or> fd = 1 \<or> fd = 2")
  case True
  then show ?thesis by (auto simp: vfs_retain_def vfs_close_unfold close_step_cases)
next
  case False
  let ?d = "the_file fd s" and ?i = "nat fd"
  show ?thesis
  proof (cases "fd_open fd s \<and> fd_refs ?d \<noteq> unat UINT32_MAX")
    case True
    define s' where "s' = snd (vfs_retain fd s)"
    have ret: "vfs_retain fd s = (Inr (), s')"
      using True False by (auto simp: s'_def vfs_retain_def Let_def)
    have upd: "files s' = (files s)(?i := ?d\<lparr>fd_refs := fd_refs ?d + 1\<rparr>)"
      using True False by (auto simp: s'_def vfs_retain_def Let_def)
    have "fd_open fd s'" "the_file fd s' = ?d\<lparr>fd_refs := fd_refs ?d + 1\<rparr>"
      using True by (auto simp: fd_open_def the_file_def upd)
    moreover have "drop_reference ?i s' = s"
      using retain_drop [OF ret] False by simp
    ultimately have "vfs_close fd s' = (Inr (), s)" if "fd_refs ?d \<noteq> 0"
      using that False by (simp add: vfs_close_unfold close_step_cases the_file_def)
    then show ?thesis using ret True False by simp
  next
    case 2: False
    then show ?thesis using False by (auto simp: vfs_retain_def)
  qed
qed

theorem vfs_retain_close_witness:
  "(\<exists>s'. vfs_retain 65 pipe_demo = (Inr (), s') \<and> vfs_close 65 s' = (Inr (), pipe_demo))
   \<and> vfs_retain 66 pipe_demo = (Inl EBADF, pipe_demo)"
proof -
  have "fd_open 65 pipe_demo" "fd_refs (the_file 65 pipe_demo) = 1" "\<not> fd_open 66 pipe_demo"
    by (simp_all add: pipe_demo_def the_file_def fd_open_def zero_descriptor_def)
  note open_facts = this
  obtain r t where rt: "vfs_retain 65 pipe_demo = (r, t)" by force
  have "r = Inr () \<and> vfs_close 65 t = (Inr (), pipe_demo)"
    using vfs_retain_close [where fd = 65 and s = pipe_demo] open_facts(1,2) by (cases r) (simp_all add: rt)
  moreover obtain q u where qu: "vfs_retain 66 pipe_demo = (q, u)" by force
  have "q = Inl EBADF \<and> u = pipe_demo"
    using vfs_retain_close [where fd = 66 and s = pipe_demo] open_facts(3) by (cases q) (simp_all add: qu)
  ultimately show ?thesis using rt qu by simp
qed


subsection \<open>Polling\<close>

lemma epoll_ready_mono:
  assumes "\<And>fd ev r. p fd ev = Some r \<Longrightarrow> q fd ev = Some r" "epoll_ready p ws = Some r"
  shows "epoll_ready q ws = Some r"
  using assms(2)
proof (induction ws)
  case (Cons w ws)
  then show ?case using assms(1) by (auto split: if_splits option.splits)
qed simp

lemma poll_step_mono:
  assumes "\<And>fd ev r. p fd ev = Some r \<Longrightarrow> q fd ev = Some r" "poll_step p kbd fd req s = Some r"
  shows "poll_step q kbd fd req s = Some r"
  using assms(2) epoll_ready_mono [OF assms(1)]
  by (auto simp: poll_step_def Let_def split: if_splits)

lemma vfs_poll_events_mono: "vfs_poll_events n kbd fd req s = Some r \<Longrightarrow> vfs_poll_events (Suc n) kbd fd req s = Some r"
proof (induction n arbitrary: fd req r)
  case (Suc n)
  show ?case
    unfolding vfs_poll_events.simps(2) [of "Suc n"]
    by (rule poll_step_mono [OF _ Suc.prems [unfolded vfs_poll_events.simps(2)]]) (rule Suc.IH)
qed simp

text \<open>The descriptors a given number of levels does not settle; the mask asked for plays no role.\<close>

definition unsettled :: "nat \<Rightarrow> bool \<Rightarrow> 'a vfs_state_scheme \<Rightarrow> int set" where
  "unsettled n kbd s = {fd. vfs_poll_events n kbd fd 0 s = None}"

lemma unsettled_iff: "vfs_poll_events n kbd fd req s = None \<longleftrightarrow> fd \<in> unsettled n kbd s"
  by (cases n) (auto simp: unsettled_def poll_step_def Let_def)

lemma unsettled_antimono: "unsettled (Suc n) kbd s \<subseteq> unsettled n kbd s"
proof
  fix fd assume "fd \<in> unsettled (Suc n) kbd s"
  then have "vfs_poll_events (Suc n) kbd fd 0 s = None" by (simp only: unsettled_iff)
  then have "vfs_poll_events n kbd fd 0 s = None" using vfs_poll_events_mono [of n kbd fd 0 s] by (metis not_None_eq)
  then show "fd \<in> unsettled n kbd s" by (simp only: unsettled_iff)
qed

lemma unsettled_first: "unsettled (Suc n) kbd s \<subseteq> int ` {OPEN_DESCRIPTOR_BASE..<OPEN_DESCRIPTOR_END}"
proof
  fix fd assume "fd \<in> unsettled (Suc n) kbd s"
  then have "fd_open fd s" by (auto simp: unsettled_def poll_step_def split: if_splits)
  then have "fd = int (nat fd) \<and> nat fd \<in> {OPEN_DESCRIPTOR_BASE..<OPEN_DESCRIPTOR_END}" by (auto simp: fd_open_def)
  then show "fd \<in> int ` {OPEN_DESCRIPTOR_BASE..<OPEN_DESCRIPTOR_END}" by (metis image_eqI)
qed

lemma unsettled_stable:
  assumes "unsettled (Suc n) kbd s = unsettled n kbd s"
  shows "vfs_poll_events (Suc n) kbd fd req s = vfs_poll_events n kbd fd req s"
proof (cases "vfs_poll_events n kbd fd req s")
  case None
  then show ?thesis using assms unsettled_iff by metis
next
  case (Some r)
  then show ?thesis using vfs_poll_events_mono by metis
qed

lemma unsettled_stays:
  assumes "unsettled (Suc n) kbd s = unsettled n kbd s"
  shows "vfs_poll_events (n + k) kbd fd req s = vfs_poll_events n kbd fd req s"
proof (induction k arbitrary: fd req)
  case (Suc k)
  have "vfs_poll_events (n + Suc k) kbd fd req s = vfs_poll_events (Suc n) kbd fd req s" by (simp add: Suc.IH)
  also have "\<dots> = vfs_poll_events n kbd fd req s" by (rule unsettled_stable [OF assms])
  finally show ?case .
qed simp

text \<open>A descending chain of subsets of a finite set is constant from some point on, no later than the size
  of the set.\<close>

lemma chain_stabilises:
  fixes C :: "nat \<Rightarrow> 'b set"
  assumes "\<And>n. C (Suc n) \<subseteq> C n" "finite (C 0)"
  shows "\<exists>n \<le> card (C 0). C (Suc n) = C n"
proof (rule ccontr)
  assume "\<not> ?thesis"
  then have strict: "C (Suc n) \<subset> C n" if "n \<le> card (C 0)" for n using assms(1) that by blast
  have fin: "finite (C n)" for n by (induction n) (auto intro: assms finite_subset [OF assms(1)])
  have "card (C n) + n \<le> card (C 0)" if "n \<le> Suc (card (C 0))" for n
    using that
  proof (induction n)
    case (Suc n)
    then show ?case using psubset_card_mono [OF fin strict, of n] by simp
  qed simp
  from this [of "Suc (card (C 0))"] show False by simp
qed

lemma unsettled_settles: "\<exists>n \<le> 65. unsettled (Suc n) kbd s = unsettled n kbd s"
proof -
  let ?C = "\<lambda>n. unsettled (Suc n) kbd s"
  have fin: "finite (?C 0)" by (rule finite_subset [OF unsettled_first]) simp
  have "card (?C 0) \<le> card (int ` {OPEN_DESCRIPTOR_BASE..<OPEN_DESCRIPTOR_END})"
    by (rule card_mono [OF _ unsettled_first]) simp
  also have "\<dots> = 64" by (subst card_image) simp_all
  finally have le: "card (?C 0) \<le> 64" .
  obtain n where "n \<le> card (?C 0)" "?C (Suc n) = ?C n" using chain_stabilises [of ?C, OF unsettled_antimono fin] by blast
  then show ?thesis using le by (intro exI [of _ "Suc n"]) simp
qed

text \<open>Nesting the recursion deeper than the levels the system calls allow does not change the answer.\<close>

lemma vfs_poll_levels:
  assumes "POLL_LEVELS \<le> n"
  shows "vfs_poll_events n kbd fd req s = vfs_poll_events POLL_LEVELS kbd fd req s"
proof -
  obtain m where m: "m \<le> 65" "unsettled (Suc m) kbd s = unsettled m kbd s" using unsettled_settles by blast
  have "vfs_poll_events (m + k) kbd fd req s = vfs_poll_events m kbd fd req s" for k by (rule unsettled_stays [OF m(2)])
  from this [of "n - m"] this [of "POLL_LEVELS - m"] show ?thesis using assms m(1) by (simp add: POLL_LEVELS_def)
qed

lemma vfs_poll_fixpoint:
  "vfs_poll_events POLL_LEVELS kbd fd req s = poll_step (\<lambda>fd ev. vfs_poll_events POLL_LEVELS kbd fd ev s) kbd fd req s"
  using vfs_poll_levels [of "Suc POLL_LEVELS" kbd fd req s] by simp

text \<open>Which descriptors the open epoll sets watch: the pairs of a watched descriptor and a set.\<close>

definition watch_edges :: "'a vfs_state_scheme \<Rightarrow> (int \<times> int) set" where
  "watch_edges s = {(watch_fd w, fd) | w fd. fd_open fd s \<and> fd_is_epoll (the_file fd s) \<and> fd_epoll (the_file fd s) \<noteq> 0
     \<and> w \<in> set (epolls s (fd_epoll (the_file fd s))) \<and> watch_used w}"

lemma finite_watch_edges: "finite (watch_edges s)"
proof (rule finite_subset)
  show "watch_edges s \<subseteq> (\<Union>fd \<in> int ` {OPEN_DESCRIPTOR_BASE..<OPEN_DESCRIPTOR_END}.
      (\<lambda>w. (watch_fd w, fd)) ` set (epolls s (fd_epoll (the_file fd s))))"
  proof (clarsimp simp: watch_edges_def)
    fix w fd
    assume "fd_open fd s" "w \<in> set (epolls s (fd_epoll (the_file fd s)))"
    then show "\<exists>x \<in> {OPEN_DESCRIPTOR_BASE..<OPEN_DESCRIPTOR_END}.
        (watch_fd w, fd) \<in> (\<lambda>w. (watch_fd w, int x)) ` set (epolls s (fd_epoll (the_file (int x) s)))"
      by (intro bexI [of _ "nat fd"]) (auto simp: fd_open_def)
  qed
qed simp

lemma epoll_ready_none:
  "epoll_ready p ws = None \<Longrightarrow> \<exists>w \<in> set ws. watch_used w \<and> p (watch_fd w) (watch_events w) = None"
  by (induction ws) (auto split: if_splits option.splits)

text \<open>C19.  Polling returns when no chain of epoll sets comes back to its start: if the relation between the
  open sets and the descriptors they watch is acyclic, \<^verbatim>\<open>vfs_poll_events\<close>, with the levels the system calls
  allow, has a result for every descriptor, and the results solve the recursion in the code.\<close>

theorem vfs_poll_returns:
  assumes "acyclic (watch_edges s)"
  shows "\<exists>r. vfs_poll_events POLL_LEVELS kbd fd req s = Some r
    \<and> poll_step (\<lambda>fd ev. vfs_poll_events POLL_LEVELS kbd fd ev s) kbd fd req s = Some r"
proof -
  let ?P = "\<lambda>fd req. vfs_poll_events POLL_LEVELS kbd fd req s"
  have "?P fd req \<noteq> None"
  proof (induction fd arbitrary: req rule: wf_induct_rule [OF finite_acyclic_wf [OF finite_watch_edges assms]])
    case (1 fd)
    show ?case
    proof
      assume "?P fd req = None"
      then have "poll_step ?P kbd fd req s = None" using vfs_poll_fixpoint by metis
      then have e: "fd_open fd s" "fd_is_epoll (the_file fd s)" "fd_epoll (the_file fd s) \<noteq> 0"
        "epoll_ready ?P (epolls s (fd_epoll (the_file fd s))) = None"
        by (auto simp: poll_step_def Let_def split: if_splits)
      from epoll_ready_none [OF e(4)] obtain w where w: "w \<in> set (epolls s (fd_epoll (the_file fd s)))" "watch_used w"
        "?P (watch_fd w) (watch_events w) = None" by blast
      then have "(watch_fd w, fd) \<in> watch_edges s" using e by (auto simp: watch_edges_def)
      from 1 [OF this] w(3) show False by blast
    qed
  qed
  then show ?thesis using vfs_poll_fixpoint [of kbd fd req s] by auto
qed

lemma poll_cycle:
  assumes "\<And>fd. fd \<in> {a, b} \<Longrightarrow> fd_open fd s \<and> \<not> fd_is_pipe (the_file fd s) \<and> fd_is_epoll (the_file fd s) \<and> fd_epoll (the_file fd s) \<noteq> 0"
    and "epolls s (fd_epoll (the_file a s)) = u # us" "watch_used u" "watch_fd u = b"
    and "epolls s (fd_epoll (the_file b s)) = v # vs" "watch_used v" "watch_fd v = a"
  shows "vfs_poll_events n kbd a req s = None \<and> vfs_poll_events n kbd b req' s = None"
proof (induction n arbitrary: req req')
  case (Suc n)
  have "fd \<noteq> 0 \<and> fd \<noteq> 1 \<and> fd \<noteq> 2" if "fd_open fd s" for fd using that by (auto simp: fd_open_def)
  then show ?case using assms Suc by (auto simp: poll_step_def Let_def)
qed simp


lemma epoll_add_first:
  assumes "vfs_epoll_ctl ep 1 fd ev data s = (Inr (), s')" "epolls s (fd_epoll (the_file ep s)) = zero_watch # ws"
  shows "epolls s' = (epolls s)(fd_epoll (the_file ep s) := \<lparr>watch_used = True, watch_fd = fd, watch_events = ev, watch_data = data\<rparr> # ws)"
    "\<exists>r. files s' = (files s)(nat fd := files s (nat fd)\<lparr>fd_refs := r\<rparr>)"
proof -
  have free: "free_watch (zero_watch # ws) = Some 0"
    by (simp add: free_watch_def zero_watch_def upt_conv_Cons)
  obtain r t where t: "vfs_retain fd s = (r, t)" by force
  have keep: "epolls t = epolls s \<and> (\<exists>r. files t = (files s)(nat fd := files s (nat fd)\<lparr>fd_refs := r\<rparr>))"
  proof -
    have "\<exists>r. files s = (files s)(nat fd := files s (nat fd)\<lparr>fd_refs := r\<rparr>)"
      by (rule exI [of _ "fd_refs (files s (nat fd))"]) (simp add: same_fields)
    then show ?thesis using t by (auto simp: vfs_retain_def Let_def the_file_def split: if_splits)
  qed
  have s': "s' = set_epoll (fd_epoll (the_file ep s)) (\<lparr>watch_used = True, watch_fd = fd, watch_events = ev, watch_data = data\<rparr> # ws) t"
    using assms t free by (auto simp: vfs_epoll_ctl_def Let_def split: if_splits option.splits sum.splits)
  show "epolls s' = (epolls s)(fd_epoll (the_file ep s) := \<lparr>watch_used = True, watch_fd = fd, watch_events = ev, watch_data = data\<rparr> # ws)"
    "\<exists>r. files s' = (files s)(nat fd := files s (nat fd)\<lparr>fd_refs := r\<rparr>)"
    using keep by (simp_all add: s')
qed

definition is_epoll_set :: "int \<Rightarrow> 'a vfs_state_scheme \<Rightarrow> bool" where
  "is_epoll_set fd s \<longleftrightarrow>
     fd_open fd s \<and> \<not> fd_is_pipe (the_file fd s) \<and> fd_is_epoll (the_file fd s) \<and> fd_epoll (the_file fd s) \<noteq> 0"

lemma is_epoll_set_refs:
  assumes "files t = (files s)(i := files s i\<lparr>fd_refs := r\<rparr>)"
  shows "is_epoll_set fd t = is_epoll_set fd s" "fd_epoll (the_file fd t) = fd_epoll (the_file fd s)"
  using assms by (auto simp: is_epoll_set_def fd_open_def the_file_def)

text \<open>C20.  Nothing stops two epoll sets from watching each other, and polling one of them then never
  returns: take two different sets whose first watch slot is free, as in new sets; after both \<^verbatim>\<open>vfs_epoll_ctl\<close>
  calls that add each to the other have succeeded, no number of levels of recursion gives \<^verbatim>\<open>vfs_poll_events\<close> a
  result.\<close>

theorem epoll_cycle_diverges:
  assumes "is_epoll_set a s" "is_epoll_set b s" "fd_epoll (the_file a s) \<noteq> fd_epoll (the_file b s)"
    and "epolls s (fd_epoll (the_file a s)) = zero_watch # us" "epolls s (fd_epoll (the_file b s)) = zero_watch # vs"
    and "vfs_epoll_ctl a 1 b ev data s = (Inr (), s1)" "vfs_epoll_ctl b 1 a ev' data' s1 = (Inr (), s2)"
  shows "vfs_poll_events n kbd a req s2 = None"
proof -
  note one = epoll_add_first [OF assms(6,4)]
  obtain r where r: "files s1 = (files s)(nat b := files s (nat b)\<lparr>fd_refs := r\<rparr>)" using one(2) ..
  note k1 = is_epoll_set_refs [OF r]
  have "epolls s1 (fd_epoll (the_file b s1)) = zero_watch # vs" using assms(3,5) by (simp add: one(1) k1)
  note two = epoll_add_first [OF assms(7) this]
  obtain r' where r': "files s2 = (files s1)(nat a := files s1 (nat a)\<lparr>fd_refs := r'\<rparr>)" using two(2) ..
  note k2 = is_epoll_set_refs [OF r']
  have "is_epoll_set fd s2" if "fd \<in> {a, b}" for fd using that assms(1,2) by (auto simp: k1 k2)
  moreover have "epolls s2 (fd_epoll (the_file a s2)) = \<lparr>watch_used = True, watch_fd = b, watch_events = ev, watch_data = data\<rparr> # us"
    using assms(3) by (simp add: k1 k2 two(1) one(1))
  moreover have "epolls s2 (fd_epoll (the_file b s2)) = \<lparr>watch_used = True, watch_fd = a, watch_events = ev', watch_data = data'\<rparr> # vs"
    by (simp add: k1 k2 two(1))
  ultimately show ?thesis
    using poll_cycle [of a b s2 _ us _ vs n kbd req req] by (simp add: is_epoll_set_def)
qed

definition epoll_demo :: sys_state where
  "epoll_demo = blank_state\<lparr>files := (\<lambda>_. zero_descriptor)
     (64 := zero_descriptor\<lparr>fd_used := True, fd_refs := 1, fd_is_epoll := True, fd_epoll := 16\<rparr>,
      65 := zero_descriptor\<lparr>fd_used := True, fd_refs := 1, fd_is_epoll := True, fd_epoll := 32\<rparr>),
     epolls := (\<lambda>_. zero_watch # replicate 31 zero_watch)\<rparr>"

text \<open>The set 64 watches the set 65.\<close>

definition epoll_chain :: sys_state where
  "epoll_chain = epoll_demo\<lparr>epolls := (\<lambda>_. replicate 32 zero_watch)
     (16 := \<lparr>watch_used = True, watch_fd = 65, watch_events = 1, watch_data = 0\<rparr> # replicate 31 zero_watch)\<rparr>"

theorem vfs_poll_returns_witness:
  "watch_edges epoll_chain = {(65, 64)} \<and> (\<exists>r. vfs_poll_events POLL_LEVELS False 64 NPK_VFS_POLLIN epoll_chain = Some r)"
proof -
  note chain = epoll_chain_def epoll_demo_def fd_open_def the_file_def zero_descriptor_def zero_watch_def
  let ?w = "\<lparr>watch_used = True, watch_fd = 65, watch_events = 1, watch_data = 0\<rparr>"
  have "(watch_fd ?w, 64) \<in> watch_edges epoll_chain"
    unfolding watch_edges_def by (rule CollectI, intro exI conjI, rule refl) (simp_all add: chain)
  moreover have "watch_edges epoll_chain \<subseteq> {(65, 64)}"
    by (auto simp: watch_edges_def chain split: if_splits)
  ultimately have e: "watch_edges epoll_chain = {(65, 64)}" by auto
  moreover have "acyclic ({} :: (int \<times> int) set)" unfolding acyclic_def by (auto elim: tranclE)
  ultimately have "acyclic (watch_edges epoll_chain)" by simp
  from vfs_poll_returns [OF this] e show ?thesis by blast
qed

theorem epoll_cycle_diverges_witness:
  "case vfs_epoll_ctl 64 1 65 NPK_VFS_POLLIN 0 epoll_demo of (r, s1) \<Rightarrow>
     r = Inr () \<and> (case vfs_epoll_ctl 65 1 64 NPK_VFS_POLLIN 0 s1 of (r, s2) \<Rightarrow>
       r = Inr () \<and> vfs_poll_events POLL_LEVELS False 64 NPK_VFS_POLLIN s2 = None)"
proof -
  note demo = epoll_demo_def is_epoll_set_def fd_open_def the_file_def zero_descriptor_def
  have find: "find_watch fd (zero_watch # replicate 31 zero_watch) = None" "free_watch (zero_watch # replicate 31 zero_watch) = Some 0" for fd
    by (auto simp: find_watch_def free_watch_def find_None_iff zero_watch_def upt_conv_Cons nth_Cons')
  obtain s1 where s1: "vfs_epoll_ctl 64 1 65 NPK_VFS_POLLIN 0 epoll_demo = (Inr (), s1)"
    using find by (simp add: vfs_epoll_ctl_def demo vfs_retain_def Let_def)
  note one = epoll_add_first [OF s1, of "replicate 31 zero_watch"]
  have e1: "epolls s1 32 = zero_watch # replicate 31 zero_watch" "files s1 64 = files epoll_demo 64"
    "fd_epoll (files s1 65) = 32" "fd_is_epoll (files s1 65)" "fd_used (files s1 65)"
    using one by (auto simp: demo)
  obtain s2 where s2: "vfs_epoll_ctl 65 1 64 NPK_VFS_POLLIN 0 s1 = (Inr (), s2)"
    using find e1 by (simp add: vfs_epoll_ctl_def fd_open_def the_file_def vfs_retain_def Let_def epoll_demo_def zero_descriptor_def)
  have "vfs_poll_events POLL_LEVELS False 64 NPK_VFS_POLLIN s2 = None"
    by (rule epoll_cycle_diverges [OF _ _ _ _ _ s1 s2]) (simp_all add: demo)
  then show ?thesis using s1 s2 by simp
qed

end
