(* ===== verification/Device_Config.thy ===== *)
theory Device_Config
  imports Syscall
begin

text \<open>
  The device catalogue, \<^verbatim>\<open>src/device/device_config.c\<close>: a bounded JSON reader, the checks on the document
  it reads, and the lookup of a USB interface in the catalogue.  A \<^verbatim>\<open>json_cursor_t\<close> is the part of the
  text not read yet: \<^verbatim>\<open>cursor->length - cursor->position\<close> is its length.  The fixed text arrays hold C strings
  and are modelled by them; the two tables are lists, their length the counter of used entries.

  The loops of the reader carry a number of levels.  \<open>None\<close> is the outcome of running out of them,
  \<open>Some None\<close> a rejected text; \<open>Device_Props\<close> shows that the levels of \<open>parse_document\<close> are never used up.
\<close>

abbreviation (input) DDC_MAX_FILE_BYTES :: nat where "DDC_MAX_FILE_BYTES \<equiv> 16384"
abbreviation (input) DDC_MAX_CATEGORIES :: nat where "DDC_MAX_CATEGORIES \<equiv> 16"
abbreviation (input) DDC_MAX_PRODUCTS :: nat where "DDC_MAX_PRODUCTS \<equiv> 64"
abbreviation (input) DDC_TEXT_CAPACITY :: nat where "DDC_TEXT_CAPACITY \<equiv> 64"
abbreviation (input) DDC_BUS_CAPACITY :: nat where "DDC_BUS_CAPACITY \<equiv> 8"
abbreviation (input) DDC_MAX_JSON_DEPTH :: nat where "DDC_MAX_JSON_DEPTH \<equiv> 8"
abbreviation (input) TYPE_CAPACITY :: nat where "TYPE_CAPACITY \<equiv> 24"
abbreviation (input) DISPLAY_CAPACITY :: nat where "DISPLAY_CAPACITY \<equiv> 64"
abbreviation (input) DRIVER_CAPACITY :: nat where "DRIVER_CAPACITY \<equiv> 32"

record ddc_category =
  cat_class :: u8
  cat_subclass :: u8
  cat_protocol :: u8
  cat_type :: string
  cat_generic_name :: string
  cat_driver :: string

record ddc_product =
  prod_vendor :: u16
  prod_product :: u16
  prod_type :: string
  prod_model :: string

record ddc_state = sys_state +
  categories :: "ddc_category list"
  products :: "ddc_product list"
  ddc_loaded :: bool

definition zero_category :: ddc_category where
  "zero_category = \<lparr>cat_class = 0, cat_subclass = 0, cat_protocol = 0, cat_type = [], cat_generic_name = [], cat_driver = []\<rparr>"

definition zero_product :: ddc_product where
  "zero_product = \<lparr>prod_vendor = 0, prod_product = 0, prod_type = [], prod_model = []\<rparr>"

definition device_config_reset :: "'a ddc_state_scheme \<Rightarrow> 'a ddc_state_scheme" where
  "device_config_reset s = s\<lparr>categories := [], products := [], ddc_loaded := False\<rparr>"

text \<open>\<^verbatim>\<open>text_copy\<close>: the text that ends up in the destination, \<open>None\<close> when it is refused.\<close>

definition text_copy :: "nat \<Rightarrow> string \<Rightarrow> string option" where
  "text_copy capacity source = (if capacity = 0 \<or> source = [] \<or> length source \<ge> capacity then None else Some source)"

subsection \<open>Scanning\<close>

definition is_space :: "char \<Rightarrow> bool" where
  "is_space c \<longleftrightarrow> c = CHR '' '' \<or> c = CHR 0x09 \<or> c = CHR 0x0d \<or> c = CHR 0x0a"

definition skip_space :: "string \<Rightarrow> string" where
  "skip_space cs = dropWhile is_space cs"

definition take_char :: "char \<Rightarrow> string \<Rightarrow> bool \<times> string" where
  "take_char expected cs =
     (case skip_space cs of
        [] \<Rightarrow> (False, [])
      | c # rest \<Rightarrow> if c \<noteq> expected then (False, c # rest) else (True, rest))"

definition ddc_hex_digit :: "char \<Rightarrow> u32 option" where
  "ddc_hex_digit c = hex_digit (byte_of c)"

definition four_digits :: "string \<Rightarrow> (u32 \<times> string) option" where
  "four_digits cs =
     (if length cs < 4 then None
      else case map ddc_hex_digit (take 4 cs) of
        [Some a, Some b, Some c, Some d] \<Rightarrow> Some (push_bit 12 a OR push_bit 8 b OR push_bit 4 c OR d, drop 4 cs)
      | _ \<Rightarrow> None)"

definition simple_escape :: "char \<Rightarrow> char option" where
  "simple_escape e =
     (if e = CHR 0x22 then Some (CHR 0x22)
      else if e = CHR 0x5c then Some (CHR 0x5c)
      else if e = CHR ''/'' then Some (CHR ''/'')
      else if e = CHR ''b'' then Some (CHR 0x08)
      else if e = CHR ''f'' then Some (CHR 0x0c)
      else if e = CHR ''n'' then Some (CHR 0x0a)
      else if e = CHR ''r'' then Some (CHR 0x0d)
      else if e = CHR ''t'' then Some (CHR 0x09)
      else None)"

text \<open>An escape sequence after its backslash.\<close>

definition escape :: "string \<Rightarrow> (char \<times> string) option" where
  "escape cs =
     (case cs of
        [] \<Rightarrow> None
      | e # rest \<Rightarrow>
          if e = CHR ''u'' then
            (case four_digits rest of
               None \<Rightarrow> None
             | Some (code, rest) \<Rightarrow> if code > 0x7f then None else Some (char_of (unat code), rest))
          else map_option (\<lambda>c. (c, rest)) (simple_escape e))"

lemma four_digits_shorter: "four_digits cs = Some (v, rest) \<Longrightarrow> length rest < length cs"
  by (auto simp: four_digits_def split: if_splits list.splits option.splits)

lemma escape_shorter: "escape cs = Some (c, rest) \<Longrightarrow> length rest < length cs"
  by (auto simp: escape_def split: list.splits if_splits option.splits prod.splits dest: four_digits_shorter)

function string_body :: "nat \<Rightarrow> string \<Rightarrow> string \<Rightarrow> (string \<times> string) option" where
  "string_body capacity out cs =
     (case cs of
        [] \<Rightarrow> None
      | c # rest \<Rightarrow>
          if c = CHR 0x22 then (if out = [] then None else Some (rev out, rest))
          else case (if c = CHR 0x5c then escape rest else Some (c, rest)) of
              None \<Rightarrow> None
            | Some (c, rest) \<Rightarrow>
                if byte_of c < 0x20 \<or> length out + 1 \<ge> capacity then None
                else string_body capacity (c # out) rest)"
  by pat_completeness auto
termination
  by (relation "measure (\<lambda>(capacity, out, cs). length cs)") (auto split: if_splits dest: escape_shorter)

declare string_body.simps [simp del]

definition parse_json_string :: "nat \<Rightarrow> string \<Rightarrow> (string \<times> string) option" where
  "parse_json_string capacity cs =
     (case take_char (CHR 0x22) cs of
        (False, _) \<Rightarrow> None
      | (True, cs) \<Rightarrow> if capacity = 0 then None else string_body capacity [] cs)"

function skip_body :: "string \<Rightarrow> string option" where
  "skip_body cs =
     (case cs of
        [] \<Rightarrow> None
      | c # rest \<Rightarrow>
          if c = CHR 0x22 then Some rest
          else if byte_of c < 0x20 then None
          else if c = CHR 0x5c then
            (case rest of
               [] \<Rightarrow> None
             | e # rest' \<Rightarrow>
                 if e = CHR ''u'' then
                   (case four_digits rest' of None \<Rightarrow> None | Some (_, rest') \<Rightarrow> skip_body rest')
                 else if simple_escape e = None then None
                 else skip_body rest')
          else skip_body rest)"
  by pat_completeness auto
termination
  by (relation "measure length") (auto dest: four_digits_shorter)

declare skip_body.simps [simp del]

definition skip_json_string :: "string \<Rightarrow> string option" where
  "skip_json_string cs = (case take_char (CHR 0x22) cs of (False, _) \<Rightarrow> None | (True, cs) \<Rightarrow> skip_body cs)"

definition is_digit :: "char \<Rightarrow> bool" where
  "is_digit c \<longleftrightarrow> byte_of c \<ge> 0x30 \<and> byte_of c \<le> 0x39"

fun uint32_body :: "u32 \<Rightarrow> string \<Rightarrow> (u32 \<times> string) option" where
  "uint32_body parsed [] = Some (parsed, [])"
| "uint32_body parsed (c # rest) =
     (if \<not> is_digit c then Some (parsed, c # rest)
      else let digit = ucast (byte_of c - 0x30)
        in if parsed > (UINT32_MAX - digit) div 10 then None
           else uint32_body (parsed * 10 + digit) rest)"

definition parse_uint32 :: "string \<Rightarrow> (u32 \<times> string) option" where
  "parse_uint32 cs =
     (let start = skip_space cs
      in if start = [] then None
         else case uint32_body 0 start of
           None \<Rightarrow> None
         | Some (parsed, rest) \<Rightarrow>
             if length rest = length start then None
             else if length start - length rest > 1 \<and> hd start = CHR ''0'' then None
             else Some (parsed, rest))"

subsection \<open>Skipping values\<close>

definition ends_scalar :: "char \<Rightarrow> bool" where
  "ends_scalar c \<longleftrightarrow> c = CHR '','' \<or> c = CHR '']'' \<or> c = CHR ''}'' \<or> is_space c"

definition skip_scalar :: "string \<Rightarrow> string option" where
  "skip_scalar cs =
     (let rest = dropWhile (\<lambda>c. \<not> ends_scalar c) cs in if length rest = length cs then None else Some rest)"

text \<open>The loops over the members of an object and the elements of an array; \<open>skip\<close> skips one value.\<close>

fun skip_members :: "(string \<Rightarrow> string option option) \<Rightarrow> nat \<Rightarrow> string \<Rightarrow> string option option" where
  "skip_members skip 0 cs = None"
| "skip_members skip (Suc n) cs =
     (case skip_json_string cs of
        None \<Rightarrow> Some None
      | Some cs \<Rightarrow>
          (case take_char (CHR '':'') cs of
             (False, _) \<Rightarrow> Some None
           | (True, cs) \<Rightarrow>
               (case skip cs of
                  None \<Rightarrow> None
                | Some None \<Rightarrow> Some None
                | Some (Some cs) \<Rightarrow>
                    (case take_char (CHR ''}'') cs of
                       (True, cs) \<Rightarrow> Some (Some cs)
                     | (False, cs) \<Rightarrow>
                         (case take_char (CHR '','') cs of
                            (False, _) \<Rightarrow> Some None
                          | (True, cs) \<Rightarrow> skip_members skip n cs)))))"

definition skip_json_object :: "(string \<Rightarrow> string option option) \<Rightarrow> nat \<Rightarrow> nat \<Rightarrow> string \<Rightarrow> string option option" where
  "skip_json_object skip n depth cs =
     (if depth > DDC_MAX_JSON_DEPTH then Some None
      else case take_char (CHR ''{'') cs of
          (False, _) \<Rightarrow> Some None
        | (True, cs) \<Rightarrow>
            (case take_char (CHR ''}'') (skip_space cs) of
               (True, cs) \<Rightarrow> Some (Some cs)
             | (False, cs) \<Rightarrow> skip_members skip n cs))"

fun skip_elements :: "(string \<Rightarrow> string option option) \<Rightarrow> nat \<Rightarrow> string \<Rightarrow> string option option" where
  "skip_elements skip 0 cs = None"
| "skip_elements skip (Suc n) cs =
     (case skip cs of
        None \<Rightarrow> None
      | Some None \<Rightarrow> Some None
      | Some (Some cs) \<Rightarrow>
          (case take_char (CHR '']'') cs of
             (True, cs) \<Rightarrow> Some (Some cs)
           | (False, cs) \<Rightarrow>
               (case take_char (CHR '','') cs of
                  (False, _) \<Rightarrow> Some None
                | (True, cs) \<Rightarrow> skip_elements skip n cs)))"

definition skip_json_array :: "(string \<Rightarrow> string option option) \<Rightarrow> nat \<Rightarrow> nat \<Rightarrow> string \<Rightarrow> string option option" where
  "skip_json_array skip n depth cs =
     (if depth > DDC_MAX_JSON_DEPTH then Some None
      else case take_char (CHR ''['') cs of
          (False, _) \<Rightarrow> Some None
        | (True, cs) \<Rightarrow>
            (case take_char (CHR '']'') (skip_space cs) of
               (True, cs) \<Rightarrow> Some (Some cs)
             | (False, cs) \<Rightarrow> skip_elements skip n cs))"

primrec skip_json_value :: "nat \<Rightarrow> nat \<Rightarrow> string \<Rightarrow> string option option" where
  "skip_json_value 0 depth cs = None"
| "skip_json_value (Suc n) depth cs =
     (if depth > DDC_MAX_JSON_DEPTH then Some None
      else case skip_space cs of
          [] \<Rightarrow> Some None
        | c # rest \<Rightarrow>
            if c = CHR 0x22 then Some (skip_json_string (c # rest))
            else if c = CHR ''{'' then skip_json_object (skip_json_value n (depth + 1)) n depth (c # rest)
            else if c = CHR ''['' then skip_json_array (skip_json_value n (depth + 1)) n depth (c # rest)
            else Some (skip_scalar (c # rest)))"

subsection \<open>Categories and products\<close>

text \<open>Which of the required members have been seen is the set of their keys.\<close>

record category_draft =
  draft_bus :: string
  draft_category :: ddc_category
  draft_seen :: "string list"

definition number_member :: "u32 \<Rightarrow> string \<Rightarrow> (u32 \<times> string) option" where
  "number_member limit cs =
     (case parse_uint32 cs of None \<Rightarrow> None | Some (v, cs) \<Rightarrow> if v > limit then None else Some (v, cs))"

definition category_member :: "nat \<Rightarrow> string \<Rightarrow> category_draft \<Rightarrow> string \<Rightarrow> (category_draft \<times> string) option option" where
  "category_member n key d cs =
     (let c = draft_category d;
          text = (\<lambda>capacity upd. Some (map_option (\<lambda>(v, cs). (upd v (d\<lparr>draft_seen := key # draft_seen d\<rparr>), cs)) (parse_json_string capacity cs)));
          number = (\<lambda>upd. Some (map_option (\<lambda>(v, cs). (d\<lparr>draft_category := upd (ucast v), draft_seen := key # draft_seen d\<rparr>, cs)) (number_member 255 cs)))
      in if key = ''bus'' then text DDC_BUS_CAPACITY (\<lambda>v d. d\<lparr>draft_bus := v\<rparr>)
         else if key = ''class'' then number (\<lambda>v. c\<lparr>cat_class := v\<rparr>)
         else if key = ''subclass'' then number (\<lambda>v. c\<lparr>cat_subclass := v\<rparr>)
         else if key = ''protocol'' then number (\<lambda>v. c\<lparr>cat_protocol := v\<rparr>)
         else if key = ''type'' then text TYPE_CAPACITY (\<lambda>v d. d\<lparr>draft_category := c\<lparr>cat_type := v\<rparr>\<rparr>)
         else if key = ''generic_name'' then text DISPLAY_CAPACITY (\<lambda>v d. d\<lparr>draft_category := c\<lparr>cat_generic_name := v\<rparr>\<rparr>)
         else if key = ''driver'' then text DRIVER_CAPACITY (\<lambda>v d. d\<lparr>draft_category := c\<lparr>cat_driver := v\<rparr>\<rparr>)
         else map_option (map_option (\<lambda>cs. (d, cs))) (skip_json_value n 0 cs))"

text \<open>The loop over the members of an object that is being read: a key, a colon, what \<open>member\<close> does with the
  value, and a comma or the closing brace.\<close>

fun object_loop ::
  "nat \<Rightarrow> (string \<Rightarrow> 'd \<Rightarrow> string \<Rightarrow> ('d \<times> string) option option) \<Rightarrow> 'd \<Rightarrow> string \<Rightarrow> ('d \<times> string) option option" where
  "object_loop 0 member d cs = None"
| "object_loop (Suc n) member d cs =
     (case parse_json_string DDC_TEXT_CAPACITY cs of
        None \<Rightarrow> Some None
      | Some (key, cs) \<Rightarrow>
          (case take_char (CHR '':'') cs of
             (False, _) \<Rightarrow> Some None
           | (True, cs) \<Rightarrow>
               (case member key d cs of
                  None \<Rightarrow> None
                | Some None \<Rightarrow> Some None
                | Some (Some (d, cs)) \<Rightarrow>
                    (case take_char (CHR ''}'') cs of
                       (True, cs) \<Rightarrow> Some (Some (d, cs))
                     | (False, cs) \<Rightarrow>
                         (case take_char (CHR '','') cs of
                            (False, _) \<Rightarrow> Some None
                          | (True, cs) \<Rightarrow> object_loop n member d cs)))))"

definition read_object ::
  "nat \<Rightarrow> (string \<Rightarrow> 'd \<Rightarrow> string \<Rightarrow> ('d \<times> string) option option) \<Rightarrow> 'd \<Rightarrow> string \<Rightarrow> ('d \<times> string) option option" where
  "read_object n member d cs =
     (case take_char (CHR ''{'') cs of
        (False, _) \<Rightarrow> Some None
      | (True, cs) \<Rightarrow>
          (case take_char (CHR ''}'') (skip_space cs) of
             (True, cs) \<Rightarrow> Some (Some (d, cs))
           | (False, cs) \<Rightarrow> object_loop n member d cs))"

definition category_complete :: "category_draft \<Rightarrow> bool" where
  "category_complete d \<longleftrightarrow>
     {''bus'', ''class'', ''subclass'', ''protocol'', ''type'', ''generic_name'', ''driver''} \<subseteq> set (draft_seen d)
     \<and> draft_bus d = ''usb''"

definition parse_category :: "nat \<Rightarrow> string \<Rightarrow> (ddc_category \<times> string) option option" where
  "parse_category n cs =
     (case read_object n (category_member n) \<lparr>draft_bus = [], draft_category = zero_category, draft_seen = []\<rparr> cs of
        None \<Rightarrow> None
      | Some None \<Rightarrow> Some None
      | Some (Some (d, cs)) \<Rightarrow> Some (if category_complete d then Some (draft_category d, cs) else None))"

record product_draft =
  draft_product :: ddc_product
  draft_keys :: "string list"

definition product_member :: "nat \<Rightarrow> string \<Rightarrow> product_draft \<Rightarrow> string \<Rightarrow> (product_draft \<times> string) option option" where
  "product_member n key d cs =
     (let p = draft_product d;
          text = (\<lambda>capacity upd. Some (map_option (\<lambda>(v, cs). (\<lparr>draft_product = upd v, draft_keys = key # draft_keys d\<rparr>, cs)) (parse_json_string capacity cs)));
          number = (\<lambda>upd. Some (map_option (\<lambda>(v, cs). (\<lparr>draft_product = upd (ucast v), draft_keys = key # draft_keys d\<rparr>, cs)) (number_member 0xffff cs)))
      in if key = ''vid'' then number (\<lambda>v. p\<lparr>prod_vendor := v\<rparr>)
         else if key = ''pid'' then number (\<lambda>v. p\<lparr>prod_product := v\<rparr>)
         else if key = ''type'' then text TYPE_CAPACITY (\<lambda>v. p\<lparr>prod_type := v\<rparr>)
         else if key = ''name'' then text DISPLAY_CAPACITY (\<lambda>v. p\<lparr>prod_model := v\<rparr>)
         else map_option (map_option (\<lambda>cs. (d, cs))) (skip_json_value n 0 cs))"

definition parse_product :: "nat \<Rightarrow> string \<Rightarrow> (ddc_product \<times> string) option option" where
  "parse_product n cs =
     (case read_object n (product_member n) \<lparr>draft_product = zero_product, draft_keys = []\<rparr> cs of
        None \<Rightarrow> None
      | Some None \<Rightarrow> Some None
      | Some (Some (d, cs)) \<Rightarrow>
          Some (if {''vid'', ''pid'', ''type'', ''name''} \<subseteq> set (draft_keys d) then Some (draft_product d, cs) else None))"

text \<open>The loop of \<^verbatim>\<open>parse_categories\<close> and \<^verbatim>\<open>parse_products\<close> after the opening bracket: \<open>xs\<close> are the entries read so far,
  \<open>limit\<close> the size of the table.\<close>

fun entries_loop ::
  "nat \<Rightarrow> nat \<Rightarrow> (string \<Rightarrow> ('e \<times> string) option option) \<Rightarrow> 'e list \<Rightarrow> string \<Rightarrow> ('e list \<times> string) option option" where
  "entries_loop 0 limit parse xs cs = None"
| "entries_loop (Suc n) limit parse xs cs =
     (if length xs \<ge> limit then Some None
      else case parse cs of
          None \<Rightarrow> None
        | Some None \<Rightarrow> Some None
        | Some (Some (x, cs)) \<Rightarrow>
            (case take_char (CHR '']'') cs of
               (True, cs) \<Rightarrow> Some (Some (xs @ [x], cs))
             | (False, cs) \<Rightarrow>
                 (case take_char (CHR '','') cs of
                    (False, _) \<Rightarrow> Some None
                  | (True, cs) \<Rightarrow> entries_loop n limit parse (xs @ [x]) cs)))"

definition read_entries ::
  "nat \<Rightarrow> nat \<Rightarrow> (string \<Rightarrow> ('e \<times> string) option option) \<Rightarrow> 'e list \<Rightarrow> string \<Rightarrow> ('e list \<times> string) option option" where
  "read_entries n limit parse xs cs =
     (case take_char (CHR ''['') cs of
        (False, _) \<Rightarrow> Some None
      | (True, cs) \<Rightarrow>
          (case take_char (CHR '']'') (skip_space cs) of
             (True, cs) \<Rightarrow> Some (Some (xs, cs))
           | (False, cs) \<Rightarrow> entries_loop n limit parse xs cs))"

definition parse_categories :: "nat \<Rightarrow> ddc_category list \<Rightarrow> string \<Rightarrow> (ddc_category list \<times> string) option option" where
  "parse_categories n xs cs = read_entries n DDC_MAX_CATEGORIES (parse_category n) xs cs"

definition parse_products :: "nat \<Rightarrow> ddc_product list \<Rightarrow> string \<Rightarrow> (ddc_product list \<times> string) option option" where
  "parse_products n xs cs = read_entries n DDC_MAX_PRODUCTS (parse_product n) xs cs"

subsection \<open>The document\<close>

record document =
  doc_version :: "u32 option"
  doc_has_categories :: bool
  doc_categories :: "ddc_category list"
  doc_products :: "ddc_product list"

definition document_member :: "nat \<Rightarrow> string \<Rightarrow> document \<Rightarrow> string \<Rightarrow> (document \<times> string) option option" where
  "document_member n key d cs =
     (if key = ''version'' then Some (map_option (\<lambda>(v, cs). (d\<lparr>doc_version := Some v\<rparr>, cs)) (parse_uint32 cs))
      else if key = ''categories'' then
        map_option (map_option (\<lambda>(xs, cs). (d\<lparr>doc_categories := xs, doc_has_categories := True\<rparr>, cs))) (parse_categories n (doc_categories d) cs)
      else if key = ''products'' then
        map_option (map_option (\<lambda>(xs, cs). (d\<lparr>doc_products := xs\<rparr>, cs))) (parse_products n (doc_products d) cs)
      else map_option (map_option (\<lambda>cs. (d, cs))) (skip_json_value n 0 cs))"

definition category_type_exists :: "ddc_category list \<Rightarrow> string \<Rightarrow> bool" where
  "category_type_exists cats t \<longleftrightarrow> (\<exists>c \<in> set cats. cat_type c = t)"

fun categories_distinct :: "ddc_category list \<Rightarrow> bool" where
  "categories_distinct [] \<longleftrightarrow> True"
| "categories_distinct (c # cs) \<longleftrightarrow>
     (\<forall>d \<in> set cs. \<not> (cat_class c = cat_class d \<and> cat_subclass c = cat_subclass d \<and> cat_protocol c = cat_protocol d))
     \<and> categories_distinct cs"

fun products_ok :: "ddc_category list \<Rightarrow> ddc_product list \<Rightarrow> bool" where
  "products_ok cats [] \<longleftrightarrow> True"
| "products_ok cats (p # ps) \<longleftrightarrow>
     category_type_exists cats (prod_type p)
     \<and> (\<forall>q \<in> set ps. \<not> (prod_vendor p = prod_vendor q \<and> prod_product p = prod_product q \<and> prod_type p = prod_type q))
     \<and> products_ok cats ps"

definition document_levels :: "string \<Rightarrow> nat" where
  "document_levels cs = length cs + 1"

definition parse_document :: "string \<Rightarrow> (ddc_category list \<times> ddc_product list) option option" where
  "parse_document cs =
     (let n = document_levels cs
      in case read_object n (document_member n)
                \<lparr>doc_version = None, doc_has_categories = False, doc_categories = [], doc_products = []\<rparr> cs of
           None \<Rightarrow> None
         | Some None \<Rightarrow> Some None
         | Some (Some (d, cs)) \<Rightarrow>
             Some (if skip_space cs \<noteq> [] \<or> doc_version d \<noteq> Some 1 \<or> \<not> doc_has_categories d \<or> doc_categories d = []
                      \<or> \<not> categories_distinct (doc_categories d) \<or> \<not> products_ok (doc_categories d) (doc_products d) then None
                   else Some (doc_categories d, doc_products d)))"

text \<open>\<^verbatim>\<open>device_config_load_vfs\<close>.  The outcome is \<open>None\<close> if the reader does not return.\<close>

definition device_config_load_vfs :: "string option \<Rightarrow> 'a ddc_state_scheme \<Rightarrow> (int \<times> 'a ddc_state_scheme) option" where
  "device_config_load_vfs path s =
     (case path of
        None \<Rightarrow> Some (- errno_num EINVAL, s)
      | Some p \<Rightarrow>
          if p = [] \<or> hd p \<noteq> CHR ''/'' then Some (- errno_num EINVAL, s)
          else if ddc_loaded s then Some (0, s)
          else let s = device_config_reset s
            in case vfs_open (proc_snapshot s) (Some p) s of
                 (Inl e, s) \<Rightarrow> Some (- errno_num e, s)
               | (Inr fd, s) \<Rightarrow>
                   (let file_size = (case vfs_size (int fd) s of Inl e \<Rightarrow> - errno_num e | Inr n \<Rightarrow> n)
                    in if file_size \<le> 0 \<or> file_size > int DDC_MAX_FILE_BYTES
                       then Some (if file_size > int DDC_MAX_FILE_BYTES then - errno_num EFBIG else - errno_num EINVAL,
                                  snd (vfs_close (int fd) s))
                       else case vfs_read (int fd) True (nat file_size) s of
                           (r, s) \<Rightarrow>
                             let s = snd (vfs_close (int fd) s);
                                 bytes = (case r of Inl _ \<Rightarrow> [] | Inr bs \<Rightarrow> bs)
                             in if length bytes \<noteq> nat file_size then Some (- errno_num EIO, device_config_reset s)
                                else (case parse_document (map (\<lambda>b. char_of (unat b)) bytes) of
                                    None \<Rightarrow> None
                                  | Some None \<Rightarrow> Some (- errno_num EINVAL, device_config_reset s)
                                  | Some (Some (cats, prods)) \<Rightarrow>
                                      Some (0, s\<lparr>categories := cats, products := prods, ddc_loaded := True\<rparr>))))"

subsection \<open>Looking up an interface\<close>

datatype npk_device_bus = NPK_DEVICE_BUS_NONE | NPK_DEVICE_BUS_PCI | NPK_DEVICE_BUS_USB

record npk_device_identity =
  di_bus :: npk_device_bus
  di_location :: u64
  di_vendor :: u16
  di_product :: u16
  di_class :: u8
  di_subclass :: u8
  di_protocol :: u8
  di_revision :: u8
  di_interface :: u8

record npk_device_config_match =
  match_type :: string
  match_display_name :: string
  match_driver_name :: string

definition category_of :: "npk_device_identity \<Rightarrow> ddc_category \<Rightarrow> bool" where
  "category_of i c \<longleftrightarrow> di_class i = cat_class c \<and> di_subclass i = cat_subclass c \<and> di_protocol i = cat_protocol c"

definition product_of :: "npk_device_identity \<Rightarrow> ddc_category \<Rightarrow> ddc_product \<Rightarrow> bool" where
  "product_of i c p \<longleftrightarrow> prod_vendor p = di_vendor i \<and> prod_product p = di_product i \<and> prod_type p = cat_type c"

definition device_config_resolve :: "npk_device_identity \<Rightarrow> 'a ddc_state_scheme \<Rightarrow> npk_device_config_match option" where
  "device_config_resolve i s =
     (if \<not> ddc_loaded s \<or> di_bus i \<noteq> NPK_DEVICE_BUS_USB \<or> di_interface i = 0xff then None
      else case find (category_of i) (categories s) of
          None \<Rightarrow> None
        | Some c \<Rightarrow>
            (case (text_copy TYPE_CAPACITY (cat_type c), text_copy DISPLAY_CAPACITY (cat_generic_name c),
                   text_copy DRIVER_CAPACITY (cat_driver c)) of
               (Some t, Some name, Some driver) \<Rightarrow>
                 (case find (product_of i c) (products s) of
                    None \<Rightarrow> Some \<lparr>match_type = t, match_display_name = name, match_driver_name = driver\<rparr>
                  | Some p \<Rightarrow>
                      map_option (\<lambda>model. \<lparr>match_type = t, match_display_name = model, match_driver_name = driver\<rparr>)
                        (text_copy DISPLAY_CAPACITY (prod_model p)))
             | _ \<Rightarrow> None))"

end
