(* ===== verification/Device_Manager.thy ===== *)
theory Device_Manager
  imports Device_Config
begin

text \<open>
  The device registry, \<^verbatim>\<open>src/device/device_manager.c\<close>.  A driver is told apart by the address of its
  descriptor.  A driver's \<^verbatim>\<open>probe\<close> is a function pointer: the parameter \<open>probe\<close> gives the effect of calling it on
  the device at an index of the table, the whole kernel state included, so a probe that registers further
  devices is covered.  The tables hold at most 128 devices and 32 drivers; their lengths are the counters.
  Log messages are left out.
\<close>

abbreviation (input) NPK_DEVICE_MANAGER_MAX_DEVICES :: nat where "NPK_DEVICE_MANAGER_MAX_DEVICES \<equiv> 128"
abbreviation (input) NPK_DEVICE_MANAGER_MAX_DRIVERS :: nat where "NPK_DEVICE_MANAGER_MAX_DRIVERS \<equiv> 32"
abbreviation (input) NPK_DEVICE_DRIVER_MAX_IDS :: nat where "NPK_DEVICE_DRIVER_MAX_IDS \<equiv> 32"
abbreviation (input) NPK_DEVICE_MATCH_VENDOR :: u16 where "NPK_DEVICE_MATCH_VENDOR \<equiv> 1"
abbreviation (input) NPK_DEVICE_MATCH_PRODUCT :: u16 where "NPK_DEVICE_MATCH_PRODUCT \<equiv> 2"
abbreviation (input) NPK_DEVICE_MATCH_CLASS :: u16 where "NPK_DEVICE_MATCH_CLASS \<equiv> 4"
abbreviation (input) NPK_DEVICE_MATCH_SUBCLASS :: u16 where "NPK_DEVICE_MATCH_SUBCLASS \<equiv> 8"
abbreviation (input) NPK_DEVICE_MATCH_PROTOCOL :: u16 where "NPK_DEVICE_MATCH_PROTOCOL \<equiv> 16"
abbreviation (input) NPK_DEVICE_MATCH_INTERFACE :: u16 where "NPK_DEVICE_MATCH_INTERFACE \<equiv> 32"
abbreviation (input) NPK_DEVICE_MATCH_ALL :: u16 where "NPK_DEVICE_MATCH_ALL \<equiv> 63"

datatype npk_device_state = NPK_DEVICE_DISCOVERED | NPK_DEVICE_UNBOUND | NPK_DEVICE_PROBE_FAILED | NPK_DEVICE_BOUND

record npk_device_id =
  id_bus :: npk_device_bus
  id_flags :: u16
  id_vendor :: u16
  id_product :: u16
  id_class :: u8
  id_subclass :: u8
  id_protocol :: u8
  id_interface :: u8

record npk_device_driver =
  drv_address :: u64
  drv_name :: "string option"
  drv_ids :: "npk_device_id list option"
  drv_has_probe :: bool

record npk_device =
  dev_instance :: u32
  dev_identity :: npk_device_identity
  dev_category :: string
  dev_display_name :: string
  dev_expected_driver :: string
  dev_state :: npk_device_state
  dev_driver :: "npk_device_driver option"
  dev_last_probe :: int
  dev_attempted :: u32

record devmgr_state = ddc_state +
  dm_devices :: "npk_device list"
  dm_drivers :: "npk_device_driver list"
  dm_next_instance :: u32
  dm_initialized :: bool

definition valid_bus :: "npk_device_bus \<Rightarrow> bool" where
  "valid_bus b \<longleftrightarrow> b = NPK_DEVICE_BUS_PCI \<or> b = NPK_DEVICE_BUS_USB"

text \<open>\<^verbatim>\<open>copy_label\<close>: the label is cut to fit its array.\<close>

definition copy_label :: "nat \<Rightarrow> string \<Rightarrow> string" where
  "copy_label capacity source = take (capacity - 1) source"

definition upd_device :: "nat \<Rightarrow> (npk_device \<Rightarrow> npk_device) \<Rightarrow> 'a devmgr_state_scheme \<Rightarrow> 'a devmgr_state_scheme" where
  "upd_device i f s = s\<lparr>dm_devices := (dm_devices s)[i := f (dm_devices s ! i)]\<rparr>"

definition resolve_usb_config :: "nat \<Rightarrow> 'a devmgr_state_scheme \<Rightarrow> 'a devmgr_state_scheme" where
  "resolve_usb_config i s =
     (let identity = dev_identity (dm_devices s ! i);
          label = (\<lambda>c n x. upd_device i (\<lambda>d. d\<lparr>dev_category := copy_label TYPE_CAPACITY c,
                     dev_display_name := copy_label DISPLAY_CAPACITY n, dev_expected_driver := copy_label DRIVER_CAPACITY x\<rparr>) s)
      in if di_bus identity \<noteq> NPK_DEVICE_BUS_USB then s
         else if di_interface identity = 0xff then label ''usb_device'' ''USB device'' []
         else case device_config_resolve identity s of
             Some m \<Rightarrow> label (match_type m) (match_display_name m) (match_driver_name m)
           | None \<Rightarrow> label ''unknown'' ''Unknown USB interface'' [])"

definition flag_match :: "npk_device_id \<Rightarrow> u16 \<Rightarrow> bool \<Rightarrow> bool" where
  "flag_match i f equal \<longleftrightarrow> (id_flags i AND f = 0 \<or> equal)"

definition id_matches :: "npk_device_id \<Rightarrow> npk_device_identity \<Rightarrow> bool" where
  "id_matches i d \<longleftrightarrow>
     id_bus i = di_bus d
     \<and> flag_match i NPK_DEVICE_MATCH_VENDOR (id_vendor i = di_vendor d)
     \<and> flag_match i NPK_DEVICE_MATCH_PRODUCT (id_product i = di_product d)
     \<and> flag_match i NPK_DEVICE_MATCH_CLASS (id_class i = di_class d)
     \<and> flag_match i NPK_DEVICE_MATCH_SUBCLASS (id_subclass i = di_subclass d)
     \<and> flag_match i NPK_DEVICE_MATCH_PROTOCOL (id_protocol i = di_protocol d)
     \<and> flag_match i NPK_DEVICE_MATCH_INTERFACE (id_interface i = di_interface d)"

definition driver_matches :: "npk_device_driver \<Rightarrow> npk_device_identity \<Rightarrow> bool" where
  "driver_matches driver d \<longleftrightarrow>
     (case drv_ids driver of None \<Rightarrow> False | Some ids \<Rightarrow> \<exists>i \<in> set ids. id_matches i d)"

text \<open>The driver at position \<open>k\<close> is one the device may be bound to.\<close>

definition candidate :: "npk_device_driver \<Rightarrow> npk_device \<Rightarrow> bool" where
  "candidate driver d \<longleftrightarrow>
     driver_matches driver (dev_identity d)
     \<and> \<not> (di_bus (dev_identity d) = NPK_DEVICE_BUS_USB \<and> dev_expected_driver d \<noteq> [] \<and> drv_name driver \<noteq> Some (dev_expected_driver d))"

text \<open>The loop of \<^verbatim>\<open>bind_device\<close> over the positions \<open>ks\<close>; \<open>seen\<close> and \<open>last\<close> are \<^verbatim>\<open>matching_driver_seen\<close> and
  \<^verbatim>\<open>last_result\<close>.  The bound is tested at every turn because a probe may register drivers.\<close>

fun bind_loop ::
  "(npk_device_driver \<Rightarrow> nat \<Rightarrow> 'a devmgr_state_scheme \<Rightarrow> int \<times> 'a devmgr_state_scheme) \<Rightarrow> nat \<Rightarrow> nat list \<Rightarrow> bool \<Rightarrow> int
   \<Rightarrow> 'a devmgr_state_scheme \<Rightarrow> 'a devmgr_state_scheme" where
  "bind_loop probe i [] seen last_result s =
     upd_device i (\<lambda>d. if seen then d\<lparr>dev_driver := None, dev_state := NPK_DEVICE_PROBE_FAILED, dev_last_probe := last_result\<rparr>
                       else d\<lparr>dev_driver := None, dev_state := NPK_DEVICE_UNBOUND\<rparr>) s"
| "bind_loop probe i (k # ks) seen last_result s =
     (if k \<ge> length (dm_drivers s) then bind_loop probe i [] seen last_result s
      else let driver = dm_drivers s ! k; d = dm_devices s ! i; driver_bit = push_bit k (1 :: u32)
        in if \<not> candidate driver d then bind_loop probe i ks seen last_result s
           else if dev_attempted d AND driver_bit \<noteq> 0 then bind_loop probe i ks True last_result s
           else let s = upd_device i (\<lambda>d. d\<lparr>dev_attempted := dev_attempted d OR driver_bit\<rparr>) s;
                    (res, s) = probe driver i s;
                    s = upd_device i (\<lambda>d. d\<lparr>dev_last_probe := res\<rparr>) s
             in if res = 0 then upd_device i (\<lambda>d. d\<lparr>dev_driver := Some driver, dev_state := NPK_DEVICE_BOUND\<rparr>) s
                else bind_loop probe i ks True res s)"

definition bind_device ::
  "(npk_device_driver \<Rightarrow> nat \<Rightarrow> 'a devmgr_state_scheme \<Rightarrow> int \<times> 'a devmgr_state_scheme) \<Rightarrow> nat
   \<Rightarrow> 'a devmgr_state_scheme \<Rightarrow> 'a devmgr_state_scheme" where
  "bind_device probe i s = bind_loop probe i [0..<NPK_DEVICE_MANAGER_MAX_DRIVERS] False (dev_last_probe (dm_devices s ! i)) s"

definition devmgr_init :: "'a devmgr_state_scheme \<Rightarrow> 'a devmgr_state_scheme" where
  "devmgr_init s = device_config_reset (s\<lparr>dm_devices := [], dm_drivers := [], dm_next_instance := 1, dm_initialized := True\<rparr>)"

definition reconfigure ::
  "(npk_device_driver \<Rightarrow> nat \<Rightarrow> 'a devmgr_state_scheme \<Rightarrow> int \<times> 'a devmgr_state_scheme) \<Rightarrow> nat
   \<Rightarrow> 'a devmgr_state_scheme \<Rightarrow> 'a devmgr_state_scheme" where
  "reconfigure probe i s =
     (if i \<ge> length (dm_devices s) \<or> di_bus (dev_identity (dm_devices s ! i)) \<noteq> NPK_DEVICE_BUS_USB
         \<or> dev_state (dm_devices s ! i) = NPK_DEVICE_BOUND then s
      else bind_device probe i (resolve_usb_config i s))"

definition devmgr_load_default_config ::
  "(npk_device_driver \<Rightarrow> nat \<Rightarrow> 'a devmgr_state_scheme \<Rightarrow> int \<times> 'a devmgr_state_scheme)
   \<Rightarrow> 'a devmgr_state_scheme \<Rightarrow> (int \<times> 'a devmgr_state_scheme) option" where
  "devmgr_load_default_config probe s =
     (if \<not> dm_initialized s then Some (- errno_num EINVAL, s)
      else case device_config_load_vfs (Some ''/ddc.json'') s of
          None \<Rightarrow> None
        | Some (r, s) \<Rightarrow>
            Some (if r \<noteq> 0 then (r, s) else (0, fold (reconfigure probe) [0..<NPK_DEVICE_MANAGER_MAX_DEVICES] s)))"

definition valid_id :: "npk_device_id \<Rightarrow> bool" where
  "valid_id i \<longleftrightarrow> valid_bus (id_bus i) \<and> id_flags i \<noteq> 0 \<and> id_flags i AND NOT NPK_DEVICE_MATCH_ALL = 0"

definition rebind ::
  "(npk_device_driver \<Rightarrow> nat \<Rightarrow> 'a devmgr_state_scheme \<Rightarrow> int \<times> 'a devmgr_state_scheme) \<Rightarrow> nat
   \<Rightarrow> 'a devmgr_state_scheme \<Rightarrow> 'a devmgr_state_scheme" where
  "rebind probe i s =
     (if i < length (dm_devices s) \<and> dev_state (dm_devices s ! i) \<noteq> NPK_DEVICE_BOUND then bind_device probe i s else s)"

definition devmgr_register_driver ::
  "(npk_device_driver \<Rightarrow> nat \<Rightarrow> 'a devmgr_state_scheme \<Rightarrow> int \<times> 'a devmgr_state_scheme) \<Rightarrow> npk_device_driver option
   \<Rightarrow> 'a devmgr_state_scheme \<Rightarrow> int \<times> 'a devmgr_state_scheme" where
  "devmgr_register_driver probe driver s =
     (case driver of
        None \<Rightarrow> (- errno_num EINVAL, s)
      | Some driver \<Rightarrow>
          if \<not> dm_initialized s \<or> drv_name driver = None \<or> \<not> drv_has_probe driver then (- errno_num EINVAL, s)
          else case drv_ids driver of
              None \<Rightarrow> (- errno_num EINVAL, s)
            | Some ids \<Rightarrow>
                if ids = [] \<or> length ids > NPK_DEVICE_DRIVER_MAX_IDS \<or> \<not> (\<forall>i \<in> set ids. valid_id i) then (- errno_num EINVAL, s)
                else if drv_address driver \<in> set (map drv_address (dm_drivers s)) then (- errno_num EEXIST, s)
                else if length (dm_drivers s) \<ge> NPK_DEVICE_MANAGER_MAX_DRIVERS then (- errno_num ENOSPC, s)
                else (0, fold (rebind probe) [0..<NPK_DEVICE_MANAGER_MAX_DEVICES] (s\<lparr>dm_drivers := dm_drivers s @ [driver]\<rparr>)))"

definition fresh_device :: "u32 \<Rightarrow> npk_device_identity \<Rightarrow> npk_device" where
  "fresh_device n identity =
     \<lparr>dev_instance = n, dev_identity = identity, dev_category = [], dev_display_name = [], dev_expected_driver = [],
      dev_state = NPK_DEVICE_DISCOVERED, dev_driver = None, dev_last_probe = 0, dev_attempted = 0\<rparr>"

text \<open>The result is the index of the new device, \<open>None\<close> for a null pointer.\<close>

definition devmgr_register_device ::
  "(npk_device_driver \<Rightarrow> nat \<Rightarrow> 'a devmgr_state_scheme \<Rightarrow> int \<times> 'a devmgr_state_scheme) \<Rightarrow> npk_device_identity option
   \<Rightarrow> 'a devmgr_state_scheme \<Rightarrow> nat option \<times> 'a devmgr_state_scheme" where
  "devmgr_register_device probe identity s =
     (case identity of
        None \<Rightarrow> (None, s)
      | Some identity \<Rightarrow>
          if \<not> dm_initialized s \<or> \<not> valid_bus (di_bus identity) then (None, s)
          else if length (dm_devices s) \<ge> NPK_DEVICE_MANAGER_MAX_DEVICES then (None, s)
          else let i = length (dm_devices s);
                   s = s\<lparr>dm_devices := dm_devices s @ [fresh_device (dm_next_instance s) identity],
                         dm_next_instance := dm_next_instance s + 1\<rparr>
            in (Some i, bind_device probe i (resolve_usb_config i s)))"

definition devmgr_device_count :: "'a devmgr_state_scheme \<Rightarrow> nat" where
  "devmgr_device_count s = length (dm_devices s)"

definition devmgr_driver_count :: "'a devmgr_state_scheme \<Rightarrow> nat" where
  "devmgr_driver_count s = length (dm_drivers s)"

definition devmgr_device_at :: "nat \<Rightarrow> 'a devmgr_state_scheme \<Rightarrow> npk_device option" where
  "devmgr_device_at i s = (if i < length (dm_devices s) then Some (dm_devices s ! i) else None)"

definition devmgr_driver_at :: "nat \<Rightarrow> 'a devmgr_state_scheme \<Rightarrow> npk_device_driver option" where
  "devmgr_driver_at i s = (if i < length (dm_drivers s) then Some (dm_drivers s ! i) else None)"

end
