(* ===== verification/Pci.thy ===== *)
theory Pci
  imports Device_Manager
begin

text \<open>
  The PCI bus, \<^verbatim>\<open>src/drivers/pci.c\<close>: configuration space through the address and data ports, enumeration and
  the sizing of base address registers.  The table holds at most 64 functions.
\<close>

abbreviation (input) PCI_CONFIG_ADDRESS :: u16 where "PCI_CONFIG_ADDRESS \<equiv> 0xcf8"
abbreviation (input) PCI_CONFIG_DATA :: u16 where "PCI_CONFIG_DATA \<equiv> 0xcfc"
abbreviation (input) PCI_CONFIG_ENABLE :: u32 where "PCI_CONFIG_ENABLE \<equiv> 0x80000000"
abbreviation (input) NPK_PCI_MAX_DEVICES :: nat where "NPK_PCI_MAX_DEVICES \<equiv> 64"

record npk_pci_device =
  pci_bus :: u8
  pci_slot :: u8
  pci_function :: u8
  pci_revision :: u8
  pci_vendor_id :: u16
  pci_device_id :: u16
  pci_class_code :: u8
  pci_subclass :: u8
  pci_prog_if :: u8
  pci_header_type :: u8
  pci_irq_line :: u8
  pci_irq_pin :: u8
  pci_bars :: "u32 list"

record npk_pci_bar_info =
  bar_base :: u64
  bar_size :: u64
  bar_is_io :: bool
  bar_is_64bit :: bool
  bar_prefetchable :: bool

record pci_state = devmgr_state +
  pci_devices :: "npk_pci_device list"

definition valid_config_offset :: "u8 \<Rightarrow> bool" where
  "valid_config_offset offset \<longleftrightarrow> offset AND 3 = 0"

definition config_address :: "u8 \<Rightarrow> u8 \<Rightarrow> u8 \<Rightarrow> u8 \<Rightarrow> u32" where
  "config_address bus slot func offset =
     (PCI_CONFIG_ENABLE OR push_bit 16 (ucast bus) OR push_bit 11 (ucast slot) OR push_bit 8 (ucast func) OR ucast offset)"

definition pci_config_read32 :: "u8 \<Rightarrow> u8 \<Rightarrow> u8 \<Rightarrow> u8 \<Rightarrow> 'a io_state_scheme \<Rightarrow> u32 \<times> 'a io_state_scheme" where
  "pci_config_read32 bus slot func offset s =
     (if slot \<ge> 32 \<or> func \<ge> 8 \<or> \<not> valid_config_offset offset then (UINT32_MAX, s)
      else inl PCI_CONFIG_DATA (outl PCI_CONFIG_ADDRESS (config_address bus slot func offset) s))"

definition pci_config_write32 :: "u8 \<Rightarrow> u8 \<Rightarrow> u8 \<Rightarrow> u8 \<Rightarrow> u32 \<Rightarrow> 'a io_state_scheme \<Rightarrow> 'a io_state_scheme" where
  "pci_config_write32 bus slot func offset v s =
     (if slot \<ge> 32 \<or> func \<ge> 8 \<or> \<not> valid_config_offset offset then s
      else outl PCI_CONFIG_DATA v (outl PCI_CONFIG_ADDRESS (config_address bus slot func offset) s))"

text \<open>The part of \<^verbatim>\<open>pci_get_bar_info\<close> that writes ones to the register, reads them back and restores it.\<close>

definition probe_bar :: "npk_pci_device \<Rightarrow> u8 \<Rightarrow> bool \<Rightarrow> u16 \<Rightarrow> u32 \<Rightarrow> u32 \<Rightarrow> 'a io_state_scheme \<Rightarrow> (u32 \<times> u32) \<times> 'a io_state_scheme" where
  "probe_bar d offset is_64bit command original_low original_high s =
     (let rd = pci_config_read32 (pci_bus d) (pci_slot d) (pci_function d);
          wr = pci_config_write32 (pci_bus d) (pci_slot d) (pci_function d);
          s = wr 0x04 (ucast (command AND NOT 3)) s;
          (masks, s) =
            (if is_64bit then
               let s = wr (offset + 4) UINT32_MAX s;
                   s = wr offset UINT32_MAX s;
                   (mask_low, s) = rd offset s;
                   (mask_high, s) = rd (offset + 4) s;
                   s = wr offset original_low s;
                   s = wr (offset + 4) original_high s
               in ((mask_low, mask_high), s)
             else
               let s = wr offset UINT32_MAX s;
                   (mask_low, s) = rd offset s;
                   s = wr offset original_low s
               in ((mask_low, 0), s))
      in (masks, wr 0x04 (ucast command) s))"

text \<open>The decoding of the two values: base, mask and size.\<close>

definition decode_bar :: "bool \<Rightarrow> bool \<Rightarrow> u32 \<Rightarrow> u32 \<Rightarrow> u32 \<Rightarrow> u32 \<Rightarrow> u64 \<times> u64 \<times> u64" where
  "decode_bar is_io is_64bit original_low original_high mask_low mask_high =
     (if is_io then
        let m = mask_low AND NOT 3
        in (ucast (original_low AND NOT 3), ucast m, ucast (NOT m + 1))
      else if is_64bit then
        let m = push_bit 32 (ucast mask_high) OR ucast (mask_low AND NOT 0xf)
        in (push_bit 32 (ucast original_high) OR ucast (original_low AND NOT 0xf), m, NOT m + 1)
      else
        let m = mask_low AND NOT 0xf
        in (ucast (original_low AND NOT 0xf), ucast m, ucast (NOT m + 1)))"

text \<open>A device pointer is its index in the table.\<close>

definition pci_get_bar_info :: "nat option \<Rightarrow> u8 \<Rightarrow> 'a pci_state_scheme \<Rightarrow> npk_pci_bar_info option \<times> 'a pci_state_scheme" where
  "pci_get_bar_info device bar_index s =
     (case device of
        None \<Rightarrow> (None, s)
      | Some i \<Rightarrow>
          if i \<ge> length (pci_devices s) \<or> bar_index \<ge> 6 \<or> pci_header_type (pci_devices s ! i) AND 0x7f \<noteq> 0 then (None, s)
          else
            let d = pci_devices s ! i;
                rd = pci_config_read32 (pci_bus d) (pci_slot d) (pci_function d);
                offset = 0x10 + bar_index * 4;
                (command_status, s) = rd 0x04 s;
                (original_low, s) = rd offset s;
                is_io = (original_low AND 1 \<noteq> 0);
                memory_type = drop_bit 1 original_low AND 3;
                is_64bit = (\<not> is_io \<and> memory_type = 2);
                prefetchable = (\<not> is_io \<and> original_low AND 8 \<noteq> 0)
            in if original_low = UINT32_MAX \<or> (\<not> is_io \<and> memory_type \<noteq> 0 \<and> memory_type \<noteq> 2) \<or> (is_64bit \<and> bar_index = 5) then (None, s)
               else
                 let (original_high, s) = (if is_64bit then rd (offset + 4) s else (0, s));
                     ((mask_low, mask_high), s) = probe_bar d offset is_64bit (ucast command_status) original_low original_high s;
                     (base, m, sz) = decode_bar is_io is_64bit original_low original_high mask_low mask_high
                 in (if m = 0 \<or> sz = 0 \<or> sz AND (sz - 1) \<noteq> 0 \<or> base > UINT64_MAX - sz then None
                     else Some \<lparr>bar_base = base, bar_size = sz, bar_is_io = is_io, bar_is_64bit = is_64bit, bar_prefetchable = prefetchable\<rparr>, s))"

fun read_bars :: "u8 \<Rightarrow> u8 \<Rightarrow> u8 \<Rightarrow> u8 list \<Rightarrow> 'a io_state_scheme \<Rightarrow> u32 list \<times> 'a io_state_scheme" where
  "read_bars bus slot func [] s = ([], s)"
| "read_bars bus slot func (b # bs) s =
     (let (v, s) = pci_config_read32 bus slot func (0x10 + b * 4) s;
          (vs, s) = read_bars bus slot func bs s
      in (v # vs, s))"

definition pci_identity :: "npk_pci_device \<Rightarrow> npk_device_identity" where
  "pci_identity d =
     \<lparr>di_bus = NPK_DEVICE_BUS_PCI,
      di_location = push_bit 16 (ucast (pci_bus d)) OR push_bit 8 (ucast (pci_slot d)) OR ucast (pci_function d),
      di_vendor = pci_vendor_id d, di_product = pci_device_id d, di_class = pci_class_code d,
      di_subclass = pci_subclass d, di_protocol = pci_prog_if d, di_revision = pci_revision d, di_interface = 0xff\<rparr>"

text \<open>One turn of the innermost loop of \<^verbatim>\<open>pci_init\<close>; all three loops stop when the table is full.\<close>

definition pci_scan_function ::
  "(npk_device_driver \<Rightarrow> nat \<Rightarrow> 'a pci_state_scheme \<Rightarrow> int \<times> 'a pci_state_scheme) \<Rightarrow> u8 \<times> u8 \<times> u8 \<Rightarrow> 'a pci_state_scheme \<Rightarrow> 'a pci_state_scheme" where
  "pci_scan_function probe loc s =
     (case loc of (bus, slot, func) \<Rightarrow>
        if length (pci_devices s) \<ge> NPK_PCI_MAX_DEVICES then s
        else
          let rd = pci_config_read32 bus slot func;
              (vendor_device, s) = rd 0x00 s
          in if vendor_device AND 0xffff = 0xffff then s
             else
               let (class_revision, s) = rd 0x08 s;
                   (header, s) = rd 0x0c s;
                   (interrupt, s) = rd 0x3c s;
                   (bars, s) = read_bars bus slot func [0, 1, 2, 3, 4, 5] s;
                   d = \<lparr>pci_bus = bus, pci_slot = slot, pci_function = func, pci_revision = ucast class_revision,
                        pci_vendor_id = ucast vendor_device, pci_device_id = ucast (drop_bit 16 vendor_device),
                        pci_class_code = ucast (drop_bit 24 class_revision), pci_subclass = ucast (drop_bit 16 class_revision),
                        pci_prog_if = ucast (drop_bit 8 class_revision), pci_header_type = ucast (drop_bit 16 header),
                        pci_irq_line = ucast interrupt, pci_irq_pin = ucast (drop_bit 8 interrupt), pci_bars = bars\<rparr>
               in snd (devmgr_register_device probe (Some (pci_identity d)) (s\<lparr>pci_devices := pci_devices s @ [d]\<rparr>)))"

definition pci_locations :: "(u8 \<times> u8 \<times> u8) list" where
  "pci_locations =
     concat (map (\<lambda>b. concat (map (\<lambda>sl. map (\<lambda>f. (of_nat b, of_nat sl, of_nat f)) [0..<8]) [0..<32])) [0..<256])"

definition pci_init ::
  "(npk_device_driver \<Rightarrow> nat \<Rightarrow> 'a pci_state_scheme \<Rightarrow> int \<times> 'a pci_state_scheme) \<Rightarrow> 'a pci_state_scheme \<Rightarrow> 'a pci_state_scheme" where
  "pci_init probe s = fold (pci_scan_function probe) pci_locations (s\<lparr>pci_devices := []\<rparr>)"

definition pci_device_count :: "'a pci_state_scheme \<Rightarrow> nat" where
  "pci_device_count s = length (pci_devices s)"

definition pci_device_at :: "nat \<Rightarrow> 'a pci_state_scheme \<Rightarrow> npk_pci_device option" where
  "pci_device_at i s = (if i < length (pci_devices s) then Some (pci_devices s ! i) else None)"

end
