(* ===== verification/Acpi.thy ===== *)
theory Acpi
  imports Pci
begin

text \<open>
  Power management, \<^verbatim>\<open>src/acpi.c\<close>: finding and checking the firmware tables, the S5 package in the DSDT, the
  routing of the system control interrupt and the power button.  The tables are memory the firmware wrote
  before the kernel started: \<open>bi_mem\<close> gives the byte at a virtual address.  A pointer is its address, 0 the null
  pointer.  The registers are devices (\<open>Port_Io\<close>).
\<close>

abbreviation (input) ACPI_SYSTEM_MEMORY :: u8 where "ACPI_SYSTEM_MEMORY \<equiv> 0"
abbreviation (input) ACPI_SYSTEM_IO :: u8 where "ACPI_SYSTEM_IO \<equiv> 1"
abbreviation (input) ACPI_MAX_TABLE_LENGTH :: nat where "ACPI_MAX_TABLE_LENGTH \<equiv> 1048576"
abbreviation (input) ACPI_PKG_MAX_BYTES :: nat where "ACPI_PKG_MAX_BYTES \<equiv> 4"
abbreviation (input) sizeof_sdt_header :: nat where "sizeof_sdt_header \<equiv> 36"
abbreviation (input) sizeof_rsdp :: nat where "sizeof_rsdp \<equiv> 36"
abbreviation (input) sizeof_madt :: nat where "sizeof_madt \<equiv> 44"
abbreviation (input) POWER_BUTTON :: u16 where "POWER_BUTTON \<equiv> 0x100"

record boot_info =
  bi_hhdm :: "u64 option"
  bi_rsdp :: u64
  bi_rsdp_is_virtual :: bool
  bi_mem :: "u64 \<Rightarrow> u8"

record acpi_reg =
  reg_address :: u64
  reg_space :: u8
  reg_valid :: bool

record acpi_state = pci_state +
  acpi_initialized :: bool
  acpi_is_ready :: bool
  sci_ioapic :: bool
  sci_gsi :: u32
  sci_irq :: u8
  pm1a_event :: acpi_reg
  pm1b_event :: acpi_reg
  pm1a_control :: acpi_reg
  pm1b_control :: acpi_reg
  pm1_event_length :: u8
  pm1_control_length :: u8
  sleep_type_a :: u8
  sleep_type_b :: u8
  sleep_type_b_valid :: bool

text \<open>\<^verbatim>\<open>sci_vector\<close> is never assigned.\<close>

abbreviation (input) sci_vector :: u8 where "sci_vector \<equiv> 41"

subsection \<open>Tables\<close>

definition mem_bytes :: "boot_info \<Rightarrow> u64 \<Rightarrow> nat \<Rightarrow> u8 list" where
  "mem_bytes b p n = map (\<lambda>i. bi_mem b (p + of_nat i)) [0..<n]"

definition mem16 :: "boot_info \<Rightarrow> u64 \<Rightarrow> u16" where
  "mem16 b p = of_le16 (mem_bytes b p 2)"

definition mem32 :: "boot_info \<Rightarrow> u64 \<Rightarrow> u32" where
  "mem32 b p = of_le32 (mem_bytes b p 4)"

definition mem64 :: "boot_info \<Rightarrow> u64 \<Rightarrow> u64" where
  "mem64 b p = of_le64 (mem_bytes b p 8)"

definition bytes_equal :: "boot_info \<Rightarrow> u64 \<Rightarrow> string \<Rightarrow> bool" where
  "bytes_equal b p cs \<longleftrightarrow> mem_bytes b p (length cs) = bytes_of cs"

definition acpi_map_physical :: "boot_info \<Rightarrow> u64 \<Rightarrow> u64" where
  "acpi_map_physical b physical =
     (if physical = 0 then 0
      else case bi_hhdm b of
          None \<Rightarrow> 0
        | Some offset \<Rightarrow> if physical > UINT64_MAX - offset then 0 else physical + offset)"

definition acpi_rsdp_pointer :: "boot_info \<Rightarrow> u64" where
  "acpi_rsdp_pointer b =
     (if bi_rsdp b = 0 then 0
      else if bi_rsdp_is_virtual b then bi_rsdp b
      else acpi_map_physical b (bi_rsdp b))"

definition acpi_checksum :: "boot_info \<Rightarrow> u64 \<Rightarrow> nat \<Rightarrow> bool" where
  "acpi_checksum b p n \<longleftrightarrow>
     p \<noteq> 0 \<and> n \<noteq> 0 \<and> n \<le> ACPI_MAX_TABLE_LENGTH \<and> sum_list (mem_bytes b p n) = 0"

text \<open>\<^verbatim>\<open>header->length\<close>.\<close>

definition table_length :: "boot_info \<Rightarrow> u64 \<Rightarrow> nat" where
  "table_length b p = unat (mem32 b (p + 4))"

definition acpi_sdt_valid :: "boot_info \<Rightarrow> u64 \<Rightarrow> string \<Rightarrow> bool" where
  "acpi_sdt_valid b header signature \<longleftrightarrow>
     header \<noteq> 0 \<and> table_length b header \<ge> sizeof_sdt_header \<and> table_length b header \<le> ACPI_MAX_TABLE_LENGTH
     \<and> bytes_equal b header signature
     \<and> acpi_checksum b header (table_length b header)"

definition acpi_table_from_physical :: "boot_info \<Rightarrow> u64 \<Rightarrow> string \<Rightarrow> u64" where
  "acpi_table_from_physical b physical signature =
     (let header = acpi_map_physical b physical in if acpi_sdt_valid b header signature then header else 0)"

definition table_entry :: "boot_info \<Rightarrow> u64 \<Rightarrow> bool \<Rightarrow> nat \<Rightarrow> u64" where
  "table_entry b root xsdt i =
     (if xsdt then mem64 b (root + of_nat (sizeof_sdt_header + 8 * i))
      else ucast (mem32 b (root + of_nat (sizeof_sdt_header + 4 * i))))"

definition acpi_find_table :: "boot_info \<Rightarrow> u64 \<Rightarrow> bool \<Rightarrow> string \<Rightarrow> u64" where
  "acpi_find_table b root xsdt signature =
     (if root = 0 \<or> table_length b root < sizeof_sdt_header then 0
      else let entry_size = (if xsdt then 8 else 4);
               payload = table_length b root - sizeof_sdt_header
        in if payload mod entry_size \<noteq> 0 then 0
           else case find (\<lambda>c. c \<noteq> 0) (map (\<lambda>i. acpi_table_from_physical b (table_entry b root xsdt i) signature)
                                            [0..<payload div entry_size]) of
               None \<Rightarrow> 0
             | Some c \<Rightarrow> c)"

subsection \<open>The S5 package\<close>

text \<open>The value of a package length and the number of bytes that encode it; the list is what is available.\<close>

definition aml_package_length :: "u8 list \<Rightarrow> (nat \<times> nat) option" where
  "aml_package_length aml =
     (case aml of
        [] \<Rightarrow> None
      | c # rest \<Rightarrow>
          let follow = unat (drop_bit 6 c)
          in if follow \<ge> ACPI_PKG_MAX_BYTES \<or> follow + 1 > length aml then None
             else Some (foldr (\<lambda>i v. v OR push_bit (4 + 8 * i) (unat (rest ! i))) (rev [0..<follow]) (unat (c AND 0x0f)),
                        follow + 1))"

definition aml_integer :: "u8 list \<Rightarrow> (u8 \<times> nat) option" where
  "aml_integer aml =
     (case aml of
        [] \<Rightarrow> None
      | c # rest \<Rightarrow>
          let wide = (\<lambda>n. if length aml < n + 1 \<or> \<not> (\<forall>x \<in> set (take (n - 1) (drop 1 rest)). x = 0) then None
                          else Some (rest ! 0, n + 1))
          in if c = 0x00 then Some (0, 1)
             else if c = 0x01 then Some (1, 1)
             else if c = 0x0a then wide 1
             else if c = 0x0b then wide 2
             else if c = 0x0c then wide 4
             else if c = 0x0e then wide 8
             else None)"

text \<open>One turn of the loop of \<^verbatim>\<open>acpi_find_s5\<close>: \<open>None\<close> continues, otherwise the two sleep types, the second
  one if present.\<close>

definition s5_at :: "u8 list \<Rightarrow> nat \<Rightarrow> (u8 \<times> u8 option) option" where
  "s5_at aml i =
     (if aml ! i \<noteq> 0x08 \<or> take 4 (drop (i + 1) aml) \<noteq> bytes_of ''_S5_'' \<or> aml ! (i + 5) \<noteq> 0x12 then None
      else case aml_package_length (drop (i + 6) aml) of
          None \<Rightarrow> None
        | Some (package_length, encoded) \<Rightarrow>
            if package_length < encoded + 1 \<or> package_length > length aml - i - 6 then None
            else let package = take (package_length - encoded) (drop (i + 6 + encoded) aml)
              in if package ! 0 < 1 then None
                 else case aml_integer (drop 1 package) of
                     None \<Rightarrow> None
                   | Some (a, used_a) \<Rightarrow>
                       Some (a, if package ! 0 \<ge> 2 \<and> used_a + 1 < length package
                                then map_option fst (aml_integer (drop (1 + used_a) package)) else None))"

definition table_body :: "boot_info \<Rightarrow> u64 \<Rightarrow> u8 list" where
  "table_body b p = mem_bytes b (p + of_nat sizeof_sdt_header) (table_length b p - sizeof_sdt_header)"

definition first_s5 :: "u8 list \<Rightarrow> (u8 \<times> u8 option) option" where
  "first_s5 aml = map_option (\<lambda>i. the (s5_at aml i)) (find (\<lambda>i. s5_at aml i \<noteq> None) [0..<length aml - 6])"

definition acpi_find_s5 :: "boot_info \<Rightarrow> u64 \<Rightarrow> 'a acpi_state_scheme \<Rightarrow> bool \<times> 'a acpi_state_scheme" where
  "acpi_find_s5 b dsdt s =
     (if dsdt = 0 \<or> table_length b dsdt < sizeof_sdt_header then (False, s)
      else case first_s5 (table_body b dsdt) of
          None \<Rightarrow> (False, s)
        | Some (a, second) \<Rightarrow>
            (a < 8, s\<lparr>sleep_type_a := a, sleep_type_b := (case second of None \<Rightarrow> sleep_type_b s | Some v \<Rightarrow> v),
                      sleep_type_b_valid := (second \<noteq> None)\<rparr>))"

subsection \<open>Registers\<close>

definition acpi_reg_from_gas :: "boot_info \<Rightarrow> u64 \<Rightarrow> acpi_reg" where
  "acpi_reg_from_gas b gas =
     (let address = mem64 b (gas + 4); space = bi_mem b gas
      in \<lparr>reg_address = address, reg_space = space,
          reg_valid = (address \<noteq> 0 \<and> (space = ACPI_SYSTEM_MEMORY \<or> space = ACPI_SYSTEM_IO))\<rparr>)"

definition acpi_reg_from_legacy :: "u32 \<Rightarrow> acpi_reg" where
  "acpi_reg_from_legacy address = \<lparr>reg_address = ucast address, reg_space = ACPI_SYSTEM_IO, reg_valid = (address \<noteq> 0)\<rparr>"

definition acpi_read16 :: "boot_info \<Rightarrow> acpi_reg \<Rightarrow> u16 \<Rightarrow> 'a io_state_scheme \<Rightarrow> u16 \<times> 'a io_state_scheme" where
  "acpi_read16 b reg offset s =
     (if \<not> reg_valid reg \<or> reg_address reg > UINT64_MAX - ucast offset then (0, s)
      else let address = reg_address reg + ucast offset
        in if reg_space reg = ACPI_SYSTEM_IO then (if address > 0xffff then (0, s) else inw (ucast address) s)
           else let memory = acpi_map_physical b address in if memory = 0 then (0, s) else load16 memory s)"

definition acpi_write16 :: "boot_info \<Rightarrow> acpi_reg \<Rightarrow> u16 \<Rightarrow> u16 \<Rightarrow> 'a io_state_scheme \<Rightarrow> bool \<times> 'a io_state_scheme" where
  "acpi_write16 b reg offset v s =
     (if \<not> reg_valid reg \<or> reg_address reg > UINT64_MAX - ucast offset then (False, s)
      else let address = reg_address reg + ucast offset
        in if reg_space reg = ACPI_SYSTEM_IO then (if address > 0xffff then (False, s) else (True, outw (ucast address) v s))
           else let memory = acpi_map_physical b address in if memory = 0 then (False, s) else (True, store16 memory v s))"

definition ioapic_read :: "boot_info \<Rightarrow> u64 \<Rightarrow> u8 \<Rightarrow> 'a io_state_scheme \<Rightarrow> u32 \<times> 'a io_state_scheme" where
  "ioapic_read b physical register_number s =
     (let select = acpi_map_physical b physical; window = acpi_map_physical b (physical + 0x10)
      in if select = 0 \<or> window = 0 then (0, s) else load32 window (store32 select (ucast register_number) s))"

definition ioapic_write :: "boot_info \<Rightarrow> u64 \<Rightarrow> u8 \<Rightarrow> u32 \<Rightarrow> 'a io_state_scheme \<Rightarrow> bool \<times> 'a io_state_scheme" where
  "ioapic_write b physical register_number v s =
     (let select = acpi_map_physical b physical; window = acpi_map_physical b (physical + 0x10)
      in if select = 0 \<or> window = 0 then (False, s) else (True, store32 window v (store32 select (ucast register_number) s)))"

subsection \<open>Routing the interrupt\<close>

text \<open>The entries of the interrupt controller table: the loops of \<^verbatim>\<open>acpi_route_sci_ioapic\<close> stop at the first
  entry whose length is impossible.\<close>

function madt_entries :: "u8 list \<Rightarrow> u8 list list" where
  "madt_entries bs =
     (if length bs < 2 then []
      else let len = unat (bs ! 1)
        in if len < 2 \<or> len > length bs then [] else take len bs # madt_entries (drop len bs))"
  by pat_completeness auto
termination by (relation "measure length") auto

declare madt_entries.simps [simp del]

definition sci_gsi_of :: "u8 \<Rightarrow> u8 list list \<Rightarrow> u32" where
  "sci_gsi_of irq es =
     fold (\<lambda>e gsi. if e ! 0 = 2 \<and> length e \<ge> 10 \<and> e ! 2 = 0 \<and> e ! 3 = irq then of_le32 (field 4 4 e) else gsi) es (ucast irq)"

fun find_ioapic :: "boot_info \<Rightarrow> u32 \<Rightarrow> u8 list list \<Rightarrow> 'a io_state_scheme \<Rightarrow> (u64 \<times> u32) option \<times> 'a io_state_scheme" where
  "find_ioapic b gsi [] s = (None, s)"
| "find_ioapic b gsi (e # es) s =
     (if e ! 0 = 1 \<and> length e \<ge> 12 then
        let address = ucast (of_le32 (field 4 4 e)); base = of_le32 (field 8 4 e);
            (v, s) = ioapic_read b address 1 s;
            max_redirection = drop_bit 16 v AND 0xff
        in if gsi \<ge> base \<and> gsi - base \<le> max_redirection then (Some (address, base), s) else find_ioapic b gsi es s
      else find_ioapic b gsi es s)"

definition acpi_route_sci_ioapic :: "boot_info \<Rightarrow> u64 \<Rightarrow> bool \<Rightarrow> 'a acpi_state_scheme \<Rightarrow> bool \<times> 'a acpi_state_scheme" where
  "acpi_route_sci_ioapic b root xsdt s =
     (if sci_irq s = 0xff then (False, s)
      else let madt = acpi_find_table b root xsdt ''APIC''
        in if madt = 0 \<or> table_length b madt < sizeof_madt then (False, s)
           else let es = madt_entries (mem_bytes b (madt + of_nat sizeof_madt) (table_length b madt - sizeof_madt));
                    gsi = sci_gsi_of (sci_irq s) es
             in (case find_ioapic b gsi es s of
                   (None, s) \<Rightarrow> (False, s)
                 | (Some (ioapic, base), s) \<Rightarrow>
                     let lapic = acpi_map_physical b (ucast (mem32 b (madt + 36)))
                     in if ioapic = 0 \<or> lapic = 0 then (False, s)
                        else let (v, s) = load32 (lapic + 0x20) s;
                                 lapic_id = drop_bit 24 v AND 0xff;
                                 redirection = ucast (2 * (gsi - base)) :: u8;
                                 low = ucast sci_vector OR push_bit 13 1 OR push_bit 15 1;
                                 (ok, s) = ioapic_write b ioapic (redirection + 1) (push_bit 24 lapic_id) s
                             in if \<not> ok then (False, s)
                                else let (ok, s) = ioapic_write b ioapic redirection low s
                                  in if \<not> ok then (False, s)
                                     else let (v, s) = load32 (lapic + 0xf0) s;
                                              s = store32 (lapic + 0xf0) (v OR 0x1ff) s
                                       in (True, s\<lparr>sci_ioapic := True, sci_gsi := gsi\<rparr>)))"

subsection \<open>Initialisation\<close>

fun await_sci_enable :: "boot_info \<Rightarrow> nat \<Rightarrow> 'a acpi_state_scheme \<Rightarrow> 'a acpi_state_scheme" where
  "await_sci_enable b 0 s = s"
| "await_sci_enable b (Suc n) s =
     (let (v, s) = acpi_read16 b (pm1a_control s) 0 s in if v AND 1 \<noteq> 0 then s else await_sci_enable b n s)"

definition acpi_enable_mode :: "boot_info \<Rightarrow> u64 \<Rightarrow> 'a acpi_state_scheme \<Rightarrow> 'a acpi_state_scheme" where
  "acpi_enable_mode b fadt s =
     (if \<not> reg_valid (pm1a_control s) \<or> pm1_control_length s < 2 then s
      else let (v, s) = acpi_read16 b (pm1a_control s) 0 s
        in if v AND 1 \<noteq> 0 then s
           else let smi_command = mem32 b (fadt + 48); enable = bi_mem b (fadt + 52)
             in if smi_command = 0 \<or> enable = 0 then s
                else await_sci_enable b 10000 (outb (ucast smi_command) enable s))"

definition enable_button :: "boot_info \<Rightarrow> acpi_reg \<Rightarrow> 'a acpi_state_scheme \<Rightarrow> 'a acpi_state_scheme" where
  "enable_button b reg s =
     (let s = snd (acpi_write16 b reg 0 POWER_BUTTON s);
          (v, s) = acpi_read16 b reg 2 s
      in snd (acpi_write16 b reg 2 (v OR POWER_BUTTON) s))"

definition acpi_enable_power_button :: "boot_info \<Rightarrow> 'a acpi_state_scheme \<Rightarrow> 'a acpi_state_scheme" where
  "acpi_enable_power_button b s =
     (if \<not> reg_valid (pm1a_event s) \<or> pm1_event_length s < 4 then s
      else let s = enable_button b (pm1a_event s) s
        in if reg_valid (pm1b_event s) then enable_button b (pm1b_event s) s else s)"

text \<open>The registers the FADT names; the extended ones of a long enough table take precedence.\<close>

definition fadt_register :: "boot_info \<Rightarrow> u64 \<Rightarrow> u64 \<Rightarrow> u64 \<Rightarrow> acpi_reg" where
  "fadt_register b fadt legacy extended =
     (if table_length b fadt \<ge> 196 \<and> mem64 b (fadt + extended + 4) \<noteq> 0 then acpi_reg_from_gas b (fadt + extended)
      else acpi_reg_from_legacy (mem32 b (fadt + legacy)))"

definition read_fadt :: "boot_info \<Rightarrow> u64 \<Rightarrow> 'a acpi_state_scheme \<Rightarrow> 'a acpi_state_scheme" where
  "read_fadt b fadt s =
     s\<lparr>sci_irq := (if mem16 b (fadt + 46) \<le> 255 then ucast (mem16 b (fadt + 46)) else 0xff),
       pm1_event_length := bi_mem b (fadt + 88), pm1_control_length := bi_mem b (fadt + 89),
       pm1a_event := fadt_register b fadt 56 148, pm1b_event := fadt_register b fadt 60 160,
       pm1a_control := fadt_register b fadt 64 172, pm1b_control := fadt_register b fadt 68 184\<rparr>"

definition dsdt_pointer :: "boot_info \<Rightarrow> u64 \<Rightarrow> u64" where
  "dsdt_pointer b fadt =
     (let extended = mem64 b (fadt + 140)
      in if table_length b fadt \<ge> 148 \<and> extended \<noteq> 0 then extended else ucast (mem32 b (fadt + 40)))"

definition acpi_init :: "boot_info \<Rightarrow> 'a acpi_state_scheme \<Rightarrow> 'a acpi_state_scheme" where
  "acpi_init b s =
     (let s = s\<lparr>acpi_initialized := True, acpi_is_ready := False\<rparr>; rsdp = acpi_rsdp_pointer b
      in if bi_rsdp b = 0 \<or> rsdp = 0 \<or> \<not> bytes_equal b rsdp ''RSD PTR '' \<or> \<not> acpi_checksum b rsdp 20 then s
         else
           let revision = bi_mem b (rsdp + 15); len = unat (mem32 b (rsdp + 20)); xsdt = mem64 b (rsdp + 24);
               extended_valid = (revision < 2 \<or> (len \<ge> sizeof_rsdp \<and> acpi_checksum b rsdp len));
               use_xsdt = (revision \<ge> 2 \<and> extended_valid \<and> xsdt \<noteq> 0);
               root = acpi_table_from_physical b (if use_xsdt then xsdt else ucast (mem32 b (rsdp + 16)))
                        (if use_xsdt then ''XSDT'' else ''RSDT'')
           in if root = 0 then s
              else let fadt = acpi_find_table b root use_xsdt ''FACP''
                in if fadt = 0 \<or> table_length b fadt < 91 then s
                   else let s = read_fadt b fadt s; dsdt = acpi_table_from_physical b (dsdt_pointer b fadt) ''DSDT''
                     in if dsdt = 0 then s
                        else let (found_s5, s) = acpi_find_s5 b dsdt s
                          in if \<not> found_s5 then s
                             else let s = acpi_enable_power_button b (acpi_enable_mode b fadt s);
                                      ok = (reg_valid (pm1a_event s) \<and> reg_valid (pm1a_control s)
                                            \<and> pm1_event_length s \<ge> 4 \<and> pm1_control_length s \<ge> 2);
                                      s = s\<lparr>acpi_is_ready := ok\<rparr>;
                                      (routed, s) = (if ok then acpi_route_sci_ioapic b root use_xsdt s else (False, s))
                               in if routed then s else s\<lparr>sci_ioapic := False\<rparr>)"

definition acpi_available :: "'a acpi_state_scheme \<Rightarrow> bool" where
  "acpi_available s \<longleftrightarrow> acpi_initialized s \<and> acpi_is_ready s"

definition acpi_sci_irq :: "'a acpi_state_scheme \<Rightarrow> u8" where
  "acpi_sci_irq s = sci_irq s"

subsection \<open>Events\<close>

text \<open>\<^verbatim>\<open>acpi_poweroff\<close> does not return: its result is the state in which the processor stops.\<close>

definition sleep_command :: "u8 \<Rightarrow> u16" where
  "sleep_command t = (push_bit 10 (ucast t) OR push_bit 13 1)"

definition acpi_poweroff :: "boot_info \<Rightarrow> 'a acpi_state_scheme \<Rightarrow> 'a acpi_state_scheme" where
  "acpi_poweroff b s =
     (if \<not> acpi_available s then s
      else let value_b = sleep_command (sleep_type_b s); s = snd (acpi_write16 b (pm1a_control s) 0 (sleep_command (sleep_type_a s)) s)
        in if reg_valid (pm1b_control s) \<and> sleep_type_b_valid s then snd (acpi_write16 b (pm1b_control s) 0 value_b s) else s)"

definition acpi_handle_power_button :: "boot_info \<Rightarrow> 'a acpi_state_scheme \<Rightarrow> unit outcome \<times> 'a acpi_state_scheme" where
  "acpi_handle_power_button b s =
     (if \<not> acpi_available s then (Returns (), s)
      else let (status, s) = acpi_read16 b (pm1a_event s) 0 s;
               (enable, s) = acpi_read16 b (pm1a_event s) 2 s
        in if status AND POWER_BUTTON = 0 \<or> enable AND POWER_BUTTON = 0 then (Returns (), s)
           else let s = snd (acpi_write16 b (pm1a_event s) 0 POWER_BUTTON s);
                    s = (if reg_valid (pm1b_event s) then snd (acpi_write16 b (pm1b_event s) 0 POWER_BUTTON s) else s)
             in (Halts, acpi_poweroff b s))"

definition acpi_irq_dispatch :: "boot_info \<Rightarrow> 'a acpi_state_scheme \<Rightarrow> unit outcome \<times> 'a acpi_state_scheme" where
  "acpi_irq_dispatch b s = acpi_handle_power_button b s"

definition acpi_poll :: "boot_info \<Rightarrow> 'a acpi_state_scheme \<Rightarrow> unit outcome \<times> 'a acpi_state_scheme" where
  "acpi_poll b s = acpi_handle_power_button b s"

definition irq9_dispatch :: "boot_info \<Rightarrow> 'a acpi_state_scheme \<Rightarrow> unit outcome \<times> 'a acpi_state_scheme" where
  "irq9_dispatch b s =
     (case acpi_irq_dispatch b s of
        (Returns _, s) \<Rightarrow> (Returns (), outb 0x20 0x20 (outb 0xa0 0x20 s))
      | (r, s) \<Rightarrow> (r, s))"

end
