(* ===== verification/Xhci.thy ===== *)
theory Xhci
  imports Acpi
begin

text \<open>
  The xHCI host controller driver, \<^verbatim>\<open>src/drivers/xhci.c\<close>.  The registers behind \<^verbatim>\<open>xhci.mmio\<close> and the pages lent to
  the controller are accessed by the loads and stores of \<open>Port_Io\<close>, in the order of the code; what the
  controller answers is arbitrary.  The waiting loops count down from their limits.  Log messages are left out.
\<close>

abbreviation (input) XHCI_TRB_COUNT :: nat where "XHCI_TRB_COUNT \<equiv> 16"
abbreviation (input) XHCI_EVENT_COUNT :: nat where "XHCI_EVENT_COUNT \<equiv> 64"
abbreviation (input) XHCI_MAX_SLOTS :: u8 where "XHCI_MAX_SLOTS \<equiv> 16"
abbreviation (input) XHCI_MAX_PORTS :: u8 where "XHCI_MAX_PORTS \<equiv> 64"
abbreviation (input) XHCI_DMA_PAGE_LIMIT :: nat where "XHCI_DMA_PAGE_LIMIT \<equiv> 96"
abbreviation (input) XHCI_MMIO_LIMIT :: u64 where "XHCI_MMIO_LIMIT \<equiv> 0x1000000"
abbreviation (input) XHCI_POLL_LIMIT :: nat where "XHCI_POLL_LIMIT \<equiv> 20000000"
abbreviation (input) XHCI_USBSTS :: u32 where "XHCI_USBSTS \<equiv> 4"
abbreviation (input) XHCI_STS_HALTED :: u32 where "XHCI_STS_HALTED \<equiv> 1"
abbreviation (input) XHCI_STS_ERRORS :: u32 where "XHCI_STS_ERRORS \<equiv> 0x1004"
abbreviation (input) XHCI_PORT_CONNECTED :: u32 where "XHCI_PORT_CONNECTED \<equiv> 1"
abbreviation (input) XHCI_PORT_ENABLED :: u32 where "XHCI_PORT_ENABLED \<equiv> 2"
abbreviation (input) XHCI_PORT_RESET :: u32 where "XHCI_PORT_RESET \<equiv> 0x10"
abbreviation (input) XHCI_PORT_POWER :: u32 where "XHCI_PORT_POWER \<equiv> 0x200"
abbreviation (input) XHCI_PORT_WRC :: u32 where "XHCI_PORT_WRC \<equiv> 0x80000"
abbreviation (input) XHCI_PORT_PRC :: u32 where "XHCI_PORT_PRC \<equiv> 0x200000"
abbreviation (input) XHCI_PORT_WARM_RESET :: u32 where "XHCI_PORT_WARM_RESET \<equiv> 0x80000000"
abbreviation (input) XHCI_PORT_CHANGE_MASK :: u32 where "XHCI_PORT_CHANGE_MASK \<equiv> 0x00fe0000"
abbreviation (input) XHCI_TRB_CHAIN :: u32 where "XHCI_TRB_CHAIN \<equiv> 0x10"
abbreviation (input) XHCI_TRB_IOC :: u32 where "XHCI_TRB_IOC \<equiv> 0x20"
abbreviation (input) XHCI_TRB_IDT :: u32 where "XHCI_TRB_IDT \<equiv> 0x40"
abbreviation (input) XHCI_TRB_DIR_IN :: u32 where "XHCI_TRB_DIR_IN \<equiv> 0x10000"

record xhci_trb =
  trb_parameter :: u64
  trb_status :: u32
  trb_control :: u32

record xhci_slot =
  sl_active :: bool
  sl_slot_id :: u8
  sl_root_port :: u8
  sl_speed :: u8
  sl_ep0_max_packet :: u16
  sl_input_context_phys :: paddr
  sl_output_context_phys :: paddr
  sl_ep0_ring_phys :: paddr
  sl_ep0_ring :: vaddr
  sl_ep0_enqueue_index :: nat
  sl_ep0_cycle :: bool
  sl_interrupt_ring_phys :: paddr
  sl_interrupt_ring :: vaddr
  sl_interrupt_enqueue_index :: nat
  sl_interrupt_cycle :: bool
  sl_interrupt_endpoint_id :: u8
  sl_interrupt_packet_size :: u16
  sl_report_buffer_phys :: paddr
  sl_report_buffer :: vaddr
  sl_pending_transfer_phys :: u64
  sl_interrupt_configured :: bool
  sl_interrupt_started :: bool
  sl_interrupt_pending :: bool

record xhci_controller =
  xc_active :: bool
  xc_port_power_control :: bool
  xc_context_64 :: bool
  xc_max_ports :: u8
  xc_max_slots_enabled :: u8
  xc_hci_version :: u16
  xc_bar_command_original :: u32
  xc_pci_command_modified :: bool
  xc_start_attempted :: bool
  xc_cap_length :: u32
  xc_operational_offset :: u32
  xc_doorbell_offset :: u32
  xc_runtime_offset :: u32
  xc_bar_size :: u64
  xc_mmio :: vaddr
  xc_command_ring :: vaddr
  xc_event_ring :: vaddr
  xc_erst :: vaddr
  xc_command_enqueue_index :: nat
  xc_command_cycle :: bool
  xc_event_dequeue_index :: nat
  xc_event_cycle :: bool
  xc_port_protocol :: "nat \<Rightarrow> u8"
  xc_slots :: "nat \<Rightarrow> xhci_slot"
  xc_dcbaa_phys :: paddr
  xc_dcbaa :: vaddr
  xc_command_ring_phys :: paddr
  xc_event_ring_phys :: paddr
  xc_erst_phys :: paddr
  xc_descriptor_page_phys :: paddr
  xc_descriptor_page :: vaddr
  xc_dma_pages :: "paddr list"
  xc_pci_bus :: u8
  xc_pci_slot :: u8
  xc_pci_function :: u8

record xhci_state = acpi_state +
  xhci :: xhci_controller
  xhci_quarantined :: bool

definition zero_slot :: xhci_slot where
  "zero_slot = \<lparr>sl_active = False, sl_slot_id = 0, sl_root_port = 0, sl_speed = 0, sl_ep0_max_packet = 0, sl_input_context_phys = 0,
     sl_output_context_phys = 0, sl_ep0_ring_phys = 0, sl_ep0_ring = 0, sl_ep0_enqueue_index = 0, sl_ep0_cycle = False,
     sl_interrupt_ring_phys = 0, sl_interrupt_ring = 0, sl_interrupt_enqueue_index = 0, sl_interrupt_cycle = False,
     sl_interrupt_endpoint_id = 0, sl_interrupt_packet_size = 0, sl_report_buffer_phys = 0, sl_report_buffer = 0,
     sl_pending_transfer_phys = 0, sl_interrupt_configured = False, sl_interrupt_started = False, sl_interrupt_pending = False\<rparr>"

definition zero_controller :: xhci_controller where
  "zero_controller = \<lparr>xc_active = False, xc_port_power_control = False, xc_context_64 = False, xc_max_ports = 0, xc_max_slots_enabled = 0,
     xc_hci_version = 0, xc_bar_command_original = 0, xc_pci_command_modified = False, xc_start_attempted = False, xc_cap_length = 0,
     xc_operational_offset = 0, xc_doorbell_offset = 0, xc_runtime_offset = 0, xc_bar_size = 0, xc_mmio = 0, xc_command_ring = 0,
     xc_event_ring = 0, xc_erst = 0, xc_command_enqueue_index = 0, xc_command_cycle = False, xc_event_dequeue_index = 0,
     xc_event_cycle = False, xc_port_protocol = (\<lambda>_. 0), xc_slots = (\<lambda>_. zero_slot), xc_dcbaa_phys = 0, xc_dcbaa = 0,
     xc_command_ring_phys = 0, xc_event_ring_phys = 0, xc_erst_phys = 0, xc_descriptor_page_phys = 0, xc_descriptor_page = 0,
     xc_dma_pages = [], xc_pci_bus = 0, xc_pci_slot = 0, xc_pci_function = 0\<rparr>"

definition upd_xhci :: "(xhci_controller \<Rightarrow> xhci_controller) \<Rightarrow> 'a xhci_state_scheme \<Rightarrow> 'a xhci_state_scheme" where
  "upd_xhci f s = s\<lparr>xhci := f (xhci s)\<rparr>"

definition the_slot :: "u8 \<Rightarrow> 'a xhci_state_scheme \<Rightarrow> xhci_slot" where
  "the_slot i s = xc_slots (xhci s) (unat i)"

definition upd_slot :: "u8 \<Rightarrow> (xhci_slot \<Rightarrow> xhci_slot) \<Rightarrow> 'a xhci_state_scheme \<Rightarrow> 'a xhci_state_scheme" where
  "upd_slot i f s = upd_xhci (\<lambda>x. x\<lparr>xc_slots := (xc_slots x)(unat i := f (xc_slots x (unat i)))\<rparr>) s"

definition cycle_bit :: "bool \<Rightarrow> u32" where
  "cycle_bit c = (if c then 1 else 0)"

subsection \<open>Registers\<close>

text \<open>The address of a register, 0 when it lies outside the mapped window.\<close>

definition reg32 :: "u32 \<Rightarrow> 'a xhci_state_scheme \<Rightarrow> vaddr" where
  "reg32 offset s =
     (let x = xhci s
      in if xc_mmio x = 0 \<or> ucast offset > xc_bar_size x \<or> xc_bar_size x - ucast offset < 4 then 0
         else xc_mmio x + ucast offset)"

definition read_reg32 :: "u32 \<Rightarrow> 'a xhci_state_scheme \<Rightarrow> u32 \<times> 'a xhci_state_scheme" where
  "read_reg32 offset s = (if reg32 offset s = 0 then (UINT32_MAX, s) else load32 (reg32 offset s) s)"

definition write_reg32 :: "u32 \<Rightarrow> u32 \<Rightarrow> 'a xhci_state_scheme \<Rightarrow> bool \<times> 'a xhci_state_scheme" where
  "write_reg32 offset v s = (if reg32 offset s = 0 then (False, s) else (True, store32 (reg32 offset s) v s))"

definition write_reg64_low_high :: "u32 \<Rightarrow> u64 \<Rightarrow> 'a xhci_state_scheme \<Rightarrow> bool \<times> 'a xhci_state_scheme" where
  "write_reg64_low_high offset v s =
     (if reg32 offset s = 0 \<or> reg32 (offset + 4) s = 0 then (False, s)
      else case write_reg32 offset (ucast v) s of
          (False, s) \<Rightarrow> (False, s)
        | (True, s) \<Rightarrow> write_reg32 (offset + 4) (ucast (drop_bit 32 v)) s)"

definition write_reg64_high_low :: "u32 \<Rightarrow> u64 \<Rightarrow> 'a xhci_state_scheme \<Rightarrow> bool \<times> 'a xhci_state_scheme" where
  "write_reg64_high_low offset v s =
     (if reg32 offset s = 0 \<or> reg32 (offset + 4) s = 0 then (False, s)
      else case write_reg32 (offset + 4) (ucast (drop_bit 32 v)) s of
          (False, s) \<Rightarrow> (False, s)
        | (True, s) \<Rightarrow> write_reg32 offset (ucast v) s)"

text \<open>The loop of \<^verbatim>\<open>wait_reg\<close>, \<open>n\<close> turns left.\<close>

fun wait_reg_loop :: "nat \<Rightarrow> u32 \<Rightarrow> u32 \<Rightarrow> u32 \<Rightarrow> 'a xhci_state_scheme \<Rightarrow> bool \<times> 'a xhci_state_scheme" where
  "wait_reg_loop n offset m expected s =
     (if n = 0 then (False, s)
      else let (v, s) = read_reg32 offset s
        in if v = UINT32_MAX then (False, s)
           else if v AND m = expected then (True, s)
           else if offset = xc_operational_offset (xhci s) + XHCI_USBSTS \<and> v AND XHCI_STS_ERRORS \<noteq> 0 then (False, s)
           else wait_reg_loop (n - 1) offset m expected s)"

declare wait_reg_loop.simps [simp del]

definition wait_reg :: "u32 \<Rightarrow> u32 \<Rightarrow> u32 \<Rightarrow> 'a xhci_state_scheme \<Rightarrow> bool \<times> 'a xhci_state_scheme" where
  "wait_reg offset m expected s = wait_reg_loop XHCI_POLL_LIMIT offset m expected s"

subsection \<open>Pages lent to the controller\<close>

text \<open>The physical address and the pointer, both 0 on failure.\<close>

definition alloc_dma_page :: "'a xhci_state_scheme \<Rightarrow> (paddr \<times> vaddr) \<times> 'a xhci_state_scheme" where
  "alloc_dma_page s =
     (if length (xc_dma_pages (xhci s)) \<ge> XHCI_DMA_PAGE_LIMIT then ((0, 0), s)
      else let (page, s) = pmm_alloc_page s
        in if page = 0 then ((0, 0), s)
           else if page \<ge> 0x100000000 then ((0, 0), pmm_free_page page s)
           else let p = phys_to_virt s page;
                    s = store_block p (zeros 4096) s
             in ((page, p), upd_xhci (\<lambda>x. x\<lparr>xc_dma_pages := xc_dma_pages x @ [page]\<rparr>) s))"

definition free_dma_pages :: "'a xhci_state_scheme \<Rightarrow> 'a xhci_state_scheme" where
  "free_dma_pages s = upd_xhci (\<lambda>x. x\<lparr>xc_dma_pages := []\<rparr>) (fold pmm_free_page (xc_dma_pages (xhci s)) s)"

subsection \<open>Rings\<close>

definition trb_address :: "u64 \<Rightarrow> nat \<Rightarrow> u64" where
  "trb_address ring i = ring + of_nat i * 16"

text \<open>A transfer request block is written with its cycle bit last.\<close>

definition write_trb :: "vaddr \<Rightarrow> u64 \<Rightarrow> u32 \<Rightarrow> u32 \<Rightarrow> 'a io_state_scheme \<Rightarrow> 'a io_state_scheme" where
  "write_trb p parameter status control s =
     store32 (p + 12) control (store32 (p + 8) status (store64 p parameter (store32 (p + 12) 0 s)))"

definition write_link_trb :: "vaddr \<Rightarrow> paddr \<Rightarrow> bool \<Rightarrow> 'a io_state_scheme \<Rightarrow> 'a io_state_scheme" where
  "write_link_trb ring ring_phys cycle s =
     write_trb (trb_address ring (XHCI_TRB_COUNT - 1)) ring_phys 0 (push_bit 10 6 OR 2 OR cycle_bit cycle) s"

definition next_event :: "'a xhci_state_scheme \<Rightarrow> xhci_trb option \<times> 'a xhci_state_scheme" where
  "next_event s =
     (let x = xhci s;
          source = trb_address (xc_event_ring x) (xc_event_dequeue_index x);
          (control, s) = load32 (source + 12) s
      in if control AND 1 \<noteq> cycle_bit (xc_event_cycle x) then (None, s)
         else let (parameter, s) = load64 source s;
                  (status, s) = load32 (source + 8) s;
                  i = xc_event_dequeue_index x + 1;
                  s = upd_xhci (\<lambda>x. if i = XHCI_EVENT_COUNT then x\<lparr>xc_event_dequeue_index := 0, xc_event_cycle := \<not> xc_event_cycle x\<rparr>
                                    else x\<lparr>xc_event_dequeue_index := i\<rparr>) s;
                  dequeue = trb_address (xc_event_ring_phys (xhci s)) (xc_event_dequeue_index (xhci s)) OR 8;
                  s = snd (write_reg64_high_low (xc_runtime_offset (xhci s) + 0x38) dequeue s)
           in (Some \<lparr>trb_parameter = parameter, trb_status = status, trb_control = control\<rparr>, s))"

definition trb_type :: "xhci_trb \<Rightarrow> u32" where
  "trb_type e = drop_bit 10 (trb_control e) AND 0x3f"

definition trb_slot :: "xhci_trb \<Rightarrow> u8" where
  "trb_slot e = ucast (drop_bit 24 (trb_control e))"

definition trb_endpoint :: "xhci_trb \<Rightarrow> u8" where
  "trb_endpoint e = ucast (drop_bit 16 (trb_control e) AND 0x1f)"

definition trb_completion :: "xhci_trb \<Rightarrow> u8" where
  "trb_completion e = ucast (drop_bit 24 (trb_status e))"

definition trb_residual :: "xhci_trb \<Rightarrow> u32" where
  "trb_residual e = trb_status e AND 0x00ffffff"

definition event_expected :: "u32 \<Rightarrow> u64 \<Rightarrow> u8 \<Rightarrow> xhci_trb \<Rightarrow> bool" where
  "event_expected expected_type target slot e \<longleftrightarrow>
     trb_type e = expected_type \<and> (target = 0 \<or> trb_parameter e = target) \<and> (slot = 0 \<or> trb_slot e = slot)"

fun wait_event_loop :: "nat \<Rightarrow> u32 \<Rightarrow> u64 \<Rightarrow> u8 \<Rightarrow> 'a xhci_state_scheme \<Rightarrow> xhci_trb option \<times> 'a xhci_state_scheme" where
  "wait_event_loop n expected_type target slot s =
     (if n = 0 then (None, s)
      else case next_event s of
          (None, s) \<Rightarrow> wait_event_loop (n - 1) expected_type target slot s
        | (Some e, s) \<Rightarrow>
            if event_expected expected_type target slot e then (Some e, s)
            else wait_event_loop (n - 1) expected_type target slot s)"

declare wait_event_loop.simps [simp del]

definition wait_event :: "u32 \<Rightarrow> u64 \<Rightarrow> u8 \<Rightarrow> 'a xhci_state_scheme \<Rightarrow> xhci_trb option \<times> 'a xhci_state_scheme" where
  "wait_event expected_type target slot s = wait_event_loop XHCI_POLL_LIMIT expected_type target slot s"

definition advance_command_ring :: "'a xhci_state_scheme \<Rightarrow> 'a xhci_state_scheme" where
  "advance_command_ring s =
     (let i = xc_command_enqueue_index (xhci s) + 1
      in if i = XHCI_TRB_COUNT - 1
         then let s = write_link_trb (xc_command_ring (xhci s)) (xc_command_ring_phys (xhci s)) (xc_command_cycle (xhci s)) s
           in upd_xhci (\<lambda>x. x\<lparr>xc_command_enqueue_index := 0, xc_command_cycle := \<not> xc_command_cycle x\<rparr>) s
         else upd_xhci (\<lambda>x. x\<lparr>xc_command_enqueue_index := i\<rparr>) s)"

text \<open>The result is the success of the command and the slot its completion names, \<open>None\<close> if there was none.\<close>

definition issue_command :: "u32 \<Rightarrow> u64 \<Rightarrow> u32 \<Rightarrow> u32 \<Rightarrow> u8 \<Rightarrow> 'a xhci_state_scheme \<Rightarrow> (bool \<times> u8 option) \<times> 'a xhci_state_scheme" where
  "issue_command kind parameter status extra_control slot_id s =
     (let x = xhci s; i = xc_command_enqueue_index x;
          control = push_bit 10 kind OR extra_control OR cycle_bit (xc_command_cycle x) OR push_bit 24 (ucast slot_id);
          s = write_trb (trb_address (xc_command_ring x) i) parameter status control s
      in case write_reg32 (xc_doorbell_offset x) 0 s of
           (False, s) \<Rightarrow> ((False, None), s)
         | (True, s) \<Rightarrow>
             (case wait_event 33 (trb_address (xc_command_ring_phys x) i) 0 s of
                (None, s) \<Rightarrow> ((False, None), s)
              | (Some e, s) \<Rightarrow> ((trb_completion e = 1, Some (trb_slot e)), advance_command_ring s)))"

subsection \<open>Capabilities\<close>

fun wait_legacy :: "nat \<Rightarrow> u32 \<Rightarrow> 'a xhci_state_scheme \<Rightarrow> 'a xhci_state_scheme" where
  "wait_legacy n offset s =
     (if n = 0 then s
      else let (v, s) = read_reg32 offset s in if v AND 0x10000 = 0 then s else wait_legacy (n - 1) offset s)"

declare wait_legacy.simps [simp del]

definition legacy_capability :: "u32 \<Rightarrow> 'a xhci_state_scheme \<Rightarrow> 'a xhci_state_scheme" where
  "legacy_capability offset s =
     (let (legacy, s) = read_reg32 (offset + 4) s
      in if legacy AND 0x10000 \<noteq> 0
         then wait_legacy XHCI_POLL_LIMIT (offset + 4) (snd (write_reg32 (offset + 4) (legacy OR 0x1000000) s))
         else s)"

definition protocol_capability :: "u32 \<Rightarrow> u32 \<Rightarrow> 'a xhci_state_scheme \<Rightarrow> 'a xhci_state_scheme" where
  "protocol_capability header offset s =
     (let (ports, s) = read_reg32 (offset + 8) s;
          major = ucast (drop_bit 24 header) :: u8;
          first_port = unat (ucast ports :: u8); port_count = unat (ucast (drop_bit 8 ports) :: u8)
      in if major \<noteq> 0 \<and> first_port \<noteq> 0 \<and> port_count \<noteq> 0 \<and> first_port + port_count \<le> unat (xc_max_ports (xhci s)) + 1
         then upd_xhci (\<lambda>x. x\<lparr>xc_port_protocol := (\<lambda>p. if first_port \<le> p \<and> p < first_port + port_count then major else xc_port_protocol x p)\<rparr>) s
         else s)"

text \<open>The walk along the capability list, at most \<open>n\<close> entries.\<close>

fun capability_loop :: "nat \<Rightarrow> u32 \<Rightarrow> 'a xhci_state_scheme \<Rightarrow> 'a xhci_state_scheme" where
  "capability_loop 0 offset s = s"
| "capability_loop (Suc n) offset s =
     (let room = xc_bar_size (xhci s) - ucast offset
      in if offset = 0 \<or> ucast offset > xc_bar_size (xhci s) \<or> room < 4 then s
         else let (header, s) = read_reg32 offset s;
                  cap_id = ucast header :: u8; nxt = ucast (drop_bit 8 header) :: u8;
                  s = (if cap_id = 1 \<and> room \<ge> 8 then legacy_capability offset s
                       else if cap_id = 2 \<and> room \<ge> 12 then protocol_capability header offset s else s)
           in if nxt = 0 \<or> ucast nxt * 4 > room then s
              else capability_loop n (offset + ucast nxt * 4) s)"

definition parse_extended_capabilities :: "'a xhci_state_scheme \<Rightarrow> 'a xhci_state_scheme" where
  "parse_extended_capabilities s =
     (let (hccparams, s) = read_reg32 0x10 s;
          s = capability_loop 128 ((drop_bit 16 hccparams AND 0xffff) * 4) s
      in upd_xhci (\<lambda>x. x\<lparr>xc_port_protocol := (\<lambda>p. if 1 \<le> p \<and> p \<le> unat (xc_max_ports x) \<and> xc_port_protocol x p = 0 then 2
                                                     else xc_port_protocol x p)\<rparr>) s)"

subsection \<open>Starting the controller\<close>

definition allocate_controller_dma :: "'a xhci_state_scheme \<Rightarrow> bool \<times> 'a xhci_state_scheme" where
  "allocate_controller_dma s =
     (let ((d_phys, d), s) = alloc_dma_page s;
          ((c_phys, c), s) = alloc_dma_page s;
          ((e_phys, e), s) = alloc_dma_page s;
          ((t_phys, t), s) = alloc_dma_page s;
          ((p_phys, p), s) = alloc_dma_page s;
          s = upd_xhci (\<lambda>x. x\<lparr>xc_dcbaa_phys := d_phys, xc_dcbaa := d, xc_command_ring_phys := c_phys, xc_command_ring := c,
                              xc_event_ring_phys := e_phys, xc_event_ring := e, xc_erst_phys := t_phys, xc_erst := t,
                              xc_descriptor_page_phys := p_phys, xc_descriptor_page := p\<rparr>) s
      in if d = 0 \<or> c = 0 \<or> e = 0 \<or> t = 0 \<or> p = 0 then (False, s)
         else let s = upd_xhci (\<lambda>x. x\<lparr>xc_command_cycle := True, xc_event_cycle := True, xc_command_enqueue_index := 0,
                                       xc_event_dequeue_index := 0\<rparr>) s;
                  s = write_link_trb c c_phys True s
           in (True, store32 (t + 12) 0 (store32 (t + 8) (of_nat XHCI_EVENT_COUNT) (store64 t e_phys s))))"

text \<open>A chain of register writes that stops at the first failure.\<close>

fun write_all :: "('a xhci_state_scheme \<Rightarrow> bool \<times> 'a xhci_state_scheme) list \<Rightarrow> 'a xhci_state_scheme \<Rightarrow> bool \<times> 'a xhci_state_scheme" where
  "write_all [] s = (True, s)"
| "write_all (w # ws) s = (case w s of (False, s) \<Rightarrow> (False, s) | (True, s) \<Rightarrow> write_all ws s)"

definition configure_rings :: "'a xhci_state_scheme \<Rightarrow> bool \<times> 'a xhci_state_scheme" where
  "configure_rings s =
     (let x = xhci s; interrupter = xc_runtime_offset x + 0x20; op = xc_operational_offset x
      in write_all [write_reg32 interrupter 0, write_reg32 (interrupter + 4) 0, write_reg32 (interrupter + 8) 1,
                    write_reg64_low_high (interrupter + 0x10) (xc_erst_phys x),
                    write_reg64_high_low (interrupter + 0x18) (xc_event_ring_phys x),
                    write_reg64_low_high (op + 0x30) (xc_dcbaa_phys x),
                    write_reg64_low_high (op + 0x18) (xc_command_ring_phys x OR 1),
                    write_reg32 (op + 0x38) (ucast (xc_max_slots_enabled x))] s)"

definition stop_and_reset_controller :: "'a xhci_state_scheme \<Rightarrow> bool \<times> 'a xhci_state_scheme" where
  "stop_and_reset_controller s =
     (let op = xc_operational_offset (xhci s);
          (command, s) = read_reg32 op s
      in if command = UINT32_MAX then (False, s)
         else case write_all [write_reg32 op (command AND NOT 1), wait_reg (op + XHCI_USBSTS) XHCI_STS_HALTED XHCI_STS_HALTED] s of
             (False, s) \<Rightarrow> (False, s)
           | (True, s) \<Rightarrow>
               (let (command, s) = read_reg32 op s
                in case write_all [write_reg32 op (command OR 2), wait_reg op 2 0, wait_reg (op + XHCI_USBSTS) 0x800 0] s of
                     (False, s) \<Rightarrow> (False, s)
                   | (True, s) \<Rightarrow> (let (v, s) = read_reg32 (op + 8) s in (v AND 1 \<noteq> 0, s))))"

definition start_controller :: "'a xhci_state_scheme \<Rightarrow> bool \<times> 'a xhci_state_scheme" where
  "start_controller s =
     (let op = xc_operational_offset (xhci s); s = upd_xhci (\<lambda>x. x\<lparr>xc_start_attempted := True\<rparr>) s
      in case write_all [write_reg32 op 1, wait_reg (op + XHCI_USBSTS) XHCI_STS_HALTED 0] s of
           (False, s) \<Rightarrow> (False, s)
         | (True, s) \<Rightarrow>
             (let (status, s) = read_reg32 (op + XHCI_USBSTS) s
              in if status AND XHCI_STS_ERRORS \<noteq> 0 then (False, s)
                 else (True, upd_xhci (\<lambda>x. x\<lparr>xc_active := True\<rparr>) s)))"

definition register_windows_fit :: "xhci_controller \<Rightarrow> bool" where
  "register_windows_fit x \<longleftrightarrow>
     ucast (xc_operational_offset x) + 0x400 + ucast (xc_max_ports x) * 0x10 \<le> xc_bar_size x
     \<and> ucast (xc_doorbell_offset x) + (ucast (xc_max_slots_enabled x) + 1) * 4 \<le> xc_bar_size x
     \<and> ucast (xc_runtime_offset x) + 0x40 \<le> xc_bar_size x"

definition initialize_controller_registers :: "'a xhci_state_scheme \<Rightarrow> bool \<times> 'a xhci_state_scheme" where
  "initialize_controller_registers s =
     (let (cap0, s) = read_reg32 0 s;
          (hcs1, s) = read_reg32 0x04 s;
          (hcc1, s) = read_reg32 0x10 s;
          (db_off, s) = read_reg32 0x14 s;
          (rt_off, s) = read_reg32 0x18 s;
          hardware_slots = ucast hcs1 :: u8;
          s = upd_xhci (\<lambda>x. x\<lparr>xc_cap_length := cap0 AND 0xff, xc_hci_version := ucast (drop_bit 16 cap0),
                              xc_max_ports := ucast (drop_bit 24 hcs1), xc_port_power_control := (drop_bit 3 hcs1 AND 1 \<noteq> 0),
                              xc_context_64 := (drop_bit 2 hcc1 AND 1 \<noteq> 0)\<rparr>) s;
          x = xhci s
      in if xc_cap_length x < 0x20 \<or> xc_hci_version x < 0x100 \<or> hardware_slots = 0 \<or> xc_max_ports x = 0 \<or> xc_max_ports x > XHCI_MAX_PORTS
         then (False, s)
         else let s = upd_xhci (\<lambda>x. x\<lparr>xc_max_slots_enabled := (if hardware_slots < XHCI_MAX_SLOTS then hardware_slots else XHCI_MAX_SLOTS),
                                       xc_operational_offset := xc_cap_length x, xc_doorbell_offset := db_off AND NOT 3,
                                       xc_runtime_offset := rt_off AND NOT 0x1f\<rparr>) s
           in if \<not> register_windows_fit (xhci s) then (False, s)
              else stop_and_reset_controller (parse_extended_capabilities s))"

definition stop_after_failed_start :: "'a xhci_state_scheme \<Rightarrow> bool \<times> 'a xhci_state_scheme" where
  "stop_after_failed_start s =
     (if \<not> xc_start_attempted (xhci s) then (True, s)
      else let op = xc_operational_offset (xhci s);
               (command, s) = read_reg32 op s
        in if command = UINT32_MAX then (False, s)
           else write_all [write_reg32 op (command AND NOT 1), wait_reg (op + XHCI_USBSTS) XHCI_STS_HALTED XHCI_STS_HALTED] s)"

subsection \<open>Ports\<close>

fun wait_power :: "nat \<Rightarrow> u32 \<Rightarrow> 'a xhci_state_scheme \<Rightarrow> 'a xhci_state_scheme" where
  "wait_power n offset s =
     (if n = 0 then s
      else let (v, s) = read_reg32 offset s in if v AND XHCI_PORT_POWER \<noteq> 0 then s else wait_power (n - 1) offset s)"

declare wait_power.simps [simp del]

text \<open>The wait for the end of a reset: \<open>None\<close> if the device went away, otherwise whether it completed.\<close>

fun wait_reset :: "nat \<Rightarrow> bool \<Rightarrow> u32 \<Rightarrow> 'a xhci_state_scheme \<Rightarrow> bool option \<times> 'a xhci_state_scheme" where
  "wait_reset n superspeed offset s =
     (if n = 0 then (Some False, s)
      else let (v, s) = read_reg32 offset s;
               reset_bit = (if superspeed then XHCI_PORT_WARM_RESET else XHCI_PORT_RESET);
               change = (if superspeed then XHCI_PORT_WRC else XHCI_PORT_PRC)
        in if v AND XHCI_PORT_CONNECTED = 0 then (None, s)
           else if v AND XHCI_PORT_ENABLED \<noteq> 0 \<and> v AND reset_bit = 0 \<and> v AND change \<noteq> 0 then (Some True, s)
           else wait_reset (n - 1) superspeed offset s)"

declare wait_reset.simps [simp del]

definition power_port :: "u32 \<Rightarrow> u32 \<Rightarrow> 'a xhci_state_scheme \<Rightarrow> bool \<times> 'a xhci_state_scheme" where
  "power_port port_offset status s =
     (if xc_port_power_control (xhci s) \<and> status AND XHCI_PORT_POWER = 0
      then case write_reg32 port_offset (status AND XHCI_PORT_CHANGE_MASK OR XHCI_PORT_POWER) s of
          (False, s) \<Rightarrow> (False, s)
        | (True, s) \<Rightarrow> (True, wait_power (XHCI_POLL_LIMIT div 8) port_offset s)
      else (True, s))"

definition reset_port :: "u8 \<Rightarrow> u32 \<Rightarrow> 'a xhci_state_scheme \<Rightarrow> bool \<times> 'a xhci_state_scheme" where
  "reset_port port port_offset s =
     (let (status, s) = read_reg32 port_offset s
      in if status AND XHCI_PORT_CONNECTED = 0 then (False, s)
         else case power_port port_offset status s of
             (False, s) \<Rightarrow> (False, s)
           | (True, s) \<Rightarrow>
               (let (status, s) = read_reg32 port_offset s;
                    superspeed = (xc_port_protocol (xhci s) (unat port) \<ge> 3);
                    reset_bit = (if superspeed then XHCI_PORT_WARM_RESET else XHCI_PORT_RESET)
                in if status AND XHCI_PORT_ENABLED \<noteq> 0 then (True, s)
                   else case write_reg32 port_offset ((status AND XHCI_PORT_POWER) OR (status AND XHCI_PORT_CHANGE_MASK) OR reset_bit) s of
                       (False, s) \<Rightarrow> (False, s)
                     | (True, s) \<Rightarrow>
                         (case wait_reset XHCI_POLL_LIMIT superspeed port_offset s of
                            (None, s) \<Rightarrow> (False, s)
                          | (Some completed, s) \<Rightarrow>
                              let (status, s) = read_reg32 port_offset s
                              in if completed
                                 then (True, snd (write_reg32 port_offset ((status AND XHCI_PORT_POWER) OR (status AND XHCI_PORT_CHANGE_MASK)) s))
                                 else (status AND XHCI_PORT_ENABLED \<noteq> 0, s))))"

subsection \<open>Slots\<close>

definition context_size :: "xhci_controller \<Rightarrow> u64" where
  "context_size x = (if xc_context_64 x then 64 else 32)"

text \<open>Words of a context in the page at \<open>p\<close>, in the order they are written.\<close>

definition write_words :: "vaddr \<Rightarrow> (nat \<times> u32) list \<Rightarrow> 'a io_state_scheme \<Rightarrow> 'a io_state_scheme" where
  "write_words p ws s = fold (\<lambda>(i, v). store32 (p + of_nat (4 * i)) v) ws s"

definition ep0_context_words :: "u16 \<Rightarrow> paddr \<Rightarrow> (nat \<times> u32) list" where
  "ep0_context_words packet ring =
     [(1, push_bit 1 3 OR push_bit 3 4 OR push_bit 16 (ucast packet)), (2, ucast ring OR 1), (3, ucast (drop_bit 32 ring)), (4, 8)]"

definition create_slot_context :: "u8 \<Rightarrow> u8 \<Rightarrow> u8 \<Rightarrow> 'a xhci_state_scheme \<Rightarrow> bool \<times> 'a xhci_state_scheme" where
  "create_slot_context slot_id port speed s =
     (if slot_id = 0 \<or> slot_id > xc_max_slots_enabled (xhci s) \<or> slot_id > XHCI_MAX_SLOTS then (False, s)
      else
        let packet = (if speed = 3 then 64 else if speed = 4 then 512 else 8);
            ((i_phys, input), s) = alloc_dma_page s;
            ((o_phys, output), s) = alloc_dma_page s;
            ((r_phys, ring), s) = alloc_dma_page s;
            s = upd_slot slot_id (\<lambda>_. zero_slot\<lparr>sl_slot_id := slot_id, sl_root_port := port, sl_speed := speed, sl_ep0_max_packet := packet,
                  sl_input_context_phys := i_phys, sl_output_context_phys := o_phys, sl_ep0_ring_phys := r_phys, sl_ep0_ring := ring\<rparr>) s
        in if input = 0 \<or> output = 0 \<or> ring = 0 then (False, s)
           else
             let width = context_size (xhci s);
                 s = store64 (xc_dcbaa (xhci s) + 8 * ucast slot_id) o_phys s;
                 s = write_words input [(1, 3)] s;
                 s = write_words (input + width) [(0, push_bit 20 (ucast speed) OR push_bit 27 1), (1, push_bit 16 (ucast port))] s;
                 s = write_words (input + 2 * width) (ep0_context_words packet r_phys) s;
                 s = upd_slot slot_id (\<lambda>d. d\<lparr>sl_ep0_cycle := True, sl_ep0_enqueue_index := 0\<rparr>) s;
                 s = write_link_trb ring r_phys True s;
                 ((ok, returned), s) = issue_command 11 i_phys 0 0 slot_id s
             in if \<not> ok \<or> returned \<noteq> Some slot_id then (False, s)
                else (True, upd_slot slot_id (\<lambda>d. d\<lparr>sl_active := True\<rparr>) s))"

definition enable_and_address_device :: "u8 \<Rightarrow> u8 \<Rightarrow> 'a xhci_state_scheme \<Rightarrow> u8 option \<times> 'a xhci_state_scheme" where
  "enable_and_address_device port speed s =
     (let ((ok, returned), s) = issue_command 9 0 0 0 0 s;
          slot_id = (case returned of None \<Rightarrow> 0 | Some v \<Rightarrow> v)
      in if \<not> ok \<or> slot_id = 0 \<or> slot_id > xc_max_slots_enabled (xhci s) \<or> slot_id > XHCI_MAX_SLOTS then (None, s)
         else let (ok, s) = create_slot_context slot_id port speed s in (if ok then Some slot_id else None, s))"

subsection \<open>Control transfers\<close>

text \<open>The physical address of the block written, \<open>None\<close> on failure.\<close>

definition enqueue_transfer_trb :: "u8 \<Rightarrow> u64 \<Rightarrow> u32 \<Rightarrow> u32 \<Rightarrow> 'a xhci_state_scheme \<Rightarrow> u64 option \<times> 'a xhci_state_scheme" where
  "enqueue_transfer_trb slot_id parameter status control s =
     (let d = the_slot slot_id s; i = sl_ep0_enqueue_index d
      in if sl_ep0_ring d = 0 \<or> i \<ge> XHCI_TRB_COUNT - 1 then (None, s)
         else let s = write_trb (trb_address (sl_ep0_ring d) i) parameter status (control OR cycle_bit (sl_ep0_cycle d)) s;
                  s = (if i + 1 = XHCI_TRB_COUNT - 1
                       then upd_slot slot_id (\<lambda>d. d\<lparr>sl_ep0_enqueue_index := 0, sl_ep0_cycle := \<not> sl_ep0_cycle d\<rparr>)
                              (write_link_trb (sl_ep0_ring d) (sl_ep0_ring_phys d) (sl_ep0_cycle d) s)
                       else upd_slot slot_id (\<lambda>d. d\<lparr>sl_ep0_enqueue_index := i + 1\<rparr>) s)
           in (Some (trb_address (sl_ep0_ring_phys d) i), s))"

definition setup_packet :: "u8 \<Rightarrow> u8 \<Rightarrow> u16 \<Rightarrow> u16 \<Rightarrow> u16 \<Rightarrow> u64" where
  "setup_packet request_type request v index len =
     ucast request_type OR push_bit 8 (ucast request) OR push_bit 16 (ucast v) OR push_bit 32 (ucast index) OR push_bit 48 (ucast len)"

text \<open>The setup, data and status blocks; the address of the last one, \<open>None\<close> on failure.\<close>

definition enqueue_stages :: "u8 \<Rightarrow> u64 \<Rightarrow> bool \<Rightarrow> u16 \<Rightarrow> 'a xhci_state_scheme \<Rightarrow> u64 option \<times> 'a xhci_state_scheme" where
  "enqueue_stages slot_id setup direction_in len s =
     (let transfer_type = (if len \<noteq> 0 then (if direction_in then push_bit 16 3 else push_bit 16 2) else 0)
      in case enqueue_transfer_trb slot_id setup 8 (push_bit 10 2 OR XHCI_TRB_IDT OR XHCI_TRB_CHAIN OR transfer_type) s of
           (None, s) \<Rightarrow> (None, s)
         | (Some _, s) \<Rightarrow>
             (case (if len \<noteq> 0
                    then enqueue_transfer_trb slot_id (xc_descriptor_page_phys (xhci s)) (ucast len)
                           (push_bit 10 3 OR XHCI_TRB_CHAIN OR (if direction_in then XHCI_TRB_DIR_IN else 0)) s
                    else (Some 0, s)) of
                (None, s) \<Rightarrow> (None, s)
              | (Some _, s) \<Rightarrow>
                  enqueue_transfer_trb slot_id 0 0
                    (push_bit 10 4 OR XHCI_TRB_IOC OR (if len = 0 \<or> direction_in then XHCI_TRB_DIR_IN else 0)) s))"

text \<open>The result is the number of bytes transferred and the new contents of the buffer.\<close>

definition xhci_control_request ::
  "u8 \<Rightarrow> u8 \<Rightarrow> u8 \<Rightarrow> u16 \<Rightarrow> u16 \<Rightarrow> u8 list option \<Rightarrow> u16 \<Rightarrow> 'a xhci_state_scheme \<Rightarrow> (u16 \<times> u8 list) option \<times> 'a xhci_state_scheme" where
  "xhci_control_request slot_id request_type request v index buffer len s =
     (let old = (case buffer of None \<Rightarrow> [] | Some bs \<Rightarrow> bs)
      in if \<not> xc_active (xhci s) \<or> slot_id = 0 \<or> slot_id > XHCI_MAX_SLOTS \<or> len > 4096
            \<or> (len \<noteq> 0 \<and> (buffer = None \<or> length old < unat len)) then (None, s)
         else if \<not> sl_active (the_slot slot_id s) \<or> xc_descriptor_page (xhci s) = 0 then (None, s)
         else
           let direction_in = (request_type AND 0x80 \<noteq> 0);
               page = xc_descriptor_page (xhci s);
               s = store_block page (zeros 4096) s;
               s = (if len \<noteq> 0 \<and> \<not> direction_in then store_block page (take (unat len) old) s else s)
           in (case enqueue_stages slot_id (setup_packet request_type request v index len) direction_in len s of
                 (None, s) \<Rightarrow> (None, s)
               | (Some status_trb_phys, s) \<Rightarrow>
                   (case write_reg32 (xc_doorbell_offset (xhci s) + ucast slot_id * 4) 1 s of
                      (False, s) \<Rightarrow> (None, s)
                    | (True, s) \<Rightarrow>
                        (case wait_event 32 status_trb_phys slot_id s of
                           (None, s) \<Rightarrow> (None, s)
                         | (Some e, s) \<Rightarrow>
                             if (trb_completion e \<noteq> 1 \<and> trb_completion e \<noteq> 13) \<or> trb_endpoint e \<noteq> 1 \<or> trb_residual e > ucast len then (None, s)
                             else let transferred = len - ucast (trb_residual e);
                                      (data, s) = (if len \<noteq> 0 \<and> direction_in then load_bytes page (unat transferred) s else ([], s))
                               in (Some (transferred, overlay data old), s)))))"

text \<open>The contents of the buffer afterwards are part of the result: a short transfer fails but has changed it.\<close>

definition xhci_get_descriptor :: "u8 \<Rightarrow> u8 \<Rightarrow> u8 \<Rightarrow> u16 \<Rightarrow> u8 list \<Rightarrow> 'a xhci_state_scheme \<Rightarrow> (bool \<times> u8 list) \<times> 'a xhci_state_scheme" where
  "xhci_get_descriptor slot_id descriptor_type descriptor_index len buffer s =
     (if descriptor_type = 0 \<or> len = 0 then ((False, buffer), s)
      else case xhci_control_request slot_id 0x80 6 (push_bit 8 (ucast descriptor_type) OR ucast descriptor_index) 0 (Some buffer) len s of
          (None, s) \<Rightarrow> ((False, buffer), s)
        | (Some (actual, data), s) \<Rightarrow> ((actual = len, data), s))"

definition xhci_get_device_descriptor :: "u8 \<Rightarrow> u16 \<Rightarrow> u8 list \<Rightarrow> 'a xhci_state_scheme \<Rightarrow> (bool \<times> u8 list) \<times> 'a xhci_state_scheme" where
  "xhci_get_device_descriptor slot_id len buffer s = xhci_get_descriptor slot_id 1 0 len buffer s"

definition xhci_update_ep0_max_packet :: "u8 \<Rightarrow> u16 \<Rightarrow> 'a xhci_state_scheme \<Rightarrow> bool \<times> 'a xhci_state_scheme" where
  "xhci_update_ep0_max_packet slot_id packet s =
     (if \<not> xc_active (xhci s) \<or> slot_id = 0 \<or> slot_id > XHCI_MAX_SLOTS \<or> packet = 0 then (False, s)
      else if \<not> sl_active (the_slot slot_id s) then (False, s)
      else if sl_ep0_max_packet (the_slot slot_id s) = packet then (True, s)
      else let ((i_phys, input), s) = alloc_dma_page s
        in if input = 0 then (False, s)
           else let s = upd_slot slot_id (\<lambda>d. d\<lparr>sl_input_context_phys := i_phys\<rparr>) s;
                    s = write_words input [(1, 2)] s;
                    s = write_words (input + 2 * context_size (xhci s)) (ep0_context_words packet (sl_ep0_ring_phys (the_slot slot_id s))) s;
                    ((ok, _), s) = issue_command 13 i_phys 0 0 slot_id s
             in if \<not> ok then (False, s)
                else (True, upd_slot slot_id (\<lambda>d. d\<lparr>sl_ep0_max_packet := packet\<rparr>) s))"

subsection \<open>Interrupt transfers\<close>

function exponent_loop :: "nat \<Rightarrow> nat \<Rightarrow> nat" where
  "exponent_loop microframes exponent = (if microframes > 1 then exponent_loop (microframes div 2) (exponent + 1) else exponent)"
  by pat_completeness auto
termination by (relation "measure fst") auto

declare exponent_loop.simps [simp del]

definition interrupt_interval_context :: "u8 \<Rightarrow> u8 \<Rightarrow> u8 option" where
  "interrupt_interval_context speed interval =
     (if interval = 0 \<or> speed > 3 \<or> speed < 1 then None
      else if speed = 3 then (if interval > 16 then None else Some (interval - 1))
      else Some (of_nat (min 10 (max 3 (exponent_loop (unat interval * 8) 0)))))"

definition xhci_configure_interrupt_in :: "u8 \<Rightarrow> u8 \<Rightarrow> u8 \<Rightarrow> u16 \<Rightarrow> u8 \<Rightarrow> 'a xhci_state_scheme \<Rightarrow> bool \<times> 'a xhci_state_scheme" where
  "xhci_configure_interrupt_in slot_id speed endpoint_address packet interval s =
     (let d = the_slot slot_id s; endpoint_id = (endpoint_address AND 0xf) * 2 + 1
      in if \<not> xc_active (xhci s) \<or> slot_id = 0 \<or> slot_id > XHCI_MAX_SLOTS \<or> endpoint_address AND 0x80 = 0
            \<or> endpoint_address AND 0xf = 0 \<or> packet = 0 \<or> packet > 1024 then (False, s)
         else if \<not> sl_active d \<or> sl_interrupt_configured d \<or> speed \<noteq> sl_speed d then (False, s)
         else case interrupt_interval_context speed interval of
             None \<Rightarrow> (False, s)
           | Some interval_field \<Rightarrow>
               if endpoint_id < 2 \<or> endpoint_id > 31 then (False, s)
               else
                 let input = phys_to_virt s (sl_input_context_phys d);
                     output = phys_to_virt s (sl_output_context_phys d);
                     ((r_phys, ring), s) = alloc_dma_page s;
                     ((b_phys, report), s) = alloc_dma_page s;
                     s = upd_slot slot_id (\<lambda>d. d\<lparr>sl_interrupt_ring := ring, sl_report_buffer := report,
                           sl_interrupt_ring_phys := (if ring = 0 then sl_interrupt_ring_phys d else r_phys),
                           sl_report_buffer_phys := (if report = 0 then sl_report_buffer_phys d else b_phys)\<rparr>) s
                 in if input = 0 \<or> output = 0 \<or> ring = 0 \<or> report = 0 then (False, s)
                    else
                      let width = context_size (xhci s);
                          s = store_block input (zeros 4096) s;
                          s = write_words input [(1, 1 OR push_bit (unat endpoint_id) 1)] s;
                          (bytes, s) = load_bytes (output + width) (unat width) s;
                          s = store_block (input + width) bytes s;
                          (word0, s) = load32 (input + width) s;
                          s = write_words (input + width) [(0, word0 AND NOT (push_bit 27 0x1f) OR push_bit 27 (ucast endpoint_id))] s;
                          s = write_words (input + (ucast endpoint_id + 1) * width)
                                [(0, push_bit 16 (ucast interval_field)), (1, push_bit 1 3 OR push_bit 3 7 OR push_bit 16 (ucast packet)),
                                 (2, ucast r_phys OR 1), (3, ucast (drop_bit 32 r_phys)), (4, 8 OR push_bit 16 (ucast packet))] s;
                          s = upd_slot slot_id (\<lambda>d. d\<lparr>sl_interrupt_endpoint_id := endpoint_id, sl_interrupt_packet_size := packet,
                                sl_interrupt_cycle := True, sl_interrupt_enqueue_index := 0\<rparr>) s;
                          s = write_link_trb ring r_phys True s;
                          ((ok, returned), s) = issue_command 12 (sl_input_context_phys d) 0 0 slot_id s
                      in if \<not> ok \<or> returned \<noteq> Some slot_id then (False, s)
                         else (True, upd_slot slot_id (\<lambda>d. d\<lparr>sl_interrupt_configured := True\<rparr>) s))"

definition enqueue_keyboard_report :: "u8 \<Rightarrow> 'a xhci_state_scheme \<Rightarrow> bool \<times> 'a xhci_state_scheme" where
  "enqueue_keyboard_report slot_id s =
     (let d = the_slot slot_id s; i = sl_interrupt_enqueue_index d
      in if \<not> sl_interrupt_started d \<or> sl_interrupt_pending d \<or> sl_interrupt_ring d = 0 \<or> sl_report_buffer d = 0
            \<or> i \<ge> XHCI_TRB_COUNT - 1 then (False, s)
         else let s = upd_slot slot_id (\<lambda>d. d\<lparr>sl_pending_transfer_phys := trb_address (sl_interrupt_ring_phys d) i\<rparr>) s;
                  s = write_trb (trb_address (sl_interrupt_ring d) i) (sl_report_buffer_phys d) 8
                        (push_bit 10 1 OR XHCI_TRB_IOC OR cycle_bit (sl_interrupt_cycle d)) s;
                  s = (if i + 1 = XHCI_TRB_COUNT - 1
                       then upd_slot slot_id (\<lambda>d. d\<lparr>sl_interrupt_enqueue_index := 0, sl_interrupt_cycle := \<not> sl_interrupt_cycle d\<rparr>)
                              (write_link_trb (sl_interrupt_ring d) (sl_interrupt_ring_phys d) (sl_interrupt_cycle d) s)
                       else upd_slot slot_id (\<lambda>d. d\<lparr>sl_interrupt_enqueue_index := i + 1\<rparr>) s)
           in case write_reg32 (xc_doorbell_offset (xhci s) + ucast (sl_slot_id d) * 4) (ucast (sl_interrupt_endpoint_id d)) s of
                (False, s) \<Rightarrow> (False, s)
              | (True, s) \<Rightarrow> (True, upd_slot slot_id (\<lambda>d. d\<lparr>sl_interrupt_pending := True\<rparr>) s))"

definition xhci_start_interrupt_in :: "u8 \<Rightarrow> 'a xhci_state_scheme \<Rightarrow> bool \<times> 'a xhci_state_scheme" where
  "xhci_start_interrupt_in slot_id s =
     (let d = the_slot slot_id s
      in if \<not> xc_active (xhci s) \<or> slot_id = 0 \<or> slot_id > XHCI_MAX_SLOTS then (False, s)
         else if \<not> sl_active d \<or> \<not> sl_interrupt_configured d \<or> sl_interrupt_started d then (False, s)
         else case enqueue_keyboard_report slot_id (upd_slot slot_id (\<lambda>d. d\<lparr>sl_interrupt_started := True\<rparr>) s) of
             (False, s) \<Rightarrow> (False, upd_slot slot_id (\<lambda>d. d\<lparr>sl_interrupt_started := False\<rparr>) s)
           | (True, s) \<Rightarrow> (True, s))"

text \<open>What \<^verbatim>\<open>xhci_poll_keyboard_inputs\<close> does with one event.\<close>

definition keyboard_event :: "xhci_trb \<Rightarrow> 'a xhci_state_scheme \<Rightarrow> 'a xhci_state_scheme" where
  "keyboard_event e s =
     (let slot_id = trb_slot e; d = the_slot slot_id s
      in if trb_type e \<noteq> 32 \<or> slot_id = 0 \<or> slot_id > XHCI_MAX_SLOTS then s
         else if \<not> sl_interrupt_pending d \<or> trb_endpoint e \<noteq> sl_interrupt_endpoint_id d
            \<or> trb_parameter e \<noteq> sl_pending_transfer_phys d then s
         else
           let s = upd_slot slot_id (\<lambda>d. d\<lparr>sl_interrupt_pending := False\<rparr>) s
           in if (trb_completion e = 1 \<or> trb_completion e = 13) \<and> trb_residual e \<le> 8
              then let s = (if trb_residual e = 0
                            then let (report, s) = load_bytes (sl_report_buffer d) 8 s in usb_generic_keyboard_receive_report slot_id report s
                            else s)
                in if sl_interrupt_started (the_slot slot_id s)
                   then (case enqueue_keyboard_report slot_id s of
                           (True, s) \<Rightarrow> s
                         | (False, s) \<Rightarrow> upd_slot slot_id (\<lambda>d. d\<lparr>sl_interrupt_started := False\<rparr>) s)
                   else s
              else upd_slot slot_id (\<lambda>d. d\<lparr>sl_interrupt_started := False\<rparr>) s)"

text \<open>The loop runs as long as the controller produces events; \<open>None\<close> is the outcome of one that never stops.\<close>

partial_function (option) keyboard_events :: "'a xhci_state_scheme \<Rightarrow> 'a xhci_state_scheme option" where
  "keyboard_events s =
     (case next_event s of
        (None, s) \<Rightarrow> Some s
      | (Some e, s) \<Rightarrow> keyboard_events (keyboard_event e s))"

definition xhci_poll_keyboard_inputs :: "'a xhci_state_scheme \<Rightarrow> 'a xhci_state_scheme option" where
  "xhci_poll_keyboard_inputs s = (if \<not> xc_active (xhci s) then Some s else keyboard_events s)"

end
