(* ===== verification/Usb.thy ===== *)
theory Usb
  imports Xhci
begin

text \<open>
  The USB layer, \<^verbatim>\<open>src/drivers/usb.c\<close>, the probe of the keyboard driver, and the parts of
  \<^verbatim>\<open>src/drivers/xhci.c\<close> that call back into it: enumeration and the probe of the controller.  The descriptor
  of a configuration is read into \<open>configuration_buffer\<close>; the two loops over it are recursions over the bytes
  that remain.
\<close>

abbreviation (input) USB_MAX_HID_KEYBOARD_INTERFACES :: nat where "USB_MAX_HID_KEYBOARD_INTERFACES \<equiv> 16"

record usb_interface_parse =
  ui_active :: bool
  ui_number :: u8
  ui_alternate :: u8
  ui_class :: u8
  ui_subclass :: u8
  ui_protocol :: u8
  ui_endpoint_count :: u8
  ui_interrupt_in_count :: u8
  ui_endpoint_address :: u8
  ui_interval :: u8
  ui_max_packet_size :: u16
  ui_report_length :: u16
  ui_unsupported_packet :: bool

record usb_hid_keyboard_info =
  hk_root_port :: u8
  hk_slot_id :: u8
  hk_speed :: u8
  hk_interface_number :: u8
  hk_interface_protocol :: u8
  hk_configuration_value :: u8
  hk_endpoint_address :: u8
  hk_interval :: u8
  hk_max_packet_size :: u16
  hk_report_length :: u16

record usb_state = xhci_state +
  configuration_buffer :: "u8 list"
  keyboard_interfaces :: "usb_hid_keyboard_info list"

definition zero_interface :: usb_interface_parse where
  "zero_interface = \<lparr>ui_active = False, ui_number = 0, ui_alternate = 0, ui_class = 0, ui_subclass = 0, ui_protocol = 0,
     ui_endpoint_count = 0, ui_interrupt_in_count = 0, ui_endpoint_address = 0, ui_interval = 0, ui_max_packet_size = 0,
     ui_report_length = 0, ui_unsupported_packet = False\<rparr>"

definition read_le16 :: "u8 list \<Rightarrow> nat \<Rightarrow> u16" where
  "read_le16 bs i = of_le16 (field i 2 bs)"

definition valid_ep0_packet_size :: "u8 \<Rightarrow> u8 \<Rightarrow> u16 option" where
  "valid_ep0_packet_size speed v =
     (if speed = 1 then (if v = 8 \<or> v = 16 \<or> v = 32 \<or> v = 64 then Some (ucast v) else None)
      else if speed = 2 then (if v = 8 then Some 8 else None)
      else if speed = 3 then (if v = 64 then Some 64 else None)
      else if speed = 4 then (if v = 9 then Some 512 else None)
      else None)"

definition boot_keyboard_class :: "usb_interface_parse \<Rightarrow> bool" where
  "boot_keyboard_class i \<longleftrightarrow> ui_class i = 3 \<and> ui_subclass i = 1 \<and> ui_protocol i = 1"

definition valid_boot_keyboard_candidate :: "usb_interface_parse \<Rightarrow> bool" where
  "valid_boot_keyboard_candidate i \<longleftrightarrow>
     ui_active i \<and> ui_alternate i = 0 \<and> boot_keyboard_class i \<and> ui_endpoint_count i = 1 \<and> ui_interrupt_in_count i = 1
     \<and> \<not> ui_unsupported_packet i \<and> ui_report_length i \<noteq> 0 \<and> ui_max_packet_size i \<ge> 8 \<and> ui_interval i \<noteq> 0"

definition remember_keyboard_interface :: "usb_hid_keyboard_info \<Rightarrow> 'a usb_state_scheme \<Rightarrow> 'a usb_state_scheme" where
  "remember_keyboard_interface info s =
     (if length (keyboard_interfaces s) \<ge> USB_MAX_HID_KEYBOARD_INTERFACES then s
      else s\<lparr>keyboard_interfaces := keyboard_interfaces s @ [info]\<rparr>)"

definition usb_get_hid_keyboard_info :: "u8 \<Rightarrow> u8 \<Rightarrow> 'a usb_state_scheme \<Rightarrow> usb_hid_keyboard_info option" where
  "usb_get_hid_keyboard_info slot_id interface_number s =
     find (\<lambda>k. hk_slot_id k = slot_id \<and> hk_interface_number k = interface_number) (keyboard_interfaces s)"

text \<open>The length of the report descriptor an HID descriptor declares.\<close>

definition parse_hid_report_descriptor_length :: "u8 list \<Rightarrow> u16 option" where
  "parse_hid_report_descriptor_length d =
     (if length d < 6 \<or> unat (d ! 0) > length d \<or> d ! 1 \<noteq> 0x21 then None
      else let declared = unat (d ! 5)
        in if declared = 0 \<or> declared > (length d - 6) div 3 then None
           else case find (\<lambda>i. d ! (6 + i * 3) = 0x22) [0..<declared] of
               None \<Rightarrow> None
             | Some i \<Rightarrow> (let n = read_le16 d (6 + i * 3 + 1) in if n = 0 then None else Some n))"

definition prepare_boot_keyboard ::
  "u8 \<Rightarrow> u8 \<Rightarrow> u8 \<Rightarrow> u8 \<Rightarrow> usb_interface_parse \<Rightarrow> 'a usb_state_scheme \<Rightarrow> bool \<times> 'a usb_state_scheme" where
  "prepare_boot_keyboard slot_id root_port speed configuration_value i s =
     (if \<not> valid_boot_keyboard_candidate i \<or> configuration_value = 0 then (False, s)
      else if ui_max_packet_size i > 0x7ff \<or> ui_endpoint_address i AND 0x80 = 0 \<or> ui_endpoint_address i AND 0xf = 0 then (False, s)
      else case xhci_configure_interrupt_in slot_id speed (ui_endpoint_address i) (ui_max_packet_size i) (ui_interval i) s of
          (False, s) \<Rightarrow> (False, s)
        | (True, s) \<Rightarrow>
            (case xhci_control_request slot_id 0 9 (ucast configuration_value) 0 None 0 s of
               (None, s) \<Rightarrow> (False, s)
             | (Some _, s) \<Rightarrow>
                 (True, remember_keyboard_interface
                    \<lparr>hk_root_port = root_port, hk_slot_id = slot_id, hk_speed = speed, hk_interface_number = ui_number i,
                     hk_interface_protocol = ui_protocol i, hk_configuration_value = configuration_value,
                     hk_endpoint_address = ui_endpoint_address i, hk_interval = ui_interval i,
                     hk_max_packet_size = ui_max_packet_size i, hk_report_length = ui_report_length i\<rparr> s)))"

subsection \<open>Configurations\<close>

record config_scan =
  sc_current :: usb_interface_parse
  sc_boot_keyboard :: usb_interface_parse
  sc_has_boot_keyboard :: bool
  sc_interfaces :: nat

definition scan_interface :: "u8 list \<Rightarrow> config_scan \<Rightarrow> config_scan" where
  "scan_interface d c =
     (let i = zero_interface\<lparr>ui_active := (d ! 3 = 0), ui_number := d ! 2, ui_alternate := d ! 3, ui_class := d ! 5,
                ui_subclass := d ! 6, ui_protocol := d ! 7, ui_endpoint_count := d ! 4\<rparr>;
          c = c\<lparr>sc_current := i, sc_interfaces := sc_interfaces c + (if ui_active i then 1 else 0)\<rparr>
      in if valid_boot_keyboard_candidate i then c\<lparr>sc_boot_keyboard := i, sc_has_boot_keyboard := True\<rparr> else c)"

definition scan_hid :: "u8 list \<Rightarrow> config_scan \<Rightarrow> config_scan" where
  "scan_hid d c =
     (let n = (case parse_hid_report_descriptor_length d of None \<Rightarrow> 0 | Some n \<Rightarrow> n);
          c = c\<lparr>sc_current := (sc_current c)\<lparr>ui_report_length := n\<rparr>\<rparr>
      in if boot_keyboard_class (sc_current c)
         then c\<lparr>sc_boot_keyboard := (sc_boot_keyboard c)\<lparr>ui_report_length := n\<rparr>, sc_has_boot_keyboard := True\<rparr> else c)"

definition scan_endpoint :: "u8 list \<Rightarrow> config_scan \<Rightarrow> config_scan" where
  "scan_endpoint d c =
     (if d ! 3 AND 3 = 3 \<and> d ! 2 AND 0x80 \<noteq> 0
      then let raw = read_le16 d 4; i = sc_current c;
               i = i\<lparr>ui_interrupt_in_count := ui_interrupt_in_count i + 1, ui_endpoint_address := d ! 2,
                     ui_unsupported_packet := (raw AND 0xf800 \<noteq> 0), ui_max_packet_size := raw AND 0x7ff, ui_interval := d ! 6\<rparr>;
               c = c\<lparr>sc_current := i\<rparr>
        in if boot_keyboard_class i then c\<lparr>sc_boot_keyboard := i, sc_has_boot_keyboard := True\<rparr> else c
      else c)"

text \<open>The first loop of \<^verbatim>\<open>register_configuration_interfaces\<close> over the bytes that remain; \<open>None\<close> when the
  descriptors are malformed.\<close>

function scan_descriptors :: "u8 list \<Rightarrow> config_scan \<Rightarrow> config_scan option" where
  "scan_descriptors bs c =
     (if bs = [] then Some c
      else if length bs < 2 then None
      else let len = unat (bs ! 0); kind = bs ! 1; d = take len bs
        in if len < 2 \<or> len > length bs then None
           else if kind = 4 then (if len < 9 then None else scan_descriptors (drop len bs) (scan_interface d c))
           else if ui_active (sc_current c) \<and> kind = 0x21 then scan_descriptors (drop len bs) (scan_hid d c)
           else if ui_active (sc_current c) \<and> kind = 5 then (if len < 7 then None else scan_descriptors (drop len bs) (scan_endpoint d c))
           else scan_descriptors (drop len bs) c)"
  by pat_completeness auto
termination by (relation "measure (length \<circ> fst)") auto

declare scan_descriptors.simps [simp del]

definition usb_location :: "u8 \<Rightarrow> u8 \<Rightarrow> u64" where
  "usb_location root_port slot_id = push_bit 32 (ucast root_port) OR ucast slot_id"

text \<open>The identities the second loop registers, one for each interface in its default setting.\<close>

function interface_identities :: "npk_device_identity \<Rightarrow> u8 list \<Rightarrow> npk_device_identity list" where
  "interface_identities base bs =
     (if bs = [] then []
      else let len = unat (bs ! 0); kind = bs ! 1
        in if len < 2 \<or> len > length bs then []
           else (if kind = 4 \<and> len \<ge> 9 \<and> bs ! 3 = 0
                 then [base\<lparr>di_class := bs ! 5, di_subclass := bs ! 6, di_protocol := bs ! 7, di_interface := bs ! 2\<rparr>] else [])
                @ interface_identities base (drop len bs))"
  by pat_completeness auto
termination by (relation "measure (length \<circ> snd)") auto

declare interface_identities.simps [simp del]

type_synonym 's probe = "npk_device_driver \<Rightarrow> nat \<Rightarrow> 's \<Rightarrow> int \<times> 's"

definition register_configuration_interfaces ::
  "'a usb_state_scheme probe \<Rightarrow> u8 \<Rightarrow> u8 \<Rightarrow> u8 \<Rightarrow> u16 \<Rightarrow> u16 \<Rightarrow> u8 \<Rightarrow> u16 \<Rightarrow> 'a usb_state_scheme \<Rightarrow> 'a usb_state_scheme" where
  "register_configuration_interfaces probe slot_id root_port speed vendor_id product_id revision total_length s =
     (let bs = take (unat total_length) (configuration_buffer s)
      in case scan_descriptors bs \<lparr>sc_current = zero_interface, sc_boot_keyboard = zero_interface, sc_has_boot_keyboard = False, sc_interfaces = 0\<rparr> of
           None \<Rightarrow> s
         | Some c \<Rightarrow>
             let s = (if sc_has_boot_keyboard c \<and> sc_interfaces c = 1 \<and> configuration_buffer s ! 4 = 1
                         \<and> valid_boot_keyboard_candidate (sc_boot_keyboard c)
                      then snd (prepare_boot_keyboard slot_id root_port speed (configuration_buffer s ! 5) (sc_boot_keyboard c) s) else s);
                 base = \<lparr>di_bus = NPK_DEVICE_BUS_USB, di_location = usb_location root_port slot_id, di_vendor = vendor_id,
                         di_product = product_id, di_class = 0, di_subclass = 0, di_protocol = 0, di_revision = revision, di_interface = 0\<rparr>
             in fold (\<lambda>i s. snd (devmgr_register_device probe (Some i) s)) (interface_identities base bs) s)"

definition device_descriptor_ok :: "u8 list \<Rightarrow> bool" where
  "device_descriptor_ok d \<longleftrightarrow> d ! 0 = 18 \<and> d ! 1 = 1"

text \<open>The last part of \<^verbatim>\<open>usb_identify_xhci_device\<close>: reading the first configuration of the device described by \<open>d\<close>.\<close>

definition identify_configuration ::
  "'a usb_state_scheme probe \<Rightarrow> u8 \<Rightarrow> u8 \<Rightarrow> u8 \<Rightarrow> u8 list \<Rightarrow> 'a usb_state_scheme \<Rightarrow> 'a usb_state_scheme" where
  "identify_configuration probe slot_id root_port speed d s =
     (case xhci_get_descriptor slot_id 2 0 9 (zeros 9) s of
        ((ok, h), s) \<Rightarrow>
          let total_length = read_le16 h 2
          in if \<not> ok \<or> h ! 0 < 9 \<or> h ! 1 \<noteq> 2 \<or> total_length < 9 \<or> total_length > 4096 then s
             else case xhci_get_descriptor slot_id 2 0 total_length (configuration_buffer s) s of
                 ((ok, b), s) \<Rightarrow>
                   let s = s\<lparr>configuration_buffer := b\<rparr>
                   in if \<not> ok \<or> b ! 0 < 9 \<or> ucast (b ! 0) > total_length \<or> b ! 1 \<noteq> 2 \<or> read_le16 b 2 \<noteq> total_length then s
                      else register_configuration_interfaces probe slot_id root_port speed (read_le16 d 8) (read_le16 d 10)
                             (ucast (read_le16 d 2)) total_length s)"

definition usb_identify_xhci_device :: "'a usb_state_scheme probe \<Rightarrow> u8 \<Rightarrow> u8 \<Rightarrow> u8 \<Rightarrow> 'a usb_state_scheme \<Rightarrow> 'a usb_state_scheme" where
  "usb_identify_xhci_device probe slot_id root_port speed s =
     (case xhci_get_descriptor slot_id 1 0 8 (zeros 18) s of
        ((ok, d), s) \<Rightarrow>
          if \<not> ok \<or> \<not> device_descriptor_ok d then s
          else case valid_ep0_packet_size speed (d ! 7) of
              None \<Rightarrow> s
            | Some packet \<Rightarrow>
                (case xhci_update_ep0_max_packet slot_id packet s of
                   (False, s) \<Rightarrow> s
                 | (True, s) \<Rightarrow>
                     (case xhci_get_descriptor slot_id 1 0 18 d s of
                        ((ok, d), s) \<Rightarrow>
                          if \<not> ok \<or> \<not> device_descriptor_ok d then s
                          else
                            let identity = \<lparr>di_bus = NPK_DEVICE_BUS_USB, di_location = usb_location root_port slot_id,
                                  di_vendor = read_le16 d 8, di_product = read_le16 d 10, di_class = d ! 4, di_subclass = d ! 5,
                                  di_protocol = d ! 6, di_revision = ucast (read_le16 d 2), di_interface = 0xff\<rparr>;
                                s = snd (devmgr_register_device probe (Some identity) s)
                            in if d ! 17 = 0 then s else identify_configuration probe slot_id root_port speed d s)))"

subsection \<open>Enumeration and the two probes\<close>

definition enumerate_port :: "'a usb_state_scheme probe \<Rightarrow> u8 \<Rightarrow> 'a usb_state_scheme \<Rightarrow> 'a usb_state_scheme" where
  "enumerate_port probe port s =
     (let port_offset = xc_operational_offset (xhci s) + 0x400 + (ucast port - 1) * 0x10;
          (status, s) = read_reg32 port_offset s
      in if status = UINT32_MAX \<or> status AND XHCI_PORT_CONNECTED = 0 then s
         else case (if status AND XHCI_PORT_ENABLED = 0 then reset_port port port_offset s else (True, s)) of
             (False, s) \<Rightarrow> s
           | (True, s) \<Rightarrow>
               (let (status, s) = read_reg32 port_offset s; speed = ucast (drop_bit 10 (status AND 0x3c00)) :: u8
                in if status AND XHCI_PORT_CONNECTED = 0 \<or> status AND XHCI_PORT_ENABLED = 0 \<or> speed < 1 \<or> speed > 4 then s
                   else case enable_and_address_device port speed s of
                       (None, s) \<Rightarrow> s
                     | (Some slot_id, s) \<Rightarrow> usb_identify_xhci_device probe slot_id port speed s))"

definition enumerate_connected_ports :: "'a usb_state_scheme probe \<Rightarrow> 'a usb_state_scheme \<Rightarrow> 'a usb_state_scheme" where
  "enumerate_connected_ports probe s =
     fold (enumerate_port probe) (map of_nat [1..<unat (xc_max_ports (xhci s)) + 1]) s"

definition start_xhci_for_pci_device :: "'a usb_state_scheme probe \<Rightarrow> nat \<Rightarrow> 'a usb_state_scheme \<Rightarrow> bool \<times> 'a usb_state_scheme" where
  "start_xhci_for_pci_device probe i s =
     (let d = pci_devices s ! i
      in case pci_get_bar_info (Some i) 0 s of
           (None, s) \<Rightarrow> (False, s)
         | (Some bar, s) \<Rightarrow>
             if bar_is_io bar \<or> bar_base bar = 0 \<or> bar_size bar < 0x1000 \<or> bar_size bar > XHCI_MMIO_LIMIT then (False, s)
             else
               let (command_status, s) = pci_config_read32 (pci_bus d) (pci_slot d) (pci_function d) 0x04 s;
                   original = command_status AND 0xffff;
                   s = pci_config_write32 (pci_bus d) (pci_slot d) (pci_function d) 0x04 (original OR 2 OR 4) s;
                   (mmio, s) = vmm_map_mmio (bar_base bar) (bar_size bar) s;
                   s = upd_xhci (\<lambda>x. x\<lparr>xc_pci_bus := pci_bus d, xc_pci_slot := pci_slot d, xc_pci_function := pci_function d,
                         xc_bar_size := bar_size bar, xc_bar_command_original := original, xc_pci_command_modified := True, xc_mmio := mmio\<rparr>) s
               in if mmio = 0 then (False, s)
                  else case write_all [initialize_controller_registers, allocate_controller_dma, configure_rings, start_controller] s of
                      (False, s) \<Rightarrow> (False, s)
                    | (True, s) \<Rightarrow> (True, enumerate_connected_ports probe s))"

definition find_pci_function :: "u8 \<Rightarrow> u8 \<Rightarrow> u8 \<Rightarrow> 'a pci_state_scheme \<Rightarrow> nat option" where
  "find_pci_function bus slot func s =
     find (\<lambda>i. let d = pci_devices s ! i in pci_bus d = bus \<and> pci_slot d = slot \<and> pci_function d = func) [0..<length (pci_devices s)]"

definition xhci_probe :: "'a usb_state_scheme probe \<Rightarrow> nat \<Rightarrow> 'a usb_state_scheme \<Rightarrow> int \<times> 'a usb_state_scheme" where
  "xhci_probe probe i s =
     (let identity = dev_identity (dm_devices s ! i)
      in if di_bus identity \<noteq> NPK_DEVICE_BUS_PCI then (- 22, s)
         else if xc_active (xhci s) \<or> xhci_quarantined s then (- 16, s)
         else
           let bus = ucast (drop_bit 16 (di_location identity)); slot = ucast (drop_bit 8 (di_location identity));
               func = ucast (di_location identity)
           in case find_pci_function bus slot func s of
                None \<Rightarrow> (- 19, s)
              | Some p \<Rightarrow>
                  (case start_xhci_for_pci_device probe p (s\<lparr>xhci := zero_controller\<rparr>) of
                     (True, s) \<Rightarrow> (0, s)
                   | (False, s) \<Rightarrow>
                       (case stop_after_failed_start s of
                          (False, s) \<Rightarrow> (- 5, s\<lparr>xhci_quarantined := True\<rparr>)
                        | (True, s) \<Rightarrow>
                            let s = free_dma_pages s; x = xhci s;
                                s = (if xc_pci_command_modified x \<and> xc_pci_bus x = bus \<and> xc_pci_slot x = slot \<and> xc_pci_function x = func
                                     then pci_config_write32 bus slot func 0x04 (xc_bar_command_original x) s else s)
                            in (- 5, s\<lparr>xhci := zero_controller\<rparr>))))"

definition usb_generic_keyboard_probe :: "nat \<Rightarrow> 'a usb_state_scheme \<Rightarrow> int \<times> 'a usb_state_scheme" where
  "usb_generic_keyboard_probe i s =
     (let identity = dev_identity (dm_devices s ! i); slot_id = ucast (di_location identity) :: u8
      in if di_bus identity \<noteq> NPK_DEVICE_BUS_USB \<or> di_interface identity = 0xff then (- 22, s)
         else if slot_id = 0 \<or> slot_id > 16 then (- 19, s)
         else case usb_get_hid_keyboard_info slot_id (di_interface identity) s of
             None \<Rightarrow> (- 19, s)
           | Some info \<Rightarrow>
               if hk_report_length info = 0 \<or> hk_report_length info > 512 then (- 22, s)
               else case xhci_control_request slot_id 0x81 6 0x2200 (ucast (hk_interface_number info)) (Some (zeros 512)) (hk_report_length info) s of
                   (None, s) \<Rightarrow> (- 22, s)
                 | (Some (actual, descriptor), s) \<Rightarrow>
                     if actual \<noteq> hk_report_length info \<or> \<not> report_descriptor_has_keyboard_application (take (unat actual) descriptor) then (- 22, s)
                     else case xhci_control_request slot_id 0x21 0xb 0 (ucast (hk_interface_number info)) None 0 s of
                         (None, s) \<Rightarrow> (- 5, s)
                       | (Some _, s) \<Rightarrow>
                           let s = s\<lparr>keyboard_states := (keyboard_states s)(unat slot_id := \<lparr>uk_modifiers = 0, uk_keys = zeros 6, uk_initialized = False\<rparr>)\<rparr>
                           in (case xhci_start_interrupt_in slot_id s of
                                 (False, s) \<Rightarrow> (- 5, s)
                               | (True, s) \<Rightarrow> (0, s)))"

text \<open>The two driver descriptors.  The numbers stand for their addresses.\<close>

definition class_id :: "npk_device_bus \<Rightarrow> u8 \<Rightarrow> u8 \<Rightarrow> u8 \<Rightarrow> npk_device_id" where
  "class_id bus c sc p =
     \<lparr>id_bus = bus, id_flags = NPK_DEVICE_MATCH_CLASS OR NPK_DEVICE_MATCH_SUBCLASS OR NPK_DEVICE_MATCH_PROTOCOL, id_vendor = 0, id_product = 0,
      id_class = c, id_subclass = sc, id_protocol = p, id_interface = 0\<rparr>"

definition xhci_driver :: npk_device_driver where
  "xhci_driver = \<lparr>drv_address = 1, drv_name = Some ''xhci'', drv_ids = Some [class_id NPK_DEVICE_BUS_PCI 0x0c 0x03 0x30], drv_has_probe = True\<rparr>"

definition keyboard_driver :: npk_device_driver where
  "keyboard_driver = \<lparr>drv_address = 2, drv_name = Some ''usb_hid_keyboard'', drv_ids = Some [class_id NPK_DEVICE_BUS_USB 3 1 1], drv_has_probe = True\<rparr>"

text \<open>Calling a driver's probe: the two drivers of the kernel.  The probe of the controller registers the
  devices it finds, which probes again; \<open>n\<close> bounds that nesting.\<close>

primrec driver_probe :: "nat \<Rightarrow> 'a usb_state_scheme probe" where
  "driver_probe 0 driver i s = (if drv_address driver = 2 then usb_generic_keyboard_probe i s else (- 22, s))"
| "driver_probe (Suc n) driver i s =
     (if drv_address driver = 2 then usb_generic_keyboard_probe i s
      else if drv_address driver = 1 then xhci_probe (driver_probe n) i s else (- 22, s))"

definition npk_probe :: "'a usb_state_scheme probe" where
  "npk_probe = driver_probe 1"

definition usb_generic_keyboard_register_driver :: "'a usb_state_scheme \<Rightarrow> int \<times> 'a usb_state_scheme" where
  "usb_generic_keyboard_register_driver s = devmgr_register_driver npk_probe (Some keyboard_driver) s"

definition xhci_register_driver :: "'a usb_state_scheme \<Rightarrow> int \<times> 'a usb_state_scheme" where
  "xhci_register_driver s = devmgr_register_driver npk_probe (Some xhci_driver) s"

definition usb_init :: "'a usb_state_scheme \<Rightarrow> 'a usb_state_scheme" where
  "usb_init s =
     (case usb_generic_keyboard_register_driver (s\<lparr>keyboard_interfaces := []\<rparr>) of
        (r, s) \<Rightarrow> if r \<noteq> 0 then s else snd (xhci_register_driver s))"

definition usb_poll :: "'a usb_state_scheme \<Rightarrow> 'a usb_state_scheme option" where
  "usb_poll s = xhci_poll_keyboard_inputs s"

end
