(* ===== verification/Device_Props.thy ===== *)
theory Device_Props
  imports Demo Usb
begin

text \<open>
  Properties of the device layer: the reader of the device catalogue always returns and accepts only
  well-formed catalogues, and the lookup in an accepted catalogue is exact.
\<close>

subsection \<open>Progress of the readers\<close>

lemma skip_space_le: "length (skip_space cs) \<le> length cs"
  by (simp add: skip_space_def length_dropWhile_le)

lemma take_char_shorter: "take_char c cs = (True, rest) \<Longrightarrow> length rest < length cs"
  using skip_space_le [of cs] by (auto simp: take_char_def split: list.splits if_splits)

lemma take_char_le: "take_char c cs = (b, rest) \<Longrightarrow> length rest \<le> length cs"
proof (cases "skip_space cs")
  case (Cons a as)
  assume "take_char c cs = (b, rest)"
  then show ?thesis using Cons skip_space_le [of cs] unfolding take_char_def Cons by (auto split: if_splits)
qed (simp add: take_char_def)

lemma separator_shorter:
  assumes "take_char a cs = (x, r)" "take_char b r = (True, r')"
  shows "length r' < length cs"
  using take_char_le [OF assms(1)] take_char_shorter [OF assms(2)] by simp

lemma bracket_shorter:
  assumes "take_char a cs = (True, r)" "take_char b (skip_space r) = (x, r')"
  shows "length r' < length cs"
  using take_char_shorter [OF assms(1)] take_char_le [OF assms(2)] skip_space_le [of r] by simp

lemma string_body_shorter: "string_body capacity out cs = Some (v, rest) \<Longrightarrow> length rest < length cs"
proof (induction capacity out cs rule: string_body.induct)
  case (1 capacity out cs)
  note eq = "1.prems" [unfolded string_body.simps [of capacity out cs]]
  show ?case
  proof (cases cs)
    case Nil
    then show ?thesis using eq by simp
  next
    case (Cons c tl)
    show ?thesis
    proof (cases "c = CHR 0x22")
      case True
      then show ?thesis using eq Cons by (auto split: if_splits)
    next
      case False
      then obtain c' r where r: "(if c = CHR 0x5c then escape tl else Some (c, tl)) = Some (c', r)"
        and rec: "string_body capacity (c' # out) r = Some (v, rest)" and ok: "\<not> (byte_of c' < 0x20 \<or> length out + 1 \<ge> capacity)"
        using eq Cons by (auto split: option.splits if_splits)
      have "length r \<le> length tl" using r by (auto split: if_splits dest: escape_shorter)
      moreover have "length rest < length r"
        using "1.IH" [OF Cons False r refl ok rec] .
      ultimately show ?thesis using Cons by simp
    qed
  qed
qed

lemma skip_body_shorter: "skip_body cs = Some rest \<Longrightarrow> length rest < length cs"
proof (induction cs rule: skip_body.induct)
  case (1 cs)
  note eq = "1.prems" [unfolded skip_body.simps [of cs]]
  show ?case
  proof (cases cs)
    case Nil
    then show ?thesis using eq by simp
  next
    case (Cons c tl)
    consider (quote) "c = CHR 0x22" | (plain) "c \<noteq> CHR 0x22" "c \<noteq> CHR 0x5c" | (esc) "c = CHR 0x5c" by blast
    then show ?thesis
    proof cases
      case quote
      then show ?thesis using eq Cons by simp
    next
      case plain
      then have "skip_body tl = Some rest" using eq Cons by (auto split: if_splits)
      then show ?thesis using "1.IH" Cons plain eq by (auto split: if_splits)
    next
      case esc
      then obtain e tl' where tl: "tl = e # tl'" using eq Cons by (auto split: if_splits list.splits)
      show ?thesis
      proof (cases "e = CHR ''u''")
        case True
        then obtain v r where r: "four_digits tl' = Some (v, r)" "skip_body r = Some rest"
          using eq Cons esc tl by (auto split: if_splits option.splits)
        have "length rest < length r" using "1.IH"(1) [of c tl e tl' "(v, r)" v r] eq Cons esc tl True r by (auto split: if_splits)
        then show ?thesis using four_digits_shorter [OF r(1)] Cons tl by simp
      next
        case False
        then have r: "skip_body tl' = Some rest" "simple_escape e \<noteq> None" using eq Cons esc tl by (auto split: if_splits)
        have "length rest < length tl'" using "1.IH"(2) [of c tl e tl'] eq Cons esc tl False r by (auto split: if_splits)
        then show ?thesis using Cons tl by simp
      qed
    qed
  qed
qed

lemma parse_json_string_shorter: "parse_json_string capacity cs = Some (v, rest) \<Longrightarrow> length rest < length cs"
  by (auto simp: parse_json_string_def split: prod.splits bool.splits if_splits dest!: take_char_shorter string_body_shorter)

lemma skip_json_string_shorter: "skip_json_string cs = Some rest \<Longrightarrow> length rest < length cs"
  by (auto simp: skip_json_string_def split: prod.splits bool.splits dest!: take_char_shorter skip_body_shorter)

lemma uint32_body_le: "uint32_body v cs = Some (w, rest) \<Longrightarrow> length rest \<le> length cs"
  by (induction v cs rule: uint32_body.induct) (auto simp: Let_def split: if_splits)

lemma parse_uint32_shorter: "parse_uint32 cs = Some (v, rest) \<Longrightarrow> length rest < length cs"
  using skip_space_le [of cs]
  by (auto simp: parse_uint32_def Let_def split: if_splits option.splits prod.splits dest!: uint32_body_le)

lemma skip_scalar_shorter: "skip_scalar cs = Some rest \<Longrightarrow> length rest < length cs"
  using length_dropWhile_le [of "\<lambda>c. \<not> ends_scalar c" cs] by (auto simp: skip_scalar_def Let_def split: if_splits)

subsection \<open>Skipping values\<close>

text \<open>A reader returns on texts shorter than \<open>k\<close>, and what it leaves is shorter than what it was given.\<close>

definition returns_below :: "nat \<Rightarrow> (string \<Rightarrow> 'r option option) \<Rightarrow> bool" where
  "returns_below k f \<longleftrightarrow> (\<forall>cs. length cs < k \<longrightarrow> f cs \<noteq> None)"

definition consumes :: "(string \<Rightarrow> string option option) \<Rightarrow> bool" where
  "consumes f \<longleftrightarrow> (\<forall>cs rest. f cs = Some (Some rest) \<longrightarrow> length rest < length cs)"

definition consumes_value :: "(string \<Rightarrow> ('v \<times> string) option option) \<Rightarrow> bool" where
  "consumes_value f \<longleftrightarrow> (\<forall>cs v rest. f cs = Some (Some (v, rest)) \<longrightarrow> length rest < length cs)"

lemmas shorter = take_char_shorter skip_json_string_shorter parse_json_string_shorter parse_uint32_shorter skip_scalar_shorter

lemma skip_members_consumes:
  assumes "consumes skip"
  shows "skip_members skip n cs = Some (Some rest) \<Longrightarrow> length rest < length cs"
proof (induction n arbitrary: cs)
  case (Suc n)
  show ?case
    using Suc.prems assms
    by (auto split: option.splits prod.splits bool.splits dest!: take_char_shorter skip_json_string_shorter take_char_le Suc.IH
        simp: consumes_def) (force+)?
qed simp


lemma skip_elements_consumes:
  assumes "consumes skip"
  shows "skip_elements skip n cs = Some (Some rest) \<Longrightarrow> length rest < length cs"
proof (induction n arbitrary: cs)
  case (Suc n)
  then obtain r where r: "skip cs = Some (Some r)" by (auto split: option.splits)
  then have "length r < length cs" using assms by (simp add: consumes_def)
  then show ?case using Suc.prems r
    by (auto split: prod.splits bool.splits dest!: take_char_shorter take_char_le Suc.IH)
qed simp

lemma skip_json_object_consumes:
  assumes "consumes skip" "skip_json_object skip n depth cs = Some (Some rest)"
  shows "length rest < length cs"
proof -
  have rest: "length rest \<le> length r'" if "skip_members skip n r' = Some (Some rest)" for r'
    using skip_members_consumes [OF assms(1) that] by simp
  show ?thesis
    using assms(2) by (auto simp: skip_json_object_def split: prod.splits bool.splits if_splits dest: bracket_shorter)
      (use rest bracket_shorter in fastforce)?
qed

lemma skip_json_array_consumes:
  assumes "consumes skip" "skip_json_array skip n depth cs = Some (Some rest)"
  shows "length rest < length cs"
proof -
  have rest: "length rest \<le> length r'" if "skip_elements skip n r' = Some (Some rest)" for r'
    using skip_elements_consumes [OF assms(1) that] by simp
  show ?thesis
    using assms(2) by (auto simp: skip_json_array_def split: prod.splits bool.splits if_splits dest: bracket_shorter)
      (use rest bracket_shorter in fastforce)?
qed

lemma skip_json_value_consumes: "consumes (skip_json_value n depth)"
proof (induction n arbitrary: depth)
  case 0
  show ?case by (simp add: consumes_def)
next
  case (Suc n)
  show ?case
    unfolding consumes_def
  proof (intro allI impI)
    fix cs rest assume eq: "skip_json_value (Suc n) depth cs = Some (Some rest)"
    then obtain c tl where sp: "skip_space cs = c # tl" by (auto split: if_splits list.splits)
    have "length rest < length (c # tl)"
      using eq sp skip_json_object_consumes [OF Suc.IH [of "Suc depth"], of n depth "c # tl" rest]
        skip_json_array_consumes [OF Suc.IH [of "Suc depth"], of n depth "c # tl" rest]
      by (auto split: if_splits dest: skip_json_string_shorter skip_scalar_shorter)
    then show "length rest < length cs" using skip_space_le [of cs] sp by simp
  qed
qed

lemma skip_members_returns:
  assumes "consumes skip" "returns_below k skip"
  shows "length cs < n \<Longrightarrow> length cs \<le> k \<Longrightarrow> skip_members skip n cs \<noteq> None"
proof (induction n arbitrary: cs)
  case (Suc n)
  show ?case
  proof (cases "skip_json_string cs")
    case (Some r)
    have r: "length r < length cs" using Some by (rule skip_json_string_shorter)
    show ?thesis
    proof (cases "take_char (CHR '':'') r")
      case (Pair b r')
      show ?thesis
      proof (cases b)
        case True
        then have r': "length r' < length r" using Pair by (auto dest: take_char_shorter)
        then obtain w where w: "skip r' = Some w" using assms(2) r Suc.prems by (fastforce simp: returns_below_def)
        show ?thesis
        proof (cases w)
          case (Some r'')
          have "length r'' < length r'" using assms(1) w Some by (auto simp: consumes_def)
          then show ?thesis using \<open>skip_json_string cs = Some r\<close> Pair True w Some r r' Suc.prems
            by (auto split: prod.splits bool.splits dest!: take_char_shorter take_char_le intro!: Suc.IH [THEN not_None_eq [THEN iffD1]])
        qed (use \<open>skip_json_string cs = Some r\<close> Pair True w in simp)
      qed (use Some Pair in simp)
    qed
  qed simp
qed simp

lemma skip_elements_returns:
  assumes "consumes skip" "returns_below k skip"
  shows "length cs < n \<Longrightarrow> length cs < k \<Longrightarrow> skip_elements skip n cs \<noteq> None"
proof (induction n arbitrary: cs)
  case (Suc n)
  then obtain w where w: "skip cs = Some w" using assms(2) by (fastforce simp: returns_below_def)
  show ?case
  proof (cases w)
    case (Some r)
    have "length r < length cs" using assms(1) w Some by (auto simp: consumes_def)
    then show ?thesis using w Some Suc.prems
      by (auto split: prod.splits bool.splits dest!: take_char_shorter take_char_le intro!: Suc.IH [THEN not_None_eq [THEN iffD1]])
  qed (use w in simp)
qed simp


lemma skip_json_object_returns:
  assumes "consumes skip" "returns_below n skip" "length cs \<le> n"
  shows "skip_json_object skip n depth cs \<noteq> None"
proof -
  have "skip_members skip n r \<noteq> None" if "length r < length cs" for r
    using skip_members_returns [OF assms(1,2), of r n] that assms(3) by simp
  then show ?thesis using bracket_shorter [of _ cs]
    by (auto simp: skip_json_object_def split: prod.split bool.split)
qed

lemma skip_json_array_returns:
  assumes "consumes skip" "returns_below n skip" "length cs \<le> n"
  shows "skip_json_array skip n depth cs \<noteq> None"
proof -
  have "skip_elements skip n r \<noteq> None" if "length r < length cs" for r
    using skip_elements_returns [OF assms(1,2), of r n] that assms(3) by simp
  then show ?thesis using bracket_shorter [of _ cs]
    by (auto simp: skip_json_array_def split: prod.split bool.split)
qed

lemma skip_json_value_returns: "returns_below n (skip_json_value n depth)"
proof (induction n arbitrary: depth)
  case 0
  show ?case by (simp add: returns_below_def)
next
  case (Suc n)
  have "skip_json_value (Suc n) depth cs \<noteq> None" if "length cs < Suc n" for cs
  proof (cases "skip_space cs")
    case (Cons c tl)
    then have "length (c # tl) \<le> n" using skip_space_le [of cs] that by simp
    then show ?thesis
      using Cons skip_json_object_returns [OF skip_json_value_consumes Suc.IH, of "c # tl"]
        skip_json_array_returns [OF skip_json_value_consumes Suc.IH, of "c # tl"] by auto
  qed simp
  then show ?case by (simp add: returns_below_def)
qed

subsection \<open>Objects and tables\<close>

lemma object_loop_consumes:
  assumes "\<And>key d. consumes_value (member key d)"
  shows "object_loop n member d cs = Some (Some (d', rest)) \<Longrightarrow> length rest < length cs"
proof (induction n arbitrary: d cs)
  case (Suc n)
  then obtain key r where r: "parse_json_string DDC_TEXT_CAPACITY cs = Some (key, r)" by (auto split: option.splits)
  then obtain r1 where r1: "take_char (CHR '':'') r = (True, r1)" using Suc.prems by (auto split: prod.splits bool.splits)
  then obtain e r2 where r2: "member key d r1 = Some (Some (e, r2))" using Suc.prems r by (auto split: option.splits)
  have "length r < length cs" using r by (rule parse_json_string_shorter)
  moreover have "length r1 < length r" using r1 by (rule take_char_shorter)
  moreover have "length r2 < length r1" using assms r2 unfolding consumes_value_def by blast
  ultimately show ?case using Suc.prems r r1 r2
    by (auto split: prod.splits bool.splits dest!: take_char_shorter take_char_le Suc.IH)
qed simp

lemma object_loop_returns:
  assumes "\<And>key d. consumes_value (member key d)" "\<And>key d. returns_below k (member key d)"
  shows "length cs < n \<Longrightarrow> length cs \<le> k \<Longrightarrow> object_loop n member d cs \<noteq> None"
proof (induction n arbitrary: d cs)
  case (Suc n)
  show ?case
  proof (cases "parse_json_string DDC_TEXT_CAPACITY cs")
    case (Some kr)
    obtain key r where kr: "kr = (key, r)" by force
    obtain b r1 where r1: "take_char (CHR '':'') r = (b, r1)" by force
    have r: "length r < length cs" using Some kr by (auto dest: parse_json_string_shorter)
    show ?thesis
    proof (cases b)
      case True
      then have l1: "length r1 < length r" using r1 by (auto dest: take_char_shorter)
      then obtain w where w: "member key d r1 = Some w" using assms(2) r Suc.prems by (fastforce simp: returns_below_def)
      show ?thesis
      proof (cases w)
        case (Some er)
        obtain e r2 where er: "er = (e, r2)" by force
        have l2: "length r2 < length r1" using assms(1) w Some er unfolding consumes_value_def by blast
        have "object_loop n member e r3 \<noteq> None" if "length r3 < length r2" for r3
          using that l1 l2 r Suc.prems by (intro Suc.IH) auto
        then show ?thesis using \<open>parse_json_string DDC_TEXT_CAPACITY cs = Some kr\<close> kr r1 True w Some er
          by (auto split: prod.splits bool.splits dest: separator_shorter)
      qed (use \<open>parse_json_string DDC_TEXT_CAPACITY cs = Some kr\<close> kr r1 True w in simp)
    qed (use Some kr r1 in simp)
  qed simp
qed simp

lemma read_object_consumes:
  assumes "\<And>key d. consumes_value (member key d)"
  shows "consumes_value (read_object n member d)"
  unfolding consumes_value_def
proof (intro allI impI)
  fix cs v rest assume eq: "read_object n member d cs = Some (Some (v, rest))"
  obtain b r where r: "take_char (CHR ''{'') cs = (b, r)" by force
  obtain x r' where r': "take_char (CHR ''}'') (skip_space r) = (x, r')" by force
  have b: "b" using eq r by (cases b) (auto simp: read_object_def)
  then have "length r' < length cs" using bracket_shorter [OF _ r'] r by simp
  moreover have "length rest \<le> length r'"
    using eq r r' b object_loop_consumes [where member = member and n = n and d = d and cs = r' and d' = v and rest = rest, OF assms] by (cases x) (auto simp: read_object_def)
  ultimately show "length rest < length cs" by simp
qed

lemma read_object_returns:
  assumes "\<And>key d. consumes_value (member key d)" "\<And>key d. returns_below n (member key d)"
  shows "returns_below (Suc n) (read_object n member d)"
  unfolding returns_below_def
proof (intro allI impI)
  fix cs :: string assume len: "length cs < Suc n"
  obtain b r where r: "take_char (CHR ''{'') cs = (b, r)" by force
  obtain x r' where r': "take_char (CHR ''}'') (skip_space r) = (x, r')" by force
  have "object_loop n member d r' \<noteq> None" if b
    using that bracket_shorter [OF _ r', of "CHR ''{''" cs] r len by (intro object_loop_returns [OF assms]) auto
  then show "read_object n member d cs \<noteq> None" using r r' by (cases b; cases x) (auto simp: read_object_def)
qed

lemma entries_loop_consumes:
  assumes "consumes_value parse"
  shows "entries_loop n limit parse xs cs = Some (Some (ys, rest)) \<Longrightarrow> length rest < length cs"
proof (induction n arbitrary: xs cs)
  case (Suc n)
  then obtain x r where r: "parse cs = Some (Some (x, r))" by (auto split: if_splits option.splits)
  then have "length r < length cs" using assms unfolding consumes_value_def by blast
  then show ?case using Suc.prems r
    by (auto split: if_splits prod.splits bool.splits dest!: take_char_shorter take_char_le Suc.IH)
qed simp

lemma entries_loop_returns:
  assumes "consumes_value parse" "returns_below k parse"
  shows "length cs < n \<Longrightarrow> length cs < k \<Longrightarrow> entries_loop n limit parse xs cs \<noteq> None"
proof (induction n arbitrary: xs cs)
  case (Suc n)
  then obtain w where w: "parse cs = Some w" using assms(2) by (fastforce simp: returns_below_def)
  show ?case
  proof (cases w)
    case (Some xr)
    obtain x r where xr: "xr = (x, r)" by force
    have l: "length r < length cs" using assms(1) w Some xr unfolding consumes_value_def by blast
    have "entries_loop n limit parse (xs @ [x]) r' \<noteq> None" if "length r' < length r" for r'
      using that l Suc.prems by (intro Suc.IH) auto
    then show ?thesis using w Some xr by (auto split: prod.splits bool.splits dest: separator_shorter)
  qed (use w in simp)
qed simp

lemma read_entries_consumes:
  assumes "consumes_value parse" "read_entries n limit parse xs cs = Some (Some (ys, rest))"
  shows "length rest < length cs"
proof -
  obtain b r where r: "take_char (CHR ''['') cs = (b, r)" by force
  obtain x r' where r': "take_char (CHR '']'') (skip_space r) = (x, r')" by force
  have b: "b" using assms(2) r by (cases b) (auto simp: read_entries_def)
  then have "length r' < length cs" using bracket_shorter [OF _ r'] r by simp
  moreover have "length rest \<le> length r'"
    using assms(2) r r' b entries_loop_consumes [OF assms(1), of n limit xs r' ys rest] by (cases x) (auto simp: read_entries_def)
  ultimately show ?thesis by simp
qed

lemma read_entries_returns:
  assumes "consumes_value parse" "returns_below n parse" "length cs \<le> n"
  shows "read_entries n limit parse xs cs \<noteq> None"
proof -
  obtain b r where r: "take_char (CHR ''['') cs = (b, r)" by force
  obtain x r' where r': "take_char (CHR '']'') (skip_space r) = (x, r')" by force
  have "entries_loop n limit parse xs r' \<noteq> None" if b
    using that bracket_shorter [OF _ r', of "CHR ''[''" cs] r assms(3) by (intro entries_loop_returns [OF assms(1,2)]) auto
  then show ?thesis using r r' by (cases b; cases x) (auto simp: read_entries_def)
qed


subsection \<open>The catalogue\<close>

lemma number_member_shorter: "number_member limit cs = Some (v, rest) \<Longrightarrow> length rest < length cs"
  by (auto simp: number_member_def split: option.splits prod.splits if_splits dest: parse_uint32_shorter)

lemma skip_json_value_shorter: "skip_json_value n depth cs = Some (Some rest) \<Longrightarrow> length rest < length cs"
  using skip_json_value_consumes [of n depth] by (simp add: consumes_def)

lemma category_member_consumes: "consumes_value (category_member n key d)"
  unfolding consumes_value_def
proof (intro allI impI)
  fix cs d' rest assume eq: "category_member n key d cs = Some (Some (d', rest))"
  let ?strings = "{''bus'', ''type'', ''generic_name'', ''driver''}" and ?numbers = "{''class'', ''subclass'', ''protocol''}"
  consider (string) "key \<in> ?strings" | (number) "key \<in> ?numbers" | (other) "key \<notin> ?strings \<and> key \<notin> ?numbers"
    by (cases "key \<in> ?strings"; cases "key \<in> ?numbers") simp_all
  then show "length rest < length cs"
  proof cases
    case string
    then show ?thesis using eq by (auto simp: category_member_def dest: parse_json_string_shorter)
  next
    case number
    then show ?thesis using eq by (auto simp: category_member_def dest: number_member_shorter)
  next
    case other
    then show ?thesis using eq by (auto simp: category_member_def dest: skip_json_value_shorter)
  qed
qed

lemma product_member_consumes: "consumes_value (product_member n key d)"
  unfolding consumes_value_def
proof (intro allI impI)
  fix cs d' rest assume eq: "product_member n key d cs = Some (Some (d', rest))"
  let ?strings = "{''type'', ''name''}" and ?numbers = "{''vid'', ''pid''}"
  consider (string) "key \<in> ?strings" | (number) "key \<in> ?numbers" | (other) "key \<notin> ?strings \<and> key \<notin> ?numbers"
    by (cases "key \<in> ?strings"; cases "key \<in> ?numbers") simp_all
  then show "length rest < length cs"
  proof cases
    case string
    then show ?thesis using eq by (auto simp: product_member_def dest: parse_json_string_shorter)
  next
    case number
    then show ?thesis using eq by (auto simp: product_member_def dest: number_member_shorter)
  next
    case other
    then show ?thesis using eq by (auto simp: product_member_def dest: skip_json_value_shorter)
  qed
qed

lemma category_member_returns: "returns_below n (category_member n key d)"
  using skip_json_value_returns [of n 0] by (auto simp: returns_below_def category_member_def Let_def)

lemma product_member_returns: "returns_below n (product_member n key d)"
  using skip_json_value_returns [of n 0] by (auto simp: returns_below_def product_member_def Let_def)

lemma consumes_valueD: "consumes_value f \<Longrightarrow> f cs = Some (Some (v, rest)) \<Longrightarrow> length rest < length cs"
  unfolding consumes_value_def by blast

lemma parse_category_consumes: "consumes_value (parse_category n)"
  unfolding consumes_value_def
proof (intro allI impI)
  fix cs c rest assume "parse_category n cs = Some (Some (c, rest))"
  then obtain d where "read_object n (category_member n) \<lparr>draft_bus = [], draft_category = zero_category, draft_seen = []\<rparr> cs = Some (Some (d, rest))"
    by (auto simp: parse_category_def split: option.splits if_splits)
  then show "length rest < length cs"
    by (rule consumes_valueD [OF read_object_consumes [where member = "category_member n", OF category_member_consumes]])
qed

lemma parse_product_consumes: "consumes_value (parse_product n)"
  unfolding consumes_value_def
proof (intro allI impI)
  fix cs p rest assume "parse_product n cs = Some (Some (p, rest))"
  then obtain d where "read_object n (product_member n) \<lparr>draft_product = zero_product, draft_keys = []\<rparr> cs = Some (Some (d, rest))"
    by (auto simp: parse_product_def split: option.splits if_splits)
  then show "length rest < length cs"
    by (rule consumes_valueD [OF read_object_consumes [where member = "product_member n", OF product_member_consumes]])
qed

lemma parse_category_returns: "returns_below n (parse_category n)"
proof -
  have "parse_category n cs \<noteq> None" if "length cs < n" for cs
  proof -
    have "read_object n (category_member n) d cs \<noteq> None" for d
      using read_object_returns [where member = "category_member n" and n = n, OF category_member_consumes category_member_returns] that
      by (simp add: returns_below_def)
    then show ?thesis unfolding parse_category_def by (auto split: option.split)
  qed
  then show ?thesis by (simp add: returns_below_def)
qed

lemma parse_product_returns: "returns_below n (parse_product n)"
proof -
  have "parse_product n cs \<noteq> None" if "length cs < n" for cs
  proof -
    have "read_object n (product_member n) d cs \<noteq> None" for d
      using read_object_returns [where member = "product_member n" and n = n, OF product_member_consumes product_member_returns] that
      by (simp add: returns_below_def)
    then show ?thesis unfolding parse_product_def by (auto split: option.split)
  qed
  then show ?thesis by (simp add: returns_below_def)
qed

lemma read_entries_consumes_value: "consumes_value parse \<Longrightarrow> consumes_value (read_entries n limit parse xs)"
  unfolding consumes_value_def [of "read_entries n limit parse xs"] by (blast intro: read_entries_consumes)

lemma document_member_consumes: "consumes_value (document_member n key d)"
  unfolding consumes_value_def
proof (intro allI impI)
  fix cs d' rest assume eq: "document_member n key d cs = Some (Some (d', rest))"
  have cats: "length rest < length cs" if "parse_categories n xs cs = Some (Some (ys, rest))" for xs ys
    using that unfolding parse_categories_def by (rule consumes_valueD [OF read_entries_consumes_value [OF parse_category_consumes]])
  have prods: "length rest < length cs" if "parse_products n xs cs = Some (Some (ys, rest))" for xs ys
    using that unfolding parse_products_def by (rule consumes_valueD [OF read_entries_consumes_value [OF parse_product_consumes]])
  have skipped: "length rest < length cs" if "skip_json_value n 0 cs = Some (Some rest)"
    using that by (rule skip_json_value_shorter)
  show "length rest < length cs"
    using eq cats prods skipped unfolding document_member_def
    by (cases "key = ''version''"; cases "key = ''categories''"; cases "key = ''products''") (auto dest: parse_uint32_shorter)
qed

lemma document_member_returns: "returns_below n (document_member n key d)"
proof -
  have "document_member n key d cs \<noteq> None" if "length cs < n" for cs
  proof -
    have "skip_json_value n 0 cs \<noteq> None" using skip_json_value_returns [of n 0] that by (simp add: returns_below_def)
    moreover have "parse_categories n xs cs \<noteq> None" for xs
      unfolding parse_categories_def using that by (intro read_entries_returns parse_category_consumes parse_category_returns) simp
    moreover have "parse_products n xs cs \<noteq> None" for xs
      unfolding parse_products_def using that by (intro read_entries_returns parse_product_consumes parse_product_returns) simp
    ultimately show ?thesis by (simp add: document_member_def)
  qed
  then show ?thesis by (simp add: returns_below_def)
qed

lemma parse_document_returns: "parse_document cs \<noteq> None"
proof -
  let ?n = "document_levels cs"
  have "read_object ?n (document_member ?n) d cs \<noteq> None" for d
    using read_object_returns [where member = "document_member ?n" and n = ?n, OF document_member_consumes document_member_returns]
    by (simp add: returns_below_def document_levels_def)
  then show ?thesis unfolding parse_document_def Let_def by (auto split: option.split)
qed

subsection \<open>What an accepted catalogue looks like\<close>

definition fits :: "nat \<Rightarrow> string \<Rightarrow> bool" where
  "fits capacity t \<longleftrightarrow> t \<noteq> [] \<and> length t < capacity"

definition category_ok :: "ddc_category \<Rightarrow> bool" where
  "category_ok c \<longleftrightarrow> fits TYPE_CAPACITY (cat_type c) \<and> fits DISPLAY_CAPACITY (cat_generic_name c) \<and> fits DRIVER_CAPACITY (cat_driver c)"

definition product_ok :: "ddc_product \<Rightarrow> bool" where
  "product_ok p \<longleftrightarrow> fits TYPE_CAPACITY (prod_type p) \<and> fits DISPLAY_CAPACITY (prod_model p)"

definition catalogue_ok :: "ddc_category list \<Rightarrow> ddc_product list \<Rightarrow> bool" where
  "catalogue_ok cats prods \<longleftrightarrow>
     cats \<noteq> [] \<and> length cats \<le> DDC_MAX_CATEGORIES \<and> length prods \<le> DDC_MAX_PRODUCTS
     \<and> (\<forall>c \<in> set cats. category_ok c) \<and> (\<forall>p \<in> set prods. product_ok p)
     \<and> distinct (map (\<lambda>c. (cat_class c, cat_subclass c, cat_protocol c)) cats)
     \<and> distinct (map (\<lambda>p. (prod_vendor p, prod_product p, prod_type p)) prods)
     \<and> (\<forall>p \<in> set prods. \<exists>c \<in> set cats. cat_type c = prod_type p)"

lemma string_body_fits: "string_body capacity out cs = Some (v, rest) \<Longrightarrow> length out < capacity \<Longrightarrow> fits capacity v"
proof (induction capacity out cs rule: string_body.induct)
  case (1 capacity out cs)
  note eq = "1.prems"(1) [unfolded string_body.simps [of capacity out cs]]
  show ?case
  proof (cases cs)
    case Nil
    then show ?thesis using eq by simp
  next
    case (Cons c tl)
    show ?thesis
    proof (cases "c = CHR 0x22")
      case True
      then show ?thesis using eq Cons "1.prems"(2) by (auto simp: fits_def split: if_splits)
    next
      case False
      then obtain c' r where r: "(if c = CHR 0x5c then escape tl else Some (c, tl)) = Some (c', r)"
        and rec: "string_body capacity (c' # out) r = Some (v, rest)" and ok: "\<not> (byte_of c' < 0x20 \<or> length out + 1 \<ge> capacity)"
        using eq Cons by (auto split: option.splits if_splits)
      show ?thesis using "1.IH" [OF Cons False r refl ok rec] ok by simp
    qed
  qed
qed

lemma parse_json_string_fits: "parse_json_string capacity cs = Some (v, rest) \<Longrightarrow> fits capacity v"
  by (auto simp: parse_json_string_def split: prod.splits bool.splits if_splits dest!: string_body_fits)

lemma object_loop_invariant:
  assumes "\<And>key d cs d' rest. P d \<Longrightarrow> member key d cs = Some (Some (d', rest)) \<Longrightarrow> P d'"
  shows "object_loop n member d cs = Some (Some (d', rest)) \<Longrightarrow> P d \<Longrightarrow> P d'"
proof (induction n arbitrary: d cs)
  case (Suc n)
  then obtain key r where r: "parse_json_string DDC_TEXT_CAPACITY cs = Some (key, r)" by (auto split: option.splits)
  then obtain r1 where r1: "take_char (CHR '':'') r = (True, r1)" using Suc.prems by (auto split: prod.splits bool.splits)
  then obtain e r2 where r2: "member key d r1 = Some (Some (e, r2))" using Suc.prems r by (auto split: option.splits)
  then have "P e" using assms Suc.prems(2) by blast
  then show ?case using Suc.prems r r1 r2 Suc.IH by (auto split: prod.splits bool.splits)
qed simp

lemma read_object_invariant:
  assumes "\<And>key d cs d' rest. P d \<Longrightarrow> member key d cs = Some (Some (d', rest)) \<Longrightarrow> P d'"
    and "read_object n member d cs = Some (Some (d', rest))" "P d"
  shows "P d'"
proof -
  obtain b r where r: "take_char (CHR ''{'') cs = (b, r)" by force
  obtain x r' where r': "take_char (CHR ''}'') (skip_space r) = (x, r')" by force
  show ?thesis
  proof (cases "b \<and> \<not> x")
    case True
    then have "object_loop n member d r' = Some (Some (d', rest))" using assms(2) r r' by (simp add: read_object_def)
    then show ?thesis using assms(3) by (rule object_loop_invariant [where P = P and member = member, rotated]) (rule assms(1))
  next
    case False
    then have "d' = d" using assms(2) r r' by (cases b; cases x) (simp_all add: read_object_def)
    then show ?thesis using assms(3) by simp
  qed
qed

definition draft_ok :: "category_draft \<Rightarrow> bool" where
  "draft_ok d \<longleftrightarrow>
     (''type'' \<in> set (draft_seen d) \<longrightarrow> fits TYPE_CAPACITY (cat_type (draft_category d)))
     \<and> (''generic_name'' \<in> set (draft_seen d) \<longrightarrow> fits DISPLAY_CAPACITY (cat_generic_name (draft_category d)))
     \<and> (''driver'' \<in> set (draft_seen d) \<longrightarrow> fits DRIVER_CAPACITY (cat_driver (draft_category d)))"

lemma category_member_draft:
  assumes ok: "draft_ok d" and eq: "category_member n key d cs = Some (Some (d', rest))"
  shows "draft_ok d'"
proof -
  let ?strings = "{''bus'', ''type'', ''generic_name'', ''driver''}" and ?numbers = "{''class'', ''subclass'', ''protocol''}"
  consider (string) "key \<in> ?strings" | (number) "key \<in> ?numbers" | (other) "key \<notin> ?strings \<and> key \<notin> ?numbers"
    by (cases "key \<in> ?strings"; cases "key \<in> ?numbers") simp_all
  then show ?thesis
  proof cases
    case string
    then show ?thesis using eq ok unfolding insert_iff empty_iff
      by (elim disjE) (clarsimp simp: category_member_def draft_ok_def; drule parse_json_string_fits; simp)+
  next
    case number
    then show ?thesis using eq ok unfolding insert_iff empty_iff
      by (elim disjE) (clarsimp simp: category_member_def draft_ok_def)+
  next
    case other
    then have "d' = d" using eq by (auto simp: category_member_def)
    then show ?thesis using ok by simp
  qed
qed

lemma parse_category_ok:
  assumes "parse_category n cs = Some (Some (c, rest))"
  shows "category_ok c"
proof -
  obtain d where d: "read_object n (category_member n) \<lparr>draft_bus = [], draft_category = zero_category, draft_seen = []\<rparr> cs = Some (Some (d, rest))"
    "category_complete d" "c = draft_category d"
    using assms by (auto simp: parse_category_def split: option.splits if_splits)
  have "draft_ok d"
    by (rule read_object_invariant [where P = draft_ok and member = "category_member n", OF _ d(1)])
      (erule category_member_draft, assumption, simp add: draft_ok_def)
  then show ?thesis using d(2,3) by (simp add: draft_ok_def category_complete_def category_ok_def)
qed

definition product_draft_ok :: "product_draft \<Rightarrow> bool" where
  "product_draft_ok d \<longleftrightarrow>
     (''type'' \<in> set (draft_keys d) \<longrightarrow> fits TYPE_CAPACITY (prod_type (draft_product d)))
     \<and> (''name'' \<in> set (draft_keys d) \<longrightarrow> fits DISPLAY_CAPACITY (prod_model (draft_product d)))"

lemma product_member_draft:
  assumes ok: "product_draft_ok d" and eq: "product_member n key d cs = Some (Some (d', rest))"
  shows "product_draft_ok d'"
proof -
  let ?strings = "{''type'', ''name''}" and ?numbers = "{''vid'', ''pid''}"
  consider (string) "key \<in> ?strings" | (number) "key \<in> ?numbers" | (other) "key \<notin> ?strings \<and> key \<notin> ?numbers"
    by (cases "key \<in> ?strings"; cases "key \<in> ?numbers") simp_all
  then show ?thesis
  proof cases
    case string
    then show ?thesis using eq ok by (auto simp: product_member_def product_draft_ok_def dest!: parse_json_string_fits)
  next
    case number
    then show ?thesis using eq ok by (auto simp: product_member_def product_draft_ok_def)
  next
    case other
    then have "d' = d" using eq by (auto simp: product_member_def)
    then show ?thesis using ok by simp
  qed
qed

lemma parse_product_ok:
  assumes "parse_product n cs = Some (Some (p, rest))"
  shows "product_ok p"
proof -
  obtain d where d: "read_object n (product_member n) \<lparr>draft_product = zero_product, draft_keys = []\<rparr> cs = Some (Some (d, rest))"
    "{''vid'', ''pid'', ''type'', ''name''} \<subseteq> set (draft_keys d)" "p = draft_product d"
    using assms by (auto simp: parse_product_def split: option.splits if_splits)
  have "product_draft_ok d"
    by (rule read_object_invariant [where P = product_draft_ok and member = "product_member n", OF _ d(1)])
      (erule product_member_draft, assumption, simp add: product_draft_ok_def)
  then show ?thesis using d(2,3) by (simp add: product_draft_ok_def product_ok_def)
qed

lemma entries_loop_invariant:
  assumes "\<And>cs x rest. parse cs = Some (Some (x, rest)) \<Longrightarrow> Q x"
  shows "entries_loop n limit parse xs cs = Some (Some (ys, rest)) \<Longrightarrow> (\<forall>x \<in> set xs. Q x) \<Longrightarrow> (\<forall>y \<in> set ys. Q y) \<and> length ys \<le> limit"
proof (induction n arbitrary: xs cs)
  case (Suc n)
  then obtain x r where r: "parse cs = Some (Some (x, r))" "length xs < limit" by (auto split: if_splits option.splits)
  then have "\<forall>y \<in> set (xs @ [x]). Q y" using assms Suc.prems(2) by auto
  moreover have "entries_loop n limit parse (xs @ [x]) cs' = Some (Some (ys, rest)) \<or> ys = xs @ [x]"
    if "take_char (CHR '']'') r = (b, r')" "take_char (CHR '','') r' = (c, cs')" for b c r' cs'
    using that Suc.prems(1) r by (auto split: bool.splits prod.splits)
  ultimately show ?case using Suc.IH r(2) by (metis length_append_singleton less_eq_Suc_le surj_pair)
qed simp

lemma read_entries_invariant:
  assumes "\<And>cs x rest. parse cs = Some (Some (x, rest)) \<Longrightarrow> Q x"
    and "read_entries n limit parse xs cs = Some (Some (ys, rest))" "\<forall>x \<in> set xs. Q x" "length xs \<le> limit"
  shows "(\<forall>y \<in> set ys. Q y) \<and> length ys \<le> limit"
  using assms(2-4) entries_loop_invariant [where Q = Q and parse = parse, OF assms(1)]
  by (auto simp: read_entries_def split: prod.splits bool.splits)

definition document_ok :: "document \<Rightarrow> bool" where
  "document_ok d \<longleftrightarrow> (\<forall>c \<in> set (doc_categories d). category_ok c) \<and> length (doc_categories d) \<le> DDC_MAX_CATEGORIES
     \<and> (\<forall>p \<in> set (doc_products d). product_ok p) \<and> length (doc_products d) \<le> DDC_MAX_PRODUCTS"

lemma document_member_ok:
  assumes ok: "document_ok d" and eq: "document_member n key d cs = Some (Some (d', rest))"
  shows "document_ok d'"
proof -
  have cats: "(\<forall>c \<in> set ys. category_ok c) \<and> length ys \<le> DDC_MAX_CATEGORIES"
    if "parse_categories n (doc_categories d) cs = Some (Some (ys, rest))" for ys
    by (rule read_entries_invariant [where Q = category_ok and parse = "parse_category n", OF parse_category_ok that [unfolded parse_categories_def]])
      (use ok in \<open>simp_all add: document_ok_def\<close>)
  have prods: "(\<forall>p \<in> set ys. product_ok p) \<and> length ys \<le> DDC_MAX_PRODUCTS"
    if "parse_products n (doc_products d) cs = Some (Some (ys, rest))" for ys
    by (rule read_entries_invariant [where Q = product_ok and parse = "parse_product n", OF parse_product_ok that [unfolded parse_products_def]])
      (use ok in \<open>simp_all add: document_ok_def\<close>)
  show ?thesis
    using eq cats prods ok unfolding document_member_def document_ok_def
    by (cases "key = ''version''"; cases "key = ''categories''"; cases "key = ''products''") auto
qed

lemma categories_distinct_iff:
  "categories_distinct cats \<longleftrightarrow> distinct (map (\<lambda>c. (cat_class c, cat_subclass c, cat_protocol c)) cats)"
  by (induction cats) auto

lemma products_ok_iff:
  "products_ok cats prods \<longleftrightarrow> distinct (map (\<lambda>p. (prod_vendor p, prod_product p, prod_type p)) prods)
     \<and> (\<forall>p \<in> set prods. \<exists>c \<in> set cats. cat_type c = prod_type p)"
  by (induction prods) (auto simp: category_type_exists_def)

lemma parse_document_catalogue:
  assumes "parse_document cs = Some (Some (cats, prods))"
  shows "catalogue_ok cats prods"
proof -
  let ?n = "document_levels cs"
  obtain d rest where d: "read_object ?n (document_member ?n)
      \<lparr>doc_version = None, doc_has_categories = False, doc_categories = [], doc_products = []\<rparr> cs = Some (Some (d, rest))"
    and ok: "cats = doc_categories d" "prods = doc_products d" "cats \<noteq> []" "categories_distinct cats" "products_ok cats prods"
    using assms by (auto simp: parse_document_def Let_def split: option.splits if_splits)
  have "document_ok d"
    by (rule read_object_invariant [where P = document_ok and member = "document_member ?n", OF _ d])
      (erule document_member_ok, assumption, simp add: document_ok_def)
  then show ?thesis using ok by (simp add: catalogue_ok_def document_ok_def categories_distinct_iff products_ok_iff)
qed

subsection \<open>Properties of the catalogue\<close>

text \<open>C28. Loading the device catalogue always returns: whatever the path, the file system and the bytes of the file are,
  the reader ends, so \<^verbatim>\<open>device_config_load_vfs\<close> gives a result and a state.\<close>

theorem device_config_load_returns: "\<exists>r t. device_config_load_vfs path s = Some (r, t)"
  by (auto simp: device_config_load_vfs_def Let_def parse_document_returns split: option.split prod.split sum.split)

text \<open>C23. A document the reader accepts is a well-formed catalogue: at least one and at most 16 categories and at most 64
  products; every text is non-empty and fits its array; no two categories share class, subclass and protocol, no
  two products share vendor, product and type; and the type of every product is the type of a category.\<close>

theorem parse_document_sound: "parse_document cs = Some (Some (cats, prods)) \<Longrightarrow> catalogue_ok cats prods"
  by (rule parse_document_catalogue)

definition quoted :: "string \<Rightarrow> string" where
  "quoted t = CHR 0x22 # t @ [CHR 0x22]"

definition demo_document :: string where
  "demo_document = ''{'' @ quoted ''note'' @ '':[{}], '' @ quoted ''version'' @ '':1, '' @ quoted ''categories'' @ '':[{''
     @ quoted ''bus'' @ '':'' @ quoted ''usb'' @ '','' @ quoted ''class'' @ '':3,'' @ quoted ''subclass'' @ '':1,''
     @ quoted ''protocol'' @ '':1,'' @ quoted ''type'' @ '':'' @ quoted ''keyboard'' @ '',''
     @ quoted ''generic_name'' @ '':'' @ quoted ''USB keyboard'' @ '','' @ quoted ''driver'' @ '':'' @ quoted ''kbd'' @ ''}]}''"

definition demo_category :: ddc_category where
  "demo_category = \<lparr>cat_class = 3, cat_subclass = 1, cat_protocol = 1, cat_type = ''keyboard'', cat_generic_name = ''USB keyboard'', cat_driver = ''kbd''\<rparr>"

theorem parse_document_sound_witness:
  "parse_document demo_document = Some (Some ([demo_category], [])) \<and> catalogue_ok [demo_category] []"
proof -
  have "parse_document demo_document = Some (Some ([demo_category], []))" by code_simp
  then show ?thesis using parse_document_sound [of demo_document "[demo_category]" "[]"] by simp
qed

text \<open>The lookup in a table without two entries of the same key.\<close>

lemma find_unique:
  assumes "distinct (map key xs)" "\<And>x y. P x \<Longrightarrow> P y \<Longrightarrow> key x = key y"
  shows "find P xs = Some x \<longleftrightarrow> x \<in> set xs \<and> P x"
proof
  assume "find P xs = Some x"
  then show "x \<in> set xs \<and> P x" by (auto simp: find_Some_iff)
next
  assume x: "x \<in> set xs \<and> P x"
  then obtain y where y: "find P xs = Some y" by (cases "find P xs") (auto simp: find_None_iff)
  then have "y \<in> set xs" "P y" by (auto simp: find_Some_iff)
  then have "y = x" using assms x by (metis distinct_map inj_on_def)
  then show "find P xs = Some x" using y by simp
qed

text \<open>C29. In a loaded well-formed catalogue the lookup of a device is exact: it answers just for the USB interfaces whose
  class, subclass and protocol a category has, with the type and the driver of that category, and with the name of
  the product of the same vendor, product and type if the catalogue has one, the category's generic name if not.\<close>

theorem device_config_resolve_correct:
  assumes "ddc_loaded s" "catalogue_ok (categories s) (products s)"
  shows "device_config_resolve i s = Some m \<longleftrightarrow>
     di_bus i = NPK_DEVICE_BUS_USB \<and> di_interface i \<noteq> 0xff
     \<and> (\<exists>c \<in> set (categories s). category_of i c \<and> match_type m = cat_type c \<and> match_driver_name m = cat_driver c
          \<and> (if \<exists>p \<in> set (products s). product_of i c p
             then \<exists>p \<in> set (products s). product_of i c p \<and> match_display_name m = prod_model p
             else match_display_name m = cat_generic_name c))"
proof -
  note ok = assms(2) [unfolded catalogue_ok_def]
  have cat: "find (category_of i) (categories s) = Some c \<longleftrightarrow> c \<in> set (categories s) \<and> category_of i c" for c
    by (rule find_unique [where key = "\<lambda>c. (cat_class c, cat_subclass c, cat_protocol c)"]) (use ok in \<open>auto simp: category_of_def\<close>)
  have prod: "find (product_of i c) (products s) = Some p \<longleftrightarrow> p \<in> set (products s) \<and> product_of i c p" for c p
    by (rule find_unique [where key = "\<lambda>p. (prod_vendor p, prod_product p, prod_type p)"]) (use ok in \<open>auto simp: product_of_def\<close>)
  have copies: "text_copy TYPE_CAPACITY (cat_type c) = Some (cat_type c)" "text_copy DISPLAY_CAPACITY (cat_generic_name c) = Some (cat_generic_name c)"
    "text_copy DRIVER_CAPACITY (cat_driver c) = Some (cat_driver c)" if "c \<in> set (categories s)" for c
    using that ok by (auto simp: text_copy_def category_ok_def fits_def)
  have model: "text_copy DISPLAY_CAPACITY (prod_model p) = Some (prod_model p)" if "p \<in> set (products s)" for p
    using that ok by (auto simp: text_copy_def product_ok_def fits_def)
  show ?thesis
  proof (cases "find (category_of i) (categories s)")
    case None
    then have "\<not> (\<exists>c \<in> set (categories s). category_of i c)" by (auto simp: find_None_iff)
    then show ?thesis using None by (auto simp: device_config_resolve_def)
  next
    case (Some c)
    then have c: "c \<in> set (categories s)" "category_of i c" using cat by auto
    have only: "(\<exists>d \<in> set (categories s). category_of i d \<and> Q d) \<longleftrightarrow> Q c" for Q using c cat Some by (metis option.inject)
    note result = device_config_resolve_def only copies [OF c(1)] assms(1) Some
    show ?thesis
    proof (cases "find (product_of i c) (products s)")
      case None
      then have "\<not> (\<exists>p \<in> set (products s). product_of i c p)" by (auto simp: find_None_iff)
      then show ?thesis using None by (cases m) (simp add: result, blast)
    next
      case (Some p)
      then have p: "p \<in> set (products s)" "product_of i c p" using prod by auto
      have "\<exists>p \<in> set (products s). product_of i c p" using p by blast
      moreover have "(\<exists>q \<in> set (products s). product_of i c q \<and> Q q) \<longleftrightarrow> Q p" for Q using p prod Some by (metis option.inject)
      ultimately show ?thesis using Some model [OF p(1)] by (cases m) (simp add: result, blast)
    qed
  qed
qed

definition demo_product :: ddc_product where
  "demo_product = \<lparr>prod_vendor = 0x46d, prod_product = 0xc31c, prod_type = ''keyboard'', prod_model = ''K120''\<rparr>"

definition demo_catalogue :: ddc_state where
  "demo_catalogue = sys_state.extend blank_state (ddc_state.fields [demo_category] [demo_product] True)"

lemma demo_catalogue_fields: "categories demo_catalogue = [demo_category]" "products demo_catalogue = [demo_product]" "ddc_loaded demo_catalogue"
  by (simp_all add: demo_catalogue_def sys_state.defs ddc_state.defs)

definition demo_identity :: npk_device_identity where
  "demo_identity = \<lparr>di_bus = NPK_DEVICE_BUS_USB, di_location = 0, di_vendor = 0x46d, di_product = 0xc31c, di_class = 3,
     di_subclass = 1, di_protocol = 1, di_revision = 0, di_interface = 0\<rparr>"

theorem device_config_resolve_correct_witness:
  "device_config_resolve demo_identity demo_catalogue
     = Some \<lparr>match_type = ''keyboard'', match_display_name = ''K120'', match_driver_name = ''kbd''\<rparr>"
proof -
  have "catalogue_ok [demo_category] [demo_product]"
    by (simp add: catalogue_ok_def category_ok_def product_ok_def fits_def demo_category_def demo_product_def)
  then show ?thesis
    by (subst device_config_resolve_correct)
      (simp_all add: demo_catalogue_fields demo_identity_def demo_category_def demo_product_def category_of_def product_of_def)
qed

end
