(* ===== verification/Vm_Frames.thy ===== *)
theory Vm_Frames
  imports Frames Syscall
begin

text \<open>
  Making user pages present and copying to user memory change page tables, physical memory and the page
  allocator only: everything above them in the kernel state stays as it is.
\<close>

lemma memset_page_more [simp]: "vmm_state.more (memset_page p s) = vmm_state.more s"
  by (simp add: memset_page_def)

lemma memcpy_page_more [simp]: "vmm_state.more (memcpy_page p q s) = vmm_state.more s"
  by (simp add: memcpy_page_def)

lemma write_phys_more [simp]: "vmm_state.more (write_phys a bs s) = vmm_state.more s"
  by (induction a bs s rule: write_phys.induct) (simp_all add: poke_byte_def Let_def)

lemma map_page_root_moreD: "vmm_map_page_root r va pa fl s = (ok, t) \<Longrightarrow> vmm_state.more t = vmm_state.more s"
  using map_page_root_more [of r va pa fl s] by simp

lemmas page_moreD = alloc_moreD map_page_root_moreD

lemma resolve_cow_moreD: "vmm_resolve_cow_fault root a s = (ok, t) \<Longrightarrow> vmm_state.more t = vmm_state.more s"
  by (auto simp: vmm_resolve_cow_fault_def Let_def dest!: page_moreD split: if_splits option.splits prod.splits)

lemma map_zero_page_moreD: "map_zero_page p page pr s = (ok, t) \<Longrightarrow> vmm_state.more t = vmm_state.more s"
  by (auto simp: map_zero_page_def Let_def dest!: page_moreD split: if_splits prod.splits bool.splits)

lemma map_file_page_moreD: "map_file_page p v page s = (ok, t) \<Longrightarrow> vmm_state.more t = vmm_state.more s"
  by (auto simp: map_file_page_def Let_def dest!: page_moreD split: if_splits prod.splits bool.splits sum.splits)

lemma map_shared_page_moreD: "map_shared_page p v page s = (ok, t) \<Longrightarrow> vmm_state.more t = vmm_state.more s"
  by (auto simp: map_shared_page_def Let_def dest!: page_moreD split: if_splits prod.splits bool.splits)

lemma map_region_page_moreD: "map_region_page p v page pr s = (ok, t) \<Longrightarrow> vmm_state.more t = vmm_state.more s"
  by (auto simp: map_region_page_def dest: map_zero_page_moreD map_file_page_moreD map_shared_page_moreD split: if_splits option.splits)

lemma ensure_user_page_moreD: "vm_ensure_user_page p a w s = (ok, q, t) \<Longrightarrow> vmm_state.more t = vmm_state.more s"
  by (auto simp: vm_ensure_user_page_def Let_def dest: map_region_page_moreD split: if_splits prod.splits bool.splits)

lemma ensure_page_moreD: "ensure_page p a w s = (ok, q, t) \<Longrightarrow> vmm_state.more t = vmm_state.more s"
  by (auto simp: ensure_page_def dest: ensure_user_page_moreD split: option.splits prod.splits)

lemma writable_address_moreD: "writable_address cow p root a s = (pa, q, t) \<Longrightarrow> vmm_state.more t = vmm_state.more s"
  by (auto simp: writable_address_def Let_def dest!: ensure_page_moreD resolve_cow_moreD split: if_splits prod.splits bool.splits)

lemma copyout_loop_moreD: "copyout_loop cow p root a bs s = (ok, q, t) \<Longrightarrow> vmm_state.more t = vmm_state.more s"
proof (induction cow p root a bs s rule: copyout_loop.induct)
  case (1 cow p root a bs s)
  obtain pa q' u where u: "writable_address cow p root a s = (pa, q', u)" by (metis surj_pair)
  have "vmm_state.more u = vmm_state.more s" using u by (rule writable_address_moreD)
  then show ?case using "1.prems" "1.IH" u
    by (subst (asm) copyout_loop.simps) (auto simp: Let_def split: if_splits)
qed

lemma copyout_process_moreD: "copyout_process p a bs s = (ok, q, t) \<Longrightarrow> vmm_state.more t = vmm_state.more s"
  by (auto simp: copyout_process_def dest: copyout_loop_moreD split: if_splits prod.splits)

lemma copyout_all_moreD: "copyout_all ws p s = (ok, q, t) \<Longrightarrow> vmm_state.more t = vmm_state.more s"
proof (induction ws p s rule: copyout_all.induct)
  case (2 a bs ws p s)
  obtain b q' u where u: "copyout_process p a bs s = (b, q', u)" by (metis surj_pair)
  then show ?case using 2 copyout_process_moreD [OF u] by (cases b) auto
qed simp

lemma proc_fields_more:
  assumes "vmm_state.more s = vmm_state.more t"
  shows "current s = current t" "threads s = threads t" "processes s = processes t" "bsp_idle_thread s = bsp_idle_thread t"
    "futex_waiters s = futex_waiters t" "files s = files t" "proc_state.more s = proc_state.more t"
  using assms by (cases s, cases t, simp)+

text \<open>Running an operation on a process of the table.\<close>

lemma on_process_copyout_fields:
  assumes "on_process i (copyout_all ws) s = (ok, t)"
  shows "current t = current s" "threads t = threads s" "bsp_idle_thread t = bsp_idle_thread s" "futex_waiters t = futex_waiters s"
    "j \<noteq> i \<Longrightarrow> processes t j = processes s j"
proof -
  obtain q u where u: "copyout_all ws (processes s i) s = (ok, q, u)" and t: "t = upd_process i (\<lambda>_. q) u"
    using assms by (auto simp: on_process_def split: prod.splits)
  note same = proc_fields_more [OF copyout_all_moreD [OF u]]
  show "current t = current s" "threads t = threads s" "bsp_idle_thread t = bsp_idle_thread s" "futex_waiters t = futex_waiters s"
    "j \<noteq> i \<Longrightarrow> processes t j = processes s j"
    by (simp_all add: t upd_process_def same)
qed

end
