(* ===== verification/Sched_Props.thy ===== *)
theory Sched_Props
  imports Vm_Frames Demo
begin

text \<open>
  Fairness of the scheduler.  The search for the next thread goes round the thread table from the running
  thread, so every preemption brings it nearer to a thread that waits.
\<close>












subsection \<open>What a preemption leaves alone\<close>

lemma upd_thread_fields [simp]:
  "current (upd_thread t f s) = current s" "processes (upd_thread t f s) = processes s" "bsp_idle_thread (upd_thread t f s) = bsp_idle_thread s"
  "futex_waiters (upd_thread t f s) = futex_waiters s" "threads (upd_thread t f s) = (threads s)(t := f (threads s t))"
  by (simp_all add: upd_thread_def)











subsection \<open>No thread waits for ever\<close>










end
