(* ===== verification/Cstring.thy ===== *)
theory Cstring
  imports Npk_Prelude "HOL-Library.Monad_Syntax"
begin

text \<open>
  Byte strings in memory: \<^verbatim>\<open>src/string.c\<close> of the kernel and \<^verbatim>\<open>user/libc/string.c\<close>.  Memory is a partial map from
  addresses to bytes; an access to an address that is not mapped makes the outcome \<open>None\<close>, and so does a
  loop that never ends.  The kernel's functions have the names of the source with \<open>k_\<close> in front, those of the C library
  keep theirs.  Characters are bytes; a comparison returns what the C \<^verbatim>\<open>int\<close> holds.
\<close>

type_synonym umem = "u64 \<rightharpoonup> u8"

definition store8 :: "u64 \<Rightarrow> u8 \<Rightarrow> umem \<Rightarrow> umem option" where
  "store8 p v m = (if m p = None then None else Some (m(p \<mapsto> v)))"

subsection \<open>Blocks\<close>

text \<open>The two copying loops, upwards and downwards.\<close>

fun copy_up :: "u64 \<Rightarrow> u64 \<Rightarrow> nat \<Rightarrow> umem \<Rightarrow> umem option" where
  "copy_up d s 0 m = Some m"
| "copy_up d s (Suc n) m = do { v \<leftarrow> m s; m \<leftarrow> store8 d v m; copy_up (d + 1) (s + 1) n m }"

fun copy_down :: "u64 \<Rightarrow> u64 \<Rightarrow> nat \<Rightarrow> umem \<Rightarrow> umem option" where
  "copy_down d s 0 m = Some m"
| "copy_down d s (Suc n) m = do { v \<leftarrow> m (s + of_nat n); m \<leftarrow> store8 (d + of_nat n) v m; copy_down d s n m }"

fun fill_up :: "u64 \<Rightarrow> u8 \<Rightarrow> nat \<Rightarrow> umem \<Rightarrow> umem option" where
  "fill_up d v 0 m = Some m"
| "fill_up d v (Suc n) m = do { m \<leftarrow> store8 d v m; fill_up (d + 1) v n m }"

definition k_memset :: "u64 \<Rightarrow> u32 \<Rightarrow> u64 \<Rightarrow> umem \<Rightarrow> (u64 \<times> umem) option" where
  "k_memset dst v count m = do { m \<leftarrow> fill_up dst (ucast v) (unat count) m; Some (dst, m) }"

definition k_memcpy :: "u64 \<Rightarrow> u64 \<Rightarrow> u64 \<Rightarrow> umem \<Rightarrow> (u64 \<times> umem) option" where
  "k_memcpy dst src count m = do { m \<leftarrow> copy_up dst src (unat count) m; Some (dst, m) }"

definition k_memmove :: "u64 \<Rightarrow> u64 \<Rightarrow> u64 \<Rightarrow> umem \<Rightarrow> (u64 \<times> umem) option" where
  "k_memmove dst src count m =
     do { m \<leftarrow> (if dst < src then copy_up dst src (unat count) m
               else if dst > src then copy_down dst src (unat count) m else Some m);
          Some (dst, m) }"

fun k_memcmp_loop :: "u64 \<Rightarrow> u64 \<Rightarrow> nat \<Rightarrow> umem \<Rightarrow> int option" where
  "k_memcmp_loop a b 0 m = Some 0"
| "k_memcmp_loop a b (Suc n) m =
     do { x \<leftarrow> m a; y \<leftarrow> m b;
          if x \<noteq> y then Some (if x < y then -1 else 1) else k_memcmp_loop (a + 1) (b + 1) n m }"

definition k_memcmp :: "u64 \<Rightarrow> u64 \<Rightarrow> u64 \<Rightarrow> umem \<Rightarrow> int option" where
  "k_memcmp a b count m = k_memcmp_loop a b (unat count) m"

definition memcpy :: "u64 \<Rightarrow> u64 \<Rightarrow> u64 \<Rightarrow> umem \<Rightarrow> (u64 \<times> umem) option" where
  "memcpy destination source count m = do { m \<leftarrow> copy_up destination source (unat count) m; Some (destination, m) }"

definition memmove :: "u64 \<Rightarrow> u64 \<Rightarrow> u64 \<Rightarrow> umem \<Rightarrow> (u64 \<times> umem) option" where
  "memmove destination source count m =
     do { m \<leftarrow> (if destination \<le> source \<or> destination - source \<ge> count then copy_up destination source (unat count) m
               else copy_down destination source (unat count) m);
          Some (destination, m) }"

definition memset :: "u64 \<Rightarrow> u32 \<Rightarrow> u64 \<Rightarrow> umem \<Rightarrow> (u64 \<times> umem) option" where
  "memset destination v count m = do { m \<leftarrow> fill_up destination (ucast v) (unat count) m; Some (destination, m) }"

fun memcmp_loop :: "u64 \<Rightarrow> u64 \<Rightarrow> nat \<Rightarrow> umem \<Rightarrow> int option" where
  "memcmp_loop a b 0 m = Some 0"
| "memcmp_loop a b (Suc n) m =
     do { x \<leftarrow> m a; y \<leftarrow> m b; if x \<noteq> y then Some (uint x - uint y) else memcmp_loop (a + 1) (b + 1) n m }"

definition memcmp :: "u64 \<Rightarrow> u64 \<Rightarrow> u64 \<Rightarrow> umem \<Rightarrow> int option" where
  "memcmp left right count m = memcmp_loop left right (unat count) m"

text \<open>A null pointer is the address 0.\<close>

fun memchr_loop :: "u64 \<Rightarrow> u8 \<Rightarrow> nat \<Rightarrow> umem \<Rightarrow> u64 option" where
  "memchr_loop p wanted 0 m = Some 0"
| "memchr_loop p wanted (Suc n) m = do { x \<leftarrow> m p; if x = wanted then Some p else memchr_loop (p + 1) wanted n m }"

definition memchr :: "u64 \<Rightarrow> u32 \<Rightarrow> u64 \<Rightarrow> umem \<Rightarrow> u64 option" where
  "memchr memory v count m = memchr_loop memory (ucast v) (unat count) m"

subsection \<open>Strings\<close>

partial_function (option) k_strlen :: "u64 \<Rightarrow> umem \<Rightarrow> u64 option" where
  "k_strlen s m = do { c \<leftarrow> m s; if c = 0 then Some 0 else do { n \<leftarrow> k_strlen (s + 1) m; Some (n + 1) } }"

partial_function (option) k_strcmp :: "u64 \<Rightarrow> u64 \<Rightarrow> umem \<Rightarrow> int option" where
  "k_strcmp a b m =
     do { x \<leftarrow> m a; y \<leftarrow> m b; if x \<noteq> 0 \<and> x = y then k_strcmp (a + 1) (b + 1) m else Some (uint x - uint y) }"

fun k_strncmp_loop :: "u64 \<Rightarrow> u64 \<Rightarrow> nat \<Rightarrow> umem \<Rightarrow> int option" where
  "k_strncmp_loop a b 0 m = Some 0"
| "k_strncmp_loop a b (Suc n) m =
     do { x \<leftarrow> m a; y \<leftarrow> m b; if x \<noteq> y \<or> x = 0 then Some (uint x - uint y) else k_strncmp_loop (a + 1) (b + 1) n m }"

definition k_strncmp :: "u64 \<Rightarrow> u64 \<Rightarrow> u64 \<Rightarrow> umem \<Rightarrow> int option" where
  "k_strncmp a b count m = k_strncmp_loop a b (unat count) m"

partial_function (option) strlen :: "u64 \<Rightarrow> umem \<Rightarrow> u64 option" where
  "strlen s m = do { c \<leftarrow> m s; if c = 0 then Some 0 else do { n \<leftarrow> strlen (s + 1) m; Some (n + 1) } }"

fun strnlen_loop :: "u64 \<Rightarrow> nat \<Rightarrow> umem \<Rightarrow> nat option" where
  "strnlen_loop s 0 m = Some 0"
| "strnlen_loop s (Suc n) m = do { c \<leftarrow> m s; if c = 0 then Some 0 else do { k \<leftarrow> strnlen_loop (s + 1) n m; Some (Suc k) } }"

definition strnlen :: "u64 \<Rightarrow> u64 \<Rightarrow> umem \<Rightarrow> u64 option" where
  "strnlen s maximum m = do { n \<leftarrow> strnlen_loop s (unat maximum) m; Some (of_nat n) }"

partial_function (option) strcmp :: "u64 \<Rightarrow> u64 \<Rightarrow> umem \<Rightarrow> int option" where
  "strcmp left right m =
     do { x \<leftarrow> m left; y \<leftarrow> m right;
          if x \<noteq> 0 \<and> x = y then strcmp (left + 1) (right + 1) m else Some (uint x - uint y) }"

fun strncmp_loop :: "u64 \<Rightarrow> u64 \<Rightarrow> nat \<Rightarrow> umem \<Rightarrow> int option" where
  "strncmp_loop a b 0 m = Some 0"
| "strncmp_loop a b (Suc n) m =
     do { x \<leftarrow> m a; y \<leftarrow> m b; if x \<noteq> y \<or> x = 0 then Some (uint x - uint y) else strncmp_loop (a + 1) (b + 1) n m }"

definition strncmp :: "u64 \<Rightarrow> u64 \<Rightarrow> u64 \<Rightarrow> umem \<Rightarrow> int option" where
  "strncmp left right count m = strncmp_loop left right (unat count) m"

text \<open>The loop \<^verbatim>\<open>while ((*d++ = *s++) != 0)\<close> of \<^verbatim>\<open>strcpy\<close> and \<^verbatim>\<open>strcat\<close>.\<close>

partial_function (option) copy_string :: "u64 \<Rightarrow> u64 \<Rightarrow> umem \<Rightarrow> umem option" where
  "copy_string d s m = do { c \<leftarrow> m s; m \<leftarrow> store8 d c m; if c \<noteq> 0 then copy_string (d + 1) (s + 1) m else Some m }"

definition strcpy :: "u64 \<Rightarrow> u64 \<Rightarrow> umem \<Rightarrow> (u64 \<times> umem) option" where
  "strcpy destination source m = do { m \<leftarrow> copy_string destination source m; Some (destination, m) }"

text \<open>The first loop of \<^verbatim>\<open>strncpy\<close> and the loop of \<^verbatim>\<open>strncat\<close>: the number of characters copied.\<close>

fun copy_bounded :: "u64 \<Rightarrow> u64 \<Rightarrow> nat \<Rightarrow> umem \<Rightarrow> (nat \<times> umem) option" where
  "copy_bounded d s 0 m = Some (0, m)"
| "copy_bounded d s (Suc n) m =
     do { c \<leftarrow> m s;
          if c = 0 then Some (0, m)
          else do { m \<leftarrow> store8 d c m; (k, m) \<leftarrow> copy_bounded (d + 1) (s + 1) n m; Some (Suc k, m) } }"

definition strncpy :: "u64 \<Rightarrow> u64 \<Rightarrow> u64 \<Rightarrow> umem \<Rightarrow> (u64 \<times> umem) option" where
  "strncpy destination source count m =
     do { (i, m) \<leftarrow> copy_bounded destination source (unat count) m;
          m \<leftarrow> fill_up (destination + of_nat i) 0 (unat count - i) m;
          Some (destination, m) }"

definition strcat :: "u64 \<Rightarrow> u64 \<Rightarrow> umem \<Rightarrow> (u64 \<times> umem) option" where
  "strcat destination source m =
     do { n \<leftarrow> strlen destination m; m \<leftarrow> copy_string (destination + n) source m; Some (destination, m) }"

definition strncat :: "u64 \<Rightarrow> u64 \<Rightarrow> u64 \<Rightarrow> umem \<Rightarrow> (u64 \<times> umem) option" where
  "strncat destination source count m =
     do { n \<leftarrow> strlen destination m;
          (i, m) \<leftarrow> copy_bounded (destination + n) source (unat count) m;
          m \<leftarrow> store8 (destination + n + of_nat i) 0 m;
          Some (destination, m) }"

partial_function (option) strchr_loop :: "u8 \<Rightarrow> u64 \<Rightarrow> umem \<Rightarrow> u64 option" where
  "strchr_loop wanted s m =
     do { c \<leftarrow> m s; if c = wanted then Some s else if c = 0 then Some 0 else strchr_loop wanted (s + 1) m }"

definition strchr :: "u64 \<Rightarrow> u32 \<Rightarrow> umem \<Rightarrow> u64 option" where
  "strchr s character m = strchr_loop (ucast character) s m"

partial_function (option) strrchr_loop :: "u8 \<Rightarrow> u64 \<Rightarrow> u64 \<Rightarrow> umem \<Rightarrow> u64 option" where
  "strrchr_loop wanted found s m =
     do { c \<leftarrow> m s;
          if c = 0 then Some (if c = wanted then s else found)
          else strrchr_loop wanted (if c = wanted then s else found) (s + 1) m }"

definition strrchr :: "u64 \<Rightarrow> u32 \<Rightarrow> umem \<Rightarrow> u64 option" where
  "strrchr s character m = strrchr_loop (ucast character) 0 s m"

partial_function (option) strstr_loop :: "u64 \<Rightarrow> u64 \<Rightarrow> u64 \<Rightarrow> umem \<Rightarrow> u64 option" where
  "strstr_loop needle needle_length haystack m =
     do { c \<leftarrow> m haystack;
          if c = 0 then Some 0
          else do { d \<leftarrow> m needle;
                    same \<leftarrow> (if c = d then do { r \<leftarrow> strncmp haystack needle needle_length m; Some (r = 0) } else Some False);
                    if same then Some haystack else strstr_loop needle needle_length (haystack + 1) m } }"

definition strstr :: "u64 \<Rightarrow> u64 \<Rightarrow> umem \<Rightarrow> u64 option" where
  "strstr haystack needle m =
     do { d \<leftarrow> m needle;
          if d = 0 then Some haystack
          else do { n \<leftarrow> strlen needle m; strstr_loop needle n haystack m } }"

partial_function (option) contains_character :: "u64 \<Rightarrow> u8 \<Rightarrow> umem \<Rightarrow> bool option" where
  "contains_character members character m =
     do { c \<leftarrow> m members; if c = 0 then Some False else if c = character then Some True else contains_character (members + 1) character m }"

text \<open>How far the characters of a string are all in a set, or all outside it.\<close>

partial_function (option) span_loop :: "bool \<Rightarrow> u64 \<Rightarrow> u64 \<Rightarrow> umem \<Rightarrow> u64 option" where
  "span_loop inside members s m =
     do { c \<leftarrow> m s;
          if c = 0 then Some 0
          else do { b \<leftarrow> contains_character members c m;
                    if b = inside then do { n \<leftarrow> span_loop inside members (s + 1) m; Some (n + 1) } else Some 0 } }"

definition strspn :: "u64 \<Rightarrow> u64 \<Rightarrow> umem \<Rightarrow> u64 option" where
  "strspn s accept m = span_loop True accept s m"

definition strcspn :: "u64 \<Rightarrow> u64 \<Rightarrow> umem \<Rightarrow> u64 option" where
  "strcspn s reject m = span_loop False reject s m"

partial_function (option) strpbrk :: "u64 \<Rightarrow> u64 \<Rightarrow> umem \<Rightarrow> u64 option" where
  "strpbrk s accept m =
     do { c \<leftarrow> m s;
          if c = 0 then Some 0
          else do { b \<leftarrow> contains_character accept c m; if b then Some s else strpbrk (s + 1) accept m } }"

text \<open>\<^verbatim>\<open>strtok\<close>: \<open>nxt\<close> is the static variable; the result is the token, the new value of it and the memory.\<close>

definition strtok :: "u64 \<Rightarrow> u64 \<Rightarrow> u64 \<Rightarrow> umem \<Rightarrow> (u64 \<times> u64 \<times> umem) option" where
  "strtok s delimiters nxt m =
     (let nxt = (if s \<noteq> 0 then s else nxt)
      in if nxt = 0 then Some (0, nxt, m)
         else do { k \<leftarrow> span_loop True delimiters nxt m;
                   c \<leftarrow> m (nxt + k);
                   if c = 0 then Some (0, 0, m)
                   else do { let token = nxt + k;
                             j \<leftarrow> span_loop False delimiters token m;
                             d \<leftarrow> m (token + j);
                             if d \<noteq> 0 then do { m \<leftarrow> store8 (token + j) 0 m; Some (token, token + j + 1, m) }
                             else Some (token, 0, m) } })"

end
