(* ===== verification/Ulibc.thy ===== *)
theory Ulibc
  imports Cstring Bytes
begin

text \<open>
  The C library of the user programs below its streams: \<^verbatim>\<open>user/libc/syscall.c\<close>, \<^verbatim>\<open>stdlib.c\<close>, \<^verbatim>\<open>unistd.c\<close>,
  \<^verbatim>\<open>dirent.c\<close>, \<^verbatim>\<open>uname.c\<close> and the two functions of \<^verbatim>\<open>string.c\<close> that allocate.  The kernel is a parameter
  \<open>sys\<close>: the effect of one system call on the memory of the process and on the rest of the world, \<open>None\<close> if the
  call never returns.  The outcome of a function is \<open>None\<close> if it accesses memory that is not mapped or never
  returns.  Local arrays whose address is handed to the kernel lie at \<open>stack_area\<close>.
\<close>

type_synonym 'o os = "nat \<Rightarrow> u64 list \<Rightarrow> umem \<Rightarrow> 'o \<Rightarrow> (u64 \<times> umem \<times> 'o) option"

record npk_DIR =
  dir_fd :: u32
  dir_length :: nat
  dir_offset :: nat

record dirent =
  d_ino :: u64
  d_off :: u64
  d_reclen :: u16
  d_type :: u8
  d_name :: "u8 list"

record 'o libc_state =
  um :: umem
  world :: 'o
  errno_var :: int
  strtok_next :: u64
  stack_area :: u64
  directories :: "nat \<Rightarrow> npk_DIR"
  directory_used :: "nat \<Rightarrow> bool"
  directory_buffer :: "nat \<Rightarrow> u64"

definition npk_syscall6 :: "'o os \<Rightarrow> nat \<Rightarrow> u64 list \<Rightarrow> ('o, 'a) libc_state_scheme \<Rightarrow> (u64 \<times> ('o, 'a) libc_state_scheme) option" where
  "npk_syscall6 sys number args s =
     do { (r, m, w) \<leftarrow> sys number args (um s) (world s); Some (r, s\<lparr>um := m, world := w\<rparr>) }"

definition npk_errno_result :: "u64 \<Rightarrow> ('o, 'a) libc_state_scheme \<Rightarrow> u64 \<times> ('o, 'a) libc_state_scheme" where
  "npk_errno_result r s = (if sint r < 0 \<and> sint r \<ge> - 4095 then (- 1, s\<lparr>errno_var := - sint r\<rparr>) else (r, s))"

text \<open>A system call whose result goes through \<^verbatim>\<open>npk_errno_result\<close>.\<close>

definition checked_call :: "'o os \<Rightarrow> nat \<Rightarrow> u64 list \<Rightarrow> ('o, 'a) libc_state_scheme \<Rightarrow> (u64 \<times> ('o, 'a) libc_state_scheme) option" where
  "checked_call sys number args s = do { (r, s) \<leftarrow> npk_syscall6 sys number args s; Some (npk_errno_result r s) }"

definition set_errno :: "errno \<Rightarrow> ('o, 'a) libc_state_scheme \<Rightarrow> ('o, 'a) libc_state_scheme" where
  "set_errno e s = s\<lparr>errno_var := errno_num e\<rparr>"

fun put_bytes :: "u64 \<Rightarrow> u8 list \<Rightarrow> umem \<Rightarrow> umem option" where
  "put_bytes p [] m = Some m"
| "put_bytes p (b # bs) m = do { m \<leftarrow> store8 p b m; put_bytes (p + 1) bs m }"

fun get_bytes :: "u64 \<Rightarrow> nat \<Rightarrow> umem \<Rightarrow> u8 list option" where
  "get_bytes p 0 m = Some []"
| "get_bytes p (Suc n) m = do { b \<leftarrow> m p; bs \<leftarrow> get_bytes (p + 1) n m; Some (b # bs) }"

definition put64 :: "u64 \<Rightarrow> u64 \<Rightarrow> umem \<Rightarrow> umem option" where
  "put64 p v m = put_bytes p (le64 v) m"

definition get64 :: "u64 \<Rightarrow> umem \<Rightarrow> u64 option" where
  "get64 p m = do { bs \<leftarrow> get_bytes p 8 m; Some (of_le64 bs) }"

subsection \<open>Allocation\<close>

text \<open>The header of an allocation has 32 bytes: magic number, size of the mapping, size asked for, padding.\<close>

abbreviation (input) NPK_ALLOC_MAGIC :: u64 where "NPK_ALLOC_MAGIC \<equiv> 0x4e504b414c4c4f43"
abbreviation (input) HEADER_BYTES :: u64 where "HEADER_BYTES \<equiv> 32"

definition malloc :: "'o os \<Rightarrow> u64 \<Rightarrow> ('o, 'a) libc_state_scheme \<Rightarrow> (u64 \<times> ('o, 'a) libc_state_scheme) option" where
  "malloc sys requested s =
     (let size = (if requested = 0 then 1 else requested)
      in if size > UINT64_MAX - HEADER_BYTES - 4095 then Some (0, set_errno ENOMEM s)
         else let needed = HEADER_BYTES + size; mapping_bytes = (needed + 4096 - 1) AND NOT 4095
           in do { (r, s) \<leftarrow> checked_call sys 9 [0, mapping_bytes, 3, 0x22, - 1, 0] s;
                   if r = - 1 then Some (0, s)
                   else do { m \<leftarrow> put64 r NPK_ALLOC_MAGIC (um s);
                             m \<leftarrow> put64 (r + 8) mapping_bytes m;
                             m \<leftarrow> put64 (r + 16) size m;
                             Some (r + HEADER_BYTES, s\<lparr>um := m\<rparr>) } })"

definition free :: "'o os \<Rightarrow> u64 \<Rightarrow> ('o, 'a) libc_state_scheme \<Rightarrow> ('o, 'a) libc_state_scheme option" where
  "free sys pointer s =
     (if pointer = 0 then Some s
      else do { magic \<leftarrow> get64 (pointer - HEADER_BYTES) (um s);
                if magic \<noteq> NPK_ALLOC_MAGIC then Some s
                else do { mapping_bytes \<leftarrow> get64 (pointer - HEADER_BYTES + 8) (um s);
                          m \<leftarrow> put64 (pointer - HEADER_BYTES) 0 (um s);
                          (_, s) \<leftarrow> checked_call sys 11 [pointer - HEADER_BYTES, mapping_bytes, 0, 0, 0, 0] (s\<lparr>um := m\<rparr>);
                          Some s } })"

definition calloc :: "'o os \<Rightarrow> u64 \<Rightarrow> u64 \<Rightarrow> ('o, 'a) libc_state_scheme \<Rightarrow> (u64 \<times> ('o, 'a) libc_state_scheme) option" where
  "calloc sys count new_size s =
     (if new_size \<noteq> 0 \<and> count > UINT64_MAX div new_size then Some (0, set_errno ENOMEM s)
      else do { (p, s) \<leftarrow> malloc sys (count * new_size) s;
                if p = 0 then Some (0, s)
                else do { (_, m) \<leftarrow> memset p 0 (count * new_size) (um s); Some (p, s\<lparr>um := m\<rparr>) } })"

definition realloc :: "'o os \<Rightarrow> u64 \<Rightarrow> u64 \<Rightarrow> ('o, 'a) libc_state_scheme \<Rightarrow> (u64 \<times> ('o, 'a) libc_state_scheme) option" where
  "realloc sys pointer new_size s =
     (if pointer = 0 then malloc sys new_size s
      else if new_size = 0 then do { s \<leftarrow> free sys pointer s; Some (0, s) }
      else do { magic \<leftarrow> get64 (pointer - HEADER_BYTES) (um s);
                if magic \<noteq> NPK_ALLOC_MAGIC then Some (0, set_errno EINVAL s)
                else do { old_size \<leftarrow> get64 (pointer - HEADER_BYTES + 16) (um s);
                          (replacement, s) \<leftarrow> malloc sys new_size s;
                          if replacement = 0 then Some (0, s)
                          else do { (_, m) \<leftarrow> memcpy replacement pointer (if old_size < new_size then old_size else new_size) (um s);
                                    s \<leftarrow> free sys pointer (s\<lparr>um := m\<rparr>);
                                    Some (replacement, s) } } })"

definition strndup :: "'o os \<Rightarrow> u64 \<Rightarrow> u64 \<Rightarrow> ('o, 'a) libc_state_scheme \<Rightarrow> (u64 \<times> ('o, 'a) libc_state_scheme) option" where
  "strndup sys s maximum st =
     do { n \<leftarrow> strnlen s maximum (um st);
          if n = - 1 then Some (0, set_errno ENOMEM st)
          else do { (copy, st) \<leftarrow> malloc sys (n + 1) st;
                    if copy = 0 then Some (0, st)
                    else do { (_, m) \<leftarrow> memcpy copy s n (um st);
                              m \<leftarrow> store8 (copy + n) 0 m;
                              Some (copy, st\<lparr>um := m\<rparr>) } } }"

definition strdup :: "'o os \<Rightarrow> u64 \<Rightarrow> ('o, 'a) libc_state_scheme \<Rightarrow> (u64 \<times> ('o, 'a) libc_state_scheme) option" where
  "strdup sys s st = strndup sys s (- 1) st"

subsection \<open>Numbers\<close>

definition digit_value :: "u8 \<Rightarrow> int" where
  "digit_value c =
     (if c \<ge> 0x30 \<and> c \<le> 0x39 then uint c - 0x30
      else if c \<ge> 0x61 \<and> c \<le> 0x7a then uint c - 0x61 + 10
      else if c \<ge> 0x41 \<and> c \<le> 0x5a then uint c - 0x41 + 10
      else - 1)"

definition c_space :: "u8 \<Rightarrow> bool" where
  "c_space c \<longleftrightarrow> c = 0x20 \<or> c = 0x09 \<or> c = 0x0a \<or> c = 0x0d \<or> c = 0x0b \<or> c = 0x0c"

partial_function (option) u_skip_space :: "u64 \<Rightarrow> umem \<Rightarrow> u64 option" where
  "u_skip_space p m = do { c \<leftarrow> m p; if c_space c then u_skip_space (p + 1) m else Some p }"

text \<open>The sign after the white space: the position after it.\<close>

definition read_sign :: "u64 \<Rightarrow> umem \<Rightarrow> (bool \<times> u64) option" where
  "read_sign p m =
     do { p \<leftarrow> u_skip_space p m; c \<leftarrow> m p;
          Some (if c = 0x2b \<or> c = 0x2d then (c = 0x2d, p + 1) else (False, p)) }"

text \<open>The base that is used and the position of the first digit, after a prefix \<^verbatim>\<open>0x\<close>.\<close>

definition read_base :: "int \<Rightarrow> u64 \<Rightarrow> umem \<Rightarrow> (int \<times> u64) option" where
  "read_base base p m =
     do { c0 \<leftarrow> m p;
          hex \<leftarrow> (if (base = 0 \<or> base = 16) \<and> c0 = 0x30
                 then do { c1 \<leftarrow> m (p + 1);
                           if c1 = 0x78 \<or> c1 = 0x58
                           then do { c2 \<leftarrow> m (p + 2); Some (digit_value c2 \<ge> 0 \<and> digit_value c2 < 16) }
                           else Some False }
                 else Some False);
          Some (if hex then (16, p + 2) else if base = 0 then (if c0 = 0x30 then 8 else 10, p) else (base, p)) }"

partial_function (option) digits_value :: "u64 \<Rightarrow> int \<Rightarrow> u64 \<Rightarrow> bool \<Rightarrow> u64 \<Rightarrow> umem \<Rightarrow> (u64 \<times> bool \<times> u64) option" where
  "digits_value limit base v overflow p m =
     do { c \<leftarrow> m p;
          if digit_value c < 0 \<or> digit_value c \<ge> base then Some (v, overflow, p)
          else let digit = of_int (digit_value c)
            in if v > (limit - digit) div of_int base then digits_value limit base v True (p + 1) m
               else digits_value limit base (if overflow then v else v * of_int base + digit) overflow (p + 1) m }"

definition store_end :: "u64 \<Rightarrow> u64 \<Rightarrow> ('o, 'a) libc_state_scheme \<Rightarrow> ('o, 'a) libc_state_scheme option" where
  "store_end end p s = (if end = 0 then Some s else do { m \<leftarrow> put64 end p (um s); Some (s\<lparr>um := m\<rparr>) })"

definition strtoul :: "u64 \<Rightarrow> u64 \<Rightarrow> int \<Rightarrow> ('o, 'a) libc_state_scheme \<Rightarrow> (u64 \<times> ('o, 'a) libc_state_scheme) option" where
  "strtoul original end base s =
     (if original = 0 then do { s \<leftarrow> store_end end 0 s; Some (0, set_errno EINVAL s) }
      else do { (negative, p) \<leftarrow> read_sign original (um s);
                if base \<noteq> 0 \<and> (base < 2 \<or> base > 36) then do { s \<leftarrow> store_end end original s; Some (0, set_errno EINVAL s) }
                else do { (base, digits) \<leftarrow> read_base base p (um s);
                          (v, overflow, q) \<leftarrow> digits_value (- 1) base 0 False digits (um s);
                          s \<leftarrow> store_end end (if q = digits then original else q) s;
                          Some (if q = digits then (0, s)
                                else if overflow then (- 1, set_errno ERANGE s)
                                else (if negative then - v else v, s)) } })"

abbreviation (input) LONG_MAX :: u64 where "LONG_MAX \<equiv> 0x7fffffffffffffff"

definition strtol :: "u64 \<Rightarrow> u64 \<Rightarrow> int \<Rightarrow> ('o, 'a) libc_state_scheme \<Rightarrow> (u64 \<times> ('o, 'a) libc_state_scheme) option" where
  "strtol original end base s =
     (if original = 0 then do { s \<leftarrow> store_end end 0 s; Some (0, set_errno EINVAL s) }
      else do { (negative, p) \<leftarrow> read_sign original (um s);
                if base \<noteq> 0 \<and> (base < 2 \<or> base > 36) then do { s \<leftarrow> store_end end original s; Some (0, set_errno EINVAL s) }
                else do { (base, digits) \<leftarrow> read_base base p (um s);
                          (v, overflow, q) \<leftarrow> digits_value (if negative then LONG_MAX + 1 else LONG_MAX) base 0 False digits (um s);
                          s \<leftarrow> store_end end (if q = digits then original else q) s;
                          Some (if q = digits then (0, s)
                                else if overflow then (if negative then - LONG_MAX - 1 else LONG_MAX, set_errno ERANGE s)
                                else if negative then (if v = LONG_MAX + 1 then - LONG_MAX - 1 else - v, s)
                                else (v, s)) } })"

definition atoi :: "u64 \<Rightarrow> ('o, 'a) libc_state_scheme \<Rightarrow> (u32 \<times> ('o, 'a) libc_state_scheme) option" where
  "atoi p s = do { (v, s) \<leftarrow> strtol p 0 10 s; Some (ucast v, s) }"

definition abs_int :: "u32 \<Rightarrow> u32" where
  "abs_int v = (if sint v < 0 then - v else v)"

definition labs :: "u64 \<Rightarrow> u64" where
  "labs v = (if sint v < 0 then - v else v)"

subsection \<open>System calls\<close>

text \<open>An \<^verbatim>\<open>int\<close> argument is sign-extended, an \<^verbatim>\<open>int\<close> result truncated.\<close>

definition read_fd :: "'o os \<Rightarrow> u32 \<Rightarrow> u64 \<Rightarrow> u64 \<Rightarrow> ('o, 'a) libc_state_scheme \<Rightarrow> (u64 \<times> ('o, 'a) libc_state_scheme) option" where
  "read_fd sys fd buffer count s = checked_call sys 0 [scast fd, buffer, count, 0, 0, 0] s"

definition write_fd :: "'o os \<Rightarrow> u32 \<Rightarrow> u64 \<Rightarrow> u64 \<Rightarrow> ('o, 'a) libc_state_scheme \<Rightarrow> (u64 \<times> ('o, 'a) libc_state_scheme) option" where
  "write_fd sys fd buffer count s = checked_call sys 1 [scast fd, buffer, count, 0, 0, 0] s"

definition int_call :: "'o os \<Rightarrow> nat \<Rightarrow> u64 list \<Rightarrow> ('o, 'a) libc_state_scheme \<Rightarrow> (u32 \<times> ('o, 'a) libc_state_scheme) option" where
  "int_call sys number args s = do { (r, s) \<leftarrow> checked_call sys number args s; Some (ucast r, s) }"

definition close_fd :: "'o os \<Rightarrow> u32 \<Rightarrow> ('o, 'a) libc_state_scheme \<Rightarrow> (u32 \<times> ('o, 'a) libc_state_scheme) option" where
  "close_fd sys fd s = int_call sys 3 [scast fd, 0, 0, 0, 0, 0] s"

definition poll :: "'o os \<Rightarrow> u64 \<Rightarrow> u64 \<Rightarrow> u32 \<Rightarrow> ('o, 'a) libc_state_scheme \<Rightarrow> (u32 \<times> ('o, 'a) libc_state_scheme) option" where
  "poll sys poll_fds count timeout_ms s = int_call sys 7 [poll_fds, count, scast timeout_ms, 0, 0, 0] s"

definition ioctl :: "'o os \<Rightarrow> u32 \<Rightarrow> u64 \<Rightarrow> u64 \<Rightarrow> ('o, 'a) libc_state_scheme \<Rightarrow> (u32 \<times> ('o, 'a) libc_state_scheme) option" where
  "ioctl sys fd request argument s = int_call sys 16 [scast fd, request, argument, 0, 0, 0] s"

definition open_fd :: "'o os \<Rightarrow> u64 \<Rightarrow> u32 \<Rightarrow> ('o, 'a) libc_state_scheme \<Rightarrow> (u32 \<times> ('o, 'a) libc_state_scheme) option" where
  "open_fd sys path flags s = int_call sys 2 [path, scast flags, 0, 0, 0, 0] s"

definition lseek :: "'o os \<Rightarrow> u32 \<Rightarrow> u64 \<Rightarrow> u32 \<Rightarrow> ('o, 'a) libc_state_scheme \<Rightarrow> (u64 \<times> ('o, 'a) libc_state_scheme) option" where
  "lseek sys fd offset whence s = checked_call sys 8 [scast fd, offset, scast whence, 0, 0, 0] s"

definition chdir :: "'o os \<Rightarrow> u64 \<Rightarrow> ('o, 'a) libc_state_scheme \<Rightarrow> (u32 \<times> ('o, 'a) libc_state_scheme) option" where
  "chdir sys path s = int_call sys 80 [path, 0, 0, 0, 0, 0] s"

definition getcwd :: "'o os \<Rightarrow> u64 \<Rightarrow> u64 \<Rightarrow> ('o, 'a) libc_state_scheme \<Rightarrow> (u64 \<times> ('o, 'a) libc_state_scheme) option" where
  "getcwd sys buffer capacity s =
     do { (r, s) \<leftarrow> checked_call sys 79 [buffer, capacity, 0, 0, 0, 0] s; Some (if sint r < 0 then 0 else buffer, s) }"

definition getpid :: "'o os \<Rightarrow> ('o, 'a) libc_state_scheme \<Rightarrow> (u32 \<times> ('o, 'a) libc_state_scheme) option" where
  "getpid sys s = do { (r, s) \<leftarrow> npk_syscall6 sys 39 [0, 0, 0, 0, 0, 0] s; Some (ucast r, s) }"

definition fork :: "'o os \<Rightarrow> ('o, 'a) libc_state_scheme \<Rightarrow> (u32 \<times> ('o, 'a) libc_state_scheme) option" where
  "fork sys s = int_call sys 57 [0, 0, 0, 0, 0, 0] s"

definition execve :: "'o os \<Rightarrow> u64 \<Rightarrow> u64 \<Rightarrow> u64 \<Rightarrow> ('o, 'a) libc_state_scheme \<Rightarrow> (u32 \<times> ('o, 'a) libc_state_scheme) option" where
  "execve sys path argv envp s = int_call sys 59 [path, argv, envp, 0, 0, 0] s"

definition waitpid :: "'o os \<Rightarrow> u32 \<Rightarrow> u64 \<Rightarrow> u32 \<Rightarrow> ('o, 'a) libc_state_scheme \<Rightarrow> (u32 \<times> ('o, 'a) libc_state_scheme) option" where
  "waitpid sys pid status options s = int_call sys 114 [scast pid, status, scast options, 0, 0, 0] s"

definition stat :: "'o os \<Rightarrow> u64 \<Rightarrow> u64 \<Rightarrow> ('o, 'a) libc_state_scheme \<Rightarrow> (u32 \<times> ('o, 'a) libc_state_scheme) option" where
  "stat sys path status s = int_call sys 4 [path, status, 0, 0, 0, 0] s"

definition fstat :: "'o os \<Rightarrow> u32 \<Rightarrow> u64 \<Rightarrow> ('o, 'a) libc_state_scheme \<Rightarrow> (u32 \<times> ('o, 'a) libc_state_scheme) option" where
  "fstat sys fd status s = int_call sys 5 [scast fd, status, 0, 0, 0, 0] s"

definition uname :: "'o os \<Rightarrow> u64 \<Rightarrow> ('o, 'a) libc_state_scheme \<Rightarrow> (u32 \<times> ('o, 'a) libc_state_scheme) option" where
  "uname sys name s = int_call sys 63 [name, 0, 0, 0, 0, 0] s"

subsection \<open>Directories\<close>

text \<open>A directory handle is the index of its slot; a null pointer is \<open>None\<close>.\<close>

abbreviation (input) DIRENT_BYTES :: nat where "DIRENT_BYTES \<equiv> 19"

definition opendir :: "'o os \<Rightarrow> u64 \<Rightarrow> ('o, 'a) libc_state_scheme \<Rightarrow> (nat option \<times> ('o, 'a) libc_state_scheme) option" where
  "opendir sys path s =
     (case find (\<lambda>i. \<not> directory_used s i) [0..<4] of
        None \<Rightarrow> Some (None, set_errno EMFILE s)
      | Some slot \<Rightarrow>
          do { (fd, s) \<leftarrow> open_fd sys path 0 s;
               if sint fd < 0 then Some (None, s)
               else Some (Some slot, s\<lparr>directory_used := (directory_used s)(slot := True),
                      directories := (directories s)(slot := \<lparr>dir_fd = fd, dir_length = 0, dir_offset = 0\<rparr>)\<rparr>) })"

definition upd_dir :: "nat \<Rightarrow> nat \<Rightarrow> nat \<Rightarrow> ('o, 'a) libc_state_scheme \<Rightarrow> ('o, 'a) libc_state_scheme" where
  "upd_dir slot len off s = s\<lparr>directories := (directories s)(slot := (directories s slot)\<lparr>dir_length := len, dir_offset := off\<rparr>)\<rparr>"

text \<open>Filling the buffer of a handle that has been read to its end; \<open>False\<close> at the end of the directory or on an error.\<close>

definition refill :: "'o os \<Rightarrow> nat \<Rightarrow> ('o, 'a) libc_state_scheme \<Rightarrow> (bool \<times> ('o, 'a) libc_state_scheme) option" where
  "refill sys slot s =
     (let d = directories s slot
      in if dir_offset d < dir_length d then Some (True, s)
         else do { (r, s) \<leftarrow> checked_call sys 217 [scast (dir_fd d), directory_buffer s slot, 512, 0, 0, 0] s;
                   Some (if sint r \<le> 0 then (False, upd_dir slot 0 0 s) else (True, upd_dir slot (unat r) 0 s)) })"

definition readdir :: "'o os \<Rightarrow> nat option \<Rightarrow> ('o, 'a) libc_state_scheme \<Rightarrow> (dirent option \<times> ('o, 'a) libc_state_scheme) option" where
  "readdir sys directory s =
     (case directory of
        None \<Rightarrow> Some (None, set_errno EBADF s)
      | Some slot \<Rightarrow>
          do { (more, s) \<leftarrow> refill sys slot s;
               if \<not> more then Some (None, s)
               else let d = directories s slot; left = dir_length d - dir_offset d; p = directory_buffer s slot + of_nat (dir_offset d)
                 in if left < DIRENT_BYTES then Some (None, set_errno EIO s)
                    else do { h \<leftarrow> get_bytes p DIRENT_BYTES (um s);
                              let reclen = unat (of_le16 (field 16 2 h));
                              if reclen < DIRENT_BYTES + 1 \<or> reclen > left then Some (None, set_errno EIO s)
                              else do { n \<leftarrow> strnlen_loop (p + of_nat DIRENT_BYTES) (reclen - DIRENT_BYTES) (um s);
                                        name \<leftarrow> get_bytes (p + of_nat DIRENT_BYTES) (min n 255) (um s);
                                        Some (Some \<lparr>d_ino = of_le64 (field 0 8 h), d_off = of_le64 (field 8 8 h), d_reclen = of_nat reclen,
                                                    d_type = h ! 18, d_name = name\<rparr>,
                                              upd_dir slot (dir_length d) (dir_offset d + reclen) s) } } })"

definition closedir :: "'o os \<Rightarrow> nat option \<Rightarrow> ('o, 'a) libc_state_scheme \<Rightarrow> (u32 \<times> ('o, 'a) libc_state_scheme) option" where
  "closedir sys directory s =
     (case directory of
        None \<Rightarrow> Some (- 1, set_errno EBADF s)
      | Some slot \<Rightarrow>
          if slot \<ge> 4 \<or> \<not> directory_used s slot then Some (- 1, set_errno EBADF s)
          else do { (r, s) \<leftarrow> close_fd sys (dir_fd (directories s slot)) s;
                    Some (r, s\<lparr>directory_used := (directory_used s)(slot := False)\<rparr>) })"

end
