(* ===== verification/Ustdio.thy ===== *)
theory Ustdio
  imports Ulibc
begin

text \<open>
  Streams and formatted output of the C library, \<^verbatim>\<open>user/libc/stdio.c\<close>.  A stream is named by the pointer to its
  \<^verbatim>\<open>FILE\<close>: one of the three static ones or an allocation; \<open>None\<close> is the null pointer.  A variable argument list
  is the list of the 64-bit slots the arguments occupy; taking an argument that is not there makes the outcome
  \<open>None\<close>.
\<close>

datatype stream = Stdin | Stdout | Stderr | Allocated u64

record npk_FILE =
  file_fd :: u32
  file_flags :: u32
  file_pushback :: u8
  file_has_pushback :: bool

record 'o stdio_state = "'o libc_state" +
  streams :: "stream \<Rightarrow> npk_FILE"

abbreviation (input) NPK_FILE_READABLE :: u32 where "NPK_FILE_READABLE \<equiv> 1"
abbreviation (input) NPK_FILE_WRITABLE :: u32 where "NPK_FILE_WRITABLE \<equiv> 2"
abbreviation (input) NPK_FILE_EOF :: u32 where "NPK_FILE_EOF \<equiv> 4"
abbreviation (input) NPK_FILE_ERROR :: u32 where "NPK_FILE_ERROR \<equiv> 8"
abbreviation (input) NPK_FILE_STATIC :: u32 where "NPK_FILE_STATIC \<equiv> 16"
abbreviation (input) EOF :: u32 where "EOF \<equiv> - 1"

definition initial_streams :: "stream \<Rightarrow> npk_FILE" where
  "initial_streams f =
     (case f of
        Stdin \<Rightarrow> \<lparr>file_fd = 0, file_flags = NPK_FILE_READABLE OR NPK_FILE_STATIC, file_pushback = 0, file_has_pushback = False\<rparr>
      | Stdout \<Rightarrow> \<lparr>file_fd = 1, file_flags = NPK_FILE_WRITABLE OR NPK_FILE_STATIC, file_pushback = 0, file_has_pushback = False\<rparr>
      | Stderr \<Rightarrow> \<lparr>file_fd = 2, file_flags = NPK_FILE_WRITABLE OR NPK_FILE_STATIC, file_pushback = 0, file_has_pushback = False\<rparr>
      | Allocated _ \<Rightarrow> \<lparr>file_fd = - 1, file_flags = 0, file_pushback = 0, file_has_pushback = False\<rparr>)"

definition upd_stream :: "stream \<Rightarrow> (npk_FILE \<Rightarrow> npk_FILE) \<Rightarrow> ('o, 'a) stdio_state_scheme \<Rightarrow> ('o, 'a) stdio_state_scheme" where
  "upd_stream f g s = s\<lparr>streams := (streams s)(f := g (streams s f))\<rparr>"

definition add_flags :: "u32 \<Rightarrow> npk_FILE \<Rightarrow> npk_FILE" where
  "add_flags x f = f\<lparr>file_flags := file_flags f OR x\<rparr>"

definition drop_flags :: "u32 \<Rightarrow> npk_FILE \<Rightarrow> npk_FILE" where
  "drop_flags x f = f\<lparr>file_flags := file_flags f AND NOT x\<rparr>"

definition stream_valid :: "stream option \<Rightarrow> ('o, 'a) stdio_state_scheme \<Rightarrow> bool" where
  "stream_valid f s = (case f of None \<Rightarrow> False | Some f \<Rightarrow> sint (file_fd (streams s f)) \<ge> 0)"

definition stream_readable :: "stream option \<Rightarrow> ('o, 'a) stdio_state_scheme \<Rightarrow> bool" where
  "stream_readable f s \<longleftrightarrow> stream_valid f s \<and> file_flags (streams s (the f)) AND NPK_FILE_READABLE \<noteq> 0"

definition stream_writable :: "stream option \<Rightarrow> ('o, 'a) stdio_state_scheme \<Rightarrow> bool" where
  "stream_writable f s \<longleftrightarrow> stream_valid f s \<and> file_flags (streams s (the f)) AND NPK_FILE_WRITABLE \<noteq> 0"

text \<open>The error exit of the stream functions: \<^verbatim>\<open>errno\<close> and, for a pointer that is not null, the error mark.\<close>

definition stream_error :: "errno \<Rightarrow> stream option \<Rightarrow> ('o, 'a) stdio_state_scheme \<Rightarrow> ('o, 'a) stdio_state_scheme" where
  "stream_error e f s =
     (let s = set_errno e s in case f of None \<Rightarrow> s | Some f \<Rightarrow> upd_stream f (add_flags NPK_FILE_ERROR) s)"

definition fileno :: "stream option \<Rightarrow> ('o, 'a) stdio_state_scheme \<Rightarrow> u32 \<times> ('o, 'a) stdio_state_scheme" where
  "fileno f s = (if \<not> stream_valid f s then (- 1, set_errno EBADF s) else (file_fd (streams s (the f)), s))"

subsection \<open>Opening and closing\<close>

definition open_mode :: "u8 \<Rightarrow> (u32 \<times> u32) option" where
  "open_mode c =
     (if c = 0x72 then Some (0, NPK_FILE_READABLE)
      else if c = 0x77 then Some (1 OR 0x40 OR 0x200, NPK_FILE_WRITABLE)
      else if c = 0x61 then Some (1 OR 0x40 OR 0x400, NPK_FILE_WRITABLE)
      else None)"

text \<open>The rest of the mode string: \<open>Some None\<close> if it is refused, else whether it has a plus sign.\<close>

partial_function (option) mode_plus :: "bool \<Rightarrow> u64 \<Rightarrow> umem \<Rightarrow> bool option option" where
  "mode_plus seen p m =
     do { c \<leftarrow> m p;
          if c = 0 then Some (Some seen)
          else if c = 0x2b then (if seen then Some None else mode_plus True (p + 1) m)
          else if c \<noteq> 0x62 then Some None
          else mode_plus seen (p + 1) m }"

definition fopen :: "'o os \<Rightarrow> u64 \<Rightarrow> u64 \<Rightarrow> ('o, 'a) stdio_state_scheme \<Rightarrow> (stream option \<times> ('o, 'a) stdio_state_scheme) option" where
  "fopen sys path mode s =
     (if path = 0 \<or> mode = 0 then Some (None, set_errno EINVAL s)
      else do { c \<leftarrow> um s mode;
                case open_mode c of
                  None \<Rightarrow> Some (None, set_errno EINVAL s)
                | Some (flags, stream_flags) \<Rightarrow>
                    do { extended \<leftarrow> mode_plus False (mode + 1) (um s);
                         case extended of
                           None \<Rightarrow> Some (None, set_errno EINVAL s)
                         | Some extended \<Rightarrow>
                             (let flags = (if extended then (flags AND NOT 1) OR 2 else flags);
                                  stream_flags = (if extended then stream_flags OR NPK_FILE_READABLE OR NPK_FILE_WRITABLE else stream_flags)
                              in do { (fd, s) \<leftarrow> open_fd sys path flags s;
                                      if sint fd < 0 then Some (None, s)
                                      else do { (p, s) \<leftarrow> malloc sys 12 s;
                                                if p = 0
                                                then do { let saved = errno_var s; (_, s) \<leftarrow> close_fd sys fd s; Some (None, s\<lparr>errno_var := saved\<rparr>) }
                                                else Some (Some (Allocated p), upd_stream (Allocated p)
                                                       (\<lambda>_. \<lparr>file_fd = fd, file_flags = stream_flags, file_pushback = 0, file_has_pushback = False\<rparr>) s) } }) } })"

definition fflush :: "stream option \<Rightarrow> ('o, 'a) stdio_state_scheme \<Rightarrow> u32 \<times> ('o, 'a) stdio_state_scheme" where
  "fflush f s = (if f \<noteq> None \<and> \<not> stream_valid f s then (EOF, set_errno EBADF s) else (0, s))"

definition fclose :: "'o os \<Rightarrow> stream option \<Rightarrow> ('o, 'a) stdio_state_scheme \<Rightarrow> (u32 \<times> ('o, 'a) stdio_state_scheme) option" where
  "fclose sys f s =
     (if \<not> stream_valid f s \<or> file_flags (streams s (the f)) AND NPK_FILE_STATIC \<noteq> 0 then Some (EOF, set_errno EBADF s)
      else let (r, s) = fflush f s; f = the f
        in do { (fd_result, s) \<leftarrow> close_fd sys (file_fd (streams s f)) s;
                let s = upd_stream f (\<lambda>x. x\<lparr>file_flags := 0, file_fd := - 1\<rparr>) s;
                s \<leftarrow> free sys (case f of Allocated p \<Rightarrow> p | _ \<Rightarrow> 0) s;
                Some (if r = EOF \<or> sint fd_result < 0 then EOF else 0, s) })"

definition feof :: "stream option \<Rightarrow> ('o, 'a) stdio_state_scheme \<Rightarrow> bool" where
  "feof f s \<longleftrightarrow> stream_valid f s \<and> file_flags (streams s (the f)) AND NPK_FILE_EOF \<noteq> 0"

definition ferror :: "stream option \<Rightarrow> ('o, 'a) stdio_state_scheme \<Rightarrow> bool" where
  "ferror f s \<longleftrightarrow> \<not> stream_valid f s \<or> file_flags (streams s (the f)) AND NPK_FILE_ERROR \<noteq> 0"

definition clearerr :: "stream option \<Rightarrow> ('o, 'a) stdio_state_scheme \<Rightarrow> ('o, 'a) stdio_state_scheme" where
  "clearerr f s = (if stream_valid f s then upd_stream (the f) (drop_flags (NPK_FILE_EOF OR NPK_FILE_ERROR)) s else s)"

subsection \<open>Characters and blocks\<close>

definition fgetc :: "'o os \<Rightarrow> stream option \<Rightarrow> ('o, 'a) stdio_state_scheme \<Rightarrow> (u32 \<times> ('o, 'a) stdio_state_scheme) option" where
  "fgetc sys f s =
     (if \<not> stream_readable f s then Some (EOF, stream_error EBADF f s)
      else let f = the f; x = streams s f
        in if file_has_pushback x then Some (ucast (file_pushback x), upd_stream f (\<lambda>x. x\<lparr>file_has_pushback := False\<rparr>) s)
           else do { (r, s) \<leftarrow> read_fd sys (file_fd x) (stack_area s) 1 s;
                     if r = 1 then do { c \<leftarrow> um s (stack_area s); Some (ucast c, s) }
                     else Some (EOF, upd_stream f (add_flags (if r = 0 then NPK_FILE_EOF else NPK_FILE_ERROR)) s) })"

definition getc :: "'o os \<Rightarrow> stream option \<Rightarrow> ('o, 'a) stdio_state_scheme \<Rightarrow> (u32 \<times> ('o, 'a) stdio_state_scheme) option" where
  "getc sys f s = fgetc sys f s"

definition getchar :: "'o os \<Rightarrow> ('o, 'a) stdio_state_scheme \<Rightarrow> (u32 \<times> ('o, 'a) stdio_state_scheme) option" where
  "getchar sys s = fgetc sys (Some Stdin) s"

definition ungetc :: "u32 \<Rightarrow> stream option \<Rightarrow> ('o, 'a) stdio_state_scheme \<Rightarrow> u32 \<times> ('o, 'a) stdio_state_scheme" where
  "ungetc character f s =
     (if character = EOF \<or> \<not> stream_readable f s \<or> file_has_pushback (streams s (the f)) then (EOF, s)
      else (ucast (ucast character :: u8),
            upd_stream (the f) (\<lambda>x. drop_flags NPK_FILE_EOF (x\<lparr>file_pushback := ucast character, file_has_pushback := True\<rparr>)) s))"

definition fputc :: "'o os \<Rightarrow> u32 \<Rightarrow> stream option \<Rightarrow> ('o, 'a) stdio_state_scheme \<Rightarrow> (u32 \<times> ('o, 'a) stdio_state_scheme) option" where
  "fputc sys character f s =
     (if \<not> stream_writable f s then Some (EOF, stream_error EBADF f s)
      else do { m \<leftarrow> store8 (stack_area s) (ucast character) (um s);
                (r, s) \<leftarrow> write_fd sys (file_fd (streams s (the f))) (stack_area s) 1 (s\<lparr>um := m\<rparr>);
                Some (if r \<noteq> 1 then (EOF, upd_stream (the f) (add_flags NPK_FILE_ERROR) s) else (ucast (ucast character :: u8), s)) })"

definition putc :: "'o os \<Rightarrow> u32 \<Rightarrow> stream option \<Rightarrow> ('o, 'a) stdio_state_scheme \<Rightarrow> (u32 \<times> ('o, 'a) stdio_state_scheme) option" where
  "putc sys character f s = fputc sys character f s"

definition putchar :: "'o os \<Rightarrow> u32 \<Rightarrow> ('o, 'a) stdio_state_scheme \<Rightarrow> (u32 \<times> ('o, 'a) stdio_state_scheme) option" where
  "putchar sys character s = fputc sys character (Some Stdout) s"

text \<open>The loop of \<^verbatim>\<open>fread\<close>: the number of bytes received.\<close>

partial_function (option) u_read_loop ::
  "'o os \<Rightarrow> stream \<Rightarrow> u64 \<Rightarrow> u64 \<Rightarrow> u64 \<Rightarrow> ('o, 'a) stdio_state_scheme \<Rightarrow> (u64 \<times> ('o, 'a) stdio_state_scheme) option" where
  "u_read_loop sys f out wanted received s =
     (if received \<ge> wanted then Some (received, s)
      else do { (r, s) \<leftarrow> read_fd sys (file_fd (streams s f)) (out + received) (wanted - received) s;
                if sint r < 0 then Some (received, upd_stream f (add_flags NPK_FILE_ERROR) s)
                else if r = 0 then Some (received, upd_stream f (add_flags NPK_FILE_EOF) s)
                else u_read_loop sys f out wanted (received + r) s })"

text \<open>The checks \<^verbatim>\<open>fread\<close> and \<^verbatim>\<open>fwrite\<close> share: the number of bytes wanted.\<close>

definition block_request :: "bool \<Rightarrow> u64 \<Rightarrow> u64 \<Rightarrow> u64 \<Rightarrow> stream option \<Rightarrow> ('o, 'a) stdio_state_scheme \<Rightarrow> u64 option \<times> ('o, 'a) stdio_state_scheme" where
  "block_request usable buffer item count f s =
     (if item = 0 \<or> count = 0 then (None, s)
      else if buffer = 0 \<or> \<not> usable then (None, stream_error (if buffer = 0 then EFAULT else EBADF) f s)
      else if count > UINT64_MAX div item then (None, stream_error EOVERFLOW f s)
      else (Some (item * count), s))"

definition fread :: "'o os \<Rightarrow> u64 \<Rightarrow> u64 \<Rightarrow> u64 \<Rightarrow> stream option \<Rightarrow> ('o, 'a) stdio_state_scheme \<Rightarrow> (u64 \<times> ('o, 'a) stdio_state_scheme) option" where
  "fread sys buffer item count f s =
     (case block_request (stream_readable f s) buffer item count f s of
        (None, s) \<Rightarrow> Some (0, s)
      | (Some wanted, s) \<Rightarrow>
          (let f = the f; x = streams s f
           in do { (received, s) \<leftarrow>
                     (if file_has_pushback x
                      then do { m \<leftarrow> store8 buffer (file_pushback x) (um s);
                                Some (1, upd_stream f (\<lambda>x. x\<lparr>file_has_pushback := False\<rparr>) (s\<lparr>um := m\<rparr>)) }
                      else Some (0, s));
                   (received, s) \<leftarrow> u_read_loop sys f buffer wanted received s;
                   Some (received div item, s) }))"

text \<open>The loop of \<^verbatim>\<open>fwrite\<close> and \<^verbatim>\<open>u_write_all\<close>.\<close>

partial_function (option) u_write_loop ::
  "'o os \<Rightarrow> stream \<Rightarrow> u64 \<Rightarrow> u64 \<Rightarrow> u64 \<Rightarrow> ('o, 'a) stdio_state_scheme \<Rightarrow> (u64 \<times> ('o, 'a) stdio_state_scheme) option" where
  "u_write_loop sys f bytes wanted written s =
     (if written \<ge> wanted then Some (written, s)
      else do { (r, s) \<leftarrow> write_fd sys (file_fd (streams s f)) (bytes + written) (wanted - written) s;
                if sint r < 0 then Some (written, upd_stream f (add_flags NPK_FILE_ERROR) s)
                else if r = 0 then Some (written, upd_stream f (add_flags NPK_FILE_ERROR) (set_errno EIO s))
                else u_write_loop sys f bytes wanted (written + r) s })"

definition fwrite :: "'o os \<Rightarrow> u64 \<Rightarrow> u64 \<Rightarrow> u64 \<Rightarrow> stream option \<Rightarrow> ('o, 'a) stdio_state_scheme \<Rightarrow> (u64 \<times> ('o, 'a) stdio_state_scheme) option" where
  "fwrite sys buffer item count f s =
     (case block_request (stream_writable f s) buffer item count f s of
        (None, s) \<Rightarrow> Some (0, s)
      | (Some wanted, s) \<Rightarrow>
          do { (written, s) \<leftarrow> u_write_loop sys (the f) buffer wanted 0 s; Some (written div item, s) })"

partial_function (option) fgets_loop ::
  "'o os \<Rightarrow> stream \<Rightarrow> u64 \<Rightarrow> int \<Rightarrow> int \<Rightarrow> ('o, 'a) stdio_state_scheme \<Rightarrow> (int \<times> ('o, 'a) stdio_state_scheme) option" where
  "fgets_loop sys f buffer capacity used s =
     (if used + 1 \<ge> capacity then Some (used, s)
      else do { (c, s) \<leftarrow> fgetc sys (Some f) s;
                if c = EOF then Some (used, s)
                else do { m \<leftarrow> store8 (buffer + of_int used) (ucast c) (um s);
                          if c = 0x0a then Some (used + 1, s\<lparr>um := m\<rparr>)
                          else fgets_loop sys f buffer capacity (used + 1) (s\<lparr>um := m\<rparr>) } })"

definition fgets :: "'o os \<Rightarrow> u64 \<Rightarrow> u32 \<Rightarrow> stream option \<Rightarrow> ('o, 'a) stdio_state_scheme \<Rightarrow> (u64 \<times> ('o, 'a) stdio_state_scheme) option" where
  "fgets sys buffer capacity f s =
     (if buffer = 0 \<or> sint capacity \<le> 0 \<or> \<not> stream_readable f s
      then Some (0, stream_error (if buffer = 0 \<or> sint capacity \<le> 0 then EINVAL else EBADF) f s)
      else do { (used, s) \<leftarrow> fgets_loop sys (the f) buffer (sint capacity) 0 s;
                if used = 0 then Some (0, s)
                else do { m \<leftarrow> store8 (buffer + of_int used) 0 (um s); Some (buffer, s\<lparr>um := m\<rparr>) } })"

definition u_write_all :: "'o os \<Rightarrow> stream \<Rightarrow> u64 \<Rightarrow> u64 \<Rightarrow> ('o, 'a) stdio_state_scheme \<Rightarrow> (bool \<times> ('o, 'a) stdio_state_scheme) option" where
  "u_write_all sys f bytes count s = do { (written, s) \<leftarrow> u_write_loop sys f bytes count 0 s; Some (written \<ge> count, s) }"

definition fputs :: "'o os \<Rightarrow> u64 \<Rightarrow> stream option \<Rightarrow> ('o, 'a) stdio_state_scheme \<Rightarrow> (u32 \<times> ('o, 'a) stdio_state_scheme) option" where
  "fputs sys p f s =
     (if p = 0 \<or> \<not> stream_writable f s then Some (EOF, stream_error (if p = 0 then EFAULT else EBADF) f s)
      else do { n \<leftarrow> strlen p (um s); (ok, s) \<leftarrow> u_write_all sys (the f) p n s; Some (if ok then 0 else EOF, s) })"

definition puts :: "'o os \<Rightarrow> u64 \<Rightarrow> ('o, 'a) stdio_state_scheme \<Rightarrow> (u32 \<times> ('o, 'a) stdio_state_scheme) option" where
  "puts sys p s =
     do { (r, s) \<leftarrow> fputs sys p (Some Stdout) s;
          if r = EOF then Some (EOF, s)
          else do { (r, s) \<leftarrow> putchar sys 0x0a s; Some (if r = EOF then EOF else 0, s) } }"

subsection \<open>Positions\<close>

definition fseek :: "'o os \<Rightarrow> stream option \<Rightarrow> u64 \<Rightarrow> u32 \<Rightarrow> ('o, 'a) stdio_state_scheme \<Rightarrow> (u32 \<times> ('o, 'a) stdio_state_scheme) option" where
  "fseek sys f offset whence s =
     (if \<not> stream_valid f s \<or> sint whence < 0 \<or> sint whence > 2 then Some (- 1, set_errno EINVAL s)
      else let f = the f; back = (whence = 1 \<and> file_has_pushback (streams s f))
        in if back \<and> offset = - LONG_MAX - 1 then Some (- 1, set_errno EINVAL s)
           else do { (r, s) \<leftarrow> lseek sys (file_fd (streams s f)) (if back then offset - 1 else offset) whence s;
                     Some (if sint r < 0 then (- 1, upd_stream f (add_flags NPK_FILE_ERROR) s)
                           else (0, upd_stream f (\<lambda>x. drop_flags NPK_FILE_EOF (x\<lparr>file_has_pushback := False\<rparr>)) s)) })"

definition ftell :: "'o os \<Rightarrow> stream option \<Rightarrow> ('o, 'a) stdio_state_scheme \<Rightarrow> (u64 \<times> ('o, 'a) stdio_state_scheme) option" where
  "ftell sys f s =
     (if \<not> stream_valid f s then Some (- 1, set_errno EBADF s)
      else do { (r, s) \<leftarrow> lseek sys (file_fd (streams s (the f))) 0 1 s;
                Some (if sint r < 0 then (- 1, upd_stream (the f) (add_flags NPK_FILE_ERROR) s)
                      else (if file_has_pushback (streams s (the f)) \<and> sint r > 0 then r - 1 else r, s)) })"

definition rewind :: "'o os \<Rightarrow> stream option \<Rightarrow> ('o, 'a) stdio_state_scheme \<Rightarrow> ('o, 'a) stdio_state_scheme option" where
  "rewind sys f s =
     (if stream_valid f s then do { (r, s) \<leftarrow> fseek sys f 0 0 s; Some (if r = 0 then clearerr f s else s) } else Some s)"

subsection \<open>Formatted output\<close>

definition append_char :: "u64 \<Rightarrow> u64 \<Rightarrow> u8 \<Rightarrow> u64 \<times> umem \<Rightarrow> (u64 \<times> umem) option" where
  "append_char buffer capacity c lm =
     (let (n, m) = lm
      in do { m \<leftarrow> (if capacity \<noteq> 0 \<and> n + 1 < capacity then store8 (buffer + n) c m else Some m); Some (n + 1, m) })"

fun append_chars :: "u64 \<Rightarrow> u64 \<Rightarrow> u8 list \<Rightarrow> u64 \<times> umem \<Rightarrow> (u64 \<times> umem) option" where
  "append_chars buffer capacity [] lm = Some lm"
| "append_chars buffer capacity (c # cs) lm = do { lm \<leftarrow> append_char buffer capacity c lm; append_chars buffer capacity cs lm }"

definition digit_char :: "bool \<Rightarrow> u64 \<Rightarrow> u8" where
  "digit_char upper d = (if d < 10 then 0x30 + ucast d else (if upper then 0x41 else 0x61) + ucast (d - 10))"

text \<open>The digits in the order they are computed, the least significant first.\<close>

fun number_digits :: "nat \<Rightarrow> u64 \<Rightarrow> u64 \<Rightarrow> bool \<Rightarrow> u8 list" where
  "number_digits 0 v base upper = []"
| "number_digits (Suc n) v base upper =
     digit_char upper (v mod base) # (if v div base \<noteq> 0 then number_digits n (v div base) base upper else [])"

definition append_unsigned :: "u64 \<Rightarrow> u64 \<Rightarrow> u64 \<Rightarrow> u64 \<Rightarrow> bool \<Rightarrow> u64 \<times> umem \<Rightarrow> (u64 \<times> umem) option" where
  "append_unsigned buffer capacity v base upper lm =
     append_chars buffer capacity (rev (number_digits 32 v base upper)) lm"

partial_function (option) append_string :: "u64 \<Rightarrow> u64 \<Rightarrow> u64 \<Rightarrow> u64 \<times> umem \<Rightarrow> (u64 \<times> umem) option" where
  "append_string buffer capacity p lm =
     do { c \<leftarrow> snd lm p;
          if c = 0 then Some lm
          else do { lm \<leftarrow> append_char buffer capacity c lm; append_string buffer capacity (p + 1) lm } }"

partial_function (option) long_marks :: "u64 \<Rightarrow> nat \<Rightarrow> umem \<Rightarrow> (nat \<times> u64) option" where
  "long_marks p n m = do { c \<leftarrow> m p; if c = 0x6c \<or> c = 0x7a then long_marks (p + 1) (Suc n) m else Some (n, p) }"

definition take_arg :: "u64 list \<Rightarrow> (u64 \<times> u64 list) option" where
  "take_arg args = (case args of [] \<Rightarrow> None | a # as \<Rightarrow> Some (a, as))"

definition signed_arg :: "nat \<Rightarrow> u64 \<Rightarrow> u64" where
  "signed_arg longs a = (if longs = 0 then scast (ucast a :: u32) else a)"

definition unsigned_arg :: "nat \<Rightarrow> u64 \<Rightarrow> u64" where
  "unsigned_arg longs a = (if longs = 0 then ucast (ucast a :: u32) else a)"

definition append_signed :: "u64 \<Rightarrow> u64 \<Rightarrow> u64 \<Rightarrow> u64 \<times> umem \<Rightarrow> (u64 \<times> umem) option" where
  "append_signed buffer capacity v lm =
     (if sint v < 0
      then do { lm \<leftarrow> append_char buffer capacity 0x2d lm; append_unsigned buffer capacity (- (v + 1) + 1) 10 False lm }
      else append_unsigned buffer capacity v 10 False lm)"

text \<open>One conversion with specifier \<open>c\<close>: the arguments that are left, the length and the memory.\<close>

definition conversion :: "u64 \<Rightarrow> u64 \<Rightarrow> nat \<Rightarrow> u8 \<Rightarrow> u64 list \<Rightarrow> u64 \<times> umem \<Rightarrow> (u64 list \<times> u64 \<times> umem) option" where
  "conversion buffer capacity longs c args lm =
     (if c = 0x73 then
        do { (a, args) \<leftarrow> take_arg args;
             lm \<leftarrow> (if a = 0 then append_chars buffer capacity (bytes_of ''(null)'') lm else append_string buffer capacity a lm);
             Some (args, lm) }
      else if c = 0x63 then
        do { (a, args) \<leftarrow> take_arg args; lm \<leftarrow> append_char buffer capacity (ucast a) lm; Some (args, lm) }
      else if c = 0x64 \<or> c = 0x69 then
        do { (a, args) \<leftarrow> take_arg args; lm \<leftarrow> append_signed buffer capacity (signed_arg longs a) lm; Some (args, lm) }
      else if c = 0x75 \<or> c = 0x78 \<or> c = 0x58 \<or> c = 0x70 then
        do { (a, args) \<leftarrow> take_arg args;
             lm \<leftarrow> (if c = 0x70 then append_chars buffer capacity [0x30, 0x78] lm else Some lm);
             lm \<leftarrow> append_unsigned buffer capacity (if c = 0x70 then a else unsigned_arg longs a) (if c = 0x75 then 10 else 16) (c = 0x58) lm;
             Some (args, lm) }
      else do { lm \<leftarrow> append_chars buffer capacity (0x25 # (if c \<noteq> 0 then [c] else [])) lm; Some (args, lm) })"

text \<open>The loop over the format: \<open>p\<close> is the address of \<^verbatim>\<open>format[i]\<close>.  Each turn moves it by one after the directive.\<close>

partial_function (option) format_loop :: "u64 \<Rightarrow> u64 \<Rightarrow> u64 \<Rightarrow> u64 list \<Rightarrow> u64 \<times> umem \<Rightarrow> (u64 \<times> umem) option" where
  "format_loop buffer capacity p args lm =
     do { c \<leftarrow> snd lm p;
          if c = 0 then Some lm
          else if c \<noteq> 0x25 then do { lm \<leftarrow> append_char buffer capacity c lm; format_loop buffer capacity (p + 1) args lm }
          else do { d \<leftarrow> snd lm (p + 1);
                    if d = 0x25 then do { lm \<leftarrow> append_char buffer capacity 0x25 lm; format_loop buffer capacity (p + 1 + 1) args lm }
                    else do { (longs, q) \<leftarrow> long_marks (p + 1) 0 (snd lm);
                              c \<leftarrow> snd lm q;
                              (args, lm) \<leftarrow> conversion buffer capacity longs c args lm;
                              format_loop buffer capacity (q + 1) args lm } } }"

definition vsnprintf :: "u64 \<Rightarrow> u64 \<Rightarrow> u64 \<Rightarrow> u64 list \<Rightarrow> ('o, 'a) libc_state_scheme \<Rightarrow> (u32 \<times> ('o, 'a) libc_state_scheme) option" where
  "vsnprintf buffer capacity format args s =
     (if format = 0 \<or> (buffer = 0 \<and> capacity \<noteq> 0) then Some (- 1, set_errno EINVAL s)
      else do { (n, m) \<leftarrow> format_loop buffer capacity format args (0, um s);
                m \<leftarrow> (if capacity \<noteq> 0 then store8 (buffer + (if n < capacity then n else capacity - 1)) 0 m else Some m);
                Some (if n > 0x7fffffff then - 1 else ucast n, s\<lparr>um := m\<rparr>) })"

definition snprintf :: "u64 \<Rightarrow> u64 \<Rightarrow> u64 \<Rightarrow> u64 list \<Rightarrow> ('o, 'a) libc_state_scheme \<Rightarrow> (u32 \<times> ('o, 'a) libc_state_scheme) option" where
  "snprintf buffer capacity format args s = vsnprintf buffer capacity format args s"

definition vformat_to_file :: "'o os \<Rightarrow> stream option \<Rightarrow> u64 \<Rightarrow> u64 list \<Rightarrow> ('o, 'a) stdio_state_scheme \<Rightarrow> (u32 \<times> ('o, 'a) stdio_state_scheme) option" where
  "vformat_to_file sys f format args s =
     (if \<not> stream_writable f s \<or> format = 0 then Some (- 1, set_errno EINVAL s)
      else do { (n, s) \<leftarrow> vsnprintf 0 0 format args s;
                if sint n < 0 then Some (- 1, s)
                else if n > 1024 * 1024 then Some (- 1, set_errno EOVERFLOW s)
                else do { (buffer, s) \<leftarrow> (if n < 256 then Some (stack_area s, s) else malloc sys (ucast n + 1) s);
                          if buffer = 0 then Some (- 1, s)
                          else do { (rendered, s) \<leftarrow> vsnprintf buffer (ucast n + 1) format args s;
                                    (ok, s) \<leftarrow> (if rendered = n then u_write_all sys (the f) buffer (ucast n) s else Some (False, s));
                                    s \<leftarrow> (if n < 256 then Some s else free sys buffer s);
                                    Some (if ok then n else - 1, s) } } })"

definition vfprintf :: "'o os \<Rightarrow> stream option \<Rightarrow> u64 \<Rightarrow> u64 list \<Rightarrow> ('o, 'a) stdio_state_scheme \<Rightarrow> (u32 \<times> ('o, 'a) stdio_state_scheme) option" where
  "vfprintf sys f format args s = vformat_to_file sys f format args s"

definition vprintf :: "'o os \<Rightarrow> u64 \<Rightarrow> u64 list \<Rightarrow> ('o, 'a) stdio_state_scheme \<Rightarrow> (u32 \<times> ('o, 'a) stdio_state_scheme) option" where
  "vprintf sys format args s = vfprintf sys (Some Stdout) format args s"

definition fprintf :: "'o os \<Rightarrow> stream option \<Rightarrow> u64 \<Rightarrow> u64 list \<Rightarrow> ('o, 'a) stdio_state_scheme \<Rightarrow> (u32 \<times> ('o, 'a) stdio_state_scheme) option" where
  "fprintf sys f format args s = vfprintf sys f format args s"

definition printf :: "'o os \<Rightarrow> u64 \<Rightarrow> u64 list \<Rightarrow> ('o, 'a) stdio_state_scheme \<Rightarrow> (u32 \<times> ('o, 'a) stdio_state_scheme) option" where
  "printf sys format args s = vprintf sys format args s"

end
