(* ===== verification/Libc_Props.thy ===== *)
theory Libc_Props
  imports Ustdio
begin

text \<open>
  Properties of the C library: overlapping moves, the round trip of a number through \<^verbatim>\<open>snprintf\<close> and
  \<^verbatim>\<open>strtol\<close>, and a format that makes the formatter run past the end of its string.
\<close>

subsection \<open>Moving blocks\<close>

text \<open>Memory after a block of \<open>n\<close> bytes has been moved all at once.\<close>

definition moved :: "u64 \<Rightarrow> u64 \<Rightarrow> nat \<Rightarrow> umem \<Rightarrow> umem" where
  "moved d s n m = (\<lambda>p. if unat (p - d) < n then m (s + (p - d)) else m p)"

definition mapped :: "u64 \<Rightarrow> nat \<Rightarrow> umem \<Rightarrow> bool" where
  "mapped p n m \<longleftrightarrow> (\<forall>i < n. m (p + of_nat i) \<noteq> None)"

lemma store8_mapped: "m p \<noteq> None \<Longrightarrow> store8 p v m = Some (m(p \<mapsto> v))"
  by (auto simp: store8_def)

lemma mapped_Suc: "mapped p (Suc n) m \<longleftrightarrow> m p \<noteq> None \<and> mapped (p + 1) n m"
  by (auto simp: mapped_def less_Suc_eq_0_disj algebra_simps)

lemma mapped_last: "mapped p (Suc n) m \<longleftrightarrow> m (p + of_nat n) \<noteq> None \<and> mapped p n m"
  by (auto simp: mapped_def less_Suc_eq)

lemma mapped_upd [simp]: "mapped p n m \<Longrightarrow> mapped p n (m(q \<mapsto> v))"
  by (auto simp: mapped_def)

lemma unat_minus_one: "x \<noteq> 0 \<Longrightarrow> unat (x - 1) = unat x - 1" for x :: u64
proof -
  assume "x \<noteq> 0"
  then have "1 \<le> x" by (simp add: word_le_nat_alt Suc_le_eq unat_gt_0)
  then show ?thesis by (simp add: unat_sub)
qed

lemma copy_up_moved:
  assumes "mapped s n m" "mapped d n m" "n < 2 ^ 64" "\<And>i j. i < j \<Longrightarrow> j < n \<Longrightarrow> d + of_nat i \<noteq> s + of_nat j"
  shows "copy_up d s n m = Some (moved d s n m)"
  using assms
proof (induction n arbitrary: d s m)
  case 0
  then show ?case by (simp add: moved_def)
next
  case (Suc n)
  obtain v where v: "m s = Some v" using Suc.prems(1) by (auto simp: mapped_Suc)
  let ?m = "m(d \<mapsto> v)"
  have "copy_up (d + 1) (s + 1) n ?m = Some (moved (d + 1) (s + 1) n ?m)"
  proof (rule Suc.IH)
    show "d + 1 + of_nat i \<noteq> s + 1 + of_nat j" if "i < j" "j < n" for i j
      using Suc.prems(4) [of "Suc i" "Suc j"] that by (simp add: algebra_simps)
    show "mapped (s + 1) n ?m" "mapped (d + 1) n ?m" by (rule mapped_upd, use Suc.prems(1,2) in \<open>simp add: mapped_Suc\<close>)+
  qed (use Suc.prems(3) in simp)
  moreover have "moved (d + 1) (s + 1) n ?m = moved d s (Suc n) m"
  proof
    fix p
    show "moved (d + 1) (s + 1) n ?m p = moved d s (Suc n) m p"
    proof (cases "p = d")
      case True
      have "unat (- 1 :: u64) = 2 ^ 64 - 1" by (simp add: unsigned_minus_1_eq_mask mask_eq_exp_minus_1)
      then have "unat (d - (d + 1)) = 2 ^ 64 - 1" by simp
      then show ?thesis using True v Suc.prems(3) by (simp add: moved_def)
    next
      case False
      then have pos: "p - d \<noteq> 0" by simp
      have k: "unat (p - (d + 1)) = unat (p - d) - 1" using unat_minus_one [OF pos] by (simp add: algebra_simps)
      have "unat (p - d) > 0" using pos by (simp add: unat_gt_0)
      moreover have "s + (p - d) \<noteq> d" if "unat (p - d) < Suc n"
        using Suc.prems(4) [of 0 "unat (p - d)"] that calculation by auto
      ultimately show ?thesis using False k by (auto simp: moved_def algebra_simps)
    qed
  qed
  ultimately show ?case using v Suc.prems(2) by (simp add: store8_mapped mapped_Suc)
qed

lemma copy_down_moved:
  assumes "mapped s n m" "mapped d n m" "n < 2 ^ 64" "\<And>i j. i < j \<Longrightarrow> j < n \<Longrightarrow> s + of_nat i \<noteq> d + of_nat j"
  shows "copy_down d s n m = Some (moved d s n m)"
  using assms
proof (induction n arbitrary: m)
  case 0
  then show ?case by (simp add: moved_def)
next
  case (Suc n)
  obtain v where v: "m (s + of_nat n) = Some v" using Suc.prems(1) by (auto simp: mapped_last)
  let ?m = "m(d + of_nat n \<mapsto> v)"
  have "copy_down d s n ?m = Some (moved d s n ?m)"
  proof (rule Suc.IH)
    show "mapped s n ?m" "mapped d n ?m" by (rule mapped_upd, use Suc.prems(1,2) in \<open>simp add: mapped_last\<close>)+
    show "s + of_nat i \<noteq> d + of_nat j" if "i < j" "j < n" for i j using Suc.prems(4) [of i j] that by simp
  qed (use Suc.prems(3) in simp)
  moreover have "moved d s n ?m = moved d s (Suc n) m"
  proof
    fix p
    have n: "unat (of_nat n :: u64) = n" using Suc.prems(3) by (simp add: unat_of_nat)
    show "moved d s n ?m p = moved d s (Suc n) m p"
    proof (cases "unat (p - d) = n")
      case True
      then have "of_nat (unat (p - d)) = (of_nat n :: u64)" by (rule arg_cong)
      then have "p - d = of_nat n" by simp
      then have "p = d + of_nat n" by (metis add.commute diff_add_cancel)
      then show ?thesis using v n by (simp add: moved_def)
    next
      case False
      then have "p \<noteq> d + of_nat n" using n by auto
      moreover have "s + (p - d) \<noteq> d + of_nat n" if "unat (p - d) < n"
        using Suc.prems(4) [of "unat (p - d)" n] that by simp
      ultimately show ?thesis using False by (auto simp: moved_def less_Suc_eq)
    qed
  qed
  ultimately show ?case using v Suc.prems(2) by (simp add: store8_mapped mapped_last)
qed

lemma same_place:
  fixes d s :: u64
  assumes "unat d + n \<le> 2 ^ 64" "unat s + n \<le> 2 ^ 64" "i < n" "j < n" "d + of_nat i = s + of_nat j"
  shows "unat d + i = unat s + j"
proof -
  have "unat (d + of_nat i) = unat d + i" "unat (s + of_nat j) = unat s + j"
    using assms(1-4) by (simp_all add: unat_word_ariths unat_of_nat)
  then show ?thesis using assms(5) by simp
qed

text \<open>C26. Moving a block works for every overlap: if neither range wraps around the address space and both are mapped, the
  C library's \<^verbatim>\<open>memmove\<close> and the kernel's return the destination and leave there what the source held before, and
  change nothing else.\<close>

theorem memmove_correct:
  assumes "unat d + unat n \<le> 2 ^ 64" "unat s + unat n \<le> 2 ^ 64" "mapped d (unat n) m" "mapped s (unat n) m"
  shows "memmove d s n m = Some (d, moved d s (unat n) m) \<and> k_memmove d s n m = Some (d, moved d s (unat n) m)"
proof -
  have n: "unat n < 2 ^ 64" using unsigned_less [of n] by simp
  have up: "copy_up d s (unat n) m = Some (moved d s (unat n) m)" if "d \<le> s \<or> d - s \<ge> n"
  proof (rule copy_up_moved [OF assms(4,3) n])
    fix i j assume ij: "i < j" "j < unat n"
    show "d + of_nat i \<noteq> s + of_nat j"
    proof
      assume "d + of_nat i = s + of_nat j"
      then have eq: "unat d + i = unat s + j" using same_place [OF assms(1,2)] ij by simp
      then have "s < d" using ij by (simp add: word_less_nat_alt)
      moreover have "unat (d - s) = unat d - unat s" using calculation by (simp add: unat_sub word_le_nat_alt word_less_nat_alt)
      ultimately show False using that eq ij by (auto simp: word_le_nat_alt)
    qed
  qed
  have down: "copy_down d s (unat n) m = Some (moved d s (unat n) m)" if "s < d"
  proof (rule copy_down_moved [OF assms(4,3) n])
    fix i j assume ij: "i < j" "j < unat n"
    show "s + of_nat i \<noteq> d + of_nat j"
    proof
      assume "s + of_nat i = d + of_nat j"
      then have "unat s + i = unat d + j" using same_place [OF assms(2,1)] ij by simp
      then show False using that ij by (simp add: word_less_nat_alt)
    qed
  qed
  have same: "moved d s (unat n) m = m" if "d = s" using that by (auto simp: moved_def)
  show ?thesis
    using up down same by (auto simp: memmove_def k_memmove_def not_le)
qed

theorem memmove_correct_witness:
  "memmove 11 10 2 [10 \<mapsto> 1, 11 \<mapsto> 2, 12 \<mapsto> 3] = Some (11, [10 \<mapsto> 1, 11 \<mapsto> 1, 12 \<mapsto> 2])"
proof -
  let ?m = "[10 \<mapsto> 1, 11 \<mapsto> 2, 12 \<mapsto> 3] :: umem"
  have "mapped 11 2 ?m" "mapped 10 2 ?m" by (auto simp: mapped_def less_2_cases_iff)
  moreover have "moved 11 10 2 ?m = [10 \<mapsto> 1, 11 \<mapsto> 1, 12 \<mapsto> 2]"
  proof
    fix p :: u64
    have "p = 11 \<or> p = 12" if "unat (p - 11) < 2"
    proof -
      have "p = 11 + of_nat (unat (p - 11))" by simp
      moreover have "unat (p - 11) = 0 \<or> unat (p - 11) = 1" using that by (simp add: less_2_cases_iff)
      ultimately obtain k where "p = 11 + of_nat k" "k = 0 \<or> k = 1" by blast
      then show ?thesis by auto
    qed
    then show "moved 11 10 2 ?m p = [10 \<mapsto> 1, 11 \<mapsto> 1, 12 \<mapsto> 2] p" by (auto simp: moved_def)
  qed
  ultimately show ?thesis using memmove_correct [of 11 2 10 ?m] by simp
qed

subsection \<open>Printing a number and reading it back\<close>

definition holds :: "umem \<Rightarrow> u64 \<Rightarrow> u8 list \<Rightarrow> bool" where
  "holds m p bs \<longleftrightarrow> (\<forall>i < length bs. m (p + of_nat i) = Some (bs ! i))"

text \<open>Memory with the bytes \<open>bs\<close> written at \<open>p\<close>.\<close>

definition written :: "u64 \<Rightarrow> u8 list \<Rightarrow> umem \<Rightarrow> umem" where
  "written p bs m = (\<lambda>q. if unat (q - p) < length bs then Some (bs ! unat (q - p)) else m q)"

lemma holds_Cons: "holds m p (b # bs) \<longleftrightarrow> m p = Some b \<and> holds m (p + 1) bs"
  by (auto simp: holds_def nth_Cons less_Suc_eq_0_disj algebra_simps split: nat.splits)

lemma holds_Nil [simp]: "holds m p []"
  by (simp add: holds_def)

lemma holds_append: "holds m p (as @ bs) \<longleftrightarrow> holds m p as \<and> holds m (p + of_nat (length as)) bs"
proof (induction as arbitrary: p)
  case Nil
  then show ?case by (simp add: holds_def)
next
  case (Cons a as)
  then show ?case by (simp add: holds_Cons algebra_simps)
qed

lemma written_Cons:
  assumes "length bs < 2 ^ 64 - 1"
  shows "written p (b # bs) m = written (p + 1) bs (m(p \<mapsto> b))"
proof
  fix q
  show "written p (b # bs) m q = written (p + 1) bs (m(p \<mapsto> b)) q"
  proof (cases "q = p")
    case True
    have "unat (- 1 :: u64) = 2 ^ 64 - 1" by (simp add: unsigned_minus_1_eq_mask mask_eq_exp_minus_1)
    then have "unat (p - (p + 1)) = 2 ^ 64 - 1" by simp
    then show ?thesis using True assms by (simp add: written_def)
  next
    case False
    then have pos: "q - p \<noteq> 0" by simp
    then have "unat (q - p) > 0" by (simp add: unat_gt_0)
    moreover have "unat (q - (p + 1)) = unat (q - p) - 1" using unat_minus_one [OF pos] by (simp add: algebra_simps)
    ultimately show ?thesis using False by (auto simp: written_def nth_Cons split: nat.splits)
  qed
qed

lemma holds_written: "length bs < 2 ^ 64 \<Longrightarrow> holds (written p bs m) p bs"
  by (auto simp: holds_def written_def unat_of_nat)

lemma written_other: "unat (q - p) \<ge> length bs \<Longrightarrow> written p bs m q = m q"
  by (simp add: written_def)

lemma append_chars_written:
  assumes "unat n + length cs < unat capacity" "mapped (buffer + n) (length cs) m"
  shows "append_chars buffer capacity cs (n, m) = Some (n + of_nat (length cs), written (buffer + n) cs m)"
  using assms
proof (induction cs arbitrary: n m)
  case Nil
  then show ?case by (simp add: written_def)
next
  case (Cons c cs)
  have cap: "unat capacity < 2 ^ 64" using unsigned_less [of capacity, where ?'a = nat] by simp
  then have n1: "unat (n + 1) = unat n + 1" using Cons.prems(1) by (simp add: unat_word_ariths)
  then have "n + 1 < capacity" using Cons.prems(1) by (simp add: word_less_nat_alt)
  moreover have "capacity \<noteq> 0" using Cons.prems(1) by auto
  ultimately have "append_char buffer capacity c (n, m) = Some (n + 1, m(buffer + n \<mapsto> c))"
    using Cons.prems(2) by (simp add: append_char_def store8_mapped mapped_Suc)
  moreover have "append_chars buffer capacity cs (n + 1, m(buffer + n \<mapsto> c))
      = Some (n + 1 + of_nat (length cs), written (buffer + (n + 1)) cs (m(buffer + n \<mapsto> c)))"
  proof (rule Cons.IH)
    show "mapped (buffer + (n + 1)) (length cs) (m(buffer + n \<mapsto> c))"
      by (rule mapped_upd) (use Cons.prems(2) in \<open>simp add: mapped_Suc algebra_simps\<close>)
  qed (use Cons.prems(1) n1 in simp)
  moreover have "length cs < 2 ^ 64 - 1" using Cons.prems(1) cap by simp
  ultimately show ?case by (simp add: written_Cons algebra_simps)
qed

definition decimal :: "u8 \<Rightarrow> nat" where
  "decimal c = unat c - 0x30"

lemma number_digits_value:
  "unat v < 10 ^ k \<Longrightarrow> foldr (\<lambda>c a. a * 10 + decimal c) (number_digits k v 10 False) 0 = unat v"
proof (induction k arbitrary: v)
  case (Suc k)
  have d: "decimal (digit_char False (v mod 10)) = unat v mod 10"
  proof -
    have "unat (v mod 10) < 10" by (simp add: unat_mod)
    then show ?thesis
      by (simp add: decimal_def digit_char_def word_less_nat_alt unat_mod unat_word_ariths unsigned_ucast_eq take_bit_eq_mod)
  qed
  have "unat (v div 10) < 10 ^ k" using Suc.prems by (simp add: unat_div less_mult_imp_div_less mult.commute)
  then have "foldr (\<lambda>c a. a * 10 + decimal c) (number_digits k (v div 10) 10 False) 0 = unat v div 10"
    using Suc.IH by (simp add: unat_div)
  moreover have "unat v div 10 = 0" if "v div 10 = 0" using arg_cong [OF that, of unat] by (simp add: unat_div)
  ultimately show ?case using d by (auto simp: mult.commute)
qed simp

lemma number_digits_digits: "c \<in> set (number_digits k v 10 False) \<Longrightarrow> 0x30 \<le> c \<and> c \<le> 0x39"
proof (induction k arbitrary: v)
  case (Suc k)
  have "unat (v mod 10) < 10" by (simp add: unat_mod)
  then have "0x30 \<le> digit_char False (v mod 10) \<and> digit_char False (v mod 10) \<le> 0x39"
    by (simp add: digit_char_def word_less_nat_alt word_le_nat_alt unat_mod unat_word_ariths unsigned_ucast_eq take_bit_eq_mod)
  then show ?case using Suc by (auto split: if_splits)
qed simp

lemma number_digits_length: "length (number_digits k v base upper) \<le> k \<and> (k \<noteq> 0 \<longrightarrow> number_digits k v base upper \<noteq> [])"
  by (induction k arbitrary: v) auto

lemma digit_value_decimal: "0x30 \<le> c \<Longrightarrow> c \<le> 0x39 \<Longrightarrow> digit_value c = int (decimal c)"
proof -
  assume c: "0x30 \<le> c" "c \<le> 0x39"
  have "unat (0x30 :: u8) \<le> unat c" using c(1) by (simp only: word_le_nat_alt)
  then have "int (unat c - 0x30) = int (unat c) - 0x30" by simp
  moreover have "digit_value c = uint c - 0x30" using c by (simp only: digit_value_def simp_thms if_True)
  ultimately show ?thesis by (simp add: decimal_def)
qed

lemma foldl_decimal_mono: "a \<le> foldl (\<lambda>a c. a * 10 + decimal c) a ds"
proof (induction ds arbitrary: a)
  case (Cons d ds)
  have "a \<le> a * 10 + decimal d" by simp
  also have "\<dots> \<le> foldl (\<lambda>a c. a * 10 + decimal c) (a * 10 + decimal d) ds" by (rule Cons.IH)
  finally show ?case by simp
qed simp

lemma digits_value_reads:
  assumes "holds m p ds" "\<And>c. c \<in> set ds \<Longrightarrow> 0x30 \<le> c \<and> c \<le> 0x39"
    "foldl (\<lambda>a c. a * 10 + decimal c) (unat v) ds \<le> unat limit"
  shows "digits_value limit 10 v False p m
    = digits_value limit 10 (of_nat (foldl (\<lambda>a c. a * 10 + decimal c) (unat v) ds)) False (p + of_nat (length ds)) m"
  using assms
proof (induction ds arbitrary: v p)
  case (Cons c ds)
  have c: "0x30 \<le> c" "c \<le> 0x39" "m p = Some c" "holds m (p + 1) ds" using Cons.prems by (auto simp: holds_Cons)
  have dv: "digit_value c = int (decimal c)" using digit_value_decimal c by blast
  have small: "decimal c < 10" using c by (simp add: decimal_def word_le_nat_alt)
  have le: "unat v * 10 + decimal c \<le> unat limit"
    using order.trans [OF foldl_decimal_mono Cons.prems(3) [unfolded foldl.simps]] .
  have lim: "unat limit < 2 ^ 64" using unsigned_less [of limit, where ?'a = nat] by simp
  have digit: "unat (of_int (int (decimal c)) :: u64) = decimal c" using small by (simp add: unat_of_nat)
  have step: "unat (v * 10 + of_int (int (decimal c))) = unat v * 10 + decimal c"
    using le lim small by (simp add: unat_word_ariths unat_of_nat)
  have "\<not> v > (limit - of_int (int (decimal c))) div 10"
  proof -
    have "unat (limit - of_int (int (decimal c))) = unat limit - decimal c"
      using le digit by (subst unat_sub) (simp_all add: word_le_nat_alt)
    then have "unat ((limit - of_int (int (decimal c))) div 10) = (unat limit - decimal c) div 10" by (simp add: unat_div)
    moreover have "unat v \<le> (unat limit - decimal c) div 10" using le by (simp add: less_eq_div_iff_mult_less_eq)
    ultimately show ?thesis by (simp add: word_less_nat_alt)
  qed
  then have "digits_value limit 10 v False p m = digits_value limit 10 (v * 10 + of_int (int (decimal c))) False (p + 1) m"
    using c(3) dv small by (subst digits_value.simps) (simp add: Let_def)
  also have "\<dots> = digits_value limit 10 (of_nat (foldl (\<lambda>a c. a * 10 + decimal c) (unat (v * 10 + of_int (int (decimal c)))) ds)) False
      (p + 1 + of_nat (length ds)) m"
    by (rule Cons.IH) (use Cons.prems c(4) step in \<open>auto simp: holds_Cons\<close>)
  finally show ?case using step by (simp add: algebra_simps)
qed simp

text \<open>The text of a signed number.\<close>

definition decimal_text :: "u64 \<Rightarrow> u8 list" where
  "decimal_text v = (if sint v < 0 then [0x2d] else []) @ rev (number_digits 32 (if sint v < 0 then - v else v) 10 False)"

lemma number_digits_short: "unat v < 10 ^ Suc j \<Longrightarrow> length (number_digits k v 10 upper) \<le> Suc j"
proof (induction k arbitrary: v j)
  case (Suc k)
  have "length (number_digits k (v div 10) 10 upper) \<le> j" if "v div 10 \<noteq> 0"
  proof (cases j)
    case 0
    then have "unat (v div 10) = 0" using Suc.prems by (simp add: unat_div)
    then show ?thesis using that by (simp add: unat_eq_zero)
  next
    case (Suc i)
    then have "unat (v div 10) < 10 ^ Suc i" using Suc.prems by (simp add: unat_div less_mult_imp_div_less mult.commute)
    then show ?thesis using Suc.IH Suc by simp
  qed
  then show ?case by auto
qed simp

lemma decimal_text_length: "length (decimal_text v) \<le> 21"
proof -
  have "unat w < 10 ^ Suc 19" for w :: u64 using unsigned_less [of w, where ?'a = nat] by simp
  then have short: "length (number_digits 32 w 10 False) \<le> Suc 19" for w by (rule number_digits_short)
  show ?thesis using short [of v] short [of "- v"] by (simp add: decimal_text_def del: number_digits.simps)
qed

lemma append_signed_text: "append_signed buffer capacity v lm = append_chars buffer capacity (decimal_text v) lm"
  by (auto simp: append_signed_def decimal_text_def append_unsigned_def simp del: number_digits.simps)

lemma snprintf_long:
  assumes "holds (um s) fmt [0x25, 0x6c, 0x64, 0]" "mapped buffer (unat capacity) (um s)" "22 \<le> unat capacity"
    "fmt \<noteq> 0" "buffer \<noteq> 0" "unat (fmt + 3 - buffer) \<ge> unat capacity"
  shows "\<exists>n. snprintf buffer capacity fmt [v] s = Some (n, s\<lparr>um := written buffer (decimal_text v @ [0]) (um s)\<rparr>)"
proof -
  let ?t = "decimal_text v" and ?m = "um s"
  have len: "length ?t < unat capacity" using decimal_text_length [of v] assms(3) by simp
  have m: "?m fmt = Some 0x25" "?m (fmt + 1) = Some 0x6c" "?m (fmt + 2) = Some 0x64" "?m (fmt + 3) = Some 0"
    using assms(1) by (auto simp: holds_Cons algebra_simps)
  let ?m1 = "written buffer ?t ?m"
  have part: "mapped buffer k ?m" if "k \<le> unat capacity" for k using assms(2) that by (auto simp: mapped_def)
  have chars: "append_chars buffer capacity ?t (0, ?m) = Some (of_nat (length ?t), ?m1)"
    using append_chars_written [of 0 ?t capacity buffer ?m] len part by simp
  have stop: "?m1 (fmt + 3) = Some 0" using assms(6) len m(4) by (simp add: written_other)
  have "long_marks (fmt + 2) 1 ?m = Some (1, fmt + 2)" using m(3) by (subst long_marks.simps) simp
  then have marks: "long_marks (fmt + 1) 0 ?m = Some (1, fmt + 2)" using m(2) by (subst long_marks.simps) (simp add: add.commute)
  have conv: "conversion buffer capacity 1 0x64 [v] (0, ?m) = Some ([], of_nat (length ?t), ?m1)"
    using chars by (simp add: conversion_def take_arg_def signed_arg_def append_signed_text)
  have "format_loop buffer capacity fmt [v] (0, ?m) = format_loop buffer capacity (fmt + 2 + 1) [] (of_nat (length ?t), ?m1)"
    using m marks conv by (subst format_loop.simps) simp
  also have "\<dots> = Some (of_nat (length ?t), ?m1)" using stop by (subst format_loop.simps) (simp add: algebra_simps)
  finally have loop: "format_loop buffer capacity fmt [v] (0, ?m) = Some (of_nat (length ?t), ?m1)" .
  have n: "unat (of_nat (length ?t) :: u64) = length ?t" using decimal_text_length [of v] by (simp add: unat_of_nat)
  have "of_nat (length ?t) < capacity" using len n by (simp add: word_less_nat_alt)
  moreover have "capacity \<noteq> 0" using assms(3) by auto
  moreover have "?m (buffer + of_nat (length ?t)) \<noteq> None" using assms(2) len by (simp add: mapped_def)
  then have "?m1 (buffer + of_nat (length ?t)) \<noteq> None" using n by (simp add: written_def)
  then have "store8 (buffer + of_nat (length ?t)) 0 ?m1 = Some (?m1(buffer + of_nat (length ?t) \<mapsto> 0))" by (rule store8_mapped)
  moreover have "?m1(buffer + of_nat (length ?t) \<mapsto> 0) = written buffer (?t @ [0]) ?m"
  proof
    fix q
    have "q = buffer + of_nat (length ?t) \<longleftrightarrow> q - buffer = of_nat (length ?t)" by (auto simp: algebra_simps)
    also have "\<dots> \<longleftrightarrow> unat (q - buffer) = length ?t" using n by (simp only: word_unat_eq_iff)
    finally have "q = buffer + of_nat (length ?t) \<longleftrightarrow> unat (q - buffer) = length ?t" .
    then show "(?m1(buffer + of_nat (length ?t) \<mapsto> 0)) q = written buffer (?t @ [0]) ?m q"
      by (auto simp: written_def nth_append less_Suc_eq)
  qed
  ultimately show ?thesis using loop assms(4,5) by (auto simp: snprintf_def vsnprintf_def)
qed

lemma digits_value_text:
  assumes "holds m p (rev (number_digits 32 w 10 False) @ [0])" "unat w \<le> unat limit"
  shows "digits_value limit 10 0 False p m = Some (w, False, p + of_nat (length (number_digits 32 w 10 False)))"
proof -
  let ?ds = "rev (number_digits 32 w 10 False)"
  have h: "holds m p ?ds" "m (p + of_nat (length ?ds)) = Some 0" using assms(1) by (simp_all add: holds_append holds_Cons)
  have "unat w < 10 ^ 32" using unsigned_less [of w, where ?'a = nat] by simp
  then have val: "foldl (\<lambda>a c. a * 10 + decimal c) (unat (0 :: u64)) ?ds = unat w"
    by (simp only: unsigned_0 foldl_conv_foldr rev_rev_ident number_digits_value)
  have "digits_value limit 10 0 False p m = digits_value limit 10 (of_nat (unat w)) False (p + of_nat (length ?ds)) m"
    using digits_value_reads [OF h(1), of 0 limit] number_digits_digits assms(2) unfolding val set_rev by blast
  also have "\<dots> = Some (w, False, p + of_nat (length ?ds))"
    using h(2) by (subst digits_value.simps) (simp add: digit_value_def)
  finally show ?thesis by simp
qed

lemma signed_negative: "sint v < 0 \<longleftrightarrow> 2 ^ 63 \<le> unat v" for v :: u64
proof -
  have "sint v < 0 \<longleftrightarrow> odd (uint v div 2 ^ 63)" by (simp add: sint_uint bit_iff_odd)
  moreover have "uint v div 2 ^ 63 = int (unat v div 2 ^ 63)" by (simp add: zdiv_int)
  ultimately have "sint v < 0 \<longleftrightarrow> odd (unat v div 2 ^ 63)" by (simp only: even_of_nat_iff)
  moreover have "unat v div 2 ^ 63 < 2" using unsigned_less [of v, where ?'a = nat] by (simp add: less_mult_imp_div_less)
  ultimately show ?thesis by (auto simp: less_2_cases_iff div_eq_0_iff div_greater_zero_iff)
qed

lemma negated_le:
  fixes v :: u64
  assumes "2 ^ 63 \<le> unat v"
  shows "unat (- v) \<le> 2 ^ 63"
proof -
  have "(unat v + unat (- v)) mod 2 ^ 64 = unat (v + - v)" by (subst unat_word_ariths(1)) simp
  then have "2 ^ 64 dvd unat v + unat (- v)" by (simp add: mod_eq_0_iff_dvd)
  then obtain k where "unat v + unat (- v) = 2 ^ 64 * k" by (elim dvdE)
  then have "2 ^ 64 * k < 2 ^ 64 * (2 :: nat)" "unat v + unat (- v) = 2 ^ 64 * k"
    using unsigned_less [of v, where ?'a = nat] unsigned_less [of "- v", where ?'a = nat] by simp_all
  then have "unat v + unat (- v) \<le> 2 ^ 64" by simp
  then show ?thesis using assms by simp
qed

lemma strtol_text:
  assumes "holds (um s) p (decimal_text v @ [0])" "p \<noteq> 0"
  shows "strtol p 0 10 s = Some (v, s)"
proof -
  let ?w = "if sint v < 0 then - v else v"
  let ?ds = "rev (number_digits 32 ?w 10 False)" and ?limit = "if sint v < 0 then LONG_MAX + 1 else LONG_MAX"
  let ?q = "if sint v < 0 then p + 1 else p"
  obtain c cs where c: "?ds = c # cs" using number_digits_length [of 32 ?w 10 False] by (cases ?ds) auto
  then have digit: "0x30 \<le> c" "c \<le> 0x39" using number_digits_digits [of c 32 ?w] by (metis list.set_intros(1) set_rev)+
  have hold: "holds (um s) ?q (?ds @ [0])" using assms(1) by (auto simp: decimal_text_def holds_Cons)
  have at: "um s p = Some (if sint v < 0 then 0x2d else c)"
    using assms(1) c by (auto simp: decimal_text_def holds_Cons split: if_splits)
  have "um s ?q = Some c" using hold c by (simp add: holds_Cons)
  have space: "\<not> c_space (if sint v < 0 then 0x2d else c)" using digit by (auto simp: c_space_def)
  have sign: "read_sign p (um s) = Some (sint v < 0, ?q)"
    using at space digit by (auto simp: read_sign_def u_skip_space.simps [of p])
  have base: "read_base 10 ?q (um s) = Some (10, ?q)" using \<open>um s ?q = Some c\<close> by (simp add: read_base_def)
  have "unat ?w \<le> unat ?limit"
    using signed_negative [of v] negated_le [of v] by auto
  note val = digits_value_text [OF hold this]
  have "unat (of_nat (length (number_digits 32 ?w 10 False)) :: u64) = length (number_digits 32 ?w 10 False)"
    using number_digits_length [of 32 ?w 10 False] by (simp add: unat_of_nat)
  then have "of_nat (length (number_digits 32 ?w 10 False)) \<noteq> (0 :: u64)"
    using number_digits_length [of 32 ?w 10 False] by (metis length_0_conv unsigned_0 zero_neq_numeral)
  then have "?q + of_nat (length (number_digits 32 ?w 10 False)) \<noteq> ?q" by simp
  moreover have "- LONG_MAX - 1 = v" if "- v = LONG_MAX + 1" using arg_cong [OF that, of uminus] by simp
  ultimately show ?thesis using assms(2) sign base val by (auto simp: strtol_def store_end_def)
qed

text \<open>C25. Printing a signed 64-bit number with \<^verbatim>\<open>snprintf(buffer, capacity, "%ld", v)\<close> into a buffer of at
  least 22 bytes that does not overlap the format returns, and \<^verbatim>\<open>strtol(buffer, NULL, 10)\<close> reads the same
  number back, for every value of \<open>v\<close>, the most negative one included; nothing but the buffer changes.\<close>

theorem printf_strtol_roundtrip:
  assumes "holds (um s) fmt [0x25, 0x6c, 0x64, 0]" "mapped buffer (unat capacity) (um s)" "22 \<le> unat capacity"
    "fmt \<noteq> 0" "buffer \<noteq> 0" "unat (fmt + 3 - buffer) \<ge> unat capacity"
  shows "\<exists>n m. snprintf buffer capacity fmt [v] s = Some (n, s\<lparr>um := m\<rparr>)
    \<and> strtol buffer 0 10 (s\<lparr>um := m\<rparr>) = Some (v, s\<lparr>um := m\<rparr>)
    \<and> (\<forall>q. unat capacity \<le> unat (q - buffer) \<longrightarrow> m q = um s q)"
proof -
  let ?m = "written buffer (decimal_text v @ [0]) (um s)"
  have len: "length (decimal_text v @ [0]) \<le> 22" using decimal_text_length [of v] by simp
  then have "holds ?m buffer (decimal_text v @ [0])" by (intro holds_written) simp
  then have "strtol buffer 0 10 (s\<lparr>um := ?m\<rparr>) = Some (v, s\<lparr>um := ?m\<rparr>)" by (intro strtol_text) (simp_all add: assms(5))
  moreover have "?m q = um s q" if "unat capacity \<le> unat (q - buffer)" for q
    using that len assms(3) by (intro written_other) linarith
  ultimately show ?thesis using snprintf_long [OF assms] by blast
qed

definition format_memory :: umem where
  "format_memory = written 0x1000 [0x25, 0x6c, 0x64, 0] (written 0x2000 (replicate 32 0) Map.empty)"

definition libc_start :: "umem \<Rightarrow> unit libc_state" where
  "libc_start m = \<lparr>um = m, world = (), errno_var = 0, strtok_next = 0, stack_area = 0,
     directories = \<lambda>_. \<lparr>dir_fd = 0, dir_length = 0, dir_offset = 0\<rparr>,
     directory_used = \<lambda>_. False, directory_buffer = \<lambda>_. 0\<rparr>"

theorem printf_strtol_roundtrip_witness:
  "\<exists>n m. snprintf 0x2000 32 0x1000 [- 42] (libc_start format_memory) = Some (n, libc_start m)
    \<and> strtol 0x2000 0 10 (libc_start m) = Some (- 42, libc_start m)"
proof -
  have "mapped 0x2000 32 format_memory"
    by (auto simp: format_memory_def mapped_def written_def unat_of_nat)
  moreover have "holds format_memory 0x1000 [0x25, 0x6c, 0x64, 0]"
    unfolding format_memory_def by (rule holds_written) simp
  ultimately show ?thesis
    using printf_strtol_roundtrip [of "libc_start format_memory" "0x1000" "0x2000" 32 "- 42"] by (auto simp: libc_start_def)
qed

subsection \<open>A format that ends in a percent sign\<close>

text \<open>Text without directives and without a terminator.\<close>

definition plain :: "u8 list \<Rightarrow> bool" where
  "plain cs \<longleftrightarrow> 0 \<notin> set cs \<and> 0x25 \<notin> set cs"

lemma append_char_counts: "append_char buffer 0 c (n, m) = Some (n + 1, m)"
  by (simp add: append_char_def)

lemma format_loop_plain:
  assumes "holds m q cs" "plain cs"
  shows "format_loop buffer 0 q args (n, m) = format_loop buffer 0 (q + of_nat (length cs)) args (n + of_nat (length cs), m)"
  using assms
proof (induction cs arbitrary: q n)
  case (Cons c cs)
  have "format_loop buffer 0 q args (n, m) = format_loop buffer 0 (q + 1) args (n + 1, m)"
    using Cons.prems by (subst format_loop.simps) (auto simp: holds_Cons plain_def append_char_counts)
  also have "\<dots> = format_loop buffer 0 (q + 1 + of_nat (length cs)) args (n + 1 + of_nat (length cs), m)"
    by (rule Cons.IH) (use Cons.prems in \<open>auto simp: holds_Cons plain_def\<close>)
  finally show ?case by (simp add: add.assoc)
qed simp

text \<open>The directive a lone percent sign and the terminator make: a percent sign is put out and the
  terminator is behind the reader.\<close>

lemma format_loop_percent_end:
  assumes "holds m q [0x25, 0]"
  shows "format_loop buffer 0 q args (n, m) = format_loop buffer 0 (q + 2) args (n + 1, m)"
proof -
  have q: "m q = Some 0x25" "m (q + 1) = Some 0" using assms by (simp_all add: holds_Cons)
  have "long_marks (q + 1) 0 m = Some (0, q + 1)" using q(2) by (subst long_marks.simps) simp
  moreover have "conversion buffer 0 0 0 args (n, m) = Some (args, n + 1, m)"
    by (simp add: conversion_def append_char_counts)
  ultimately show ?thesis using q by (subst format_loop.simps) (simp add: add.assoc)
qed

lemma strlen_holds: "holds m p (cs @ [0]) \<Longrightarrow> 0 \<notin> set cs \<Longrightarrow> strlen p m = Some (of_nat (length cs))"
proof (induction cs arbitrary: p)
  case Nil
  then show ?case by (subst strlen.simps) (simp add: holds_Cons)
next
  case (Cons c cs)
  then show ?case by (subst strlen.simps) (simp add: holds_Cons add.commute)
qed

text \<open>C27. A format that ends in a lone percent sign makes \<^verbatim>\<open>vsnprintf\<close> run past the end of its string: it takes
  the terminating zero for the conversion character and steps over it.  When the string is \<open>p\<close> and a percent sign, for
  any bytes \<open>p\<close> without directives, and behind its terminator lie any bytes \<open>t\<close> without directives
  and another zero, the call that only measures the output (no buffer, as \<^verbatim>\<open>vfprintf\<close> makes first)
  counts the bytes of \<open>t\<close> as output, although they are not part of the format.\<close>

theorem vsnprintf_percent_overread:
  assumes "holds (um s) fmt ((p @ [0x25]) @ [0] @ t @ [0])" "plain p" "plain t" "fmt \<noteq> 0"
    "length p + 1 + length t \<le> 0x7fffffff"
  shows "strlen fmt (um s) = Some (of_nat (length p + 1))
    \<and> vsnprintf 0 0 fmt args s = Some (of_nat (length p + 1 + length t), s)"
proof
  have h: "holds (um s) fmt p" "holds (um s) (fmt + of_nat (length p)) [0x25, 0]"
    "holds (um s) (fmt + of_nat (length p) + 2) t" "um s (fmt + of_nat (length p) + 2 + of_nat (length t)) = Some 0"
    using assms(1) by (simp_all add: holds_append holds_Cons add.assoc)
  show "strlen fmt (um s) = Some (of_nat (length p + 1))"
    using strlen_holds [of "um s" fmt "p @ [0x25]"] h(1,2) assms(2) by (simp add: holds_append holds_Cons plain_def add.assoc)
  let ?n = "0 + of_nat (length p) + 1 + of_nat (length t) :: u64"
  have "format_loop 0 0 fmt args (0, um s)
      = format_loop 0 0 (fmt + of_nat (length p) + 2 + of_nat (length t)) args (?n, um s)"
    by (simp only: format_loop_plain [OF h(1) assms(2)] format_loop_percent_end [OF h(2)] format_loop_plain [OF h(3) assms(3)])
  also have "\<dots> = Some (?n, um s)" using h(4) by (subst format_loop.simps) simp
  finally have loop: "format_loop 0 0 fmt args (0, um s) = Some (?n, um s)" .
  have n: "?n = of_nat (length p + 1 + length t)" by simp
  have "unat (of_nat k :: u64) = k" if "k \<le> 0x7fffffff" for k using that by (simp add: unat_of_nat)
  then have u: "unat ?n = length p + 1 + length t" unfolding n using assms(5) by blast
  have "\<not> ?n > 0x7fffffff" using u assms(5) by (simp add: word_less_nat_alt)
  moreover have "ucast ?n = (of_nat (length p + 1 + length t) :: u32)" using of_nat_unat [of ?n, where ?'a = u32] unfolding u by (rule sym)
  ultimately show "vsnprintf 0 0 fmt args s = Some (of_nat (length p + 1 + length t), s)"
    using loop assms(4) by (simp add: vsnprintf_def)
qed

theorem vsnprintf_percent_overread_witness:
  "strlen 0x1000 (written 0x1000 [0x41, 0x25, 0, 0x42, 0x43, 0] Map.empty) = Some 2
    \<and> (let s = libc_start (written 0x1000 [0x41, 0x25, 0, 0x42, 0x43, 0] Map.empty) in vsnprintf 0 0 0x1000 [] s = Some (4, s))"
proof -
  let ?m = "written 0x1000 [0x41, 0x25, 0, 0x42, 0x43, 0] Map.empty"
  have "holds ?m 0x1000 (([0x41] @ [0x25]) @ [0] @ [0x42, 0x43] @ [0])" by (simp add: holds_written)
  then show ?thesis
    using vsnprintf_percent_overread [of "libc_start ?m" "0x1000" "[0x41]" "[0x42, 0x43]" "[]"]
    by (simp add: libc_start_def plain_def)
qed

end
