(* ===== verification/Console_Props.thy ===== *)
theory Console_Props
  imports Demo
begin

text \<open>
  The console keeps inside its screen: whatever bytes are written, escape sequences and broken UTF-8 included, the
  cursor stays on the grid of character cells, no byte outside the framebuffer and no cell outside the text
  buffer changes, and nothing but the fields of the console changes.
\<close>

subsection \<open>Drawing\<close>

definition fb_valid :: "framebuffer \<Rightarrow> bool" where
  "fb_valid f \<longleftrightarrow> fb_bpp f \<in> {16, 24, 32} \<and> unat (fb_width f) * (unat (fb_bpp f) div 8) \<le> unat (fb_pitch f)
     \<and> unat (fb_pitch f) * unat (fb_height f) < 2 ^ 64"

definition screen_bytes :: "framebuffer \<Rightarrow> nat" where
  "screen_bytes f = unat (fb_pitch f) * unat (fb_height f)"

text \<open>Only pixels of the framebuffer \<open>f\<close> and the remembered background differ.\<close>

definition draws :: "framebuffer \<Rightarrow> 'a display_state_scheme \<Rightarrow> 'a display_state_scheme \<Rightarrow> bool" where
  "draws f s t \<longleftrightarrow> (\<exists>m c. t = s\<lparr>fb_mem := m, current_bg := c\<rparr> \<and> (\<forall>a. screen_bytes f \<le> unat a \<longrightarrow> m a = fb_mem s a))"

lemma drawsI: "(\<And>a. screen_bytes f \<le> unat a \<Longrightarrow> m a = fb_mem s a) \<Longrightarrow> draws f s (s\<lparr>fb_mem := m, current_bg := c\<rparr>)"
  unfolding draws_def by blast

lemma draws_refl [simp]: "draws f s s"
  using drawsI [of f "fb_mem s" s "current_bg s"] by simp

lemma draws_trans [trans]:
  assumes "draws f s t" "draws f t u"
  shows "draws f s u"
proof -
  obtain m c where t: "t = s\<lparr>fb_mem := m, current_bg := c\<rparr>" "\<And>a. screen_bytes f \<le> unat a \<Longrightarrow> m a = fb_mem s a"
    using assms(1) by (auto simp: draws_def)
  obtain n d where u: "u = t\<lparr>fb_mem := n, current_bg := d\<rparr>" "\<And>a. screen_bytes f \<le> unat a \<Longrightarrow> n a = fb_mem t a"
    using assms(2) by (auto simp: draws_def)
  have "draws f s (s\<lparr>fb_mem := n, current_bg := d\<rparr>)" by (rule drawsI) (use t u(2) in simp)
  then show ?thesis using t(1) u(1) by simp
qed

lemma drawsD:
  assumes "draws f s t"
  shows "fb t = fb s" "cursor_x t = cursor_x s" "cursor_y t = cursor_y s" "foreground t = foreground s" "background t = background s"
    "using_gop t = using_gop s" "vga_buffer t = vga_buffer s" "vga_cursor_x t = vga_cursor_x s" "vga_cursor_y t = vga_cursor_y s"
    "ansi_state t = ansi_state s" "ansi_sequence t = ansi_sequence s" "user_display_owner t = user_display_owner s"
    "gop_columns t = gop_columns s" "gop_rows t = gop_rows s"
  using assms by (auto simp: draws_def gop_columns_def gop_rows_def)

lemma draws_fold:
  assumes "\<And>x s. fb s = Some f \<Longrightarrow> draws f s (g x s)"
  shows "fb s = Some f \<Longrightarrow> draws f s (fold g xs s)"
proof (induction xs arbitrary: s)
  case (Cons x xs)
  have "fb (g x s) = Some f" using drawsD(1) [OF assms [OF Cons.prems]] Cons.prems by simp
  then show ?case using draws_trans [OF assms [OF Cons.prems] Cons.IH] by simp
qed simp

lemma store_bytes_other: "(\<And>i. i < length bs \<Longrightarrow> a \<noteq> p + of_nat i) \<Longrightarrow> store_bytes p bs m a = m a"
proof (induction bs arbitrary: p m)
  case (Cons b bs)
  have "a \<noteq> p" using Cons.prems [of 0] by simp
  moreover have "a \<noteq> p + 1 + of_nat i" if "i < length bs" for i using Cons.prems [of "Suc i"] that by (simp add: algebra_simps)
  ultimately show ?case using Cons.IH [of "p + 1"] by simp
qed simp

lemma pixel_inside:
  assumes "fb_valid f" "x < fb_width f" "y < fb_height f" "i < length (pixel_bytes (fb_bpp f) v)"
  shows "unat (pixel_offset f x y + of_nat i) < screen_bytes f"
proof -
  let ?b = "unat (fb_bpp f) div 8" and ?p = "unat (fb_pitch f)"
  have b: "length (pixel_bytes (fb_bpp f) v) = ?b" "?b \<le> 4"
    using assms(1) by (auto simp: fb_valid_def pixel_bytes_def le32_def)
  have "unat y * ?p + unat x * ?b + i < unat y * ?p + (unat x + 1) * ?b" using assms(4) b by simp
  also have "(unat x + 1) * ?b \<le> unat (fb_width f) * ?b" using assms(2) by (intro mult_le_mono1) (simp add: word_less_nat_alt)
  also have "unat (fb_width f) * ?b \<le> ?p" using assms(1) by (simp add: fb_valid_def)
  also have "unat y * ?p + ?p \<le> unat (fb_height f) * ?p"
    using assms(3) mult_le_mono1 [of "unat y + 1" "unat (fb_height f)" ?p] by (simp add: word_less_nat_alt)
  finally have less: "unat y * ?p + unat x * ?b + i < screen_bytes f" by (simp add: screen_bytes_def mult.commute)
  have "screen_bytes f < 2 ^ 64" using assms(1) by (simp add: fb_valid_def screen_bytes_def)
  then have "unat y * ?p + unat x * ?b + i < 2 ^ 64" using less by simp
  moreover have "unat (ucast (fb_bpp f) div 8 :: u64) = ?b" using assms(1) by (auto simp: fb_valid_def)
  ultimately have "unat (pixel_offset f x y + of_nat i) = unat y * ?p + unat x * ?b + i"
    by (simp add: pixel_offset_def unat_word_ariths unat_of_nat mod_simps)
  then show ?thesis using less by simp
qed

lemma put_pixel_draws:
  assumes "fb_valid f" "fb s = Some f"
  shows "draws f s (put_pixel x y c s)"
proof -
  have "store_bytes (pixel_offset f x y) (pixel_bytes (fb_bpp f) (pixel_value f c)) (fb_mem s) a = fb_mem s a"
    if "screen_bytes f \<le> unat a" "x < fb_width f" "y < fb_height f" for a
  proof (rule store_bytes_other)
    fix i assume "i < length (pixel_bytes (fb_bpp f) (pixel_value f c))"
    then show "a \<noteq> pixel_offset f x y + of_nat i" using pixel_inside [OF assms(1) that(2,3)] that(1) leD by blast
  qed
  then have "draws f s (s\<lparr>fb_mem := store_bytes (pixel_offset f x y) (pixel_bytes (fb_bpp f) (pixel_value f c)) (fb_mem s),
      current_bg := current_bg s\<rparr>)" if "x < fb_width f" "y < fb_height f" using that by (intro drawsI)
  then show ?thesis using assms(2) by (simp add: put_pixel_def not_le)
qed

lemma fill_rows_draws:
  assumes "fb_valid f" "fb s = Some f"
  shows "draws f s (fill_rows a b c s)"
proof -
  have "draws f s (fold (\<lambda>x s. put_pixel (of_nat x) (of_nat y) c s) xs s)" if "fb s = Some f" for y xs and s :: "'a display_state_scheme"
    by (rule draws_fold [OF put_pixel_draws [OF assms(1)] that])
  then have "draws f s (fold (\<lambda>y s. fold (\<lambda>x s. put_pixel (of_nat x) (of_nat y) c s) xs s) ys s)" for xs ys
    using assms(2) by (rule draws_fold)
  then show ?thesis using assms(2) by (simp add: fill_rows_def)
qed

lemma bg_draws [simp]: "draws f s (s\<lparr>current_bg := c\<rparr>)"
  using drawsI [of f "fb_mem s" s c] by simp

lemma gop_clear_draws:
  assumes "fb_valid f" "fb s = Some f"
  shows "draws f s (gop_clear c s)"
  using draws_trans [OF bg_draws [of f s c] fill_rows_draws [OF assms(1), of "s\<lparr>current_bg := c\<rparr>"]] assms(2)
  by (simp add: gop_clear_def)

lemma gop_draw_cell_draws:
  assumes "fb_valid f" "fb s = Some f"
  shows "draws f s (gop_draw_cell x y cp fg bg s)"
proof -
  have "draws f s (draw_glyph_pixel a b g fg bg p s)" if "fb s = Some f" for a b g p and s :: "'a display_state_scheme"
    using put_pixel_draws [OF assms(1) that] by (simp add: draw_glyph_pixel_def Let_def split: prod.split)
  then have "draws f s (fold (draw_glyph_pixel a b g fg bg) ps s)" for a b g ps using assms(2) by (rule draws_fold)
  then show ?thesis by (simp add: gop_draw_cell_def)
qed

lemma gop_scroll_rows_draws:
  assumes "fb_valid f" "fb s = Some f"
  shows "draws f s (gop_scroll_rows rows bg s)"
proof -
  let ?r = "rows * cell_rows"
  let ?m = "move_up (?r * fb_pitch f) ((fb_height f - ?r) * fb_pitch f) (fb_mem s)"
  have "draws f s ((fill_rows (fb_height f - ?r) (fb_height f) bg (s\<lparr>fb_mem := ?m\<rparr>))\<lparr>current_bg := bg\<rparr>)" if r: "?r < fb_height f"
  proof -
    have "unat (fb_height f - ?r) \<le> unat (fb_height f)" using r by (simp add: unat_sub less_imp_le)
    then have "unat (fb_height f - ?r) * unat (fb_pitch f) \<le> screen_bytes f" by (simp add: screen_bytes_def mult.commute)
    then have "unat ((fb_height f - ?r) * fb_pitch f) \<le> screen_bytes f"
      by (subst unat_word_ariths(2)) (rule order.trans [OF mod_less_eq_dividend])
    then have "?m a = fb_mem s a" if "screen_bytes f \<le> unat a" for a using that by (auto simp: move_up_def word_less_nat_alt)
    then have move: "draws f s (s\<lparr>fb_mem := ?m\<rparr>)" using drawsI [of f ?m s "current_bg s"] by simp
    have "draws f (s\<lparr>fb_mem := ?m\<rparr>) (fill_rows (fb_height f - ?r) (fb_height f) bg (s\<lparr>fb_mem := ?m\<rparr>))"
      using fill_rows_draws [OF assms(1), of "s\<lparr>fb_mem := ?m\<rparr>"] assms(2) by simp
    then show ?thesis using draws_trans [OF draws_trans [OF move] bg_draws] by blast
  qed
  then show ?thesis using assms(2) gop_clear_draws [OF assms] by (auto simp: gop_scroll_rows_def Let_def not_le)
qed

subsection \<open>The cursor\<close>

definition console_ok :: "'a display_state_scheme \<Rightarrow> bool" where
  "console_ok s \<longleftrightarrow>
     (using_gop s \<longrightarrow> (\<exists>f. fb s = Some f \<and> fb_valid f)
        \<and> (gop_columns s \<noteq> 0 \<and> gop_rows s \<noteq> 0 \<longrightarrow> cursor_x s < gop_columns s \<and> cursor_y s < gop_rows s))
     \<and> vga_cursor_x s < 80 \<and> vga_cursor_y s < 25 \<and> length (ansi_sequence s) < 16"

text \<open>Only fields of the console differ, and the memory behind the screens does not.\<close>

definition console_only :: "'a display_state_scheme \<Rightarrow> 'a display_state_scheme \<Rightarrow> bool" where
  "console_only s t \<longleftrightarrow> (\<exists>m c x y b vx vy st sq. t = s\<lparr>fb_mem := m, current_bg := c, cursor_x := x, cursor_y := y, vga_buffer := b,
       vga_cursor_x := vx, vga_cursor_y := vy, ansi_state := st, ansi_sequence := sq\<rparr>
     \<and> (\<forall>f a. fb s = Some f \<longrightarrow> screen_bytes f \<le> unat a \<longrightarrow> m a = fb_mem s a) \<and> (\<forall>i \<ge> 2000. b i = vga_buffer s i))"

lemma console_onlyI:
  assumes "\<And>f a. fb s = Some f \<Longrightarrow> screen_bytes f \<le> unat a \<Longrightarrow> m a = fb_mem s a" "\<And>i. i \<ge> 2000 \<Longrightarrow> b i = vga_buffer s i"
  shows "console_only s (s\<lparr>fb_mem := m, current_bg := c, cursor_x := x, cursor_y := y, vga_buffer := b,
       vga_cursor_x := vx, vga_cursor_y := vy, ansi_state := st, ansi_sequence := sq\<rparr>)"
  using assms unfolding console_only_def by blast

lemma console_only_trans [trans]:
  assumes "console_only s t" "console_only t u"
  shows "console_only s u"
proof -
  obtain m c x y b vx vy st sq where t: "t = s\<lparr>fb_mem := m, current_bg := c, cursor_x := x, cursor_y := y, vga_buffer := b,
       vga_cursor_x := vx, vga_cursor_y := vy, ansi_state := st, ansi_sequence := sq\<rparr>"
     "\<And>f a. fb s = Some f \<Longrightarrow> screen_bytes f \<le> unat a \<Longrightarrow> m a = fb_mem s a" "\<And>i. i \<ge> 2000 \<Longrightarrow> b i = vga_buffer s i"
    using assms(1) unfolding console_only_def by blast
  obtain m' c' x' y' b' vx' vy' st' sq' where u: "u = t\<lparr>fb_mem := m', current_bg := c', cursor_x := x', cursor_y := y', vga_buffer := b',
       vga_cursor_x := vx', vga_cursor_y := vy', ansi_state := st', ansi_sequence := sq'\<rparr>"
     "\<And>f a. fb t = Some f \<Longrightarrow> screen_bytes f \<le> unat a \<Longrightarrow> m' a = fb_mem t a" "\<And>i. i \<ge> 2000 \<Longrightarrow> b' i = vga_buffer t i"
    using assms(2) unfolding console_only_def by blast
  have "console_only s (s\<lparr>fb_mem := m', current_bg := c', cursor_x := x', cursor_y := y', vga_buffer := b',
       vga_cursor_x := vx', vga_cursor_y := vy', ansi_state := st', ansi_sequence := sq'\<rparr>)"
    by (rule console_onlyI) (use t u(2,3) in simp_all)
  then show ?thesis using t(1) u(1) by simp
qed

lemma console_only_simps [simp]:
  "console_only s s" "console_only s (s\<lparr>cursor_x := x\<rparr>)" "console_only s (s\<lparr>cursor_y := y\<rparr>)"
  "console_only s (s\<lparr>cursor_x := x, cursor_y := y\<rparr>)" "console_only s (s\<lparr>ansi_state := st, ansi_sequence := sq\<rparr>)"
  "console_only s (s\<lparr>ansi_state := st\<rparr>)" "console_only s (s\<lparr>ansi_sequence := sq\<rparr>)"
  subgoal using console_onlyI [where s = s and m = "fb_mem s" and b = "vga_buffer s" and c = "current_bg s" and x = "cursor_x s" and y = "cursor_y s" and vx = "vga_cursor_x s" and vy = "vga_cursor_y s" and st = "ansi_state s" and sq = "ansi_sequence s"]
    by simp
  subgoal using console_onlyI [where s = s and m = "fb_mem s" and b = "vga_buffer s" and c = "current_bg s" and x = x and y = "cursor_y s" and vx = "vga_cursor_x s" and vy = "vga_cursor_y s" and st = "ansi_state s" and sq = "ansi_sequence s"]
    by simp
  subgoal using console_onlyI [where s = s and m = "fb_mem s" and b = "vga_buffer s" and c = "current_bg s" and x = "cursor_x s" and y = y and vx = "vga_cursor_x s" and vy = "vga_cursor_y s" and st = "ansi_state s" and sq = "ansi_sequence s"]
    by simp
  subgoal using console_onlyI [where s = s and m = "fb_mem s" and b = "vga_buffer s" and c = "current_bg s" and x = x and y = y and vx = "vga_cursor_x s" and vy = "vga_cursor_y s" and st = "ansi_state s" and sq = "ansi_sequence s"]
    by simp
  subgoal using console_onlyI [where s = s and m = "fb_mem s" and b = "vga_buffer s" and c = "current_bg s" and x = "cursor_x s" and y = "cursor_y s" and vx = "vga_cursor_x s" and vy = "vga_cursor_y s" and st = st and sq = sq]
    by simp
  subgoal using console_onlyI [where s = s and m = "fb_mem s" and b = "vga_buffer s" and c = "current_bg s" and x = "cursor_x s" and y = "cursor_y s" and vx = "vga_cursor_x s" and vy = "vga_cursor_y s" and st = st and sq = "ansi_sequence s"]
    by simp
  subgoal using console_onlyI [where s = s and m = "fb_mem s" and b = "vga_buffer s" and c = "current_bg s" and x = "cursor_x s" and y = "cursor_y s" and vx = "vga_cursor_x s" and vy = "vga_cursor_y s" and st = "ansi_state s" and sq = sq] by simp
  done

lemma draws_console:
  assumes "draws f s t" "fb s = Some f"
  shows "console_only s t"
proof -
  obtain m c where "t = s\<lparr>fb_mem := m, current_bg := c\<rparr>" "\<And>a. screen_bytes f \<le> unat a \<Longrightarrow> m a = fb_mem s a"
    using assms(1) by (auto simp: draws_def)
  then show ?thesis using assms(2)
      console_onlyI [where s = s and m = m and b = "vga_buffer s" and c = c and x = "cursor_x s" and y = "cursor_y s" and vx = "vga_cursor_x s" and vy = "vga_cursor_y s" and st = "ansi_state s" and sq = "ansi_sequence s"]
    by simp
qed

lemma console_onlyD:
  assumes "console_only s t"
  shows "fb t = fb s" "using_gop t = using_gop s" "gop_columns t = gop_columns s" "gop_rows t = gop_rows s"
    "user_display_owner t = user_display_owner s"
  using assms by (auto simp: console_only_def gop_columns_def gop_rows_def)

text \<open>An operation that is safe on the console.\<close>

definition console_safe :: "('a display_state_scheme \<Rightarrow> 'a display_state_scheme) \<Rightarrow> bool" where
  "console_safe g \<longleftrightarrow> (\<forall>s. console_ok s \<longrightarrow> console_ok (g s) \<and> console_only s (g s))"

lemma console_safeD: "console_safe g \<Longrightarrow> console_ok s \<Longrightarrow> console_ok (g s) \<and> console_only s (g s)"
  by (simp add: console_safe_def)

lemma console_safe_comp: "console_safe g \<Longrightarrow> console_safe h \<Longrightarrow> console_safe (\<lambda>s. h (g s))"
  unfolding console_safe_def using console_only_trans by blast

lemma console_safe_fold: "(\<And>x. console_safe (g x)) \<Longrightarrow> console_safe (fold g xs)"
proof (induction xs)
  case Nil
  then show ?case by (simp add: console_safe_def id_def)
next
  case (Cons x xs)
  then show ?case using console_safe_comp [of "g x" "fold g xs"] by (simp add: comp_def)
qed

lemma draws_ok: "draws f s t \<Longrightarrow> console_ok s \<Longrightarrow> console_ok t"
  by (simp add: console_ok_def drawsD)

lemma console_ok_fb: "console_ok s \<Longrightarrow> using_gop s \<Longrightarrow> \<exists>f. fb s = Some f \<and> fb_valid f"
  by (simp add: console_ok_def)

lemma vga_putc_cursor: "vga_cursor_x (vga_putc_fallback c s) < 80" "vga_cursor_y (vga_putc_fallback c s) < 25"
  by (auto simp: vga_putc_fallback_def Let_def not_le)

definition vga_moves :: "'a display_state_scheme \<Rightarrow> 'a display_state_scheme \<Rightarrow> bool" where
  "vga_moves s t \<longleftrightarrow> (\<exists>b vx vy. t = s\<lparr>vga_buffer := b, vga_cursor_x := vx, vga_cursor_y := vy\<rparr>)"

lemma vga_movesI: "vga_moves s (s\<lparr>vga_buffer := b, vga_cursor_x := vx, vga_cursor_y := vy\<rparr>)"
  unfolding vga_moves_def by blast

lemma vga_moves_refl [simp]: "vga_moves s s"
  using vga_movesI [where s = s and b = "vga_buffer s" and vx = "vga_cursor_x s" and vy = "vga_cursor_y s"] by simp

lemma vga_moves_upd [simp]:
  assumes "vga_moves s t"
  shows "vga_moves s (t\<lparr>vga_buffer := b\<rparr>)" "vga_moves s (t\<lparr>vga_cursor_x := x\<rparr>)" "vga_moves s (t\<lparr>vga_cursor_y := y\<rparr>)"
proof -
  obtain b' vx vy where t: "t = s\<lparr>vga_buffer := b', vga_cursor_x := vx, vga_cursor_y := vy\<rparr>" using assms unfolding vga_moves_def by blast
  have "t\<lparr>vga_buffer := b\<rparr> = s\<lparr>vga_buffer := b, vga_cursor_x := vx, vga_cursor_y := vy\<rparr>"
    "t\<lparr>vga_cursor_x := x\<rparr> = s\<lparr>vga_buffer := b', vga_cursor_x := x, vga_cursor_y := vy\<rparr>"
    "t\<lparr>vga_cursor_y := y\<rparr> = s\<lparr>vga_buffer := b', vga_cursor_x := vx, vga_cursor_y := y\<rparr>"
    by (simp_all add: t)
  then show "vga_moves s (t\<lparr>vga_buffer := b\<rparr>)" "vga_moves s (t\<lparr>vga_cursor_x := x\<rparr>)" "vga_moves s (t\<lparr>vga_cursor_y := y\<rparr>)"
    by (simp_all only: vga_movesI)
qed

lemma vga_putc_moves: "vga_moves s (vga_putc_fallback c s)"
  by (simp add: vga_putc_fallback_def Let_def)

lemma vga_putc_inside:
  assumes "vga_cursor_x s < 80" "vga_cursor_y s < 25" "i \<ge> 2000"
  shows "vga_buffer (vga_putc_fallback c s) i = vga_buffer s i"
proof -
  have xy: "unat (vga_cursor_x s) < 80" "unat (vga_cursor_y s) < 25" using assms by (simp_all add: word_less_nat_alt)
  have left: "unat (vga_cursor_x s - 1) < 80" if "vga_cursor_x s \<noteq> 0" using that xy(1) by (simp add: unat_minus_one)
  have "i \<noteq> unat (vga_cursor_y s) * 80 + x" if "x < 80" for x using that xy assms(3) by auto
  then show ?thesis using xy(1) left by (simp add: vga_putc_fallback_def Let_def)
qed

lemma vga_safe: "console_safe (vga_putc_fallback c)"
  unfolding console_safe_def
proof (intro allI impI)
  fix s :: "'a display_state_scheme" assume ok: "console_ok s"
  obtain b vx vy where t: "vga_putc_fallback c s = s\<lparr>vga_buffer := b, vga_cursor_x := vx, vga_cursor_y := vy\<rparr>"
    using vga_putc_moves [of s c] unfolding vga_moves_def by blast
  have inside: "b i = vga_buffer s i" if "i \<ge> 2000" for i
    using vga_putc_inside [of s i c] ok that unfolding t by (simp add: console_ok_def)
  have "console_only s (vga_putc_fallback c s)"
    using t inside console_onlyI [where s = s and m = "fb_mem s" and b = b and c = "current_bg s" and x = "cursor_x s" and y = "cursor_y s"
        and vx = vx and vy = vy and st = "ansi_state s" and sq = "ansi_sequence s"] by simp
  moreover have "console_ok (vga_putc_fallback c s)"
    using ok vga_putc_cursor [of c s] unfolding t by (simp add: console_ok_def gop_columns_def gop_rows_def)
  ultimately show "console_ok (vga_putc_fallback c s) \<and> console_only s (vga_putc_fallback c s)" by simp
qed

lemma gop_draw_cell_safe:
  assumes "console_ok s" "using_gop s"
  shows "console_ok (gop_draw_cell x y cp fg bg s) \<and> console_only s (gop_draw_cell x y cp fg bg s)"
proof -
  obtain f where f: "fb s = Some f" "fb_valid f" using console_ok_fb [OF assms] by blast
  show ?thesis using draws_ok [OF gop_draw_cell_draws assms(1)] draws_console [OF gop_draw_cell_draws] f by blast
qed

text \<open>On a screen with cells the cursor is on the grid; a new line moves it down or scrolls.\<close>

definition on_grid :: "'a display_state_scheme \<Rightarrow> bool" where
  "on_grid s \<longleftrightarrow> console_ok s \<and> using_gop s \<and> gop_columns s \<noteq> 0 \<and> gop_rows s \<noteq> 0"

lemma gop_grid_upd [simp]:
  "gop_columns (s\<lparr>cursor_x := x\<rparr>) = gop_columns s" "gop_rows (s\<lparr>cursor_x := x\<rparr>) = gop_rows s"
  "gop_columns (s\<lparr>cursor_y := y\<rparr>) = gop_columns s" "gop_rows (s\<lparr>cursor_y := y\<rparr>) = gop_rows s"
  "gop_columns (s\<lparr>ansi_state := st\<rparr>) = gop_columns s" "gop_rows (s\<lparr>ansi_state := st\<rparr>) = gop_rows s"
  "gop_columns (s\<lparr>ansi_sequence := sq\<rparr>) = gop_columns s" "gop_rows (s\<lparr>ansi_sequence := sq\<rparr>) = gop_rows s"
  by (simp_all add: gop_columns_def gop_rows_def)

lemma tty_newline_grid:
  assumes "on_grid (s\<lparr>cursor_x := 0\<rparr>)"
  shows "on_grid (tty_newline s) \<and> console_only s (tty_newline s)"
proof -
  let ?u = "s\<lparr>cursor_x := 0, cursor_y := cursor_y s + 1\<rparr>"
  have s: "using_gop s" "gop_columns s \<noteq> 0" "gop_rows s \<noteq> 0" "cursor_y s < gop_rows s" "vga_cursor_x s < 80" "vga_cursor_y s < 25"
     "length (ansi_sequence s) < 16"
    using assms by (simp_all add: on_grid_def console_ok_def)
  obtain f where f: "fb s = Some f" "fb_valid f" using assms by (auto simp: on_grid_def console_ok_def)
  have pos: "0 < gop_columns s" using s(2) by (simp add: word_gt_0)
  have d: "draws f ?u (gop_scroll_rows 1 (background s) ?u)" using gop_scroll_rows_draws [OF f(2), of ?u] f(1) by simp
  have last: "gop_rows s - 1 < gop_rows s" using s(3) unat_gt_0 [of "gop_rows s"] by (simp add: word_less_nat_alt unat_minus_one)
  show ?thesis
  proof (cases "cursor_y s + 1 \<ge> gop_rows s")
    case True
    then have t: "tty_newline s = (gop_scroll_rows 1 (background s) ?u)\<lparr>cursor_y := gop_rows s - 1\<rparr>"
      using s(3) by (simp add: tty_newline_def Let_def)
    have "console_only s (tty_newline s)" unfolding t
      using console_only_trans [OF console_only_trans [OF console_only_simps(4) draws_console [OF d]] console_only_simps(3)] f(1) by simp
    moreover have "on_grid (tty_newline s)" unfolding t using s f pos last by (simp add: on_grid_def console_ok_def drawsD [OF d])
    ultimately show ?thesis by simp
  next
    case False
    then have "tty_newline s = ?u" by (simp add: tty_newline_def Let_def)
    then show ?thesis using s f pos False by (simp add: on_grid_def console_ok_def not_le)
  qed
qed

lemma gop_draw_cell_grid:
  assumes "on_grid s"
  shows "on_grid (gop_draw_cell x y cp fg bg s) \<and> console_only s (gop_draw_cell x y cp fg bg s)"
  using gop_draw_cell_safe [of s x y cp fg bg] assms by (auto simp: on_grid_def console_onlyD)

lemma on_grid_less: "on_grid s \<Longrightarrow> 0 < gop_columns s \<and> cursor_x s < gop_columns s \<and> cursor_y s < gop_rows s"
  by (simp add: on_grid_def console_ok_def word_gt_0)

lemma on_grid_cursor: "on_grid s \<Longrightarrow> x < gop_columns s \<Longrightarrow> on_grid (s\<lparr>cursor_x := x\<rparr>)"
  by (auto simp: on_grid_def console_ok_def)

lemma on_grid_any: "on_grid s \<Longrightarrow> on_grid (s\<lparr>cursor_x := x, cursor_x := 0\<rparr>)"
  using on_grid_cursor [of s 0] on_grid_less [of s] by simp

lemma draw_advance_grid:
  assumes "on_grid s"
  shows "let t = s\<lparr>cursor_x := cursor_x s + 1\<rparr>; u = (if cursor_x t \<ge> gop_columns t then tty_newline t else t)
    in on_grid u \<and> console_only s u"
proof (cases "cursor_x s + 1 \<ge> gop_columns s")
  case True
  have "on_grid (tty_newline (s\<lparr>cursor_x := cursor_x s + 1\<rparr>)) \<and> console_only (s\<lparr>cursor_x := cursor_x s + 1\<rparr>) (tty_newline (s\<lparr>cursor_x := cursor_x s + 1\<rparr>))"
    by (rule tty_newline_grid) (use on_grid_any [OF assms] in simp)
  then show ?thesis using True console_only_trans [OF console_only_simps(2)] by (auto simp: Let_def)
next
  case False
  then show ?thesis using on_grid_cursor [OF assms] by (auto simp: Let_def)
qed

lemma draw_simple_grid:
  assumes "on_grid s"
  shows "on_grid (draw_simple cp s) \<and> console_only s (draw_simple cp s)"
proof -
  have "cursor_x s - 1 < gop_columns s" if "cursor_x s \<noteq> 0"
    using that on_grid_less [OF assms] by (auto simp: word_less_nat_alt unat_minus_one)
  then have left: "on_grid (gop_draw_cell x y cp fg bg (s\<lparr>cursor_x := cursor_x s - 1\<rparr>))
      \<and> console_only s (gop_draw_cell x y cp fg bg (s\<lparr>cursor_x := cursor_x s - 1\<rparr>))" if "cursor_x s \<noteq> 0" for x y cp fg bg
    using that gop_draw_cell_grid [OF on_grid_cursor [OF assms]] console_only_trans [OF console_only_simps(2)] by blast
  let ?d = "gop_draw_cell (cursor_x s) (cursor_y s) cp (foreground s) (background s) s"
  have d: "on_grid ?d" "console_only s ?d" using gop_draw_cell_grid [OF assms] by blast+
  have adv: "let t = ?d\<lparr>cursor_x := cursor_x ?d + 1\<rparr>; u = (if cursor_x t \<ge> gop_columns t then tty_newline t else t)
      in on_grid u \<and> console_only s u"
    using draw_advance_grid [OF d(1)] console_only_trans [OF d(2)] by (auto simp: Let_def)
  have nl: "on_grid (tty_newline s) \<and> console_only s (tty_newline s)"
    by (rule tty_newline_grid) (use on_grid_cursor [OF assms] on_grid_less [OF assms] in blast)
  have "on_grid (s\<lparr>cursor_x := 0\<rparr>)" using on_grid_cursor [OF assms] on_grid_less [OF assms] by blast
  then show ?thesis using nl left adv assms by (auto simp: draw_simple_def Let_def)
qed

lemma draw_tab_grid: "on_grid s \<Longrightarrow> on_grid (draw_tab n s) \<and> console_only s (draw_tab n s)"
proof (induction n arbitrary: s)
  case (Suc n)
  then show ?case using draw_simple_grid [OF Suc.prems, of 32] console_only_trans by (auto simp: Let_def)
qed simp

lemma draw_codepoint_safe: "console_safe (draw_codepoint cp)"
  unfolding console_safe_def
proof (intro allI impI)
  fix s :: "'a display_state_scheme" assume ok: "console_ok s"
  have "on_grid s" if "using_gop s" "gop_columns s \<noteq> 0" "gop_rows s \<noteq> 0" using that ok by (simp add: on_grid_def)
  then have "console_ok (draw_simple cp s) \<and> console_only s (draw_simple cp s)" "console_ok (draw_tab n s) \<and> console_only s (draw_tab n s)"
    if "using_gop s" "gop_columns s \<noteq> 0" "gop_rows s \<noteq> 0" for n
    using that draw_simple_grid [of s cp] draw_tab_grid [of s n] by (simp_all add: on_grid_def)
  then show "console_ok (draw_codepoint cp s) \<and> console_only s (draw_codepoint cp s)"
    using ok console_safeD [OF vga_safe ok] by (simp add: draw_codepoint_def)
qed

subsection \<open>Escape sequences\<close>

lemma console_clear_safe: "console_safe console_clear"
  unfolding console_safe_def
proof (intro allI impI)
  fix s :: "'a display_state_scheme" assume ok: "console_ok s"
  let ?u = "s\<lparr>cursor_x := 0, cursor_y := 0, vga_cursor_x := 0, vga_cursor_y := 0, ansi_state := 0, ansi_sequence := []\<rparr>"
  have u: "console_only s ?u"
    using console_onlyI [where s = s and m = "fb_mem s" and b = "vga_buffer s" and c = "current_bg s" and x = 0 and y = 0
        and vx = 0 and vy = 0 and st = 0 and sq = "[]"] by simp
  have cols: "gop_columns ?u = gop_columns s" "gop_rows ?u = gop_rows s" by (simp_all add: gop_columns_def gop_rows_def)
  have u_ok: "console_ok ?u" using ok unfolding console_ok_def cols by (simp add: word_gt_0)
  show "console_ok (console_clear s) \<and> console_only s (console_clear s)"
  proof (cases "using_gop s")
    case True
    then obtain f where f: "fb s = Some f" "fb_valid f" using console_ok_fb [OF ok] by blast
    have d: "draws f ?u (gop_clear (background s) ?u)" using gop_clear_draws [OF f(2), of ?u] f(1) by simp
    have "console_clear s = gop_clear (background s) ?u" using True by (simp add: console_clear_def)
    then show ?thesis using draws_ok [OF d u_ok] console_only_trans [OF u draws_console [OF d]] f(1) by simp
  next
    case False
    then have "console_clear s = ?u" by (simp add: console_clear_def)
    then show ?thesis using u u_ok by simp
  qed
qed

lemma blank_cells_safe:
  "console_ok s \<Longrightarrow> using_gop s \<Longrightarrow> console_ok (blank_cells xs s) \<and> console_only s (blank_cells xs s)"
proof (induction xs arbitrary: s)
  case Nil
  then show ?case by (simp add: blank_cells_def)
next
  case (Cons x xs)
  let ?t = "gop_draw_cell (of_nat x) (cursor_y s) 32 (foreground s) (background s) s"
  have t: "console_ok ?t" "console_only s ?t" using gop_draw_cell_safe [OF Cons.prems] by blast+
  then have "console_ok (blank_cells xs ?t) \<and> console_only ?t (blank_cells xs ?t)" using Cons console_onlyD by blast
  then show ?case using console_only_trans [OF t(2)] by (simp add: blank_cells_def)
qed

lemma ansi_final_safe: "console_safe (ansi_final c)"
  unfolding console_safe_def
proof (intro allI impI)
  fix s :: "'a display_state_scheme" assume ok: "console_ok s"
  have home: "console_ok (s\<lparr>cursor_x := 0, cursor_y := 0\<rparr>)" using ok by (auto simp: console_ok_def word_gt_0)
  have finish: "console_ok (t\<lparr>ansi_state := 0, ansi_sequence := []\<rparr>) \<and> console_only s (t\<lparr>ansi_state := 0, ansi_sequence := []\<rparr>)"
    if "console_ok t \<and> console_only s t" for t
    using that console_only_trans [OF conjunct2 [OF that] console_only_simps(5)] by (auto simp: console_ok_def)
  show "console_ok (ansi_final c s) \<and> console_only s (ansi_final c s)"
    unfolding ansi_final_def Let_def
    by (rule finish) (use ok home console_safeD [OF console_clear_safe ok] blank_cells_safe [OF ok] in auto)
qed

lemma ansi_byte_safe: "console_safe (ansi_byte c)"
  unfolding console_safe_def
proof (intro allI impI)
  fix s :: "'a display_state_scheme" assume ok: "console_ok s"
  then have "console_ok (s\<lparr>ansi_state := st, ansi_sequence := sq\<rparr>)" if "length sq < 16" for st sq
    using that by (auto simp: console_ok_def)
  moreover have "console_ok (s\<lparr>ansi_sequence := sq\<rparr>)" if "length sq < 16" for sq
    using that ok by (auto simp: console_ok_def)
  ultimately show "console_ok (ansi_byte c s) \<and> console_only s (ansi_byte c s)"
    using console_safeD [OF ansi_final_safe ok] by (simp add: ansi_byte_def)
qed

lemma console_write_n_safe: "console_ok s \<Longrightarrow> console_ok (console_write_n bs s) \<and> console_only s (console_write_n bs s)"
proof (induction bs s rule: console_write_n.induct)
  case (2 c bs s)
  note IH = 2(1-3) and ok = 2(4)
  have esc: "console_ok (s\<lparr>ansi_state := 1\<rparr>)" using ok by (auto simp: console_ok_def)
  obtain cp n where d: "decode_utf8 (c # bs) = (cp, n)" by force
  consider "ansi_state s = 0 \<and> c = 0x1b" | "\<not> (ansi_state s = 0 \<and> c = 0x1b)" "ansi_state s \<noteq> 0" | "\<not> (ansi_state s = 0 \<and> c = 0x1b)" "ansi_state s = 0" by blast
  then show ?case
  proof cases
    case 1
    then show ?thesis using IH(1) [OF 1 esc] console_only_trans [OF console_only_simps(6)] by auto
  next
    case 2
    have byte: "console_ok (ansi_byte c s)" "console_only s (ansi_byte c s)" using console_safeD [OF ansi_byte_safe ok] by blast+
    then show ?thesis using IH(2) [OF 2 byte(1)] 2 console_only_trans [OF byte(2)] by auto
  next
    case 3
    have cell: "console_ok (draw_codepoint cp s)" "console_only s (draw_codepoint cp s)" using console_safeD [OF draw_codepoint_safe ok] by blast+
    then show ?thesis using IH(3) [OF 3(1) _ d [symmetric] refl cell(1)] 3 d console_only_trans [OF cell(2)] by auto
  qed
qed simp

subsection \<open>The screen after the boot\<close>

lemma console_init_ok:
  assumes "\<And>f. boot = Some f \<Longrightarrow> unat (fb_width f) * (unat (fb_bpp f) div 8) \<le> unat (fb_pitch f) \<and> unat (fb_pitch f) * unat (fb_height f) < 2 ^ 64"
    and "length (ansi_sequence s) < 16"
  shows "console_ok (console_init boot s)"
proof -
  obtain ok u where u: "gop_init boot s = (ok, u)" by force
  let ?v = "u\<lparr>using_gop := ok, cursor_x := 0, cursor_y := 0, vga_cursor_x := 0, vga_cursor_y := 0\<rparr>"
  have fb: "fb u = boot" "ansi_sequence u = ansi_sequence s"
    using u by (auto simp: gop_init_def Let_def split: option.splits if_splits)
  have valid: "\<exists>f. boot = Some f \<and> fb_valid f" if ok
    using u that assms(1) by (auto simp: gop_init_def fb_valid_def Let_def split: option.splits if_splits)
  have v: "console_ok ?v" using fb valid assms(2) by (simp add: console_ok_def word_gt_0)
  show ?thesis
  proof (cases ok)
    case True
    then obtain f where f: "boot = Some f" "fb_valid f" using valid by blast
    have "draws f ?v (gop_clear (background u) ?v)" by (rule gop_clear_draws [OF f(2)]) (simp add: fb f(1))
    then have "console_ok (gop_clear (background u) ?v)" using draws_ok v by blast
    then show ?thesis using u True by (simp add: console_init_def)
  next
    case False
    then show ?thesis using u v by (simp add: console_init_def)
  qed
qed

text \<open>C30. Whatever bytes are written to the console after it has been set up, the cursor stays on the grid of cells, the
  escape buffer within its bounds, no byte of the framebuffer memory behind \<^verbatim>\<open>pitch * height\<close> and no cell of the text
  buffer behind 80 * 25 changes, and nothing but the fields of the console changes.\<close>

theorem console_stays_inside:
  assumes "\<And>f. boot = Some f \<Longrightarrow> unat (fb_width f) * (unat (fb_bpp f) div 8) \<le> unat (fb_pitch f) \<and> unat (fb_pitch f) * unat (fb_height f) < 2 ^ 64"
    and "length (ansi_sequence s) < 16"
  shows "console_ok (console_write_n bs (console_init boot s)) \<and> console_only (console_init boot s) (console_write_n bs (console_init boot s))"
  by (rule console_write_n_safe [OF console_init_ok [OF assms]])

definition small_screen :: framebuffer where
  "small_screen = \<lparr>fb_address = 0xfd000000, fb_width = 40, fb_height = 64, fb_pitch = 160, fb_bpp = 32, fb_memory_model = 1,
     fb_red_mask_size = 8, fb_red_mask_shift = 16, fb_green_mask_size = 8, fb_green_mask_shift = 8, fb_blue_mask_size = 8, fb_blue_mask_shift = 0\<rparr>"

lemma console_init_screen:
  "using_gop (console_init (Some small_screen) s)" "fb (console_init (Some small_screen) s) = Some small_screen"
proof -
  have valid: "fb_valid small_screen" by (simp add: fb_valid_def small_screen_def)
  obtain u where u: "gop_init (Some small_screen) s = (True, u)" "fb u = Some small_screen"
    by (simp add: gop_init_def small_screen_def)
  let ?v = "u\<lparr>using_gop := True, cursor_x := 0, cursor_y := 0, vga_cursor_x := 0, vga_cursor_y := 0\<rparr>"
  have "draws small_screen ?v (gop_clear (background u) ?v)" using gop_clear_draws [OF valid, of ?v] u(2) by simp
  from drawsD(1,6) [OF this] show "using_gop (console_init (Some small_screen) s)" "fb (console_init (Some small_screen) s) = Some small_screen"
    using u by (simp_all add: console_init_def)
qed

theorem console_stays_inside_witness:
  "cursor_y (console_write_n [0x0a, 0x0a, 0x0a] (console_init (Some small_screen) blank_state)) < 2"
proof -
  let ?s = "console_init (Some small_screen) blank_state"
  let ?t = "console_write_n [0x0a, 0x0a, 0x0a] ?s"
  have "console_ok ?t \<and> console_only ?s ?t"
    by (rule console_stays_inside) (simp_all add: small_screen_def blank_state_def)
  then have t: "console_ok ?t" "console_only ?s ?t" by blast+
  have "using_gop ?t" "fb ?t = Some small_screen"
    using console_onlyD(1,2) [OF t(2)] console_init_screen [of blank_state] by simp_all
  moreover from this(2) have "gop_rows ?t = 2" "gop_columns ?t = 2" by (simp_all only: gop_rows_def gop_columns_def) (simp_all add: small_screen_def)
  ultimately show ?thesis using t(1) unfolding console_ok_def by simp
qed

end
