(* ===== verification/Arch.thy ===== *)
theory Arch
  imports Usb
begin

text \<open>
  The processor set-up and the exceptions: \<^verbatim>\<open>src/arch/gdt.c\<close>, \<^verbatim>\<open>src/arch/idt.c\<close>, \<^verbatim>\<open>arch_init\<close> of \<^verbatim>\<open>src/arch/irq.c\<close>,
  \<^verbatim>\<open>syscall_cpu_init\<close> of \<^verbatim>\<open>src/syscall/syscall.c\<close>, and the messages that they write: \<^verbatim>\<open>src/log.c\<close>, \<^verbatim>\<open>src/panic.c\<close>,
  \<^verbatim>\<open>src/drivers/vga.c\<close>.  The addresses of the static objects and of the entry stubs, which the linker chooses, are
  an argument \<open>img\<close>.  The two segment base registers of the running thread are those of the processor record
  of the process model; all other model-specific registers are in \<open>msrs\<close>.
\<close>

unbundle bit_operations_syntax

subsection \<open>State\<close>

datatype stub = Stub_default | Stub_divide_error | Stub_debug | Stub_nmi | Stub_breakpoint | Stub_overflow | Stub_bound_range
  | Stub_invalid_opcode | Stub_device_not_available | Stub_double_fault | Stub_coprocessor_overrun | Stub_invalid_tss
  | Stub_segment_not_present | Stub_stack_segment | Stub_general_protection | Stub_page_fault | Stub_x87
  | Stub_alignment_check | Stub_machine_check | Stub_simd | Stub_virtualization | Stub_control_protection
  | Stub_irq1 | Stub_irq12 | Stub_irq9 | Stub_irq_timer

record kernel_image =
  at_gdts :: u64
  at_tsses :: u64
  at_cpu_locals :: u64
  at_boot_stacks :: u64
  at_ist_stacks :: u64
  at_idt :: u64
  at_syscall_entry :: u64
  at_stub :: "stub \<Rightarrow> u64"

record idt_gate =
  offset_low :: u16
  selector :: u16
  ist :: u8
  type_attributes :: u8
  offset_mid :: u16
  offset_high :: u32
  gate_reserved :: u32

definition zero_gate :: idt_gate where
  "zero_gate = \<lparr>offset_low = 0, selector = 0, ist = 0, type_attributes = 0, offset_mid = 0, offset_high = 0, gate_reserved = 0\<rparr>"

record tss64 =
  rsp0 :: u64
  rsp1 :: u64
  rsp2 :: u64
  ists :: "u64 list"
  iomap_base :: u16

definition zero_tss :: tss64 where
  "zero_tss = \<lparr>rsp0 = 0, rsp1 = 0, rsp2 = 0, ists = replicate 7 0, iomap_base = 0\<rparr>"

abbreviation (input) SIZEOF_TSS64 :: nat where "SIZEOF_TSS64 \<equiv> 102"
abbreviation (input) NPK_ARCH_MAX_CPUS :: nat where "NPK_ARCH_MAX_CPUS \<equiv> 16"

record npk_cpu_local =
  local_kernel_stack_top :: u64
  local_user_rsp :: u64

record cpu_regs =
  msrs :: "u32 \<Rightarrow> u64"
  gdtr :: "u16 \<times> u64"
  idtr :: "u16 \<times> u64"
  tr :: u16
  cr2 :: u64

record arch_state = usb_state +
  regs :: cpu_regs
  gdts :: "nat \<Rightarrow> u64 list"
  tsses :: "nat \<Rightarrow> tss64"
  cpu_locals :: "nat \<Rightarrow> npk_cpu_local"
  idt :: "nat \<Rightarrow> idt_gate"
  console_output_enabled :: bool
  vga_row :: u8
  vga_column :: u8
  vga_color :: u8

subsection \<open>The text screen of \<^verbatim>\<open>vga.c\<close>\<close>

abbreviation (input) VGA_WIDTH :: nat where "VGA_WIDTH \<equiv> 80"
abbreviation (input) VGA_HEIGHT :: nat where "VGA_HEIGHT \<equiv> 25"

definition vga_cell :: "u8 \<Rightarrow> u8 \<Rightarrow> u16" where
  "vga_cell color c = push_bit 8 (ucast color) OR ucast c"

definition vga_fill :: "'a arch_state_scheme \<Rightarrow> 'a arch_state_scheme" where
  "vga_fill s = s\<lparr>vga_buffer := \<lambda>i. if i < VGA_WIDTH * VGA_HEIGHT then vga_cell (vga_color s) 0x20 else vga_buffer s i\<rparr>"

definition vga_init :: "'a arch_state_scheme \<Rightarrow> 'a arch_state_scheme" where
  "vga_init s = vga_fill (s\<lparr>vga_row := 0, vga_column := 0\<rparr>)"

definition vga_set_color :: "u8 \<Rightarrow> u8 \<Rightarrow> 'a arch_state_scheme \<Rightarrow> 'a arch_state_scheme" where
  "vga_set_color foreground_color background_color s = s\<lparr>vga_color := push_bit 4 background_color OR (foreground_color AND 0x0f)\<rparr>"

definition vga_clear :: "'a arch_state_scheme \<Rightarrow> 'a arch_state_scheme" where
  "vga_clear s = (vga_fill s)\<lparr>vga_row := 0, vga_column := 0\<rparr>"

definition vga_newline :: "'a arch_state_scheme \<Rightarrow> 'a arch_state_scheme" where
  "vga_newline s = s\<lparr>vga_column := 0, vga_row := (if vga_row s + 1 = of_nat VGA_HEIGHT then 0 else vga_row s + 1)\<rparr>"

definition vga_char :: "u8 \<Rightarrow> 'a arch_state_scheme \<Rightarrow> 'a arch_state_scheme" where
  "vga_char c s =
     (if c = 0x0a then vga_newline s
      else let s = s\<lparr>vga_buffer := (vga_buffer s)(unat (vga_row s) * VGA_WIDTH + unat (vga_column s) := vga_cell (vga_color s) c)\<rparr>
        in if vga_column s + 1 = of_nat VGA_WIDTH then vga_newline s else s\<lparr>vga_column := vga_column s + 1\<rparr>)"

definition vga_write :: "u8 list \<Rightarrow> 'a arch_state_scheme \<Rightarrow> 'a arch_state_scheme" where
  "vga_write txt s = fold vga_char txt s"

subsection \<open>Messages\<close>

datatype log_level = LOG_TRACE | LOG_INFO | LOG_WARN | LOG_ERROR | LOG_FATAL

definition level_name :: "log_level \<Rightarrow> string" where
  "level_name level = (case level of LOG_TRACE \<Rightarrow> ''TRACE'' | LOG_INFO \<Rightarrow> ''INFO'' | LOG_WARN \<Rightarrow> ''WARN'' | LOG_ERROR \<Rightarrow> ''ERROR''
     | LOG_FATAL \<Rightarrow> ''FATAL'')"

definition serial_init :: "'a io_state_scheme \<Rightarrow> 'a io_state_scheme" where
  "serial_init s =
     fold (\<lambda>(port, v). outb port v)
       [(0x3f9, 0x00), (0x3fb, 0x80), (0x3f8, 0x03), (0x3f9, 0x00), (0x3fb, 0x03), (0x3fa, 0xc7), (0x3fc, 0x0b)] s"

fun serial_spin :: "nat \<Rightarrow> u8 \<Rightarrow> 'a io_state_scheme \<Rightarrow> 'a io_state_scheme" where
  "serial_spin 0 c s = s"
| "serial_spin (Suc n) c s = (let (v, s) = inb 0x3fd s in if v AND 0x20 \<noteq> 0 then outb 0x3f8 c s else serial_spin n c s)"

definition serial_putc :: "u8 \<Rightarrow> 'a io_state_scheme \<Rightarrow> 'a io_state_scheme" where
  "serial_putc c s = serial_spin 100000 c s"

definition serial_write :: "string \<Rightarrow> 'a io_state_scheme \<Rightarrow> 'a io_state_scheme" where
  "serial_write txt s = fold serial_putc (bytes_of txt) s"

definition log_init :: "'a io_state_scheme \<Rightarrow> 'a io_state_scheme" where
  "log_init s = serial_init s"

definition log_set_console_output_enabled :: "bool \<Rightarrow> 'a arch_state_scheme \<Rightarrow> 'a arch_state_scheme" where
  "log_set_console_output_enabled enable s = s\<lparr>console_output_enabled := enable\<rparr>"

definition log_message :: "log_level \<Rightarrow> string \<Rightarrow> string \<Rightarrow> 'a arch_state_scheme \<Rightarrow> 'a arch_state_scheme" where
  "log_message level component message s =
     (let parts = [''['', level_name level, ''] '', component, '': '', message];
          s = (if console_output_enabled s then console_putc 0x0a (fold console_write parts s) else s)
      in serial_putc 0x0a (fold serial_write parts s))"

definition log_hex_digit :: "u64 \<Rightarrow> nat \<Rightarrow> u8" where
  "log_hex_digit v i = bytes_of ''0123456789abcdef'' ! unat (drop_bit (i * 4) v AND 0xf)"

definition logf :: "log_level \<Rightarrow> string \<Rightarrow> string \<Rightarrow> u64 \<Rightarrow> 'a arch_state_scheme \<Rightarrow> 'a arch_state_scheme" where
  "logf level component message v s =
     (let s = log_message level component message s;
          s = (if console_output_enabled s
               then console_putc 0x0a (console_write_hex v (console_write ''       value='' s)) else s);
          s = serial_write ''0x'' (serial_write ''       value='' s)
      in serial_putc 0x0a (fold (\<lambda>i. serial_putc (log_hex_digit v i)) (rev [0..<16]) s))"

text \<open>\<^verbatim>\<open>panic\<close> writes its message and halts the processor for good.\<close>

definition panic_banner :: "string \<Rightarrow> 'a arch_state_scheme \<Rightarrow> 'a arch_state_scheme" where
  "panic_banner reason s =
     console_write reason (console_write (''\<newline>\<newline>!!! NPKERNEL PANIC !!!\<newline>'') (console_set_color 0xffffff 0x7f0000 s))"

definition panic :: "string \<Rightarrow> 'a arch_state_scheme \<Rightarrow> 'r outcome \<times> 'a arch_state_scheme" where
  "panic reason s = (Halts, log_message LOG_FATAL ''panic'' reason (console_putc 0x0a (panic_banner reason s)))"

definition panic_with_code :: "string \<Rightarrow> u64 \<Rightarrow> 'a arch_state_scheme \<Rightarrow> 'r outcome \<times> 'a arch_state_scheme" where
  "panic_with_code reason code s =
     (Halts, logf LOG_FATAL ''panic'' reason code
       (console_putc 0x0a (console_write_hex code (console_write '' code='' (panic_banner reason s)))))"

subsection \<open>Descriptor tables and the processor-local area\<close>

abbreviation (input) NPK_IA32_FS_BASE :: u32 where "NPK_IA32_FS_BASE \<equiv> 0xc0000100"
abbreviation (input) NPK_IA32_GS_BASE :: u32 where "NPK_IA32_GS_BASE \<equiv> 0xc0000101"
abbreviation (input) NPK_IA32_KERNEL_GS_BASE :: u32 where "NPK_IA32_KERNEL_GS_BASE \<equiv> 0xc0000102"

definition rdmsr :: "u32 \<Rightarrow> 'a arch_state_scheme \<Rightarrow> u64" where
  "rdmsr msr s =
     (if msr = NPK_IA32_FS_BASE then cpu_fs_base (cpu s)
      else if msr = NPK_IA32_KERNEL_GS_BASE then cpu_user_gs_base (cpu s) else msrs (regs s) msr)"

definition wrmsr :: "u32 \<Rightarrow> u64 \<Rightarrow> 'a arch_state_scheme \<Rightarrow> 'a arch_state_scheme" where
  "wrmsr msr v s =
     (if msr = NPK_IA32_FS_BASE then s\<lparr>cpu := (cpu s)\<lparr>cpu_fs_base := v\<rparr>\<rparr>
      else if msr = NPK_IA32_KERNEL_GS_BASE then s\<lparr>cpu := (cpu s)\<lparr>cpu_user_gs_base := v\<rparr>\<rparr>
      else s\<lparr>regs := (regs s)\<lparr>msrs := (msrs (regs s))(msr := v)\<rparr>\<rparr>)"

definition bounded_cpu_index :: "u32 \<Rightarrow> nat" where
  "bounded_cpu_index cpu_index = (if unat cpu_index < NPK_ARCH_MAX_CPUS then unat cpu_index else 0)"

definition gdt_address :: "kernel_image \<Rightarrow> nat \<Rightarrow> u64" where
  "gdt_address img i = at_gdts img + of_nat (56 * i)"

definition tss_address :: "kernel_image \<Rightarrow> nat \<Rightarrow> u64" where
  "tss_address img i = at_tsses img + of_nat (SIZEOF_TSS64 * i)"

definition cpu_local_address :: "kernel_image \<Rightarrow> nat \<Rightarrow> u64" where
  "cpu_local_address img i = at_cpu_locals img + of_nat (16 * i)"

definition set_tss_descriptor :: "u64 list \<Rightarrow> u64 \<Rightarrow> u32 \<Rightarrow> u64 list" where
  "set_tss_descriptor gdt base limit =
     (let low = ucast (limit AND 0xffff) OR push_bit 16 (base AND 0xffffff) OR push_bit 40 0x89
                OR push_bit 48 (ucast (drop_bit 16 limit AND 0x0f)) OR push_bit 56 (drop_bit 24 base AND 0xff)
      in gdt[5 := low, 6 := drop_bit 32 base])"

text \<open>Loading the task register makes the processor set the busy bit of the descriptor.\<close>

definition load_cpu_gdt :: "kernel_image \<Rightarrow> nat \<Rightarrow> 'a arch_state_scheme \<Rightarrow> 'a arch_state_scheme" where
  "load_cpu_gdt img i s =
     s\<lparr>regs := (regs s)\<lparr>gdtr := (55, gdt_address img i), tr := 0x28\<rparr>,
       gdts := (gdts s)(i := (gdts s i)[5 := gdts s i ! 5 OR push_bit 41 1])\<rparr>"

definition arch_set_fs_base :: "u64 \<Rightarrow> 'a arch_state_scheme \<Rightarrow> 'a arch_state_scheme" where
  "arch_set_fs_base base s = wrmsr NPK_IA32_FS_BASE base s"

definition arch_get_fs_base :: "'a arch_state_scheme \<Rightarrow> u64" where
  "arch_get_fs_base s = rdmsr NPK_IA32_FS_BASE s"

definition arch_set_user_gs_base :: "u64 \<Rightarrow> 'a arch_state_scheme \<Rightarrow> 'a arch_state_scheme" where
  "arch_set_user_gs_base base s = wrmsr NPK_IA32_KERNEL_GS_BASE base s"

definition arch_get_user_gs_base :: "'a arch_state_scheme \<Rightarrow> u64" where
  "arch_get_user_gs_base s = rdmsr NPK_IA32_KERNEL_GS_BASE s"

definition cpu_tss :: "kernel_image \<Rightarrow> nat \<Rightarrow> tss64" where
  "cpu_tss img i =
     zero_tss\<lparr>rsp0 := (at_boot_stacks img + of_nat (16384 * i) + 16384) AND NOT 0xf,
       ists := (replicate 7 0)[0 := (at_ist_stacks img + of_nat (32768 * i) + 32768) AND NOT 0xf], iomap_base := of_nat SIZEOF_TSS64\<rparr>"

definition cpu_gdt :: "kernel_image \<Rightarrow> nat \<Rightarrow> u64 list" where
  "cpu_gdt img i =
     set_tss_descriptor [0, 0x00af9a000000ffff, 0x00cf92000000ffff, 0x00cff2000000ffff, 0x00affa000000ffff, 0, 0]
       (tss_address img i) (of_nat SIZEOF_TSS64 - 1)"

definition gdt_init_cpu :: "kernel_image \<Rightarrow> u32 \<Rightarrow> 'a arch_state_scheme \<Rightarrow> 'a arch_state_scheme" where
  "gdt_init_cpu img cpu_index s =
     (let i = bounded_cpu_index cpu_index; tss = cpu_tss img i;
          s = s\<lparr>gdts := (gdts s)(i := cpu_gdt img i), tsses := (tsses s)(i := tss),
                cpu_locals := (cpu_locals s)(i := \<lparr>local_kernel_stack_top = rsp0 tss, local_user_rsp = 0\<rparr>)\<rparr>;
          s = load_cpu_gdt img i s;
          s = wrmsr NPK_IA32_GS_BASE (cpu_local_address img i) s;
          s = wrmsr NPK_IA32_KERNEL_GS_BASE 0 s
      in arch_set_fs_base 0 s)"

definition arch_cpu_index :: "kernel_image \<Rightarrow> 'a arch_state_scheme \<Rightarrow> nat" where
  "arch_cpu_index img s =
     (case find (\<lambda>i. rdmsr NPK_IA32_GS_BASE s = cpu_local_address img i) [0..<NPK_ARCH_MAX_CPUS] of None \<Rightarrow> 0 | Some i \<Rightarrow> i)"

definition tss_set_rsp0 :: "kernel_image \<Rightarrow> u64 \<Rightarrow> 'a arch_state_scheme \<Rightarrow> 'a arch_state_scheme" where
  "tss_set_rsp0 img stack_top s =
     (let i = arch_cpu_index img s; top = stack_top AND NOT 0xf
      in s\<lparr>tsses := (tsses s)(i := (tsses s i)\<lparr>rsp0 := top\<rparr>),
           cpu_locals := (cpu_locals s)(i := (cpu_locals s i)\<lparr>local_kernel_stack_top := top\<rparr>)\<rparr>)"

definition gdt_init :: "kernel_image \<Rightarrow> 'a arch_state_scheme \<Rightarrow> 'a arch_state_scheme" where
  "gdt_init img s = logf LOG_INFO ''gdt'' ''CPU-local descriptors including TSS'' 1 (gdt_init_cpu img 0 s)"

subsection \<open>Interrupt gates\<close>

definition gate :: "u64 \<Rightarrow> u8 \<Rightarrow> idt_gate" where
  "gate address attributes =
     \<lparr>offset_low = ucast (address AND 0xffff), selector = 0x08, ist = 0, type_attributes = attributes,
      offset_mid = ucast (drop_bit 16 address AND 0xffff), offset_high = ucast (drop_bit 32 address), gate_reserved = 0\<rparr>"

definition set_gate :: "kernel_image \<Rightarrow> nat \<Rightarrow> stub \<Rightarrow> u8 \<Rightarrow> 'a arch_state_scheme \<Rightarrow> 'a arch_state_scheme" where
  "set_gate img vector handler attributes s = s\<lparr>idt := (idt s)(vector := gate (at_stub img handler) attributes)\<rparr>"

definition idt_load_current :: "kernel_image \<Rightarrow> 'a arch_state_scheme \<Rightarrow> 'a arch_state_scheme" where
  "idt_load_current img s = s\<lparr>regs := (regs s)\<lparr>idtr := (256 * 16 - 1, at_idt img)\<rparr>\<rparr>"

definition installed_gates :: "(nat \<times> stub) list" where
  "installed_gates =
     [(0, Stub_divide_error), (1, Stub_debug), (2, Stub_nmi), (3, Stub_breakpoint), (4, Stub_overflow), (5, Stub_bound_range),
      (6, Stub_invalid_opcode), (7, Stub_device_not_available), (8, Stub_double_fault), (9, Stub_coprocessor_overrun),
      (10, Stub_invalid_tss), (11, Stub_segment_not_present), (12, Stub_stack_segment), (13, Stub_general_protection),
      (14, Stub_page_fault), (16, Stub_x87), (17, Stub_alignment_check), (18, Stub_machine_check), (19, Stub_simd),
      (20, Stub_virtualization), (21, Stub_control_protection), (32, Stub_irq_timer), (33, Stub_irq1), (44, Stub_irq12),
      (41, Stub_irq9), (14, Stub_page_fault)]"

definition use_ist :: "nat \<Rightarrow> 'a arch_state_scheme \<Rightarrow> 'a arch_state_scheme" where
  "use_ist vector s = s\<lparr>idt := (idt s)(vector := (idt s vector)\<lparr>ist := 1\<rparr>)\<rparr>"

definition idt_init :: "kernel_image \<Rightarrow> 'a arch_state_scheme \<Rightarrow> 'a arch_state_scheme" where
  "idt_init img s =
     (let s = fold (\<lambda>i. set_gate img i Stub_default 0x8e) [0..<256] s;
          s = fold (\<lambda>(vector, handler). set_gate img vector handler 0x8e) installed_gates s;
          s = fold use_ist [2, 8, 13, 14] s
      in logf LOG_INFO ''idt'' ''gates installed'' 256 (idt_load_current img s))"

subsection \<open>Exceptions\<close>

text \<open>The wrapper frame is the list of quadwords the entry stub pushed: fifteen registers, the error code if the
  exception has one, and the five words of the processor.  The outcome is the frame the stub returns through.\<close>

definition terminate_user_exception :: "u64 \<Rightarrow> 'a arch_state_scheme \<Rightarrow> 'r outcome \<times> 'a arch_state_scheme" where
  "terminate_user_exception signal s =
     (let status = 128 + signal; s = process_exit_current (ucast (if status > 255 then 255 else status)) s
      in case scheduler_yield (logf LOG_ERROR ''exception'' ''user process terminated by signal'' signal s) of
           (Switches t, s) \<Rightarrow> (Switches t, s)
         | (_, s) \<Rightarrow> (Halts, s))"

definition exception_signal :: "u64 \<Rightarrow> u64" where
  "exception_signal vector =
     (if vector = 1 then 5
      else if vector = 4 \<or> vector = 5 \<or> vector = 7 \<or> vector = 16 \<or> vector = 19 then 8
      else if vector = 6 \<or> vector = 20 then 4
      else if vector = 8 \<or> vector = 11 \<or> vector = 12 \<or> vector = 13 \<or> vector = 14 \<or> vector = 21 then 11
      else 7)"

definition frame_word :: "u64 list option \<Rightarrow> nat \<Rightarrow> nat \<Rightarrow> u64" where
  "frame_word wrapper has_error index = (case wrapper of None \<Rightarrow> 0 | Some w \<Rightarrow> w ! (15 + has_error + index))"

definition error_word :: "u64 list option \<Rightarrow> u64" where
  "error_word wrapper = (case wrapper of None \<Rightarrow> 0 | Some w \<Rightarrow> w ! 15)"

definition signal_or_terminate :: "u64 list option \<Rightarrow> u64 \<Rightarrow> 'a arch_state_scheme \<Rightarrow> u64 list outcome \<times> 'a arch_state_scheme" where
  "signal_or_terminate wrapper signal s =
     (case (case wrapper of None \<Rightarrow> (None, s) | Some w \<Rightarrow> process_deliver_signal w signal s) of
        (Some w, s) \<Rightarrow> (Returns w, s)
      | (None, s) \<Rightarrow> terminate_user_exception signal s)"

definition page_fault_handled :: "u64 \<Rightarrow> u64 \<Rightarrow> 'a arch_state_scheme \<Rightarrow> bool \<times> 'a arch_state_scheme" where
  "page_fault_handled error user_rsp s =
     (case process_current s of
        None \<Rightarrow> (False, s)
      | Some i \<Rightarrow> on_process i (\<lambda>p. vm_handle_page_fault p (cr2 (regs s)) error user_rsp) s)"

definition page_fault_dispatch :: "u64 list option \<Rightarrow> 'a arch_state_scheme \<Rightarrow> u64 list outcome \<times> 'a arch_state_scheme" where
  "page_fault_dispatch wrapper s =
     (let error = error_word wrapper; rip = frame_word wrapper 1 0; cs = frame_word wrapper 1 1; fault_address = cr2 (regs s);
          (handled, s) = (if cs AND 3 = 3 then page_fault_handled error (frame_word wrapper 1 3) s else (False, s))
      in if handled then (Returns (the wrapper), s)
         else let s = logf LOG_ERROR ''page_fault'' ''fault address'' fault_address s;
                  s = logf LOG_ERROR ''page_fault'' ''instruction pointer'' rip s;
                  s = logf LOG_ERROR ''page_fault'' ''error code'' error s;
                  s = logf LOG_ERROR ''page_fault'' ''code segment'' cs s
           in if cs AND 3 = 3 then signal_or_terminate wrapper 11 s else panic ''fatal page fault'' s)"

definition general_protection_dispatch :: "u64 list option \<Rightarrow> 'a arch_state_scheme \<Rightarrow> u64 list outcome \<times> 'a arch_state_scheme" where
  "general_protection_dispatch wrapper s =
     (let cs = frame_word wrapper 1 1;
          s = logf LOG_ERROR ''#gp'' ''error code'' (error_word wrapper) s;
          s = logf LOG_ERROR ''#gp'' ''fault RIP'' (frame_word wrapper 1 0) s;
          s = logf LOG_ERROR ''#gp'' ''fault CS'' cs s;
          s = logf LOG_ERROR ''#gp'' ''fault RFLAGS'' (frame_word wrapper 1 2) s;
          s = logf LOG_ERROR ''#gp'' ''fault RSP'' (frame_word wrapper 1 3) s;
          s = logf LOG_ERROR ''#gp'' ''fault SS'' (frame_word wrapper 1 4) s
      in if cs AND 3 = 3 then signal_or_terminate wrapper 11 s
         else panic_with_code ''general protection fault'' (error_word wrapper) s)"

definition exception_dispatch ::
  "u64 list option \<Rightarrow> u64 \<Rightarrow> bool \<Rightarrow> 'a arch_state_scheme \<Rightarrow> u64 list outcome \<times> 'a arch_state_scheme" where
  "exception_dispatch wrapper vector has_error s =
     (let cs = frame_word wrapper (of_bool has_error) 1;
          s = logf LOG_ERROR ''exception'' ''vector'' vector s;
          s = logf LOG_ERROR ''exception'' ''instruction pointer'' (frame_word wrapper (of_bool has_error) 0) s;
          s = logf LOG_ERROR ''exception'' ''code segment'' cs s;
          s = logf LOG_ERROR ''exception'' ''error code'' (if has_error then error_word wrapper else 0) s
      in if cs AND 3 = 3 then signal_or_terminate wrapper (exception_signal vector) s
         else panic_with_code ''CPU exception'' vector s)"

subsection \<open>Bringing up a processor\<close>

definition syscall_cpu_init :: "kernel_image \<Rightarrow> 'a arch_state_scheme \<Rightarrow> 'a arch_state_scheme" where
  "syscall_cpu_init img s =
     (let s = wrmsr 0xc0000080 (rdmsr 0xc0000080 s OR 1) s;
          s = wrmsr 0xc0000081 (push_bit 48 0x000b OR push_bit 32 0x0008) s;
          s = wrmsr 0xc0000082 (at_syscall_entry img) s
      in wrmsr 0xc0000084 (push_bit 9 1 OR push_bit 10 1 OR push_bit 8 1) s)"

definition arch_init_cpu :: "kernel_image \<Rightarrow> u32 \<Rightarrow> 'a arch_state_scheme \<Rightarrow> 'a arch_state_scheme" where
  "arch_init_cpu img cpu_index s = syscall_cpu_init img (idt_load_current img (gdt_init_cpu img cpu_index s))"

definition arch_init :: "boot_info \<Rightarrow> kernel_image \<Rightarrow> 'a arch_state_scheme \<Rightarrow> 'a arch_state_scheme" where
  "arch_init b img s =
     (let s = irq_init (idt_init img (gdt_init img s));
          s = syscall_cpu_init img (timer_init 100 s);
          s = pci_init npk_probe (acpi_init b s)
      in if acpi_sci_irq s = 9 then logf LOG_INFO ''irq'' ''ACPI SCI vector'' 41 (irq_unmask_line 9 s)
         else if acpi_sci_irq s \<noteq> 0xff then logf LOG_INFO ''irq'' ''ACPI SCI not routed by legacy PIC'' (ucast (acpi_sci_irq s)) s
         else s)"

end
