(* ===== verification/Boot.thy ===== *)
theory Boot
  imports Arch "HOL-Library.Monad_Syntax"
begin

text \<open>
  Starting the kernel: the answers of the boot loader (\<^verbatim>\<open>boot/limine_requests.c\<close>), the other processors
  (\<^verbatim>\<open>src/smp.c\<close>) and \<^verbatim>\<open>src/kernel.c\<close>, which initialises all components in order, runs the self test and launches
  the first program.  The boot loader is not part of the repository: its answers are arguments.  The other
  processors run concurrently: each moves in atomic steps, and what they do while the boot processor waits is a
  sequence of such steps.
\<close>

subsection \<open>The answers of the boot loader\<close>

record mp_info =
  mi_processor_id :: u32
  mi_lapic_id :: u32
  mi_goto :: bool
  mi_extra :: "nat option"

record mp_response =
  mp_bsp_lapic_id :: u32
  mp_cpus :: "mp_info option list option"

record limine_responses =
  resp_framebuffers :: "framebuffer list option"
  resp_memmap :: "limine_memmap_entry list option"
  resp_hhdm :: "u64 option"
  resp_cmdline :: "string option"
  resp_modules :: "u8 list list option"
  resp_mp :: "mp_response option"
  resp_rsdp :: "u64 option"

record boot_info_t = boot_info +
  bi_framebuffer :: "framebuffer option"
  bi_memmap :: "limine_memmap_entry list option"
  bi_cmdline :: "string option"
  bi_modules :: "u8 list list option"
  bi_mp :: "mp_response option"

text \<open>The file is compiled with interface revision 0, where the address of the RSDP is virtual.  \<open>mem\<close> is the
  memory the firmware tables lie in.\<close>

definition boot_collect_info :: "(u64 \<Rightarrow> u8) \<Rightarrow> limine_responses \<Rightarrow> boot_info_t" where
  "boot_collect_info mem r =
     \<lparr>bi_hhdm = resp_hhdm r, bi_rsdp = (case resp_rsdp r of None \<Rightarrow> 0 | Some a \<Rightarrow> a), bi_rsdp_is_virtual = (resp_rsdp r \<noteq> None),
      bi_mem = mem, bi_framebuffer = (case resp_framebuffers r of Some (f # _) \<Rightarrow> Some f | _ \<Rightarrow> None), bi_memmap = resp_memmap r,
      bi_cmdline = resp_cmdline r, bi_modules = resp_modules r, bi_mp = resp_mp r\<rparr>"

subsection \<open>The other processors\<close>

abbreviation (input) NPK_MAX_SMP_CPUS :: nat where "NPK_MAX_SMP_CPUS \<equiv> 16"
abbreviation (input) SMP_STATE_MAGIC :: u32 where "SMP_STATE_MAGIC \<equiv> 0x534d5043"

record smp_cpu_state =
  sc_magic :: u32
  sc_cpu_index :: u32
  sc_processor_id :: u32
  sc_lapic_id :: u32
  sc_online :: u32
  sc_arch_ready :: u32

definition zero_smp_cpu :: smp_cpu_state where
  "zero_smp_cpu = \<lparr>sc_magic = 0, sc_cpu_index = 0, sc_processor_id = 0, sc_lapic_id = 0, sc_online = 0, sc_arch_ready = 0\<rparr>"

datatype ap_phase = Ap_parked | Ap_initialised | Ap_ready | Ap_online | Ap_counted | Ap_refused

text \<open>\<open>mp_infos\<close> are the structures of the boot loader, one per processor; \<open>ap_cpu\<close> and \<open>ap_phase\<close> are the
  registers of that processor and how far it has come in \<^verbatim>\<open>smp_ap_entry\<close>.\<close>

record smp_state = arch_state +
  cpu_states :: "nat \<Rightarrow> smp_cpu_state"
  discovered_cpus :: u32
  online_cpus :: u32
  smp_is_enabled :: bool
  mp_infos :: "nat \<Rightarrow> mp_info option"
  ap_cpu :: "nat \<Rightarrow> cpu_regs \<times> cpu_state"
  ap_phases :: "nat \<Rightarrow> ap_phase"

definition upd_cpu_state :: "nat \<Rightarrow> (smp_cpu_state \<Rightarrow> smp_cpu_state) \<Rightarrow> 'a smp_state_scheme \<Rightarrow> 'a smp_state_scheme" where
  "upd_cpu_state i f s = s\<lparr>cpu_states := (cpu_states s)(i := f (cpu_states s i))\<rparr>"

definition set_phase :: "nat \<Rightarrow> ap_phase \<Rightarrow> 'a smp_state_scheme \<Rightarrow> 'a smp_state_scheme" where
  "set_phase p ph s = s\<lparr>ap_phases := (ap_phases s)(p := ph)\<rparr>"

text \<open>Code that processor \<open>p\<close> executes works on its own registers.\<close>

definition on_cpu :: "nat \<Rightarrow> ('a smp_state_scheme \<Rightarrow> 'a smp_state_scheme) \<Rightarrow> 'a smp_state_scheme \<Rightarrow> 'a smp_state_scheme" where
  "on_cpu p f s =
     (let (r, c) = ap_cpu s p; t = f (s\<lparr>regs := r, cpu := c\<rparr>)
      in t\<lparr>regs := regs s, cpu := cpu s, ap_cpu := (ap_cpu t)(p := (regs t, cpu t))\<rparr>)"

text \<open>The checks at the start of \<^verbatim>\<open>smp_ap_entry\<close>: the entry of the table this processor uses.\<close>

definition ap_argument :: "nat \<Rightarrow> 'a smp_state_scheme \<Rightarrow> nat option" where
  "ap_argument p s =
     (case mp_infos s p of None \<Rightarrow> None
      | Some info \<Rightarrow> (case mi_extra info of None \<Rightarrow> None
          | Some i \<Rightarrow> if sc_magic (cpu_states s i) \<noteq> SMP_STATE_MAGIC \<or> unat (sc_cpu_index (cpu_states s i)) \<ge> NPK_MAX_SMP_CPUS then None
              else Some i))"

text \<open>One step of processor \<open>p\<close> through \<^verbatim>\<open>smp_ap_entry\<close>.  It waits until \<^verbatim>\<open>goto_address\<close> is written.\<close>

definition smp_ap_entry :: "kernel_image \<Rightarrow> nat \<Rightarrow> 'a smp_state_scheme \<Rightarrow> 'a smp_state_scheme" where
  "smp_ap_entry img p s =
     (case ap_phases s p of
        Ap_parked \<Rightarrow>
          (case mp_infos s p of
             None \<Rightarrow> s
           | Some info \<Rightarrow>
               if \<not> mi_goto info then s
               else case ap_argument p s of
                   None \<Rightarrow> set_phase p Ap_refused s
                 | Some i \<Rightarrow> set_phase p Ap_initialised (on_cpu p (arch_init_cpu img (sc_cpu_index (cpu_states s i))) s))
      | Ap_initialised \<Rightarrow>
          (case ap_argument p s of None \<Rightarrow> s
           | Some i \<Rightarrow> set_phase p Ap_ready (upd_cpu_state i (\<lambda>c. c\<lparr>sc_arch_ready := 1\<rparr>) s))
      | Ap_ready \<Rightarrow>
          (case ap_argument p s of None \<Rightarrow> s
           | Some i \<Rightarrow> set_phase p Ap_online (upd_cpu_state i (\<lambda>c. c\<lparr>sc_online := 1\<rparr>) s))
      | Ap_online \<Rightarrow> set_phase p Ap_counted (s\<lparr>online_cpus := online_cpus s + 1\<rparr>)
      | _ \<Rightarrow> s)"

text \<open>The body of the loop of \<^verbatim>\<open>smp_init\<close> over the processors.\<close>

definition smp_request :: "u32 \<Rightarrow> nat \<Rightarrow> 'a smp_state_scheme \<Rightarrow> 'a smp_state_scheme" where
  "smp_request bsp_lapic_id i s =
     (case mp_infos s i of
        None \<Rightarrow> s
      | Some info \<Rightarrow>
          let s = upd_cpu_state i (\<lambda>c. c\<lparr>sc_magic := SMP_STATE_MAGIC, sc_cpu_index := of_nat i, sc_processor_id := mi_processor_id info,
                    sc_lapic_id := mi_lapic_id info\<rparr>) s
          in if mi_lapic_id info = bsp_lapic_id
             then upd_cpu_state i (\<lambda>c. c\<lparr>sc_arch_ready := 1, sc_online := 1\<rparr>) s
             else s\<lparr>mp_infos := (mp_infos s)(i \<mapsto> info\<lparr>mi_extra := Some i, mi_goto := True\<rparr>)\<rparr>)"

definition smp_online_count :: "'a smp_state_scheme \<Rightarrow> u32" where
  "smp_online_count s = online_cpus s"

definition smp_cpu_count :: "'a smp_state_scheme \<Rightarrow> u32" where
  "smp_cpu_count s = discovered_cpus s"

definition smp_enabled :: "'a smp_state_scheme \<Rightarrow> bool" where
  "smp_enabled s = smp_is_enabled s"

text \<open>The spinning wait: \<open>turns n\<close> are the processors that make a step during a turn.\<close>

fun smp_wait :: "kernel_image \<Rightarrow> (nat \<Rightarrow> nat list) \<Rightarrow> nat \<Rightarrow> 'a smp_state_scheme \<Rightarrow> 'a smp_state_scheme" where
  "smp_wait img turns 0 s = s"
| "smp_wait img turns (Suc n) s =
     (if smp_online_count s < discovered_cpus s then smp_wait img turns n (fold (smp_ap_entry img) (turns n) s) else s)"

definition smp_reset :: "'a smp_state_scheme \<Rightarrow> 'a smp_state_scheme" where
  "smp_reset s = s\<lparr>smp_is_enabled := False, discovered_cpus := 1, online_cpus := 1, cpu_states := \<lambda>_. zero_smp_cpu\<rparr>"

text \<open>\<open>early i\<close> are the steps the other processors make before the loop goes on after its turn \<open>i\<close>.\<close>

definition smp_requests ::
  "kernel_image \<Rightarrow> (nat \<Rightarrow> nat list) \<Rightarrow> mp_response \<Rightarrow> mp_info option list \<Rightarrow> 'a smp_state_scheme \<Rightarrow> 'a smp_state_scheme" where
  "smp_requests img early mp cpus s =
     (let total = (if length cpus > NPK_MAX_SMP_CPUS then NPK_MAX_SMP_CPUS else length cpus);
          s = s\<lparr>discovered_cpus := of_nat total, mp_infos := \<lambda>i. if i < length cpus then cpus ! i else None\<rparr>;
          s = fold (\<lambda>i s. fold (smp_ap_entry img) (early i) (smp_request (mp_bsp_lapic_id mp) i s)) [0..<total] s
      in s\<lparr>smp_is_enabled := (discovered_cpus s > 1)\<rparr>)"

definition smp_init ::
  "kernel_image \<Rightarrow> (nat \<Rightarrow> nat list) \<Rightarrow> (nat \<Rightarrow> nat list) \<Rightarrow> mp_response option \<Rightarrow> 'a smp_state_scheme \<Rightarrow> 'a smp_state_scheme" where
  "smp_init img early turns response s =
     (let s = smp_reset s; unavailable = log_message LOG_WARN ''smp'' ''Limine MP response unavailable; BSP-only mode'' s
      in case response of
           None \<Rightarrow> unavailable
         | Some mp \<Rightarrow>
             (case mp_cpus mp of
                None \<Rightarrow> unavailable
              | Some [] \<Rightarrow> unavailable
              | Some cpus \<Rightarrow>
                  let s = smp_wait img turns 2000000 (smp_requests img early mp cpus s);
                      s = logf LOG_INFO ''smp'' ''Limine CPUs discovered'' (ucast (discovered_cpus s)) s;
                      s = logf LOG_INFO ''smp'' ''BSP/AP bring-up requested'' (if smp_is_enabled s then ucast (discovered_cpus s - 1) else 0) s;
                      s = logf LOG_INFO ''smp'' ''CPUs online'' (ucast (smp_online_count s)) s
                  in if smp_online_count s \<noteq> discovered_cpus s
                     then log_message LOG_WARN ''smp'' ''not all APs completed per-CPU arch init'' s else s))"

subsection \<open>The kernel\<close>

definition status32 :: "'r result \<Rightarrow> u64" where
  "status32 r = (case r of Inl e \<Rightarrow> ucast (word_of_int (- errno_num e) :: u32) | Inr _ \<Rightarrow> 0)"

definition positive_length :: "u8 list result \<Rightarrow> u64" where
  "positive_length r = (case r of Inl _ \<Rightarrow> 0 | Inr bs \<Rightarrow> of_nat (length bs))"

definition kernel_open :: "string \<Rightarrow> 'a proc_state_scheme \<Rightarrow> int option \<times> 'a proc_state_scheme" where
  "kernel_open path s =
     (case vfs_open (proc_snapshot s) (Some path) s of (Inl _, s) \<Rightarrow> (None, s) | (Inr fd, s) \<Rightarrow> (Some (int fd), s))"

definition close_if :: "int option \<Rightarrow> 'a vfs_state_scheme \<Rightarrow> 'a vfs_state_scheme" where
  "close_if fd s = (case fd of None \<Rightarrow> s | Some fd \<Rightarrow> snd (vfs_close fd s))"

text \<open>The size of an image that may be loaded: positive and at most 8 MiB.\<close>

definition loadable_size :: "int option \<Rightarrow> 'a vfs_state_scheme \<Rightarrow> nat option" where
  "loadable_size fd s =
     (case fd of None \<Rightarrow> None
      | Some fd \<Rightarrow> (case vfs_size fd s of Inl _ \<Rightarrow> None
          | Inr n \<Rightarrow> if n \<le> 0 \<or> n > 8 * 1024 * 1024 then None else Some (nat n)))"

text \<open>\<^verbatim>\<open>vfs_read\<close> of a whole image: its bytes if all of them arrive.\<close>

definition read_exactly :: "int \<Rightarrow> nat \<Rightarrow> 'a vfs_state_scheme \<Rightarrow> u8 list option \<times> 'a vfs_state_scheme" where
  "read_exactly fd n s =
     (case vfs_read fd True n s of (Inl _, s) \<Rightarrow> (None, s) | (Inr bs, s) \<Rightarrow> (if length bs = n then Some bs else None, s))"

definition kernel_launch_user_image :: "string \<Rightarrow> 'a arch_state_scheme \<Rightarrow> unit outcome \<times> 'a arch_state_scheme" where
  "kernel_launch_user_image path s =
     (let (fd, s) = kernel_open path s
      in case loadable_size fd s of
           None \<Rightarrow> (Returns (), log_message LOG_ERROR ''user'' ''user ELF unavailable for ring3 launch'' (close_if fd s))
         | Some n \<Rightarrow>
             let (buffer, s) = kmalloc (of_nat n) s;
                 (content, s) = (if buffer = 0 then (None, s) else read_exactly (the fd) n s);
                 s = close_if fd s
             in (case content of
                   None \<Rightarrow>
                     (Returns (), log_message LOG_ERROR ''user'' ''user ELF image read failed'' (if buffer \<noteq> 0 then kfree buffer s else s))
                 | Some bs \<Rightarrow>
                     let (process, s) = process_exec_image bs s; s = kfree buffer s
                     in (case process of
                           None \<Rightarrow> (Returns (), log_message LOG_ERROR ''user'' ''secure exec rejected user ELF'' s)
                         | Some i \<Rightarrow>
                             let s = logf LOG_INFO ''user'' ''launching ring3 pid'' (pid (processes s i)) s;
                                 s = console_clear (log_set_console_output_enabled False s)
                             in process_launch_user i s)))"

text \<open>The self test of the allocators, \<^verbatim>\<open>kernel_demo\<close> up to the disk.  \<open>None\<close> if the validation of the heap does
  not return.\<close>

definition turkish_sample :: string where
  "turkish_sample = map char_of [84 :: nat, 195, 188, 114, 107, 195, 167, 101, 32, 107, 108, 97, 118, 121, 101, 58, 32, 197, 159, 32, 196, 159,
     32, 195, 188, 32, 195, 182, 32, 195, 167, 32, 196, 176, 32, 197, 158, 32, 196, 158, 32, 195, 156, 32, 195, 150, 32, 195, 135]"

definition demo_memory :: "'a arch_state_scheme \<Rightarrow> 'a arch_state_scheme option" where
  "demo_memory s =
     (let s = log_message LOG_INFO ''demo'' ''kernel.c is in control; custom boot flow is active'' s;
          s = log_message LOG_INFO ''demo'' turkish_sample s;
          (page, s) = pmm_alloc_page s;
          s = logf LOG_INFO ''demo'' ''one page allocated'' page s;
          s = (if page \<noteq> 0 then pmm_free_page page s else s);
          s = log_message LOG_INFO ''demo'' ''allocator page returned successfully'' s;
          (heap_a, s) = kmalloc 37 s;
          (heap_b, s) = kcalloc 8 24 s
      in do { ok \<leftarrow> (if heap_a \<noteq> 0 \<and> heap_b \<noteq> 0 then kheap_validate s else Some False);
              let s = kfree heap_b (kfree heap_a s);
              ok \<leftarrow> (if ok then kheap_validate s else Some False);
              Some (if ok then log_message LOG_INFO ''heap'' ''kmalloc/kcalloc/kfree integrity check passed'' s
                    else log_message LOG_ERROR ''heap'' ''kernel heap integrity check failed'' s) })"

definition demo_vm :: "'a arch_state_scheme \<Rightarrow> 'a arch_state_scheme" where
  "demo_vm s =
     (let ((disk, _), s) = ata_read_sectors 0 1 s;
          s = logf LOG_INFO ''ata'' ''read sector 0 result'' (status32 disk) s;
          (root, s) = vmm_create_address_space s;
          p = zero_process\<lparr>alive := True, address_space_root := root\<rparr>;
          (mapping, p, s) = (if root \<noteq> 0
             then vm_map_anonymous p 0 (NPK_PAGE_SIZE * 2) (NPK_PROT_READ OR NPK_PROT_WRITE) (NPK_MAP_PRIVATE OR NPK_MAP_ANONYMOUS) s
             else (Inl ENOMEM, p, s));
          owned = (case mapping of Inl _ \<Rightarrow> False
             | Inr a \<Rightarrow> vm_range_owned p a (NPK_PAGE_SIZE * 2) (NPK_PROT_READ OR NPK_PROT_WRITE));
          (unmapping, p, s) = (case mapping of Inl e \<Rightarrow> (Inl e, p, s) | Inr a \<Rightarrow> vm_unmap p a (NPK_PAGE_SIZE * 2) s);
          s = (if root \<noteq> 0 then vmm_destroy_address_space root s else s);
          s = logf LOG_INFO ''vm'' ''temporary address-space root'' root s;
          s = logf LOG_INFO ''vm'' ''anonymous mmap result'' (status32 mapping) s;
          s = logf LOG_INFO ''vm'' ''anonymous mmap ownership'' (of_bool owned) s
      in logf LOG_INFO ''vm'' ''anonymous munmap result'' (status32 unmapping) s)"

definition demo_elf :: "'a arch_state_scheme \<Rightarrow> 'a arch_state_scheme" where
  "demo_elf s =
     (let (fd, s) = kernel_open ''/bin/hello.elf'' s;
          (ok, s) = (case loadable_size fd s of
             None \<Rightarrow> (False, s)
           | Some n \<Rightarrow>
               let (buffer, s) = kmalloc (of_nat n) s;
                   (content, s) = (if buffer = 0 then (None, s) else read_exactly (the fd) n s);
                   (ok, s) = (case content of
                      None \<Rightarrow> (False, s)
                    | Some bs \<Rightarrow>
                        let (root, s) = vmm_create_address_space s;
                            (r, s) = (if root \<noteq> 0 then elf64_load_in_address_space bs root 0 s else (Inl ENOMEM, s));
                            ok = (case r of Inl _ \<Rightarrow> False | Inr l \<Rightarrow> er_entry l = 0x400000)
                        in (ok, if root \<noteq> 0 then vmm_destroy_address_space root s else s))
               in (ok, if buffer \<noteq> 0 then kfree buffer s else s))
      in logf LOG_INFO ''elf'' ''hello.elf validated, loaded, and rolled back'' (of_bool ok) (close_if fd s))"

text \<open>The file system part.  The descriptor of \<^verbatim>\<open>/README.txt\<close> stays open.\<close>

definition demo_files :: "'a arch_state_scheme \<Rightarrow> 'a arch_state_scheme" where
  "demo_files s =
     (let (proc_fd, s) = kernel_open ''/proc/meminfo'' s;
          (sample, s) = (case proc_fd of None \<Rightarrow> (Inl EBADF, s) | Some fd \<Rightarrow> vfs_read fd True 128 s);
          s = close_if proc_fd (logf LOG_INFO ''proc'' ''meminfo read bytes'' (positive_length sample) s);
          s = log_message LOG_INFO ''demo'' ''ring0 kernel descriptors and ring3 user descriptors are installed'' s;
          s = log_message LOG_WARN ''demo'' ''full Linux userspace compatibility is intentionally staged; unsupported syscalls return -ENOSYS'' s;
          (fd, s) = kernel_open ''/README.txt'' s;
          s = (case fd of
             None \<Rightarrow> log_message LOG_WARN ''vfs'' ''sample initramfs file is unavailable'' s
           | Some fd \<Rightarrow>
               (case vfs_read fd True 95 s of
                  (Inl _, s) \<Rightarrow> s
                | (Inr [], s) \<Rightarrow> s
                | (Inr bs, s) \<Rightarrow>
                    let s = logf LOG_INFO ''vfs'' ''initramfs README.txt bytes'' (of_nat (length bs)) s;
                        s = console_write_n (takeWhile (\<lambda>b. b \<noteq> 0) bs) (console_write ''[VFS] /README.txt: '' s)
                    in console_write ''\<newline>'' s));
          (root_fd, s) = kernel_open ''/'' s;
          (listing, s) = (case root_fd of None \<Rightarrow> (Inl EBADF, s) | Some fd \<Rightarrow> vfs_getdents64 fd True 256 s);
          status = (case root_fd of None \<Rightarrow> Inl EBADF | Some fd \<Rightarrow> vfs_stat_fd fd True s);
          s = logf LOG_INFO ''vfs'' ''root getdents64 bytes'' (positive_length listing) s;
          s = logf LOG_INFO ''vfs'' ''root fstat result'' (status32 status) s
      in close_if root_fd s)"

definition kernel_demo :: "'a arch_state_scheme \<Rightarrow> 'a arch_state_scheme option" where
  "kernel_demo s = do { s \<leftarrow> demo_memory s; Some (demo_files (demo_elf (demo_vm s))) }"

definition syscall_init :: "'a arch_state_scheme \<Rightarrow> 'a arch_state_scheme" where
  "syscall_init s =
     log_message LOG_INFO ''syscall'' ''safe pointers, metadata, mmap/mprotect/munmap, ioctl/readlink, signals, brk, proc, timer, execve and NPK IPC registered''
       (logf LOG_INFO ''syscall'' ''Linux x86_64 ABI table entries'' 56 s)"

definition vmm_init :: "'a arch_state_scheme \<Rightarrow> 'a arch_state_scheme" where
  "vmm_init s = logf LOG_INFO ''vmm'' ''user address limit'' USER_LIMIT (logf LOG_INFO ''vmm'' ''active pml4'' (read_cr3 s) s)"

text \<open>What \<^verbatim>\<open>kernel_main\<close> writes before it initialises the machine.\<close>

definition boot_messages :: "u64 \<Rightarrow> boot_info_t \<Rightarrow> 'a arch_state_scheme \<Rightarrow> 'a arch_state_scheme" where
  "boot_messages base_revision b s =
     (let s = console_write ''NPKernel / No Problem Kernel\<newline>'' s;
          s = console_write ''x86_64 | C17 + NASM | Limine + UEFI/GOP\<newline>\<newline>'' s;
          s = logf LOG_INFO ''boot'' ''Limine base revision'' base_revision s;
          s = (case bi_framebuffer b of None \<Rightarrow> s
               | Some f \<Rightarrow> logf LOG_INFO ''gop'' ''framebuffer height'' (fb_height f) (logf LOG_INFO ''gop'' ''framebuffer width'' (fb_width f) s))
      in case bi_hhdm b of None \<Rightarrow> s | Some offset \<Rightarrow> logf LOG_INFO ''boot'' ''HHDM offset'' offset s)"

text \<open>The arguments of the boot: the memory of the firmware tables, the answers of the boot loader, the base revision it
  reports, the addresses of the kernel image, of the two kernel thread bodies, and the steps of the other processors.\<close>

record boot_world =
  bw_mem :: "u64 \<Rightarrow> u8"
  bw_responses :: limine_responses
  bw_base_revision :: u64
  bw_image :: kernel_image
  bw_bootstrap :: u64
  bw_idle_entry :: u64
  bw_early :: "nat \<Rightarrow> nat list"
  bw_turns :: "nat \<Rightarrow> nat list"

definition boot_info_of :: "boot_world \<Rightarrow> boot_info_t" where
  "boot_info_of w = boot_collect_info (bw_mem w) (bw_responses w)"

definition boot_firmware :: "boot_world \<Rightarrow> boot_info" where
  "boot_firmware w = boot_info.truncate (boot_info_of w)"

text \<open>Up to the creation of the process tables; \<open>False\<close> if the idle thread cannot be created.\<close>

definition boot_machine :: "boot_world \<Rightarrow> 'a smp_state_scheme \<Rightarrow> bool \<times> 'a smp_state_scheme" where
  "boot_machine w s =
     (let b = boot_info_of w;
          s = console_init (bi_framebuffer b) (vga_init s);
          s = devmgr_init (console_clear (log_init s));
          s = arch_init (boot_firmware w) (bw_image w) (boot_messages (bw_base_revision w) b s);
          s = smp_init (bw_image w) (bw_early w) (bw_turns w) (bi_mp b) s;
          s = vmm_init (pmm_init (bi_memmap b) (bi_hhdm b) s);
          s = ata_init (keyboard_init (kheap_init s))
      in process_init (bw_bootstrap w) (bw_idle_entry w) s)"

text \<open>\<^verbatim>\<open>kernel_main\<close> up to its idle loop, with the shell as the first program: the outcome is the thread the processor
  goes to, \<^verbatim>\<open>Returns\<close> if no program could be launched, \<^verbatim>\<open>Halts\<close> after a panic; \<open>None\<close> if a component does not return.\<close>

definition kernel_main :: "boot_world \<Rightarrow> 'a smp_state_scheme \<Rightarrow> (unit outcome \<times> 'a smp_state_scheme) option" where
  "kernel_main w s =
     (case boot_machine w s of
        (False, s) \<Rightarrow> Some (panic ''failed to create BSP idle thread'' s)
      | (True, s) \<Rightarrow>
          do { let s = vfs_init (case bi_modules (boot_info_of w) of None \<Rightarrow> [] | Some ms \<Rightarrow> ms) s;
               (_, s) \<leftarrow> devmgr_load_default_config npk_probe s;
               let s = syscall_init (usb_init s);
               s \<leftarrow> kernel_demo s;
               let s = log_message LOG_INFO ''boot'' ''NPKernel initialization complete; interrupts enabled'' s;
               let s = console_clear (console_set_color 0xf2f5fa 0x000000 s);
               Some (kernel_launch_user_image ''/bin/bash.elf'' s) })"

text \<open>One turn of the idle loop; \<open>interrupts\<close> is what happens while the processor is halted.\<close>

definition kernel_idle_turn ::
  "boot_world \<Rightarrow> ('a smp_state_scheme \<Rightarrow> 'a smp_state_scheme) \<Rightarrow> 'a smp_state_scheme \<Rightarrow> (unit outcome \<times> 'a smp_state_scheme) option" where
  "kernel_idle_turn w interrupts s =
     (case acpi_poll (boot_firmware w) (interrupts s) of
        (Returns _, s) \<Rightarrow>
          do { s \<leftarrow> usb_poll (scheduler_tick s);
               Some (if scheduler_reschedule_pending s then scheduler_yield s else (Returns (), s)) }
      | (r, s) \<Rightarrow> Some (r, s))"

end
