(* ===== verification/Arch_Props.thy ===== *)
theory Arch_Props
  imports Boot Demo
begin

text \<open>
  Properties of the exceptions: what becomes of a page fault of a user program that has a signal handler.
\<close>

subsection \<open>An example state\<close>

definition no_reg :: acpi_reg where
  "no_reg = \<lparr>reg_address = 0, reg_space = 0, reg_valid = False\<rparr>"

definition blank_devices :: usb_state where
  "blank_devices =
     xhci_state.extend
       (acpi_state.extend
         (pci_state.extend
           (devmgr_state.extend
             (ddc_state.extend (sys_state.extend blank_state (ddc_state.fields [] [] False)) (devmgr_state.fields [] [] 1 False))
             (pci_state.fields []))
           (acpi_state.fields False False False 0 0xff no_reg no_reg no_reg no_reg 0 0 0 0 False))
         (xhci_state.fields zero_controller False))
       (usb_state.fields [] [])"

definition blank_cpu :: cpu_regs where
  "blank_cpu = \<lparr>msrs = \<lambda>_. 0, gdtr = (0, 0), idtr = (0, 0), tr = 0, cr2 = 0\<rparr>"

definition blank_arch :: arch_state where
  "blank_arch = usb_state.extend blank_devices
     (arch_state.fields blank_cpu (\<lambda>_. replicate 7 0) (\<lambda>_. zero_tss) (\<lambda>_. \<lparr>local_kernel_stack_top = 0, local_user_rsp = 0\<rparr>) (\<lambda>_. zero_gate) True 0 0 7)"

subsection \<open>Signals from exceptions\<close>

lemma deliver_signal_frame:
  assumes "process_deliver_signal w signal s = (Some w', t)"
  shows "w ! 18 \<ge> NPK_USER_MIN + 40" "\<exists>handler sp. w' = signal_frame w signal 0 0 handler sp"
proof -
  obtain i j where ij: "current s = Some i" "process_current s = Some j"
    using assms by (auto simp: process_deliver_signal_def process_deliver_signal_with_info_def split: option.splits)
  have not_low: "\<not> (w ! 18 < 40 \<or> w ! 18 - 40 < NPK_USER_MIN)"
    using assms ij by (auto simp: process_deliver_signal_def process_deliver_signal_with_info_def Let_def)
  then have "unat (w ! 18 - 40) = unat (w ! 18) - 40" by (subst unat_sub) (simp_all add: not_less)
  then show "w ! 18 \<ge> NPK_USER_MIN + 40" using not_low unfolding word_le_nat_alt word_less_nat_alt by simp linarith
  show "\<exists>handler sp. w' = signal_frame w signal 0 0 handler sp"
    using assms ij
    by (auto simp: process_deliver_signal_def process_deliver_signal_with_info_def Let_def split: if_splits prod.splits bool.splits)
qed

lemma terminate_not_returns: "terminate_user_exception signal s \<noteq> (Returns w, t)"
  by (auto simp: terminate_user_exception_def Let_def split: prod.splits outcome.splits)

text \<open>C31. A page fault of a user program that the memory manager does not resolve never reaches the signal handler of the
  program.  \<^verbatim>\<open>process_deliver_signal\<close> takes the frame for one without an error code: the word it reads as the stack
  pointer is the flags register.  If the flags are below \<open>NPK_USER_MIN + 40\<close>, as they ordinarily are, the dispatcher
  goes on to terminate the program whatever handler it has installed; and whenever it returns to the program, the stub
  resumes at the address 0x23 with a code segment selector that has bit 9 set, not at the handler.\<close>

theorem page_fault_never_reaches_handler:
  assumes "length w = 21" "w ! 17 AND 3 = 3" "\<not> fst (page_fault_handled (w ! 15) (w ! 19) s)"
  shows "(w ! 18 < NPK_USER_MIN + 40 \<longrightarrow> (\<exists>v. page_fault_dispatch (Some w) s = terminate_user_exception 11 v))
    \<and> (\<forall>w' t. page_fault_dispatch (Some w) s = (Returns w', t) \<longrightarrow> w' ! 16 = 0x23 \<and> w' ! 17 = w ! 17 OR 0x200)"
proof -
  obtain u where u: "page_fault_handled (w ! 15) (w ! 19) s = (False, u)" using assms(3) by (cases "page_fault_handled (w ! 15) (w ! 19) s") auto
  obtain v where v: "page_fault_dispatch (Some w) s = signal_or_terminate (Some w) 11 v"
    using u assms(2) by (auto simp: page_fault_dispatch_def frame_word_def error_word_def Let_def)
  obtain r t where d: "process_deliver_signal w 11 v = (r, t)" by force
  show ?thesis
  proof (cases r)
    case None
    then have "page_fault_dispatch (Some w) s = terminate_user_exception 11 t" using v d by (simp add: signal_or_terminate_def)
    then show ?thesis by (auto simp: terminate_not_returns)
  next
    case (Some w')
    obtain h sp where w': "w' = signal_frame w 11 0 0 h sp" "w ! 18 \<ge> NPK_USER_MIN + 40"
      using deliver_signal_frame [OF d [unfolded Some]] by blast
    then show ?thesis using v d Some assms(1) by (auto simp: signal_or_terminate_def signal_frame_def)
  qed
qed

text \<open>A process with a handler for segmentation faults that reads kernel memory.\<close>

definition faulting_frame :: "u64 list" where
  "faulting_frame = replicate 15 0 @ [5, 0x401000, 0x23, 0x202, 0x7fffffeff000, 0x1b]"

definition faulting_state :: arch_state where
  "faulting_state = blank_arch\<lparr>
     processes := (\<lambda>_. zero_process)(1 := zero_process\<lparr>pid := 2, alive := True, main_thread := Some 1,
       signal_actions := (\<lambda>_. \<lparr>sa_handler = 0x402000, sa_flags = 0x04000000, sa_restorer = 0x403000, sa_mask = [0]\<rparr>)\<rparr>),
     threads := (\<lambda>_. zero_thread)(1 := zero_thread\<lparr>tid := 2, th_state := THREAD_RUNNING, privilege_ring := 3, th_owner := Some 1\<rparr>),
     current := Some 1, regs := blank_cpu\<lparr>cr2 := 0xffff800000000000\<rparr>\<rparr>"

theorem page_fault_never_reaches_handler_witness:
  "signal_action_handler_valid (signal_actions (processes faulting_state 1) 11)
   \<and> (\<forall>w' t. page_fault_dispatch (Some faulting_frame) faulting_state \<noteq> (Returns w', t))"
proof -
  have cur: "process_current faulting_state = Some 1" by (simp add: process_current_def faulting_state_def)
  have range: "\<not> vmm_is_user_range (cr2 (regs faulting_state)) 1"
    by (simp add: faulting_state_def vmm_is_user_range_def)
  have "\<not> fst (page_fault_handled (faulting_frame ! 15) (faulting_frame ! 19) faulting_state)"
    using range by (simp add: page_fault_handled_def cur on_process_def vm_handle_page_fault_def)
  moreover have frame: "length faulting_frame = 21" "faulting_frame ! 17 AND 3 = 3" "faulting_frame ! 18 = 0x202"
    by (simp_all add: faulting_frame_def nth_append)
  ultimately obtain v where "page_fault_dispatch (Some faulting_frame) faulting_state = terminate_user_exception 11 v"
    using page_fault_never_reaches_handler [of faulting_frame faulting_state] by auto
  then have "page_fault_dispatch (Some faulting_frame) faulting_state \<noteq> (Returns w', t)" for w' t
    by (simp add: terminate_not_returns)
  moreover have "signal_action_handler_valid (signal_actions (processes faulting_state 1) 11)"
    by (simp add: faulting_state_def signal_action_handler_valid_def vmm_is_user_range_def canonical_def)
  ultimately show ?thesis by blast
qed

end
