(* ===== verification/Registry_Props.thy ===== *)
theory Registry_Props
  imports Arch_Props "HOL-Library.Sublist"
begin

text \<open>
  The invariant of the device registry.  A driver's probe runs while the registry is being changed and may itself
  register devices and drivers; \<open>probe_ok\<close> is what the registry relies on: the probe keeps the invariant and only
  adds to the two tables.
\<close>

definition driver_ok :: "npk_device_driver \<Rightarrow> bool" where
  "driver_ok drv \<longleftrightarrow> drv_name drv \<noteq> None \<and> drv_has_probe drv
     \<and> (case drv_ids drv of None \<Rightarrow> False
        | Some ids \<Rightarrow> ids \<noteq> [] \<and> length ids \<le> NPK_DEVICE_DRIVER_MAX_IDS \<and> (\<forall>i \<in> set ids. valid_id i))"

definition device_ok :: "npk_device_driver list \<Rightarrow> npk_device \<Rightarrow> bool" where
  "device_ok drivers d \<longleftrightarrow> valid_bus (di_bus (dev_identity d))
     \<and> length (dev_category d) < TYPE_CAPACITY \<and> length (dev_display_name d) < DISPLAY_CAPACITY
     \<and> length (dev_expected_driver d) < DRIVER_CAPACITY
     \<and> (if dev_state d = NPK_DEVICE_BOUND
        then \<exists>drv \<in> set drivers. dev_driver d = Some drv \<and> driver_matches drv (dev_identity d)
        else dev_driver d = None)"

definition registry_ok :: "'a devmgr_state_scheme \<Rightarrow> bool" where
  "registry_ok s \<longleftrightarrow>
     length (dm_devices s) \<le> NPK_DEVICE_MANAGER_MAX_DEVICES \<and> length (dm_drivers s) \<le> NPK_DEVICE_MANAGER_MAX_DRIVERS
     \<and> distinct (map drv_address (dm_drivers s)) \<and> (\<forall>drv \<in> set (dm_drivers s). driver_ok drv)
     \<and> (\<forall>d \<in> set (dm_devices s). device_ok (dm_drivers s) d)
     \<and> map dev_instance (dm_devices s) = map of_nat [1..<Suc (length (dm_devices s))]
     \<and> dm_next_instance s = of_nat (Suc (length (dm_devices s)))"

text \<open>The tables only grow, and a device keeps its identity.\<close>

definition registry_grows :: "'a devmgr_state_scheme \<Rightarrow> 'b devmgr_state_scheme \<Rightarrow> bool" where
  "registry_grows s t \<longleftrightarrow> prefix (dm_drivers s) (dm_drivers t)
     \<and> prefix (map dev_identity (dm_devices s)) (map dev_identity (dm_devices t)) \<and> dm_initialized t = dm_initialized s"

type_synonym 's device_probe = "npk_device_driver \<Rightarrow> nat \<Rightarrow> 's \<Rightarrow> int \<times> 's"

definition probe_ok :: "'a devmgr_state_scheme device_probe \<Rightarrow> bool" where
  "probe_ok probe \<longleftrightarrow> (\<forall>drv i s. registry_ok s \<longrightarrow> i < length (dm_devices s) \<longrightarrow>
     registry_ok (snd (probe drv i s)) \<and> registry_grows s (snd (probe drv i s)))"

lemma probe_okD:
  assumes "probe_ok probe" "registry_ok s" "i < length (dm_devices s)" "probe drv i s = (r, t)"
  shows "registry_ok t \<and> registry_grows s t"
proof -
  have "registry_ok (snd (probe drv i s)) \<and> registry_grows s (snd (probe drv i s))"
    using assms(1-3) unfolding probe_ok_def by blast
  then show ?thesis by (simp add: assms(4))
qed

lemma registry_grows_refl [simp]: "registry_grows s s"
  by (simp add: registry_grows_def)

lemma registry_grows_trans [trans]: "registry_grows s t \<Longrightarrow> registry_grows t u \<Longrightarrow> registry_grows s u"
  by (auto simp: registry_grows_def intro: prefix_order.trans)

lemma registry_growsD:
  assumes "registry_grows s t" "i < length (dm_devices s)"
  shows "i < length (dm_devices t)" "dev_identity (dm_devices t ! i) = dev_identity (dm_devices s ! i)"
proof -
  obtain ds where ds: "map dev_identity (dm_devices t) = map dev_identity (dm_devices s) @ ds"
    using assms(1) by (auto simp: registry_grows_def prefix_def)
  then have "length (dm_devices t) = length (dm_devices s) + length ds" by (metis length_append length_map)
  then show i: "i < length (dm_devices t)" using assms(2) by simp
  have "dev_identity (dm_devices t ! i) = map dev_identity (dm_devices t) ! i" using i by simp
  also have "\<dots> = dev_identity (dm_devices s ! i)" using assms(2) by (simp add: ds nth_append)
  finally show "dev_identity (dm_devices t ! i) = dev_identity (dm_devices s ! i)" .
qed

lemma registry_grows_driver: "registry_grows s t \<Longrightarrow> drv \<in> set (dm_drivers s) \<Longrightarrow> drv \<in> set (dm_drivers t)"
  by (auto simp: registry_grows_def dest: set_mono_prefix)

text \<open>Changing a device in the table.\<close>

lemma upd_device_fields [simp]:
  "dm_drivers (upd_device i f s) = dm_drivers s" "dm_next_instance (upd_device i f s) = dm_next_instance s"
  "dm_initialized (upd_device i f s) = dm_initialized s" "length (dm_devices (upd_device i f s)) = length (dm_devices s)"
  "i < length (dm_devices s) \<Longrightarrow> dm_devices (upd_device i f s) ! i = f (dm_devices s ! i)"
  by (simp_all add: upd_device_def)

lemma upd_device_ok:
  assumes "registry_ok s" "i < length (dm_devices s)"
    "\<And>d. dev_instance (f d) = dev_instance d" "\<And>d. dev_identity (f d) = dev_identity d"
    "device_ok (dm_drivers s) (f (dm_devices s ! i))"
  shows "registry_ok (upd_device i f s) \<and> registry_grows s (upd_device i f s)"
proof -
  have "map g (dm_devices (upd_device i f s)) = map g (dm_devices s)" if "\<And>d. g (f d) = g d" for g :: "npk_device \<Rightarrow> 'c"
    using that assms(2) by (auto simp: upd_device_def map_update intro!: list_update_same_conv [THEN iffD2])
  then have same: "map dev_instance (dm_devices (upd_device i f s)) = map dev_instance (dm_devices s)"
    "map dev_identity (dm_devices (upd_device i f s)) = map dev_identity (dm_devices s)"
    using assms(3,4) by blast+
  have "device_ok (dm_drivers s) d" if "d \<in> set (dm_devices (upd_device i f s))" for d
    using that assms set_update_subset_insert [of "dm_devices s" i "f (dm_devices s ! i)"]
    by (auto simp: upd_device_def registry_ok_def)
  then show ?thesis using assms(1) same by (simp add: registry_ok_def registry_grows_def)
qed

lemma device_okI: "registry_ok s \<Longrightarrow> i < length (dm_devices s) \<Longrightarrow> device_ok (dm_drivers s) (dm_devices s ! i)"
  by (simp add: registry_ok_def)

lemma resolve_usb_config_ok:
  assumes "registry_ok s" "i < length (dm_devices s)"
  shows "registry_ok (resolve_usb_config i s) \<and> registry_grows s (resolve_usb_config i s)"
proof -
  have "device_ok (dm_drivers s) ((dm_devices s ! i)\<lparr>dev_category := copy_label TYPE_CAPACITY c,
      dev_display_name := copy_label DISPLAY_CAPACITY n, dev_expected_driver := copy_label DRIVER_CAPACITY x\<rparr>)" for c n x
    using device_okI [OF assms] by (simp add: device_ok_def copy_label_def min_less_iff_disj)
  then show ?thesis using assms
    by (auto simp: resolve_usb_config_def Let_def split: option.split intro!: upd_device_ok [THEN conjunct1] upd_device_ok [THEN conjunct2])
qed

lemma bind_stop_ok:
  assumes "registry_ok s" "i < length (dm_devices s)"
  shows "registry_ok (bind_loop probe i [] seen r s) \<and> registry_grows s (bind_loop probe i [] seen r s)"
  unfolding bind_loop.simps by (rule upd_device_ok [OF assms]) (use device_okI [OF assms] in \<open>auto simp: device_ok_def\<close>)

lemma bind_loop_ok:
  assumes "probe_ok probe"
  shows "registry_ok s \<Longrightarrow> i < length (dm_devices s)
    \<Longrightarrow> registry_ok (bind_loop probe i ks seen r s) \<and> registry_grows s (bind_loop probe i ks seen r s)"
proof (induction ks arbitrary: seen r s)
  case Nil
  then show ?case by (rule bind_stop_ok)
next
  case (Cons k ks)
  note stop = upd_device_ok [OF Cons.prems] and dev = device_okI [OF Cons.prems]
  let ?drv = "dm_drivers s ! k" and ?d = "dm_devices s ! i" and ?bit = "push_bit k (1 :: u32)"
  show ?case
  proof (cases "k < length (dm_drivers s) \<and> candidate ?drv ?d \<and> dev_attempted ?d AND ?bit = 0")
    case False
    then have "bind_loop probe i (k # ks) seen r s
        \<in> {bind_loop probe i [] seen r s, bind_loop probe i ks seen r s, bind_loop probe i ks True r s}"
      by (cases "k < length (dm_drivers s)"; cases "candidate ?drv ?d") (simp_all add: Let_def)
    then show ?thesis using bind_stop_ok [OF Cons.prems, of probe seen r] Cons.IH [OF Cons.prems, of _ r] by auto
  next
    case True
    let ?s1 = "upd_device i (\<lambda>d. d\<lparr>dev_attempted := dev_attempted d OR ?bit\<rparr>) s"
    obtain r' s2 where s2: "probe ?drv i ?s1 = (r', s2)" by force
    let ?s3 = "upd_device i (\<lambda>d. d\<lparr>dev_last_probe := r'\<rparr>) s2"
    have 1: "registry_ok ?s1 \<and> registry_grows s ?s1" by (rule stop) (use dev in \<open>simp_all add: device_ok_def\<close>)
    have i1: "i < length (dm_devices ?s1)" using Cons.prems by simp
    have 2: "registry_ok s2 \<and> registry_grows ?s1 s2" by (rule probe_okD [OF assms conjunct1 [OF 1] i1 s2])
    have i2: "i < length (dm_devices s2)" using registry_growsD(1) 2 i1 by blast
    have 3: "registry_ok ?s3 \<and> registry_grows s2 ?s3"
      by (rule upd_device_ok) (use 2 i2 device_okI [of s2 i] in \<open>simp_all add: device_ok_def\<close>)
    have grows: "registry_grows s ?s3" using 1 2 3 registry_grows_trans by blast
    have i3: "i < length (dm_devices ?s3)" using i2 by simp
    show ?thesis
    proof (cases "r' = 0")
      case False
      have "registry_ok (bind_loop probe i ks True r' ?s3) \<and> registry_grows ?s3 (bind_loop probe i ks True r' ?s3)"
        using Cons.IH 3 i3 by blast
      then show ?thesis using True False s2 grows registry_grows_trans by (auto simp: Let_def)
    next
      case zero: True
      have id: "dev_identity (dm_devices ?s3 ! i) = dev_identity ?d" using registry_growsD(2) [OF grows] Cons.prems by simp
      have "device_ok (dm_drivers ?s3) ((\<lambda>d. d\<lparr>dev_driver := Some ?drv, dev_state := NPK_DEVICE_BOUND\<rparr>) (dm_devices ?s3 ! i))"
        using True id registry_grows_driver [OF grows, of ?drv] device_okI [of ?s3 i] 3 i3 by (auto simp: device_ok_def candidate_def)
      then have "registry_ok (upd_device i (\<lambda>d. d\<lparr>dev_driver := Some ?drv, dev_state := NPK_DEVICE_BOUND\<rparr>) ?s3)
          \<and> registry_grows ?s3 (upd_device i (\<lambda>d. d\<lparr>dev_driver := Some ?drv, dev_state := NPK_DEVICE_BOUND\<rparr>) ?s3)"
        by (intro upd_device_ok) (use 3 i3 in simp_all)
      then show ?thesis using True zero s2 grows registry_grows_trans by (auto simp: Let_def)
    qed
  qed
qed

lemma bind_device_ok:
  "probe_ok probe \<Longrightarrow> registry_ok s \<Longrightarrow> i < length (dm_devices s)
    \<Longrightarrow> registry_ok (bind_device probe i s) \<and> registry_grows s (bind_device probe i s)"
  unfolding bind_device_def by (rule bind_loop_ok)

lemma reconfigure_ok:
  assumes "probe_ok probe" "registry_ok s"
  shows "registry_ok (reconfigure probe i s) \<and> registry_grows s (reconfigure probe i s)"
proof (cases "i < length (dm_devices s)")
  case True
  note r = resolve_usb_config_ok [OF assms(2) True]
  have "registry_ok (bind_device probe i (resolve_usb_config i s))
      \<and> registry_grows (resolve_usb_config i s) (bind_device probe i (resolve_usb_config i s))"
    by (intro bind_device_ok assms conjunct1 [OF r] registry_growsD(1) [OF conjunct2 [OF r] True])
  then show ?thesis using assms(2) r registry_grows_trans by (auto simp: reconfigure_def)
qed (use assms in \<open>simp add: reconfigure_def\<close>)















end
