(* ===== verification/Spec2Isabelle.thy ===== *)
theory Spec2Isabelle
  imports Vmm_Space Heap_Inv Syscall Input_Props Vfs_Props Device_Props Sched_Props Libc_Props Console_Props Registry_Props
begin

text \<open>
  \<^bold>\<open>Verification of NPKernel\<close>

  NPKernel is a small x86-64 kernel in C with a C library for its user programs.  This development models it one
  theory per component, every definition translated from the C function, structure or loop of the same name, and
  proves properties of the components.

  \<^bold>\<open>State.\<close>  The static variables of a file are the fields of a record that extends the record of the layer below:
  \<open>pmm_state\<close>, \<open>vmm_state\<close>, \<open>heap_state\<close>, \<open>io_state\<close>, \<open>ata_state\<close>, \<open>npkfs_state\<close>, \<open>vfs_state\<close>, \<open>proc_state\<close>,
  \<open>display_state\<close>, \<open>input_state\<close>, \<open>sys_state\<close>, the records of the device layer, \<open>arch_state\<close>, \<open>smp_state\<close>.  An
  operation takes the state with any extension and returns it updated, so it can be used in every layer above.
  Machine integers are words of their width.  Pointers to kernel objects are indices into tables or addresses in a typed
  store.  A call that can fail returns a value of \<open>'a result\<close>, the left part an error number; a call that may switch to
  another thread or halt the processor returns an \<open>outcome\<close>; a call that may wait for ever is a partial function into
  \<open>option\<close>, where \<open>None\<close> means that it does not return.

  \<^bold>\<open>Memory.\<close>  \<open>Pmm\<close> is \<^verbatim>\<open>src/memory/pmm.c\<close>; it is shown to refine a pool of pages with reference counts, to keep its
  invariant from boot on, and to restore the state when pages are given back.  \<open>Vmm\<close> is \<^verbatim>\<open>src/memory/vmm.c\<close>; \<open>Vmm_Space\<close>
  shows for well-formed address spaces what mapping, unmapping, changing protection and resolving a copy-on-write
  fault do to every translation, and what the range check accepts.  \<open>Heap\<close> is \<^verbatim>\<open>src/memory/heap.c\<close>; \<open>Heap_Inv\<close>
  relates the linked block headers to a list of blocks that tile the heap and shows allocation, release and validation
  correct.  \<open>Vm\<close> and \<open>Vm_Fault\<close> are \<^verbatim>\<open>src/memory/vm.c\<close> and the copies to and from user memory.

  \<^bold>\<open>Files.\<close>  \<open>Vfs_Path\<close> has the path functions of \<^verbatim>\<open>src/fs/vfs.c\<close>, compared with a resolution of components and a
  specification of directory listings.  \<open>Port_Io\<close>, \<open>Ata\<close>, \<open>Bytes\<close> and \<open>Npkfs\<close> are the disk driver and the
  persistent file system down to the bytes on disk.  \<open>Vfs\<close> and \<open>Vfs_Ops\<close> are the descriptors and every operation on
  them, \<open>Procfs\<close> is \<^verbatim>\<open>src/fs/procfs.c\<close>.  \<open>Vfs_Props\<close> shows that a pipe is a bounded queue of bytes, that a retained
  reference is given back by a close, that closing always returns, that polling returns on acyclic epoll sets and
  that it does not return on two sets that watch each other.

  \<^bold>\<open>Processes.\<close>  \<open>Process_Types\<close>, \<open>Elf\<close>, \<open>Process\<close>, \<open>Process_Life\<close> and \<open>Process_Exec\<close> are \<^verbatim>\<open>src/exec/elf.c\<close> and
  \<^verbatim>\<open>src/proc/process.c\<close>; \<open>Syscall_Io\<close> and \<open>Syscall\<close> are \<^verbatim>\<open>src/syscall/syscall.c\<close>; \<open>Timer\<close> is \<^verbatim>\<open>src/arch/timer.c\<close> and
  \<^verbatim>\<open>src/arch/irq.c\<close>.  \<open>Sched_Props\<close> shows that preemption starves no thread; \<open>Frames\<close> and \<open>Vm_Frames\<close> collect what
  the lower layers leave alone.

  \<^bold>\<open>Devices.\<close>  \<open>Font\<close> and \<open>Display\<close> are \<^verbatim>\<open>src/drivers/font.c\<close>, \<^verbatim>\<open>src/drivers/gop.c\<close> and \<^verbatim>\<open>src/console.c\<close>; \<open>Console_Props\<close>
  shows that the console never leaves its screen.  \<open>Keyboard\<close> is the keyboard, the mouse and the decoder of USB
  reports; \<open>Ring\<close> and \<open>Input_Props\<close> show the input queues first-in first-out and the decoder exact.
  \<open>Device_Config\<close>, \<open>Device_Manager\<close>, \<open>Pci\<close>, \<open>Acpi\<close>, \<open>Xhci\<close> and \<open>Usb\<close> are the files of those names; \<open>Device_Props\<close>
  shows that the reader of the device catalogue returns on every input and accepts only well-formed catalogues, and
  that the lookup is exact; \<open>Registry_Props\<close> shows that the registry of drivers and devices stays well formed.  A device is an arbitrary function of the history of accesses to it.

  \<^bold>\<open>Start.\<close>  \<open>Arch\<close> is \<^verbatim>\<open>src/arch/gdt.c\<close>, \<^verbatim>\<open>src/arch/idt.c\<close>, \<^verbatim>\<open>src/log.c\<close>, \<^verbatim>\<open>src/panic.c\<close> and \<^verbatim>\<open>src/drivers/vga.c\<close>; \<open>Boot\<close> is
  \<^verbatim>\<open>boot/limine_requests.c\<close>, \<^verbatim>\<open>src/smp.c\<close> and \<^verbatim>\<open>src/kernel.c\<close>.  \<open>Arch_Props\<close> shows that an unresolved page fault never
  reaches the signal handler of a program.

  \<^bold>\<open>The C library.\<close>  \<open>Cstring\<close>, \<open>Ulibc\<close> and \<open>Ustdio\<close> are \<^verbatim>\<open>src/string.c\<close> and the files under \<^verbatim>\<open>user/libc\<close>, over byte
  memory in which addresses may be unmapped; there \<open>None\<close> also stands for an access to such an address.  \<open>Libc_Props\<close>
  shows moves of overlapping blocks correct, the round trip of numbers through \<^verbatim>\<open>snprintf\<close> and \<^verbatim>\<open>strtol\<close>, and a format
  that makes the formatter run past its end.

  \<^bold>\<open>Interfaces.\<close>  The locales \<open>page_allocator\<close>, \<open>kernel_heap\<close>, \<open>bounded_queue\<close> and \<open>byte_codec\<close> state what clients
  of the page allocator, the heap, the ring buffers and the encodings rely on; each is interpreted on the model's own
  operations.

  \<^bold>\<open>Bounds.\<close>  Loops over a linked list of heap blocks run for \<open>HEAP_FUEL\<close> steps, the number of 16-byte slots of the
  heap window, and the nested calls of \<open>vfs_close\<close> go down 64 levels, the number of descriptors.  Running out sets
  the ghost field \<open>hung\<close>: the heap invariant contains that it is not set and is kept by every operation of the heap,
  and \<open>vfs_close_returns\<close> shows that closing never sets it.  Polling allows \<open>POLL_LEVELS\<close> levels and is \<open>None\<close> beyond
  them; \<open>vfs_poll_levels\<close> shows that more levels never change the answer.  The reader of the catalogue has one level
  per character, which \<open>device_config_load_returns\<close> shows to be enough.

  \<^bold>\<open>Not modelled.\<close>  The assembly stubs (\<^verbatim>\<open>arch/x86_64/entry.asm\<close>, \<^verbatim>\<open>user/*.asm\<close>): the dispatchers take the frames
  that the stubs build.  The shell \<^verbatim>\<open>user/bash.c\<close>.  The declarations of the boot loader (\<^verbatim>\<open>include/limine.h\<close>): its
  answers are arguments of the model.  Translation buffers, caches, and the messages that the components write to the
  log, except in \<open>Arch\<close> and \<open>Boot\<close>.  The counters of the readers and writers of a pipe are natural numbers: each
  counts references of one descriptor, and \<^verbatim>\<open>vfs_retain\<close> refuses to take more than 32 bits hold.
\<close>

end
